(* ===== verification/Prelude.thy ===== *)
theory Prelude
  imports Main
begin

text \<open>
  Shared vocabulary of the development: Go error values and the two library functions the program
  applies to them (\<open>Error()\<close> and \<open>errors.As\<close>), Go slices with the distinction between
  \<open>nil\<close> and empty, the context errors, and the named collections of facts the component theories
  add to.
\<close>

section \<open>Named collections\<close>

named_theorems wq_simps \<open>equations of the work queue's operations, field by field\<close>
named_theorems wq_inv_intros \<open>operations that keep the work queue's invariant\<close>
named_theorems err_simps \<open>how the program reads error values\<close>

section \<open>Go slices\<close>

text \<open>A nil slice is \<open>None\<close>. \<open>append\<close> to nil allocates, \<open>range\<close> over nil does nothing.\<close>

type_synonym 'a slice = "'a list option"

definition elems :: "'a slice \<Rightarrow> 'a list" where
  "elems s = (case s of None \<Rightarrow> [] | Some xs \<Rightarrow> xs)"

definition append_slice :: "'a slice \<Rightarrow> 'a \<Rightarrow> 'a slice" where
  "append_slice s x = Some (elems s @ [x])"

lemma elems_simps [simp]: "elems None = []" "elems (Some xs) = xs"
  by (simp_all add: elems_def)

lemma elems_append_slice [simp]: "elems (append_slice s x) = elems s @ [x]"
  by (simp add: append_slice_def)

lemma elems_foldl_append [simp]: "elems (foldl append_slice s xs) = elems s @ xs"
  by (induction xs arbitrary: s) auto

lemma foldl_append_slice_None:
  "foldl append_slice None xs = (if xs = [] then None else Some xs)"
proof (induction xs rule: rev_induct)
  case Nil
  then show ?case by simp
next
  case (snoc x xs)
  have "foldl append_slice None (xs @ [x]) = Some (elems (foldl append_slice None xs) @ [x])"
    by (simp add: append_slice_def)
  then show ?case by simp
qed

section \<open>Errors\<close>

text \<open>
  \<open>metav1.Status\<close> as the program reads and writes it (its \<open>TypeMeta\<close> and \<open>ListMeta\<close> are never
  set). An error value is a plain error, a \<open>*StatusError\<close>, or an error with a message of its own
  that wraps others (\<open>Unwrap() error\<close> or \<open>Unwrap() []error\<close>).
\<close>

record status_details =
  det_Group :: string
  det_Kind :: string
  det_Name :: string

record status =
  st_Status :: string
  st_Message :: string
  st_Reason :: string
  st_Details :: "status_details option"
  st_Code :: int

datatype go_error =
    Plain string
  | StatusErr status
  | Wrapped string "go_error list"

text \<open>The \<open>Error()\<close> method; a status error prints its status message.\<close>

fun error_text :: "go_error \<Rightarrow> string" where
  "error_text (Plain s) = s"
| "error_text (StatusErr st) = st_Message st"
| "error_text (Wrapped s es) = s"

text \<open>\<open>errors.As(err, &statusErr)\<close>: the first status error of the tree, depth first.\<close>

fun errors_As :: "go_error \<Rightarrow> status option"
  and errors_As_any :: "go_error list \<Rightarrow> status option" where
  "errors_As (Plain s) = None"
| "errors_As (StatusErr st) = Some st"
| "errors_As (Wrapped s es) = errors_As_any es"
| "errors_As_any [] = None"
| "errors_As_any (e # es) =
     (case errors_As e of Some st \<Rightarrow> Some st | None \<Rightarrow> errors_As_any es)"

declare error_text.simps [err_simps] errors_As.simps [err_simps] errors_As_any.simps [err_simps]

text \<open>The reasons of \<open>metav1\<close> the program uses.\<close>

definition StatusReasonUnknown :: string where "StatusReasonUnknown = ''''"
definition StatusReasonForbidden :: string where "StatusReasonForbidden = ''Forbidden''"
definition StatusReasonNotFound :: string where "StatusReasonNotFound = ''NotFound''"

lemmas reason_defs = StatusReasonUnknown_def StatusReasonForbidden_def StatusReasonNotFound_def

section \<open>Contexts\<close>

text \<open>What \<open>ctx.Err()\<close> returns once a context is done.\<close>

datatype ctx_error = Canceled | DeadlineExceeded

section \<open>Generic lemmas\<close>

lemma Some_case_None_eq [simp]:
  "((case x of None \<Rightarrow> None | Some y \<Rightarrow> Some (f y)) = None) = (x = None)"
  by (cases x) auto

lemma map_of_filter_neq: "map_of (filter (\<lambda>p. fst p \<noteq> k) xs) = (map_of xs)(k := None)"
  by (induction xs) (auto simp: fun_eq_iff)

lemma dom_restrict_compl: "m |` (- {k. P k}) = (\<lambda>k. if P k then None else m k)"
  by (auto simp: restrict_map_def)

section \<open>Transition systems\<close>

text \<open>
  The concurrent parts of the program are step relations. Their reachable states, and the
  contracts the components discharge: an invariant, possibly relative to another one, and a measure
  that every step uses up, until only final states are stuck.
\<close>

inductive reach :: "('s \<Rightarrow> bool) \<Rightarrow> ('s \<Rightarrow> 's \<Rightarrow> bool) \<Rightarrow> 's \<Rightarrow> bool"
  for start :: "'s \<Rightarrow> bool" and step :: "'s \<Rightarrow> 's \<Rightarrow> bool" where
  reach_start: "start s \<Longrightarrow> reach start step s"
| reach_step: "reach start step s \<Longrightarrow> step s t \<Longrightarrow> reach start step t"

locale invariant_system =
  fixes start :: "'s \<Rightarrow> bool" and step :: "'s \<Rightarrow> 's \<Rightarrow> bool" and inv :: "'s \<Rightarrow> bool"
  assumes inv_start: "start s \<Longrightarrow> inv s"
    and inv_step: "step s t \<Longrightarrow> inv s \<Longrightarrow> inv t"
begin

lemma reach_inv: "reach start step s \<Longrightarrow> inv s"
  by (induction rule: reach.induct) (auto intro: inv_start inv_step)

lemma steps_inv: "(step ^^ k) s t \<Longrightarrow> inv s \<Longrightarrow> inv t"
  by (induction k arbitrary: t) (auto intro: inv_step)

end

locale relative_invariant = invariant_system start step base
  for start :: "'s \<Rightarrow> bool" and step :: "'s \<Rightarrow> 's \<Rightarrow> bool" and base :: "'s \<Rightarrow> bool" +
  fixes extra :: "'s \<Rightarrow> bool"
  assumes extra_start: "start s \<Longrightarrow> extra s"
    and extra_step: "step s t \<Longrightarrow> base s \<Longrightarrow> extra s \<Longrightarrow> extra t"

sublocale relative_invariant \<subseteq> both: invariant_system start step "\<lambda>s. base s \<and> extra s"
  by unfold_locales (auto intro: inv_start inv_step extra_start extra_step)

context relative_invariant
begin

lemma reach_extra: "reach start step s \<Longrightarrow> extra s"
  using both.reach_inv by blast

end

locale measured_system = invariant_system start step inv
  for start :: "'s \<Rightarrow> bool" and step :: "'s \<Rightarrow> 's \<Rightarrow> bool" and inv :: "'s \<Rightarrow> bool" +
  fixes left :: "'s \<Rightarrow> nat"
  assumes step_uses: "inv s \<Longrightarrow> step s t \<Longrightarrow> left t < left s"
begin

lemma steps_bounded: "(step ^^ k) s t \<Longrightarrow> inv s \<Longrightarrow> k + left t \<le> left s"
proof (induction k arbitrary: t)
  case (Suc k)
  then obtain u where u: "(step ^^ k) s u" "step u t" by auto
  with Suc.IH [of u] step_uses [OF steps_inv [OF u(1) Suc.prems(2)] u(2)] Suc.prems(2) show ?case by simp
qed simp

end

locale winding_system = measured_system start step inv left
  for start :: "'s \<Rightarrow> bool" and step :: "'s \<Rightarrow> 's \<Rightarrow> bool" and inv :: "'s \<Rightarrow> bool" and left :: "'s \<Rightarrow> nat" +
  fixes final :: "'s \<Rightarrow> bool"
  assumes not_stuck: "inv s \<Longrightarrow> \<nexists>t. step s t \<Longrightarrow> final s"
begin

lemma winds_down:
  assumes "reach start step s" and "(step ^^ k) s t"
  shows "k \<le> left s" and "\<nexists>u. step t u \<Longrightarrow> final t"
  using steps_bounded [OF assms(2) reach_inv [OF assms(1)]] not_stuck steps_inv [OF assms(2) reach_inv [OF assms(1)]]
  by auto

end

text \<open>
  A program in an environment: some of the steps are the program's own, the others may happen or not. Once
  something has happened that tells the program to stop, it only rests where it is done.
\<close>

locale settling_system = measured_system start step inv left
  for start :: "'s \<Rightarrow> bool" and step :: "'s \<Rightarrow> 's \<Rightarrow> bool" and inv :: "'s \<Rightarrow> bool" and left :: "'s \<Rightarrow> nat" +
  fixes own :: "'s \<Rightarrow> 's \<Rightarrow> bool" and told :: "'s \<Rightarrow> bool" and final :: "'s \<Rightarrow> bool"
  assumes told_stays: "step s t \<Longrightarrow> told s \<Longrightarrow> told t"
    and rests_when_done: "inv s \<Longrightarrow> told s \<Longrightarrow> \<nexists>t. own s t \<Longrightarrow> final s"
begin

lemma steps_told: "(step ^^ k) s t \<Longrightarrow> told s \<Longrightarrow> told t"
  by (induction k arbitrary: t) (auto intro: told_stays)

lemma settles:
  assumes "reach start step s" and "told s" and "(step ^^ k) s t"
  shows "k \<le> left s" and "(\<exists>u. own t u) \<or> final t"
  using steps_bounded [OF assms(3) reach_inv [OF assms(1)]] rests_when_done [OF steps_inv [OF assms(3) reach_inv [OF assms(1)]]]
    steps_told [OF assms(3,2)] by auto

end

end
