(* ===== verification/Admission.thy ===== *)
theory Admission
  imports Go_Strings
begin

text \<open>
  The vocabulary the admission components share: group/version/kind triples, the attributes of an
  admission request, the validation interface every validator implements, and the constructors of
  the Kubernetes status errors the program returns. The declarations are those of the vendored
  \<open>k8s.io/apiserver/pkg/admission\<close> and \<open>k8s.io/apimachinery\<close> packages.
\<close>

section \<open>Group, version, kind, resource\<close>

record gvk =
  gvk_Group :: string
  gvk_Version :: string
  gvk_Kind :: string

record gvr =
  gvr_Group :: string
  gvr_Version :: string
  gvr_Resource :: string

record group_kind =
  gk_Group :: string
  gk_Kind :: string

record group_resource =
  gr_Group :: string
  gr_Resource :: string

definition GroupKind :: "gvk \<Rightarrow> group_kind" where
  "GroupKind k = \<lparr>gk_Group = gvk_Group k, gk_Kind = gvk_Kind k\<rparr>"

definition GroupResource :: "gvr \<Rightarrow> group_resource" where
  "GroupResource r = \<lparr>gr_Group = gvr_Group r, gr_Resource = gvr_Resource r\<rparr>"

definition gvk_String :: "gvk \<Rightarrow> string" where
  "gvk_String k = gvk_Group k @ ''/'' @ gvk_Version k @ '', Kind='' @ gvk_Kind k"

definition gr_String :: "group_resource \<Rightarrow> string" where
  "gr_String g =
     (if gr_Group g = [] then gr_Resource g else gr_Resource g @ ''.'' @ gr_Group g)"

section \<open>Attributes of a request\<close>

text \<open>\<open>admission.Operation\<close> is a string type: a request may carry a value outside the constants.\<close>

type_synonym operation = string

record user_info =
  ui_Name :: string
  ui_UID :: string
  ui_Groups :: "string slice"
  ui_Extra :: "(string \<rightharpoonup> string slice) option"

text \<open>\<open>attributesRecord\<close>; \<open>'obj\<close> is the type of runtime objects, \<open>None\<close> the nil object.\<close>

record 'obj attributes =
  at_kind :: gvk
  at_namespace :: string
  at_name :: string
  at_resource :: gvr
  at_subresource :: string
  at_operation :: operation
  at_options :: "'obj option"
  at_dryRun :: bool
  at_object :: "'obj option"
  at_oldObject :: "'obj option"
  at_userInfo :: user_info

definition NewAttributesRecord ::
  "'obj option \<Rightarrow> 'obj option \<Rightarrow> gvk \<Rightarrow> string \<Rightarrow> string \<Rightarrow> gvr \<Rightarrow> string \<Rightarrow> operation
   \<Rightarrow> 'obj option \<Rightarrow> bool \<Rightarrow> user_info \<Rightarrow> 'obj attributes" where
  "NewAttributesRecord object oldObject kind namespace name resource subresource operation
     operationOptions dryRun userInfo =
     \<lparr>at_kind = kind, at_namespace = namespace, at_name = name, at_resource = resource,
      at_subresource = subresource, at_operation = operation, at_options = operationOptions,
      at_dryRun = dryRun, at_object = object, at_oldObject = oldObject, at_userInfo = userInfo\<rparr>"

section \<open>The validation interface\<close>

text \<open>
  \<open>admission.ValidationInterface\<close>. \<open>Validate\<close> returns the error (\<open>None\<close> is nil) and may change
  what the validator sees and keeps, the world \<open>'w\<close>. The context and the object interfaces that
  every call passes on unchanged are part of that world.
\<close>

record ('obj, 'w) validator =
  Handles :: "operation \<Rightarrow> bool"
  Validate :: "'obj attributes \<Rightarrow> 'w \<Rightarrow> go_error option \<times> 'w"

section \<open>Status errors\<close>

text \<open>
  The table \<open>knownReasons\<close> of the vendored errors package.
\<close>

definition knownReasons :: "string list" where
  "knownReasons =
     [''Unauthorized'', ''Forbidden'', ''NotFound'', ''AlreadyExists'', ''Conflict'', ''Gone'',
      ''Invalid'', ''ServerTimeout'', ''Timeout'', ''TooManyRequests'', ''BadRequest'',
      ''MethodNotAllowed'', ''NotAcceptable'', ''RequestEntityTooLarge'',
      ''UnsupportedMediaType'', ''InternalError'', ''Expired'', ''ServiceUnavailable'']"

definition reasonAndCodeForError :: "go_error \<Rightarrow> string \<times> int" where
  "reasonAndCodeForError e =
     (case errors_As e of
        Some st \<Rightarrow> (st_Reason st, st_Code st)
      | None \<Rightarrow> (StatusReasonUnknown, 0))"

definition IsForbidden :: "go_error \<Rightarrow> bool" where
  "IsForbidden e =
     (let (reason, code) = reasonAndCodeForError e
      in reason = StatusReasonForbidden \<or> (reason \<notin> set knownReasons \<and> code = 403))"

definition IsNotFound :: "go_error \<Rightarrow> bool" where
  "IsNotFound e =
     (let (reason, code) = reasonAndCodeForError e
      in reason = StatusReasonNotFound \<or> (reason \<notin> set knownReasons \<and> code = 404))"

definition NewNotFound :: "group_resource \<Rightarrow> string \<Rightarrow> go_error" where
  "NewNotFound gr name =
     StatusErr
       \<lparr>st_Status = ''Failure'',
        st_Message = gr_String gr @ '' '' @ quote name @ '' not found'',
        st_Reason = StatusReasonNotFound,
        st_Details = Some \<lparr>det_Group = gr_Group gr, det_Kind = gr_Resource gr, det_Name = name\<rparr>,
        st_Code = 404\<rparr>"

text \<open>\<open>apierrors.NewForbidden\<close>.\<close>

definition apierrors_NewForbidden :: "group_resource \<Rightarrow> string \<Rightarrow> go_error \<Rightarrow> go_error" where
  "apierrors_NewForbidden gr name e =
     StatusErr
       \<lparr>st_Status = ''Failure'',
        st_Message =
          (if gr_Group gr = [] \<and> gr_Resource gr = [] then ''forbidden: '' @ error_text e
           else if name = [] then gr_String gr @ '' is forbidden: '' @ error_text e
           else gr_String gr @ '' '' @ quote name @ '' is forbidden: '' @ error_text e),
        st_Reason = StatusReasonForbidden,
        st_Details = Some \<lparr>det_Group = gr_Group gr, det_Kind = gr_Resource gr, det_Name = name\<rparr>,
        st_Code = 403\<rparr>"

text \<open>
  \<open>extractResourceName\<close>. The parameter \<open>accessor\<close> is \<open>meta.Accessor\<close>: the object's name and
  generate name, or \<open>None\<close> for an object without metadata.
\<close>

definition extractResourceName ::
  "('obj \<Rightarrow> (string \<times> string) option) \<Rightarrow> 'obj attributes \<Rightarrow> string \<times> group_resource" where
  "extractResourceName accessor a =
     (let resource = GroupResource (at_resource a) in
      if at_name a \<noteq> [] then (at_name a, resource)
      else
        (case at_object a of
           None \<Rightarrow> (''Unknown'', resource)
         | Some obj \<Rightarrow>
             (case accessor obj of
                None \<Rightarrow> (''Unknown/errorGettingName'', resource)
              | Some (name, generateName) \<Rightarrow>
                  if name \<noteq> [] then (name, resource)
                  else if generateName \<noteq> [] then (generateName, resource)
                  else (''Unknown'', resource))))"

text \<open>\<open>admission.NewForbidden\<close>; \<open>extractResourceName\<close> never returns an error.\<close>

definition NewForbidden ::
  "('obj \<Rightarrow> (string \<times> string) option) \<Rightarrow> 'obj attributes \<Rightarrow> go_error \<Rightarrow> go_error" where
  "NewForbidden accessor a internalError =
     (if IsForbidden internalError then internalError
      else
        (let (name, resource) = extractResourceName accessor a
         in apierrors_NewForbidden resource name internalError))"

lemma IsNotFound_NewNotFound [simp]: "IsNotFound (NewNotFound gr name)"
  by (simp add: IsNotFound_def NewNotFound_def reasonAndCodeForError_def err_simps)

lemma IsForbidden_apierrors [simp]: "IsForbidden (apierrors_NewForbidden gr name e)"
  by (simp add: IsForbidden_def apierrors_NewForbidden_def reasonAndCodeForError_def err_simps)

lemma IsForbidden_NewForbidden: "IsForbidden (NewForbidden accessor a e)"
  by (simp add: NewForbidden_def split: prod.splits)

lemma IsForbidden_Plain [simp]: "\<not> IsForbidden (Plain s)"
  by (simp add: IsForbidden_def reasonAndCodeForError_def err_simps reason_defs)

end
