(* ===== verification/Multi_Validator.thy ===== *)
theory Multi_Validator
  imports Admission
begin

text \<open>
  The composite validator of \<open>pkg/validator/multi.go\<close>: a list of validators consulted in order,
  each only for the operations it handles, until one returns an error.
\<close>

section \<open>Operations\<close>

record ('obj, 'w) multi =
  validators :: "('obj, 'w) validator list"

definition NewMulti :: "('obj, 'w) validator list \<Rightarrow> ('obj, 'w) multi" where
  "NewMulti vs = \<lparr>validators = vs\<rparr>"

text \<open>The loops of the two methods.\<close>

fun handles_loop :: "('obj, 'w) validator list \<Rightarrow> operation \<Rightarrow> bool" where
  "handles_loop [] op = False"
| "handles_loop (v # vs) op = (if Handles v op then True else handles_loop vs op)"

fun validate_loop ::
  "('obj, 'w) validator list \<Rightarrow> 'obj attributes \<Rightarrow> 'w \<Rightarrow> go_error option \<times> 'w" where
  "validate_loop [] a w = (None, w)"
| "validate_loop (v # vs) a w =
     (if \<not> Handles v (at_operation a) then validate_loop vs a w
      else
        (case Validate v a w of
           (Some err, w') \<Rightarrow> (Some err, w')
         | (None, w') \<Rightarrow> validate_loop vs a w'))"

definition multi_Handles :: "('obj, 'w) multi \<Rightarrow> operation \<Rightarrow> bool" where
  "multi_Handles m op = handles_loop (validators m) op"

definition multi_Validate ::
  "('obj, 'w) multi \<Rightarrow> 'obj attributes \<Rightarrow> 'w \<Rightarrow> go_error option \<times> 'w" where
  "multi_Validate m a w = validate_loop (validators m) a w"

text \<open>A composite validator is itself a validator.\<close>

definition multi_validator :: "('obj, 'w) multi \<Rightarrow> ('obj, 'w) validator" where
  "multi_validator m = \<lparr>Handles = multi_Handles m, Validate = multi_Validate m\<rparr>"

section \<open>What the composite answers\<close>

lemma handles_loop_iff: "handles_loop vs op \<longleftrightarrow> (\<exists>v \<in> set vs. Handles v op)"
  by (induction vs) auto

text \<open>Running the validators that handle the operation, all of them, whatever they answer.\<close>

fun run_all ::
  "('obj, 'w) validator list \<Rightarrow> 'obj attributes \<Rightarrow> 'w \<Rightarrow> go_error option list \<times> 'w" where
  "run_all [] a w = ([], w)"
| "run_all (v # vs) a w =
     (let (r, w') = Validate v a w; (rs, w'') = run_all vs a w' in (r # rs, w''))"

definition handling :: "('obj, 'w) validator list \<Rightarrow> operation \<Rightarrow> ('obj, 'w) validator list" where
  "handling vs op = filter (\<lambda>v. Handles v op) vs"

lemma handling_simps [simp]:
  "handling [] op = []"
  "handling (v # vs) op = (if Handles v op then v # handling vs op else handling vs op)"
  by (simp_all add: handling_def)

lemma validate_loop_accepts:
  "validate_loop vs a w = (None, w') \<longleftrightarrow>
   (\<exists>rs. run_all (handling vs (at_operation a)) a w = (rs, w') \<and> set rs \<subseteq> {None})"
proof (induction vs arbitrary: w)
  case Nil
  then show ?case by auto
next
  case (Cons v vs)
  then show ?case
    by (cases "Validate v a w"; cases "fst (Validate v a w)")
       (auto split: prod.splits option.splits)
qed

lemma validate_loop_handling:
  "validate_loop vs a w = validate_loop (handling vs (at_operation a)) a w"
  by (induction vs arbitrary: w) (auto split: prod.splits option.splits)

lemma validate_loop_append:
  "validate_loop (xs @ ys) a w =
     (case validate_loop xs a w of
        (Some err, w') \<Rightarrow> (Some err, w') | (None, w') \<Rightarrow> validate_loop ys a w')"
  by (induction xs arbitrary: w) (auto split: prod.splits option.splits)

lemma validate_loop_stops:
  assumes "validate_loop vs a w = (Some err, w')"
  shows "\<exists>pre v post w1. vs = pre @ v # post \<and> Handles v (at_operation a) \<and>
           validate_loop pre a w = (None, w1) \<and> Validate v a w1 = (Some err, w')"
  using assms
proof (induction vs arbitrary: w)
  case Nil
  then show ?case by simp
next
  case (Cons v vs)
  obtain r w0 where run: "Validate v a w = (r, w0)" by force
  show ?case
  proof (cases "Handles v (at_operation a) \<and> r \<noteq> None")
    case True
    with Cons.prems run show ?thesis by (intro exI [of _ "[]"]) auto
  next
    case False
    let ?w = "if Handles v (at_operation a) then w0 else w"
    from False Cons.prems run have "validate_loop vs a ?w = (Some err, w')"
      by (auto split: if_splits)
    from Cons.IH [OF this] obtain pre u post w1 where
      "vs = pre @ u # post" "Handles u (at_operation a)" "validate_loop pre a ?w = (None, w1)"
      "Validate u a w1 = (Some err, w')"
      by blast
    with False run show ?thesis by (intro exI [of _ "v # pre"]) (auto split: if_splits)
  qed
qed

section \<open>Properties\<close>

text \<open>
  The composite validator accepts exactly when every validator that handles the operation,
  run in list order with the state threaded through, accepts; the state it leaves is the state
  after all of them.
\<close>

theorem multi_accepts_iff_all_accept:
  "multi_Validate m a w = (None, w') \<longleftrightarrow>
   (\<exists>rs. run_all (handling (validators m) (at_operation a)) a w = (rs, w') \<and> set rs \<subseteq> {None})"
  by (simp add: multi_Validate_def validate_loop_accepts)

text \<open>
  (C16) It rejects exactly with the error of the first validator, in list order, that handles the
  operation and rejects: those before it accept or are skipped, and no validator after it runs
  (the state is the one the rejecting validator left).
\<close>

theorem multi_rejects_iff_first_rejects:
  "multi_Validate m a w = (Some err, w') \<longleftrightarrow>
   (\<exists>pre v post w1. validators m = pre @ v # post \<and> Handles v (at_operation a) \<and>
      multi_Validate (NewMulti pre) a w = (None, w1) \<and> Validate v a w1 = (Some err, w'))"
  (is "?L \<longleftrightarrow> ?R")
proof
  show "?L \<Longrightarrow> ?R"
    using validate_loop_stops [of "validators m" a w err w']
    by (simp add: multi_Validate_def NewMulti_def)
  show "?R \<Longrightarrow> ?L"
    by (auto simp: multi_Validate_def NewMulti_def validate_loop_append)
qed

text \<open>
  \<open>Handles\<close> of the composite is sound for callers that skip \<open>Validate\<close> on it: where it answers
  false, \<open>Validate\<close> would accept and touch nothing.
\<close>

theorem multi_unhandled_is_noop:
  assumes "\<not> multi_Handles m (at_operation a)"
  shows "multi_Validate m a w = (None, w)"
proof -
  from assms have "handling (validators m) (at_operation a) = []"
    by (auto simp: multi_Handles_def handles_loop_iff handling_def)
  then show ?thesis
    by (simp add: multi_Validate_def validate_loop_handling [of "validators m"])
qed

definition ex_attrs :: "nat attributes" where
  "ex_attrs = NewAttributesRecord (Some 1) None
     \<lparr>gvk_Group = '''', gvk_Version = ''v1'', gvk_Kind = ''Pod''\<rparr> ''ns'' ''p''
     \<lparr>gvr_Group = '''', gvr_Version = ''v1'', gvr_Resource = ''pods''\<rparr> '''' ''CREATE'' None False
     \<lparr>ui_Name = ''u'', ui_UID = '''', ui_Groups = None, ui_Extra = None\<rparr>"

definition ex_multi :: "(nat, nat) multi" where
  "ex_multi = NewMulti
     [\<lparr>Handles = (\<lambda>op. op = ''DELETE''), Validate = (\<lambda>a w. (Some (Plain ''no''), Suc w))\<rparr>]"

theorem multi_unhandled_is_noop_witness:
  "\<not> multi_Handles ex_multi (at_operation ex_attrs) \<and>
   multi_Validate ex_multi ex_attrs 7 = (None, 7)"
proof -
  have "\<not> multi_Handles ex_multi (at_operation ex_attrs)"
    by (simp add: ex_multi_def ex_attrs_def multi_Handles_def NewMulti_def NewAttributesRecord_def)
  then show ?thesis by (simp add: multi_unhandled_is_noop)
qed

end
