(* ===== verification/Webhook.thy ===== *)
theory Webhook
  imports Multi_Validator
begin

text \<open>
  The admission webhook of \<open>pkg/webhook/server.go\<close>: the HTTP handler that turns an
  AdmissionReview request into a verdict of the validator (\<open>parseRequest\<close>,
  \<open>handleWebhookValidate\<close>, \<open>reviewResponse\<close>), and \<open>Run\<close>, which serves it until its context is
  cancelled or the server fails.

  Code outside the program is a parameter: the JSON codec at the type AdmissionReview, the
  decoder of the scheme (\<open>runtime.Decoder\<close>), \<open>json.Unmarshal\<close> into an unstructured object and
  \<open>runtime.IsNotRegisteredError\<close> are fields of the records \<open>codecs\<close> and \<open>webhook\<close>.
\<close>

section \<open>Data\<close>

subsection \<open>The AdmissionReview API\<close>

text \<open>\<open>authenticationv1.UserInfo\<close>.\<close>

record auth_user_info =
  aui_Username :: string
  aui_UID :: string
  aui_Groups :: "string slice"
  aui_Extra :: "(string \<rightharpoonup> string slice) option"

text \<open>\<open>admissionv1.AdmissionRequest\<close>; a raw extension is its bytes.\<close>

record admission_request =
  rq_UID :: string
  rq_Kind :: gvk
  rq_Resource :: gvr
  rq_SubResource :: string
  rq_RequestKind :: "gvk option"
  rq_RequestResource :: "gvr option"
  rq_RequestSubResource :: string
  rq_Name :: string
  rq_Namespace :: string
  rq_Operation :: operation
  rq_UserInfo :: auth_user_info
  rq_Object :: string
  rq_OldObject :: string
  rq_DryRun :: "bool option"
  rq_Options :: string

record admission_response =
  rs_UID :: string
  rs_Allowed :: bool
  rs_Result :: "status option"
  rs_Patch :: "string slice"
  rs_PatchType :: "string option"
  rs_AuditAnnotations :: "(string \<rightharpoonup> string) option"
  rs_Warnings :: "string slice"

record admission_review =
  rv_Kind :: string
  rv_APIVersion :: string
  rv_Request :: "admission_request option"
  rv_Response :: "admission_response option"

subsection \<open>HTTP\<close>

text \<open>\<open>hr_Body\<close> is what \<open>ReadFrom\<close> got from the body; its error is ignored by the code.\<close>

record http_request =
  hr_Header :: "string \<rightharpoonup> string"
  hr_Body :: string

record http_response =
  hw_Status :: int
  hw_Header :: "string \<rightharpoonup> string"
  hw_Body :: string

definition Header_Get :: "http_request \<Rightarrow> string \<Rightarrow> string" where
  "Header_Get r k = (case hr_Header r k of None \<Rightarrow> [] | Some v \<Rightarrow> v)"

text \<open>\<open>http.Error\<close>.\<close>

definition http_Error :: "string \<Rightarrow> int \<Rightarrow> http_response" where
  "http_Error msg code =
     \<lparr>hw_Status = code,
      hw_Header = [''Content-Type'' \<mapsto> ''text/plain; charset=utf-8'',
                   ''X-Content-Type-Options'' \<mapsto> ''nosniff''],
      hw_Body = msg @ [CHR 0x0A]\<rparr>"

subsection \<open>The webhook\<close>

record 'obj codecs =
  unmarshal_review :: "string \<Rightarrow> go_error + admission_review"
  marshal_review :: "admission_review \<Rightarrow> go_error + string"
  unmarshal_unstructured :: "string \<Rightarrow> go_error + 'obj"
  IsNotRegisteredError :: "go_error \<Rightarrow> bool"

text \<open>The decoder returns an object, the kind it read and an error, any of which may be nil.\<close>

record ('obj, 'w) webhook =
  wh_validator :: "('obj, 'w) validator"
  wh_decoder :: "string \<Rightarrow> 'obj option \<times> gvk option \<times> go_error option"
  wh_addr :: string
  wh_certFile :: string
  wh_keyFile :: string

definition webhook_New ::
  "string \<Rightarrow> string \<Rightarrow> string \<Rightarrow> (string \<Rightarrow> 'obj option \<times> gvk option \<times> go_error option)
   \<Rightarrow> ('obj, 'w) validator \<Rightarrow> ('obj, 'w) webhook" where
  "webhook_New addr certFile keyFile decoder validator =
     \<lparr>wh_validator = validator, wh_decoder = decoder, wh_addr = addr,
      wh_certFile = certFile, wh_keyFile = keyFile\<rparr>"

section \<open>Reading the request\<close>

definition parseRequest :: "'obj codecs \<Rightarrow> http_request \<Rightarrow> go_error + admission_review" where
  "parseRequest env r =
     (if Header_Get r ''Content-Type'' \<noteq> ''application/json''
      then Inl (Plain (''Content-Type: '' @ quote (Header_Get r ''Content-Type'') @
                       '' should be '' @ quote ''application/json''))
      else if hr_Body r = [] then Inl (Plain ''admission request body is empty'')
      else
        (case unmarshal_review env (hr_Body r) of
           Inl err \<Rightarrow>
             Inl (Plain (''could not parse admission review request: '' @ error_text err))
         | Inr a \<Rightarrow>
             if rv_Request a = None
             then Inl (Plain
                    (''admission review can'' @ [CHR 0x27] @
                     ''t be used: Request field is nil''))
             else Inr a))"

text \<open>
  The two switches that decode \<open>OldObject\<close> and \<open>Object\<close> are the same code: no bytes give the nil
  object; then the kind is compared first; then an unregistered type is read as unstructured.
  An error carries the status code the handler answers with.
\<close>

definition gvk_ptr_text :: "gvk option \<Rightarrow> string" where
  "gvk_ptr_text k = (case k of None \<Rightarrow> ''<nil>'' | Some g \<Rightarrow> gvk_String g)"

definition decode_raw ::
  "'obj codecs \<Rightarrow> ('obj, 'w) webhook \<Rightarrow> gvk \<Rightarrow> string \<Rightarrow> (go_error \<times> int) + 'obj option" where
  "decode_raw env wh kind raw =
     (if raw = [] then Inr None
      else
        (case wh_decoder wh raw of (obj, gvk, err) \<Rightarrow>
           if gvk \<noteq> Some kind
           then Inl (Plain (''unexpected GVK '' @ gvk_ptr_text gvk @ ''. Expected '' @
                            gvk_String kind), 400)
           else
             (case err of
                Some e \<Rightarrow>
                  if IsNotRegisteredError env e
                  then (case unmarshal_unstructured env raw of
                          Inl e' \<Rightarrow> Inl (e', 500)
                        | Inr u \<Rightarrow> Inr (Some u))
                  else Inl (e, 400)
              | None \<Rightarrow> Inr obj)))"

definition convertExtra ::
  "(string \<rightharpoonup> string slice) option \<Rightarrow> (string \<rightharpoonup> string slice) option" where
  "convertExtra input =
     (case input of
        None \<Rightarrow> None
      | Some m \<Rightarrow> Some (\<lambda>k. map_option (\<lambda>v. foldl append_slice None (elems v)) (m k)))"

text \<open>The attributes handed to the validator: no options, and \<open>dryRun\<close> always false.\<close>

definition request_attributes ::
  "admission_request \<Rightarrow> 'obj option \<Rightarrow> 'obj option \<Rightarrow> 'obj attributes" where
  "request_attributes rq object oldObject =
     NewAttributesRecord object oldObject (rq_Kind rq) (rq_Namespace rq) (rq_Name rq)
       \<lparr>gvr_Group = gvr_Group (rq_Resource rq), gvr_Version = gvr_Version (rq_Resource rq),
        gvr_Resource = gvr_Resource (rq_Resource rq)\<rparr>
       (rq_SubResource rq) (rq_Operation rq) None False
       \<lparr>ui_Name = aui_Username (rq_UserInfo rq), ui_UID = aui_UID (rq_UserInfo rq),
        ui_Groups = aui_Groups (rq_UserInfo rq),
        ui_Extra = convertExtra (aui_Extra (rq_UserInfo rq))\<rparr>"

section \<open>Answering\<close>

definition reviewResponse :: "string \<Rightarrow> go_error option \<Rightarrow> admission_review" where
  "reviewResponse uid err =
     (let allowed = (err = None);
          status0 = (if err \<noteq> None then 403 else 202);
          reason0 = StatusReasonUnknown;
          message0 = (case err of None \<Rightarrow> ''valid'' | Some e \<Rightarrow> error_text e);
          (reason, message, status) =
            (case Option.bind err errors_As of
               Some st \<Rightarrow> (st_Reason st, st_Message st, st_Code st)
             | None \<Rightarrow> (reason0, message0, status0))
      in \<lparr>rv_Kind = ''AdmissionReview'', rv_APIVersion = ''admission.k8s.io/v1'',
          rv_Request = None,
          rv_Response = Some
            \<lparr>rs_UID = uid, rs_Allowed = allowed,
             rs_Result = Some \<lparr>st_Status = [], st_Message = message, st_Reason = reason,
                               st_Details = None, st_Code = status\<rparr>,
             rs_Patch = None, rs_PatchType = None, rs_AuditAnnotations = None,
             rs_Warnings = None\<rparr>\<rparr>)"

text \<open>
  The decision part of \<open>handleWebhookValidate\<close>, up to the call of \<open>reviewResponse\<close>: the old object
  is decoded before the object, and an operation the validator does not handle skips both.
\<close>

definition review_verdict ::
  "'obj codecs \<Rightarrow> ('obj, 'w) webhook \<Rightarrow> admission_request \<Rightarrow> 'w
   \<Rightarrow> ((go_error \<times> int) + go_error option) \<times> 'w" where
  "review_verdict env wh rq w =
     (if Handles (wh_validator wh) (rq_Operation rq)
      then
        (case decode_raw env wh (rq_Kind rq) (rq_OldObject rq) of
           Inl f \<Rightarrow> (Inl f, w)
         | Inr oldObject \<Rightarrow>
             (case decode_raw env wh (rq_Kind rq) (rq_Object rq) of
                Inl f \<Rightarrow> (Inl f, w)
              | Inr object \<Rightarrow>
                  (case Validate (wh_validator wh) (request_attributes rq object oldObject) w of
                     (err, w') \<Rightarrow> (Inr err, w'))))
      else (Inr None, w))"

text \<open>
  The whole handler. \<open>None\<close> is a panic: the dereference of \<open>parsed.Request\<close> when it is nil.
\<close>

definition handleWebhookValidate ::
  "'obj codecs \<Rightarrow> ('obj, 'w) webhook \<Rightarrow> http_request \<Rightarrow> 'w \<Rightarrow> http_response option \<times> 'w" where
  "handleWebhookValidate env wh req w =
     (case parseRequest env req of
        Inl err \<Rightarrow> (Some (http_Error (error_text err) 400), w)
      | Inr parsed \<Rightarrow>
          (case rv_Request parsed of
             None \<Rightarrow> (None, w)
           | Some rq \<Rightarrow>
               (case review_verdict env wh rq w of
                  (Inl (err, code), w') \<Rightarrow> (Some (http_Error (error_text err) code), w')
                | (Inr err, w') \<Rightarrow>
                    (case marshal_review env (reviewResponse (rq_UID rq) err) of
                       Inl e \<Rightarrow> (Some (http_Error (error_text e) 500), w')
                     | Inr out \<Rightarrow>
                         (Some \<lparr>hw_Status = 200,
                                hw_Header = [''Content-Type'' \<mapsto> ''application/json''],
                                hw_Body = out\<rparr>, w')))))"

definition handleHealth :: "http_request \<Rightarrow> http_response" where
  "handleHealth req = \<lparr>hw_Status = 200, hw_Header = Map.empty, hw_Body = ''OK''\<rparr>"

section \<open>Serving: Run\<close>

text \<open>
  \<open>Run\<close> forks the caller's context, starts a goroutine that listens and serves, and waits for the
  fork to be done. The state holds the error of the two contexts, the variable \<open>serverError\<close>
  the goroutine assigns, and where the goroutine and \<open>Run\<close> itself are. A step is one atomic action, in any
  order. Two kinds come from outside and may never happen: the caller's context ends, and the listener fails by
  itself (the port is taken, a certificate cannot be read); a server may as well serve for ever. The others are the program's
  own: \<open>ListenAndServeTLS\<close> returns once the server is closed, the goroutine cancels the fork, \<open>Run\<close> goes on.
\<close>

datatype run_error = CtxErr ctx_error | ServerErr go_error | NilErr

datatype listener_pc = Listening | Listened | ListenerDone

datatype run_pc = Waiting | Closing | Returning | Returned run_error

record run_state =
  ctx_err :: "ctx_error option"
  fork_err :: "ctx_error option"
  serverError :: "go_error option"
  srv_closed :: bool
  listener :: listener_pc
  run_at :: run_pc

definition run_start :: run_state where
  "run_start = \<lparr>ctx_err = None, fork_err = None, serverError = None, srv_closed = False,
                listener = Listening, run_at = Waiting\<rparr>"

text \<open>A context keeps its first error.\<close>

definition cancel_with :: "ctx_error \<Rightarrow> ctx_error option \<Rightarrow> ctx_error option" where
  "cancel_with e c = (case c of None \<Rightarrow> Some e | Some e' \<Rightarrow> Some e')"

text \<open>The error \<open>Run\<close> returns: \<open>fork.Err()\<close>, and \<open>serverError\<close> only where that is nil.\<close>

definition run_result :: "run_state \<Rightarrow> run_error" where
  "run_result s =
     (case fork_err s of
        Some e \<Rightarrow> CtxErr e
      | None \<Rightarrow> (case serverError s of Some e \<Rightarrow> ServerErr e | None \<Rightarrow> NilErr))"

inductive run_outside :: "run_state \<Rightarrow> run_state \<Rightarrow> bool" where
  ctx_ends: "ctx_err s = None \<Longrightarrow>
    run_outside s (s\<lparr>ctx_err := Some e, fork_err := cancel_with e (fork_err s)\<rparr>)"
| listen_fails: "listener s = Listening \<Longrightarrow>
    run_outside s (s\<lparr>serverError := Some e, listener := Listened\<rparr>)"

definition ErrServerClosed :: go_error where
  "ErrServerClosed = Plain ''http: Server closed''"

inductive run_own :: "run_state \<Rightarrow> run_state \<Rightarrow> bool" where
  listen_closed: "listener s = Listening \<Longrightarrow> srv_closed s \<Longrightarrow>
    run_own s (s\<lparr>serverError := Some ErrServerClosed, listener := Listened\<rparr>)"
| listener_cancels: "listener s = Listened \<Longrightarrow>
    run_own s (s\<lparr>fork_err := cancel_with Canceled (fork_err s), listener := ListenerDone\<rparr>)"
| fork_done: "run_at s = Waiting \<Longrightarrow> fork_err s \<noteq> None \<Longrightarrow>
    run_own s (s\<lparr>run_at := Closing\<rparr>)"
| close_server: "run_at s = Closing \<Longrightarrow>
    run_own s (s\<lparr>srv_closed := True, run_at := Returning\<rparr>)"
| run_returns: "run_at s = Returning \<Longrightarrow>
    run_own s (s\<lparr>run_at := Returned (run_result s)\<rparr>)"

definition run_step :: "run_state \<Rightarrow> run_state \<Rightarrow> bool" where
  "run_step s t \<longleftrightarrow> run_outside s t \<or> run_own s t"

abbreviation run_reachable :: "run_state \<Rightarrow> bool" where
  "run_reachable \<equiv> reach (\<lambda>s. s = run_start) run_step"

inductive_simps run_own_iff: "run_own s t"
inductive_simps run_outside_iff: "run_outside s t"

lemmas run_step_iff = run_step_def run_own_iff run_outside_iff

lemma run_init: "run_reachable run_start"
  by (simp add: reach_start)

section \<open>The handler's lemmas\<close>

lemma parseRequest_request: "parseRequest env req = Inr a \<Longrightarrow> rv_Request a \<noteq> None"
  by (auto simp: parseRequest_def split: if_splits sum.splits)

lemma decode_raw_error_code:
  "decode_raw env wh kind raw = Inl (e, code) \<Longrightarrow> code \<in> {400, 500}"
  by (auto simp: decode_raw_def split: if_splits prod.splits option.splits sum.splits)

lemma review_verdict_error_code:
  "review_verdict env wh rq w = (Inl (e, code), w') \<Longrightarrow> code \<in> {400, 500} \<and> w' = w"
  by (auto simp: review_verdict_def dest!: decode_raw_error_code
      split: if_splits prod.splits sum.splits)

lemma http_Error_status [simp]: "hw_Status (http_Error msg code) = code"
  by (simp add: http_Error_def)

lemma convertExtra_elems:
  "convertExtra (Some m) = Some m' \<Longrightarrow> map_option elems (m' k) = map_option elems (m k)"
  by (cases "m k") (auto simp: convertExtra_def)

section \<open>The invariant of Run\<close>

text \<open>
  Once \<open>Run\<close> has left the wait the fork has an error, which it keeps; the goroutine cancels the
  fork after it has set \<open>serverError\<close>; what \<open>Run\<close> returned was the fork's error.
\<close>

definition run_inv :: "run_state \<Rightarrow> bool" where
  "run_inv s \<longleftrightarrow>
     (run_at s \<noteq> Waiting \<longrightarrow> fork_err s \<noteq> None) \<and>
     (listener s = ListenerDone \<longrightarrow> fork_err s \<noteq> None) \<and>
     (\<forall>r. run_at s = Returned r \<longrightarrow> (\<exists>e. fork_err s = Some e \<and> r = CtxErr e)) \<and>
     (ctx_err s = None \<longrightarrow> fork_err s \<in> {None, Some Canceled}) \<and>
     (fork_err s = None \<longleftrightarrow> ctx_err s = None \<and> listener s \<noteq> ListenerDone) \<and>
     (srv_closed s \<longleftrightarrow> run_at s \<notin> {Waiting, Closing})"

lemma cancel_with_simps [simp]:
  "cancel_with e None = Some e" "cancel_with e (Some d) = Some d" "cancel_with e c \<noteq> None"
  by (auto simp: cancel_with_def split: option.splits)

lemma run_inv_start: "run_inv run_start"
  by (simp add: run_inv_def run_start_def)

lemma run_inv_outside: "run_outside s t \<Longrightarrow> run_inv s \<Longrightarrow> run_inv t"
  by (induction rule: run_outside.induct) (auto simp: run_inv_def)

lemma run_inv_own: "run_own s t \<Longrightarrow> run_inv s \<Longrightarrow> run_inv t"
  by (induction rule: run_own.induct) (auto simp: run_inv_def run_result_def cancel_with_def split: option.splits)

lemma run_inv_step: "run_step s t \<Longrightarrow> run_inv s \<Longrightarrow> run_inv t"
  by (auto simp: run_step_def intro: run_inv_outside run_inv_own)

text \<open>Every step uses up one of the at most six actions there are, those from outside included.\<close>

fun listener_left :: "listener_pc \<Rightarrow> nat" where
  "listener_left Listening = 2"
| "listener_left Listened = 1"
| "listener_left ListenerDone = 0"

fun run_left :: "run_pc \<Rightarrow> nat" where
  "run_left Waiting = 3"
| "run_left Closing = 2"
| "run_left Returning = 1"
| "run_left (Returned r) = 0"

definition steps_left :: "run_state \<Rightarrow> nat" where
  "steps_left s =
     (if ctx_err s = None then 1 else 0) + listener_left (listener s) + run_left (run_at s)"

lemma run_step_uses: "run_step s t \<Longrightarrow> steps_left t < steps_left s"
  by (auto simp: run_step_iff steps_left_def)

text \<open>\<open>Run\<close> is told to stop when the caller's context has ended or the listener no longer listens.\<close>

definition told_to_stop :: "run_state \<Rightarrow> bool" where
  "told_to_stop s \<longleftrightarrow> ctx_err s \<noteq> None \<or> listener s \<noteq> Listening"

definition run_over :: "run_state \<Rightarrow> bool" where
  "run_over s \<longleftrightarrow> (\<exists>r. run_at s = Returned r) \<and> listener s = ListenerDone"

lemma told_stays: "run_step s t \<Longrightarrow> told_to_stop s \<Longrightarrow> told_to_stop t"
  by (auto simp: run_step_iff told_to_stop_def)

lemma run_rests_when_over:
  assumes "run_inv s" and "told_to_stop s" and "\<nexists>t. run_own s t"
  shows "run_over s"
proof -
  have l: "listener s \<noteq> Listened" and c: "run_at s \<noteq> Closing" and r: "run_at s \<noteq> Returning"
    and w: "run_at s = Waiting \<longrightarrow> fork_err s = None" and o': "\<not> (listener s = Listening \<and> srv_closed s)"
    using assms(3) run_own.intros by blast+
  with assms(1,2) show ?thesis
    by (cases "run_at s"; cases "listener s") (auto simp: run_inv_def told_to_stop_def run_over_def)
qed

interpretation wrun: settling_system "\<lambda>s. s = run_start" run_step run_inv steps_left run_own told_to_stop run_over
  by unfold_locales (auto intro: run_inv_start run_inv_step run_step_uses told_stays run_rests_when_over)

section \<open>Properties\<close>

text \<open>
  (C4) Every admission verdict the webhook sends is the validator's: a reply with status 200 is
  the review of a request that parsed, carries that request's UID, and its error is what the
  validator returned for the attributes of that request (with both objects decoded), or nil when
  the validator does not handle the operation, in which case the validator is not called.
\<close>

theorem webhook_reply_is_validator_verdict:
  assumes "handleWebhookValidate env wh req w = (Some resp, w')" and "hw_Status resp = 200"
  shows "\<exists>parsed rq err. parseRequest env req = Inr parsed \<and> rv_Request parsed = Some rq \<and>
    marshal_review env (reviewResponse (rq_UID rq) err) = Inr (hw_Body resp) \<and>
    (if Handles (wh_validator wh) (rq_Operation rq)
     then \<exists>old new. decode_raw env wh (rq_Kind rq) (rq_OldObject rq) = Inr old \<and>
            decode_raw env wh (rq_Kind rq) (rq_Object rq) = Inr new \<and>
            Validate (wh_validator wh) (request_attributes rq new old) w = (err, w')
     else err = None \<and> w' = w)"
proof -
  from assms obtain parsed rq where p: "parseRequest env req = Inr parsed"
    "rv_Request parsed = Some rq"
    by (auto simp: handleWebhookValidate_def dest: parseRequest_request split: sum.splits
        option.splits)
  with assms obtain err where v: "review_verdict env wh rq w = (Inr err, w')"
    "marshal_review env (reviewResponse (rq_UID rq) err) = Inr (hw_Body resp)"
    by (auto simp: handleWebhookValidate_def dest!: review_verdict_error_code
        split: sum.splits prod.splits)
  from v(1) have "if Handles (wh_validator wh) (rq_Operation rq)
     then \<exists>old new. decode_raw env wh (rq_Kind rq) (rq_OldObject rq) = Inr old \<and>
            decode_raw env wh (rq_Kind rq) (rq_Object rq) = Inr new \<and>
            Validate (wh_validator wh) (request_attributes rq new old) w = (err, w')
     else err = None \<and> w' = w"
    by (auto simp: review_verdict_def split: if_splits sum.splits prod.splits)
  with p v(2) show ?thesis by blast
qed

text \<open>
  The webhook fails closed: when either object of a handled request cannot be decoded as the
  kind the request names, the reply is an HTTP error 400 or 500, never a review, and the validator
  is not called.
\<close>

theorem webhook_undecodable_object_is_http_error:
  assumes "parseRequest env req = Inr parsed" and "rv_Request parsed = Some rq"
    and "Handles (wh_validator wh) (rq_Operation rq)"
    and "Inl f \<in> {decode_raw env wh (rq_Kind rq) (rq_OldObject rq),
                  decode_raw env wh (rq_Kind rq) (rq_Object rq)}"
  shows "\<exists>err code. handleWebhookValidate env wh req w =
           (Some (http_Error (error_text err) code), w) \<and> code \<in> {400, 500}"
proof -
  from assms(4) have "decode_raw env wh (rq_Kind rq) (rq_OldObject rq) = Inl f \<or>
    decode_raw env wh (rq_Kind rq) (rq_Object rq) = Inl f"
    by auto
  with assms(3) obtain err code where "review_verdict env wh rq w = (Inl (err, code), w)"
    by (cases "decode_raw env wh (rq_Kind rq) (rq_OldObject rq)"; cases f)
       (auto simp: review_verdict_def)
  with assms(1,2) show ?thesis
    by (auto simp: handleWebhookValidate_def dest: review_verdict_error_code)
qed

text \<open>
  The handler never panics and always answers: with 400 when the request is not a JSON review
  with a request in it, otherwise with 200, 400 or 500.
\<close>

theorem webhook_always_answers:
  "\<exists>resp. fst (handleWebhookValidate env wh req w) = Some resp \<and>
     hw_Status resp \<in> (case parseRequest env req of Inl e \<Rightarrow> {400} | Inr a \<Rightarrow> {200, 400, 500})"
proof (cases "parseRequest env req")
  case (Inl err)
  then show ?thesis by (simp add: handleWebhookValidate_def)
next
  case (Inr a)
  then obtain rq where rq: "rv_Request a = Some rq" using parseRequest_request by blast
  show ?thesis
  proof (cases "review_verdict env wh rq w")
    case (Pair v w')
    with Inr rq show ?thesis
      by (cases v) (auto simp: handleWebhookValidate_def dest!: review_verdict_error_code
          split: sum.splits)
  qed
qed

text \<open>
  The verdict on the wire: the reply allows the request exactly when there is no error. An
  allowed reply says \<open>valid\<close> with code 202; a denial carries reason, message and code of the first
  status error in the error's tree, or else the error's text with code 403.
\<close>

theorem reviewResponse_verdict:
  "\<exists>r st. rv_Response (reviewResponse uid err) = Some r \<and> rs_UID r = uid \<and>
     (rs_Allowed r \<longleftrightarrow> err = None) \<and> rs_Result r = Some st \<and>
     (st_Reason st, st_Message st, st_Code st) =
       (case err of
          None \<Rightarrow> ('''', ''valid'', 202)
        | Some e \<Rightarrow>
            (case errors_As e of
               None \<Rightarrow> ('''', error_text e, 403)
             | Some s \<Rightarrow> (st_Reason s, st_Message s, st_Code s)))"
  by (cases err)
     (auto simp: reviewResponse_def Let_def StatusReasonUnknown_def split: prod.splits option.splits)

text \<open>
  (C28) \<open>Run\<close> returns the error of a context, always: whatever the server's goroutine reported in
  \<open>serverError\<close>, the returned error is the fork's, and when the caller's context is still alive
  it is \<open>Canceled\<close>. The error of the HTTP listener, which the interface documents as a possible
  result, is never returned.
\<close>

theorem run_never_returns_server_error:
  assumes "run_reachable s" and "run_at s = Returned r"
  shows "\<exists>e. r = CtxErr e \<and> (ctx_err s = None \<longrightarrow> e = Canceled)"
  using wrun.reach_inv [OF assms(1)] assms(2) by (auto simp: run_inv_def)

text \<open>
  (C29) \<open>Run\<close> returns when it is told to. A server that serves, with the caller's context alive, goes on for ever:
  \<open>Run\<close> waits and has no step of its own. From the moment on that the caller's context ends or the listener fails,
  whichever it is and whatever happens from outside meanwhile, every execution has at most as many steps as
  actions are left, and it comes to rest, with no step of the program's own, only where \<open>Run\<close> has returned and its
  goroutine is done.
\<close>

theorem run_terminates:
  assumes "run_reachable s"
  shows "(\<not> told_to_stop s \<longrightarrow> run_at s = Waiting \<and> (\<nexists>t. run_own s t)) \<and>
    (told_to_stop s \<longrightarrow> (\<forall>k t. (run_step ^^ k) s t \<longrightarrow> k \<le> steps_left s \<and> ((\<exists>u. run_own t u) \<or> run_over t)))"
proof (intro conjI impI allI)
  assume "\<not> told_to_stop s"
  then show "run_at s = Waiting" "\<nexists>t. run_own s t"
    using wrun.reach_inv [OF assms] by (auto simp: told_to_stop_def run_inv_def run_own_iff)
next
  fix k t assume "told_to_stop s" "(run_step ^^ k) s t"
  from wrun.settles [OF assms this] show "k \<le> steps_left s" "(\<exists>u. run_own t u) \<or> run_over t" by auto
qed

section \<open>Instances\<close>

definition ex_rq :: admission_request where
  "ex_rq = \<lparr>rq_UID = ''uid-1'',
     rq_Kind = \<lparr>gvk_Group = '''', gvk_Version = ''v1'', gvk_Kind = ''Pod''\<rparr>,
     rq_Resource = \<lparr>gvr_Group = '''', gvr_Version = ''v1'', gvr_Resource = ''pods''\<rparr>,
     rq_SubResource = '''', rq_RequestKind = None, rq_RequestResource = None,
     rq_RequestSubResource = '''', rq_Name = ''p'', rq_Namespace = ''ns'',
     rq_Operation = ''CREATE'',
     rq_UserInfo = \<lparr>aui_Username = ''u'', aui_UID = '''', aui_Groups = None, aui_Extra = None\<rparr>,
     rq_Object = ''pod'', rq_OldObject = '''', rq_DryRun = None, rq_Options = ''''\<rparr>"

definition ex_review :: admission_review where
  "ex_review = \<lparr>rv_Kind = ''AdmissionReview'', rv_APIVersion = ''admission.k8s.io/v1'',
                rv_Request = Some ex_rq, rv_Response = None\<rparr>"

definition ex_codecs :: "string codecs" where
  "ex_codecs = \<lparr>unmarshal_review = (\<lambda>b. Inr ex_review),
     marshal_review =
       (\<lambda>v. Inr (case rv_Response v of
                  None \<Rightarrow> ''?'' | Some r \<Rightarrow> if rs_Allowed r then ''yes'' else ''no'')),
     unmarshal_unstructured = (\<lambda>b. Inr b), IsNotRegisteredError = (\<lambda>e. False)\<rparr>"

definition ex_webhook :: "string \<Rightarrow> (string, nat) webhook" where
  "ex_webhook kind = webhook_New ''0.0.0.0:8443'' ''server.pem'' ''server-key.pem''
     (\<lambda>raw. (Some raw, Some \<lparr>gvk_Group = '''', gvk_Version = ''v1'', gvk_Kind = kind\<rparr>, None))
     \<lparr>Handles = (\<lambda>op. True), Validate = (\<lambda>a w. (None, Suc w))\<rparr>"

definition ex_http :: http_request where
  "ex_http = \<lparr>hr_Header = [''Content-Type'' \<mapsto> ''application/json''], hr_Body = ''{}''\<rparr>"

lemmas ex_webhook_defs = ex_rq_def ex_review_def ex_codecs_def ex_webhook_def ex_http_def
  webhook_New_def parseRequest_def Header_Get_def decode_raw_def review_verdict_def
  handleWebhookValidate_def reviewResponse_def

theorem webhook_reply_is_validator_verdict_witness:
  "handleWebhookValidate ex_codecs (ex_webhook ''Pod'') ex_http 0 =
     (Some \<lparr>hw_Status = 200, hw_Header = [''Content-Type'' \<mapsto> ''application/json''],
            hw_Body = ''yes''\<rparr>, 1) \<and>
   (\<exists>err. marshal_review ex_codecs (reviewResponse ''uid-1'' err) = Inr ''yes'')"
proof -
  have run: "handleWebhookValidate ex_codecs (ex_webhook ''Pod'') ex_http 0 =
     (Some \<lparr>hw_Status = 200, hw_Header = [''Content-Type'' \<mapsto> ''application/json''],
            hw_Body = ''yes''\<rparr>, 1)"
    by (simp add: ex_webhook_defs)
  from webhook_reply_is_validator_verdict [OF run] obtain parsed rq err where
    "parseRequest ex_codecs ex_http = Inr parsed" "rv_Request parsed = Some rq"
    "marshal_review ex_codecs (reviewResponse (rq_UID rq) err) = Inr ''yes''"
    by auto
  moreover from this have "rq_UID rq = ''uid-1''" by (auto simp: ex_webhook_defs)
  ultimately show ?thesis using run by auto
qed

theorem webhook_undecodable_object_is_http_error_witness:
  "\<exists>err code. handleWebhookValidate ex_codecs (ex_webhook ''Node'') ex_http 0 =
     (Some (http_Error (error_text err) code), 0) \<and> code \<in> {400, 500}"
proof -
  obtain f where f: "decode_raw ex_codecs (ex_webhook ''Node'') (rq_Kind ex_rq) (rq_Object ex_rq) =
    Inl f"
    by (simp add: ex_webhook_defs)
  have p: "parseRequest ex_codecs ex_http = Inr ex_review" "rv_Request ex_review = Some ex_rq"
    "Handles (wh_validator (ex_webhook ''Node'')) (rq_Operation ex_rq)"
    by (simp_all add: ex_webhook_defs)
  show ?thesis
    by (rule webhook_undecodable_object_is_http_error [OF p, of f]) (simp add: f)
qed

text \<open>The listener fails while the caller's context is alive.\<close>

definition ex_run_failed :: run_state where
  "ex_run_failed = run_start\<lparr>serverError := Some (Plain ''address already in use''),
     listener := ListenerDone, fork_err := Some Canceled, srv_closed := True,
     run_at := Returned (CtxErr Canceled)\<rparr>"

lemma ex_run_failed_reachable: "run_reachable ex_run_failed"
proof -
  let ?e = "Some (Plain ''address already in use'')"
  let ?s1 = "run_start\<lparr>serverError := ?e, listener := Listened\<rparr>"
  let ?s2 = "?s1\<lparr>fork_err := Some Canceled, listener := ListenerDone\<rparr>"
  let ?s3 = "?s2\<lparr>run_at := Closing\<rparr>"
  let ?s4 = "?s3\<lparr>srv_closed := True, run_at := Returning\<rparr>"
  have "run_reachable ?s1"
    by (rule reach_step [OF run_init]) (auto simp: run_step_iff run_start_def)
  moreover have "run_step ?s1 ?s2"
    using listener_cancels [of ?s1] by (simp add: run_step_def run_start_def)
  moreover have "run_step ?s2 ?s3" unfolding run_step_def by (rule disjI2, rule fork_done) (simp_all add: run_start_def)
  moreover have "run_step ?s3 ?s4" unfolding run_step_def by (rule disjI2, rule close_server) simp
  moreover have "run_step ?s4 ex_run_failed"
    using run_returns [of ?s4] by (simp add: run_step_def ex_run_failed_def run_result_def run_start_def)
  ultimately show ?thesis by (blast intro: reach_step)
qed

theorem run_never_returns_server_error_witness:
  "run_reachable ex_run_failed \<and> run_at ex_run_failed = Returned (CtxErr Canceled) \<and>
   (\<exists>e. CtxErr Canceled = CtxErr e \<and> (ctx_err ex_run_failed = None \<longrightarrow> e = Canceled))"
proof -
  have "run_at ex_run_failed = Returned (CtxErr Canceled)" by (simp add: ex_run_failed_def)
  then show ?thesis
    using run_never_returns_server_error [OF ex_run_failed_reachable] ex_run_failed_reachable
    by blast
qed

text \<open>
  A fresh \<open>Run\<close> only waits; once the listener has failed, with the caller's context alive, there are at most five
  more steps, the end of that context included, and \<open>Run\<close> has returned where none of its own is left.
\<close>

theorem run_terminates_witness:
  "(\<nexists>t. run_own run_start t) \<and>
   (let s = run_start\<lparr>serverError := Some (Plain ''address already in use''), listener := Listened\<rparr> in
     ctx_err s = None \<and> run_reachable s \<and> \<not> (\<exists>k t. (run_step ^^ k) s t \<and> 5 < k) \<and>
     \<not> (\<exists>k t. (run_step ^^ k) s t \<and> (\<nexists>u. run_own t u) \<and> \<not> run_over t))"
proof -
  let ?s = "run_start\<lparr>serverError := Some (Plain ''address already in use''), listener := Listened\<rparr>"
  have s: "run_reachable ?s"
    by (rule reach_step [OF run_init]) (auto simp: run_step_iff run_start_def)
  have "steps_left ?s = 5" "told_to_stop ?s" "\<not> told_to_stop run_start" "ctx_err ?s = None"
    by (simp_all add: steps_left_def told_to_stop_def run_start_def)
  with run_terminates [OF s] have "k \<le> 5 \<and> ((\<exists>u. run_own t u) \<or> run_over t)" if "(run_step ^^ k) ?s t" for k t
    using that by auto
  then have "\<not> (\<exists>k t. (run_step ^^ k) ?s t \<and> 5 < k)"
    "\<not> (\<exists>k t. (run_step ^^ k) ?s t \<and> (\<nexists>u. run_own t u) \<and> \<not> run_over t)" by force+
  moreover have "\<nexists>t. run_own run_start t" using run_terminates [OF run_init] \<open>\<not> told_to_stop run_start\<close> by blast
  ultimately show ?thesis using s \<open>ctx_err ?s = None\<close> by (simp only: Let_def simp_thms)
qed

end
