(* ===== verification/Plugin.thy ===== *)
theory Plugin
  imports Admission
begin

text \<open>
  The CEL admission plugin of \<open>pkg/controller/admissionregistration.x-k8s.io/v1alpha1/plugin.go\<close>:
  it lets requests on policy resources pass, waits up to a second for the policy evaluator to have
  synced, and then asks the evaluator. The evaluator itself (the vendored
  \<open>validatingadmissionpolicy\<close> controller) is a parameter; the polling loop of the vendored
  \<open>wait\<close> package is modelled.
\<close>

section \<open>Polling: PollImmediateWithContext\<close>

text \<open>
  What the waiting goroutine sees after the first check: a channel that delivers ticks, each at a
  moment with its own state of the world, until the poller closes it after the timeout, unless the
  context ends first. The poller always closes the channel (its timer is never reset), so a
  schedule is a list of ticks and an end.
\<close>

datatype 'w poll_end = ChanClosed 'w | CtxDone 'w

record 'w schedule =
  ctx_is_done :: bool
  ticks :: "'w list"
  poll_ends :: "'w poll_end"

definition ErrWaitTimeout :: go_error where
  "ErrWaitTimeout = Plain ''timed out waiting for the condition''"

type_synonym 'w condition = "'w \<Rightarrow> bool \<times> go_error option"

text \<open>The loop; it returns the error and the world at the moment it returned.\<close>

fun waitForWithContext ::
  "'w list \<Rightarrow> 'w poll_end \<Rightarrow> 'w condition \<Rightarrow> go_error option \<times> 'w" where
  "waitForWithContext (w # ws) end fn =
     (case fn w of
        (ok, Some err) \<Rightarrow> (Some err, w)
      | (True, None) \<Rightarrow> (None, w)
      | (False, None) \<Rightarrow> waitForWithContext ws end fn)"
| "waitForWithContext [] (ChanClosed w) fn =
     (case fn w of
        (ok, Some err) \<Rightarrow> (Some err, w)
      | (True, None) \<Rightarrow> (None, w)
      | (False, None) \<Rightarrow> (Some ErrWaitTimeout, w))"
| "waitForWithContext [] (CtxDone w) fn = (Some ErrWaitTimeout, w)"

definition poll :: "bool \<Rightarrow> 'w schedule \<Rightarrow> 'w condition \<Rightarrow> 'w \<Rightarrow> go_error option \<times> 'w" where
  "poll immediate sch fn w =
     (let wait = (if ctx_is_done sch then (Some ErrWaitTimeout, w)
                  else waitForWithContext (ticks sch) (poll_ends sch) fn)
      in if immediate
         then (case fn w of
                 (done, Some err) \<Rightarrow> (Some err, w)
               | (True, None) \<Rightarrow> (None, w)
               | (False, None) \<Rightarrow> wait)
         else wait)"

definition PollImmediateWithContext ::
  "'w schedule \<Rightarrow> 'w condition \<Rightarrow> 'w \<Rightarrow> go_error option \<times> 'w" where
  "PollImmediateWithContext sch fn w = poll True sch fn w"

section \<open>The plugin\<close>

record ('obj, 'w) evaluator =
  ev_HasSynced :: "'w \<Rightarrow> bool"
  ev_Run :: "'w \<Rightarrow> 'w"
  ev_Validate :: "'obj attributes \<Rightarrow> 'w \<Rightarrow> go_error option \<times> 'w"

text \<open>
  \<open>celAdmissionPlugin\<close>: the six collaborators it is built from (\<open>'deps\<close>) and the evaluator that
  \<open>validatingadmissionpolicy.NewAdmissionController\<close> makes of them.
\<close>

record ('obj, 'w, 'deps) celAdmissionPlugin =
  pl_deps :: 'deps
  pl_evaluator :: "('obj, 'w) evaluator"

definition NewPlugin ::
  "('deps \<Rightarrow> ('obj, 'w) evaluator) \<Rightarrow> 'deps \<Rightarrow> ('obj, 'w, 'deps) celAdmissionPlugin" where
  "NewPlugin NewAdmissionController deps =
     \<lparr>pl_deps = deps, pl_evaluator = NewAdmissionController deps\<rparr>"

definition plugin_HasSynced :: "('obj, 'w, 'deps) celAdmissionPlugin \<Rightarrow> 'w \<Rightarrow> bool" where
  "plugin_HasSynced c w = ev_HasSynced (pl_evaluator c) w"

definition plugin_Run ::
  "('obj, 'w, 'deps) celAdmissionPlugin \<Rightarrow> 'w \<Rightarrow> go_error option \<times> 'w" where
  "plugin_Run c w = (None, ev_Run (pl_evaluator c) w)"

definition plugin_Handles :: "('obj, 'w, 'deps) celAdmissionPlugin \<Rightarrow> operation \<Rightarrow> bool" where
  "plugin_Handles c op = True"

definition isPolicyResource :: "'obj attributes \<Rightarrow> bool" where
  "isPolicyResource attr =
     (let gvk = at_resource attr in
      if gvr_Group gvk = ''admissionregistration.k8s.io'' \<or>
         gvr_Group gvk = ''admissionregistration.x-k8s.io''
      then
        (if gvr_Resource gvk = ''validatingadmissionpolicies'' \<or>
            gvr_Resource gvk = ''validatingadmissionpolicybindings''
         then True else False)
      else False)"

definition not_ready_error ::
  "('obj \<Rightarrow> (string \<times> string) option) \<Rightarrow> 'obj attributes \<Rightarrow> go_error" where
  "not_ready_error accessor a = NewForbidden accessor a (Plain ''not yet ready to handle request'')"

definition plugin_Validate ::
  "('obj \<Rightarrow> (string \<times> string) option) \<Rightarrow> ('obj, 'w, 'deps) celAdmissionPlugin
   \<Rightarrow> ('w \<Rightarrow> 'w schedule) \<Rightarrow> 'obj attributes \<Rightarrow> 'w \<Rightarrow> go_error option \<times> 'w" where
  "plugin_Validate accessor c sched a w =
     (if isPolicyResource a then (None, w)
      else
        (case PollImmediateWithContext (sched w) (\<lambda>w. (plugin_HasSynced c w, None)) w of
           (Some err, w') \<Rightarrow> (Some (not_ready_error accessor a), w')
         | (None, w') \<Rightarrow> ev_Validate (pl_evaluator c) a w'))"

text \<open>The plugin as a validator, for a given reaction of its surroundings to the polling.\<close>

definition plugin_validator ::
  "('obj \<Rightarrow> (string \<times> string) option) \<Rightarrow> ('obj, 'w, 'deps) celAdmissionPlugin
   \<Rightarrow> ('w \<Rightarrow> 'w schedule) \<Rightarrow> ('obj, 'w) validator" where
  "plugin_validator accessor c sched =
     \<lparr>Handles = plugin_Handles c, Validate = plugin_Validate accessor c sched\<rparr>"

section \<open>What polling observes\<close>

text \<open>The moments at which the condition is checked if it stays false.\<close>

definition moments :: "'w schedule \<Rightarrow> 'w \<Rightarrow> 'w list" where
  "moments sch w =
     w # (if ctx_is_done sch then []
          else ticks sch @ (case poll_ends sch of ChanClosed v \<Rightarrow> [v] | CtxDone v \<Rightarrow> []))"

definition last_moment :: "'w schedule \<Rightarrow> 'w \<Rightarrow> 'w" where
  "last_moment sch w =
     (if ctx_is_done sch then w
      else (case poll_ends sch of ChanClosed v \<Rightarrow> v | CtxDone v \<Rightarrow> v))"

lemma waitFor_find:
  "waitForWithContext ws end (\<lambda>w. (P w, None)) =
     (case List.find P (ws @ (case end of ChanClosed v \<Rightarrow> [v] | CtxDone v \<Rightarrow> [])) of
        Some v \<Rightarrow> (None, v)
      | None \<Rightarrow> (Some ErrWaitTimeout, case end of ChanClosed v \<Rightarrow> v | CtxDone v \<Rightarrow> v))"
  by (induction ws; cases "end") auto

text \<open>Polling returns at the first moment at which the condition holds, or times out at the last.\<close>

lemma PollImmediate_find:
  "PollImmediateWithContext sch (\<lambda>w. (P w, None)) w =
     (case List.find P (moments sch w) of
        Some v \<Rightarrow> (None, v)
      | None \<Rightarrow> (Some ErrWaitTimeout, last_moment sch w))"
  by (simp add: PollImmediateWithContext_def poll_def moments_def last_moment_def Let_def
      waitFor_find split: option.split)

lemma plugin_Validate_eq:
  "\<not> isPolicyResource a \<Longrightarrow>
   plugin_Validate accessor c sched a w =
     (case List.find (plugin_HasSynced c) (moments (sched w) w) of
        Some v \<Rightarrow> ev_Validate (pl_evaluator c) a v
      | None \<Rightarrow> (Some (not_ready_error accessor a), last_moment (sched w) w))"
  by (simp add: plugin_Validate_def PollImmediate_find split: option.split)

lemma isPolicyResource_iff:
  "isPolicyResource a \<longleftrightarrow>
     gvr_Group (at_resource a) \<in>
       {''admissionregistration.k8s.io'', ''admissionregistration.x-k8s.io''} \<and>
     gvr_Resource (at_resource a) \<in>
       {''validatingadmissionpolicies'', ''validatingadmissionpolicybindings''}"
  by (auto simp: isPolicyResource_def Let_def)

lemma find_Some_first:
  "List.find P xs = Some v \<Longrightarrow>
   \<exists>pre post. xs = pre @ v # post \<and> P v \<and> list_all (\<lambda>u. \<not> P u) pre"
proof (induction xs)
  case Nil
  then show ?case by simp
next
  case (Cons x xs)
  show ?case
  proof (cases "P x")
    case True
    with Cons.prems show ?thesis by (intro exI [of _ "[]"] exI [of _ xs]) simp
  next
    case False
    with Cons obtain pre post where "xs = pre @ v # post" "P v" "list_all (\<lambda>u. \<not> P u) pre"
      by auto
    with False show ?thesis by (intro exI [of _ "x # pre"] exI [of _ post]) simp
  qed
qed

lemma not_ready_is_forbidden:
  "reasonAndCodeForError (not_ready_error accessor a) = (''Forbidden'', 403)"
  by (simp add: not_ready_error_def NewForbidden_def apierrors_NewForbidden_def
      reasonAndCodeForError_def err_simps reason_defs split: prod.split)

section \<open>Properties\<close>

text \<open>
  Requests on policies and bindings, in both API groups, any version and any subresource, are
  always admitted: at once, before the evaluator has synced and without consulting it.
\<close>

theorem plugin_admits_policy_resources:
  assumes "gvr_Group (at_resource a) \<in>
             {''admissionregistration.k8s.io'', ''admissionregistration.x-k8s.io''}"
    and "gvr_Resource (at_resource a) \<in>
           {''validatingadmissionpolicies'', ''validatingadmissionpolicybindings''}"
  shows "plugin_Validate accessor c sched a w = (None, w)"
  using assms by (simp add: plugin_Validate_def isPolicyResource_iff)

text \<open>
  (C12) For every other request the evaluator decides, at the first moment of the polling at which
  it has synced; when it has not synced at any moment of the polling, the request is forbidden
  with status 403 and the evaluator is not asked.
\<close>

theorem plugin_evaluates_only_when_synced:
  assumes "\<not> isPolicyResource a"
  shows "(\<exists>pre v post. moments (sched w) w = pre @ v # post \<and> plugin_HasSynced c v \<and>
            list_all (\<lambda>u. \<not> plugin_HasSynced c u) pre \<and>
            plugin_Validate accessor c sched a w = ev_Validate (pl_evaluator c) a v)
       \<or> (list_all (\<lambda>u. \<not> plugin_HasSynced c u) (moments (sched w) w) \<and>
          plugin_Validate accessor c sched a w =
            (Some (not_ready_error accessor a), last_moment (sched w) w) \<and>
          reasonAndCodeForError (not_ready_error accessor a) = (''Forbidden'', 403))"
proof (cases "List.find (plugin_HasSynced c) (moments (sched w) w)")
  case None
  then have "list_all (\<lambda>u. \<not> plugin_HasSynced c u) (moments (sched w) w)"
    by (simp add: find_None_iff list_all_iff)
  moreover have "plugin_Validate accessor c sched a w =
      (Some (not_ready_error accessor a), last_moment (sched w) w)"
    using None assms by (simp add: plugin_Validate_eq)
  ultimately show ?thesis using not_ready_is_forbidden by blast
next
  case (Some v)
  then have "plugin_Validate accessor c sched a w = ev_Validate (pl_evaluator c) a v"
    using assms by (simp add: plugin_Validate_eq)
  with find_Some_first [OF Some] show ?thesis by blast
qed

section \<open>Instances\<close>

definition ex_plugin :: "(nat, nat, unit) celAdmissionPlugin" where
  "ex_plugin = NewPlugin
     (\<lambda>_. \<lparr>ev_HasSynced = (\<lambda>w. 3 \<le> w), ev_Run = id, ev_Validate = (\<lambda>a w. (None, w))\<rparr>) ()"

definition ex_sched :: "nat \<Rightarrow> nat schedule" where
  "ex_sched w = \<lparr>ctx_is_done = False, ticks = [w + 1, w + 2, w + 3], poll_ends = ChanClosed (w + 4)\<rparr>"

definition ex_attr :: "string \<Rightarrow> string \<Rightarrow> nat attributes" where
  "ex_attr grp res = NewAttributesRecord (Some 1) None
     \<lparr>gvk_Group = grp, gvk_Version = ''v1alpha1'', gvk_Kind = ''K''\<rparr> [] ''p''
     \<lparr>gvr_Group = grp, gvr_Version = ''v1alpha1'', gvr_Resource = res\<rparr> [] ''UPDATE'' None False
     \<lparr>ui_Name = ''u'', ui_UID = [], ui_Groups = None, ui_Extra = None\<rparr>"

theorem plugin_admits_policy_resources_witness:
  "plugin_Validate (\<lambda>_. None) ex_plugin ex_sched
     (ex_attr ''admissionregistration.x-k8s.io'' ''validatingadmissionpolicybindings'') 0 = (None, 0)"
  by (rule plugin_admits_policy_resources) (simp_all add: ex_attr_def NewAttributesRecord_def)

theorem plugin_evaluates_only_when_synced_witness:
  "plugin_Validate (\<lambda>_. None) ex_plugin ex_sched (ex_attr ''apps'' ''deployments'') 0 = (None, 3)"
proof -
  have "\<not> isPolicyResource (ex_attr ''apps'' ''deployments'')"
    by (simp add: ex_attr_def isPolicyResource_iff NewAttributesRecord_def)
  from plugin_evaluates_only_when_synced [OF this, of ex_sched 0 ex_plugin "\<lambda>_. None"]
  show ?thesis
    by (auto simp: ex_plugin_def ex_sched_def NewPlugin_def plugin_HasSynced_def moments_def
        Cons_eq_append_conv)
qed

end
