(* ===== verification/Json.thy ===== *)
theory Json
  imports Prelude "HOL-Library.Monad_Syntax"
begin

text \<open>
  What \<open>encoding/json\<close> does with the Go values of this program, at the level of JSON trees: struct
  fields with and without \<open>omitempty\<close>, pointers, slices, string maps, and decoding into a zero value
  where a field is missing or null. The text of a document is not modelled: printing a tree and
  parsing it again gives the tree.
\<close>

section \<open>Trees and fields\<close>

datatype json =
    JNull
  | JBool bool
  | JInt int
  | JStr string
  | JArr "json list"
  | JObj "(string \<times> json) list"

type_synonym fields = "(string \<times> json) list"

text \<open>A field of a struct, left out when \<open>omit\<close> holds.\<close>

definition fld :: "string \<Rightarrow> bool \<Rightarrow> json \<Rightarrow> fields" where
  "fld n omit j = (if omit then [] else [(n, j)])"

text \<open>Reading a field: missing and null fields leave the zero value.\<close>

definition get :: "string \<Rightarrow> (json \<Rightarrow> 'a option) \<Rightarrow> 'a \<Rightarrow> fields \<Rightarrow> 'a option" where
  "get n d zero fs =
     (case map_of fs n of
        None \<Rightarrow> Some zero
      | Some j \<Rightarrow> if j = JNull then Some zero else d j)"

fun obj_fields :: "json \<Rightarrow> fields option" where
  "obj_fields (JObj fs) = Some fs"
| "obj_fields _ = None"

section \<open>Values\<close>

fun dec_str :: "json \<Rightarrow> string option" where
  "dec_str (JStr s) = Some s"
| "dec_str _ = None"

fun dec_int :: "json \<Rightarrow> int option" where
  "dec_int (JInt n) = Some n"
| "dec_int _ = None"

fun dec_bool :: "json \<Rightarrow> bool option" where
  "dec_bool (JBool b) = Some b"
| "dec_bool _ = None"

definition enc_ptr :: "('a \<Rightarrow> json) \<Rightarrow> 'a option \<Rightarrow> json" where
  "enc_ptr e p = (case p of None \<Rightarrow> JNull | Some x \<Rightarrow> e x)"

definition dec_ptr :: "(json \<Rightarrow> 'a option) \<Rightarrow> json \<Rightarrow> 'a option option" where
  "dec_ptr d j = map_option Some (d j)"

definition enc_slice :: "('a \<Rightarrow> json) \<Rightarrow> 'a slice \<Rightarrow> json" where
  "enc_slice e s = (case s of None \<Rightarrow> JNull | Some xs \<Rightarrow> JArr (map e xs))"

fun dec_slice :: "(json \<Rightarrow> 'a option) \<Rightarrow> json \<Rightarrow> 'a slice option" where
  "dec_slice d (JArr js) = map_option Some (those (map d js))"
| "dec_slice d _ = None"

text \<open>A \<open>map[string]string\<close>, as its entries in key order; \<open>None\<close> is the nil map.\<close>

type_synonym str_map = "(string \<times> string) list option"

definition enc_map :: "str_map \<Rightarrow> json" where
  "enc_map m = (case m of None \<Rightarrow> JNull | Some kvs \<Rightarrow> JObj (map (\<lambda>(k, v). (k, JStr v)) kvs))"

fun dec_map :: "json \<Rightarrow> str_map option" where
  "dec_map (JObj fs) =
     map_option Some (those (map (\<lambda>(k, j). map_option (Pair k) (dec_str j)) fs))"
| "dec_map _ = None"

section \<open>Laws of fields\<close>

lemma get_Nil [simp]: "get n d z [] = Some z"
  by (simp add: get_def)

lemma get_other: "n \<noteq> n' \<Longrightarrow> get n d z (fld n' omit j @ fs) = get n d z fs"
  by (simp add: get_def fld_def)

lemma get_same:
  "get n d z (fld n omit j @ fs) =
     (if omit then get n d z fs else if j = JNull then Some z else d j)"
  by (simp add: get_def fld_def)

section \<open>Codecs\<close>

text \<open>
  What a value becomes when it is encoded and decoded: an empty slice or map under \<open>omitempty\<close>
  comes back as nil.
\<close>

definition norm_slice :: "('a \<Rightarrow> 'a) \<Rightarrow> 'a slice \<Rightarrow> 'a slice" where
  "norm_slice f s = (if elems s = [] then None else Some (map f (elems s)))"

lemma norm_slice_None [simp]: "norm_slice f None = None"
  by (simp add: norm_slice_def)

text \<open>
  The interface every struct's encoder and decoder offer: decoding an encoded value succeeds and
  gives its normal form, and the encoding is not null.
\<close>

locale json_codec =
  fixes enc :: "'a \<Rightarrow> json"
    and dec :: "json \<Rightarrow> 'a option"
    and norm :: "'a \<Rightarrow> 'a"
  assumes dec_enc: "dec (enc x) = Some (norm x)"
    and enc_nonnull: "enc x \<noteq> JNull"
    and norm_idem: "norm (norm x) = norm x"
begin

lemma get_value: "get n dec z (fld n False (enc x) @ fs) = Some (norm x)"
  by (simp add: get_same dec_enc enc_nonnull)

lemma get_ptr:
  "get n (dec_ptr dec) None fs = Some None \<Longrightarrow>
   get n (dec_ptr dec) None (fld n (p = None) (enc_ptr enc p) @ fs) = Some (map_option norm p)"
  "get n (dec_ptr dec) None (fld n False (enc_ptr enc p) @ fs) = Some (map_option norm p)"
  by (cases p; simp add: get_same dec_enc enc_nonnull enc_ptr_def dec_ptr_def)+

lemma those_enc: "those (map (\<lambda>x. dec (enc x)) xs) = Some (map norm xs)"
  by (induction xs) (simp_all add: dec_enc)

lemma get_slice:
  "get n (dec_slice dec) None fs = Some None \<Longrightarrow>
   get n (dec_slice dec) None (fld n (elems s = []) (enc_slice enc s) @ fs) = Some (norm_slice norm s)"
  by (cases s) (simp_all add: get_same enc_slice_def comp_def those_enc norm_slice_def)

lemma idem: "map_option norm (map_option norm p) = map_option norm p"
  "norm_slice norm (norm_slice norm s) = norm_slice norm s"
  by (simp_all add: option.map_comp comp_def norm_idem norm_slice_def)

lemmas codec = norm_idem idem get_value get_value [where fs = "[]", simplified]
  get_ptr get_ptr [where fs = "[]", simplified] get_slice get_slice [where fs = "[]", simplified]

end

interpretation str: json_codec JStr dec_str "\<lambda>x. x"
  by unfold_locales simp_all

interpretation int: json_codec JInt dec_int "\<lambda>x. x"
  by unfold_locales simp_all

interpretation bool: json_codec JBool dec_bool "\<lambda>x. x"
  by unfold_locales simp_all

lemma those_map_pairs:
  "those (map (\<lambda>(k, j). map_option (Pair k) (dec_str j)) (map (\<lambda>(k, v). (k, JStr v)) kvs)) = Some kvs"
  by (induction kvs) auto

lemma get_map:
  "get n dec_map None fs = Some None \<Longrightarrow>
   get n dec_map None (fld n (elems m = []) (enc_map m) @ fs) = Some (norm_slice (\<lambda>x. x) m)"
  by (cases m) (simp_all add: get_same enc_map_def those_map_pairs norm_slice_def del: map_map)

lemma get_str_omit:
  "get n dec_str [] fs = Some [] \<Longrightarrow> get n dec_str [] (fld n (s = []) (JStr s) @ fs) = Some s"
  by (simp add: get_same)

lemma get_int_omit:
  "get n dec_int 0 fs = Some 0 \<Longrightarrow> get n dec_int 0 (fld n (i = 0) (JInt i) @ fs) = Some i"
  by (simp add: get_same)

text \<open>Fields that one style of tags leaves out when they are empty and the other does not.\<close>

lemma get_str_style:
  "get n dec_str [] fs = Some [] \<Longrightarrow>
   get n dec_str [] (fld n (b \<and> s = []) (JStr s) @ fs) = Some s"
  by (simp add: get_same)

text \<open>A nested JSON document that is kept as it is; a null one comes back as nil.\<close>

definition norm_raw :: "json option \<Rightarrow> json option" where
  "norm_raw p = (if p = Some JNull then None else p)"

lemma norm_raw_idem [simp]: "norm_raw (norm_raw p) = norm_raw p"
  by (simp add: norm_raw_def)

lemma get_raw:
  "get n (dec_ptr Some) None fs = Some None \<Longrightarrow>
   get n (dec_ptr Some) None (fld n (p = None) (enc_ptr (\<lambda>j. j) p) @ fs) = Some (norm_raw p)"
  by (cases p) (simp_all add: get_same enc_ptr_def dec_ptr_def norm_raw_def)

lemma norm_map_idem: "norm_slice (\<lambda>x. x) (norm_slice (\<lambda>x. x) s) = norm_slice (\<lambda>x. x) s"
  by (simp add: norm_slice_def)

lemmas codec_simps = get_other get_str_omit get_int_omit get_map get_str_style get_raw
  get_other [where fs = "[]", simplified] get_str_omit [where fs = "[]", simplified]
  get_int_omit [where fs = "[]", simplified] get_map [where fs = "[]", simplified]
  get_str_style [where fs = "[]", simplified] norm_map_idem option.map_ident

end
