(* ===== verification/Policy_Types.thy ===== *)
theory Policy_Types
  imports Json
begin

text \<open>
  The API types of \<open>pkg/apis/admissionregistration.x-k8s.io/v1alpha1/types.go\<close> and the metadata
  types they embed. A pointer is an option, a slice a slice of the prelude, a \<open>map[string]string\<close> its
  entries in key order. String types keep their constants as definitions, since the API server, not
  the Go type, restricts their values. The native types of \<open>k8s.io/api\<close> have the same fields, so the
  same records serve for both; they differ in which fields are left out of their JSON form.
\<close>

section \<open>Metadata\<close>

record typeMeta =
  tm_Kind :: string
  tm_APIVersion :: string

record listMeta =
  lm_SelfLink :: string
  lm_ResourceVersion :: string
  lm_Continue :: string
  lm_RemainingItemCount :: "int option"

record ownerReference =
  or_APIVersion :: string
  or_Kind :: string
  or_Name :: string
  or_UID :: string
  or_Controller :: "bool option"
  or_BlockOwnerDeletion :: "bool option"

text \<open>
  A \<open>metav1.Time\<close> is its RFC 3339 text, \<open>None\<close> for the zero time; the field paths of
  \<open>managedFields\<close> are kept as the JSON they are.
\<close>

type_synonym time = "string option"

record managedFieldsEntry =
  mf_Manager :: string
  mf_Operation :: string
  mf_APIVersion :: string
  mf_Time :: "string option"
  mf_FieldsType :: string
  mf_FieldsV1 :: "json option"
  mf_Subresource :: string

record objectMeta =
  om_name :: string
  om_generateName :: string
  om_namespace :: string
  om_selfLink :: string
  om_uid :: string
  om_resourceVersion :: string
  om_generation :: int
  om_creationTimestamp :: time
  om_deletionTimestamp :: "string option"
  om_deletionGracePeriodSeconds :: "int option"
  om_labels :: str_map
  om_annotations :: str_map
  om_ownerReferences :: "ownerReference slice"
  om_finalizers :: "string slice"
  om_managedFields :: "managedFieldsEntry slice"

record labelSelectorRequirement =
  lr_Key :: string
  lr_Operator :: string
  lr_Values :: "string slice"

record labelSelector =
  ls_MatchLabels :: str_map
  ls_MatchExpressions :: "labelSelectorRequirement slice"

record condition =
  co_Type :: string
  co_Status :: string
  co_ObservedGeneration :: int
  co_LastTransitionTime :: time
  co_Reason :: string
  co_Message :: string

section \<open>String types and their constants\<close>

type_synonym ScopeType = string
type_synonym FailurePolicyType = string
type_synonym MatchPolicyType = string
type_synonym ValidationAction = string
type_synonym OperationType = string

definition ClusterScope :: ScopeType where "ClusterScope = ''Cluster''"
definition NamespacedScope :: ScopeType where "NamespacedScope = ''Namespaced''"
definition AllScopes :: ScopeType where "AllScopes = ''*''"

definition Ignore :: FailurePolicyType where "Ignore = ''Ignore''"
definition Fail :: FailurePolicyType where "Fail = ''Fail''"

definition Exact :: MatchPolicyType where "Exact = ''Exact''"
definition Equivalent :: MatchPolicyType where "Equivalent = ''Equivalent''"

definition Deny :: ValidationAction where "Deny = ''Deny''"
definition Warn :: ValidationAction where "Warn = ''Warn''"
definition Audit :: ValidationAction where "Audit = ''Audit''"

definition OperationAll :: OperationType where "OperationAll = ''*''"
definition OpCreate :: OperationType where "OpCreate = ''CREATE''"
definition OpUpdate :: OperationType where "OpUpdate = ''UPDATE''"
definition OpDelete :: OperationType where "OpDelete = ''DELETE''"
definition OpConnect :: OperationType where "OpConnect = ''CONNECT''"

section \<open>Policies\<close>

record paramKind =
  pk_APIVersion :: string
  pk_Kind :: string

record validation =
  va_Expression :: string
  va_Message :: string
  va_Reason :: "string option"
  va_MessageExpression :: string

record auditAnnotation =
  aa_Key :: string
  aa_ValueExpression :: string

record matchCondition =
  mc_Name :: string
  mc_Expression :: string

text \<open>\<open>RuleWithOperations\<close> and \<open>Rule\<close> are inlined into the named rule, as they are in JSON.\<close>

record namedRuleWithOperations =
  nr_ResourceNames :: "string slice"
  nr_Operations :: "OperationType slice"
  nr_APIGroups :: "string slice"
  nr_APIVersions :: "string slice"
  nr_Resources :: "string slice"
  nr_Scope :: "ScopeType option"

record matchResources =
  mr_NamespaceSelector :: "labelSelector option"
  mr_ObjectSelector :: "labelSelector option"
  mr_ResourceRules :: "namedRuleWithOperations slice"
  mr_ExcludeResourceRules :: "namedRuleWithOperations slice"
  mr_MatchPolicy :: "MatchPolicyType option"

record validatingAdmissionPolicySpec =
  ps_ParamKind :: "paramKind option"
  ps_MatchConstraints :: "matchResources option"
  ps_Validations :: "validation slice"
  ps_FailurePolicy :: "FailurePolicyType option"
  ps_AuditAnnotations :: "auditAnnotation slice"
  ps_MatchConditions :: "matchCondition slice"

record expressionWarning =
  ew_FieldRef :: string
  ew_Warning :: string

record typeChecking =
  tc_ExpressionWarnings :: "expressionWarning slice"

record validatingAdmissionPolicyStatus =
  pst_ObservedGeneration :: int
  pst_TypeChecking :: "typeChecking option"
  pst_Conditions :: "condition slice"

record validatingAdmissionPolicy =
  vap_TypeMeta :: typeMeta
  vap_ObjectMeta :: objectMeta
  vap_Spec :: validatingAdmissionPolicySpec
  vap_Status :: validatingAdmissionPolicyStatus

record validatingAdmissionPolicyList =
  vapl_TypeMeta :: typeMeta
  vapl_ListMeta :: listMeta
  vapl_Items :: "validatingAdmissionPolicy slice"

section \<open>Bindings\<close>

record paramRef =
  pref_Name :: string
  pref_Namespace :: string

record validatingAdmissionPolicyBindingSpec =
  bs_PolicyName :: string
  bs_ParamRef :: "paramRef option"
  bs_MatchResources :: "matchResources option"
  bs_ValidationActions :: "ValidationAction slice"

record validatingAdmissionPolicyBinding =
  vapb_TypeMeta :: typeMeta
  vapb_ObjectMeta :: objectMeta
  vapb_Spec :: validatingAdmissionPolicyBindingSpec

record validatingAdmissionPolicyBindingList =
  vapbl_TypeMeta :: typeMeta
  vapbl_ListMeta :: listMeta
  vapbl_Items :: "validatingAdmissionPolicyBinding slice"

end
