(* ===== verification/Policy_Json.thy ===== *)
theory Policy_Json
  imports Policy_Types
begin

text \<open>
  The JSON form of the API types: for each struct an encoder with the field names and \<open>omitempty\<close>
  options of its tags, a decoder, the normal form a value takes when it goes through JSON (empty
  slices and maps under \<open>omitempty\<close> become nil), and the interpretation of the codec interface. The tags of the
  native types of \<open>k8s.io/api\<close> and of this repository differ in four fields; the style says whose
  tags are used.
\<close>

datatype json_style = NativeStyle | CRDStyle

fun omits :: "json_style \<Rightarrow> bool" where
  "omits NativeStyle = True"
| "omits CRDStyle = False"

section \<open>Encoders and decoders\<close>

definition enc_ownerReference :: "ownerReference \<Rightarrow> json" where
  "enc_ownerReference x = JObj
    (fld ''apiVersion'' False (JStr (or_APIVersion x)) @
     fld ''kind'' False (JStr (or_Kind x)) @
     fld ''name'' False (JStr (or_Name x)) @
     fld ''uid'' False (JStr (or_UID x)) @
     fld ''controller'' (or_Controller x = None) (enc_ptr JBool (or_Controller x)) @
     fld ''blockOwnerDeletion'' (or_BlockOwnerDeletion x = None) (enc_ptr JBool (or_BlockOwnerDeletion x)))"

definition dec_ownerReference :: "json \<Rightarrow> ownerReference option" where
  "dec_ownerReference j = do {
     fs \<leftarrow> obj_fields j;
     v0 \<leftarrow> get ''apiVersion'' dec_str [] fs;
     v1 \<leftarrow> get ''kind'' dec_str [] fs;
     v2 \<leftarrow> get ''name'' dec_str [] fs;
     v3 \<leftarrow> get ''uid'' dec_str [] fs;
     v4 \<leftarrow> get ''controller'' (dec_ptr dec_bool) None fs;
     v5 \<leftarrow> get ''blockOwnerDeletion'' (dec_ptr dec_bool) None fs;
     Some \<lparr>or_APIVersion = v0,
       or_Kind = v1,
       or_Name = v2,
       or_UID = v3,
       or_Controller = v4,
       or_BlockOwnerDeletion = v5\<rparr>
   }"

definition norm_ownerReference :: "ownerReference \<Rightarrow> ownerReference" where
  "norm_ownerReference x = x"

definition enc_managedFieldsEntry :: "managedFieldsEntry \<Rightarrow> json" where
  "enc_managedFieldsEntry x = JObj
    (fld ''manager'' (mf_Manager x = []) (JStr (mf_Manager x)) @
     fld ''operation'' (mf_Operation x = []) (JStr (mf_Operation x)) @
     fld ''apiVersion'' (mf_APIVersion x = []) (JStr (mf_APIVersion x)) @
     fld ''time'' (mf_Time x = None) (enc_ptr JStr (mf_Time x)) @
     fld ''fieldsType'' (mf_FieldsType x = []) (JStr (mf_FieldsType x)) @
     fld ''fieldsV1'' (mf_FieldsV1 x = None) (enc_ptr (\<lambda>j. j) (mf_FieldsV1 x)) @
     fld ''subresource'' (mf_Subresource x = []) (JStr (mf_Subresource x)))"

definition dec_managedFieldsEntry :: "json \<Rightarrow> managedFieldsEntry option" where
  "dec_managedFieldsEntry j = do {
     fs \<leftarrow> obj_fields j;
     v0 \<leftarrow> get ''manager'' dec_str [] fs;
     v1 \<leftarrow> get ''operation'' dec_str [] fs;
     v2 \<leftarrow> get ''apiVersion'' dec_str [] fs;
     v3 \<leftarrow> get ''time'' (dec_ptr dec_str) None fs;
     v4 \<leftarrow> get ''fieldsType'' dec_str [] fs;
     v5 \<leftarrow> get ''fieldsV1'' (dec_ptr Some) None fs;
     v6 \<leftarrow> get ''subresource'' dec_str [] fs;
     Some \<lparr>mf_Manager = v0,
       mf_Operation = v1,
       mf_APIVersion = v2,
       mf_Time = v3,
       mf_FieldsType = v4,
       mf_FieldsV1 = v5,
       mf_Subresource = v6\<rparr>
   }"

definition norm_managedFieldsEntry :: "managedFieldsEntry \<Rightarrow> managedFieldsEntry" where
  "norm_managedFieldsEntry x = x\<lparr>mf_FieldsV1 := norm_raw (mf_FieldsV1 x)\<rparr>"

definition enc_objectMeta :: "objectMeta \<Rightarrow> json" where
  "enc_objectMeta x = JObj
    (fld ''name'' (om_name x = []) (JStr (om_name x)) @
     fld ''generateName'' (om_generateName x = []) (JStr (om_generateName x)) @
     fld ''namespace'' (om_namespace x = []) (JStr (om_namespace x)) @
     fld ''selfLink'' (om_selfLink x = []) (JStr (om_selfLink x)) @
     fld ''uid'' (om_uid x = []) (JStr (om_uid x)) @
     fld ''resourceVersion'' (om_resourceVersion x = []) (JStr (om_resourceVersion x)) @
     fld ''generation'' (om_generation x = 0) (JInt (om_generation x)) @
     fld ''creationTimestamp'' False (enc_ptr JStr (om_creationTimestamp x)) @
     fld ''deletionTimestamp'' (om_deletionTimestamp x = None) (enc_ptr JStr (om_deletionTimestamp x)) @
     fld ''deletionGracePeriodSeconds'' (om_deletionGracePeriodSeconds x = None) (enc_ptr JInt (om_deletionGracePeriodSeconds x)) @
     fld ''labels'' (elems (om_labels x) = []) (enc_map (om_labels x)) @
     fld ''annotations'' (elems (om_annotations x) = []) (enc_map (om_annotations x)) @
     fld ''ownerReferences'' (elems (om_ownerReferences x) = []) (enc_slice enc_ownerReference (om_ownerReferences x)) @
     fld ''finalizers'' (elems (om_finalizers x) = []) (enc_slice JStr (om_finalizers x)) @
     fld ''managedFields'' (elems (om_managedFields x) = []) (enc_slice enc_managedFieldsEntry (om_managedFields x)))"

definition dec_objectMeta :: "json \<Rightarrow> objectMeta option" where
  "dec_objectMeta j = do {
     fs \<leftarrow> obj_fields j;
     v0 \<leftarrow> get ''name'' dec_str [] fs;
     v1 \<leftarrow> get ''generateName'' dec_str [] fs;
     v2 \<leftarrow> get ''namespace'' dec_str [] fs;
     v3 \<leftarrow> get ''selfLink'' dec_str [] fs;
     v4 \<leftarrow> get ''uid'' dec_str [] fs;
     v5 \<leftarrow> get ''resourceVersion'' dec_str [] fs;
     v6 \<leftarrow> get ''generation'' dec_int 0 fs;
     v7 \<leftarrow> get ''creationTimestamp'' (dec_ptr dec_str) None fs;
     v8 \<leftarrow> get ''deletionTimestamp'' (dec_ptr dec_str) None fs;
     v9 \<leftarrow> get ''deletionGracePeriodSeconds'' (dec_ptr dec_int) None fs;
     v10 \<leftarrow> get ''labels'' dec_map None fs;
     v11 \<leftarrow> get ''annotations'' dec_map None fs;
     v12 \<leftarrow> get ''ownerReferences'' (dec_slice dec_ownerReference) None fs;
     v13 \<leftarrow> get ''finalizers'' (dec_slice dec_str) None fs;
     v14 \<leftarrow> get ''managedFields'' (dec_slice dec_managedFieldsEntry) None fs;
     Some \<lparr>om_name = v0,
       om_generateName = v1,
       om_namespace = v2,
       om_selfLink = v3,
       om_uid = v4,
       om_resourceVersion = v5,
       om_generation = v6,
       om_creationTimestamp = v7,
       om_deletionTimestamp = v8,
       om_deletionGracePeriodSeconds = v9,
       om_labels = v10,
       om_annotations = v11,
       om_ownerReferences = v12,
       om_finalizers = v13,
       om_managedFields = v14\<rparr>
   }"

definition norm_objectMeta :: "objectMeta \<Rightarrow> objectMeta" where
  "norm_objectMeta x = x\<lparr>om_labels := norm_slice (\<lambda>x. x) (om_labels x),
     om_annotations := norm_slice (\<lambda>x. x) (om_annotations x),
     om_ownerReferences := norm_slice norm_ownerReference (om_ownerReferences x),
     om_finalizers := norm_slice (\<lambda>x. x) (om_finalizers x),
     om_managedFields := norm_slice norm_managedFieldsEntry (om_managedFields x)\<rparr>"

definition enc_labelSelectorRequirement :: "labelSelectorRequirement \<Rightarrow> json" where
  "enc_labelSelectorRequirement x = JObj
    (fld ''key'' False (JStr (lr_Key x)) @
     fld ''operator'' False (JStr (lr_Operator x)) @
     fld ''values'' (elems (lr_Values x) = []) (enc_slice JStr (lr_Values x)))"

definition dec_labelSelectorRequirement :: "json \<Rightarrow> labelSelectorRequirement option" where
  "dec_labelSelectorRequirement j = do {
     fs \<leftarrow> obj_fields j;
     v0 \<leftarrow> get ''key'' dec_str [] fs;
     v1 \<leftarrow> get ''operator'' dec_str [] fs;
     v2 \<leftarrow> get ''values'' (dec_slice dec_str) None fs;
     Some \<lparr>lr_Key = v0,
       lr_Operator = v1,
       lr_Values = v2\<rparr>
   }"

definition norm_labelSelectorRequirement :: "labelSelectorRequirement \<Rightarrow> labelSelectorRequirement" where
  "norm_labelSelectorRequirement x = x\<lparr>lr_Values := norm_slice (\<lambda>x. x) (lr_Values x)\<rparr>"

definition enc_labelSelector :: "labelSelector \<Rightarrow> json" where
  "enc_labelSelector x = JObj
    (fld ''matchLabels'' (elems (ls_MatchLabels x) = []) (enc_map (ls_MatchLabels x)) @
     fld ''matchExpressions'' (elems (ls_MatchExpressions x) = []) (enc_slice enc_labelSelectorRequirement (ls_MatchExpressions x)))"

definition dec_labelSelector :: "json \<Rightarrow> labelSelector option" where
  "dec_labelSelector j = do {
     fs \<leftarrow> obj_fields j;
     v0 \<leftarrow> get ''matchLabels'' dec_map None fs;
     v1 \<leftarrow> get ''matchExpressions'' (dec_slice dec_labelSelectorRequirement) None fs;
     Some \<lparr>ls_MatchLabels = v0,
       ls_MatchExpressions = v1\<rparr>
   }"

definition norm_labelSelector :: "labelSelector \<Rightarrow> labelSelector" where
  "norm_labelSelector x = x\<lparr>ls_MatchLabels := norm_slice (\<lambda>x. x) (ls_MatchLabels x),
     ls_MatchExpressions := norm_slice norm_labelSelectorRequirement (ls_MatchExpressions x)\<rparr>"

definition enc_condition :: "condition \<Rightarrow> json" where
  "enc_condition x = JObj
    (fld ''type'' False (JStr (co_Type x)) @
     fld ''status'' False (JStr (co_Status x)) @
     fld ''observedGeneration'' (co_ObservedGeneration x = 0) (JInt (co_ObservedGeneration x)) @
     fld ''lastTransitionTime'' False (enc_ptr JStr (co_LastTransitionTime x)) @
     fld ''reason'' False (JStr (co_Reason x)) @
     fld ''message'' False (JStr (co_Message x)))"

definition dec_condition :: "json \<Rightarrow> condition option" where
  "dec_condition j = do {
     fs \<leftarrow> obj_fields j;
     v0 \<leftarrow> get ''type'' dec_str [] fs;
     v1 \<leftarrow> get ''status'' dec_str [] fs;
     v2 \<leftarrow> get ''observedGeneration'' dec_int 0 fs;
     v3 \<leftarrow> get ''lastTransitionTime'' (dec_ptr dec_str) None fs;
     v4 \<leftarrow> get ''reason'' dec_str [] fs;
     v5 \<leftarrow> get ''message'' dec_str [] fs;
     Some \<lparr>co_Type = v0,
       co_Status = v1,
       co_ObservedGeneration = v2,
       co_LastTransitionTime = v3,
       co_Reason = v4,
       co_Message = v5\<rparr>
   }"

definition norm_condition :: "condition \<Rightarrow> condition" where
  "norm_condition x = x"

definition enc_paramKind :: "json_style \<Rightarrow> paramKind \<Rightarrow> json" where
  "enc_paramKind style x = JObj
    (fld ''apiVersion'' (omits style \<and> pk_APIVersion x = []) (JStr (pk_APIVersion x)) @
     fld ''kind'' (omits style \<and> pk_Kind x = []) (JStr (pk_Kind x)))"

definition dec_paramKind :: "json \<Rightarrow> paramKind option" where
  "dec_paramKind j = do {
     fs \<leftarrow> obj_fields j;
     v0 \<leftarrow> get ''apiVersion'' dec_str [] fs;
     v1 \<leftarrow> get ''kind'' dec_str [] fs;
     Some \<lparr>pk_APIVersion = v0,
       pk_Kind = v1\<rparr>
   }"

definition norm_paramKind :: "paramKind \<Rightarrow> paramKind" where
  "norm_paramKind x = x"

definition enc_validation :: "validation \<Rightarrow> json" where
  "enc_validation x = JObj
    (fld ''expression'' False (JStr (va_Expression x)) @
     fld ''message'' (va_Message x = []) (JStr (va_Message x)) @
     fld ''reason'' (va_Reason x = None) (enc_ptr JStr (va_Reason x)) @
     fld ''messageExpression'' (va_MessageExpression x = []) (JStr (va_MessageExpression x)))"

definition dec_validation :: "json \<Rightarrow> validation option" where
  "dec_validation j = do {
     fs \<leftarrow> obj_fields j;
     v0 \<leftarrow> get ''expression'' dec_str [] fs;
     v1 \<leftarrow> get ''message'' dec_str [] fs;
     v2 \<leftarrow> get ''reason'' (dec_ptr dec_str) None fs;
     v3 \<leftarrow> get ''messageExpression'' dec_str [] fs;
     Some \<lparr>va_Expression = v0,
       va_Message = v1,
       va_Reason = v2,
       va_MessageExpression = v3\<rparr>
   }"

definition norm_validation :: "validation \<Rightarrow> validation" where
  "norm_validation x = x"

definition enc_auditAnnotation :: "auditAnnotation \<Rightarrow> json" where
  "enc_auditAnnotation x = JObj
    (fld ''key'' False (JStr (aa_Key x)) @
     fld ''valueExpression'' False (JStr (aa_ValueExpression x)))"

definition dec_auditAnnotation :: "json \<Rightarrow> auditAnnotation option" where
  "dec_auditAnnotation j = do {
     fs \<leftarrow> obj_fields j;
     v0 \<leftarrow> get ''key'' dec_str [] fs;
     v1 \<leftarrow> get ''valueExpression'' dec_str [] fs;
     Some \<lparr>aa_Key = v0,
       aa_ValueExpression = v1\<rparr>
   }"

definition norm_auditAnnotation :: "auditAnnotation \<Rightarrow> auditAnnotation" where
  "norm_auditAnnotation x = x"

definition enc_matchCondition :: "matchCondition \<Rightarrow> json" where
  "enc_matchCondition x = JObj
    (fld ''name'' False (JStr (mc_Name x)) @
     fld ''expression'' False (JStr (mc_Expression x)))"

definition dec_matchCondition :: "json \<Rightarrow> matchCondition option" where
  "dec_matchCondition j = do {
     fs \<leftarrow> obj_fields j;
     v0 \<leftarrow> get ''name'' dec_str [] fs;
     v1 \<leftarrow> get ''expression'' dec_str [] fs;
     Some \<lparr>mc_Name = v0,
       mc_Expression = v1\<rparr>
   }"

definition norm_matchCondition :: "matchCondition \<Rightarrow> matchCondition" where
  "norm_matchCondition x = x"

definition enc_namedRule :: "namedRuleWithOperations \<Rightarrow> json" where
  "enc_namedRule x = JObj
    (fld ''resourceNames'' (elems (nr_ResourceNames x) = []) (enc_slice JStr (nr_ResourceNames x)) @
     fld ''operations'' (elems (nr_Operations x) = []) (enc_slice JStr (nr_Operations x)) @
     fld ''apiGroups'' (elems (nr_APIGroups x) = []) (enc_slice JStr (nr_APIGroups x)) @
     fld ''apiVersions'' (elems (nr_APIVersions x) = []) (enc_slice JStr (nr_APIVersions x)) @
     fld ''resources'' (elems (nr_Resources x) = []) (enc_slice JStr (nr_Resources x)) @
     fld ''scope'' (nr_Scope x = None) (enc_ptr JStr (nr_Scope x)))"

definition dec_namedRule :: "json \<Rightarrow> namedRuleWithOperations option" where
  "dec_namedRule j = do {
     fs \<leftarrow> obj_fields j;
     v0 \<leftarrow> get ''resourceNames'' (dec_slice dec_str) None fs;
     v1 \<leftarrow> get ''operations'' (dec_slice dec_str) None fs;
     v2 \<leftarrow> get ''apiGroups'' (dec_slice dec_str) None fs;
     v3 \<leftarrow> get ''apiVersions'' (dec_slice dec_str) None fs;
     v4 \<leftarrow> get ''resources'' (dec_slice dec_str) None fs;
     v5 \<leftarrow> get ''scope'' (dec_ptr dec_str) None fs;
     Some \<lparr>nr_ResourceNames = v0,
       nr_Operations = v1,
       nr_APIGroups = v2,
       nr_APIVersions = v3,
       nr_Resources = v4,
       nr_Scope = v5\<rparr>
   }"

definition norm_namedRule :: "namedRuleWithOperations \<Rightarrow> namedRuleWithOperations" where
  "norm_namedRule x = x\<lparr>nr_ResourceNames := norm_slice (\<lambda>x. x) (nr_ResourceNames x),
     nr_Operations := norm_slice (\<lambda>x. x) (nr_Operations x),
     nr_APIGroups := norm_slice (\<lambda>x. x) (nr_APIGroups x),
     nr_APIVersions := norm_slice (\<lambda>x. x) (nr_APIVersions x),
     nr_Resources := norm_slice (\<lambda>x. x) (nr_Resources x)\<rparr>"

definition enc_matchResources :: "matchResources \<Rightarrow> json" where
  "enc_matchResources x = JObj
    (fld ''namespaceSelector'' (mr_NamespaceSelector x = None) (enc_ptr enc_labelSelector (mr_NamespaceSelector x)) @
     fld ''objectSelector'' (mr_ObjectSelector x = None) (enc_ptr enc_labelSelector (mr_ObjectSelector x)) @
     fld ''resourceRules'' (elems (mr_ResourceRules x) = []) (enc_slice enc_namedRule (mr_ResourceRules x)) @
     fld ''excludeResourceRules'' (elems (mr_ExcludeResourceRules x) = []) (enc_slice enc_namedRule (mr_ExcludeResourceRules x)) @
     fld ''matchPolicy'' (mr_MatchPolicy x = None) (enc_ptr JStr (mr_MatchPolicy x)))"

definition dec_matchResources :: "json \<Rightarrow> matchResources option" where
  "dec_matchResources j = do {
     fs \<leftarrow> obj_fields j;
     v0 \<leftarrow> get ''namespaceSelector'' (dec_ptr dec_labelSelector) None fs;
     v1 \<leftarrow> get ''objectSelector'' (dec_ptr dec_labelSelector) None fs;
     v2 \<leftarrow> get ''resourceRules'' (dec_slice dec_namedRule) None fs;
     v3 \<leftarrow> get ''excludeResourceRules'' (dec_slice dec_namedRule) None fs;
     v4 \<leftarrow> get ''matchPolicy'' (dec_ptr dec_str) None fs;
     Some \<lparr>mr_NamespaceSelector = v0,
       mr_ObjectSelector = v1,
       mr_ResourceRules = v2,
       mr_ExcludeResourceRules = v3,
       mr_MatchPolicy = v4\<rparr>
   }"

definition norm_matchResources :: "matchResources \<Rightarrow> matchResources" where
  "norm_matchResources x = x\<lparr>mr_NamespaceSelector := map_option norm_labelSelector (mr_NamespaceSelector x),
     mr_ObjectSelector := map_option norm_labelSelector (mr_ObjectSelector x),
     mr_ResourceRules := norm_slice norm_namedRule (mr_ResourceRules x),
     mr_ExcludeResourceRules := norm_slice norm_namedRule (mr_ExcludeResourceRules x)\<rparr>"

definition enc_policySpec :: "json_style \<Rightarrow> validatingAdmissionPolicySpec \<Rightarrow> json" where
  "enc_policySpec style x = JObj
    (fld ''paramKind'' (ps_ParamKind x = None) (enc_ptr (enc_paramKind style) (ps_ParamKind x)) @
     fld ''matchConstraints'' (omits style \<and> ps_MatchConstraints x = None) (enc_ptr enc_matchResources (ps_MatchConstraints x)) @
     fld ''validations'' (elems (ps_Validations x) = []) (enc_slice enc_validation (ps_Validations x)) @
     fld ''failurePolicy'' (ps_FailurePolicy x = None) (enc_ptr JStr (ps_FailurePolicy x)) @
     fld ''auditAnnotations'' (elems (ps_AuditAnnotations x) = []) (enc_slice enc_auditAnnotation (ps_AuditAnnotations x)) @
     fld ''matchConditions'' (elems (ps_MatchConditions x) = []) (enc_slice enc_matchCondition (ps_MatchConditions x)))"

definition dec_policySpec :: "json \<Rightarrow> validatingAdmissionPolicySpec option" where
  "dec_policySpec j = do {
     fs \<leftarrow> obj_fields j;
     v0 \<leftarrow> get ''paramKind'' (dec_ptr dec_paramKind) None fs;
     v1 \<leftarrow> get ''matchConstraints'' (dec_ptr dec_matchResources) None fs;
     v2 \<leftarrow> get ''validations'' (dec_slice dec_validation) None fs;
     v3 \<leftarrow> get ''failurePolicy'' (dec_ptr dec_str) None fs;
     v4 \<leftarrow> get ''auditAnnotations'' (dec_slice dec_auditAnnotation) None fs;
     v5 \<leftarrow> get ''matchConditions'' (dec_slice dec_matchCondition) None fs;
     Some \<lparr>ps_ParamKind = v0,
       ps_MatchConstraints = v1,
       ps_Validations = v2,
       ps_FailurePolicy = v3,
       ps_AuditAnnotations = v4,
       ps_MatchConditions = v5\<rparr>
   }"

definition norm_policySpec :: "validatingAdmissionPolicySpec \<Rightarrow> validatingAdmissionPolicySpec" where
  "norm_policySpec x = x\<lparr>ps_ParamKind := map_option norm_paramKind (ps_ParamKind x),
     ps_MatchConstraints := map_option norm_matchResources (ps_MatchConstraints x),
     ps_Validations := norm_slice norm_validation (ps_Validations x),
     ps_AuditAnnotations := norm_slice norm_auditAnnotation (ps_AuditAnnotations x),
     ps_MatchConditions := norm_slice norm_matchCondition (ps_MatchConditions x)\<rparr>"

definition enc_expressionWarning :: "expressionWarning \<Rightarrow> json" where
  "enc_expressionWarning x = JObj
    (fld ''fieldRef'' False (JStr (ew_FieldRef x)) @
     fld ''warning'' False (JStr (ew_Warning x)))"

definition dec_expressionWarning :: "json \<Rightarrow> expressionWarning option" where
  "dec_expressionWarning j = do {
     fs \<leftarrow> obj_fields j;
     v0 \<leftarrow> get ''fieldRef'' dec_str [] fs;
     v1 \<leftarrow> get ''warning'' dec_str [] fs;
     Some \<lparr>ew_FieldRef = v0,
       ew_Warning = v1\<rparr>
   }"

definition norm_expressionWarning :: "expressionWarning \<Rightarrow> expressionWarning" where
  "norm_expressionWarning x = x"

definition enc_typeChecking :: "typeChecking \<Rightarrow> json" where
  "enc_typeChecking x = JObj
    (fld ''expressionWarnings'' (elems (tc_ExpressionWarnings x) = []) (enc_slice enc_expressionWarning (tc_ExpressionWarnings x)))"

definition dec_typeChecking :: "json \<Rightarrow> typeChecking option" where
  "dec_typeChecking j = do {
     fs \<leftarrow> obj_fields j;
     v0 \<leftarrow> get ''expressionWarnings'' (dec_slice dec_expressionWarning) None fs;
     Some \<lparr>tc_ExpressionWarnings = v0\<rparr>
   }"

definition norm_typeChecking :: "typeChecking \<Rightarrow> typeChecking" where
  "norm_typeChecking x = x\<lparr>tc_ExpressionWarnings := norm_slice norm_expressionWarning (tc_ExpressionWarnings x)\<rparr>"

definition enc_policyStatus :: "validatingAdmissionPolicyStatus \<Rightarrow> json" where
  "enc_policyStatus x = JObj
    (fld ''observedGeneration'' (pst_ObservedGeneration x = 0) (JInt (pst_ObservedGeneration x)) @
     fld ''typeChecking'' (pst_TypeChecking x = None) (enc_ptr enc_typeChecking (pst_TypeChecking x)) @
     fld ''conditions'' (elems (pst_Conditions x) = []) (enc_slice enc_condition (pst_Conditions x)))"

definition dec_policyStatus :: "json \<Rightarrow> validatingAdmissionPolicyStatus option" where
  "dec_policyStatus j = do {
     fs \<leftarrow> obj_fields j;
     v0 \<leftarrow> get ''observedGeneration'' dec_int 0 fs;
     v1 \<leftarrow> get ''typeChecking'' (dec_ptr dec_typeChecking) None fs;
     v2 \<leftarrow> get ''conditions'' (dec_slice dec_condition) None fs;
     Some \<lparr>pst_ObservedGeneration = v0,
       pst_TypeChecking = v1,
       pst_Conditions = v2\<rparr>
   }"

definition norm_policyStatus :: "validatingAdmissionPolicyStatus \<Rightarrow> validatingAdmissionPolicyStatus" where
  "norm_policyStatus x = x\<lparr>pst_TypeChecking := map_option norm_typeChecking (pst_TypeChecking x),
     pst_Conditions := norm_slice norm_condition (pst_Conditions x)\<rparr>"

definition enc_paramRef :: "paramRef \<Rightarrow> json" where
  "enc_paramRef x = JObj
    (fld ''name'' (pref_Name x = []) (JStr (pref_Name x)) @
     fld ''namespace'' (pref_Namespace x = []) (JStr (pref_Namespace x)))"

definition dec_paramRef :: "json \<Rightarrow> paramRef option" where
  "dec_paramRef j = do {
     fs \<leftarrow> obj_fields j;
     v0 \<leftarrow> get ''name'' dec_str [] fs;
     v1 \<leftarrow> get ''namespace'' dec_str [] fs;
     Some \<lparr>pref_Name = v0,
       pref_Namespace = v1\<rparr>
   }"

definition norm_paramRef :: "paramRef \<Rightarrow> paramRef" where
  "norm_paramRef x = x"

definition enc_bindingSpec :: "json_style \<Rightarrow> validatingAdmissionPolicyBindingSpec \<Rightarrow> json" where
  "enc_bindingSpec style x = JObj
    (fld ''policyName'' (omits style \<and> bs_PolicyName x = []) (JStr (bs_PolicyName x)) @
     fld ''paramRef'' (bs_ParamRef x = None) (enc_ptr enc_paramRef (bs_ParamRef x)) @
     fld ''matchResources'' (bs_MatchResources x = None) (enc_ptr enc_matchResources (bs_MatchResources x)) @
     fld ''validationActions'' (elems (bs_ValidationActions x) = []) (enc_slice JStr (bs_ValidationActions x)))"

definition dec_bindingSpec :: "json \<Rightarrow> validatingAdmissionPolicyBindingSpec option" where
  "dec_bindingSpec j = do {
     fs \<leftarrow> obj_fields j;
     v0 \<leftarrow> get ''policyName'' dec_str [] fs;
     v1 \<leftarrow> get ''paramRef'' (dec_ptr dec_paramRef) None fs;
     v2 \<leftarrow> get ''matchResources'' (dec_ptr dec_matchResources) None fs;
     v3 \<leftarrow> get ''validationActions'' (dec_slice dec_str) None fs;
     Some \<lparr>bs_PolicyName = v0,
       bs_ParamRef = v1,
       bs_MatchResources = v2,
       bs_ValidationActions = v3\<rparr>
   }"

definition norm_bindingSpec :: "validatingAdmissionPolicyBindingSpec \<Rightarrow> validatingAdmissionPolicyBindingSpec" where
  "norm_bindingSpec x = x\<lparr>bs_ParamRef := map_option norm_paramRef (bs_ParamRef x),
     bs_MatchResources := map_option norm_matchResources (bs_MatchResources x),
     bs_ValidationActions := norm_slice (\<lambda>x. x) (bs_ValidationActions x)\<rparr>"

section \<open>The codec interface\<close>

interpretation ownerReference: json_codec enc_ownerReference dec_ownerReference norm_ownerReference
  by unfold_locales
     (simp_all add: enc_ownerReference_def dec_ownerReference_def norm_ownerReference_def
       codec_simps str.codec bool.codec)

interpretation managedFieldsEntry: json_codec enc_managedFieldsEntry dec_managedFieldsEntry norm_managedFieldsEntry
  by unfold_locales
     (simp_all add: enc_managedFieldsEntry_def dec_managedFieldsEntry_def norm_managedFieldsEntry_def
       codec_simps str.codec)

interpretation objectMeta: json_codec enc_objectMeta dec_objectMeta norm_objectMeta
  by unfold_locales
     (simp_all add: enc_objectMeta_def dec_objectMeta_def norm_objectMeta_def
       codec_simps str.codec int.codec ownerReference.codec managedFieldsEntry.codec)

interpretation labelSelectorRequirement: json_codec enc_labelSelectorRequirement dec_labelSelectorRequirement norm_labelSelectorRequirement
  by unfold_locales
     (simp_all add: enc_labelSelectorRequirement_def dec_labelSelectorRequirement_def norm_labelSelectorRequirement_def
       codec_simps str.codec)

interpretation labelSelector: json_codec enc_labelSelector dec_labelSelector norm_labelSelector
  by unfold_locales
     (simp_all add: enc_labelSelector_def dec_labelSelector_def norm_labelSelector_def
       codec_simps labelSelectorRequirement.codec)

interpretation condition: json_codec enc_condition dec_condition norm_condition
  by unfold_locales
     (simp_all add: enc_condition_def dec_condition_def norm_condition_def
       codec_simps str.codec)

interpretation validation: json_codec enc_validation dec_validation norm_validation
  by unfold_locales
     (simp_all add: enc_validation_def dec_validation_def norm_validation_def
       codec_simps str.codec)

interpretation auditAnnotation: json_codec enc_auditAnnotation dec_auditAnnotation norm_auditAnnotation
  by unfold_locales
     (simp_all add: enc_auditAnnotation_def dec_auditAnnotation_def norm_auditAnnotation_def
       codec_simps str.codec)

interpretation matchCondition: json_codec enc_matchCondition dec_matchCondition norm_matchCondition
  by unfold_locales
     (simp_all add: enc_matchCondition_def dec_matchCondition_def norm_matchCondition_def
       codec_simps str.codec)

interpretation namedRule: json_codec enc_namedRule dec_namedRule norm_namedRule
  by unfold_locales
     (simp_all add: enc_namedRule_def dec_namedRule_def norm_namedRule_def
       codec_simps str.codec)

interpretation matchResources: json_codec enc_matchResources dec_matchResources norm_matchResources
  by unfold_locales
     (simp_all add: enc_matchResources_def dec_matchResources_def norm_matchResources_def
       codec_simps str.codec labelSelector.codec namedRule.codec)

interpretation expressionWarning: json_codec enc_expressionWarning dec_expressionWarning norm_expressionWarning
  by unfold_locales
     (simp_all add: enc_expressionWarning_def dec_expressionWarning_def norm_expressionWarning_def
       codec_simps str.codec)

interpretation typeChecking: json_codec enc_typeChecking dec_typeChecking norm_typeChecking
  by unfold_locales
     (simp_all add: enc_typeChecking_def dec_typeChecking_def norm_typeChecking_def
       codec_simps expressionWarning.codec)

interpretation policyStatus: json_codec enc_policyStatus dec_policyStatus norm_policyStatus
  by unfold_locales
     (simp_all add: enc_policyStatus_def dec_policyStatus_def norm_policyStatus_def
       codec_simps typeChecking.codec condition.codec)

interpretation paramRef: json_codec enc_paramRef dec_paramRef norm_paramRef
  by unfold_locales
     (simp_all add: enc_paramRef_def dec_paramRef_def norm_paramRef_def
       codec_simps str.codec)

interpretation paramKind: json_codec "enc_paramKind style" dec_paramKind norm_paramKind for style
  by unfold_locales
     (cases style; simp add: enc_paramKind_def dec_paramKind_def norm_paramKind_def
       codec_simps str.codec)+

interpretation policySpec: json_codec "enc_policySpec style" dec_policySpec norm_policySpec for style
  by unfold_locales
     (cases style; simp add: enc_policySpec_def dec_policySpec_def norm_policySpec_def
       codec_simps str.codec paramKind.codec matchResources.codec validation.codec auditAnnotation.codec matchCondition.codec)+

interpretation bindingSpec: json_codec "enc_bindingSpec style" dec_bindingSpec norm_bindingSpec for style
  by unfold_locales
     (cases style; simp add: enc_bindingSpec_def dec_bindingSpec_def norm_bindingSpec_def
       codec_simps str.codec paramRef.codec matchResources.codec)+

end
