(* ===== verification/Transformed_Client.thy ===== *)
theory Transformed_Client
  imports Policy_Types "HOL-Library.List_Lexorder" "HOL-Library.Char_ord"
begin

text \<open>
  The typed client of \<open>pkg/controller/transformed_client.go\<close>, which offers objects of one type (the
  target) and keeps objects of another (the replacement), converting on every call; and what it is
  for: over a client that keeps the contract of an object store for replacement objects, it keeps that
  contract for target objects.
\<close>

section \<open>Clients\<close>

text \<open>Pointers and errors come in pairs, as the Go functions return them.\<close>

type_synonym 'a result = "'a option \<times> go_error option"

record 'a klist =
  kl_ListMeta :: listMeta
  kl_Items :: "'a slice"

datatype ('t, 'r) watch_obj = TargetObj "'t option" | ReplacementObj 'r | OtherObj string

record ('t, 'r) event =
  ev_Type :: string
  ev_Object :: "('t, 'r) watch_obj"

datatype 'a outcome = Panics string | Returns 'a

text \<open>
  A client of objects of type \<open>'x\<close> with call options \<open>'o\<close>, over the state \<open>'w\<close> of the server; a call
  may panic. \<open>UpdateStatus\<close> is there only for clients that implement \<open>ClientInterfaceWithStatus\<close>. A
  watch is the sequence of its events.
\<close>

record ('x, 't, 'o, 'w) client =
  cl_Create :: "'x option \<Rightarrow> 'o \<Rightarrow> 'w \<Rightarrow> ('x result \<times> 'w) outcome"
  cl_Update :: "'x option \<Rightarrow> 'o \<Rightarrow> 'w \<Rightarrow> ('x result \<times> 'w) outcome"
  cl_UpdateStatus :: "('x option \<Rightarrow> 'o \<Rightarrow> 'w \<Rightarrow> ('x result \<times> 'w) outcome) option"
  cl_Delete :: "string \<Rightarrow> 'o \<Rightarrow> 'w \<Rightarrow> (go_error option \<times> 'w) outcome"
  cl_DeleteCollection :: "'o \<Rightarrow> 'o \<Rightarrow> 'w \<Rightarrow> (go_error option \<times> 'w) outcome"
  cl_Get :: "string \<Rightarrow> 'o \<Rightarrow> 'w \<Rightarrow> ('x result \<times> 'w) outcome"
  cl_List :: "'o \<Rightarrow> 'w \<Rightarrow> ('x klist result \<times> 'w) outcome"
  cl_Watch :: "'o \<Rightarrow> 'w \<Rightarrow> (('t, 'x) event list result \<times> 'w) outcome"

record ('t, 'r, 'o, 'w) transformedClient =
  tc_ReplacementClient :: "('r, 't, 'o, 'w) client"
  tc_To :: "'r option \<Rightarrow> 't result"
  tc_From :: "'t option \<Rightarrow> 'r result"

section \<open>Operations\<close>

text \<open>The tail of every call that returns an object: fail on error, otherwise convert.\<close>

definition convert_result :: "('r option \<Rightarrow> 't result) \<Rightarrow> 'r result \<Rightarrow> 't result" where
  "convert_result to res =
     (case res of
        (_, Some err) \<Rightarrow> (None, Some err)
      | (replacementValue, None) \<Rightarrow>
          (case to replacementValue of
             (_, Some err) \<Rightarrow> (None, Some err)
           | (convertedResult, None) \<Rightarrow> (convertedResult, None)))"

definition convert_outcome ::
  "('r option \<Rightarrow> 't result) \<Rightarrow> ('r result \<times> 'w) outcome \<Rightarrow> ('t result \<times> 'w) outcome" where
  "convert_outcome to out =
     (case out of
        Panics s \<Rightarrow> Panics s
      | Returns (res, w') \<Rightarrow> Returns (convert_result to res, w'))"

definition tc_Create ::
  "('t, 'r, 'o, 'w) transformedClient \<Rightarrow> 't option \<Rightarrow> 'o \<Rightarrow> 'w \<Rightarrow> ('t result \<times> 'w) outcome" where
  "tc_Create c object opts w =
     (case tc_From c object of
        (_, Some err) \<Rightarrow> Returns ((None, Some err), w)
      | (converted, None) \<Rightarrow>
          convert_outcome (tc_To c) (cl_Create (tc_ReplacementClient c) converted opts w))"

definition tc_Update ::
  "('t, 'r, 'o, 'w) transformedClient \<Rightarrow> 't option \<Rightarrow> 'o \<Rightarrow> 'w \<Rightarrow> ('t result \<times> 'w) outcome" where
  "tc_Update c object opts w =
     (case tc_From c object of
        (_, Some err) \<Rightarrow> Returns ((None, Some err), w)
      | (converted, None) \<Rightarrow>
          convert_outcome (tc_To c) (cl_Update (tc_ReplacementClient c) converted opts w))"

text \<open>The type assertion on the replacement client panics when it has no \<open>UpdateStatus\<close>.\<close>

definition tc_UpdateStatus ::
  "('t, 'r, 'o, 'w) transformedClient \<Rightarrow> 't option \<Rightarrow> 'o \<Rightarrow> 'w \<Rightarrow> ('t result \<times> 'w) outcome" where
  "tc_UpdateStatus c object opts w =
     (case tc_From c object of
        (_, Some err) \<Rightarrow> Returns ((None, Some err), w)
      | (converted, None) \<Rightarrow>
          (case cl_UpdateStatus (tc_ReplacementClient c) of
             None \<Rightarrow> Panics ''interface conversion''
           | Some updateStatus \<Rightarrow> convert_outcome (tc_To c) (updateStatus converted opts w)))"

definition tc_Delete ::
  "('t, 'r, 'o, 'w) transformedClient \<Rightarrow> string \<Rightarrow> 'o \<Rightarrow> 'w \<Rightarrow> (go_error option \<times> 'w) outcome" where
  "tc_Delete c name opts w = cl_Delete (tc_ReplacementClient c) name opts w"

definition tc_DeleteCollection ::
  "('t, 'r, 'o, 'w) transformedClient \<Rightarrow> 'o \<Rightarrow> 'o \<Rightarrow> 'w \<Rightarrow> (go_error option \<times> 'w) outcome" where
  "tc_DeleteCollection c opts listOpts w =
     cl_DeleteCollection (tc_ReplacementClient c) opts listOpts w"

definition tc_Get ::
  "('t, 'r, 'o, 'w) transformedClient \<Rightarrow> string \<Rightarrow> 'o \<Rightarrow> 'w \<Rightarrow> ('t result \<times> 'w) outcome" where
  "tc_Get c name opts w = convert_outcome (tc_To c) (cl_Get (tc_ReplacementClient c) name opts w)"

text \<open>\<open>getItems\<close> and \<open>listWithItems\<close>: only the items of a list are carried over.\<close>

definition getItems :: "'r klist \<Rightarrow> 'r slice" where
  "getItems l = kl_Items l"

definition listWithItems :: "'t list \<Rightarrow> 't klist" where
  "listWithItems items =
     \<lparr>kl_ListMeta = \<lparr>lm_SelfLink = [], lm_ResourceVersion = [], lm_Continue = [],
        lm_RemainingItemCount = None\<rparr>,
      kl_Items = Some items\<rparr>"

fun convert_items :: "('r option \<Rightarrow> 't result) \<Rightarrow> 'r list \<Rightarrow> (go_error + 't list) outcome" where
  "convert_items to [] = Returns (Inr [])"
| "convert_items to (v # vs) =
     (case to (Some v) of
        (_, Some err) \<Rightarrow> Returns (Inl err)
      | (None, None) \<Rightarrow> Panics ''nil pointer dereference''
      | (Some converted, None) \<Rightarrow>
          (case convert_items to vs of
             Panics s \<Rightarrow> Panics s
           | Returns (Inl err) \<Rightarrow> Returns (Inl err)
           | Returns (Inr items) \<Rightarrow> Returns (Inr (converted # items))))"

definition tc_List ::
  "('t, 'r, 'o, 'w) transformedClient \<Rightarrow> 'o \<Rightarrow> 'w \<Rightarrow> ('t klist result \<times> 'w) outcome" where
  "tc_List c opts w =
     (case cl_List (tc_ReplacementClient c) opts w of
        Panics s \<Rightarrow> Panics s
      | Returns ((_, Some err), w') \<Rightarrow> Returns ((None, Some err), w')
      | Returns ((None, None), w') \<Rightarrow> Panics ''reflect: call of reflect.Value.FieldByName on zero Value''
      | Returns ((Some value, None), w') \<Rightarrow>
          (case convert_items (tc_To c) (elems (getItems value)) of
             Panics s \<Rightarrow> Panics s
           | Returns (Inl err) \<Rightarrow> Returns ((None, Some err), w')
           | Returns (Inr newItems) \<Rightarrow> Returns ((Some (listWithItems newItems), None), w')))"

text \<open>
  \<open>Watch\<close>: replacement objects are converted, an event that does not convert is dropped, and other
  objects (status and bookmark events of other types) pass.
\<close>

definition watch_filter ::
  "('r option \<Rightarrow> 't result) \<Rightarrow> ('t, 'r) event \<Rightarrow> ('t, 'r) event list" where
  "watch_filter to inn =
     (case ev_Object inn of
        ReplacementObj asR \<Rightarrow>
          (case to (Some asR) of
             (_, Some err) \<Rightarrow> []
           | (converted, None) \<Rightarrow> [inn\<lparr>ev_Object := TargetObj converted\<rparr>])
      | _ \<Rightarrow> [inn])"

definition tc_Watch ::
  "('t, 'r, 'o, 'w) transformedClient \<Rightarrow> 'o \<Rightarrow> 'w \<Rightarrow> (('t, 'r) event list result \<times> 'w) outcome" where
  "tc_Watch c opts w =
     (case cl_Watch (tc_ReplacementClient c) opts w of
        Panics s \<Rightarrow> Panics s
      | Returns ((_, Some err), w') \<Rightarrow> Returns ((None, Some err), w')
      | Returns ((watcher, None), w') \<Rightarrow>
          Returns ((map_option (\<lambda>evs. concat (map (watch_filter (tc_To c)) evs)) watcher, None), w'))"

definition tc_Patch :: "('t, 'r, 'o, 'w) transformedClient \<Rightarrow> string \<Rightarrow> 'w \<Rightarrow> ('t result \<times> 'w) outcome" where
  "tc_Patch c name w = Panics ''transform patch unsupported''"

definition tc_Apply :: "('t, 'r, 'o, 'w) transformedClient \<Rightarrow> 'w \<Rightarrow> ('t result \<times> 'w) outcome" where
  "tc_Apply c w = Panics ''transform apply unsupported''"

definition tc_ApplyStatus :: "('t, 'r, 'o, 'w) transformedClient \<Rightarrow> 'w \<Rightarrow> ('t result \<times> 'w) outcome" where
  "tc_ApplyStatus c w = Panics ''transform applystatus unsupported''"

section \<open>The contract of an object store\<close>

text \<open>
  The specification of what a typed API offers its clients: objects under unique names, listed
  by name. \<open>admit\<close> is the form in which an object is stored, \<open>api_errors\<close> the errors for a name
  that is taken and for one that is not.
\<close>

type_synonym 'x objects = "string \<rightharpoonup> 'x"

record api_errors =
  ae_exists :: "string \<Rightarrow> go_error"
  ae_missing :: "string \<Rightarrow> go_error"

text \<open>Calls, and what a caller sees of their answers: with an error, nothing else.\<close>

datatype 'x call =
    CallCreate 'x
  | CallUpdate 'x
  | CallGet string
  | CallDelete string
  | CallList

datatype 'x reply =
    ReplyObj "'x option"
  | ReplyDone
  | ReplyErr go_error
  | ReplyItems "'x list"
  | ReplyPanic

fun spec_call ::
  "('x \<Rightarrow> string) \<Rightarrow> ('x \<Rightarrow> 'x) \<Rightarrow> api_errors \<Rightarrow> 'x call \<Rightarrow> 'x objects \<Rightarrow> 'x reply \<times> 'x objects" where
  "spec_call key admit errs (CallCreate x) m =
     (if m (key x) \<noteq> None then (ReplyErr (ae_exists errs (key x)), m)
      else (ReplyObj (Some (admit x)), m(key x \<mapsto> admit x)))"
| "spec_call key admit errs (CallUpdate x) m =
     (if m (key x) = None then (ReplyErr (ae_missing errs (key x)), m)
      else (ReplyObj (Some (admit x)), m(key x \<mapsto> admit x)))"
| "spec_call key admit errs (CallGet n) m =
     (case m n of None \<Rightarrow> (ReplyErr (ae_missing errs n), m) | Some x \<Rightarrow> (ReplyObj (Some x), m))"
| "spec_call key admit errs (CallDelete n) m =
     (if m n = None then (ReplyErr (ae_missing errs n), m) else (ReplyDone, m(n := None)))"
| "spec_call key admit errs CallList m =
     (ReplyItems (map (\<lambda>n. the (m n)) (sorted_list_of_set (dom m))), m)"

definition reply_of :: "'x result \<times> 'w \<Rightarrow> 'x reply \<times> 'w" where
  "reply_of r = (case r of ((_, Some e), w) \<Rightarrow> (ReplyErr e, w) | ((p, None), w) \<Rightarrow> (ReplyObj p, w))"

definition reply_done :: "go_error option \<times> 'w \<Rightarrow> 'x reply \<times> 'w" where
  "reply_done r = (case r of (Some e, w) \<Rightarrow> (ReplyErr e, w) | (None, w) \<Rightarrow> (ReplyDone, w))"

definition reply_items :: "'w \<Rightarrow> 'x klist result \<times> 'w \<Rightarrow> 'x reply \<times> 'w" where
  "reply_items w0 r =
     (case r of
        ((_, Some e), w) \<Rightarrow> (ReplyErr e, w)
      | ((Some l, None), w) \<Rightarrow> (ReplyItems (elems (kl_Items l)), w)
      | ((None, None), w) \<Rightarrow> (ReplyPanic, w0))"

definition reply_unless_panic :: "('a \<Rightarrow> 'x reply \<times> 'w) \<Rightarrow> 'w \<Rightarrow> 'a outcome \<Rightarrow> 'x reply \<times> 'w" where
  "reply_unless_panic f w out = (case out of Panics s \<Rightarrow> (ReplyPanic, w) | Returns r \<Rightarrow> f r)"

fun client_call :: "('x, 't, 'o, 'w) client \<Rightarrow> 'o \<Rightarrow> 'x call \<Rightarrow> 'w \<Rightarrow> 'x reply \<times> 'w" where
  "client_call c opts (CallCreate x) w = reply_unless_panic reply_of w (cl_Create c (Some x) opts w)"
| "client_call c opts (CallUpdate x) w = reply_unless_panic reply_of w (cl_Update c (Some x) opts w)"
| "client_call c opts (CallGet n) w = reply_unless_panic reply_of w (cl_Get c n opts w)"
| "client_call c opts (CallDelete n) w = reply_unless_panic reply_done w (cl_Delete c n opts w)"
| "client_call c opts CallList w = reply_unless_panic (reply_items w) w (cl_List c opts w)"

fun tc_call ::
  "('t, 'r, 'o, 'w) transformedClient \<Rightarrow> 'o \<Rightarrow> 't call \<Rightarrow> 'w \<Rightarrow> 't reply \<times> 'w" where
  "tc_call c opts (CallCreate x) w = reply_unless_panic reply_of w (tc_Create c (Some x) opts w)"
| "tc_call c opts (CallUpdate x) w = reply_unless_panic reply_of w (tc_Update c (Some x) opts w)"
| "tc_call c opts (CallGet n) w = reply_unless_panic reply_of w (tc_Get c n opts w)"
| "tc_call c opts (CallDelete n) w = reply_unless_panic reply_done w (tc_Delete c n opts w)"
| "tc_call c opts CallList w = reply_unless_panic (reply_items w) w (tc_List c opts w)"

lemmas reply_defs = reply_of_def reply_done_def reply_items_def reply_unless_panic_def

fun run_calls :: "('c \<Rightarrow> 's \<Rightarrow> 'a \<times> 's) \<Rightarrow> 'c list \<Rightarrow> 's \<Rightarrow> 'a list \<times> 's" where
  "run_calls f [] s = ([], s)"
| "run_calls f (c # cs) s =
     (let (a, s') = f c s; (as, s'') = run_calls f cs s' in (a # as, s''))"

text \<open>
  The contract of an implementation with state \<open>'w\<close>: in its good states, every call it accepts gets
  the answer of the specification and has its effect on the objects the state stands for.
\<close>

locale object_api =
  fixes key :: "'x \<Rightarrow> string" and admit :: "'x \<Rightarrow> 'x" and errs :: api_errors
    and accepts :: "'x call \<Rightarrow> bool"
    and call :: "'x call \<Rightarrow> 'w \<Rightarrow> 'x reply \<times> 'w"
    and view :: "'w \<Rightarrow> 'x objects" and good :: "'w \<Rightarrow> bool"
  assumes call_spec:
    "good w \<Longrightarrow> accepts cl \<Longrightarrow> call cl w = (a, w') \<Longrightarrow>
       spec_call key admit errs cl (view w) = (a, view w') \<and> good w'"
begin

lemma calls_agree:
  "good w \<Longrightarrow> list_all accepts cls \<Longrightarrow> run_calls call cls w = (as, w') \<Longrightarrow>
     run_calls (spec_call key admit errs) cls (view w) = (as, view w') \<and> good w'"
proof (induction cls arbitrary: w as)
  case (Cons cl cls)
  obtain a v bs where a: "call cl w = (a, v)" and bs: "run_calls call cls v = (bs, w')" "as = a # bs"
    using Cons.prems(3) by (auto simp: Let_def split: prod.splits)
  have v: "spec_call key admit errs cl (view w) = (a, view v)" "good v"
    using call_spec [OF Cons.prems(1) _ a] Cons.prems(2) by auto
  show ?case using Cons.IH [OF v(2) _ bs(1)] Cons.prems(2) v(1) bs(2) by (simp add: Let_def)
qed simp

lemma reply_agrees:
  assumes "good w" "accepts cl"
  shows "fst (call cl w) = fst (spec_call key admit errs cl (view w))"
  using call_spec [OF assms, of "fst (call cl w)" "snd (call cl w)"] by simp

end

section \<open>The refinement\<close>

text \<open>What a pair of conversions has to offer: both are total on objects, keep nil, and keep names.\<close>

locale conversion =
  fixes to :: "'r option \<Rightarrow> 't result"
    and frm :: "'t option \<Rightarrow> 'r result"
    and fwd :: "'t \<Rightarrow> 'r"
    and bwd :: "'r \<Rightarrow> 't"
    and key_t :: "'t \<Rightarrow> string"
    and key_r :: "'r \<Rightarrow> string"
  assumes to_eq: "to p = (map_option bwd p, None)"
    and frm_eq: "frm q = (map_option fwd q, None)"
    and key_fwd: "key_r (fwd x) = key_t x"
begin

lemma convert_items_to: "convert_items to ys = Returns (Inr (map bwd ys))"
  by (induction ys) (simp_all add: to_eq)

lemma convert_result_to:
  "convert_result to (p, err) = (case err of None \<Rightarrow> (map_option bwd p, None) | Some e \<Rightarrow> (None, Some e))"
  by (simp add: convert_result_def to_eq split: option.split)

text \<open>A call of the transformed client is the converted call with a converted answer.\<close>

lemma convert_outcome_reply:
  "reply_unless_panic reply_of w (convert_outcome to out) =
     map_prod (map_reply bwd) id (reply_unless_panic reply_of w out)"
  by (auto simp: convert_outcome_def convert_result_to reply_defs split: outcome.split prod.split option.split)

lemma tc_call_converts:
  assumes "tc_To c = to" "tc_From c = frm"
  shows "tc_call c opts cl w =
    map_prod (map_reply bwd) id (client_call (tc_ReplacementClient c) opts (map_call fwd cl) w)"
proof (cases cl)
  case (CallDelete n)
  then show ?thesis
    by (auto simp: tc_Delete_def reply_defs split: prod.split option.split outcome.split)
next
  case CallList
  then show ?thesis
    by (auto simp: assms tc_List_def reply_defs getItems_def listWithItems_def convert_items_to
        split: prod.split option.split outcome.split)
qed (simp_all add: assms tc_Create_def tc_Update_def tc_Get_def frm_eq convert_outcome_reply)

text \<open>A watch delivers every event in order, with its object converted.\<close>

lemma watch_filter_to:
  "watch_filter to e =
     [e\<lparr>ev_Object := (case ev_Object e of ReplacementObj y \<Rightarrow> TargetObj (Some (bwd y)) | ob \<Rightarrow> ob)\<rparr>]"
  by (simp add: watch_filter_def to_eq split: watch_obj.split)

lemma watch_filter_all:
  "concat (map (watch_filter to) evs) =
     map (\<lambda>e. e\<lparr>ev_Object := (case ev_Object e of ReplacementObj y \<Rightarrow> TargetObj (Some (bwd y)) | ob \<Rightarrow> ob)\<rparr>) evs"
  by (induction evs) (simp_all add: watch_filter_to)

end

text \<open>The specification commutes with the conversion.\<close>

definition abs_objects :: "('r \<Rightarrow> 't) \<Rightarrow> 'r objects \<Rightarrow> 't objects" where
  "abs_objects bwd m = (\<lambda>n. map_option bwd (m n))"

lemma dom_abs_objects [simp]: "dom (abs_objects bwd m) = dom m"
  by (auto simp: abs_objects_def)

lemma spec_call_abs:
  assumes "\<And>x. key_r (fwd x) = key_t x" and "finite (dom m)"
  shows "spec_call key_t (\<lambda>x. bwd (admit (fwd x))) errs cl (abs_objects bwd m) =
    map_prod (map_reply bwd) (abs_objects bwd) (spec_call key_r admit errs (map_call fwd cl) m)"
proof (cases cl)
  case CallList
  then show ?thesis using assms(2) by (auto simp: abs_objects_def) (auto simp: dom_def)
qed (auto simp: abs_objects_def assms(1) fun_eq_iff split: option.split)

text \<open>
  A client over a client that keeps the contract, for replacement objects, keeps it for target
  objects.
\<close>

locale converted_api = conversion to frm fwd bwd key_t key_r +
  object_api key_r admit errs accepts "client_call (tc_ReplacementClient c) opts" view good
  for to :: "'r option \<Rightarrow> 't result" and frm :: "'t option \<Rightarrow> 'r result" and fwd :: "'t \<Rightarrow> 'r"
    and bwd :: "'r \<Rightarrow> 't" and key_t :: "'t \<Rightarrow> string" and key_r :: "'r \<Rightarrow> string"
    and admit :: "'r \<Rightarrow> 'r" and errs :: api_errors and accepts :: "'r call \<Rightarrow> bool"
    and c :: "('t, 'r, 'o, 'w) transformedClient" and opts :: 'o
    and view :: "'w \<Rightarrow> 'r objects" and good :: "'w \<Rightarrow> bool" +
  assumes conversions: "tc_To c = to" "tc_From c = frm"
    and finitely_many: "good w \<Longrightarrow> finite (dom (view w))"

sublocale converted_api \<subseteq> native: object_api key_t "\<lambda>x. bwd (admit (fwd x))" errs
  "\<lambda>cl. accepts (map_call fwd cl)" "tc_call c opts" "\<lambda>w. abs_objects bwd (view w)" good
proof
  fix w cl a w'
  assume w: "good w" "accepts (map_call fwd cl)" and call: "tc_call c opts cl w = (a, w')"
  obtain b where b: "client_call (tc_ReplacementClient c) opts (map_call fwd cl) w = (b, w')" "a = map_reply bwd b"
    using call tc_call_converts [OF conversions, of opts cl w]
    by (cases "client_call (tc_ReplacementClient c) opts (map_call fwd cl) w") auto
  then show "spec_call key_t (\<lambda>x. bwd (admit (fwd x))) errs cl (abs_objects bwd (view w)) =
      (a, abs_objects bwd (view w')) \<and> good w'"
    using call_spec [OF w b(1)] spec_call_abs [of key_r fwd key_t, OF key_fwd finitely_many [OF w(1)]] by simp
qed

context converted_api
begin

lemma native_api:
  "object_api key_t (\<lambda>x. bwd (admit (fwd x))) errs (\<lambda>cl. accepts (map_call fwd cl)) (tc_call c opts)
     (\<lambda>w. abs_objects bwd (view w)) good"
  by unfold_locales

end

end
