(* ===== verification/Injected_Client.thy ===== *)
theory Injected_Client
  imports Policy_Json Transformed_Client
begin

text \<open>
  The client of \<open>injected_client.go\<close>, which the vendored policy controller is given in place of the
  native one: policies and bindings of the native API are kept as custom resources, converted
  through JSON in both directions.
\<close>

section \<open>JSON of policies and bindings\<close>

text \<open>\<open>TypeMeta\<close> is inlined; the non-pointer structs are always written.\<close>

definition enc_policy :: "json_style \<Rightarrow> validatingAdmissionPolicy \<Rightarrow> json" where
  "enc_policy style x = JObj
    (fld ''kind'' (tm_Kind (vap_TypeMeta x) = []) (JStr (tm_Kind (vap_TypeMeta x))) @
     fld ''apiVersion'' (tm_APIVersion (vap_TypeMeta x) = []) (JStr (tm_APIVersion (vap_TypeMeta x))) @
     fld ''metadata'' False (enc_objectMeta (vap_ObjectMeta x)) @
     fld ''spec'' False (enc_policySpec style (vap_Spec x)) @
     fld ''status'' False (enc_policyStatus (vap_Status x)))"

text \<open>Zero values, for fields a document leaves out.\<close>

definition zero_objectMeta :: objectMeta where
  "zero_objectMeta = \<lparr>om_name = [], om_generateName = [], om_namespace = [], om_selfLink = [],
     om_uid = [], om_resourceVersion = [], om_generation = 0, om_creationTimestamp = None,
     om_deletionTimestamp = None, om_deletionGracePeriodSeconds = None, om_labels = None,
     om_annotations = None, om_ownerReferences = None, om_finalizers = None, om_managedFields = None\<rparr>"

definition zero_policySpec :: validatingAdmissionPolicySpec where
  "zero_policySpec = \<lparr>ps_ParamKind = None, ps_MatchConstraints = None, ps_Validations = None,
     ps_FailurePolicy = None, ps_AuditAnnotations = None, ps_MatchConditions = None\<rparr>"

definition zero_policyStatus :: validatingAdmissionPolicyStatus where
  "zero_policyStatus =
     \<lparr>pst_ObservedGeneration = 0, pst_TypeChecking = None, pst_Conditions = None\<rparr>"

definition zero_bindingSpec :: validatingAdmissionPolicyBindingSpec where
  "zero_bindingSpec =
     \<lparr>bs_PolicyName = [], bs_ParamRef = None, bs_MatchResources = None, bs_ValidationActions = None\<rparr>"

definition dec_policy :: "json \<Rightarrow> validatingAdmissionPolicy option" where
  "dec_policy j = do {
     fs \<leftarrow> obj_fields j;
     kind \<leftarrow> get ''kind'' dec_str [] fs;
     apiVersion \<leftarrow> get ''apiVersion'' dec_str [] fs;
     metadata \<leftarrow> get ''metadata'' dec_objectMeta zero_objectMeta fs;
     spec \<leftarrow> get ''spec'' dec_policySpec zero_policySpec fs;
     status \<leftarrow> get ''status'' dec_policyStatus zero_policyStatus fs;
     Some \<lparr>vap_TypeMeta = \<lparr>tm_Kind = kind, tm_APIVersion = apiVersion\<rparr>, vap_ObjectMeta = metadata,
       vap_Spec = spec, vap_Status = status\<rparr>
   }"

definition enc_binding :: "json_style \<Rightarrow> validatingAdmissionPolicyBinding \<Rightarrow> json" where
  "enc_binding style x = JObj
    (fld ''kind'' (tm_Kind (vapb_TypeMeta x) = []) (JStr (tm_Kind (vapb_TypeMeta x))) @
     fld ''apiVersion'' (tm_APIVersion (vapb_TypeMeta x) = []) (JStr (tm_APIVersion (vapb_TypeMeta x))) @
     fld ''metadata'' False (enc_objectMeta (vapb_ObjectMeta x)) @
     fld ''spec'' False (enc_bindingSpec style (vapb_Spec x)))"

definition dec_binding :: "json \<Rightarrow> validatingAdmissionPolicyBinding option" where
  "dec_binding j = do {
     fs \<leftarrow> obj_fields j;
     kind \<leftarrow> get ''kind'' dec_str [] fs;
     apiVersion \<leftarrow> get ''apiVersion'' dec_str [] fs;
     metadata \<leftarrow> get ''metadata'' dec_objectMeta zero_objectMeta fs;
     spec \<leftarrow> get ''spec'' dec_bindingSpec zero_bindingSpec fs;
     Some \<lparr>vapb_TypeMeta = \<lparr>tm_Kind = kind, tm_APIVersion = apiVersion\<rparr>, vapb_ObjectMeta = metadata,
       vapb_Spec = spec\<rparr>
   }"

section \<open>Conversions\<close>

definition set_version :: "string \<Rightarrow> typeMeta \<Rightarrow> typeMeta" where
  "set_version v tm = (if length (tm_APIVersion tm) > 0 then tm\<lparr>tm_APIVersion := v\<rparr> else tm)"

text \<open>
  \<open>json.Marshal\<close> does not fail on these types. When \<open>Unmarshal\<close> fails the code returns the partly
  filled object, here \<open>partial\<close>, together with the error.
\<close>

definition unmarshal_error :: go_error where
  "unmarshal_error = Plain ''json: cannot unmarshal''"

definition NativeToCRDPolicy ::
  "validatingAdmissionPolicy \<Rightarrow> validatingAdmissionPolicy option \<Rightarrow> validatingAdmissionPolicy result" where
  "NativeToCRDPolicy partial vap =
     (case vap of
        None \<Rightarrow> (None, None)
      | Some x \<Rightarrow>
          (case dec_policy (enc_policy NativeStyle x) of
             Some res \<Rightarrow>
               (Some (res\<lparr>vap_TypeMeta :=
                  set_version ''admissionregistration.x-k8s.io/v1alpha1'' (vap_TypeMeta res)\<rparr>), None)
           | None \<Rightarrow> (Some partial, Some unmarshal_error)))"

definition CRDToNativePolicy ::
  "validatingAdmissionPolicy \<Rightarrow> validatingAdmissionPolicy option \<Rightarrow> validatingAdmissionPolicy result" where
  "CRDToNativePolicy partial vap =
     (case vap of
        None \<Rightarrow> (None, None)
      | Some x \<Rightarrow>
          (case dec_policy (enc_policy CRDStyle x) of
             Some res \<Rightarrow>
               (Some (res\<lparr>vap_TypeMeta :=
                  set_version ''apiregistration.k8s.io/v1alpha1'' (vap_TypeMeta res)\<rparr>), None)
           | None \<Rightarrow> (Some partial, Some unmarshal_error)))"

definition NativeToCRDPolicyBinding ::
  "validatingAdmissionPolicyBinding \<Rightarrow> validatingAdmissionPolicyBinding option
   \<Rightarrow> validatingAdmissionPolicyBinding result" where
  "NativeToCRDPolicyBinding partial vap =
     (case vap of
        None \<Rightarrow> (None, None)
      | Some x \<Rightarrow>
          (case dec_binding (enc_binding NativeStyle x) of
             Some res \<Rightarrow>
               (Some (res\<lparr>vapb_TypeMeta :=
                  set_version ''admissionregistration.x-k8s.io/v1alpha1'' (vapb_TypeMeta res)\<rparr>), None)
           | None \<Rightarrow> (Some partial, Some unmarshal_error)))"

definition CRDToNativePolicyBinding ::
  "validatingAdmissionPolicyBinding \<Rightarrow> validatingAdmissionPolicyBinding option
   \<Rightarrow> validatingAdmissionPolicyBinding result" where
  "CRDToNativePolicyBinding partial vap =
     (case vap of
        None \<Rightarrow> (None, None)
      | Some x \<Rightarrow>
          (case dec_binding (enc_binding CRDStyle x) of
             Some res \<Rightarrow>
               (Some (res\<lparr>vapb_TypeMeta :=
                  set_version ''apiregistration.k8s.io/v1alpha1'' (vapb_TypeMeta res)\<rparr>), None)
           | None \<Rightarrow> (Some partial, Some unmarshal_error)))"

section \<open>The wrapped client\<close>

text \<open>The typed clients of an API group, for policies and for bindings.\<close>

record ('o, 'w) group_client =
  gc_Policies :: "(validatingAdmissionPolicy, validatingAdmissionPolicy, 'o, 'w) client"
  gc_Bindings :: "(validatingAdmissionPolicyBinding, validatingAdmissionPolicyBinding, 'o, 'w) client"

text \<open>
  \<open>replacedClient\<close> embeds the native group client, of which it overrides both methods, and keeps the
  custom one; \<open>wrappedClient\<close> embeds a whole clientset (\<open>'c\<close>).
\<close>

record ('o, 'w) replacedClient =
  rp_native :: "('o, 'w) group_client"
  rp_replacement :: "('o, 'w) group_client"

record ('c, 'o, 'w) wrappedClient =
  wc_Interface :: 'c
  wc_replacement :: "('o, 'w) group_client"

definition NewWrappedClient ::
  "('v \<Rightarrow> ('o, 'w) group_client) \<Rightarrow> 'c \<Rightarrow> 'v \<Rightarrow> ('c, 'o, 'w) wrappedClient" where
  "NewWrappedClient admissionregistration client customClient =
     \<lparr>wc_Interface = client, wc_replacement = admissionregistration customClient\<rparr>"

definition AdmissionregistrationV1alpha1 ::
  "('c \<Rightarrow> ('o, 'w) group_client) \<Rightarrow> ('c, 'o, 'w) wrappedClient \<Rightarrow> ('o, 'w) replacedClient" where
  "AdmissionregistrationV1alpha1 native w =
     \<lparr>rp_native = native (wc_Interface w), rp_replacement = wc_replacement w\<rparr>"

definition ValidatingAdmissionPolicies ::
  "validatingAdmissionPolicy \<Rightarrow> ('o, 'w) replacedClient
   \<Rightarrow> (validatingAdmissionPolicy, validatingAdmissionPolicy, 'o, 'w) transformedClient" where
  "ValidatingAdmissionPolicies partial r =
     \<lparr>tc_ReplacementClient = gc_Policies (rp_replacement r),
      tc_To = CRDToNativePolicy partial, tc_From = NativeToCRDPolicy partial\<rparr>"

definition ValidatingAdmissionPolicyBindings ::
  "validatingAdmissionPolicyBinding \<Rightarrow> ('o, 'w) replacedClient
   \<Rightarrow> (validatingAdmissionPolicyBinding, validatingAdmissionPolicyBinding, 'o, 'w) transformedClient" where
  "ValidatingAdmissionPolicyBindings partial r =
     \<lparr>tc_ReplacementClient = gc_Bindings (rp_replacement r),
      tc_To = CRDToNativePolicyBinding partial, tc_From = NativeToCRDPolicyBinding partial\<rparr>"

section \<open>The conversions never fail\<close>

definition norm_policy :: "validatingAdmissionPolicy \<Rightarrow> validatingAdmissionPolicy" where
  "norm_policy x = x\<lparr>vap_ObjectMeta := norm_objectMeta (vap_ObjectMeta x),
     vap_Spec := norm_policySpec (vap_Spec x), vap_Status := norm_policyStatus (vap_Status x)\<rparr>"

definition norm_binding :: "validatingAdmissionPolicyBinding \<Rightarrow> validatingAdmissionPolicyBinding" where
  "norm_binding x = x\<lparr>vapb_ObjectMeta := norm_objectMeta (vapb_ObjectMeta x),
     vapb_Spec := norm_bindingSpec (vapb_Spec x)\<rparr>"

interpretation policy: json_codec "enc_policy style" dec_policy norm_policy for style
proof
  fix style and x :: validatingAdmissionPolicy
  show "dec_policy (enc_policy style x) = Some (norm_policy x)"
    by (simp add: enc_policy_def dec_policy_def norm_policy_def codec_simps objectMeta.codec
        policySpec.codec policyStatus.codec)
  show "enc_policy style x \<noteq> JNull" by (simp add: enc_policy_def)
  show "norm_policy (norm_policy x) = norm_policy x"
    by (simp add: norm_policy_def objectMeta.norm_idem policySpec.norm_idem policyStatus.norm_idem)
qed

interpretation binding: json_codec "enc_binding style" dec_binding norm_binding for style
proof
  fix style and x :: validatingAdmissionPolicyBinding
  show "dec_binding (enc_binding style x) = Some (norm_binding x)"
    by (simp add: enc_binding_def dec_binding_def norm_binding_def codec_simps objectMeta.codec
        bindingSpec.codec)
  show "enc_binding style x \<noteq> JNull" by (simp add: enc_binding_def)
  show "norm_binding (norm_binding x) = norm_binding x"
    by (simp add: norm_binding_def objectMeta.norm_idem bindingSpec.norm_idem)
qed

text \<open>What the conversions amount to: the normal form with another API version.\<close>

definition with_version :: "string \<Rightarrow> validatingAdmissionPolicy \<Rightarrow> validatingAdmissionPolicy" where
  "with_version v x = (norm_policy x)\<lparr>vap_TypeMeta := set_version v (vap_TypeMeta x)\<rparr>"

definition binding_with_version ::
  "string \<Rightarrow> validatingAdmissionPolicyBinding \<Rightarrow> validatingAdmissionPolicyBinding" where
  "binding_with_version v x = (norm_binding x)\<lparr>vapb_TypeMeta := set_version v (vapb_TypeMeta x)\<rparr>"

definition policy_key :: "validatingAdmissionPolicy \<Rightarrow> string" where
  "policy_key x = om_name (vap_ObjectMeta x)"

definition binding_key :: "validatingAdmissionPolicyBinding \<Rightarrow> string" where
  "binding_key x = om_name (vapb_ObjectMeta x)"

lemma set_version_twice: "set_version v (set_version v' tm) =
    (if tm_APIVersion tm = [] \<or> v' = [] then set_version v' tm else set_version v tm)"
  by (auto simp: set_version_def)

lemma conversion_eqs:
  "NativeToCRDPolicy p q = (map_option (with_version ''admissionregistration.x-k8s.io/v1alpha1'') q, None)"
  "CRDToNativePolicy p q = (map_option (with_version ''apiregistration.k8s.io/v1alpha1'') q, None)"
  "NativeToCRDPolicyBinding p' q' =
     (map_option (binding_with_version ''admissionregistration.x-k8s.io/v1alpha1'') q', None)"
  "CRDToNativePolicyBinding p' q' =
     (map_option (binding_with_version ''apiregistration.k8s.io/v1alpha1'') q', None)"
  by (simp_all add: NativeToCRDPolicy_def CRDToNativePolicy_def NativeToCRDPolicyBinding_def
      CRDToNativePolicyBinding_def policy.dec_enc binding.dec_enc with_version_def
      binding_with_version_def norm_policy_def norm_binding_def split: option.split)

interpretation pc: conversion "CRDToNativePolicy p" "NativeToCRDPolicy p"
  "with_version ''admissionregistration.x-k8s.io/v1alpha1''"
  "with_version ''apiregistration.k8s.io/v1alpha1''" policy_key policy_key for p
  by unfold_locales
     (simp_all add: conversion_eqs policy_key_def with_version_def norm_policy_def norm_objectMeta_def)

interpretation bc: conversion "CRDToNativePolicyBinding p" "NativeToCRDPolicyBinding p"
  "binding_with_version ''admissionregistration.x-k8s.io/v1alpha1''"
  "binding_with_version ''apiregistration.k8s.io/v1alpha1''" binding_key binding_key for p
  by unfold_locales
     (simp_all add: conversion_eqs binding_key_def binding_with_version_def norm_binding_def
       norm_objectMeta_def)

lemma back_and_forth:
  "with_version ''apiregistration.k8s.io/v1alpha1''
     (with_version ''admissionregistration.x-k8s.io/v1alpha1'' x) =
   with_version ''apiregistration.k8s.io/v1alpha1'' x"
  "binding_with_version ''apiregistration.k8s.io/v1alpha1''
     (binding_with_version ''admissionregistration.x-k8s.io/v1alpha1'' b) =
   binding_with_version ''apiregistration.k8s.io/v1alpha1'' b"
  by (auto simp: with_version_def binding_with_version_def norm_policy_def norm_binding_def
      objectMeta.norm_idem policySpec.norm_idem policyStatus.norm_idem bindingSpec.norm_idem
      set_version_def)

section \<open>Properties\<close>

text \<open>
  (C34) A policy converted to the custom resource and back keeps its kind, its metadata, its spec and
  its status (up to empty slices, which become nil), but not its API version: a native policy comes
  back as version \<open>apiregistration.k8s.io/v1alpha1\<close>, which is not its own
  \<open>admissionregistration.k8s.io/v1alpha1\<close>.
\<close>

theorem policy_roundtrip_changes_api_version:
  "\<exists>crd y. NativeToCRDPolicy p (Some x) = (Some crd, None) \<and> CRDToNativePolicy p (Some crd) = (Some y, None) \<and>
     tm_Kind (vap_TypeMeta y) = tm_Kind (vap_TypeMeta x) \<and>
     vap_ObjectMeta y = norm_objectMeta (vap_ObjectMeta x) \<and>
     vap_Spec y = norm_policySpec (vap_Spec x) \<and> vap_Status y = norm_policyStatus (vap_Status x) \<and>
     tm_APIVersion (vap_TypeMeta y) =
       (if tm_APIVersion (vap_TypeMeta x) = [] then [] else ''apiregistration.k8s.io/v1alpha1'') \<and>
     tm_APIVersion (vap_TypeMeta y) \<noteq> ''admissionregistration.k8s.io/v1alpha1''"
  by (simp add: conversion_eqs back_and_forth)
     (simp add: with_version_def norm_policy_def set_version_def)

text \<open>
  Whatever list the custom API returns, the list the wrapped client makes of it has the
  converted items but none of its metadata: no resource version to start a watch from and no
  continue token for the next page.
\<close>

theorem policy_list_drops_metadata:
  assumes "cl_List (gc_Policies (rp_replacement r)) opts w = Returns ((Some l, None), w')"
  shows "\<exists>l'. tc_List (ValidatingAdmissionPolicies partial r) opts w = Returns ((Some l', None), w') \<and>
     kl_Items l' = Some (map (with_version ''apiregistration.k8s.io/v1alpha1'') (elems (kl_Items l))) \<and>
     lm_ResourceVersion (kl_ListMeta l') = [] \<and> lm_Continue (kl_ListMeta l') = [] \<and>
     lm_RemainingItemCount (kl_ListMeta l') = None"
  using assms
  by (simp add: tc_List_def ValidatingAdmissionPolicies_def getItems_def pc.convert_items_to
      listWithItems_def)

text \<open>
  A watch through the wrapped client delivers every event of the custom API, in order and of
  the same type, with policies converted and other objects as they are; none is dropped.
\<close>

theorem policy_watch_delivers_all:
  assumes "cl_Watch (gc_Policies (rp_replacement r)) opts w = Returns ((Some evs, None), w')"
  shows "tc_Watch (ValidatingAdmissionPolicies partial r) opts w = Returns
     ((Some (map (\<lambda>e. e\<lparr>ev_Object :=
         (case ev_Object e of
            ReplacementObj y \<Rightarrow> TargetObj (Some (with_version ''apiregistration.k8s.io/v1alpha1'' y))
          | ob \<Rightarrow> ob)\<rparr>) evs), None), w')"
  using assms by (simp add: tc_Watch_def ValidatingAdmissionPolicies_def pc.watch_filter_all)

section \<open>Instances\<close>

definition ex_policy :: validatingAdmissionPolicy where
  "ex_policy = \<lparr>vap_TypeMeta = \<lparr>tm_Kind = ''ValidatingAdmissionPolicy'',
       tm_APIVersion = ''admissionregistration.k8s.io/v1alpha1''\<rparr>,
     vap_ObjectMeta = zero_objectMeta\<lparr>om_name := ''p''\<rparr>,
     vap_Spec = zero_policySpec\<lparr>ps_Validations := Some [\<lparr>va_Expression = ''true'', va_Message = [],
       va_Reason = None, va_MessageExpression = []\<rparr>], ps_FailurePolicy := Some Fail\<rparr>,
     vap_Status = zero_policyStatus\<rparr>"

definition ex_binding :: validatingAdmissionPolicyBinding where
  "ex_binding = \<lparr>vapb_TypeMeta = \<lparr>tm_Kind = [], tm_APIVersion = []\<rparr>,
     vapb_ObjectMeta = zero_objectMeta\<lparr>om_name := ''b''\<rparr>,
     vapb_Spec = zero_bindingSpec\<lparr>bs_PolicyName := ''p'', bs_ValidationActions := Some [Deny]\<rparr>\<rparr>"

definition ex_lm :: listMeta where
  "ex_lm = \<lparr>lm_SelfLink = [], lm_ResourceVersion = ''7'', lm_Continue = ''c'',
     lm_RemainingItemCount = Some 1\<rparr>"

text \<open>An API that lists and watches one policy.\<close>

definition ex_client :: "(validatingAdmissionPolicy, validatingAdmissionPolicy, unit, unit) client" where
  "ex_client = \<lparr>cl_Create = (\<lambda>p opts w. Returns ((p, None), w)), cl_Update = (\<lambda>p opts w. Returns ((p, None), w)),
     cl_UpdateStatus = None, cl_Delete = (\<lambda>n opts w. Returns (None, w)),
     cl_DeleteCollection = (\<lambda>opts lopts w. Returns (None, w)),
     cl_Get = (\<lambda>n opts w. Returns ((Some ex_policy, None), w)),
     cl_List = (\<lambda>opts w. Returns ((Some \<lparr>kl_ListMeta = ex_lm, kl_Items = Some [ex_policy]\<rparr>, None), w)),
     cl_Watch = (\<lambda>opts w. Returns ((Some [\<lparr>ev_Type = ''ADDED'', ev_Object = ReplacementObj ex_policy\<rparr>], None), w))\<rparr>"

definition ex_replaced ::
  "(validatingAdmissionPolicyBinding, validatingAdmissionPolicyBinding, unit, unit) client
   \<Rightarrow> (unit, unit) replacedClient" where
  "ex_replaced bindings =
     (let g = \<lparr>gc_Policies = ex_client, gc_Bindings = bindings\<rparr> in \<lparr>rp_native = g, rp_replacement = g\<rparr>)"

theorem policy_list_drops_metadata_witness:
  "\<forall>bindings. \<exists>l'. tc_List (ValidatingAdmissionPolicies ex_policy (ex_replaced bindings)) () () =
       Returns ((Some l', None), ()) \<and>
     kl_Items l' = Some [with_version ''apiregistration.k8s.io/v1alpha1'' ex_policy] \<and>
     lm_ResourceVersion (kl_ListMeta l') = []"
proof
  fix bindings
  have "cl_List (gc_Policies (rp_replacement (ex_replaced bindings))) () () =
      Returns ((Some \<lparr>kl_ListMeta = ex_lm, kl_Items = Some [ex_policy]\<rparr>, None), ())"
    by (simp add: ex_replaced_def ex_client_def Let_def)
  from policy_list_drops_metadata [OF this, of ex_policy]
  show "\<exists>l'. tc_List (ValidatingAdmissionPolicies ex_policy (ex_replaced bindings)) () () =
       Returns ((Some l', None), ()) \<and>
     kl_Items l' = Some [with_version ''apiregistration.k8s.io/v1alpha1'' ex_policy] \<and>
     lm_ResourceVersion (kl_ListMeta l') = []"
    by auto
qed

theorem policy_watch_delivers_all_witness:
  "\<forall>bindings. tc_Watch (ValidatingAdmissionPolicies ex_policy (ex_replaced bindings)) () () = Returns
     ((Some [\<lparr>ev_Type = ''ADDED'',
        ev_Object = TargetObj (Some (with_version ''apiregistration.k8s.io/v1alpha1'' ex_policy))\<rparr>], None), ())"
proof
  fix bindings
  have "cl_Watch (gc_Policies (rp_replacement (ex_replaced bindings))) () () =
      Returns ((Some [\<lparr>ev_Type = ''ADDED'', ev_Object = ReplacementObj ex_policy\<rparr>], None), ())"
    by (simp add: ex_replaced_def ex_client_def Let_def)
  from policy_watch_delivers_all [OF this, of ex_policy]
  show "tc_Watch (ValidatingAdmissionPolicies ex_policy (ex_replaced bindings)) () () = Returns
     ((Some [\<lparr>ev_Type = ''ADDED'',
        ev_Object = TargetObj (Some (with_version ''apiregistration.k8s.io/v1alpha1'' ex_policy))\<rparr>], None), ())"
    by simp
qed

end
