(* ===== verification/Main_Command.thy ===== *)
theory Main_Command
  imports Webhook Plugin Injected_Client
begin

text \<open>
  The polyfill command of \<open>cmd/cel-admission-polyfill/main.go\<close>: its flags, the clients it builds and
  where it gives up, the validator chain it serves, and the life of its goroutines, which end
  together. What the Kubernetes client libraries return is a parameter. The goroutine that resets
  the REST mapper every minute is not waited for; it is modelled with the mapper, in \<open>Rest_Mapper\<close>.
\<close>

section \<open>Flags and clients\<close>

record main_flags =
  certFile :: string
  keyFile :: string
  listenAddr :: string

definition default_flags :: main_flags where
  "default_flags = \<lparr>certFile = ''server.pem'', keyFile = ''server-key.pem'', listenAddr = ''0.0.0.0:8443''\<rparr>"

text \<open>The calls of the client libraries, with the errors they return.\<close>

record ('cfg, 'v, 'c, 'dyn, 'ext) client_lib =
  kubeConfig_ClientConfig :: "go_error + 'cfg"
  InClusterConfig :: "go_error + 'cfg"
  versioned_NewForConfig :: "'cfg \<Rightarrow> go_error + 'v"
  kubernetes_NewForConfig :: "'cfg \<Rightarrow> go_error + 'c"
  dynamic_NewForConfig :: "'cfg \<Rightarrow> go_error + 'dyn"
  apiextensions_NewForConfig :: "'cfg \<Rightarrow> go_error + 'ext"

record ('v, 'c, 'o, 'w, 'dyn, 'ext) main_clients =
  customClient :: 'v
  kubeClient :: "('c, 'o, 'w) wrappedClient"
  dynamicClient :: 'dyn
  apiextensionsClient :: 'ext

definition loadClientConfig :: "('cfg, 'v, 'c, 'dyn, 'ext) client_lib \<Rightarrow> go_error + 'cfg" where
  "loadClientConfig lib =
     (case kubeConfig_ClientConfig lib of Inr config \<Rightarrow> Inr config | Inl err \<Rightarrow> InClusterConfig lib)"

text \<open>An error ends \<open>main\<close> after a message, the left value.\<close>

definition main_setup ::
  "('v \<Rightarrow> ('o, 'w) group_client) \<Rightarrow> ('cfg, 'v, 'c, 'dyn, 'ext) client_lib
   \<Rightarrow> string + ('v, 'c, 'o, 'w, 'dyn, 'ext) main_clients" where
  "main_setup admissionregistration lib =
     (case loadClientConfig lib of
        Inl err \<Rightarrow> Inl (''Failed to load Client Configuration: '' @ error_text err)
      | Inr restConfig \<Rightarrow>
     (case versioned_NewForConfig lib restConfig of
        Inl err \<Rightarrow> Inl (''Failed to create crd client: '' @ error_text err)
      | Inr custom \<Rightarrow>
     (case kubernetes_NewForConfig lib restConfig of
        Inl err \<Rightarrow> Inl (''Failed to create kubernetes client: '' @ error_text err)
      | Inr unwrapped \<Rightarrow>
     (case dynamic_NewForConfig lib restConfig of
        Inl err \<Rightarrow> Inl (''Failed to create dynamic client: '' @ error_text err)
      | Inr dyn \<Rightarrow>
     (case apiextensions_NewForConfig lib restConfig of
        Inl err \<Rightarrow> Inl (''Failed to create apiextensions client: '' @ error_text err)
      | Inr ext \<Rightarrow>
          Inr \<lparr>customClient = custom,
               kubeClient = NewWrappedClient admissionregistration unwrapped custom,
               dynamicClient = dyn, apiextensionsClient = ext\<rparr>)))))"

section \<open>The validators and the webhook\<close>

definition main_validators ::
  "('obj \<Rightarrow> (string \<times> string) option) \<Rightarrow> ('obj, 'w, 'deps) celAdmissionPlugin
   \<Rightarrow> ('w \<Rightarrow> 'w schedule) \<Rightarrow> ('obj, 'w) validator list" where
  "main_validators accessor plugin sched = [plugin_validator accessor plugin sched]"

definition main_webhook ::
  "('obj \<Rightarrow> (string \<times> string) option) \<Rightarrow> ('obj, 'w, 'deps) celAdmissionPlugin
   \<Rightarrow> ('w \<Rightarrow> 'w schedule) \<Rightarrow> (string \<Rightarrow> 'obj option \<times> gvk option \<times> go_error option)
   \<Rightarrow> main_flags \<Rightarrow> ('obj, 'w) webhook" where
  "main_webhook accessor plugin sched decoder flags =
     webhook_New (listenAddr flags) (certFile flags) (keyFile flags) decoder
       (multi_validator (NewMulti (main_validators accessor plugin sched)))"

section \<open>The goroutines\<close>

text \<open>
  One goroutine for every validator that has a \<open>Run\<close> method and one for the webhook server. Both
  bodies run, then cancel the server context, then leave the wait group.
\<close>

datatype worker_kind = RunnableValidator nat | WebhookServer

datatype worker_pc = Running | RunReturned | ContextCancelled | WorkerDone

datatype informer_factory = KubeFactory | ApiextensionsFactory | CustomFactory

datatype main_pc =
    Launching "worker_kind list"
  | StartingInformers "informer_factory list"
  | WaitingGroup
  | MainReturned

record main_state =
  signal_ctx_done :: bool
  serverContext_done :: bool
  goroutines :: "(worker_kind \<times> worker_pc) list"
  waitGroup :: nat
  factories_started :: "informer_factory list"
  main_at :: main_pc

text \<open>\<open>runnable\<close> says which of the validators have the method.\<close>

definition main_workers :: "bool list \<Rightarrow> worker_kind list" where
  "main_workers runnable =
     map RunnableValidator (filter (\<lambda>i. runnable ! i) [0..<length runnable]) @ [WebhookServer]"

definition main_factories :: "informer_factory list" where
  "main_factories = [KubeFactory, ApiextensionsFactory, CustomFactory]"

definition main_start :: "bool list \<Rightarrow> main_state" where
  "main_start runnable =
     \<lparr>signal_ctx_done = False, serverContext_done = False, goroutines = [], waitGroup = 0,
      factories_started = [], main_at = Launching (main_workers runnable)\<rparr>"

text \<open>
  The steps of the program. A \<open>Run\<close> returns once the server context is done; those in \<open>fails\<close> may
  also return by themselves, as the webhook's does when its listener fails. When \<open>main\<close> returns, its
  deferred \<open>stop\<close> ends the root context.
\<close>

inductive main_step :: "worker_kind set \<Rightarrow> main_state \<Rightarrow> main_state \<Rightarrow> bool"
  for fails :: "worker_kind set" where
  launch:
    "main_at s = Launching (k # ks) \<Longrightarrow>
     main_step fails s (s\<lparr>goroutines := goroutines s @ [(k, Running)],
       waitGroup := waitGroup s + 1, main_at := Launching ks\<rparr>)"
| launched:
    "main_at s = Launching [] \<Longrightarrow>
     main_step fails s (s\<lparr>main_at := StartingInformers main_factories\<rparr>)"
| start_factory:
    "main_at s = StartingInformers (f # fs) \<Longrightarrow>
     main_step fails s (s\<lparr>factories_started := factories_started s @ [f],
       main_at := StartingInformers fs\<rparr>)"
| factories_done:
    "main_at s = StartingInformers [] \<Longrightarrow> main_step fails s (s\<lparr>main_at := WaitingGroup\<rparr>)"
| run_ends:
    "i < length (goroutines s) \<Longrightarrow> goroutines s ! i = (k, Running) \<Longrightarrow>
     serverContext_done s \<or> k \<in> fails \<Longrightarrow>
     main_step fails s (s\<lparr>goroutines := (goroutines s)[i := (k, RunReturned)]\<rparr>)"
| worker_cancels:
    "i < length (goroutines s) \<Longrightarrow> goroutines s ! i = (k, RunReturned) \<Longrightarrow>
     main_step fails s (s\<lparr>goroutines := (goroutines s)[i := (k, ContextCancelled)],
       serverContext_done := True\<rparr>)"
| worker_leaves:
    "i < length (goroutines s) \<Longrightarrow> goroutines s ! i = (k, ContextCancelled) \<Longrightarrow>
     main_step fails s (s\<lparr>goroutines := (goroutines s)[i := (k, WorkerDone)],
       waitGroup := waitGroup s - 1\<rparr>)"
| main_returns:
    "main_at s = WaitingGroup \<Longrightarrow> waitGroup s = 0 \<Longrightarrow>
     main_step fails s (s\<lparr>signal_ctx_done := True, serverContext_done := True,
       main_at := MainReturned\<rparr>)"

text \<open>The operating system: SIGINT or SIGTERM ends the root context and with it the server context.\<close>

definition signal_arrives :: "main_state \<Rightarrow> main_state" where
  "signal_arrives s = s\<lparr>signal_ctx_done := True, serverContext_done := True\<rparr>"

definition process_step :: "worker_kind set \<Rightarrow> main_state \<Rightarrow> main_state \<Rightarrow> bool" where
  "process_step fails s t \<longleftrightarrow> main_step fails s t \<or> t = signal_arrives s"

abbreviation main_reachable :: "bool list \<Rightarrow> worker_kind set \<Rightarrow> main_state \<Rightarrow> bool" where
  "main_reachable runnable fails \<equiv> reach (\<lambda>s. s = main_start runnable) (process_step fails)"

section \<open>The invariant\<close>

lemma length_filter_update:
  "i < length xs \<Longrightarrow>
   length (filter P (xs[i := x])) + (if P (xs ! i) then 1 else 0)
     = length (filter P xs) + (if P x then 1 else 0)"
proof (induction xs arbitrary: i)
  case (Cons a xs)
  then show ?case by (cases i) auto
qed simp

definition active :: "worker_kind \<times> worker_pc \<Rightarrow> bool" where
  "active g = (snd g \<noteq> WorkerDone)"

fun to_launch :: "main_pc \<Rightarrow> worker_kind list" where
  "to_launch (Launching ks) = ks"
| "to_launch _ = []"

fun to_start :: "main_pc \<Rightarrow> informer_factory list" where
  "to_start (Launching ks) = main_factories"
| "to_start (StartingInformers fs) = fs"
| "to_start _ = []"

text \<open>
  The wait group counts the goroutines that have not left it; those launched and those still to be
  launched are the planned ones; whoever got past its cancellation has ended the server context.
\<close>

definition main_inv :: "bool list \<Rightarrow> main_state \<Rightarrow> bool" where
  "main_inv runnable s \<longleftrightarrow>
     waitGroup s = length (filter active (goroutines s)) \<and>
     map fst (goroutines s) @ to_launch (main_at s) = main_workers runnable \<and>
     factories_started s @ to_start (main_at s) = main_factories \<and>
     (\<forall>g \<in> set (goroutines s). snd g \<in> {ContextCancelled, WorkerDone} \<longrightarrow> serverContext_done s) \<and>
     (main_at s = MainReturned \<longrightarrow> waitGroup s = 0)"

lemma filter_update_active:
  assumes "i < length gs" and "gs ! i = (k, pc)" and "pc \<noteq> WorkerDone"
  shows "length (filter active (gs[i := (k, pc')]))
           = length (filter active gs) - (if pc' = WorkerDone then 1 else 0)"
  using length_filter_update [OF assms(1), of active "(k, pc')"] assms by (auto simp: active_def)

lemma active_member: "length (filter active gs) = 0 \<Longrightarrow> g \<in> set gs \<Longrightarrow> snd g = WorkerDone"
  by (auto simp: active_def filter_empty_conv)

lemma map_fst_same: "i < length gs \<Longrightarrow> gs ! i = (k, pc) \<Longrightarrow> map fst (gs[i := (k, pc')]) = map fst gs"
  by (metis fst_conv list_update_id map_update nth_map)

lemma main_inv_start: "main_inv runnable (main_start runnable)"
  by (simp add: main_inv_def main_start_def)

lemma main_inv_step: "main_step fails s t \<Longrightarrow> main_inv runnable s \<Longrightarrow> main_inv runnable t"
proof (induction rule: main_step.induct)
  case (run_ends i s k)
  then show ?case
    using filter_update_active [of i "goroutines s" k Running RunReturned]
    by (auto simp: main_inv_def map_fst_same dest!: set_update_subset_insert [THEN subsetD])
next
  case (worker_cancels i s k)
  then show ?case
    using filter_update_active [of i "goroutines s" k RunReturned ContextCancelled]
    by (auto simp: main_inv_def map_fst_same)
next
  case (worker_leaves i s k)
  then have "serverContext_done s" by (force simp: main_inv_def in_set_conv_nth)
  with worker_leaves show ?case
    using filter_update_active [of i "goroutines s" k ContextCancelled WorkerDone]
    by (auto simp: main_inv_def map_fst_same)
qed (auto simp: main_inv_def active_def main_factories_def)

lemma main_inv_signal: "main_inv runnable s \<Longrightarrow> main_inv runnable (signal_arrives s)"
  by (auto simp: main_inv_def signal_arrives_def)

interpretation proc: invariant_system "\<lambda>s. s = main_start runnable" "process_step fails"
    "main_inv runnable" for runnable fails
  by unfold_locales
     (auto simp: process_step_def intro: main_inv_start main_inv_step main_inv_signal)

section \<open>Winding down\<close>

fun worker_left :: "worker_pc \<Rightarrow> nat" where
  "worker_left Running = 3"
| "worker_left RunReturned = 2"
| "worker_left ContextCancelled = 1"
| "worker_left WorkerDone = 0"

fun main_left :: "main_pc \<Rightarrow> nat" where
  "main_left (Launching ks) = 4 * length ks + 6"
| "main_left (StartingInformers fs) = length fs + 2"
| "main_left WaitingGroup = 1"
| "main_left MainReturned = 0"

definition main_steps_left :: "main_state \<Rightarrow> nat" where
  "main_steps_left s =
     main_left (main_at s) + sum_list (map (worker_left \<circ> snd) (goroutines s))"

lemma worker_sum_update:
  assumes "i < length gs" and "gs ! i = (k, pc)"
  shows "sum_list (map (worker_left \<circ> snd) (gs[i := (k, pc')])) + worker_left pc
           = sum_list (map (worker_left \<circ> snd) gs) + worker_left pc'"
  using assms
proof (induction gs arbitrary: i)
  case (Cons g gs)
  then show ?case by (cases i) auto
qed simp

lemma main_step_uses: "main_step fails s t \<Longrightarrow> main_steps_left t < main_steps_left s"
proof (induction rule: main_step.induct)
  case (run_ends i s k)
  then show ?case using worker_sum_update [of i "goroutines s" k Running RunReturned]
    by (simp add: main_steps_left_def)
next
  case (worker_cancels i s k)
  then show ?case using worker_sum_update [of i "goroutines s" k RunReturned ContextCancelled]
    by (simp add: main_steps_left_def)
next
  case (worker_leaves i s k)
  then show ?case using worker_sum_update [of i "goroutines s" k ContextCancelled WorkerDone]
    by (simp add: main_steps_left_def)
qed (simp_all add: main_steps_left_def main_factories_def)

lemma active_worker_moves:
  assumes "g \<in> set (goroutines s)" and "active g" and "snd g = Running \<longrightarrow> serverContext_done s"
  shows "\<exists>t. main_step fails s t"
proof -
  from assms(1) obtain i where i: "i < length (goroutines s)" "goroutines s ! i = g"
    by (auto simp: in_set_conv_nth)
  obtain k pc where g: "g = (k, pc)" by (cases g)
  from assms i g show ?thesis
    by (cases pc) (auto simp: active_def intro: run_ends worker_cancels worker_leaves)
qed

text \<open>The program is ending: the server context is done or the run of some goroutine is over.\<close>

definition ending :: "main_state \<Rightarrow> bool" where
  "ending s \<longleftrightarrow> serverContext_done s \<or> (\<exists>g \<in> set (goroutines s). snd g \<noteq> Running)"

lemma ending_update:
  "i < length gs \<Longrightarrow> pc \<noteq> Running \<Longrightarrow> \<exists>g \<in> set (gs[i := (k, pc)]). snd g \<noteq> Running"
  using set_update_memI [of i gs "(k, pc)"] by force

lemma ending_step: "main_step fails s t \<Longrightarrow> ending s \<Longrightarrow> ending t"
  by (induction rule: main_step.induct) (auto simp: ending_def intro: ending_update)

lemma main_not_stuck:
  assumes inv: "main_inv runnable s" and stuck: "\<nexists>t. main_step fails s t" and wound: "ending s"
  shows "main_at s = MainReturned"
proof -
  have "serverContext_done s"
  proof (rule ccontr)
    assume n: "\<not> serverContext_done s"
    with wound inv obtain g where "g \<in> set (goroutines s)" "snd g \<noteq> Running" "active g"
      by (auto simp: main_inv_def active_def ending_def)
    then show False using active_worker_moves [of g s fails] stuck by blast
  qed
  then have idle: "\<not> active g" if "g \<in> set (goroutines s)" for g
    using active_worker_moves [OF that] stuck by blast
  then have "waitGroup s = 0" using inv by (simp add: main_inv_def)
  then show ?thesis
  proof (cases "main_at s")
    case (Launching ks)
    with stuck show ?thesis by (cases ks) (auto intro: launch launched)
  next
    case (StartingInformers fs)
    with stuck show ?thesis by (cases fs) (auto intro: start_factory factories_done)
  next
    case WaitingGroup
    with stuck \<open>waitGroup s = 0\<close> show ?thesis by (blast intro: main_returns)
  qed
qed

interpretation mend: winding_system "\<lambda>s. main_inv runnable s \<and> ending s" "main_step fails"
    "\<lambda>s. main_inv runnable s \<and> ending s" main_steps_left "\<lambda>s. main_at s = MainReturned"
  for runnable fails
  by unfold_locales (auto intro: main_inv_step ending_step main_step_uses main_not_stuck)

section \<open>Properties\<close>

text \<open>
  When \<open>main\<close> returns, it has launched the goroutine of every validator with a \<open>Run\<close> method and
  the webhook's, each of them has ended its run and left the wait group, all three informer
  factories were started, and the server context is done.
\<close>
theorem main_returns_after_workers:
  assumes "main_reachable runnable fails s" and "main_at s = MainReturned"
  shows "map fst (goroutines s) = main_workers runnable \<and>
         list_all (\<lambda>g. snd g = WorkerDone) (goroutines s) \<and>
         factories_started s = main_factories \<and> serverContext_done s"
proof -
  have inv: "main_inv runnable s" using assms(1) by (rule proc.reach_inv)
  then have all: "list_all (\<lambda>g. snd g = WorkerDone) (goroutines s)"
    using active_member assms(2) by (auto simp: main_inv_def list_all_iff)
  have workers: "map fst (goroutines s) = main_workers runnable"
    using inv assms(2) by (simp add: main_inv_def)
  then have "goroutines s \<noteq> []" by (auto simp: main_workers_def)
  with all have "\<exists>g \<in> set (goroutines s). snd g = WorkerDone"
    by (cases "goroutines s") auto
  then have "serverContext_done s" using inv by (auto simp: main_inv_def)
  with inv assms(2) all workers show ?thesis by (simp add: main_inv_def)
qed

text \<open>
  (C19) The program winds down as a whole: once the server context is done, or the run of any
  goroutine has ended (a validator stopped, or the listener of the webhook failed), every further
  execution has at most \<open>main_steps_left\<close> steps and can only stop where \<open>main\<close> has returned.
\<close>
theorem main_winds_down:
  assumes "main_reachable runnable fails s" and "ending s" and "(main_step fails ^^ k) s t"
  shows "k \<le> main_steps_left s \<and> ((\<exists>u. main_step fails t u) \<or> main_at t = MainReturned)"
proof -
  have "reach (\<lambda>s. main_inv runnable s \<and> ending s) (main_step fails) s"
    using proc.reach_inv [OF assms(1)] assms(2) by (intro reach_start) simp
  from mend.winds_down [OF this assms(3)] show ?thesis by blast
qed

section \<open>Instances\<close>

text \<open>The command as it is: one validator, the plugin, which has a \<open>Run\<close>. The listener fails.\<close>

definition ex_main_failed :: main_state where
  "ex_main_failed =
     \<lparr>signal_ctx_done = False, serverContext_done = False,
      goroutines = [(RunnableValidator 0, Running), (WebhookServer, RunReturned)], waitGroup = 2,
      factories_started = [], main_at = Launching []\<rparr>"

definition ex_main_returned :: main_state where
  "ex_main_returned =
     \<lparr>signal_ctx_done = True, serverContext_done = True,
      goroutines = [(RunnableValidator 0, WorkerDone), (WebhookServer, WorkerDone)], waitGroup = 0,
      factories_started = [KubeFactory, ApiextensionsFactory, CustomFactory], main_at = MainReturned\<rparr>"

lemma main_workers_one: "main_workers [True] = [RunnableValidator 0, WebhookServer]"
  by (simp add: main_workers_def)

lemma main_reachable_step:
  "main_reachable r fs s \<Longrightarrow> main_step fs s u \<Longrightarrow> u = t \<Longrightarrow> main_reachable r fs t"
  by (auto intro: reach_step simp: process_step_def)

lemma ex_main_failed_reachable: "main_reachable [True] {WebhookServer} ex_main_failed"
proof -
  let ?R = "main_reachable [True] {WebhookServer}"
  note step = main_reachable_step [where r = "[True]" and fs = "{WebhookServer}"]
  have "?R (main_start [True])" by (simp add: reach_start)
  then have "?R ((main_start [True])\<lparr>goroutines := [(RunnableValidator 0, Running)], waitGroup := 1,
      main_at := Launching [WebhookServer]\<rparr>)"
    by - (rule step, assumption, rule launch [of _ "RunnableValidator 0" "[WebhookServer]"],
        simp_all add: main_start_def main_workers_one)
  then have "?R ((main_start [True])\<lparr>goroutines := [(RunnableValidator 0, Running), (WebhookServer, Running)],
      waitGroup := 2, main_at := Launching []\<rparr>)"
    by - (rule step, assumption, rule launch [of _ WebhookServer "[]"],
        simp_all add: main_start_def)
  then show ?thesis
    by - (rule step, assumption, rule run_ends [of 1 _ WebhookServer],
        simp_all add: main_start_def ex_main_failed_def)
qed

lemma ex_main_returned_reachable: "main_reachable [True] {WebhookServer} ex_main_returned"
proof -
  let ?R = "main_reachable [True] {WebhookServer}"
  note step = main_reachable_step [where r = "[True]" and fs = "{WebhookServer}"]
  let ?s = "\<lambda>p q n. ex_main_failed\<lparr>goroutines := [(RunnableValidator 0, p), (WebhookServer, q)],
      waitGroup := n, serverContext_done := True\<rparr>"
  have "?R (?s Running ContextCancelled 2)"
    using ex_main_failed_reachable
    by - (rule step, assumption, rule worker_cancels [of 1 _ WebhookServer],
        simp_all add: ex_main_failed_def)
  then have "?R (?s Running WorkerDone 1)"
    by - (rule step, assumption, rule worker_leaves [of 1 _ WebhookServer],
        simp_all add: ex_main_failed_def)
  then have "?R (?s RunReturned WorkerDone 1)"
    by - (rule step, assumption, rule run_ends [of 0 _ "RunnableValidator 0"],
        simp_all add: ex_main_failed_def)
  then have "?R (?s ContextCancelled WorkerDone 1)"
    by - (rule step, assumption, rule worker_cancels [of 0 _ "RunnableValidator 0"],
        simp_all add: ex_main_failed_def)
  then have "?R (?s WorkerDone WorkerDone 0)"
    by - (rule step, assumption, rule worker_leaves [of 0 _ "RunnableValidator 0"],
        simp_all add: ex_main_failed_def)
  then have "?R ((?s WorkerDone WorkerDone 0)\<lparr>main_at := StartingInformers main_factories\<rparr>)"
    by - (rule step, assumption, rule launched,
        simp_all add: ex_main_failed_def)
  then have "?R ((?s WorkerDone WorkerDone 0)\<lparr>factories_started := [KubeFactory],
      main_at := StartingInformers [ApiextensionsFactory, CustomFactory]\<rparr>)"
    by - (rule step, assumption, rule start_factory [of _ KubeFactory "[ApiextensionsFactory, CustomFactory]"],
        simp_all add: ex_main_failed_def main_factories_def)
  then have "?R ((?s WorkerDone WorkerDone 0)\<lparr>factories_started := [KubeFactory, ApiextensionsFactory],
      main_at := StartingInformers [CustomFactory]\<rparr>)"
    by - (rule step, assumption, rule start_factory [of _ ApiextensionsFactory "[CustomFactory]"],
        simp_all add: ex_main_failed_def)
  then have "?R ((?s WorkerDone WorkerDone 0)\<lparr>factories_started := main_factories,
      main_at := StartingInformers []\<rparr>)"
    by - (rule step, assumption, rule start_factory [of _ CustomFactory "[]"],
        simp_all add: ex_main_failed_def main_factories_def)
  then have "?R ((?s WorkerDone WorkerDone 0)\<lparr>factories_started := main_factories,
      main_at := WaitingGroup\<rparr>)"
    by - (rule step, assumption, rule factories_done,
        simp_all add: ex_main_failed_def)
  then show ?thesis
    by - (rule step, assumption, rule main_returns,
        simp_all add: ex_main_failed_def ex_main_returned_def main_factories_def)
qed

theorem main_returns_after_workers_witness:
  "main_at ex_main_returned = MainReturned \<and> serverContext_done ex_main_returned \<and>
   map fst (goroutines ex_main_returned) = [RunnableValidator 0, WebhookServer]"
proof -
  have "main_at ex_main_returned = MainReturned" by (simp add: ex_main_returned_def)
  from this main_returns_after_workers [OF ex_main_returned_reachable this]
  show ?thesis by (simp add: main_workers_one)
qed

theorem main_winds_down_witness:
  "main_steps_left ex_main_failed = 11 \<and>
   \<not> (\<exists>k t. (main_step {WebhookServer} ^^ k) ex_main_failed t \<and> 11 < k) \<and>
   (\<exists>t. main_step {WebhookServer} ex_main_failed t)"
proof -
  have left: "main_steps_left ex_main_failed = 11" and at: "main_at ex_main_failed \<noteq> MainReturned"
    by (simp_all add: main_steps_left_def ex_main_failed_def)
  have "ending ex_main_failed" by (simp add: ending_def ex_main_failed_def)
  note down = main_winds_down [OF ex_main_failed_reachable this]
  from down [of 0 ex_main_failed] at have "\<exists>t. main_step {WebhookServer} ex_main_failed t" by simp
  with left down show ?thesis by (metis not_le)
qed

end
