(* ===== verification/Schema_Resolver.thy ===== *)
theory Schema_Resolver
  imports Admission
begin

text \<open>
  The caching schema resolver of \<open>pkg/controller/schemaresolver/resolver.go\<close>: a map from
  group/version/kind to what discovery answered, filled by \<open>ResolveSchema\<close> under a read/write lock
  and emptied per group/kind by the handlers of a CRD informer. The vendored discovery resolver is
  a parameter. The first part gives each method as a function; the second runs any number of
  resolving threads, the handlers and a changing cluster against the lock.
\<close>

section \<open>Data\<close>

record 's cacheEntry =
  ce_error :: "go_error option"
  ce_schema :: "'s option"

type_synonym 's schemaCache = "gvk \<rightharpoonup> 's cacheEntry"

record 's resolver =
  cache :: "'s schemaCache"

definition resolver_New :: "'s resolver" where
  "resolver_New = \<lparr>cache = Map.empty\<rparr>"

text \<open>\<open>ClientDiscoveryResolver.ResolveSchema\<close>: schema and error, with an effect on the world.\<close>

type_synonym ('s, 'w) discovery = "gvk \<Rightarrow> 'w \<Rightarrow> ('s option \<times> go_error option) \<times> 'w"

section \<open>Operations\<close>

definition resolveSchemaFromCache ::
  "'s resolver \<Rightarrow> gvk \<Rightarrow> bool \<times> 's option \<times> go_error option" where
  "resolveSchemaFromCache r gvk =
     (case cache r gvk of
        Some entry \<Rightarrow> (True, ce_schema entry, ce_error entry)
      | None \<Rightarrow> (False, None, None))"

definition store_entry :: "gvk \<Rightarrow> 's cacheEntry \<Rightarrow> 's resolver \<Rightarrow> 's resolver" where
  "store_entry gvk res r = r\<lparr>cache := (cache r)(gvk \<mapsto> res)\<rparr>"

definition ResolveSchema ::
  "('s, 'w) discovery \<Rightarrow> gvk \<Rightarrow> 's resolver \<Rightarrow> 'w
   \<Rightarrow> ('s option \<times> go_error option) \<times> 's resolver \<times> 'w" where
  "ResolveSchema disco gvk r w =
     (case resolveSchemaFromCache r gvk of
        (True, schema, err) \<Rightarrow> ((schema, err), r, w)
      | (False, _, _) \<Rightarrow>
          (let ((data, err), w') = disco gvk w;
               res = \<lparr>ce_error = err, ce_schema = data\<rparr>
           in ((ce_schema res, ce_error res), store_entry gvk res r, w')))"

text \<open>
  The loop of \<open>purgeCRDFromCache\<close>: Go visits the keys of a map in an order of its own, here \<open>ks\<close>,
  and allows deleting while ranging.
\<close>

fun purge_loop :: "group_kind \<Rightarrow> gvk list \<Rightarrow> 's schemaCache \<Rightarrow> 's schemaCache" where
  "purge_loop gk [] m = m"
| "purge_loop gk (k # ks) m =
     purge_loop gk ks
       (if gvk_Group k = gk_Group gk \<and> gvk_Kind k = gk_Kind gk then m(k := None) else m)"

definition purgeCRDFromCache :: "group_kind \<Rightarrow> gvk list \<Rightarrow> 's resolver \<Rightarrow> 's resolver" where
  "purgeCRDFromCache gk ks r = r\<lparr>cache := purge_loop gk ks (cache r)\<rparr>"

text \<open>
  What an informer hands to its handlers. \<open>crd_TypeMeta\<close> is \<open>GetObjectKind().GroupVersionKind()\<close>,
  the type of the CRD object itself; \<open>crd_Group\<close> and \<open>crd_Kind\<close> are those of the resource it
  defines (\<open>spec.group\<close>, \<open>spec.names.kind\<close>).
\<close>

record crd =
  crd_TypeMeta :: gvk
  crd_Group :: string
  crd_Kind :: string

datatype informer_obj = CRDObj crd | DeletedFinalStateUnknown string

datatype informer_event =
    AddEv informer_obj
  | UpdateEv informer_obj informer_obj
  | DeleteEv informer_obj

text \<open>The type assertion \<open>obj.(*v1.CustomResourceDefinition)\<close>; \<open>None\<close> is its panic.\<close>

definition as_crd :: "informer_obj \<Rightarrow> crd option" where
  "as_crd ob = (case ob of CRDObj c \<Rightarrow> Some c | DeletedFinalStateUnknown _ \<Rightarrow> None)"

text \<open>The group kinds a handler purges, in order; \<open>None\<close> when it panics.\<close>

definition event_purges :: "informer_event \<Rightarrow> group_kind list option" where
  "event_purges ev =
     (case ev of
        AddEv ob \<Rightarrow> map_option (\<lambda>c. [GroupKind (crd_TypeMeta c)]) (as_crd ob)
      | UpdateEv old new \<Rightarrow>
          (case (as_crd old, as_crd new) of
             (Some oldCrd, Some newCrd) \<Rightarrow>
               Some [GroupKind (crd_TypeMeta oldCrd), GroupKind (crd_TypeMeta newCrd)]
           | _ \<Rightarrow> None)
      | DeleteEv ob \<Rightarrow> map_option (\<lambda>c. [GroupKind (crd_TypeMeta c)]) (as_crd ob))"

text \<open>\<open>order\<close> gives, for a cache, the order in which the range statement visits it.\<close>

definition handle_event ::
  "('s schemaCache \<Rightarrow> gvk list) \<Rightarrow> informer_event \<Rightarrow> 's resolver \<Rightarrow> 's resolver option" where
  "handle_event order ev r =
     map_option (foldl (\<lambda>r gk. purgeCRDFromCache gk (order (cache r)) r) r) (event_purges ev)"

fun handle_events ::
  "('s schemaCache \<Rightarrow> gvk list) \<Rightarrow> informer_event list \<Rightarrow> 's resolver \<Rightarrow> 's resolver option" where
  "handle_events order [] r = Some r"
| "handle_events order (ev # evs) r =
     (case handle_event order ev r of None \<Rightarrow> None | Some r' \<Rightarrow> handle_events order evs r')"

text \<open>
  \<open>Run\<close>: register the handler, return its error if there is one, otherwise serve the events that
  arrive before the context ends; the deferred call unregisters the handler in both cases. The
  result is the error, the resolver, and whether the handler is still registered.
\<close>

definition resolver_Run ::
  "('s schemaCache \<Rightarrow> gvk list) \<Rightarrow> go_error option \<Rightarrow> informer_event list \<Rightarrow> 's resolver
   \<Rightarrow> (go_error option \<times> 's resolver \<times> bool) option" where
  "resolver_Run order addErr evs r =
     (case addErr of
        Some err \<Rightarrow> Some (Some err, r, False)
      | None \<Rightarrow> map_option (\<lambda>r'. (None, r', False)) (handle_events order evs r))"

section \<open>What each operation does\<close>

lemma GroupKind_eq_iff:
  "GroupKind k = gk \<longleftrightarrow> gvk_Group k = gk_Group gk \<and> gvk_Kind k = gk_Kind gk"
  by (cases gk) (auto simp: GroupKind_def)

lemma purge_loop_eq:
  "purge_loop gk ks m = (\<lambda>k. if k \<in> set ks \<and> GroupKind k = gk then None else m k)"
  by (induction ks arbitrary: m) (auto simp: GroupKind_eq_iff)

lemma cache_purge:
  assumes "set ks = dom (cache r)"
  shows "cache (purgeCRDFromCache gk ks r) = (\<lambda>k. if GroupKind k = gk then None else cache r k)"
  using assms by (fastforce simp: purgeCRDFromCache_def purge_loop_eq)

lemma cache_store [simp]: "cache (store_entry k e r) = (cache r)(k \<mapsto> e)"
  by (simp add: store_entry_def)

lemma ResolveSchema_hit:
  "cache r k = Some e \<Longrightarrow> ResolveSchema disco k r w = ((ce_schema e, ce_error e), r, w)"
  by (simp add: ResolveSchema_def resolveSchemaFromCache_def)

lemma ResolveSchema_miss:
  "cache r k = None \<Longrightarrow> disco k w = ((s, err), w') \<Longrightarrow>
   ResolveSchema disco k r w =
     ((s, err), store_entry k \<lparr>ce_error = err, ce_schema = s\<rparr> r, w')"
  by (simp add: ResolveSchema_def resolveSchemaFromCache_def)

section \<open>The cache as a table of remembered answers\<close>

text \<open>
  Entries agree with the answers \<open>d\<close> except for keys in \<open>stale\<close>, whose answer has changed since
  their group was last dropped.
\<close>

definition coherent :: "('k \<Rightarrow> 'v option) \<Rightarrow> 'k set \<Rightarrow> ('k \<Rightarrow> 'v) \<Rightarrow> bool" where
  "coherent tab stale d = (\<forall>k v. tab k = Some v \<longrightarrow> k \<notin> stale \<longrightarrow> v = d k)"

text \<open>
  The interface the resolving threads and the handlers rely on: a lookup, an insertion, and a
  relation for dropping a whole group of keys, whose implementation may visit them in any order.
\<close>

locale memo_table =
  fixes look :: "'t \<Rightarrow> 'k \<Rightarrow> 'v option"
    and put :: "'k \<Rightarrow> 'v \<Rightarrow> 't \<Rightarrow> 't"
    and drops :: "'g \<Rightarrow> 't \<Rightarrow> 't \<Rightarrow> bool"
    and grp :: "'k \<Rightarrow> 'g"
  assumes look_put: "look (put k v t) = (look t)(k \<mapsto> v)"
    and look_drops: "drops g t t' \<Longrightarrow> look t' k = (if grp k = g then None else look t k)"
begin

lemma put_coherent:
  "coherent (look t) stale d \<Longrightarrow> (k \<notin> stale \<Longrightarrow> v = d k) \<Longrightarrow>
   coherent (look (put k v t)) stale d"
  by (auto simp: coherent_def look_put)

lemma drops_coherent:
  "coherent (look t) stale d \<Longrightarrow> drops g t t' \<Longrightarrow>
   coherent (look t') (stale - {k. grp k = g}) d"
  by (auto simp: coherent_def look_drops split: if_splits)

lemma change_coherent:
  "coherent (look t) stale d \<Longrightarrow> coherent (look t) (stale \<union> {k. d' k \<noteq> d k}) d'"
  by (auto simp: coherent_def)

lemma drops_other_groups:
  "drops g t t' \<Longrightarrow> grp k \<noteq> g \<Longrightarrow> look t' k = look t k"
  by (simp add: look_drops)

lemma drops_all_dropped:
  "drops g t t' \<Longrightarrow> grp k = g \<Longrightarrow> look t' k = None"
  by (simp add: look_drops)

end

text \<open>One run of \<open>purgeCRDFromCache\<close>, whatever the order of the range statement.\<close>

definition purges :: "group_kind \<Rightarrow> 's resolver \<Rightarrow> 's resolver \<Rightarrow> bool" where
  "purges gk r r' = (\<exists>ks. set ks = dom (cache r) \<and> r' = purgeCRDFromCache gk ks r)"

interpretation rc: memo_table cache store_entry purges GroupKind
proof
  fix k :: gvk and v :: "'s cacheEntry" and t :: "'s resolver"
  show "cache (store_entry k v t) = (cache t)(k \<mapsto> v)" by simp
next
  fix g and t t' :: "'s resolver" and k
  assume "purges g t t'"
  then show "cache t' k = (if GroupKind k = g then None else cache t k)"
    by (auto simp: purges_def cache_purge)
qed

section \<open>Threads, handlers and a changing cluster\<close>

text \<open>
  Where a thread is in \<open>ResolveSchema\<close>: not in a call, past the read lock with a miss, holding the
  write lock with the answer of discovery not yet stored, or returned.
\<close>

datatype 's resolve_pc =
    Idle
  | Missed gvk
  | Holding gvk "'s cacheEntry"
  | Returned gvk "'s cacheEntry"

text \<open>
  \<open>lockedBy\<close> is the holder of the write lock; steps under the read lock are atomic and need it to
  be free. \<open>disc\<close> is what discovery answers now. The ghost field \<open>stale\<close> collects the keys whose
  answer has changed since their group kind was last purged.
\<close>

record 's rsys =
  ctl :: "'s resolver"
  disc :: "gvk \<Rightarrow> 's cacheEntry"
  lockedBy :: "nat option"
  pcs :: "nat \<Rightarrow> 's resolve_pc"
  stale :: "gvk set"

definition rsys_init :: "(gvk \<Rightarrow> 's cacheEntry) \<Rightarrow> 's rsys" where
  "rsys_init d =
     \<lparr>ctl = resolver_New, disc = d, lockedBy = None, pcs = (\<lambda>_. Idle), stale = {}\<rparr>"

inductive rsys_step :: "'s rsys \<Rightarrow> 's rsys \<Rightarrow> bool" where
  cache_hit:
    "lockedBy s = None \<Longrightarrow> pcs s t = Idle \<Longrightarrow>
     resolveSchemaFromCache (ctl s) k = (True, sch, err) \<Longrightarrow>
     rsys_step s (s\<lparr>pcs := (pcs s)(t := Returned k \<lparr>ce_error = err, ce_schema = sch\<rparr>)\<rparr>)"
| cache_miss:
    "lockedBy s = None \<Longrightarrow> pcs s t = Idle \<Longrightarrow>
     resolveSchemaFromCache (ctl s) k = (False, sch, err) \<Longrightarrow>
     rsys_step s (s\<lparr>pcs := (pcs s)(t := Missed k)\<rparr>)"
| lock_and_discover:
    "lockedBy s = None \<Longrightarrow> pcs s t = Missed k \<Longrightarrow>
     rsys_step s (s\<lparr>lockedBy := Some t, pcs := (pcs s)(t := Holding k (disc s k))\<rparr>)"
| store_and_unlock:
    "lockedBy s = Some t \<Longrightarrow> pcs s t = Holding k e \<Longrightarrow>
     rsys_step s (s\<lparr>ctl := store_entry k e (ctl s), lockedBy := None,
                    pcs := (pcs s)(t := Returned k e)\<rparr>)"
| next_call:
    "pcs s t = Returned k e \<Longrightarrow> rsys_step s (s\<lparr>pcs := (pcs s)(t := Idle)\<rparr>)"
| purge:
    "lockedBy s = None \<Longrightarrow> purges gk (ctl s) r' \<Longrightarrow>
     rsys_step s (s\<lparr>ctl := r', stale := stale s - {k. GroupKind k = gk}\<rparr>)"
| cluster_changes:
    "rsys_step s (s\<lparr>disc := d', stale := stale s \<union> {k. d' k \<noteq> disc s k}\<rparr>)"

abbreviation rsys_reachable :: "'s rsys \<Rightarrow> bool" where
  "rsys_reachable \<equiv> reach (\<lambda>s. \<exists>d. s = rsys_init d) rsys_step"

definition rsys_inv :: "'s rsys \<Rightarrow> bool" where
  "rsys_inv s =
     (coherent (cache (ctl s)) (stale s) (disc s) \<and>
      (\<forall>t k e. pcs s t = Holding k e \<longrightarrow>
         lockedBy s = Some t \<and> (k \<notin> stale s \<longrightarrow> e = disc s k)))"

lemma rsys_inv_coherent: "rsys_inv s \<Longrightarrow> coherent (cache (ctl s)) (stale s) (disc s)"
  unfolding rsys_inv_def by blast

lemma rsys_inv_holding:
  "rsys_inv s \<Longrightarrow> pcs s t = Holding k e \<Longrightarrow> lockedBy s = Some t"
  "rsys_inv s \<Longrightarrow> pcs s t = Holding k e \<Longrightarrow> k \<notin> stale s \<Longrightarrow> e = disc s k"
  unfolding rsys_inv_def by blast+

lemma rsys_invI:
  assumes "coherent (cache (ctl s)) (stale s) (disc s)"
    and "\<And>t k e. pcs s t = Holding k e \<Longrightarrow> lockedBy s = Some t"
    and "\<And>t k e. pcs s t = Holding k e \<Longrightarrow> k \<notin> stale s \<Longrightarrow> e = disc s k"
  shows "rsys_inv s"
  unfolding rsys_inv_def using assms by blast

lemma rsys_inv_init: "rsys_inv (rsys_init d)"
  by (simp add: rsys_inv_def rsys_init_def resolver_New_def coherent_def)

text \<open>No thread holds an answer while the write lock is free, so purging never misses one.\<close>

lemma rsys_inv_free: "rsys_inv s \<Longrightarrow> lockedBy s = None \<Longrightarrow> pcs s t \<noteq> Holding k e"
  using rsys_inv_holding(1) by fastforce

lemma rsys_inv_step: "rsys_step s s' \<Longrightarrow> rsys_inv s \<Longrightarrow> rsys_inv s'"
proof (induction rule: rsys_step.induct)
  case (store_and_unlock s t k e)
  note inv = rsys_inv_coherent [OF store_and_unlock(3)] rsys_inv_holding [OF store_and_unlock(3)]
  have "coherent (cache (store_entry k e (ctl s))) (stale s) (disc s)"
    using inv(1) inv(3) [OF store_and_unlock(2)] by (rule rc.put_coherent)
  with store_and_unlock(1) show ?case
    by (intro rsys_invI) (auto split: if_splits dest: inv(2,3))
next
  case (purge s gk r')
  have "coherent (cache r') (stale s - {k. GroupKind k = gk}) (disc s)"
    using rsys_inv_coherent [OF purge(3)] purge(2) by (rule rc.drops_coherent)
  then show ?case
    by (intro rsys_invI) (auto simp: rsys_inv_free [OF purge(3,1)])
next
  case (cluster_changes s d')
  have "coherent (cache (ctl s)) (stale s \<union> {k. d' k \<noteq> disc s k}) d'"
    using rsys_inv_coherent [OF cluster_changes] by (rule rc.change_coherent)
  then show ?case
    by (intro rsys_invI) (auto dest: rsys_inv_holding [OF cluster_changes])
qed (rule rsys_invI;
     auto split: if_splits dest: rsys_inv_coherent rsys_inv_holding rsys_inv_free)+

interpretation rsys: invariant_system "\<lambda>s. \<exists>d. s = rsys_init d" rsys_step rsys_inv
  by unfold_locales (auto intro: rsys_inv_init rsys_inv_step)

section \<open>The handlers, for every order of the range statement\<close>

text \<open>
  An enumeration of every cache that can arise: caches are finite in the program, on others the
  function is not used.
\<close>

definition enumerates :: "('s schemaCache \<Rightarrow> gvk list) \<Rightarrow> 's resolver \<Rightarrow> bool" where
  "enumerates order r = (\<forall>A. set (order ((cache r) |` A)) = dom ((cache r) |` A))"

lemma enumerates_self: "enumerates order r \<Longrightarrow> set (order (cache r)) = dom (cache r)"
  unfolding enumerates_def by (drule spec [of _ UNIV]) (simp add: restrict_map_def)

lemma enumerates_restrict:
  assumes "enumerates order r" and "cache r' = (cache r) |` A"
  shows "enumerates order r'"
  using assms by (simp add: enumerates_def)

lemma purge_restrict:
  assumes "enumerates order r"
  shows "cache (purgeCRDFromCache gk (order (cache r)) r) = (cache r) |` (- {k. GroupKind k = gk})"
  by (simp add: cache_purge [OF enumerates_self [OF assms]] dom_restrict_compl)

lemma foldl_purge_restrict:
  assumes "enumerates order r"
  shows "cache (foldl (\<lambda>r gk. purgeCRDFromCache gk (order (cache r)) r) r gks) =
           (cache r) |` (- {k. GroupKind k \<in> set gks})"
  using assms
proof (induction gks arbitrary: r)
  case Nil
  then show ?case by (simp add: restrict_map_def)
next
  case (Cons gk gks)
  define r1 where "r1 = purgeCRDFromCache gk (order (cache r)) r"
  have r1: "cache r1 = (cache r) |` (- {k. GroupKind k = gk})"
    using purge_restrict [OF Cons.prems] by (simp add: r1_def)
  have "enumerates order r1" using Cons.prems r1 by (rule enumerates_restrict)
  from Cons.IH [OF this] show ?case
    by (simp add: r1 flip: r1_def) (auto simp: restrict_map_def fun_eq_iff)
qed

text \<open>The types a CRD object itself can carry, and the objects of an event.\<close>

definition crd_own_types :: "group_kind set" where
  "crd_own_types =
     {\<lparr>gk_Group = [], gk_Kind = []\<rparr>,
      \<lparr>gk_Group = ''apiextensions.k8s.io'', gk_Kind = ''CustomResourceDefinition''\<rparr>}"

definition event_objs :: "informer_event \<Rightarrow> informer_obj list" where
  "event_objs ev =
     (case ev of AddEv ob \<Rightarrow> [ob] | UpdateEv old new \<Rightarrow> [old, new] | DeleteEv ob \<Rightarrow> [ob])"

definition purged_kinds :: "informer_event \<Rightarrow> group_kind set" where
  "purged_kinds ev = (case event_purges ev of None \<Rightarrow> {} | Some gks \<Rightarrow> set gks)"

lemma purged_kinds_subset:
  assumes "\<And>c. CRDObj c \<in> set (event_objs ev) \<Longrightarrow> GroupKind (crd_TypeMeta c) \<in> K"
  shows "purged_kinds ev \<subseteq> K"
  using assms
  by (cases ev) (auto simp: purged_kinds_def event_purges_def event_objs_def as_crd_def
      split: informer_obj.splits)

lemma handle_event_None_iff:
  "handle_event order ev r = None \<longleftrightarrow> (\<exists>key. DeletedFinalStateUnknown key \<in> set (event_objs ev))"
  by (cases ev) (auto simp: handle_event_def event_purges_def event_objs_def as_crd_def
      split: informer_obj.splits)

lemma handle_event_cache:
  assumes "enumerates order r" and "handle_event order ev r = Some r'"
  shows "cache r' = (cache r) |` (- {k. GroupKind k \<in> purged_kinds ev})"
  using assms foldl_purge_restrict [OF assms(1)]
  by (auto simp: handle_event_def purged_kinds_def)

lemma handle_events_cache:
  assumes "enumerates order r" and "handle_events order evs r = Some r'"
  shows "cache r' = (cache r) |` (- {k. \<exists>ev \<in> set evs. GroupKind k \<in> purged_kinds ev})"
  using assms
proof (induction evs arbitrary: r)
  case Nil
  then show ?case by (simp add: restrict_map_def)
next
  case (Cons ev evs)
  then obtain r1 where r1: "handle_event order ev r = Some r1" "handle_events order evs r1 = Some r'"
    by (auto split: option.splits)
  note c1 = handle_event_cache [OF Cons.prems(1) r1(1)]
  have "enumerates order r1" using Cons.prems(1) c1 by (rule enumerates_restrict)
  from Cons.IH [OF this r1(2)] show ?case
    by (simp add: c1) (auto simp: restrict_map_def fun_eq_iff)
qed

lemma ResolveSchema_fills:
  assumes "ResolveSchema disco k r w = (res, r', w')"
  shows "\<exists>e. cache r' k = Some e \<and> res = (ce_schema e, ce_error e)"
  using assms
  by (cases "cache r k") (auto simp: ResolveSchema_hit ResolveSchema_def resolveSchemaFromCache_def
      store_entry_def split: prod.splits)

section \<open>Properties\<close>

text \<open>
  (C10) Under any interleaving of resolving threads, CRD handlers and cluster changes, a call of
  \<open>ResolveSchema\<close> that returns for a kind whose schema has not changed since the last purge of its
  group kind returns what discovery answers at that moment; the write lock is what rules out that
  an answer fetched before a purge is stored after it.
\<close>

theorem resolver_returns_current_schema:
  assumes "rsys_reachable s" and "rsys_step s s'"
    and "pcs s t \<noteq> Returned k e" and "pcs s' t = Returned k e" and "k \<notin> stale s"
  shows "e = disc s k"
proof -
  note inv = rsys.reach_inv [OF assms(1)]
  from assms(2) show ?thesis
  proof cases
    case (cache_hit t' k' sch err)
    with assms(3,4) have "cache (ctl s) k = Some e"
      by (auto simp: resolveSchemaFromCache_def split: if_splits option.splits)
    with rsys_inv_coherent [OF inv] assms(5) show ?thesis by (simp add: coherent_def)
  next
    case (store_and_unlock t' k' e')
    with assms(3,4) have "pcs s t = Holding k e" by (auto split: if_splits)
    with rsys_inv_holding(2) [OF inv] assms(5) show ?thesis by blast
  qed (use assms(3,4) in \<open>auto split: if_splits\<close>)
qed

text \<open>
  A handled CRD event removes exactly the cached schemas of the group kinds its handler
  names, in every version, and no other entry, whatever the order in which the loop visits the
  cache.
\<close>

theorem crd_event_purges_exactly:
  assumes "enumerates order r" and "handle_event order ev r = Some r'"
  shows "cache r' k = (if GroupKind k \<in> purged_kinds ev then None else cache r k)"
  by (simp add: handle_event_cache [OF assms] restrict_map_def)

text \<open>
  What a call of \<open>ResolveSchema\<close> returned, an error included, is returned by every later call,
  without asking discovery again and without any effect, until an event purges the group kind.
\<close>

theorem ResolveSchema_remembers:
  assumes "ResolveSchema disco k r w = (res, r', w')"
    and "enumerates order r'" and "handle_events order evs r' = Some r''"
    and "\<forall>ev \<in> set evs. GroupKind k \<notin> purged_kinds ev"
  shows "ResolveSchema disco' k r'' v = (res, r'', v)"
proof -
  from ResolveSchema_fills [OF assms(1)] obtain e
    where e: "cache r' k = Some e" "res = (ce_schema e, ce_error e)" by blast
  have "cache r'' k = Some e"
    using handle_events_cache [OF assms(2,3)] assms(4) e(1) by (auto simp: restrict_map_def)
  then show ?thesis using e(2) by (simp add: ResolveSchema_hit)
qed

text \<open>
  (C30) The handlers purge by the type of the CRD object, which a typed informer delivers empty or
  as \<open>apiextensions.k8s.io\<close> \<open>CustomResourceDefinition\<close>, and not by the group and kind the CRD
  defines: any number of CRD events leaves the cached schema of a custom resource in place, and
  \<open>ResolveSchema\<close> goes on returning it although the CRD of that very kind has changed.
\<close>

theorem crd_events_keep_stale_schema:
  assumes "cache r k = Some e" and "GroupKind k \<notin> crd_own_types"
    and "\<And>ev c. ev \<in> set evs \<Longrightarrow> CRDObj c \<in> set (event_objs ev) \<Longrightarrow>
           GroupKind (crd_TypeMeta c) \<in> crd_own_types"
    and "enumerates order r" and "handle_events order evs r = Some r'"
  shows "ResolveSchema disco k r' w = ((ce_schema e, ce_error e), r', w)"
proof -
  have "\<forall>ev \<in> set evs. purged_kinds ev \<subseteq> crd_own_types"
    using assms(3) by (auto intro!: purged_kinds_subset)
  then have "cache r' k = Some e"
    using handle_events_cache [OF assms(4,5)] assms(1,2) by (auto simp: restrict_map_def)
  then show ?thesis by (rule ResolveSchema_hit)
qed

text \<open>
  The handlers panic exactly on events that carry a tombstone
  (\<open>cache.DeletedFinalStateUnknown\<close>), because they assert the type of the object without checking.
\<close>

theorem crd_handlers_panic_iff_tombstone:
  "handle_events order evs r = None \<longleftrightarrow>
   (\<exists>ev \<in> set evs. \<exists>key. DeletedFinalStateUnknown key \<in> set (event_objs ev))"
proof (induction evs arbitrary: r)
  case Nil
  then show ?case by simp
next
  case (Cons ev evs)
  show ?case
  proof (cases "handle_event order ev r")
    case None
    with handle_event_None_iff [of order ev r] show ?thesis by auto
  next
    case (Some r1)
    then have "\<nexists>key. DeletedFinalStateUnknown key \<in> set (event_objs ev)"
      by (simp flip: handle_event_None_iff [of order ev r])
    with Some show ?thesis by (simp add: Cons.IH)
  qed
qed

section \<open>Instances\<close>

definition ex_kind :: "string \<Rightarrow> gvk" where
  "ex_kind v = \<lparr>gvk_Group = ''stable.example.com'', gvk_Version = v, gvk_Kind = ''BasicUnion''\<rparr>"

definition ex_answer :: "nat \<Rightarrow> nat cacheEntry" where
  "ex_answer n = \<lparr>ce_error = None, ce_schema = Some n\<rparr>"

definition ex_resolver :: "nat resolver" where
  "ex_resolver = store_entry (ex_kind ''v1'') (ex_answer 1) resolver_New"

definition ex_order :: "nat schemaCache \<Rightarrow> gvk list" where
  "ex_order m = (if m (ex_kind ''v1'') = None then [] else [ex_kind ''v1''])"

definition ex_crd :: crd where
  "ex_crd =
     \<lparr>crd_TypeMeta = \<lparr>gvk_Group = [], gvk_Version = [], gvk_Kind = []\<rparr>,
      crd_Group = ''stable.example.com'', crd_Kind = ''BasicUnion''\<rparr>"

lemma ex_enumerates: "enumerates ex_order ex_resolver"
  by (auto simp: enumerates_def ex_order_def ex_resolver_def resolver_New_def restrict_map_def
      split: if_splits)

lemmas ex_event_simps = handle_event_def event_purges_def as_crd_def ex_crd_def GroupKind_def
  purgeCRDFromCache_def ex_order_def ex_resolver_def resolver_New_def store_entry_def
  purged_kinds_def ex_kind_def crd_own_types_def event_objs_def

theorem crd_events_keep_stale_schema_witness:
  "\<exists>r'. handle_events ex_order [UpdateEv (CRDObj ex_crd) (CRDObj ex_crd)] ex_resolver = Some r' \<and>
        ResolveSchema (\<lambda>k w. ((Some 2, None), w)) (ex_kind ''v1'') r' () = ((Some 1, None), r', ())"
proof -
  obtain r' where r': "handle_events ex_order [UpdateEv (CRDObj ex_crd) (CRDObj ex_crd)] ex_resolver
      = Some r'" by (simp add: handle_event_def event_purges_def as_crd_def)
  have "ResolveSchema (\<lambda>k w. ((Some 2, None), w)) (ex_kind ''v1'') r' ()
      = ((ce_schema (ex_answer 1), ce_error (ex_answer 1)), r', ())"
    by (rule crd_events_keep_stale_schema [OF _ _ _ ex_enumerates r'])
       (auto simp: ex_event_simps)
  with r' show ?thesis by (auto simp: ex_answer_def)
qed

theorem crd_event_purges_exactly_witness:
  "\<exists>r'. handle_event ex_order (AddEv (CRDObj ex_crd)) ex_resolver = Some r' \<and>
        cache r' (ex_kind ''v1'') = Some (ex_answer 1)"
proof -
  obtain r' where r': "handle_event ex_order (AddEv (CRDObj ex_crd)) ex_resolver = Some r'"
    by (simp add: handle_event_def event_purges_def as_crd_def)
  from crd_event_purges_exactly [OF ex_enumerates r', of "ex_kind ''v1''"] r' show ?thesis
    by (auto simp: ex_event_simps)
qed

theorem ResolveSchema_remembers_witness:
  "ResolveSchema (\<lambda>k w. ((Some 2, None), w)) (ex_kind ''v1'') ex_resolver ()
     = ((Some 1, None), ex_resolver, ())"
proof -
  have "ResolveSchema (\<lambda>k w. ((Some 1, None), w)) (ex_kind ''v1'') resolver_New ()
      = ((Some 1, None), ex_resolver, ())"
    by (simp add: ResolveSchema_def resolveSchemaFromCache_def ex_resolver_def resolver_New_def
        ex_answer_def)
  from this ex_enumerates show ?thesis by (rule ResolveSchema_remembers [where evs = "[]"]) simp_all
qed

definition ex_holding :: "nat rsys" where
  "ex_holding =
     (rsys_init (\<lambda>_. ex_answer 1))\<lparr>lockedBy := Some 0,
        pcs := ((\<lambda>_. Idle)(0 := Missed (ex_kind ''v1'')))(0 := Holding (ex_kind ''v1'') (ex_answer 1))\<rparr>"

lemma ex_holding_reachable: "rsys_reachable ex_holding"
proof -
  let ?s0 = "rsys_init (\<lambda>_. ex_answer 1)"
  let ?s1 = "?s0\<lparr>pcs := (pcs ?s0)(0 := Missed (ex_kind ''v1''))\<rparr>"
  have "rsys_step ?s0 ?s1"
    by (rule cache_miss) (simp_all add: rsys_init_def resolver_New_def resolveSchemaFromCache_def)
  moreover have "rsys_step ?s1 ex_holding"
    using lock_and_discover [of ?s1 0 "ex_kind ''v1''"]
    by (simp add: rsys_init_def ex_holding_def)
  ultimately show ?thesis by (blast intro: reach_start reach_step)
qed

theorem resolver_returns_current_schema_witness:
  "\<exists>s'. rsys_step ex_holding s' \<and> pcs s' 0 = Returned (ex_kind ''v1'') (ex_answer 1) \<and>
        disc ex_holding (ex_kind ''v1'') = ex_answer 1"
proof -
  let ?s' = "ex_holding\<lparr>ctl := store_entry (ex_kind ''v1'') (ex_answer 1) (ctl ex_holding),
     lockedBy := None, pcs := (pcs ex_holding)(0 := Returned (ex_kind ''v1'') (ex_answer 1))\<rparr>"
  have step: "rsys_step ex_holding ?s'"
    by (rule store_and_unlock) (simp_all add: ex_holding_def)
  have "ex_answer 1 = disc ex_holding (ex_kind ''v1'')"
    by (rule resolver_returns_current_schema [OF ex_holding_reachable step, of 0])
       (simp_all add: ex_holding_def rsys_init_def)
  with step show ?thesis by (intro exI [of _ ?s']) simp
qed

end
