(* ===== verification/Workqueue.thy ===== *)
theory Workqueue
  imports Prelude
begin

text \<open>
  The work queue the generic controller is built on (the vendored \<open>client-go/util/workqueue\<close>):
  the deduplicating queue, the delaying queue that embeds it and the rate limiting queue that
  embeds that one. Embedding is record extension, so the operations of the inner queue apply to
  the outer ones as they do in Go. Each operation runs under the queue's mutex and is one function;
  metrics are left out. Times and durations are integers, in nanoseconds.
\<close>

section \<open>The queue: queue.go\<close>

record 'k wq =
  queue :: "'k list"
  dirty :: "'k set"
  processing :: "'k set"
  shuttingDown :: bool
  drain :: bool

definition newQueue :: "'k wq" where
  "newQueue =
     \<lparr>queue = [], dirty = {}, processing = {}, shuttingDown = False, drain = False\<rparr>"

definition wq_Add :: "'k \<Rightarrow> ('k, 'z) wq_scheme \<Rightarrow> ('k, 'z) wq_scheme" where
  "wq_Add item q =
     (if shuttingDown q then q
      else if item \<in> dirty q then q
      else
        (let q1 = q\<lparr>dirty := insert item (dirty q)\<rparr> in
         if item \<in> processing q1 then q1
         else q1\<lparr>queue := queue q1 @ [item]\<rparr>))"

definition wq_Len :: "('k, 'z) wq_scheme \<Rightarrow> nat" where
  "wq_Len q = length (queue q)"

text \<open>\<open>Get\<close> waits while the queue is empty and not shutting down: \<open>Blocked\<close>.\<close>

datatype 'k get_result = Blocked | Got 'k | GotShutdown

fun wq_Get :: "('k, 'z) wq_scheme \<Rightarrow> 'k get_result \<times> ('k, 'z) wq_scheme" where
  "wq_Get q =
     (case queue q of
        [] \<Rightarrow> (if shuttingDown q then (GotShutdown, q) else (Blocked, q))
      | item # rest \<Rightarrow>
          (Got item,
           q\<lparr>queue := rest, processing := insert item (processing q),
             dirty := dirty q - {item}\<rparr>))"

declare wq_Get.simps [simp del]

definition wq_Done :: "'k \<Rightarrow> ('k, 'z) wq_scheme \<Rightarrow> ('k, 'z) wq_scheme" where
  "wq_Done item q =
     (let q1 = q\<lparr>processing := processing q - {item}\<rparr> in
      if item \<in> dirty q1 then q1\<lparr>queue := queue q1 @ [item]\<rparr> else q1)"

definition setDrain :: "bool \<Rightarrow> ('k, 'z) wq_scheme \<Rightarrow> ('k, 'z) wq_scheme" where
  "setDrain b q = q\<lparr>drain := b\<rparr>"

definition wq_shutdown :: "('k, 'z) wq_scheme \<Rightarrow> ('k, 'z) wq_scheme" where
  "wq_shutdown q = q\<lparr>shuttingDown := True\<rparr>"

definition wq_ShutDown :: "('k, 'z) wq_scheme \<Rightarrow> ('k, 'z) wq_scheme" where
  "wq_ShutDown q = wq_shutdown (setDrain False q)"

definition isProcessing :: "('k, 'z) wq_scheme \<Rightarrow> bool" where
  "isProcessing q = (processing q \<noteq> {})"

text \<open>
  \<open>ShutDownWithDrain\<close> starts by marking the queue and returns at a moment at which its loop
  condition is false.
\<close>

definition ShutDownWithDrain_start :: "('k, 'z) wq_scheme \<Rightarrow> ('k, 'z) wq_scheme" where
  "ShutDownWithDrain_start q = wq_shutdown (setDrain True q)"

definition ShutDownWithDrain_returns :: "('k, 'z) wq_scheme \<Rightarrow> bool" where
  "ShutDownWithDrain_returns q = (\<not> (isProcessing q \<and> drain q))"

section \<open>The delaying queue: delaying\_queue.go\<close>

text \<open>
  \<open>waitingForAddCh\<close> is the channel to the waiting loop. \<open>waiting\<close> stands for both the heap and
  the map \<open>waitingEntryByData\<close> of the loop, which hold the same entries: at most one per item, with
  its ready time. \<open>stopped\<close> says that \<open>stopCh\<close> is closed.
\<close>

record 'k dq = "'k wq" +
  waitingForAddCh :: "('k \<times> int) list"
  waiting :: "'k \<rightharpoonup> int"
  stopped :: bool

definition dq_ShutDown :: "('k, 'z) dq_scheme \<Rightarrow> ('k, 'z) dq_scheme" where
  "dq_ShutDown q = (if stopped q then q else (wq_ShutDown q)\<lparr>stopped := True\<rparr>)"

text \<open>
  \<open>AddAfter\<close>, for a channel with room: its capacity is 1000, and a sender that finds it full waits
  for the loop.
\<close>

definition AddAfter :: "int \<Rightarrow> 'k \<Rightarrow> int \<Rightarrow> ('k, 'z) dq_scheme \<Rightarrow> ('k, 'z) dq_scheme" where
  "AddAfter now item duration q =
     (if shuttingDown q then q
      else if duration \<le> 0 then wq_Add item q
      else if stopped q then q
      else q\<lparr>waitingForAddCh := waitingForAddCh q @ [(item, now + duration)]\<rparr>)"

text \<open>\<open>insert\<close>: keep the earlier ready time of an item that is already waiting.\<close>

definition insert_waiting :: "('k \<rightharpoonup> int) \<Rightarrow> 'k \<Rightarrow> int \<Rightarrow> 'k \<rightharpoonup> int" where
  "insert_waiting m item readyAt =
     (case m item of
        Some existing \<Rightarrow> if existing > readyAt then m(item \<mapsto> readyAt) else m
      | None \<Rightarrow> m(item \<mapsto> readyAt))"

text \<open>The loop's reaction to an entry from the channel.\<close>

definition take_entry :: "int \<Rightarrow> ('k, 'z) dq_scheme \<Rightarrow> ('k, 'z) dq_scheme" where
  "take_entry now q =
     (case waitingForAddCh q of
        [] \<Rightarrow> q
      | (item, readyAt) # rest \<Rightarrow>
          (let q1 = q\<lparr>waitingForAddCh := rest\<rparr> in
           if readyAt > now then q1\<lparr>waiting := insert_waiting (waiting q1) item readyAt\<rparr>
           else wq_Add item q1))"

text \<open>Popping an entry of the heap that is ready and the first of those waiting.\<close>

definition is_next_ready :: "int \<Rightarrow> ('k, 'z) dq_scheme \<Rightarrow> 'k \<Rightarrow> bool" where
  "is_next_ready now q item =
     (case waiting q item of
        None \<Rightarrow> False
      | Some readyAt \<Rightarrow>
          readyAt \<le> now \<and> (\<forall>other t. waiting q other = Some t \<longrightarrow> readyAt \<le> t))"

definition pop_ready :: "'k \<Rightarrow> ('k, 'z) dq_scheme \<Rightarrow> ('k, 'z) dq_scheme" where
  "pop_ready item q = (wq_Add item q)\<lparr>waiting := (waiting q)(item := None)\<rparr>"

inductive wait_step :: "int \<Rightarrow> ('k, 'z) dq_scheme \<Rightarrow> ('k, 'z) dq_scheme \<Rightarrow> bool" for now where
  wait_take:
    "\<not> shuttingDown q \<Longrightarrow> waitingForAddCh q \<noteq> [] \<Longrightarrow> wait_step now q (take_entry now q)"
| wait_pop:
    "\<not> shuttingDown q \<Longrightarrow> is_next_ready now q item \<Longrightarrow> wait_step now q (pop_ready item q)"

section \<open>The rate limiting queue\<close>

record 'k rlq = "'k dq" +
  failures :: "'k \<Rightarrow> nat"

definition baseDelay :: int where "baseDelay = 5 * 1000000"
definition maxDelay :: int where "maxDelay = 1000 * 1000000000"

text \<open>
  The conversion \<open>time.Duration(x)\<close> of a float64 with an integral value: exact for the values of a signed 64 bit
  integer. The language leaves the result for other values to the implementation; it is here what the conversion instruction of
  amd64 gives, the least integer, and nothing below depends on it.
\<close>

definition duration_of_float :: "int \<Rightarrow> int" where
  "duration_of_float x = (if - (2 ^ 63) \<le> x \<and> x < 2 ^ 63 then x else - (2 ^ 63))"

text \<open>
  \<open>ItemExponentialFailureRateLimiter.When\<close>: the float64 product of 5000000 and a power of two is
  exact until it overflows to infinity, and the comparison with \<open>math.MaxInt64\<close> is one with
  \<open>2 ^ 63\<close>. Only what passes it is converted to a duration.
\<close>

definition exponential_When :: "nat \<Rightarrow> int" where
  "exponential_When exp =
     (let backoff = baseDelay * 2 ^ exp in
      if backoff > 2 ^ 63 then maxDelay
      else
        (let calculated = duration_of_float backoff in
         if calculated > maxDelay then maxDelay
         else calculated))"

text \<open>
  \<open>DefaultControllerRateLimiter().When\<close>: the larger of the exponential delay and the delay of the
  token bucket, which the clock decides and which is the argument \<open>bucket\<close>.
\<close>

definition When :: "int \<Rightarrow> 'k \<Rightarrow> ('k, 'z) rlq_scheme \<Rightarrow> int \<times> ('k, 'z) rlq_scheme" where
  "When bucket item q =
     (let curr = exponential_When (failures q item);
          q1 = q\<lparr>failures := (failures q)(item := failures q item + 1)\<rparr>;
          ret = (if curr > 0 then curr else 0)
      in (if bucket > ret then bucket else ret, q1))"

definition Forget :: "'k \<Rightarrow> ('k, 'z) rlq_scheme \<Rightarrow> ('k, 'z) rlq_scheme" where
  "Forget item q = q\<lparr>failures := (failures q)(item := 0)\<rparr>"

definition NumRequeues :: "'k \<Rightarrow> ('k, 'z) rlq_scheme \<Rightarrow> nat" where
  "NumRequeues item q = failures q item"

definition AddRateLimited ::
  "int \<Rightarrow> int \<Rightarrow> 'k \<Rightarrow> ('k, 'z) rlq_scheme \<Rightarrow> ('k, 'z) rlq_scheme" where
  "AddRateLimited now bucket item q =
     (let (duration, q1) = When bucket item q in AddAfter now item duration q1)"

definition NewRateLimitingQueue :: "'k rlq" where
  "NewRateLimitingQueue =
     \<lparr>queue = [], dirty = {}, processing = {}, shuttingDown = False, drain = False,
      waitingForAddCh = [], waiting = Map.empty, stopped = False, failures = (\<lambda>_. 0)\<rparr>"

section \<open>The interface its users rely on\<close>

text \<open>
  What the controller assumes of its queue: a set of keys that need processing (\<open>pend\<close>), a set
  that is being processed (\<open>inproc\<close>), and how the three operations move keys between them. The
  laws speak about states that satisfy the queue's invariant \<open>ok\<close>.
\<close>

locale work_queue =
  fixes add :: "'k \<Rightarrow> 'q \<Rightarrow> 'q"
    and get :: "'q \<Rightarrow> 'k get_result \<times> 'q"
    and finish :: "'k \<Rightarrow> 'q \<Rightarrow> 'q"
    and ok :: "'q \<Rightarrow> bool"
    and pend :: "'q \<Rightarrow> 'k set"
    and inproc :: "'q \<Rightarrow> 'k set"
    and closing :: "'q \<Rightarrow> bool"
  assumes add_ok: "ok q \<Longrightarrow> ok (add k q)"
    and add_pend: "pend (add k q) = (if closing q then pend q else insert k (pend q))"
    and add_inproc: "inproc (add k q) = inproc q"
    and add_closing: "closing (add k q) = closing q"
    and get_ok: "ok q \<Longrightarrow> ok (snd (get q))"
    and get_got: "ok q \<Longrightarrow> get q = (Got k, q') \<Longrightarrow>
      k \<in> pend q \<and> k \<notin> inproc q \<and> pend q' = pend q - {k} \<and> inproc q' = insert k (inproc q)"
    and get_none: "ok q \<Longrightarrow> fst (get q) = Blocked \<or> fst (get q) = GotShutdown \<Longrightarrow>
      snd (get q) = q \<and> pend q \<subseteq> inproc q"
    and get_shutdown: "fst (get q) = GotShutdown \<Longrightarrow> closing q"
    and get_closing: "closing (snd (get q)) = closing q"
    and done_ok: "ok q \<Longrightarrow> k \<in> inproc q \<Longrightarrow> ok (finish k q)"
    and done_pend: "pend (finish k q) = pend q"
    and done_inproc: "inproc (finish k q) = inproc q - {k}"
    and done_closing: "closing (finish k q) = closing q"
begin

text \<open>A key handed out is handed out to nobody else until it is done.\<close>

lemma get_exclusive:
  "ok q \<Longrightarrow> get q = (Got k, q') \<Longrightarrow> get q' = (Got k', q'') \<Longrightarrow> k' \<noteq> k"
  using get_ok [of q] get_got [of q k q'] get_got [of q' k' q''] by auto

text \<open>A key added while it is being processed is still pending once it is done.\<close>

lemma add_during_processing:
  "\<not> closing q \<Longrightarrow> k \<in> pend (finish k (add k q))"
  by (simp add: done_pend add_pend)

text \<open>A pending key nobody processes keeps \<open>Get\<close> from blocking.\<close>

lemma get_progress:
  "ok q \<Longrightarrow> k \<in> pend q \<Longrightarrow> k \<notin> inproc q \<Longrightarrow> \<exists>k' q'. get q = (Got k', q')"
  using get_none [of q] by (cases "get q"; cases "fst (get q)") auto

text \<open>Every key that was pending is pending still, or is the one handed out.\<close>

lemma get_loses_nothing:
  "ok q \<Longrightarrow> get q = (r, q') \<Longrightarrow> pend q \<subseteq> pend q' \<union> inproc q'"
  using get_got [of q _ q'] get_none [of q] by (cases r) auto

end

section \<open>The queue's invariant\<close>

text \<open>
  The invariant of the comments in \<open>queue.go\<close>: every queued item is dirty and not being processed,
  and it is queued once; and the converse, that a dirty item is queued unless it is being
  processed.
\<close>

definition wq_inv :: "('k, 'z) wq_scheme \<Rightarrow> bool" where
  "wq_inv q =
     (distinct (queue q) \<and> set (queue q) = dirty q - processing q)"

lemma newQueue_inv [simp]: "wq_inv newQueue"
  by (simp add: wq_inv_def newQueue_def)

lemma NewRateLimitingQueue_inv [simp]: "wq_inv NewRateLimitingQueue"
  by (simp add: wq_inv_def NewRateLimitingQueue_def)

lemma wq_Add_fields [wq_simps]:
  "dirty (wq_Add k q) = (if shuttingDown q then dirty q else insert k (dirty q))"
  "processing (wq_Add k q) = processing q"
  "shuttingDown (wq_Add k q) = shuttingDown q"
  "drain (wq_Add k q) = drain q"
  by (auto simp: wq_Add_def Let_def)

lemma wq_Add_inv [wq_inv_intros]: "wq_inv q \<Longrightarrow> wq_inv (wq_Add k q)"
  by (auto simp: wq_inv_def wq_Add_def Let_def)

lemma wq_Get_cases:
  assumes "wq_Get q = (res, q')"
  obtains (got) item rest where "queue q = item # rest" "res = Got item"
      "q' = q\<lparr>queue := rest, processing := insert item (processing q), dirty := dirty q - {item}\<rparr>"
  | (blocked) "queue q = []" "res = Blocked" "q' = q" "\<not> shuttingDown q"
  | (shut) "queue q = []" "res = GotShutdown" "q' = q" "shuttingDown q"
  using assms by (auto simp: wq_Get.simps split: list.splits if_splits)

lemma wq_inv_Cons:
  assumes "wq_inv q" and "queue q = k # ks"
  shows "k \<in> dirty q" "k \<notin> processing q" "distinct ks"
    "set ks = (dirty q - {k}) - insert k (processing q)"
proof -
  from assms have eq: "insert k (set ks) = dirty q - processing q" and "k \<notin> set ks"
    by (simp_all add: wq_inv_def)
  then show "k \<in> dirty q" "k \<notin> processing q"
    "set ks = (dirty q - {k}) - insert k (processing q)" by blast+
  from assms show "distinct ks" by (simp add: wq_inv_def)
qed

lemma wq_Get_inv: "wq_inv q \<Longrightarrow> wq_inv (snd (wq_Get q))"
proof (cases "queue q")
  case (Cons k ks)
  assume "wq_inv q"
  from wq_inv_Cons [OF this Cons] show ?thesis
    by (simp add: wq_Get.simps Cons wq_inv_def)
qed (simp add: wq_Get.simps)

lemma wq_Get_shuttingDown [wq_simps]: "shuttingDown (snd (wq_Get q)) = shuttingDown q"
  by (simp add: wq_Get.simps split: list.split)

lemma wq_Get_GotShutdown: "fst (wq_Get q) = GotShutdown \<Longrightarrow> shuttingDown q"
  by (cases "queue q"; cases "shuttingDown q") (simp_all add: wq_Get.simps)

lemma wq_Done_fields [wq_simps]:
  "dirty (wq_Done k q) = dirty q"
  "processing (wq_Done k q) = processing q - {k}"
  "shuttingDown (wq_Done k q) = shuttingDown q"
  "drain (wq_Done k q) = drain q"
  by (auto simp: wq_Done_def Let_def)

lemma wq_Done_inv: "wq_inv q \<Longrightarrow> k \<in> processing q \<Longrightarrow> wq_inv (wq_Done k q)"
  by (auto simp: wq_inv_def wq_Done_def Let_def)

interpretation wq: work_queue wq_Add wq_Get wq_Done wq_inv dirty processing shuttingDown
proof
  fix q :: "('k, 'z) wq_scheme" and k q'
  assume "wq_inv q" "wq_Get q = (Got k, q')"
  then show "k \<in> dirty q \<and> k \<notin> processing q \<and> dirty q' = dirty q - {k} \<and>
      processing q' = insert k (processing q)"
    by (elim wq_Get_cases) (auto dest: wq_inv_Cons)
next
  fix q :: "('k, 'z) wq_scheme"
  assume "wq_inv q" "fst (wq_Get q) = Blocked \<or> fst (wq_Get q) = GotShutdown"
  then show "snd (wq_Get q) = q \<and> dirty q \<subseteq> processing q"
    by (cases "queue q") (auto simp: wq_inv_def wq_Get.simps)
qed (auto simp: wq_simps wq_Done_inv wq_Get_GotShutdown intro: wq_inv_intros wq_Get_inv)

section \<open>Delayed and rate limited items\<close>

text \<open>The items the queue still has to hand out: dirty, on the way to the loop, or waiting.\<close>

definition owed :: "('k, 'z) dq_scheme \<Rightarrow> 'k set" where
  "owed q = dirty q \<union> fst ` set (waitingForAddCh q) \<union> dom (waiting q)"

definition dq_inv :: "('k, 'z) dq_scheme \<Rightarrow> bool" where
  "dq_inv q = (wq_inv q \<and> finite (dom (waiting q)))"

lemma wq_Add_dq [wq_simps]:
  fixes q :: "('k, 'z) dq_scheme"
  shows "waitingForAddCh (wq_Add k q) = waitingForAddCh q" "waiting (wq_Add k q) = waiting q"
    "stopped (wq_Add k q) = stopped q"
  by (simp_all add: wq_Add_def Let_def)

lemma wq_Done_dq [wq_simps]:
  fixes q :: "('k, 'z) dq_scheme"
  shows "waitingForAddCh (wq_Done k q) = waitingForAddCh q" "waiting (wq_Done k q) = waiting q"
    "stopped (wq_Done k q) = stopped q"
  by (simp_all add: wq_Done_def Let_def)

lemma wq_Get_dq [wq_simps]:
  fixes q :: "('k, 'z) dq_scheme"
  shows "waitingForAddCh (snd (wq_Get q)) = waitingForAddCh q"
    "waiting (snd (wq_Get q)) = waiting q" "stopped (snd (wq_Get q)) = stopped q"
  by (simp_all add: wq_Get.simps split: list.split)

lemma dom_insert_waiting [simp]: "dom (insert_waiting m k t) = insert k (dom m)"
  by (auto simp: insert_waiting_def split: option.splits if_splits)

text \<open>The outer queues' own fields do not matter to the inner queue's invariant.\<close>

lemma wq_inv_outer [simp]:
  fixes q :: "('k, 'z) dq_scheme"
  shows "wq_inv (q\<lparr>waitingForAddCh := ch\<rparr>) = wq_inv q" "wq_inv (q\<lparr>waiting := m\<rparr>) = wq_inv q"
  by (simp_all add: wq_inv_def)

lemma take_entry_simps:
  "waitingForAddCh q = (k, t) # rest \<Longrightarrow> now < t \<Longrightarrow>
   take_entry now q = q\<lparr>waitingForAddCh := rest, waiting := insert_waiting (waiting q) k t\<rparr>"
  "waitingForAddCh q = (k, t) # rest \<Longrightarrow> \<not> now < t \<Longrightarrow>
   take_entry now q = wq_Add k (q\<lparr>waitingForAddCh := rest\<rparr>)"
  by (simp_all add: take_entry_def Let_def)

lemma take_entry_cases:
  assumes "waitingForAddCh q \<noteq> []"
  obtains (later) k t rest where "waitingForAddCh q = (k, t) # rest"
      "take_entry now q = q\<lparr>waitingForAddCh := rest, waiting := insert_waiting (waiting q) k t\<rparr>"
  | (due) k t rest where "waitingForAddCh q = (k, t) # rest"
      "take_entry now q = wq_Add k (q\<lparr>waitingForAddCh := rest\<rparr>)"
  using assms take_entry_simps [of q _ _ _ now]
  by (metis list.exhaust surj_pair)

lemma AddAfter_fields [wq_simps]:
  "processing (AddAfter now k d q) = processing q"
  "shuttingDown (AddAfter now k d q) = shuttingDown q"
  by (auto simp: AddAfter_def wq_simps)

lemma AddAfter_inv [wq_inv_intros]: "dq_inv q \<Longrightarrow> dq_inv (AddAfter now k d q)"
  by (simp add: dq_inv_def AddAfter_def wq_simps wq_inv_intros)

lemma owed_AddAfter:
  "stopped q \<longrightarrow> shuttingDown q \<Longrightarrow>
   owed (AddAfter now k d q) = (if shuttingDown q then owed q else insert k (owed q))"
  by (auto simp: owed_def AddAfter_def wq_simps)

text \<open>The waiting loop moves items towards the queue and loses none.\<close>

lemma take_entry_owed:
  assumes "\<not> shuttingDown q" and "waitingForAddCh q \<noteq> []"
  shows "owed (take_entry now q) = owed q"
  using assms(2) by (cases rule: take_entry_cases [of q now])
    (use assms(1) in \<open>auto simp: owed_def wq_simps\<close>)

lemma is_next_ready_waiting: "is_next_ready now q k \<Longrightarrow> k \<in> dom (waiting q)"
  by (auto simp: is_next_ready_def split: option.splits)

lemma pop_ready_owed:
  "\<not> shuttingDown q \<Longrightarrow> k \<in> dom (waiting q) \<Longrightarrow> owed (pop_ready k q) = owed q"
  by (auto simp: owed_def pop_ready_def wq_simps)

lemma wait_step_owed: "wait_step now q q' \<Longrightarrow> owed q' = owed q"
  by (induction rule: wait_step.induct)
     (simp_all add: take_entry_owed pop_ready_owed is_next_ready_waiting)

lemma take_entry_fields [wq_simps]:
  "processing (take_entry now q) = processing q"
  "shuttingDown (take_entry now q) = shuttingDown q"
  "stopped (take_entry now q) = stopped q"
  by (simp_all add: take_entry_def wq_simps Let_def split: list.split)

lemma wait_step_fields:
  assumes "wait_step now q q'"
  shows "processing q' = processing q" "shuttingDown q' = shuttingDown q" "stopped q' = stopped q"
  using assms by (cases, simp_all add: pop_ready_def wq_simps)+

lemma wait_step_inv: "wait_step now q q' \<Longrightarrow> dq_inv q \<Longrightarrow> dq_inv q'"
proof (induction rule: wait_step.induct)
  case (wait_take q)
  from wait_take(2) show ?case
    by (cases rule: take_entry_cases [of q now])
       (use wait_take(3) in \<open>simp_all add: dq_inv_def wq_simps wq_inv_intros\<close>)
next
  case (wait_pop q k)
  then show ?case by (simp add: dq_inv_def pop_ready_def wq_simps wq_inv_intros)
qed

text \<open>
  While something is on the way or waiting, the loop can move at every late enough moment: nothing
  delayed is delayed for ever.
\<close>

lemma waiting_next_ready:
  assumes "finite (dom (waiting q))" and "dom (waiting q) \<noteq> {}"
  obtains k t where "waiting q k = Some t" "\<And>now. t \<le> now \<Longrightarrow> is_next_ready now q k"
proof -
  let ?r = "\<lambda>k. the (waiting q k)"
  from assms have "Min (?r ` dom (waiting q)) \<in> ?r ` dom (waiting q)" by (intro Min_in) auto
  then obtain k where k: "k \<in> dom (waiting q)" and min: "?r k = Min (?r ` dom (waiting q))"
    by force
  have least: "?r k \<le> ?r j" if "j \<in> dom (waiting q)" for j
    using assms(1) that by (simp add: min)
  from k have "waiting q k = Some (?r k)" by auto
  moreover have "is_next_ready now q k" if "?r k \<le> now" for now
    using that k least by (force simp: is_next_ready_def split: option.split)
  ultimately show thesis by (rule that)
qed

lemma wait_step_possible:
  assumes "dq_inv q" and "\<not> shuttingDown q"
    and "waitingForAddCh q \<noteq> [] \<or> dom (waiting q) \<noteq> {}"
  shows "\<exists>t. \<forall>now \<ge> t. \<exists>q'. wait_step now q q'"
proof (cases "waitingForAddCh q = []")
  case False
  with assms(2) show ?thesis by (blast intro: wait_take)
next
  case True
  with assms have "finite (dom (waiting q))" "dom (waiting q) \<noteq> {}" by (simp_all add: dq_inv_def)
  then obtain k t where "\<And>now. t \<le> now \<Longrightarrow> is_next_ready now q k"
    by (rule waiting_next_ready) blast
  with assms(2) show ?thesis by (blast intro: wait_pop)
qed

text \<open>Rate limiting.\<close>

text \<open>The product is never \<open>2 ^ 63\<close> itself, which would pass the comparison but not fit.\<close>

lemma backoff_fits:
  assumes "\<not> baseDelay * 2 ^ n > 2 ^ 63"
  shows "duration_of_float (baseDelay * 2 ^ n) = baseDelay * 2 ^ n"
proof -
  have "5 dvd baseDelay * 2 ^ n" by (simp add: baseDelay_def)
  moreover have "\<not> (5::int) dvd 2 ^ 63" by simp
  ultimately have "baseDelay * 2 ^ n \<noteq> 2 ^ 63" by metis
  moreover have "0 \<le> baseDelay * (2::int) ^ n" by (simp add: baseDelay_def)
  ultimately show ?thesis using assms by (simp add: duration_of_float_def)
qed

lemma exponential_When_min: "exponential_When n = min maxDelay (baseDelay * 2 ^ n)"
proof (cases "baseDelay * (2::int) ^ n > 2 ^ 63")
  case True
  then show ?thesis by (simp add: exponential_When_def Let_def maxDelay_def)
next
  case False
  then show ?thesis unfolding exponential_When_def Let_def backoff_fits [OF False] by auto
qed

lemma When_fields [wq_simps]:
  "dirty (snd (When b k q)) = dirty q" "queue (snd (When b k q)) = queue q"
  "processing (snd (When b k q)) = processing q"
  "shuttingDown (snd (When b k q)) = shuttingDown q"
  "waitingForAddCh (snd (When b k q)) = waitingForAddCh q"
  "waiting (snd (When b k q)) = waiting q" "stopped (snd (When b k q)) = stopped q"
  "failures (snd (When b k q)) = (failures q)(k := failures q k + 1)"
  by (simp_all add: When_def Let_def)

lemma Forget_fields [wq_simps]:
  "dirty (Forget k q) = dirty q" "queue (Forget k q) = queue q"
  "processing (Forget k q) = processing q" "shuttingDown (Forget k q) = shuttingDown q"
  "waitingForAddCh (Forget k q) = waitingForAddCh q" "waiting (Forget k q) = waiting q"
  "stopped (Forget k q) = stopped q"
  by (simp_all add: Forget_def)

lemma AddRateLimited_eq:
  "AddRateLimited now b k q = AddAfter now k (fst (When b k q)) (snd (When b k q))"
  by (simp add: AddRateLimited_def split: prod.split)

lemma When_inv [wq_inv_intros]: "dq_inv q \<Longrightarrow> dq_inv (snd (When b k q))"
  by (simp add: dq_inv_def wq_inv_def wq_simps)

lemma Forget_inv [wq_inv_intros]: "dq_inv q \<Longrightarrow> dq_inv (Forget k q)"
  by (simp add: dq_inv_def wq_inv_def wq_simps)

lemma AddRateLimited_inv [wq_inv_intros]: "dq_inv q \<Longrightarrow> dq_inv (AddRateLimited now b k q)"
  by (simp add: AddRateLimited_eq wq_inv_intros)

lemma AddRateLimited_fields [wq_simps]:
  "processing (AddRateLimited now b k q) = processing q"
  "shuttingDown (AddRateLimited now b k q) = shuttingDown q"
  by (simp_all add: AddRateLimited_eq wq_simps)

lemma owed_AddRateLimited:
  "stopped q \<longrightarrow> shuttingDown q \<Longrightarrow>
   owed (AddRateLimited now b k q) = (if shuttingDown q then owed q else insert k (owed q))"
  by (simp add: AddRateLimited_eq owed_AddAfter wq_simps) (simp add: owed_def wq_simps)

lemma stopped_AddAfter [wq_simps]: "stopped (AddAfter now k d q) = stopped q"
  by (simp add: AddAfter_def wq_simps)

lemma stopped_AddRateLimited [wq_simps]: "stopped (AddRateLimited now b k q) = stopped q"
  by (simp add: AddRateLimited_eq wq_simps)

section \<open>Property\<close>

text \<open>
  (C32) The delay of a retry: after \<open>n\<close> failures in a row an item waits for the larger of what the token bucket
  says and the exponential delay, which is \<open>5ms * 2 ^ n\<close> but at most 1000 seconds. The exponential delay is a positive
  number of nanoseconds that fits into 64 bits, however many failures there were: what is too large is cut off before it is
  converted to a duration. Each retry counts one failure, and \<open>Forget\<close> takes the exponential delay back to 5ms.
\<close>

theorem retry_backoff:
  "fst (When bucket item q) = max bucket (min maxDelay (baseDelay * 2 ^ NumRequeues item q)) \<and>
   NumRequeues item (snd (When bucket item q)) = NumRequeues item q + 1 \<and>
   fst (When bucket item (Forget item q)) = max bucket baseDelay \<and>
   0 < exponential_When (NumRequeues item q) \<and> exponential_When (NumRequeues item q) < 2 ^ 63"
proof -
  have pos: "0 < baseDelay * (2::int) ^ n" for n by (simp add: baseDelay_def)
  have bounds: "0 < exponential_When n" "exponential_When n < 2 ^ 63" for n
    using pos [of n] unfolding exponential_When_min by (simp_all add: maxDelay_def)
  have delay: "fst (When bucket item p) = max bucket (exponential_When (failures p item))"
    for p :: "('a, 'b) rlq_scheme"
    using bounds(1) [of "failures p item"] by (simp add: When_def Let_def)
  have "exponential_When 0 = baseDelay" by (simp add: exponential_When_min baseDelay_def maxDelay_def)
  then have "fst (When bucket item (Forget item q)) = max bucket baseDelay"
    by (simp add: delay) (simp add: Forget_def)
  with bounds show ?thesis by (simp add: delay NumRequeues_def exponential_When_min wq_simps)
qed

end
