(* ===== verification/Lister.thy ===== *)
theory Lister
  imports Admission
begin

text \<open>
  The generic lister of \<open>pkg/controller/lister.go\<close>, the generated listers of the two policy
  resources, and the key functions and list helpers of the vendored \<open>client-go/tools/cache\<close> they
  rest on. An indexer holds runtime objects under string keys; its namespace index may be missing.
\<close>

section \<open>Objects, keys, selectors\<close>

record objmeta =
  om_Namespace :: string
  om_Name :: string
  om_ResourceVersion :: string
  om_Labels :: "string \<rightharpoonup> string"

text \<open>\<open>meta.Accessor\<close>: \<open>None\<close> is the error \<open>errNotObject\<close>.\<close>

type_synonym 'obj accessor = "'obj \<Rightarrow> objmeta option"

definition errNotObject :: go_error where
  "errNotObject = Plain ''object does not implement the Object interfaces''"

text \<open>What reaches an event handler: an object, a key in its own right, or a tombstone.\<close>

datatype 'obj handler_arg = Object 'obj | ExplicitKey string | Tombstone string 'obj

definition arg_meta :: "'obj accessor \<Rightarrow> 'obj handler_arg \<Rightarrow> objmeta option" where
  "arg_meta accessor a =
     (case a of Object ob \<Rightarrow> accessor ob | ExplicitKey _ \<Rightarrow> None | Tombstone _ _ \<Rightarrow> None)"

definition meta_key :: "objmeta \<Rightarrow> string" where
  "meta_key m =
     (if om_Namespace m \<noteq> [] then om_Namespace m @ ''/'' @ om_Name m else om_Name m)"

definition MetaNamespaceKeyFunc :: "'obj accessor \<Rightarrow> 'obj handler_arg \<Rightarrow> go_error + string" where
  "MetaNamespaceKeyFunc accessor a =
     (case a of
        ExplicitKey key \<Rightarrow> Inr key
      | _ \<Rightarrow>
          (case arg_meta accessor a of
             None \<Rightarrow> Inl (Plain (''object has no meta: '' @ error_text errNotObject))
           | Some m \<Rightarrow> Inr (meta_key m)))"

definition SplitMetaNamespaceKey :: "string \<Rightarrow> go_error + string \<times> string" where
  "SplitMetaNamespaceKey key =
     (case split_on CHR ''/'' key of
        [name] \<Rightarrow> Inr ([], name)
      | [namespace, name] \<Rightarrow> Inr (namespace, name)
      | _ \<Rightarrow> Inl (Plain (''unexpected key format: '' @ quote key)))"

record selector =
  sel_Empty :: bool
  sel_Matches :: "(string \<rightharpoonup> string) \<Rightarrow> bool"

section \<open>The indexer\<close>

text \<open>
  The store in the order its listing visits it, and whether it has the namespace index. The cache
  never returns an error from \<open>GetByKey\<close>, but the interface allows one: \<open>ix_err\<close>.
\<close>

record 'obj indexer =
  ix_items :: "(string \<times> 'obj) list"
  ix_hasNamespaceIndex :: bool
  ix_err :: "string \<Rightarrow> go_error option"

definition ix_List :: "'obj indexer \<Rightarrow> 'obj list" where
  "ix_List ix = map snd (ix_items ix)"

definition GetByKey :: "'obj indexer \<Rightarrow> string \<Rightarrow> 'obj option \<times> bool \<times> go_error option" where
  "GetByKey ix key =
     (case ix_err ix key of
        Some err \<Rightarrow> (None, False, Some err)
      | None \<Rightarrow>
          (case map_of (ix_items ix) key of
             None \<Rightarrow> (None, False, None)
           | Some ob \<Rightarrow> (Some ob, True, None)))"

definition in_namespace :: "'obj accessor \<Rightarrow> string \<Rightarrow> 'obj \<Rightarrow> bool" where
  "in_namespace accessor namespace ob =
     (case accessor ob of None \<Rightarrow> False | Some m \<Rightarrow> om_Namespace m = namespace)"

text \<open>\<open>Index(NamespaceIndex, ...)\<close>: \<open>None\<close> is the error of a missing index.\<close>

definition ix_Index :: "'obj accessor \<Rightarrow> 'obj indexer \<Rightarrow> string \<Rightarrow> 'obj list option" where
  "ix_Index accessor ix namespace =
     (if ix_hasNamespaceIndex ix
      then Some (filter (in_namespace accessor namespace) (ix_List ix)) else None)"

section \<open>List helpers: listers.go\<close>

text \<open>
  The loops, with the append function of the listers: a type assertion \<open>m.(T)\<close>, whose panic is
  \<open>None\<close>. The slice is kept when an error ends the loop.
\<close>

type_synonym ('obj, 't) assertion = "'obj \<Rightarrow> 't option"

definition appendFn :: "('obj, 't) assertion \<Rightarrow> 'obj \<Rightarrow> 't slice \<Rightarrow> 't slice option" where
  "appendFn asT m ret = map_option (append_slice ret) (asT m)"

fun list_loop ::
  "'obj accessor \<Rightarrow> ('obj, 't) assertion \<Rightarrow> selector \<Rightarrow> 'obj list \<Rightarrow> 't slice
   \<Rightarrow> ('t slice \<times> go_error option) option" where
  "list_loop accessor asT sel [] ret = Some (ret, None)"
| "list_loop accessor asT sel (m # ms) ret =
     (if sel_Empty sel
      then (case appendFn asT m ret of
              None \<Rightarrow> None
            | Some ret' \<Rightarrow> list_loop accessor asT sel ms ret')
      else
        (case accessor m of
           None \<Rightarrow> Some (ret, Some errNotObject)
         | Some metadata \<Rightarrow>
             if sel_Matches sel (om_Labels metadata)
             then (case appendFn asT m ret of
                     None \<Rightarrow> None
                   | Some ret' \<Rightarrow> list_loop accessor asT sel ms ret')
             else list_loop accessor asT sel ms ret))"

definition ListAll ::
  "'obj accessor \<Rightarrow> ('obj, 't) assertion \<Rightarrow> 'obj indexer \<Rightarrow> selector
   \<Rightarrow> ('t slice \<times> go_error option) option" where
  "ListAll accessor asT ix sel = list_loop accessor asT sel (ix_List ix) None"

fun slow_loop ::
  "'obj accessor \<Rightarrow> ('obj, 't) assertion \<Rightarrow> string \<Rightarrow> selector \<Rightarrow> 'obj list \<Rightarrow> 't slice
   \<Rightarrow> ('t slice \<times> go_error option) option" where
  "slow_loop accessor asT namespace sel [] ret = Some (ret, None)"
| "slow_loop accessor asT namespace sel (m # ms) ret =
     (case accessor m of
        None \<Rightarrow> Some (ret, Some errNotObject)
      | Some metadata \<Rightarrow>
          if om_Namespace metadata = namespace \<and> sel_Matches sel (om_Labels metadata)
          then (case appendFn asT m ret of
                  None \<Rightarrow> None
                | Some ret' \<Rightarrow> slow_loop accessor asT namespace sel ms ret')
          else slow_loop accessor asT namespace sel ms ret)"

definition ListAllByNamespace ::
  "'obj accessor \<Rightarrow> ('obj, 't) assertion \<Rightarrow> 'obj indexer \<Rightarrow> string \<Rightarrow> selector
   \<Rightarrow> ('t slice \<times> go_error option) option" where
  "ListAllByNamespace accessor asT ix namespace sel =
     (if namespace = [] then ListAll accessor asT ix sel
      else
        (case ix_Index accessor ix namespace of
           None \<Rightarrow> slow_loop accessor asT namespace sel (ix_List ix) None
         | Some items \<Rightarrow> list_loop accessor asT sel items None))"

section \<open>The listers: lister.go\<close>

record 'obj lister =
  li_indexer :: "'obj indexer"

record 'obj namespacedLister =
  nl_indexer :: "'obj indexer"
  nl_namespace :: string

definition NewLister :: "'obj indexer \<Rightarrow> 'obj lister" where
  "NewLister ix = \<lparr>li_indexer = ix\<rparr>"

definition Namespaced :: "'obj lister \<Rightarrow> string \<Rightarrow> 'obj namespacedLister" where
  "Namespaced w namespace = \<lparr>nl_indexer = li_indexer w, nl_namespace = namespace\<rparr>"

definition namespacedLister_List ::
  "'obj accessor \<Rightarrow> ('obj, 't) assertion \<Rightarrow> 'obj namespacedLister \<Rightarrow> selector
   \<Rightarrow> ('t slice \<times> go_error option) option" where
  "namespacedLister_List accessor asT w sel =
     ListAllByNamespace accessor asT (nl_indexer w) (nl_namespace w) sel"

text \<open>
  \<open>Get\<close>: the object (\<open>None\<close> is the zero value of \<open>T\<close>) and the error; the outer \<open>None\<close> is a panic
  of the type assertion.
\<close>

definition get_or_not_found ::
  "('obj, 't) assertion \<Rightarrow> group_resource \<Rightarrow> 'obj indexer \<Rightarrow> string \<Rightarrow> string
   \<Rightarrow> ('t option \<times> go_error option) option" where
  "get_or_not_found asT gr ix key name =
     (case GetByKey ix key of
        (_, _, Some err) \<Rightarrow> Some (None, Some err)
      | (_, False, None) \<Rightarrow> Some (None, Some (NewNotFound gr name))
      | (ob, True, None) \<Rightarrow>
          (case ob of
             None \<Rightarrow> None
           | Some m \<Rightarrow> map_option (\<lambda>t. (Some t, None)) (asT m)))"

definition namespacedLister_Get ::
  "('obj, 't) assertion \<Rightarrow> 'obj namespacedLister \<Rightarrow> string
   \<Rightarrow> ('t option \<times> go_error option) option" where
  "namespacedLister_Get asT w name =
     get_or_not_found asT \<lparr>gr_Group = [], gr_Resource = []\<rparr> (nl_indexer w)
       (nl_namespace w @ ''/'' @ name) name"

definition lister_List ::
  "'obj accessor \<Rightarrow> ('obj, 't) assertion \<Rightarrow> 'obj lister \<Rightarrow> selector
   \<Rightarrow> ('t slice \<times> go_error option) option" where
  "lister_List accessor asT w sel = ListAll accessor asT (li_indexer w) sel"

definition lister_Get ::
  "('obj, 't) assertion \<Rightarrow> 'obj lister \<Rightarrow> string \<Rightarrow> ('t option \<times> go_error option) option" where
  "lister_Get asT w name =
     get_or_not_found asT \<lparr>gr_Group = ''node.k8s.io'', gr_Resource = ''validationruleset''\<rparr>
       (li_indexer w) name name"

text \<open>The generated listers of policies and bindings.\<close>

definition policyLister_List ::
  "'obj accessor \<Rightarrow> ('obj, 't) assertion \<Rightarrow> 'obj indexer \<Rightarrow> selector
   \<Rightarrow> ('t slice \<times> go_error option) option" where
  "policyLister_List accessor asT ix sel = ListAll accessor asT ix sel"

definition policyLister_Get ::
  "('obj, 't) assertion \<Rightarrow> 'obj indexer \<Rightarrow> string \<Rightarrow> ('t option \<times> go_error option) option" where
  "policyLister_Get asT ix name =
     get_or_not_found asT
       \<lparr>gr_Group = ''admissionregistration.x-k8s.io'', gr_Resource = ''validatingadmissionpolicy''\<rparr>
       ix name name"

definition bindingLister_List ::
  "'obj accessor \<Rightarrow> ('obj, 't) assertion \<Rightarrow> 'obj indexer \<Rightarrow> selector
   \<Rightarrow> ('t slice \<times> go_error option) option" where
  "bindingLister_List accessor asT ix sel = ListAll accessor asT ix sel"

definition bindingLister_Get ::
  "('obj, 't) assertion \<Rightarrow> 'obj indexer \<Rightarrow> string \<Rightarrow> ('t option \<times> go_error option) option" where
  "bindingLister_Get asT ix name =
     get_or_not_found asT
       \<lparr>gr_Group = ''admissionregistration.x-k8s.io'',
        gr_Resource = ''validatingadmissionpolicybinding''\<rparr>
       ix name name"

record 'obj validatingAdmissionPolicyLister =
  vapl_indexer :: "'obj indexer"

record 'obj validatingAdmissionPolicyBindingLister =
  vapbl_indexer :: "'obj indexer"

definition NewValidatingAdmissionPolicyLister :: "'obj indexer \<Rightarrow> 'obj validatingAdmissionPolicyLister" where
  "NewValidatingAdmissionPolicyLister ix = \<lparr>vapl_indexer = ix\<rparr>"

definition NewValidatingAdmissionPolicyBindingLister ::
  "'obj indexer \<Rightarrow> 'obj validatingAdmissionPolicyBindingLister" where
  "NewValidatingAdmissionPolicyBindingLister ix = \<lparr>vapbl_indexer = ix\<rparr>"

text \<open>The untyped lister of the vendored \<open>listers.go\<close>; every object passes its assertion.\<close>

record 'obj genericLister =
  gl_indexer :: "'obj indexer"
  gl_resource :: group_resource

definition NewGenericLister :: "'obj indexer \<Rightarrow> group_resource \<Rightarrow> 'obj genericLister" where
  "NewGenericLister ix resource = \<lparr>gl_indexer = ix, gl_resource = resource\<rparr>"

definition genericLister_List ::
  "'obj accessor \<Rightarrow> 'obj genericLister \<Rightarrow> selector \<Rightarrow> ('obj slice \<times> go_error option) option" where
  "genericLister_List accessor w sel = ListAll accessor Some (gl_indexer w) sel"

definition genericLister_Get :: "'obj genericLister \<Rightarrow> string \<Rightarrow> ('obj option \<times> go_error option) option" where
  "genericLister_Get w name = get_or_not_found Some (gl_resource w) (gl_indexer w) name name"

text \<open>\<open>informer.go\<close>: an informer of the shared kind with the generic lister on its indexer.\<close>

record 'inf informer =
  in_informer :: 'inf

definition NewInformer :: "'inf \<Rightarrow> 'inf informer" where
  "NewInformer informe = \<lparr>in_informer = informe\<rparr>"

definition informer_Informer :: "'inf informer \<Rightarrow> 'inf" where
  "informer_Informer i = in_informer i"

definition informer_Lister :: "('inf \<Rightarrow> 'obj indexer) \<Rightarrow> 'inf informer \<Rightarrow> 'obj lister" where
  "informer_Lister GetIndexer i = NewLister (GetIndexer (in_informer i))"

section \<open>Keys\<close>

lemma split_meta_key:
  assumes "CHR ''/'' \<notin> set (om_Namespace m)" and "CHR ''/'' \<notin> set (om_Name m)"
  shows "SplitMetaNamespaceKey (meta_key m) = Inr (om_Namespace m, om_Name m)"
  using assms by (simp add: SplitMetaNamespaceKey_def meta_key_def split_on_sep split_on_no_sep)

lemma meta_key_inj:
  assumes "CHR ''/'' \<notin> set (om_Namespace m)" "CHR ''/'' \<notin> set (om_Name m)"
    and "CHR ''/'' \<notin> set (om_Namespace m')" "CHR ''/'' \<notin> set (om_Name m')"
    and "meta_key m = meta_key m'"
  shows "om_Namespace m = om_Namespace m' \<and> om_Name m = om_Name m'"
  using split_meta_key [OF assms(1,2)] split_meta_key [OF assms(3,4)] assms(5) by simp

section \<open>The store behind a lister\<close>

text \<open>
  What a lister relies on: an object is found under a key exactly when it is stored and has that
  key.
\<close>

locale object_store =
  fixes lookup :: "'s \<Rightarrow> 'k \<Rightarrow> 'obj option"
    and items :: "'s \<Rightarrow> 'obj list"
    and key :: "'obj \<Rightarrow> 'k"
    and wf :: "'s \<Rightarrow> bool"
  assumes lookup_iff: "wf s \<Longrightarrow> lookup s k = Some ob \<longleftrightarrow> ob \<in> set (items s) \<and> key ob = k"
begin

lemma lookup_None_iff: "wf s \<Longrightarrow> lookup s k = None \<longleftrightarrow> (\<forall>ob \<in> set (items s). key ob \<noteq> k)"
  using lookup_iff [of s k] by (cases "lookup s k") auto

lemma keys_unique:
  "wf s \<Longrightarrow> ob \<in> set (items s) \<Longrightarrow> ob' \<in> set (items s) \<Longrightarrow> key ob = key ob' \<Longrightarrow> ob = ob'"
  using lookup_iff [of s "key ob" ob] lookup_iff [of s "key ob" ob'] by auto

lemma lookup_key: "wf s \<Longrightarrow> ob \<in> set (items s) \<Longrightarrow> lookup s (key ob) = Some ob"
  by (simp add: lookup_iff)

end

text \<open>An indexer filled through the key function, with names as the API server accepts them.\<close>

definition obj_key :: "'obj accessor \<Rightarrow> 'obj \<Rightarrow> string" where
  "obj_key accessor ob = (case accessor ob of None \<Rightarrow> [] | Some m \<Rightarrow> meta_key m)"

definition ix_wf :: "'obj accessor \<Rightarrow> 'obj indexer \<Rightarrow> bool" where
  "ix_wf accessor ix =
     (distinct (map fst (ix_items ix)) \<and>
      (\<forall>k. ix_err ix k = None) \<and>
      list_all (\<lambda>(k, ob).
        case accessor ob of
          None \<Rightarrow> False
        | Some m \<Rightarrow> k = meta_key m \<and> CHR ''/'' \<notin> set (om_Namespace m) \<and>
            CHR ''/'' \<notin> set (om_Name m)) (ix_items ix))"

lemma ix_wfD:
  assumes "ix_wf accessor ix" and "(k, ob) \<in> set (ix_items ix)"
  obtains m where "accessor ob = Some m" "k = meta_key m" "k = obj_key accessor ob"
    "CHR ''/'' \<notin> set (om_Namespace m)" "CHR ''/'' \<notin> set (om_Name m)"
  using assms by (fastforce simp: ix_wf_def list_all_iff obj_key_def split: option.splits)

interpretation ixs:
  object_store "\<lambda>ix. map_of (ix_items ix)" ix_List "obj_key accessor" "ix_wf accessor"
  for accessor :: "'obj accessor"
proof
  fix ix :: "'obj indexer" and k ob
  assume wf: "ix_wf accessor ix"
  then have "distinct (map fst (ix_items ix))" by (simp add: ix_wf_def)
  then have "map_of (ix_items ix) k = Some ob \<longleftrightarrow> (k, ob) \<in> set (ix_items ix)" by simp
  also have "\<dots> \<longleftrightarrow> ob \<in> set (ix_List ix) \<and> obj_key accessor ob = k"
    using wf by (force simp: ix_List_def elim: ix_wfD)
  finally show "map_of (ix_items ix) k = Some ob \<longleftrightarrow>
    ob \<in> set (ix_List ix) \<and> obj_key accessor ob = k" .
qed

section \<open>Get\<close>

lemma get_or_not_found_wf:
  assumes "ix_wf accessor ix"
  shows "get_or_not_found asT gr ix key name =
     (case map_of (ix_items ix) key of
        None \<Rightarrow> Some (None, Some (NewNotFound gr name))
      | Some m \<Rightarrow> map_option (\<lambda>t. (Some t, None)) (asT m))"
  using assms by (simp add: get_or_not_found_def GetByKey_def ix_wf_def split: option.split)

definition lookup_object ::
  "'obj accessor \<Rightarrow> 'obj indexer \<Rightarrow> string \<Rightarrow> string \<Rightarrow> 'obj option" where
  "lookup_object accessor ix namespace name =
     List.find (\<lambda>ob. case accessor ob of
        None \<Rightarrow> False
      | Some m \<Rightarrow> om_Namespace m = namespace \<and> om_Name m = name) (ix_List ix)"

lemma find_eq_Some_unique:
  assumes "ob \<in> set xs" and "P ob" and "\<And>x. x \<in> set xs \<Longrightarrow> P x \<Longrightarrow> x = ob"
  shows "List.find P xs = Some ob"
proof (cases "List.find P xs")
  case None
  with assms(1,2) show ?thesis by (auto simp: find_None_iff)
next
  case (Some y)
  then have "y \<in> set xs" "P y" by (auto simp: find_Some_iff)
  with assms(3) Some show ?thesis by simp
qed

text \<open>Under the key of a namespace and a name, the store holds the object with that name.\<close>

lemma map_of_key_lookup:
  assumes wf: "ix_wf accessor ix"
    and ns: "CHR ''/'' \<notin> set namespace" and nm: "CHR ''/'' \<notin> set name"
  shows "map_of (ix_items ix) (if namespace \<noteq> [] then namespace @ ''/'' @ name else name) =
           lookup_object accessor ix namespace name"
proof -
  define m0 where "m0 = \<lparr>om_Namespace = namespace, om_Name = name, om_ResourceVersion = [],
    om_Labels = Map.empty\<rparr>"
  have key: "(if namespace \<noteq> [] then namespace @ ''/'' @ name else name) = meta_key m0"
    by (simp add: m0_def meta_key_def)
  let ?P = "\<lambda>ob. case accessor ob of None \<Rightarrow> False
      | Some m \<Rightarrow> om_Namespace m = namespace \<and> om_Name m = name"
  have P: "?P ob \<longleftrightarrow> obj_key accessor ob = meta_key m0" if "ob \<in> set (ix_List ix)" for ob
  proof -
    from that obtain k where "(k, ob) \<in> set (ix_items ix)" by (auto simp: ix_List_def)
    from wf this obtain m where m: "accessor ob = Some m" "CHR ''/'' \<notin> set (om_Namespace m)"
      "CHR ''/'' \<notin> set (om_Name m)" by (rule ix_wfD)
    have "meta_key m = meta_key m0 \<longleftrightarrow> om_Namespace m = namespace \<and> om_Name m = name"
      using meta_key_inj [OF m(2,3), of m0] ns nm by (auto simp: m0_def meta_key_def)
    with m(1) show ?thesis by (simp add: obj_key_def)
  qed
  show ?thesis
  proof (cases "map_of (ix_items ix) (meta_key m0)")
    case None
    with ixs.lookup_None_iff [OF wf, of "meta_key m0"] P have "List.find ?P (ix_List ix) = None"
      by (simp add: find_None_iff)
    with None show ?thesis by (simp add: key lookup_object_def)
  next
    case (Some ob)
    with ixs.lookup_iff [OF wf] have ob: "ob \<in> set (ix_List ix)" "obj_key accessor ob = meta_key m0"
      by blast+
    have "List.find ?P (ix_List ix) = Some ob"
    proof (rule find_eq_Some_unique [OF ob(1)])
      show "?P ob" using P [OF ob(1)] ob(2) by simp
    next
      fix x
      assume x: "x \<in> set (ix_List ix)" "?P x"
      then have "obj_key accessor x = obj_key accessor ob" using P [OF x(1)] ob(2) by simp
      then show "x = ob" by (rule ixs.keys_unique [OF wf x(1) ob(1)])
    qed
    with Some show ?thesis by (simp add: key lookup_object_def)
  qed
qed

section \<open>List\<close>

definition selects :: "'obj accessor \<Rightarrow> selector \<Rightarrow> 'obj \<Rightarrow> bool" where
  "selects accessor sel ob =
     (case accessor ob of None \<Rightarrow> False | Some m \<Rightarrow> sel_Matches sel (om_Labels m))"

text \<open>Every stored object has metadata and the type the lister was made for.\<close>

definition all_typed :: "'obj accessor \<Rightarrow> ('obj, 't) assertion \<Rightarrow> 'obj list \<Rightarrow> bool" where
  "all_typed accessor asT obs = list_all (\<lambda>ob. accessor ob \<noteq> None \<and> asT ob \<noteq> None) obs"

text \<open>An empty selector matches everything, as \<open>labels.Selector\<close> documents.\<close>

definition sel_wf :: "selector \<Rightarrow> bool" where
  "sel_wf sel = (sel_Empty sel \<longrightarrow> (\<forall>ls. sel_Matches sel ls))"

lemma selects_Some: "accessor ob = Some m \<Longrightarrow> selects accessor sel ob = sel_Matches sel (om_Labels m)"
  by (simp add: selects_def)

definition selected_slice ::
  "'obj accessor \<Rightarrow> ('obj, 't) assertion \<Rightarrow> selector \<Rightarrow> 'obj indexer \<Rightarrow> 't slice" where
  "selected_slice accessor asT sel ix =
     (let found = map (\<lambda>ob. the (asT ob)) (filter (selects accessor sel) (ix_List ix))
      in if found = [] then None else Some found)"

lemma list_loop_selected:
  assumes "sel_wf sel" and "all_typed accessor asT obs"
  shows "list_loop accessor asT sel obs ret =
     Some (foldl append_slice ret (map (\<lambda>ob. the (asT ob)) (filter (selects accessor sel) obs)), None)"
  using assms(2)
proof (induction obs arbitrary: ret)
  case Nil
  then show ?case by simp
next
  case (Cons ob obs)
  then obtain m t where mt: "accessor ob = Some m" "asT ob = Some t" by (auto simp: all_typed_def)
  from Cons have IH: "\<And>ret. list_loop accessor asT sel obs ret =
     Some (foldl append_slice ret (map (\<lambda>ob. the (asT ob)) (filter (selects accessor sel) obs)), None)"
    by (simp add: all_typed_def)
  show ?case
    using mt assms(1) by (cases "sel_Empty sel") (simp_all add: IH appendFn_def selects_Some sel_wf_def)
qed

lemma slow_loop_selected:
  assumes "all_typed accessor asT obs"
  shows "slow_loop accessor asT ns sel obs ret =
     Some (foldl append_slice ret (map (\<lambda>ob. the (asT ob))
       (filter (selects accessor sel) (filter (in_namespace accessor ns) obs))), None)"
  using assms
proof (induction obs arbitrary: ret)
  case Nil
  then show ?case by simp
next
  case (Cons ob obs)
  then obtain m t where "accessor ob = Some m" "asT ob = Some t" by (auto simp: all_typed_def)
  with Cons show ?case
    by (simp add: all_typed_def appendFn_def selects_def in_namespace_def)
qed

lemma all_typed_filter: "all_typed accessor asT obs \<Longrightarrow> all_typed accessor asT (filter P obs)"
  by (simp add: all_typed_def list_all_iff)

section \<open>Properties\<close>

text \<open>
  \<open>SplitMetaNamespaceKey\<close> undoes \<open>MetaNamespaceKeyFunc\<close> for every object whose namespace and
  name have no slash, namespaced or not.
\<close>

theorem key_roundtrip:
  assumes "accessor ob = Some m"
    and "CHR ''/'' \<notin> set (om_Namespace m)" and "CHR ''/'' \<notin> set (om_Name m)"
  shows "\<exists>key. MetaNamespaceKeyFunc accessor (Object ob) = Inr key \<and>
           SplitMetaNamespaceKey key = Inr (om_Namespace m, om_Name m)"
  using assms by (simp add: MetaNamespaceKeyFunc_def arg_meta_def split_meta_key)

text \<open>
  On a store filled through the key function, \<open>Get\<close> of a lister, cluster-wide or of a
  namespace, returns the stored object with that namespace and name, and a not-found error exactly
  when there is none.
\<close>

theorem listers_Get_exact:
  assumes "ix_wf accessor ix" and "CHR ''/'' \<notin> set ns" and "CHR ''/'' \<notin> set name"
  shows "(if ns \<noteq> [] then namespacedLister_Get asT (Namespaced (NewLister ix) ns) name
          else lister_Get asT (NewLister ix) name) =
         (case lookup_object accessor ix ns name of
            Some ob \<Rightarrow> map_option (\<lambda>t. (Some t, None)) (asT ob)
          | None \<Rightarrow>
              Some (None, Some (NewNotFound
                (if ns \<noteq> [] then \<lparr>gr_Group = [], gr_Resource = []\<rparr>
                 else \<lparr>gr_Group = ''node.k8s.io'', gr_Resource = ''validationruleset''\<rparr>) name)))"
  using map_of_key_lookup [OF assms]
  by (simp add: namespacedLister_Get_def lister_Get_def Namespaced_def NewLister_def
      get_or_not_found_wf [OF assms(1)] split: if_splits option.splits)

text \<open>
  Listing a namespace returns exactly the stored objects of that namespace that the selector
  matches, in store order, with or without the namespace index; the empty namespace lists them all.
\<close>

theorem namespaced_List_exact:
  assumes "sel_wf sel" and "all_typed accessor asT (ix_List ix)"
  shows "namespacedLister_List accessor asT (Namespaced (NewLister ix) ns) sel =
     (let found = map (\<lambda>ob. the (asT ob)) (filter (selects accessor sel)
            (filter (\<lambda>ob. ns = [] \<or> in_namespace accessor ns ob) (ix_List ix)))
      in Some (if found = [] then None else Some found, None))"
  using assms
  by (simp add: namespacedLister_List_def Namespaced_def NewLister_def ListAllByNamespace_def
      ListAll_def ix_Index_def list_loop_selected slow_loop_selected all_typed_filter
      foldl_append_slice_None Let_def)

text \<open>
  The generated listers of policies and bindings, which are cluster-scoped: \<open>List\<close> returns
  exactly the matching objects and \<open>Get\<close> the object of that name or the not-found error of their
  own resource.
\<close>

theorem generated_listers_exact:
  assumes "ix_wf accessor ix" and "CHR ''/'' \<notin> set name"
    and "sel_wf sel" and "all_typed accessor asT (ix_List ix)"
  shows "policyLister_List accessor asT ix sel = Some (selected_slice accessor asT sel ix, None) \<and>
    bindingLister_List accessor asT ix sel = Some (selected_slice accessor asT sel ix, None) \<and>
    policyLister_Get asT ix name =
      (case lookup_object accessor ix [] name of
         Some ob \<Rightarrow> map_option (\<lambda>t. (Some t, None)) (asT ob)
       | None \<Rightarrow> Some (None, Some (NewNotFound \<lparr>gr_Group = ''admissionregistration.x-k8s.io'',
           gr_Resource = ''validatingadmissionpolicy''\<rparr> name))) \<and>
    bindingLister_Get asT ix name =
      (case lookup_object accessor ix [] name of
         Some ob \<Rightarrow> map_option (\<lambda>t. (Some t, None)) (asT ob)
       | None \<Rightarrow> Some (None, Some (NewNotFound \<lparr>gr_Group = ''admissionregistration.x-k8s.io'',
           gr_Resource = ''validatingadmissionpolicybinding''\<rparr> name)))"
proof -
  have "map_of (ix_items ix) name = lookup_object accessor ix [] name"
    using map_of_key_lookup [OF assms(1) _ assms(2), of "[]"] by simp
  with assms show ?thesis
    by (simp add: policyLister_List_def bindingLister_List_def policyLister_Get_def
        bindingLister_Get_def get_or_not_found_wf [OF assms(1)] ListAll_def list_loop_selected
        foldl_append_slice_None selected_slice_def split: option.split)
qed

section \<open>Instances\<close>

definition ex_meta :: "string \<Rightarrow> objmeta option" where
  "ex_meta s = Some \<lparr>om_Namespace = (if s = ''c'' then [] else ''ns''), om_Name = s,
     om_ResourceVersion = ''1'', om_Labels = Map.empty\<rparr>"

definition ex_ix :: "string indexer" where
  "ex_ix = \<lparr>ix_items = [(''ns/a'', ''a''), (''ns/b'', ''b''), (''c'', ''c'')],
     ix_hasNamespaceIndex = False, ix_err = (\<lambda>_. None)\<rparr>"

definition everything :: selector where
  "everything = \<lparr>sel_Empty = True, sel_Matches = (\<lambda>_. True)\<rparr>"

lemma ex_ix_wf: "ix_wf ex_meta ex_ix"
  by (simp add: ix_wf_def ex_ix_def ex_meta_def meta_key_def)

lemma ex_ix_typed: "all_typed ex_meta Some (ix_List ex_ix)" "sel_wf everything"
  by (simp_all add: all_typed_def ix_List_def ex_ix_def ex_meta_def sel_wf_def everything_def)

theorem key_roundtrip_witness:
  "\<exists>key. MetaNamespaceKeyFunc ex_meta (Object ''a'') = Inr key \<and>
     SplitMetaNamespaceKey key = Inr (''ns'', ''a'')"
  using key_roundtrip [of ex_meta "''a''" "the (ex_meta ''a'')"] by (simp add: ex_meta_def)

theorem listers_Get_exact_witness:
  "namespacedLister_Get Some (Namespaced (NewLister ex_ix) ''ns'') ''b'' = Some (Some ''b'', None)"
  using listers_Get_exact [OF ex_ix_wf, of "''ns''" "''b''" Some]
  by (simp add: lookup_object_def ix_List_def ex_ix_def ex_meta_def)

theorem namespaced_List_exact_witness:
  "namespacedLister_List ex_meta Some (Namespaced (NewLister ex_ix) ''ns'') everything =
     Some (Some [''a'', ''b''], None)"
  using namespaced_List_exact [OF ex_ix_typed(2,1), of "''ns''"]
  by (simp add: ix_List_def ex_ix_def selects_def in_namespace_def ex_meta_def everything_def)

theorem generated_listers_exact_witness:
  "policyLister_Get Some ex_ix ''c'' = Some (Some ''c'', None)"
  using generated_listers_exact [OF ex_ix_wf _ ex_ix_typed(2,1), of "''c''"]
  by (simp add: lookup_object_def ix_List_def ex_ix_def ex_meta_def)

end
