(* ===== verification/Controller.thy ===== *)
theory Controller
  imports Workqueue Lister
begin

text \<open>
  The generic controller of \<open>pkg/controller/generic.go\<close>: event handlers that put keys on a work
  queue, workers that take them, look the object up and call the reconciler, and \<open>Run\<close>, which
  starts and stops them. The first part gives each function of the code; the second runs them
  together: an informer whose cache changes, its notifications, any number of workers, the
  waiting loop of the queue and the life cycle of \<open>Run\<close>.
\<close>

section \<open>Event handlers\<close>

text \<open>Items of the queue are of type \<open>interface{}\<close>; the workers expect strings.\<close>

datatype work_item = Key string | NotAString string

type_synonym wqueue = "work_item rlq"

definition enqueue :: "'obj accessor \<Rightarrow> 'obj handler_arg \<Rightarrow> wqueue \<Rightarrow> wqueue" where
  "enqueue accessor a q =
     (case MetaNamespaceKeyFunc accessor a of
        Inl err \<Rightarrow> q
      | Inr key \<Rightarrow> wq_Add (Key key) q)"

datatype 'obj notification =
    AddNote "'obj handler_arg"
  | UpdateNote "'obj handler_arg" "'obj handler_arg"
  | DeleteNote "'obj handler_arg"

definition on_add :: "'obj accessor \<Rightarrow> 'obj handler_arg \<Rightarrow> wqueue \<Rightarrow> wqueue" where
  "on_add accessor ob q = enqueue accessor ob q"

definition on_update ::
  "'obj accessor \<Rightarrow> 'obj handler_arg \<Rightarrow> 'obj handler_arg \<Rightarrow> wqueue \<Rightarrow> wqueue" where
  "on_update accessor oldObj newObj q =
     (case (arg_meta accessor oldObj, arg_meta accessor newObj) of
        (Some oldMeta, Some newMeta) \<Rightarrow>
          if om_ResourceVersion oldMeta = om_ResourceVersion newMeta then q
          else enqueue accessor newObj q
      | _ \<Rightarrow> q)"

definition on_delete :: "'obj accessor \<Rightarrow> 'obj handler_arg \<Rightarrow> wqueue \<Rightarrow> wqueue" where
  "on_delete accessor ob q = enqueue accessor ob q"

fun handle_note :: "'obj accessor \<Rightarrow> 'obj notification \<Rightarrow> wqueue \<Rightarrow> wqueue" where
  "handle_note accessor (AddNote ob) q = on_add accessor ob q"
| "handle_note accessor (UpdateNote old new) q = on_update accessor old new q"
| "handle_note accessor (DeleteNote ob) q = on_delete accessor ob q"

section \<open>Reconciling a key\<close>

type_synonym ('t, 'w) reconciler =
  "string \<Rightarrow> string \<Rightarrow> 't option \<Rightarrow> 'w \<Rightarrow> go_error option \<times> 'w"

text \<open>
  What \<open>reconcile\<close> finds before it calls the reconciler: an invalid key, an error other than
  not-found, or the object (\<open>None\<close> when it is gone).
\<close>

datatype 't fetched = InvalidKey | FetchError go_error | Fetched string string "'t option"

definition fetch ::
  "('obj, 't) assertion \<Rightarrow> 'obj lister \<Rightarrow> string \<Rightarrow> 't fetched option" where
  "fetch asT l key =
     (case SplitMetaNamespaceKey key of
        Inl err \<Rightarrow> Some InvalidKey
      | Inr (namespace, name) \<Rightarrow>
          (case (if length namespace > 0
                 then namespacedLister_Get asT (Namespaced l namespace) name
                 else lister_Get asT l name) of
             None \<Rightarrow> None
           | Some (newObj, None) \<Rightarrow> Some (Fetched namespace name newObj)
           | Some (newObj, Some err) \<Rightarrow>
               if \<not> IsNotFound err then Some (FetchError err)
               else Some (Fetched namespace name newObj)))"

definition reconcile ::
  "('obj, 't) assertion \<Rightarrow> 'obj lister \<Rightarrow> ('t, 'w) reconciler \<Rightarrow> string \<Rightarrow> 'w
   \<Rightarrow> (go_error option \<times> 'w) option" where
  "reconcile asT l reconciler key w =
     (case fetch asT l key of
        None \<Rightarrow> None
      | Some InvalidKey \<Rightarrow> Some (None, w)
      | Some (FetchError err) \<Rightarrow> Some (Some err, w)
      | Some (Fetched namespace name newObj) \<Rightarrow> Some (reconciler namespace name newObj w))"

section \<open>The worker\<close>

text \<open>After \<open>reconcile\<close>: put the key back with a delay, or forget its failures.\<close>

definition after_reconcile :: "int \<Rightarrow> int \<Rightarrow> string \<Rightarrow> go_error option \<Rightarrow> wqueue \<Rightarrow> wqueue" where
  "after_reconcile now bucket key err q =
     (case err of
        Some e \<Rightarrow> AddRateLimited now bucket (Key key) q
      | None \<Rightarrow> Forget (Key key) q)"

text \<open>
  The body of the loop of \<open>runWorker\<close> for an item it got, with the deferred \<open>Done\<close> at the end:
  the error it hands to \<open>HandleError\<close>, the queue and the world. \<open>None\<close> is a panic.
\<close>

definition process_item ::
  "('obj, 't) assertion \<Rightarrow> 'obj lister \<Rightarrow> ('t, 'w) reconciler \<Rightarrow> int \<Rightarrow> int \<Rightarrow> work_item
   \<Rightarrow> wqueue \<Rightarrow> 'w \<Rightarrow> (go_error option \<times> wqueue \<times> 'w) option" where
  "process_item asT l reconciler now bucket item q w =
     (case item of
        NotAString s \<Rightarrow>
          Some (Some (Plain (''expected string in workqueue but got '' @ s)),
                wq_Done item (Forget item q), w)
      | Key key \<Rightarrow>
          (case reconcile asT l reconciler key w of
             None \<Rightarrow> None
           | Some (err, w') \<Rightarrow>
               Some (case err of
                       Some e \<Rightarrow> Some (Plain (concat
                         [''error syncing '', [CHR 0x27], key, [CHR 0x27], '': '', error_text e,
                          '', requeuing'']))
                     | None \<Rightarrow> None,
                     wq_Done item (after_reconcile now bucket key err q), w')))"

section \<open>New\<close>

record controller_options =
  opt_Name :: string
  opt_Workers :: nat

record ('obj, 't, 'w) controller =
  c_options :: controller_options
  c_lister :: "'obj lister"
  c_reconciler :: "('t, 'w) reconciler"
  c_queue :: wqueue

text \<open>\<open>typeName\<close> is what \<open>%T\<close> prints for \<open>T\<close>.\<close>

definition controller_New ::
  "string \<Rightarrow> 'obj indexer \<Rightarrow> ('t, 'w) reconciler \<Rightarrow> controller_options
   \<Rightarrow> ('obj, 't, 'w) controller" where
  "controller_New typeName ix reconciler options =
     \<lparr>c_options =
        \<lparr>opt_Name =
           (if length (opt_Name options) = 0 then typeName @ ''-controller'' else opt_Name options),
         opt_Workers = (if opt_Workers options = 0 then 2 else opt_Workers options)\<rparr>,
      c_lister = NewLister ix, c_reconciler = reconciler, c_queue = NewRateLimitingQueue\<rparr>"

section \<open>The running controller\<close>

text \<open>
  Where a worker goroutine is: not started, in \<open>Get\<close>, with an item, with the object it looked up,
  back from the reconciler, with the item forgotten or requeued but not yet done, or gone.
\<close>

datatype 'obj worker_pc =
    NotStarted
  | WIdle
  | WGot work_item
  | WRead string string string "'obj option"
  | WSynced string "go_error option"
  | WSettled work_item
  | WExited

datatype run_outcome = CtxErr ctx_error | SyncFailed

text \<open>Where \<open>Run\<close> is.\<close>

datatype run_phase = Syncing | Running | Draining | Joining | RunReturned run_outcome

text \<open>
  \<open>store\<close> is the informer's cache and \<open>pendingNotes\<close> the notifications not yet delivered. Two ghost fields:
  \<open>seen\<close> holds, per key, the object (or its absence) of the last successful call of the reconciler,
  and \<open>lost\<close> the keys whose deletion was delivered as a tombstone.
\<close>

record ('obj, 'w) csys =
  wqs :: wqueue
  store :: "'obj indexer"
  pendingNotes :: "'obj notification list"
  wpc :: "nat \<Rightarrow> 'obj worker_pc"
  world :: 'w
  ctx :: "ctx_error option"
  phase :: run_phase
  seen :: "string \<Rightarrow> 'obj option option"
  lost :: "string set"

definition set_item :: "string \<Rightarrow> 'obj \<Rightarrow> 'obj indexer \<Rightarrow> 'obj indexer" where
  "set_item k ob ix = ix\<lparr>ix_items := filter (\<lambda>p. fst p \<noteq> k) (ix_items ix) @ [(k, ob)]\<rparr>"

definition remove_item :: "string \<Rightarrow> 'obj indexer \<Rightarrow> 'obj indexer" where
  "remove_item k ix = ix\<lparr>ix_items := filter (\<lambda>p. fst p \<noteq> k) (ix_items ix)\<rparr>"

definition cur :: "('obj, 'w) csys \<Rightarrow> string \<Rightarrow> 'obj option" where
  "cur s k = map_of (ix_items (store s)) k"

definition names_ok :: "objmeta \<Rightarrow> bool" where
  "names_ok m = (CHR ''/'' \<notin> set (om_Namespace m) \<and> CHR ''/'' \<notin> set (om_Name m))"

text \<open>\<open>Run\<close>'s answer when the cache did not sync.\<close>

definition sync_result :: "ctx_error option \<Rightarrow> run_outcome" where
  "sync_result c = (case c of Some e \<Rightarrow> CtxErr e | None \<Rightarrow> SyncFailed)"

definition csys_init :: "bool \<Rightarrow> 'w \<Rightarrow> ('obj, 'w) csys" where
  "csys_init idx w =
     \<lparr>wqs = NewRateLimitingQueue,
      store = \<lparr>ix_items = [], ix_hasNamespaceIndex = idx, ix_err = (\<lambda>_. None)\<rparr>,
      pendingNotes = [], wpc = (\<lambda>_. NotStarted), world = w, ctx = None, phase = Syncing,
      seen = (\<lambda>_. Some None), lost = {}\<rparr>"

text \<open>
  The steps. The informer's steps state what the code relies on: objects are stored under their
  keys with names the API server accepts, and an update that does not change the resource version
  does not change the object.
\<close>

inductive csys_step ::
  "'obj accessor \<Rightarrow> ('obj, 'w) reconciler \<Rightarrow> nat \<Rightarrow> ('obj, 'w) csys \<Rightarrow> ('obj, 'w) csys \<Rightarrow> bool"
  for accessor :: "'obj accessor" and reconciler :: "('obj, 'w) reconciler" and n :: nat where
  cache_add:
    "accessor ob = Some m \<Longrightarrow> names_ok m \<Longrightarrow> cur s (meta_key m) = None \<Longrightarrow>
     csys_step accessor reconciler n s
       (s\<lparr>store := set_item (meta_key m) ob (store s),
          pendingNotes := pendingNotes s @ [AddNote (Object ob)]\<rparr>)"
| cache_update:
    "accessor old = Some m \<Longrightarrow> accessor new = Some m' \<Longrightarrow> names_ok m' \<Longrightarrow>
     meta_key m' = meta_key m \<Longrightarrow> cur s (meta_key m) = Some old \<Longrightarrow>
     (om_ResourceVersion m = om_ResourceVersion m' \<Longrightarrow> new = old) \<Longrightarrow>
     csys_step accessor reconciler n s
       (s\<lparr>store := set_item (meta_key m) new (store s),
          pendingNotes := pendingNotes s @ [UpdateNote (Object old) (Object new)]\<rparr>)"
| cache_delete:
    "accessor ob = Some m \<Longrightarrow> names_ok m \<Longrightarrow> cur s (meta_key m) \<noteq> None \<Longrightarrow>
     csys_step accessor reconciler n s
       (s\<lparr>store := remove_item (meta_key m) (store s),
          pendingNotes := pendingNotes s @ [DeleteNote (Object ob)]\<rparr>)"
| cache_missed_delete:
    "cur s k = Some ob \<Longrightarrow>
     csys_step accessor reconciler n s
       (s\<lparr>store := remove_item k (store s), pendingNotes := pendingNotes s @ [DeleteNote (Tombstone k ob)],
          lost := insert k (lost s)\<rparr>)"
| deliver:
    "pendingNotes s = note # rest \<Longrightarrow>
     csys_step accessor reconciler n s
       (s\<lparr>wqs := handle_note accessor note (wqs s), pendingNotes := rest\<rparr>)"
| waiting_loop:
    "wait_step now (wqs s) q' \<Longrightarrow> csys_step accessor reconciler n s (s\<lparr>wqs := q'\<rparr>)"
| cancel: "ctx s = None \<Longrightarrow> csys_step accessor reconciler n s (s\<lparr>ctx := Some e\<rparr>)"
| sync_done:
    "phase s = Syncing \<Longrightarrow> csys_step accessor reconciler n s (s\<lparr>phase := Running\<rparr>)"
| sync_failed:
    "phase s = Syncing \<Longrightarrow> ctx s \<noteq> None \<Longrightarrow>
     csys_step accessor reconciler n s (s\<lparr>phase := RunReturned (sync_result (ctx s))\<rparr>)"
| worker_start:
    "phase s \<in> {Running, Draining, Joining} \<Longrightarrow> t < n \<Longrightarrow> wpc s t = NotStarted \<Longrightarrow> ctx s = None \<Longrightarrow>
     csys_step accessor reconciler n s (s\<lparr>wpc := (wpc s)(t := WIdle)\<rparr>)"
| worker_skip:
    "phase s \<in> {Running, Draining, Joining} \<Longrightarrow> t < n \<Longrightarrow> wpc s t = NotStarted \<Longrightarrow> ctx s \<noteq> None \<Longrightarrow>
     csys_step accessor reconciler n s (s\<lparr>wpc := (wpc s)(t := WExited)\<rparr>)"
| worker_get:
    "wpc s t = WIdle \<Longrightarrow> wq_Get (wqs s) = (Got item, q') \<Longrightarrow>
     csys_step accessor reconciler n s (s\<lparr>wqs := q', wpc := (wpc s)(t := WGot item)\<rparr>)"
| worker_shutdown:
    "wpc s t = WIdle \<Longrightarrow> wq_Get (wqs s) = (GotShutdown, q') \<Longrightarrow>
     csys_step accessor reconciler n s (s\<lparr>wqs := q', wpc := (wpc s)(t := WExited)\<rparr>)"
| worker_bad_item:
    "wpc s t = WGot (NotAString b) \<Longrightarrow>
     csys_step accessor reconciler n s
       (s\<lparr>wqs := Forget (NotAString b) (wqs s), wpc := (wpc s)(t := WSettled (NotAString b))\<rparr>)"
| worker_bad_key:
    "wpc s t = WGot (Key k) \<Longrightarrow> fetch Some (NewLister (store s)) k = Some InvalidKey \<Longrightarrow>
     csys_step accessor reconciler n s (s\<lparr>wpc := (wpc s)(t := WSynced k None)\<rparr>)"
| worker_fetch_error:
    "wpc s t = WGot (Key k) \<Longrightarrow> fetch Some (NewLister (store s)) k = Some (FetchError err) \<Longrightarrow>
     csys_step accessor reconciler n s (s\<lparr>wpc := (wpc s)(t := WSynced k (Some err))\<rparr>)"
| worker_fetch:
    "wpc s t = WGot (Key k) \<Longrightarrow>
     fetch Some (NewLister (store s)) k = Some (Fetched namespace name newObj) \<Longrightarrow>
     csys_step accessor reconciler n s
       (s\<lparr>wpc := (wpc s)(t := WRead k namespace name newObj)\<rparr>)"
| worker_reconcile:
    "wpc s t = WRead k namespace name newObj \<Longrightarrow>
     reconciler namespace name newObj (world s) = (err, w') \<Longrightarrow>
     csys_step accessor reconciler n s
       (s\<lparr>world := w', wpc := (wpc s)(t := WSynced k err),
          seen := (if err = None then (seen s)(k := Some newObj) else seen s)\<rparr>)"
| worker_settle:
    "wpc s t = WSynced k err \<Longrightarrow>
     csys_step accessor reconciler n s
       (s\<lparr>wqs := after_reconcile now bucket k err (wqs s),
          wpc := (wpc s)(t := WSettled (Key k))\<rparr>)"
| worker_done:
    "wpc s t = WSettled item \<Longrightarrow>
     csys_step accessor reconciler n s
       (s\<lparr>wqs := wq_Done item (wqs s), wpc := (wpc s)(t := WIdle)\<rparr>)"
| run_drain:
    "phase s = Running \<Longrightarrow> ctx s \<noteq> None \<Longrightarrow>
     csys_step accessor reconciler n s
       (s\<lparr>wqs := ShutDownWithDrain_start (wqs s), phase := Draining\<rparr>)"
| run_drained:
    "phase s = Draining \<Longrightarrow> ShutDownWithDrain_returns (wqs s) \<Longrightarrow>
     csys_step accessor reconciler n s (s\<lparr>phase := Joining\<rparr>)"
| run_return:
    "phase s = Joining \<Longrightarrow> \<forall>t < n. wpc s t = WExited \<Longrightarrow> ctx s = Some e \<Longrightarrow>
     csys_step accessor reconciler n s (s\<lparr>phase := RunReturned (CtxErr e)\<rparr>)"

definition csys_starts :: "('obj, 'w) csys \<Rightarrow> bool" where
  "csys_starts s = (\<exists>idx w. s = csys_init idx w)"

abbreviation csys_reachable ::
  "'obj accessor \<Rightarrow> ('obj, 'w) reconciler \<Rightarrow> nat \<Rightarrow> ('obj, 'w) csys \<Rightarrow> bool" where
  "csys_reachable accessor reconciler n \<equiv> reach csys_starts (csys_step accessor reconciler n)"

lemma csys_start: "csys_reachable accessor reconciler n (csys_init idx w)"
  by (rule reach_start) (auto simp: csys_starts_def)

section \<open>The queue under the controller's operations\<close>

definition queue_ok :: "wqueue \<Rightarrow> bool" where
  "queue_ok q = (dq_inv q \<and> \<not> stopped q)"

lemma queue_okD: "queue_ok q \<Longrightarrow> wq_inv q" "queue_ok q \<Longrightarrow> \<not> stopped q"
  by (simp_all add: queue_ok_def dq_inv_def)

lemma queue_ok_init [simp]: "queue_ok NewRateLimitingQueue"
  by (simp add: queue_ok_def dq_inv_def, simp add: NewRateLimitingQueue_def)

lemma Add_facts:
  "queue_ok q \<Longrightarrow> queue_ok (wq_Add i q)"
  "owed (wq_Add i q) = (if shuttingDown q then owed q else insert i (owed q))"
  by (auto simp: queue_ok_def dq_inv_def owed_def wq_simps wq_inv_intros)

lemma Done_facts:
  "queue_ok q \<Longrightarrow> i \<in> processing q \<Longrightarrow> queue_ok (wq_Done i q)"
  "owed (wq_Done i q) = owed q"
  by (auto simp: queue_ok_def dq_inv_def owed_def wq_simps wq.done_ok)

lemma Get_facts:
  assumes "queue_ok q" and "wq_Get q = (Got i, q')"
  shows "queue_ok q'" "i \<in> owed q" "i \<notin> processing q" "processing q' = insert i (processing q)"
    "owed q - {i} \<subseteq> owed q'" "owed q' \<subseteq> owed q" "shuttingDown q' = shuttingDown q"
proof -
  have q': "q' = snd (wq_Get q)" by (simp add: assms(2))
  note got = wq.get_got [OF queue_okD(1) [OF assms(1)] assms(2)]
  have outer: "waitingForAddCh q' = waitingForAddCh q" "waiting q' = waiting q" "stopped q' = stopped q"
    by (simp_all add: q' wq_simps)
  show "queue_ok q'"
    using assms(1) outer by (simp add: queue_ok_def dq_inv_def) (simp add: q' wq.get_ok)
  show "i \<in> owed q" "i \<notin> processing q" "processing q' = insert i (processing q)"
    using got by (auto simp: owed_def)
  show "owed q - {i} \<subseteq> owed q'" "owed q' \<subseteq> owed q"
    using got outer by (auto simp: owed_def)
  show "shuttingDown q' = shuttingDown q" by (simp add: q' wq_simps)
qed

lemma GetShutdown_facts:
  assumes "queue_ok q" and "wq_Get q = (GotShutdown, q')"
  shows "q' = q" "shuttingDown q"
  using wq.get_none [OF queue_okD(1) [OF assms(1)]] wq.get_shutdown [of q] assms(2) by auto

lemma after_reconcile_facts:
  "queue_ok q \<Longrightarrow> queue_ok (after_reconcile now b k err q)"
  "processing (after_reconcile now b k err q) = processing q"
  "shuttingDown (after_reconcile now b k err q) = shuttingDown q"
  by (simp_all add: queue_ok_def after_reconcile_def wq_simps wq_inv_intros split: option.split)

lemma owed_Forget: "owed (Forget i q) = owed q"
  by (simp add: owed_def wq_simps)

lemma owed_after_reconcile:
  "queue_ok q \<Longrightarrow> owed (after_reconcile now b k err q) =
     (if err = None \<or> shuttingDown q then owed q else insert (Key k) (owed q))"
  by (auto simp: after_reconcile_def queue_ok_def owed_Forget owed_AddRateLimited split: option.split)

lemma Forget_queue_ok: "queue_ok q \<Longrightarrow> queue_ok (Forget i q)"
  by (simp add: queue_ok_def wq_simps wq_inv_intros)

lemma wait_facts:
  assumes "wait_step now q q'"
  shows "queue_ok q \<Longrightarrow> queue_ok q'" "owed q' = owed q" "processing q' = processing q"
    "shuttingDown q' = shuttingDown q"
  using assms wait_step_inv [OF assms] wait_step_owed [OF assms] wait_step_fields [OF assms]
  by (simp_all add: queue_ok_def)

lemma drain_facts:
  "queue_ok q \<Longrightarrow> queue_ok (ShutDownWithDrain_start q)"
  "owed (ShutDownWithDrain_start q) = owed q"
  "processing (ShutDownWithDrain_start q) = processing q"
  "shuttingDown (ShutDownWithDrain_start q)"
  by (simp_all add: queue_ok_def dq_inv_def wq_inv_def owed_def ShutDownWithDrain_start_def
      wq_shutdown_def setDrain_def)

section \<open>What a notification puts on the queue\<close>

definition arg_key :: "'obj accessor \<Rightarrow> 'obj handler_arg \<Rightarrow> string option" where
  "arg_key accessor a = (case MetaNamespaceKeyFunc accessor a of Inl err \<Rightarrow> None | Inr k \<Rightarrow> Some k)"

fun note_key :: "'obj accessor \<Rightarrow> 'obj notification \<Rightarrow> string option" where
  "note_key accessor (AddNote a) = arg_key accessor a"
| "note_key accessor (UpdateNote old new) =
     (case (arg_meta accessor old, arg_meta accessor new) of
        (Some m, Some m') \<Rightarrow>
          if om_ResourceVersion m = om_ResourceVersion m' then None else arg_key accessor new
      | _ \<Rightarrow> None)"
| "note_key accessor (DeleteNote a) = arg_key accessor a"

lemma enqueue_eq:
  "enqueue accessor a q = (case arg_key accessor a of None \<Rightarrow> q | Some k \<Rightarrow> wq_Add (Key k) q)"
  by (simp add: enqueue_def arg_key_def split: sum.split)

lemma handle_note_eq:
  "handle_note accessor nt q =
     (case note_key accessor nt of None \<Rightarrow> q | Some k \<Rightarrow> wq_Add (Key k) q)"
  by (cases nt) (simp_all add: on_add_def on_update_def on_delete_def enqueue_eq split: option.split)

lemma arg_key_simps [simp]:
  "accessor ob = Some m \<Longrightarrow> arg_key accessor (Object ob) = Some (meta_key m)"
  "arg_key accessor (Tombstone k ob) = None"
  by (simp_all add: arg_key_def MetaNamespaceKeyFunc_def arg_meta_def)

lemma handle_note_facts:
  "queue_ok q \<Longrightarrow> queue_ok (handle_note accessor nt q)"
  "processing (handle_note accessor nt q) = processing q"
  "shuttingDown (handle_note accessor nt q) = shuttingDown q"
  by (simp_all add: handle_note_eq Add_facts wq_simps split: option.split)

lemma owed_handle_note:
  "owed (handle_note accessor nt q) =
     (case note_key accessor nt of
        None \<Rightarrow> owed q
      | Some k \<Rightarrow> if shuttingDown q then owed q else insert (Key k) (owed q))"
  by (simp add: handle_note_eq Add_facts split: option.split)

definition note_keys :: "'obj accessor \<Rightarrow> 'obj notification list \<Rightarrow> string set" where
  "note_keys accessor ns = {k. Some k \<in> note_key accessor ` set ns}"

lemma note_keys_simps [simp]:
  "note_keys accessor [] = {}"
  "note_keys accessor (nt # ns) = set_option (note_key accessor nt) \<union> note_keys accessor ns"
  "note_keys accessor (ns @ ns') = note_keys accessor ns \<union> note_keys accessor ns'"
  by (auto simp: note_keys_def image_iff)

section \<open>Invariants\<close>

text \<open>The item a worker holds, and whether it will still report on a key to the reconciler or requeue it.\<close>

fun holds :: "'obj worker_pc \<Rightarrow> work_item option" where
  "holds (WGot i) = Some i"
| "holds (WRead k ns nm ob) = Some (Key k)"
| "holds (WSynced k err) = Some (Key k)"
| "holds (WSettled i) = Some i"
| "holds NotStarted = None"
| "holds WIdle = None"
| "holds WExited = None"

fun will_report :: "'obj worker_pc \<Rightarrow> string \<Rightarrow> bool" where
  "will_report (WGot i) k = (i = Key k)"
| "will_report (WRead k' ns nm ob) k = (k' = k)"
| "will_report (WSynced k' err) k = (k' = k \<and> err \<noteq> None)"
| "will_report (WSettled i) k = False"
| "will_report NotStarted k = False"
| "will_report WIdle k = False"
| "will_report WExited k = False"

definition workers_ok :: "('obj, 'w) csys \<Rightarrow> bool" where
  "workers_ok s =
     ((\<forall>t i. holds (wpc s t) = Some i \<longrightarrow> i \<in> processing (wqs s)) \<and>
      (\<forall>i \<in> processing (wqs s). \<exists>t. holds (wpc s t) = Some i) \<and>
      (\<forall>t t' i. holds (wpc s t) = Some i \<longrightarrow> holds (wpc s t') = Some i \<longrightarrow> t = t'))"

lemma workers_okD:
  "workers_ok s \<Longrightarrow> holds (wpc s t) = Some i \<Longrightarrow> i \<in> processing (wqs s)"
  "workers_ok s \<Longrightarrow> i \<in> processing (wqs s) \<Longrightarrow> \<exists>t. holds (wpc s t) = Some i"
  "workers_ok s \<Longrightarrow> holds (wpc s t) = Some i \<Longrightarrow> holds (wpc s t') = Some i \<Longrightarrow> t = t'"
  unfolding workers_ok_def by blast+

text \<open>Moving one worker without changing what it holds, or what is being processed.\<close>

lemma workers_ok_same:
  assumes "workers_ok s" and "processing (wqs s') = processing (wqs s)"
    and "\<And>t. holds (wpc s' t) = holds (wpc s t)"
  shows "workers_ok s'"
  using assms unfolding workers_ok_def by simp

lemma workers_ok_get:
  assumes "workers_ok s" and "holds (wpc s t) = None" and "i \<notin> processing (wqs s)"
    and "processing (wqs s') = insert i (processing (wqs s))"
    and "wpc s' = (wpc s)(t := pc)" and "holds pc = Some i"
  shows "workers_ok s'"
proof -
  note w = workers_okD [OF assms(1)]
  show ?thesis
    unfolding workers_ok_def
  proof (intro conjI allI impI ballI)
    fix u j
    assume "holds (wpc s' u) = Some j"
    then show "j \<in> processing (wqs s')" using assms(4-6) w(1) by (auto split: if_splits)
  next
    fix j
    assume "j \<in> processing (wqs s')"
    then consider "j = i" | u where "holds (wpc s u) = Some j" using assms(4) w(2) by auto
    then show "\<exists>u. holds (wpc s' u) = Some j"
    proof cases
      case 1
      then show ?thesis using assms(5,6) by (intro exI [of _ t]) simp
    next
      case 2
      then show ?thesis using assms(2,5) by (intro exI [of _ u]) auto
    qed
  next
    fix u u' j
    assume "holds (wpc s' u) = Some j" "holds (wpc s' u') = Some j"
    then show "u = u'" using assms(3,5,6) w(1,3) by (auto split: if_splits)
  qed
qed

lemma workers_ok_done:
  assumes "workers_ok s" and "holds (wpc s t) = Some i"
    and "processing (wqs s') = processing (wqs s) - {i}"
    and "wpc s' = (wpc s)(t := pc)" and "holds pc = None"
  shows "workers_ok s'"
proof -
  note w = workers_okD [OF assms(1)]
  have other: "holds (wpc s u) \<noteq> Some i" if "u \<noteq> t" for u
    using that w(3) assms(2) by blast
  show ?thesis
    unfolding workers_ok_def
  proof (intro conjI allI impI ballI)
    fix u j
    assume "holds (wpc s' u) = Some j"
    then show "j \<in> processing (wqs s')" using assms(3-5) w(1) other by (auto split: if_splits)
  next
    fix j
    assume "j \<in> processing (wqs s')"
    then have "j \<noteq> i" "j \<in> processing (wqs s)" using assms(3) by auto
    with w(2) obtain u where "holds (wpc s u) = Some j" by blast
    with \<open>j \<noteq> i\<close> show "\<exists>u. holds (wpc s' u) = Some j" using assms(2,4) by (intro exI [of _ u]) auto
  next
    fix u u' j
    assume "holds (wpc s' u) = Some j" "holds (wpc s' u') = Some j"
    then show "u = u'" using assms(4,5) w(3) by (auto split: if_splits)
  qed
qed

definition queue_inv :: "('obj, 'w) csys \<Rightarrow> bool" where
  "queue_inv s = (queue_ok (wqs s) \<and> workers_ok s)"

lemma queue_inv_init: "queue_inv (csys_init idx w)"
  by (simp add: queue_inv_def csys_init_def workers_ok_def) (simp add: NewRateLimitingQueue_def)

lemma queue_inv_same:
  assumes "queue_inv s" and "queue_ok (wqs s')" and "processing (wqs s') = processing (wqs s)"
    and "\<And>t. holds (wpc s' t) = holds (wpc s t)"
  shows "queue_inv s'"
  using assms workers_ok_same [of s s'] by (simp add: queue_inv_def)

lemma queue_inv_step: "csys_step accessor reconciler n s s' \<Longrightarrow> queue_inv s \<Longrightarrow> queue_inv s'"
proof (induction rule: csys_step.induct)
  case (worker_get s t item q')
  then have q: "queue_ok (wqs s)" and w: "workers_ok s" by (simp_all add: queue_inv_def)
  note g = Get_facts [OF q worker_get(2)]
  have "workers_ok (s\<lparr>wqs := q', wpc := (wpc s)(t := WGot item)\<rparr>)"
    by (rule workers_ok_get [where t = t and i = item and pc = "WGot item", OF w])
       (simp_all add: worker_get(1) g(3,4))
  then show ?case using g(1) by (simp add: queue_inv_def)
next
  case (worker_done s t item)
  then have q: "queue_ok (wqs s)" and w: "workers_ok s" by (simp_all add: queue_inv_def)
  have h: "holds (wpc s t) = Some item" by (simp add: worker_done(1))
  have "workers_ok (s\<lparr>wqs := wq_Done item (wqs s), wpc := (wpc s)(t := WIdle)\<rparr>)"
    using w h by (rule workers_ok_done [where pc = WIdle]) (simp_all add: wq_simps)
  then show ?case using Done_facts(1) [OF q workers_okD(1) [OF w h]] by (simp add: queue_inv_def)
next
  case (worker_shutdown s t q')
  then have "q' = wqs s" using GetShutdown_facts by (auto simp: queue_inv_def)
  with worker_shutdown show ?case
    by (intro queue_inv_same [OF worker_shutdown(3)]) (simp_all add: queue_inv_def)
qed (rule queue_inv_same, assumption;
     simp add: queue_inv_def handle_note_facts wait_facts after_reconcile_facts drain_facts
       Forget_queue_ok wq_simps)+

interpretation cqueue: invariant_system csys_starts "csys_step accessor reconciler n" queue_inv
  for accessor reconciler n
  by unfold_locales (auto simp: csys_starts_def intro: queue_inv_init queue_inv_step)

section \<open>Keys and the informer's store\<close>

definition key_ok :: "string \<Rightarrow> bool" where
  "key_ok k = (\<exists>m. names_ok m \<and> k = meta_key m)"

definition known_keys :: "'obj accessor \<Rightarrow> ('obj, 'w) csys \<Rightarrow> string set" where
  "known_keys accessor s =
     note_keys accessor (pendingNotes s) \<union> {k. Key k \<in> owed (wqs s) \<union> processing (wqs s)}"

definition store_inv :: "'obj accessor \<Rightarrow> ('obj, 'w) csys \<Rightarrow> bool" where
  "store_inv accessor s = (ix_wf accessor (store s) \<and> (\<forall>k \<in> known_keys accessor s. key_ok k))"

lemma store_invI:
  assumes "store_inv accessor s" and "ix_wf accessor (store s')"
    and "known_keys accessor s' \<subseteq> known_keys accessor s \<union> {k. key_ok k}"
  shows "store_inv accessor s'"
  using assms unfolding store_inv_def by blast

lemma ix_wf_remove_item: "ix_wf accessor ix \<Longrightarrow> ix_wf accessor (remove_item k ix)"
  by (auto simp: ix_wf_def remove_item_def list_all_iff distinct_map_filter)

lemma ix_wf_set_item:
  "ix_wf accessor ix \<Longrightarrow> accessor ob = Some m \<Longrightarrow> names_ok m \<Longrightarrow>
   ix_wf accessor (set_item (meta_key m) ob ix)"
  by (auto simp: ix_wf_def set_item_def list_all_iff distinct_map_filter names_ok_def)

lemma map_of_set_item [simp]: "map_of (ix_items (set_item k ob ix)) = (map_of (ix_items ix))(k \<mapsto> ob)"
  by (auto simp: set_item_def fun_eq_iff map_add_def map_of_filter_neq split: option.split)

lemma map_of_remove_item [simp]: "map_of (ix_items (remove_item k ix)) = (map_of (ix_items ix))(k := None)"
  by (auto simp: remove_item_def fun_eq_iff map_of_filter_neq)

lemma fetch_current:
  assumes "ix_wf accessor ix" and "key_ok k"
  shows "\<exists>ns nm. fetch Some (NewLister ix) k = Some (Fetched ns nm (map_of (ix_items ix) k))"
proof -
  from assms(2) obtain m where m: "names_ok m" "k = meta_key m" by (auto simp: key_ok_def)
  then have "SplitMetaNamespaceKey k = Inr (om_Namespace m, om_Name m)"
    by (simp add: split_meta_key names_ok_def)
  then show ?thesis
    by (auto simp: fetch_def namespacedLister_Get_def lister_Get_def Namespaced_def NewLister_def
        get_or_not_found_wf [OF assms(1)] m(2) meta_key_def split: option.split)
qed

lemma known_keys_deliver:
  "pendingNotes s = nt # rest \<Longrightarrow>
   known_keys accessor (s\<lparr>wqs := handle_note accessor nt (wqs s), pendingNotes := rest\<rparr>)
     \<subseteq> known_keys accessor s"
  by (auto simp: known_keys_def owed_handle_note handle_note_facts split: option.splits if_splits)

lemma known_keys_queue:
  assumes "owed q' \<subseteq> owed (wqs s) \<union> processing (wqs s)"
    and "processing q' \<subseteq> owed (wqs s) \<union> processing (wqs s)"
  shows "known_keys accessor (s\<lparr>wqs := q', wpc := f\<rparr>) \<subseteq> known_keys accessor s"
    and "known_keys accessor (s\<lparr>wqs := q'\<rparr>) \<subseteq> known_keys accessor s"
    and "known_keys accessor (s\<lparr>wqs := q', phase := p\<rparr>) \<subseteq> known_keys accessor s"
  using assms by (auto simp: known_keys_def)

lemma store_inv_step:
  "csys_step accessor reconciler n s s' \<Longrightarrow> queue_inv s \<Longrightarrow> store_inv accessor s \<Longrightarrow>
   store_inv accessor s'"
proof (induction rule: csys_step.induct)
  case (cache_add ob m s)
  then show ?case
    by (intro store_invI [OF cache_add(5)])
       (auto simp: store_inv_def ix_wf_set_item known_keys_def key_ok_def)
next
  case (cache_update old m new m' s)
  have "ix_wf accessor (set_item (meta_key m') new (store s))"
    using cache_update by (intro ix_wf_set_item) (simp_all add: store_inv_def)
  with cache_update show ?case
    by (intro store_invI [OF cache_update(8)])
       (auto simp: known_keys_def key_ok_def arg_meta_def split: if_splits)
next
  case (cache_delete ob m s)
  then show ?case
    by (intro store_invI [OF cache_delete(5)])
       (auto simp: store_inv_def ix_wf_remove_item known_keys_def key_ok_def)
next
  case (cache_missed_delete s k ob)
  then show ?case
    by (intro store_invI [OF cache_missed_delete(3)])
       (auto simp: store_inv_def ix_wf_remove_item known_keys_def)
next
  case (deliver s nt rest)
  then show ?case
    using known_keys_deliver [OF deliver(1), of accessor]
    by (intro store_invI [OF deliver(3)]) (auto simp: store_inv_def)
next
  case (waiting_loop now s q')
  note f = wait_facts [OF waiting_loop(1)]
  show ?case
    using known_keys_queue(2) [of q' s accessor] f waiting_loop(3)
    by (intro store_invI [OF waiting_loop(3)]) (auto simp: store_inv_def)
next
  case (worker_get s t item q')
  then have q: "queue_ok (wqs s)" by (simp add: queue_inv_def)
  note g = Get_facts [OF q worker_get(2)]
  have "known_keys accessor (s\<lparr>wqs := q', wpc := (wpc s)(t := WGot item)\<rparr>) \<subseteq> known_keys accessor s"
    by (rule known_keys_queue) (use g in auto)
  with worker_get(4) show ?case by (intro store_invI [OF worker_get(4)]) (auto simp: store_inv_def)
next
  case (worker_shutdown s t q')
  then have "q' = wqs s" using GetShutdown_facts by (auto simp: queue_inv_def)
  with worker_shutdown(4) show ?case
    by (intro store_invI [OF worker_shutdown(4)]) (auto simp: store_inv_def known_keys_def)
next
  case (worker_settle s t k err now bucket)
  then have q: "queue_ok (wqs s)" and "Key k \<in> processing (wqs s)"
    using workers_okD(1) [of s t "Key k"] by (simp_all add: queue_inv_def)
  then have "known_keys accessor (s\<lparr>wqs := after_reconcile now bucket k err (wqs s),
      wpc := (wpc s)(t := WSettled (Key k))\<rparr>) \<subseteq> known_keys accessor s"
    by (intro known_keys_queue) (auto simp: owed_after_reconcile after_reconcile_facts)
  with worker_settle(3) show ?case
    by (intro store_invI [OF worker_settle(3)]) (auto simp: store_inv_def)
next
  case (worker_done s t item)
  have "known_keys accessor (s\<lparr>wqs := wq_Done item (wqs s), wpc := (wpc s)(t := WIdle)\<rparr>)
      \<subseteq> known_keys accessor s"
    by (intro known_keys_queue) (auto simp: Done_facts wq_simps)
  with worker_done(3) show ?case
    by (intro store_invI [OF worker_done(3)]) (auto simp: store_inv_def)
qed (auto simp: store_inv_def known_keys_def owed_Forget drain_facts wq_simps)

lemma store_inv_init: "store_inv accessor (csys_init idx w)"
  by (simp add: store_inv_def csys_init_def known_keys_def ix_wf_def)
     (simp add: NewRateLimitingQueue_def owed_def)

interpretation cstore: relative_invariant csys_starts "csys_step accessor reconciler n" queue_inv
    "store_inv accessor"
  for accessor reconciler n
  by unfold_locales (auto simp: csys_starts_def intro: store_inv_init store_inv_step)

section \<open>No change is forgotten\<close>

definition outstanding :: "'obj accessor \<Rightarrow> ('obj, 'w) csys \<Rightarrow> string set" where
  "outstanding accessor s =
     lost s \<union> note_keys accessor (pendingNotes s) \<union> {k. Key k \<in> owed (wqs s)}"

text \<open>
  A key is up to date, or somebody still has to act on it; and what a worker is about to hand to
  the reconciler is current, or the key will be taken up again.
\<close>

definition tracked :: "'obj accessor \<Rightarrow> ('obj, 'w) csys \<Rightarrow> string \<Rightarrow> bool" where
  "tracked accessor s k =
     (k \<in> outstanding accessor s \<or> (\<exists>t. will_report (wpc s t) k) \<or> seen s k = Some (cur s k))"

definition fresh_read :: "'obj accessor \<Rightarrow> ('obj, 'w) csys \<Rightarrow> nat \<Rightarrow> bool" where
  "fresh_read accessor s t =
     (\<forall>k ns nm ob. wpc s t = WRead k ns nm ob \<longrightarrow> ob = cur s k \<or> k \<in> outstanding accessor s)"

definition conv_inv :: "'obj accessor \<Rightarrow> ('obj, 'w) csys \<Rightarrow> bool" where
  "conv_inv accessor s =
     (\<not> shuttingDown (wqs s) \<longrightarrow> (\<forall>k. tracked accessor s k) \<and> (\<forall>t. fresh_read accessor s t))"

lemma conv_invD:
  "conv_inv accessor s \<Longrightarrow> \<not> shuttingDown (wqs s) \<Longrightarrow> tracked accessor s k"
  "conv_inv accessor s \<Longrightarrow> \<not> shuttingDown (wqs s) \<Longrightarrow> fresh_read accessor s t"
  by (simp_all add: conv_inv_def)

lemma tracked_mono:
  assumes "tracked accessor s k" and "k \<in> outstanding accessor s \<Longrightarrow> k \<in> outstanding accessor s'"
    and "\<And>u. will_report (wpc s u) k \<Longrightarrow>
      k \<in> outstanding accessor s' \<or> will_report (wpc s' u) k"
    and "seen s' k = seen s k" and "cur s' k = cur s k"
  shows "tracked accessor s' k"
  using assms unfolding tracked_def by metis

text \<open>Steps of the informer: only the key they change matters.\<close>

lemma conv_inv_store:
  assumes "conv_inv accessor s" and "wqs s' = wqs s" and "wpc s' = wpc s" and "seen s' = seen s"
    and "outstanding accessor s \<subseteq> outstanding accessor s'"
    and "\<And>k. cur s' k = cur s k \<or> k \<in> outstanding accessor s'"
  shows "conv_inv accessor s'"
  using assms unfolding conv_inv_def tracked_def fresh_read_def by (metis subsetD)

text \<open>Steps of the queue that keep what is owed.\<close>

lemma conv_inv_queue:
  assumes "conv_inv accessor s" and "\<not> shuttingDown (wqs s') \<Longrightarrow> \<not> shuttingDown (wqs s)"
    and "\<not> shuttingDown (wqs s') \<Longrightarrow> outstanding accessor s' = outstanding accessor s"
    and "\<And>k. cur s' k = cur s k" and "seen s' = seen s"
    and "\<And>t k. will_report (wpc s t) k \<Longrightarrow> will_report (wpc s' t) k"
    and "\<And>t k ns nm ob. wpc s' t = WRead k ns nm ob \<Longrightarrow> wpc s t = WRead k ns nm ob"
  shows "conv_inv accessor s'"
  using assms unfolding conv_inv_def tracked_def fresh_read_def by metis

lemma conv_inv_get:
  assumes "conv_inv accessor s" and "queue_inv s"
    and "wpc s t = WIdle" and "wq_Get (wqs s) = (Got item, q')"
  shows "conv_inv accessor (s\<lparr>wqs := q', wpc := (wpc s)(t := WGot item)\<rparr>)" (is "conv_inv _ ?s'")
proof -
  from assms(2) have q: "queue_ok (wqs s)" and w: "workers_ok s" by (simp_all add: queue_inv_def)
  note g = Get_facts [OF q assms(4)]
  have out: "k \<in> outstanding accessor ?s' \<or> item = Key k" if "k \<in> outstanding accessor s" for k
    using that g(5) by (auto simp: outstanding_def)
  have cur: "cur ?s' k = cur s k" for k by (simp add: cur_def)
  have rep: "will_report (wpc ?s' u) k" if "will_report (wpc s u) k" for u k
    using that assms(3) by (cases "u = t") auto
  have "will_report (wpc ?s' t) k" if "item = Key k" for k using that by simp
  then have "tracked accessor ?s' k" if "tracked accessor s k" for k
    using that out [of k] rep unfolding tracked_def cur by fastforce
  moreover have "fresh_read accessor ?s' u" if "fresh_read accessor s u" for u
    unfolding fresh_read_def
  proof (intro allI impI)
    fix k ns nm ob
    assume "wpc ?s' u = WRead k ns nm ob"
    then have u: "wpc s u = WRead k ns nm ob" by (simp split: if_splits)
    with workers_okD(1) [OF w, of u "Key k"] g(3) have "item \<noteq> Key k" by auto
    with that u out [of k] show "ob = cur ?s' k \<or> k \<in> outstanding accessor ?s'"
      by (auto simp: fresh_read_def cur)
  qed
  ultimately show ?thesis using assms(1) g(7) by (simp add: conv_inv_def)
qed

lemma conv_inv_reconcile:
  assumes "conv_inv accessor s" and "queue_inv s" and "wpc s t = WRead k ns nm ob"
  shows "conv_inv accessor (s\<lparr>world := w', wpc := (wpc s)(t := WSynced k err),
     seen := (if err = None then (seen s)(k := Some ob) else seen s)\<rparr>)" (is "conv_inv _ ?s'")
proof -
  from assms(2) have w: "workers_ok s" by (simp add: queue_inv_def)
  have out: "outstanding accessor ?s' = outstanding accessor s" by (simp add: outstanding_def)
  have cur: "cur ?s' j = cur s j" for j by (simp add: cur_def)
  have "fresh_read accessor ?s' u" if "fresh_read accessor s u" for u
    using that by (auto simp: fresh_read_def out cur split: if_splits)
  moreover have "tracked accessor ?s' j" if "tracked accessor s j" "fresh_read accessor s t" for j
  proof (cases "j = k")
    case True
    with that(2) assms(3) show ?thesis
      by (cases err) (auto simp: tracked_def fresh_read_def outstanding_def cur_def)
  next
    case False
    have "will_report (wpc ?s' u) j" if "will_report (wpc s u) j" for u
      using that False assms(3) by (cases "u = t") auto
    moreover have "seen ?s' j = seen s j" using False by simp
    ultimately show ?thesis using that(1) unfolding tracked_def out cur by metis
  qed
  ultimately show ?thesis using assms(1) by (simp add: conv_inv_def)
qed

lemma conv_inv_settle:
  assumes "conv_inv accessor s" and "queue_inv s" and "wpc s t = WSynced k err"
  shows "conv_inv accessor (s\<lparr>wqs := after_reconcile now bucket k err (wqs s),
     wpc := (wpc s)(t := WSettled (Key k))\<rparr>)" (is "conv_inv _ ?s'")
proof -
  from assms(2) have q: "queue_ok (wqs s)" by (simp add: queue_inv_def)
  have cur: "cur ?s' j = cur s j" for j by (simp add: cur_def)
  have out: "outstanding accessor ?s' =
      (if err = None then outstanding accessor s else insert k (outstanding accessor s))"
    if "\<not> shuttingDown (wqs s)"
    using that owed_after_reconcile [OF q, of now bucket k err] by (auto simp: outstanding_def)
  have "tracked accessor ?s' j" if "tracked accessor s j" "\<not> shuttingDown (wqs s)" for j
    by (rule tracked_mono [OF that(1)]) (use assms(3) in \<open>auto simp: out [OF that(2)] cur\<close>)
  moreover have "fresh_read accessor ?s' u" if "fresh_read accessor s u" "\<not> shuttingDown (wqs s)" for u
    using that(1) unfolding fresh_read_def out [OF that(2)] cur by (auto split: if_splits)
  ultimately show ?thesis using assms(1) by (simp add: conv_inv_def after_reconcile_facts)
qed

lemma conv_inv_fetch:
  assumes "conv_inv accessor s" and "store_inv accessor s" and "queue_inv s"
    and "wpc s t = WGot (Key k)"
    and "fetch Some (NewLister (store s)) k = Some (Fetched ns nm ob)"
  shows "conv_inv accessor (s\<lparr>wpc := (wpc s)(t := WRead k ns nm ob)\<rparr>)" (is "conv_inv _ ?s'")
proof -
  have "Key k \<in> processing (wqs s)"
    using workers_okD(1) [of s t "Key k"] assms(3,4) by (simp add: queue_inv_def)
  then have "key_ok k" using assms(2) by (simp add: store_inv_def known_keys_def)
  then have ob: "ob = cur s k"
    using fetch_current [of accessor "store s" k] assms(2,5) by (auto simp: store_inv_def cur_def)
  have cur: "cur ?s' j = cur s j" for j by (simp add: cur_def)
  have out: "outstanding accessor ?s' = outstanding accessor s" by (simp add: outstanding_def)
  have "will_report (wpc ?s' u) j" if "will_report (wpc s u) j" for u j
    using that assms(4) by (cases "u = t") auto
  then have "tracked accessor ?s' j" if "tracked accessor s j" for j
    using that unfolding tracked_def out cur by fastforce
  moreover have "fresh_read accessor ?s' u" if "fresh_read accessor s u" for u
    using that ob unfolding fresh_read_def out cur by auto
  ultimately show ?thesis using assms(1) by (simp add: conv_inv_def)
qed

lemma fetch_ok:
  assumes "store_inv accessor s" and "queue_inv s" and "wpc s t = WGot (Key k)"
  shows "fetch Some (NewLister (store s)) k \<noteq> Some InvalidKey"
    and "fetch Some (NewLister (store s)) k \<noteq> Some (FetchError err)"
proof -
  have "Key k \<in> processing (wqs s)"
    using workers_okD(1) [of s t "Key k"] assms(2,3) by (simp add: queue_inv_def)
  then have "key_ok k" using assms(1) by (simp add: store_inv_def known_keys_def)
  then show "fetch Some (NewLister (store s)) k \<noteq> Some InvalidKey"
    "fetch Some (NewLister (store s)) k \<noteq> Some (FetchError err)"
    using fetch_current [of accessor "store s" k] assms(1) by (auto simp: store_inv_def)
qed

lemma outstanding_append:
  "outstanding accessor s \<subseteq> outstanding accessor (s\<lparr>store := ix, pendingNotes := pendingNotes s @ ns\<rparr>)"
  "set_option (note_key accessor nt) \<subseteq>
     outstanding accessor (s\<lparr>store := ix, pendingNotes := pendingNotes s @ [nt]\<rparr>)"
  by (auto simp: outstanding_def)

lemma outstanding_deliver:
  assumes "pendingNotes s = nt # rest" and "\<not> shuttingDown (wqs s)"
  shows "outstanding accessor (s\<lparr>wqs := handle_note accessor nt (wqs s), pendingNotes := rest\<rparr>) =
           outstanding accessor s"
  using assms by (auto simp: outstanding_def owed_handle_note split: option.splits)

lemma conv_inv_init: "conv_inv accessor (csys_init idx w)"
  by (simp add: conv_inv_def csys_init_def tracked_def fresh_read_def cur_def)

lemma conv_inv_step:
  "csys_step accessor reconciler n s s' \<Longrightarrow> queue_inv s \<Longrightarrow> store_inv accessor s \<Longrightarrow>
   conv_inv accessor s \<Longrightarrow> conv_inv accessor s'"
proof (induction rule: csys_step.induct)
  case (cache_add ob m s)
  then show ?case
    by (intro conv_inv_store [OF cache_add(6)]) (auto simp: outstanding_def cur_def)
next
  case (cache_update old m new m' s)
  then show ?case
    by (intro conv_inv_store [OF cache_update(9)])
       (auto simp: outstanding_def cur_def arg_meta_def)
next
  case (cache_delete ob m s)
  then show ?case
    by (intro conv_inv_store [OF cache_delete(6)]) (auto simp: outstanding_def cur_def)
next
  case (cache_missed_delete s k ob)
  then show ?case
    by (intro conv_inv_store [OF cache_missed_delete(4)]) (auto simp: outstanding_def cur_def)
next
  case (deliver s nt rest)
  then show ?case
    by (intro conv_inv_queue [OF deliver(4)])
       (simp_all add: handle_note_facts outstanding_deliver cur_def)
next
  case (waiting_loop now s q')
  note f = wait_facts [OF waiting_loop(1)]
  show ?case
    by (intro conv_inv_queue [OF waiting_loop(4)]) (simp_all add: f outstanding_def cur_def)
next
  case (worker_start s t)
  then show ?case
    by (intro conv_inv_queue [OF worker_start(7)]) (auto simp: outstanding_def cur_def split: if_splits)
next
  case (worker_skip s t)
  then show ?case
    by (intro conv_inv_queue [OF worker_skip(7)]) (auto simp: outstanding_def cur_def split: if_splits)
next
  case (worker_get s t item q')
  show ?case by (rule conv_inv_get [OF worker_get(5,3,1,2)])
next
  case (worker_shutdown s t q')
  then have "q' = wqs s" "shuttingDown (wqs s)"
    using GetShutdown_facts by (auto simp: queue_inv_def)
  then show ?case by (simp add: conv_inv_def)
next
  case (worker_bad_item s t b)
  then show ?case
    by (intro conv_inv_queue [OF worker_bad_item(4)])
       (auto simp: outstanding_def cur_def owed_Forget wq_simps split: if_splits)
next
  case (worker_bad_key s t k)
  with fetch_ok(1) show ?case by blast
next
  case (worker_fetch_error s t k err)
  with fetch_ok(2) show ?case by blast
next
  case (worker_fetch s t k ns nm ob)
  show ?case by (rule conv_inv_fetch [OF worker_fetch(5,4,3,1,2)])
next
  case (worker_reconcile s t k ns nm ob err w')
  show ?case by (rule conv_inv_reconcile [OF worker_reconcile(5,3,1)])
next
  case (worker_settle s t k err now bucket)
  show ?case by (rule conv_inv_settle [OF worker_settle(4,2,1)])
next
  case (worker_done s t item)
  then show ?case
    by (intro conv_inv_queue [OF worker_done(4)])
       (auto simp: outstanding_def cur_def Done_facts wq_simps split: if_splits)
next
  case (run_drain s)
  then show ?case by (simp add: conv_inv_def drain_facts)
qed (simp_all add: conv_inv_def tracked_def fresh_read_def outstanding_def cur_def)

interpretation cconv: relative_invariant csys_starts "csys_step accessor reconciler n"
    "\<lambda>s. queue_inv s \<and> store_inv accessor s" "conv_inv accessor"
  for accessor reconciler n
  by unfold_locales (auto simp: csys_starts_def intro: conv_inv_init conv_inv_step)

section \<open>The life cycle of Run\<close>

definition life_inv :: "nat \<Rightarrow> ('obj, 'w) csys \<Rightarrow> bool" where
  "life_inv n s =
     ((phase s = Syncing \<longrightarrow> (\<forall>t. wpc s t = NotStarted)) \<and>
      (\<forall>t. n \<le> t \<longrightarrow> wpc s t = NotStarted) \<and>
      (shuttingDown (wqs s) \<longrightarrow> ctx s \<noteq> None) \<and>
      (\<forall>t. wpc s t = WExited \<longrightarrow> ctx s \<noteq> None) \<and>
      (phase s \<in> {Draining, Joining} \<longrightarrow> ctx s \<noteq> None) \<and>
      (\<forall>r. phase s = RunReturned r \<longrightarrow>
         (\<exists>e. r = CtxErr e \<and> ctx s = Some e) \<and> (\<forall>t. wpc s t \<in> {NotStarted, WExited})))"

lemma life_inv_init: "life_inv n (csys_init idx w)"
  by (simp add: life_inv_def csys_init_def NewRateLimitingQueue_def)

text \<open>A step of a worker that is started and has not left.\<close>

lemma life_inv_worker:
  assumes "life_inv n s" and "wpc s t \<notin> {NotStarted, WExited}"
    and "shuttingDown q' = shuttingDown (wqs s)" and "pc = WExited \<Longrightarrow> shuttingDown (wqs s)"
  shows "life_inv n (s\<lparr>wqs := q', wpc := (wpc s)(t := pc)\<rparr>)"
    and "life_inv n (s\<lparr>wqs := q', wpc := (wpc s)(t := pc)\<rparr>) \<Longrightarrow> q' = wqs s \<Longrightarrow>
      life_inv n (s\<lparr>wpc := (wpc s)(t := pc)\<rparr>)"
proof -
  have "phase s \<noteq> Syncing" "\<not> n \<le> t" "\<And>r. phase s \<noteq> RunReturned r"
    using assms(1,2) unfolding life_inv_def by blast+
  then show "life_inv n (s\<lparr>wqs := q', wpc := (wpc s)(t := pc)\<rparr>)"
    using assms(1,3,4) by (auto simp: life_inv_def)
qed simp

lemma life_inv_step:
  "csys_step accessor reconciler n s s' \<Longrightarrow> queue_inv s \<Longrightarrow> life_inv n s \<Longrightarrow> life_inv n s'"
proof (induction rule: csys_step.induct)
  case (worker_get s t item q')
  then have "shuttingDown q' = shuttingDown (wqs s)" using Get_facts(7) by (auto simp: queue_inv_def)
  then show ?case by (intro life_inv_worker(1) [OF worker_get(4)]) (simp_all add: worker_get(1))
next
  case (worker_shutdown s t q')
  then have "q' = wqs s" "shuttingDown (wqs s)"
    using GetShutdown_facts by (auto simp: queue_inv_def)
  then show ?case by (intro life_inv_worker(1) [OF worker_shutdown(4)]) (simp_all add: worker_shutdown(1))
next
  case (worker_reconcile s t k ns nm ob err w')
  have "life_inv n (s\<lparr>wpc := (wpc s)(t := WSynced k err)\<rparr>)"
    using life_inv_worker [OF worker_reconcile(4), of t "wqs s" "WSynced k err"] worker_reconcile(1)
    by simp
  then show ?case by (simp add: life_inv_def)
next
  case (worker_bad_key s t k)
  then show ?case using life_inv_worker [OF worker_bad_key(4), of t "wqs s" "WSynced k None"] by simp
next
  case (worker_fetch_error s t k err)
  then show ?case
    using life_inv_worker [OF worker_fetch_error(4), of t "wqs s" "WSynced k (Some err)"] by simp
next
  case (worker_fetch s t k ns nm ob)
  then show ?case using life_inv_worker [OF worker_fetch(4), of t "wqs s" "WRead k ns nm ob"] by simp
next
  case (sync_failed s)
  then show ?case by (auto simp: life_inv_def sync_result_def)
next
  case (run_return s e)
  then show ?case by (auto simp: life_inv_def) (meson not_le)+
next
  case (worker_start s t)
  then show ?case by (auto simp: life_inv_def)
next
  case (worker_skip s t)
  then show ?case by (auto simp: life_inv_def)
next
  case (worker_bad_item s t b)
  then show ?case by (intro life_inv_worker(1)) (simp_all add: wq_simps)
next
  case (worker_settle s t k err now bucket)
  then show ?case by (intro life_inv_worker(1)) (simp_all add: after_reconcile_facts)
next
  case (worker_done s t item)
  then show ?case by (intro life_inv_worker(1)) (simp_all add: wq_simps)
qed (auto simp: life_inv_def handle_note_facts wait_facts)

interpretation clife: relative_invariant csys_starts "csys_step accessor reconciler n" queue_inv
    "life_inv n"
  for accessor reconciler n
  by unfold_locales (auto simp: csys_starts_def intro: life_inv_init life_inv_step)

end
