(* ===== verification/Controller_Progress.thy ===== *)
theory Controller_Progress
  imports Controller
begin

text \<open>
  The liveness of the generic controller: the steps that are its own, that it always has one while it is not at
  rest, and, once its reconciler no longer fails, a measure that each of them uses up.
\<close>

section \<open>Progress\<close>

definition quiescent :: "('obj, 'w) csys \<Rightarrow> bool" where
  "quiescent s =
     (pendingNotes s = [] \<and> owed (wqs s) = {} \<and> (\<forall>t. holds (wpc s t) = None))"

text \<open>
  A step of the controller's own: the informer's store, the context and the phase of \<open>Run\<close> stay as they are, and
  the first pending notification is delivered, or the loop of the delaying queue moves, or a worker does.
\<close>

definition own_step ::
  "'obj accessor \<Rightarrow> ('obj, 'w) reconciler \<Rightarrow> nat \<Rightarrow> ('obj, 'w) csys \<Rightarrow> ('obj, 'w) csys \<Rightarrow> bool" where
  "own_step accessor reconciler n s s' \<longleftrightarrow>
     csys_step accessor reconciler n s s' \<and> store s' = store s \<and> ctx s' = ctx s \<and> phase s' = phase s \<and>
     ((\<exists>note. pendingNotes s = note # pendingNotes s') \<or>
      pendingNotes s' = pendingNotes s \<and> ((\<exists>now. wait_step now (wqs s) (wqs s')) \<or> wpc s' \<noteq> wpc s))"

lemma own_step_worker:
  assumes "csys_step accessor reconciler n s s'" and "store s' = store s" "ctx s' = ctx s" "phase s' = phase s"
    and "pendingNotes s' = pendingNotes s" "wpc s' t \<noteq> wpc s t"
  shows "\<exists>s'. own_step accessor reconciler n s s'"
  using assms by (auto simp: own_step_def intro!: exI [of _ s'])

lemma own_step_queue:
  assumes "csys_step accessor reconciler n s s'" and "store s' = store s" "ctx s' = ctx s" "phase s' = phase s"
    and "(\<exists>note. pendingNotes s = note # pendingNotes s') \<or>
      pendingNotes s' = pendingNotes s \<and> (\<exists>now. wait_step now (wqs s) (wqs s'))"
  shows "\<exists>s'. own_step accessor reconciler n s s'"
  using assms by (auto simp: own_step_def intro!: exI [of _ s'])

lemma held_progress:
  assumes "store_inv accessor s" and "queue_inv s" and "holds (wpc s t) = Some i"
  shows "\<exists>s'. own_step accessor reconciler n s s'"
proof (cases "wpc s t")
  case (WGot j)
  show ?thesis
  proof (cases j)
    case (Key k)
    with WGot have w: "wpc s t = WGot (Key k)" by simp
    have "Key k \<in> processing (wqs s)"
      using workers_okD(1) [of s t "Key k"] assms(2) w by (simp add: queue_inv_def)
    then obtain ns nm where "fetch Some (NewLister (store s)) k = Some (Fetched ns nm (cur s k))"
      using fetch_current [of accessor "store s" k] assms(1)
      by (auto simp: store_inv_def known_keys_def cur_def)
    from own_step_worker [OF worker_fetch [OF w this], of t] show ?thesis by (simp add: w)
  next
    case (NotAString b)
    with WGot have w: "wpc s t = WGot (NotAString b)" by simp
    from own_step_worker [OF worker_bad_item [OF w], of t] show ?thesis by (simp add: w)
  qed
next
  case (WRead k ns nm ob)
  obtain err w' where "reconciler ns nm ob (world s) = (err, w')" by fastforce
  from own_step_worker [OF worker_reconcile [where reconciler = reconciler, OF WRead this], of t] show ?thesis by (simp add: WRead)
next
  case (WSynced k err)
  from own_step_worker [OF worker_settle [where now = 0 and bucket = 0, OF this], of t] show ?thesis by (simp add: WSynced)
next
  case (WSettled j)
  from own_step_worker [OF worker_done [OF this], of t] show ?thesis by (simp add: WSettled)
qed (use assms(3) in auto)

text \<open>With an idle worker or one yet to start, a queued key is taken.\<close>

lemma queued_progress:
  assumes "life_inv n s" and "queue_inv s" and "phase s = Running" "ctx s = None" "0 < n"
    and "\<And>t. holds (wpc s t) = None" and "dirty (wqs s) \<noteq> {}"
  shows "\<exists>s'. own_step accessor reconciler n s s'"
proof (cases "wpc s 0")
  case NotStarted
  with assms(3-5) have "csys_step accessor reconciler n s (s\<lparr>wpc := (wpc s)(0 := WIdle)\<rparr>)"
    by (intro worker_start) auto
  from own_step_worker [OF this, of 0] show ?thesis by (simp add: NotStarted)
next
  case WIdle
  from assms(7) obtain i where i: "i \<in> dirty (wqs s)" by blast
  have "processing (wqs s) = {}"
    using workers_okD(2) [of s] assms(2,6) by (auto simp: queue_inv_def)
  with i assms(2) obtain j q' where "wq_Get (wqs s) = (Got j, q')"
    using wq.get_progress [of "wqs s" i] by (auto simp: queue_inv_def queue_okD)
  from own_step_worker [OF worker_get [OF WIdle this], of 0] show ?thesis by (simp add: WIdle)
next
  case WExited
  with assms(1,4) show ?thesis by (auto simp: life_inv_def)
qed (use assms(6) [of 0] in auto)

lemma controller_progress_lemma:
  assumes "csys_reachable accessor reconciler n s"
    and "phase s = Running" "ctx s = None" "0 < n" and "\<not> quiescent s"
  shows "\<exists>s'. own_step accessor reconciler n s s'"
proof -
  note inv = cqueue.reach_inv [OF assms(1)] cstore.reach_extra [OF assms(1)]
    clife.reach_extra [OF assms(1)]
  have up: "\<not> shuttingDown (wqs s)" using inv(3) assms(3) by (auto simp: life_inv_def)
  consider (noted) nt rest where "pendingNotes s = nt # rest"
    | (held) t i where "holds (wpc s t) = Some i"
    | (idle) "\<And>t. holds (wpc s t) = None" "owed (wqs s) \<noteq> {}"
    using assms(5) unfolding quiescent_def by (metis list.exhaust option.exhaust)
  then show ?thesis
  proof cases
    case noted
    from own_step_queue [OF deliver [OF this]] show ?thesis by (simp add: noted)
  next
    case held
    with inv show ?thesis by (intro held_progress)
  next
    case idle
    show ?thesis
    proof (cases "dirty (wqs s) = {}")
      case True
      with idle(2) have "waitingForAddCh (wqs s) \<noteq> [] \<or> dom (waiting (wqs s)) \<noteq> {}"
        by (auto simp: owed_def)
      with wait_step_possible [of "wqs s"] inv(1) up obtain now q' where w: "wait_step now (wqs s) q'"
        by (auto simp: queue_inv_def queue_ok_def)
      with own_step_queue [OF waiting_loop [where accessor = accessor and reconciler = reconciler and n = n, OF w]]
      show ?thesis by auto
    next
      case False
      with inv assms(2-4) idle(1) show ?thesis by (intro queued_progress)
    qed
  qed
qed

section \<open>What is left to do\<close>

text \<open>
  With a reconciler that succeeds, a key goes from a notification, the channel or the heap of the delaying queue
  to the dirty set, and from there through a worker; an item whose earlier failure is still to be settled goes
  through the delay once more. The weights count the steps of the longest way from each place.
\<close>

fun worker_left :: "'obj worker_pc \<Rightarrow> nat" where
  "worker_left NotStarted = 1"
| "worker_left WIdle = 0"
| "worker_left (WGot i) = 5"
| "worker_left (WRead k ns nm ob) = 4"
| "worker_left (WSynced k err) = (if err = None then 3 else 11)"
| "worker_left (WSettled i) = 2"
| "worker_left WExited = 0"

definition queue_left :: "wqueue \<Rightarrow> nat" where
  "queue_left q = 6 * card (dirty q) + 7 * card (dom (waiting q)) + 8 * length (waitingForAddCh q)"

definition work_left :: "nat \<Rightarrow> ('obj, 'w) csys \<Rightarrow> nat" where
  "work_left n s = 7 * length (pendingNotes s) + queue_left (wqs s) + (\<Sum>t<n. worker_left (wpc s t))"

lemma workers_left_update:
  fixes t n :: nat
  assumes "t < n"
  shows "(\<Sum>u<n. worker_left ((f(t := pc)) u)) + worker_left (f t) = (\<Sum>u<n. worker_left (f u)) + worker_left pc"
proof -
  have "(\<Sum>u\<in>{..<n} - {t}. worker_left ((f(t := pc)) u)) = (\<Sum>u\<in>{..<n} - {t}. worker_left (f u))"
    by (intro sum.cong) auto
  then show ?thesis
    using assms sum.remove [OF finite_lessThan [of n], where x = t and g = "\<lambda>u. worker_left ((f(t := pc)) u)"]
      sum.remove [OF finite_lessThan [of n], where x = t and g = "\<lambda>u. worker_left (f u)"] by simp
qed

lemma left_Add:
  assumes "finite (dirty q)"
  shows "queue_left (wq_Add i q) \<le> queue_left q + 6"
  using assms by (simp add: queue_left_def wq_simps card_insert_if)

lemma left_note:
  assumes "finite (dirty q)"
  shows "queue_left (handle_note accessor nt q) \<le> queue_left q + 6"
  using left_Add [OF assms] by (simp add: handle_note_eq split: option.split)

lemma left_wait:
  assumes "wait_step now q q'" and "finite (dirty q)" "finite (dom (waiting q))"
  shows "queue_left q' < queue_left q"
  using assms
proof (induction rule: wait_step.induct)
  case (wait_take q)
  from wait_take(2) show ?case
  proof (cases rule: take_entry_cases [of q now])
    case (later k t rest)
    then show ?thesis using wait_take by (simp add: queue_left_def card_insert_if)
  next
    case (due k t rest)
    then have "queue_left (take_entry now q) \<le> queue_left (q\<lparr>waitingForAddCh := rest\<rparr>) + 6"
      using left_Add [of "q\<lparr>waitingForAddCh := rest\<rparr>" k] wait_take by simp
    then show ?thesis using due by (simp add: queue_left_def)
  qed
next
  case (wait_pop q k)
  have "dom ((waiting q)(k := None)) = dom (waiting q) - {k}" by auto
  moreover have "card (dom (waiting q)) = Suc (card (dom (waiting q) - {k}))"
    using is_next_ready_waiting [OF wait_pop(2)] wait_pop(4) by (metis card.remove)
  ultimately show ?case
    using wait_pop by (simp add: queue_left_def pop_ready_def wq_simps card_insert_if)
qed

lemma left_Get:
  assumes "wq_Get q = (Got i, q')" and "wq_inv q" "finite (dirty q)"
  shows "queue_left q' + 6 = queue_left q"
proof -
  from assms(1) obtain rest where r: "queue q = i # rest"
      "q' = q\<lparr>queue := rest, processing := insert i (processing q), dirty := dirty q - {i}\<rparr>"
    by (elim wq_Get_cases) auto
  then have "i \<in> dirty q" using wq_inv_Cons [OF assms(2)] by blast
  then have "card (dirty q) = Suc (card (dirty q - {i}))" using assms(3) by (metis card.remove)
  then show ?thesis by (simp add: queue_left_def r(2))
qed

lemma left_settled:
  assumes "finite (dirty q)"
  shows "queue_left (wq_Done i q) = queue_left q" "queue_left (Forget i q) = queue_left q"
    and "queue_left (AddRateLimited now b i q) \<le> queue_left q + 8"
proof -
  let ?q = "snd (When b i q)"
  have "queue_left ?q = queue_left q" by (simp add: queue_left_def wq_simps)
  moreover have "queue_left (wq_Add i ?q) \<le> queue_left ?q + 6" using assms by (intro left_Add) (simp add: wq_simps)
  ultimately show "queue_left (AddRateLimited now b i q) \<le> queue_left q + 8"
    by (auto simp: AddRateLimited_eq AddAfter_def) (simp add: queue_left_def)
qed (simp_all add: queue_left_def wq_simps)

text \<open>Only workers below \<open>n\<close> hold keys, so finitely many keys are being processed, and finitely many are dirty.\<close>

lemma finitely_dirty:
  assumes "queue_inv s" and "life_inv n s"
  shows "finite (dirty (wqs s))" "finite (dom (waiting (wqs s)))" "wq_inv (wqs s)"
proof -
  have "processing (wqs s) \<subseteq> (\<lambda>t. the (holds (wpc s t))) ` {..<n}"
  proof
    fix i assume "i \<in> processing (wqs s)"
    then obtain t where t: "holds (wpc s t) = Some i"
      using workers_okD(2) [of s i] assms(1) by (auto simp: queue_inv_def)
    then have "t < n" using assms(2) by (cases "t < n") (auto simp: life_inv_def)
    with t show "i \<in> (\<lambda>t. the (holds (wpc s t))) ` {..<n}" by force
  qed
  then have "finite (processing (wqs s))" by (rule finite_subset) simp
  moreover show "wq_inv (wqs s)" using assms(1) by (simp add: queue_inv_def queue_okD)
  then have "dirty (wqs s) \<subseteq> set (queue (wqs s)) \<union> processing (wqs s)" by (auto simp: wq_inv_def)
  ultimately show "finite (dirty (wqs s))" by (auto intro: finite_subset)
  show "finite (dom (waiting (wqs s)))" using assms(1) by (simp add: queue_inv_def queue_ok_def dq_inv_def)
qed

text \<open>
  From now on the reconciler succeeds: in the worlds of a set \<open>calm\<close> it does, and stays in them.
\<close>

definition succeeds :: "('obj, 'w) reconciler \<Rightarrow> 'w set \<Rightarrow> bool" where
  "succeeds reconciler calm \<longleftrightarrow>
     (\<forall>namespace name ob. \<forall>w \<in> calm. \<exists>w' \<in> calm. reconciler namespace name ob w = (None, w'))"

definition settling ::
  "'obj accessor \<Rightarrow> ('obj, 'w) reconciler \<Rightarrow> nat \<Rightarrow> 'w set \<Rightarrow> ('obj, 'w) csys \<Rightarrow> bool" where
  "settling accessor reconciler n calm s \<longleftrightarrow>
     csys_reachable accessor reconciler n s \<and> phase s = Running \<and> ctx s = None \<and> 0 < n \<and>
     succeeds reconciler calm \<and> world s \<in> calm"

lemma settling_step:
  assumes "own_step accessor reconciler n s s'" and "settling accessor reconciler n calm s"
  shows "settling accessor reconciler n calm s'"
proof -
  have step: "csys_step accessor reconciler n s s'" using assms(1) by (simp add: own_step_def)
  then have "world s' \<in> calm"
  proof cases
    case (worker_reconcile t k namespace name newObj err w')
    with assms(2) obtain v where "v \<in> calm" "(err, w') = (None, v)"
      unfolding settling_def succeeds_def by metis
    with worker_reconcile(1) show ?thesis by simp
  qed (use assms(2) in \<open>auto simp: settling_def\<close>)
  then show ?thesis
    using assms reach_step [of csys_starts "csys_step accessor reconciler n" s s', OF _ step]
    by (auto simp: settling_def own_step_def)
qed

lemma own_step_uses:
  assumes "own_step accessor reconciler n s s'" and "settling accessor reconciler n calm s"
  shows "work_left n s' < work_left n s"
proof -
  have reach: "csys_reachable accessor reconciler n s" and run: "phase s = Running" "ctx s = None"
    and calm: "succeeds reconciler calm" "world s \<in> calm"
    using assms(2) by (simp_all add: settling_def)
  note inv = cqueue.reach_inv [OF reach] cstore.reach_extra [OF reach] clife.reach_extra [OF reach]
  note fin = finitely_dirty [OF inv(1,3)]
  have up: "\<not> shuttingDown (wqs s)" using inv(3) run(2) by (auto simp: life_inv_def)
  have below: "t < n" if "wpc s t \<noteq> NotStarted" for t
    using inv(3) that by (cases "t < n") (auto simp: life_inv_def)
  have moved: "work_left n (s\<lparr>wqs := q, wpc := (wpc s)(t := pc)\<rparr>) < work_left n s"
    if "t < n" "queue_left q + worker_left pc < queue_left (wqs s) + worker_left (wpc s t)" for q t pc
    using workers_left_update [OF that(1), of "wpc s" pc] that(2) by (simp add: work_left_def)
  have world_free: "work_left n (u\<lparr>world := w, seen := sn\<rparr>) = work_left n u" for u :: "('a, 'b) csys" and w sn
    by (simp add: work_left_def)
  from assms(1) have step: "csys_step accessor reconciler n s s'"
    and same: "store s' = store s" "ctx s' = ctx s" "phase s' = phase s"
    and what: "(\<exists>note. pendingNotes s = note # pendingNotes s') \<or> pendingNotes s' = pendingNotes s"
    by (auto simp: own_step_def)
  from step show ?thesis
  proof cases
    case (deliver nt rest)
    then show ?thesis using left_note [OF fin(1), of accessor nt] by (simp add: work_left_def)
  next
    case (waiting_loop now q')
    then show ?thesis using left_wait [OF waiting_loop(2) fin(1,2)] by (simp add: work_left_def)
  next
    case (worker_start t)
    then show ?thesis using moved [of t "wqs s" WIdle] by simp
  next
    case (worker_get t item q')
    then show ?thesis using moved [of t q' "WGot item"] below [of t] left_Get [OF worker_get(3) fin(3,1)] by simp
  next
    case (worker_shutdown t q')
    then show ?thesis using up wq_Get_GotShutdown [of "wqs s"] by simp
  next
    case (worker_bad_item t b)
    then show ?thesis
      using moved [of t "Forget (NotAString b) (wqs s)" "WSettled (NotAString b)"] below [of t]
      by (simp add: left_settled [OF fin(1)])
  next
    case (worker_bad_key t k)
    then show ?thesis using moved [of t "wqs s" "WSynced k None"] below [of t] by simp
  next
    case (worker_fetch_error t k err)
    then have "Key k \<in> processing (wqs s)" using workers_okD(1) [of s t "Key k"] inv(1) by (simp add: queue_inv_def)
    then have "key_ok k" "ix_wf accessor (store s)" using inv(2) by (auto simp: store_inv_def known_keys_def)
    then show ?thesis using fetch_current [of accessor "store s" k] worker_fetch_error(3) by auto
  next
    case (worker_fetch t k ns nm ob)
    then show ?thesis using moved [of t "wqs s" "WRead k ns nm ob"] below [of t] by simp
  next
    case (worker_reconcile t k ns nm ob err w')
    then have "err = None" using calm unfolding succeeds_def by (metis prod.inject)
    then have "work_left n (s\<lparr>wpc := (wpc s)(t := WSynced k err)\<rparr>) < work_left n s"
      using moved [of t "wqs s" "WSynced k err"] below [of t] worker_reconcile(2) by simp
    then show ?thesis using worker_reconcile(1) by (simp add: work_left_def)
  next
    case (worker_settle t k err now bucket)
    then show ?thesis
      using moved [of t "after_reconcile now bucket k err (wqs s)" "WSettled (Key k)"] below [of t]
        left_settled(3) [OF fin(1), of now bucket "Key k"]
      by (cases err) (simp_all add: after_reconcile_def left_settled [OF fin(1)])
  next
    case (worker_done t item)
    then show ?thesis
      using moved [of t "wq_Done item (wqs s)" WIdle] below [of t] by (simp add: left_settled [OF fin(1)])
  qed (use same what run in auto)
qed

interpretation csettle: winding_system "settling accessor reconciler n calm" "own_step accessor reconciler n"
    "settling accessor reconciler n calm" "work_left n" quiescent
  for accessor reconciler n calm
proof (unfold_locales, goal_cases)
  case (4 s)
  then show ?case using controller_progress_lemma [of accessor reconciler n s] by (auto simp: settling_def)
qed (auto intro: settling_step own_step_uses)

end
