(* ===== verification/Controller_Properties.thy ===== *)
theory Controller_Properties
  imports Controller_Progress
begin

text \<open>
  The properties of the generic controller, over every reachable state of the running system of
  theory \<open>Controller\<close>, and one complete execution (an object is added, delivered, reconciled and
  then deleted behind the informer's back) that instantiates them.
\<close>

lemma at_rest_seen:
  assumes "csys_reachable accessor reconciler n s" and "ctx s = None"
    and "quiescent s" and "k \<notin> lost s"
  shows "seen s k = Some (cur s k)"
proof -
  have "\<not> shuttingDown (wqs s)"
    using clife.reach_extra [OF assms(1)] assms(2) by (auto simp: life_inv_def)
  then have "tracked accessor s k" using cconv.reach_extra [OF assms(1)] by (rule conv_invD(1) [rotated])
  moreover have "\<not> will_report (wpc s t) k" for t
    using assms(3) by (cases "wpc s t") (auto simp: quiescent_def dest: spec [of _ t])
  ultimately show ?thesis
    using assms(3,4) by (auto simp: tracked_def outstanding_def quiescent_def)
qed

section \<open>Properties\<close>

text \<open>
  (C9) Once the controller is at rest (every notification delivered, nothing queued, delayed or
  held by a worker), the last successful reconciliation of every key saw the object the cache holds
  now, or its absence, for every interleaving, every failure pattern of the reconciler and any
  number of workers. Excepted are only keys whose deletion arrived as a tombstone.
\<close>

theorem controller_converges:
  assumes "csys_reachable accessor reconciler n s" and "ctx s = None"
    and "quiescent s" and "k \<notin> lost s"
  shows "seen s k = Some (cur s k)"
  using assms by (rule at_rest_seen)

text \<open>
  (C31) While its context lives, a running controller with at least one worker that is not at rest always has a step
  of its own to take, whatever the reconciler answers: no key is stuck in a notification, the delay, the queue or a
  worker. And once the reconciler no longer fails, the controller comes to rest: as long as the informer brings
  no further change, any execution has at most \<open>work_left\<close> steps, and it stops only at rest.
\<close>

theorem controller_makes_progress:
  assumes "csys_reachable accessor reconciler n s" and "phase s = Running" and "ctx s = None"
    and "0 < n"
  shows "(\<not> quiescent s \<longrightarrow> (\<exists>s'. own_step accessor reconciler n s s')) \<and>
    (succeeds reconciler calm \<and> world s \<in> calm \<longrightarrow>
      (\<forall>k t. (own_step accessor reconciler n ^^ k) s t \<longrightarrow>
        k \<le> work_left n s \<and> ((\<exists>u. own_step accessor reconciler n t u) \<or> quiescent t)))"
proof (intro conjI impI allI)
  show "\<exists>s'. own_step accessor reconciler n s s'" if "\<not> quiescent s"
    using controller_progress_lemma [OF assms that] .
next
  fix k t assume c: "succeeds reconciler calm \<and> world s \<in> calm" and run: "(own_step accessor reconciler n ^^ k) s t"
  have "reach (settling accessor reconciler n calm) (own_step accessor reconciler n) s"
    using c assms by (intro reach_start) (simp add: settling_def)
  from csettle.winds_down [OF this run]
  show "k \<le> work_left n s" "(\<exists>u. own_step accessor reconciler n t u) \<or> quiescent t" by auto
qed

text \<open>(C17) No two workers ever work on the same key at the same time.\<close>

theorem workers_exclusive:
  assumes "csys_reachable accessor reconciler n s"
    and "holds (wpc s t) = Some i" and "holds (wpc s t') = Some i"
  shows "t = t'"
  using cqueue.reach_inv [OF assms(1)] workers_okD(3) [OF _ assms(2,3)]
  by (simp add: queue_inv_def)

text \<open>
  \<open>Run\<close> returns only after its context has ended, with the context's error, and with no worker
  running and no key being processed.
\<close>

theorem Run_returns_clean:
  assumes "csys_reachable accessor reconciler n s" and "phase s = RunReturned r"
  shows "(\<exists>e. ctx s = Some e \<and> r = CtxErr e) \<and> processing (wqs s) = {} \<and>
         (\<forall>t. wpc s t = NotStarted \<or> wpc s t = WExited)"
proof -
  have r: "(\<exists>e. ctx s = Some e \<and> r = CtxErr e)" "\<And>t. wpc s t = NotStarted \<or> wpc s t = WExited"
    using clife.reach_extra [OF assms(1)] assms(2) unfolding life_inv_def by blast+
  have "holds (wpc s t) = None" for t using r(2) [of t] by auto
  then have "processing (wqs s) = {}"
    using workers_okD(2) [of s] cqueue.reach_inv [OF assms(1)] by (auto simp: queue_inv_def)
  with r show ?thesis by blast
qed

text \<open>
  Processing one key of a queue in good order: the key is no longer being processed; after an
  error it is owed again, with one more failure on record; after a success its failures are
  forgotten and nothing is requeued.
\<close>

theorem process_item_requeues_on_error:
  assumes "queue_ok q" and "\<not> shuttingDown q" and "Key key \<in> processing q"
    and "reconcile asT l reconciler key w = Some (err, w')"
  shows "\<exists>msg q'. process_item asT l reconciler now bucket (Key key) q w = Some (msg, q', w') \<and>
    queue_ok q' \<and> processing q' = processing q - {Key key} \<and>
    (msg = None \<longleftrightarrow> err = None) \<and>
    owed q' = (if err = None then owed q else insert (Key key) (owed q)) \<and>
    NumRequeues (Key key) q' = (if err = None then 0 else NumRequeues (Key key) q + 1)"
proof -
  define q1 where "q1 = after_reconcile now bucket key err q"
  have q1: "queue_ok q1" "processing q1 = processing q" "shuttingDown q1 = shuttingDown q"
    using assms(1) by (simp_all add: q1_def after_reconcile_facts)
  have "failures (wq_Done (Key key) q1) (Key key) = failures q1 (Key key)"
    by (simp add: wq_Done_def Let_def)
  also have "\<dots> = (if err = None then 0 else failures q (Key key) + 1)"
    by (cases err) (simp_all add: q1_def after_reconcile_def Forget_def AddRateLimited_eq AddAfter_def
        wq_Add_def When_def Let_def)
  finally have "NumRequeues (Key key) (wq_Done (Key key) q1) =
      (if err = None then 0 else NumRequeues (Key key) q + 1)" by (simp add: NumRequeues_def)
  moreover have "owed (wq_Done (Key key) q1) =
      (if err = None then owed q else insert (Key key) (owed q))"
    using assms(1,2) by (simp add: Done_facts q1_def owed_after_reconcile)
  moreover have "queue_ok (wq_Done (Key key) q1)"
    using q1 assms(3) by (intro Done_facts) simp_all
  ultimately show ?thesis
    using assms(4) unfolding q1_def
    by (cases err) (simp_all add: process_item_def wq_simps after_reconcile_facts)
qed

text \<open>
  A deletion the informer reports as a tombstone is dropped by the handler: from any state at
  rest, after such a deletion of a cached object the controller is at rest again, and the
  reconciler is never told that the object is gone.
\<close>

theorem tombstone_deletion_is_dropped:
  assumes "csys_reachable accessor reconciler n s" and "ctx s = None" and "quiescent s"
    and "cur s k = Some ob" and "k \<notin> lost s"
  shows "\<exists>s'. csys_reachable accessor reconciler n s' \<and> quiescent s' \<and> cur s' k = None \<and>
             seen s' k = Some (Some ob)"
proof -
  let ?s1 = "s\<lparr>store := remove_item k (store s),
    pendingNotes := pendingNotes s @ [DeleteNote (Tombstone k ob)], lost := insert k (lost s)\<rparr>"
  let ?s2 = "?s1\<lparr>wqs := handle_note accessor (DeleteNote (Tombstone k ob)) (wqs ?s1),
    pendingNotes := []\<rparr>"
  have "csys_step accessor reconciler n s ?s1" using assms(4) by (rule cache_missed_delete)
  moreover have "csys_step accessor reconciler n ?s1 ?s2"
    using assms(3) by (intro deliver) (simp add: quiescent_def)
  ultimately have "csys_reachable accessor reconciler n ?s2"
    using assms(1) by (blast intro: reach_step)
  moreover have "seen s k = Some (cur s k)"
    using assms(1-3,5) by (rule at_rest_seen)
  moreover have "quiescent ?s2" using assms(3) by (simp add: quiescent_def handle_note_eq)
  ultimately show ?thesis using assms(4) by (intro exI [of _ ?s2]) (simp add: cur_def)
qed

section \<open>An execution\<close>

text \<open>
  One worker, one cluster-scoped object \<open>c\<close>, and a reconciler that counts its calls: the object is
  added to the cache, delivered, taken from the queue, fetched, reconciled, forgotten and done.
\<close>

definition ex_rec :: "(string, nat) reconciler" where
  "ex_rec ns nm ob w = (None, w + 1)"

abbreviation ex_step :: "(string, nat) csys \<Rightarrow> (string, nat) csys \<Rightarrow> bool" where
  "ex_step \<equiv> csys_step ex_meta ex_rec 1"

definition ex_q :: wqueue where
  "ex_q = NewRateLimitingQueue\<lparr>queue := [Key ''c''], dirty := {Key ''c''}\<rparr>"

definition ex_s0 :: "(string, nat) csys" where "ex_s0 = csys_init False 0"

definition ex_s1 :: "(string, nat) csys" where
  "ex_s1 = ex_s0\<lparr>store := set_item ''c'' ''c'' (store ex_s0), pendingNotes := [AddNote (Object ''c'')]\<rparr>"

definition ex_s2 :: "(string, nat) csys" where
  "ex_s2 = ex_s1\<lparr>wqs := ex_q, pendingNotes := []\<rparr>"

definition ex_s3 :: "(string, nat) csys" where
  "ex_s3 = ex_s2\<lparr>phase := Running, wpc := (wpc ex_s0)(0 := WIdle)\<rparr>"

definition ex_s4 :: "(string, nat) csys" where
  "ex_s4 = ex_s3\<lparr>wqs := NewRateLimitingQueue\<lparr>processing := {Key ''c''}\<rparr>,
     wpc := (wpc ex_s0)(0 := WGot (Key ''c''))\<rparr>"

definition ex_s5 :: "(string, nat) csys" where
  "ex_s5 = ex_s4\<lparr>wpc := (wpc ex_s0)(0 := WRead ''c'' [] ''c'' (Some ''c''))\<rparr>"

definition ex_s6 :: "(string, nat) csys" where
  "ex_s6 = ex_s5\<lparr>world := 1, wpc := (wpc ex_s0)(0 := WSynced ''c'' None),
     seen := (\<lambda>_. Some None)(''c'' := Some (Some ''c''))\<rparr>"

definition ex_s7 :: "(string, nat) csys" where
  "ex_s7 = ex_s6\<lparr>wqs := NewRateLimitingQueue, wpc := (wpc ex_s0)(0 := WIdle)\<rparr>"

lemmas ex_states = ex_s0_def ex_s1_def ex_s2_def ex_s3_def ex_s4_def ex_s5_def ex_s6_def ex_s7_def
  csys_init_def ex_q_def NewRateLimitingQueue_def

lemma ex_meta_c: "ex_meta ''c'' = Some \<lparr>om_Namespace = [], om_Name = ''c'', om_ResourceVersion = ''1'',
    om_Labels = Map.empty\<rparr>"
  by (simp add: ex_meta_def)

lemma ex_reach1: "csys_reachable ex_meta ex_rec 1 ex_s1"
proof -
  have "ex_step ex_s0 ex_s1"
    using cache_add [where s = ex_s0 and accessor = ex_meta and ob = "''c''", OF ex_meta_c, of ex_rec 1]
    by (simp add: ex_s1_def names_ok_def meta_key_def) (simp add: ex_s0_def csys_init_def cur_def)
  then show ?thesis by (auto simp: ex_s0_def intro: csys_start reach_step)
qed

lemma ex_reach3: "csys_reachable ex_meta ex_rec 1 ex_s3"
proof -
  have "handle_note ex_meta (AddNote (Object ''c'')) (wqs ex_s1) = ex_q"
    by (simp add: handle_note_eq ex_meta_c meta_key_def wq_Add_def Let_def ex_states)
  then have "ex_step ex_s1 ex_s2"
    using deliver [of ex_s1 "AddNote (Object ''c'')" "[]" ex_meta ex_rec 1]
    by (simp add: ex_s2_def) (simp add: ex_s1_def)
  moreover have "ex_step ex_s2 (ex_s2\<lparr>phase := Running\<rparr>)"
    by (rule sync_done) (simp add: ex_states)
  moreover have "ex_step (ex_s2\<lparr>phase := Running\<rparr>) ex_s3"
    using worker_start [of "ex_s2\<lparr>phase := Running\<rparr>" 0 1 ex_meta ex_rec] by (simp add: ex_states)
  ultimately show ?thesis using ex_reach1 by (blast intro: reach_step)
qed

lemma ex_fetch: "fetch Some (NewLister (store ex_s4)) ''c'' = Some (Fetched [] ''c'' (Some ''c''))"
  by (simp add: fetch_def SplitMetaNamespaceKey_def ex_states lister_Get_def NewLister_def
      get_or_not_found_def GetByKey_def set_item_def)

definition ex_s6b :: "(string, nat) csys" where
  "ex_s6b = ex_s6\<lparr>wpc := (wpc ex_s0)(0 := WSettled (Key ''c'')),
     wqs := NewRateLimitingQueue\<lparr>processing := {Key ''c''}\<rparr>\<rparr>"

lemma ex_steps:
  "ex_step ex_s3 ex_s4" "ex_step ex_s4 ex_s5" "ex_step ex_s5 ex_s6"
  "ex_step ex_s6 ex_s6b" "ex_step ex_s6b ex_s7"
proof -
  show "ex_step ex_s3 ex_s4"
    using worker_get [of ex_s3 0 "Key ''c''" "wqs ex_s4" ex_meta ex_rec 1]
    by (simp add: ex_states wq_Get.simps)
  show "ex_step ex_s4 ex_s5"
    using worker_fetch [of ex_s4 0 "''c''" "[]" "''c''" "Some ''c''" ex_meta ex_rec 1, OF _ ex_fetch]
    by (simp add: ex_states)
  show "ex_step ex_s5 ex_s6"
    using worker_reconcile [of ex_s5 0 "''c''" "[]" "''c''" "Some ''c''" ex_rec None 1 ex_meta 1]
    by (simp add: ex_states ex_rec_def)
  have same: "(\<lambda>_. 0::nat)(Key ''c'' := 0) = (\<lambda>_. 0)" by auto
  show "ex_step ex_s6 ex_s6b"
    using worker_settle [of ex_s6 0 "''c''" None ex_meta ex_rec 1 0 0]
    by (simp add: after_reconcile_def Forget_def ex_s6b_def ex_states same)
  show "ex_step ex_s6b ex_s7"
    using worker_done [of ex_s6b 0 "Key ''c''" ex_meta ex_rec 1]
    by (simp add: ex_states ex_s6b_def wq_Done_def Let_def)
qed

lemma ex_reach4: "csys_reachable ex_meta ex_rec 1 ex_s4"
  using ex_reach3 ex_steps(1) by (rule reach_step)

lemma ex_reach7: "csys_reachable ex_meta ex_rec 1 ex_s7"
  by (rule reach_step [OF reach_step [OF reach_step [OF reach_step [OF ex_reach4]]]]) (rule ex_steps)+

section \<open>Instances\<close>

lemma ex_at_rest: "ctx ex_s7 = None" "quiescent ex_s7" "lost ex_s7 = {}" "cur ex_s7 ''c'' = Some ''c''"
  by (simp_all add: ex_states quiescent_def owed_def cur_def set_item_def)

theorem controller_converges_witness:
  "quiescent ex_s7 \<and> seen ex_s7 ''c'' = Some (Some ''c'')"
  using controller_converges [OF ex_reach7 ex_at_rest(1,2), of "''c''"] ex_at_rest by simp

text \<open>A worker has just got the key: from there to rest there are at most five steps.\<close>

theorem controller_makes_progress_witness:
  "(\<exists>s'. own_step ex_meta ex_rec 1 ex_s4 s') \<and> work_left 1 ex_s4 = 5 \<and>
   \<not> (\<exists>k t. (own_step ex_meta ex_rec 1 ^^ k) ex_s4 t \<and> 5 < k) \<and>
   \<not> (\<exists>k t. (own_step ex_meta ex_rec 1 ^^ k) ex_s4 t \<and> (\<nexists>u. own_step ex_meta ex_rec 1 t u) \<and> \<not> quiescent t)"
proof -
  have "holds (wpc ex_s4 0) = Some (Key ''c'')" by (simp add: ex_states)
  then have busy: "\<not> quiescent ex_s4" by (auto simp: quiescent_def)
  have left: "work_left 1 ex_s4 = 5" by (simp add: work_left_def queue_left_def ex_states)
  have state: "phase ex_s4 = Running" "ctx ex_s4 = None" "(0::nat) < 1" by (simp_all add: ex_states)
  have "succeeds ex_rec UNIV" by (simp add: succeeds_def ex_rec_def)
  with controller_makes_progress [OF ex_reach4 state, of UNIV] busy left show ?thesis by fastforce
qed

theorem workers_exclusive_witness:
  "holds (wpc ex_s4 0) = Some (Key ''c'') \<and> (\<nexists>t. t \<noteq> 0 \<and> holds (wpc ex_s4 t) = Some (Key ''c''))"
proof -
  have h: "holds (wpc ex_s4 0) = Some (Key ''c'')" by (simp add: ex_states)
  with workers_exclusive [OF ex_reach4 h] show ?thesis by blast
qed

theorem Run_returns_clean_witness:
  "\<exists>s. csys_reachable ex_meta ex_rec 1 s \<and> phase s = RunReturned (CtxErr Canceled) \<and>
       processing (wqs s) = {}"
proof -
  let ?s1 = "ex_s0\<lparr>ctx := Some Canceled\<rparr>"
  let ?s2 = "?s1\<lparr>phase := RunReturned (sync_result (ctx ?s1))\<rparr>"
  have 0: "csys_reachable ex_meta ex_rec 1 ex_s0" unfolding ex_s0_def by (rule csys_start)
  have 1: "ex_step ex_s0 ?s1" by (rule cancel) (simp add: ex_states)
  have 2: "ex_step ?s1 ?s2" by (rule sync_failed) (simp_all add: ex_states)
  have r: "csys_reachable ex_meta ex_rec 1 ?s2" by (rule reach_step [OF reach_step [OF 0 1] 2])
  have "phase ?s2 = RunReturned (CtxErr Canceled)" by (simp add: sync_result_def)
  with Run_returns_clean [OF r this] r show ?thesis by blast
qed

theorem process_item_requeues_on_error_witness:
  "\<exists>msg q'. process_item Some (NewLister ex_ix) (\<lambda>ns nm ob w. (Some (Plain ''e''), w)) 0 0 (Key ''c'')
       (NewRateLimitingQueue\<lparr>processing := {Key ''c''}\<rparr>) () = Some (msg, q', ()) \<and>
     msg \<noteq> None \<and> owed q' = {Key ''c''} \<and> NumRequeues (Key ''c'') q' = 1"
proof -
  let ?q = "NewRateLimitingQueue\<lparr>processing := {Key ''c''}\<rparr>"
  have q: "queue_ok ?q" "\<not> shuttingDown ?q" "Key ''c'' \<in> processing ?q"
    by (simp_all add: queue_ok_def dq_inv_def wq_inv_def NewRateLimitingQueue_def)
  have "reconcile Some (NewLister ex_ix) (\<lambda>ns nm ob w. (Some (Plain ''e''), w)) ''c'' ()
      = Some (Some (Plain ''e''), ())"
    by (simp add: reconcile_def fetch_def SplitMetaNamespaceKey_def lister_Get_def NewLister_def
        get_or_not_found_def GetByKey_def ex_ix_def)
  from process_item_requeues_on_error [OF q this, of 0 0] show ?thesis
    by (auto simp: owed_def NumRequeues_def NewRateLimitingQueue_def)
qed

theorem tombstone_deletion_is_dropped_witness:
  "\<exists>s'. csys_reachable ex_meta ex_rec 1 s' \<and> quiescent s' \<and> cur s' ''c'' = None \<and>
        seen s' ''c'' = Some (Some ''c'')"
  by (rule tombstone_deletion_is_dropped [OF ex_reach7 ex_at_rest(1,2,4)]) (simp add: ex_at_rest(3))

end
