(* ===== verification/Interceptor.thy ===== *)
theory Interceptor
  imports Go_Strings
begin

text \<open>
  The rewriting proxy of \<open>cmd/interceptor/main.go\<close>: requests for the native policy API are sent on
  to the CRD-based one, with the API version replaced in path and body, and the responses are
  translated back. The transport and TLS set-up are not modelled.
\<close>

section \<open>Requests and responses\<close>

definition native_gv :: string where "native_gv = ''admissionregistration.k8s.io/v1alpha1''"
definition polyfill_gv :: string where "polyfill_gv = ''admissionregistration.x-k8s.io/v1alpha1''"

record go_url =
  url_Scheme :: string
  url_Host :: string
  url_Path :: string
  url_RawPath :: string
  url_RawQuery :: string

record proxy_request =
  pr_URL :: go_url
  pr_Host :: string
  pr_Header :: "string \<rightharpoonup> string"
  pr_Body :: string
  pr_ContentLength :: int

record proxy_response =
  rs_RequestPath :: string
  rs_Header :: "string \<rightharpoonup> string"
  rs_Body :: string
  rs_ReadErr :: "go_error option"
  rs_ContentLength :: int

section \<open>httputil.ProxyRequest.SetURL\<close>

text \<open>\<open>escaped\<close> is \<open>url.EscapedPath\<close>.\<close>

definition has_suffix_slash :: "string \<Rightarrow> bool" where
  "has_suffix_slash s = (s \<noteq> [] \<and> last s = CHR ''/'')"

definition has_prefix_slash :: "string \<Rightarrow> bool" where
  "has_prefix_slash s = (s \<noteq> [] \<and> hd s = CHR ''/'')"

definition joining_slash :: "bool \<Rightarrow> bool \<Rightarrow> string \<Rightarrow> string \<Rightarrow> string" where
  "joining_slash aslash bslash a b =
     (if aslash \<and> bslash then a @ tl b
      else if \<not> aslash \<and> \<not> bslash then a @ ''/'' @ b
      else a @ b)"

definition joinURLPath :: "(go_url \<Rightarrow> string) \<Rightarrow> go_url \<Rightarrow> go_url \<Rightarrow> string \<times> string" where
  "joinURLPath escaped a b =
     (if url_RawPath a = [] \<and> url_RawPath b = []
      then (joining_slash (has_suffix_slash (url_Path a)) (has_prefix_slash (url_Path b))
              (url_Path a) (url_Path b), [])
      else
        (let apath = escaped a; bpath = escaped b;
             aslash = has_suffix_slash apath; bslash = has_prefix_slash bpath
         in (joining_slash aslash bslash (url_Path a) (url_Path b),
             joining_slash aslash bslash apath bpath)))"

definition SetURL :: "(go_url \<Rightarrow> string) \<Rightarrow> go_url \<Rightarrow> proxy_request \<Rightarrow> proxy_request" where
  "SetURL escaped target out =
     (let u = pr_URL out; (path, raw) = joinURLPath escaped target u;
          query = (if url_RawQuery target = [] \<or> url_RawQuery u = []
                   then url_RawQuery target @ url_RawQuery u
                   else url_RawQuery target @ ''&'' @ url_RawQuery u)
      in out\<lparr>pr_URL := \<lparr>url_Scheme = url_Scheme target, url_Host = url_Host target,
               url_Path = path, url_RawPath = raw, url_RawQuery = query\<rparr>, pr_Host := []\<rparr>)"

section \<open>bufio.Scanner over lines\<close>

text \<open>
  \<open>ScanLines\<close> drops the line ends, and an empty last line; a line of 64 KiB or more does not fit the
  scanner's buffer and ends the scan.
\<close>

definition MaxScanTokenSize :: nat where "MaxScanTokenSize = 64 * 1024"

definition dropCR :: "string \<Rightarrow> string" where
  "dropCR l = (if l \<noteq> [] \<and> last l = CHR 0x0D then butlast l else l)"

definition scan_lines :: "string \<Rightarrow> string list" where
  "scan_lines s =
     (let ls = split_on CHR 0x0A s;
          ls' = (if last ls = [] then butlast ls else ls)
      in map dropCR (takeWhile (\<lambda>l. length l < MaxScanTokenSize) ls'))"

section \<open>Rewrite and ModifyResponse\<close>

definition rewrite_body :: "string \<Rightarrow> string" where
  "rewrite_body body = concat (map (\<lambda>b. replaceAll b native_gv polyfill_gv) (scan_lines body))"

text \<open>The incoming request and its clone \<open>Out\<close> are equal when \<open>Rewrite\<close> starts.\<close>

definition Rewrite :: "(go_url \<Rightarrow> string) \<Rightarrow> go_url \<Rightarrow> proxy_request \<Rightarrow> proxy_request" where
  "Rewrite escaped u req =
     (let out = SetURL escaped u req in
      if \<not> contains (url_Path (pr_URL req)) native_gv then out
      else
        out\<lparr>pr_Body := rewrite_body (pr_Body req),
            pr_URL := (pr_URL out)\<lparr>
              url_Path := replaceAll (url_Path (pr_URL out)) native_gv polyfill_gv,
              url_RawPath := replaceAll (url_RawPath (pr_URL out)) native_gv polyfill_gv\<rparr>,
            pr_Header := (pr_Header out)(''Accept'' \<mapsto> ''application/json''),
            pr_ContentLength := - 1\<rparr>)"

definition ModifyResponse :: "(int \<Rightarrow> string) \<Rightarrow> proxy_response \<Rightarrow> go_error option \<times> proxy_response" where
  "ModifyResponse itoa response =
     (if \<not> contains (rs_RequestPath response) polyfill_gv then (None, response)
      else
        (let b = replaceAll (rs_Body response) polyfill_gv native_gv;
             n = int (length b)
         in (rs_ReadErr response,
             response\<lparr>rs_Body := b, rs_ContentLength := n,
                      rs_Header := (rs_Header response)(''Content-Length'' \<mapsto> itoa n)\<rparr>)))"

section \<open>Replacing back and forth\<close>

text \<open>No proper part of the pattern is both a prefix and a suffix of it.\<close>

definition unbordered :: "string \<Rightarrow> bool" where
  "unbordered w = (\<forall>i \<in> {1..<length w}. take i w \<noteq> drop (length w - i) w)"

lemma unborderedD:
  assumes "unbordered w" and "w = u @ p" "prefix p w" "u \<noteq> []" "p \<noteq> []"
  shows False
proof -
  from assms(2-5) have i: "length p \<in> {1..<length w}" by (auto simp: Suc_le_eq)
  from assms(3) have "take (length p) w = p" by (auto simp: prefix_def)
  moreover from assms(2) have "drop (length w - length p) w = p" by simp
  ultimately show False using assms(1) i unfolding unbordered_def by metis
qed

text \<open>A prefix of a replaced string is a prefix of the original or runs into an insertion.\<close>

lemma replaceAll_miss:
  "\<not> prefix (o1 # os) (x # xs) \<Longrightarrow>
   replaceAll (x # xs) (o1 # os) new = x # replaceAll xs (o1 # os) new"
  by (simp only: replaceAll.simps if_False)

lemma prefix_replaceAll:
  assumes "old \<noteq> []" and "prefix p (replaceAll s old new)"
  shows "prefix p s \<or>
    (\<exists>u q. p = u @ q \<and> q \<noteq> [] \<and> (prefix q new \<or> prefix new q) \<and> (u = [] \<longrightarrow> prefix old s))"
  using assms
proof (induction s old new arbitrary: p rule: replaceAll.induct)
  case (3 x xs o1 os new)
  show ?case
  proof (cases "prefix (o1 # os) (x # xs)")
    case True
    with 3(4) have "prefix p (new @ replaceAll (drop (length os) xs) (o1 # os) new)" by simp
    then have "prefix p new \<or> prefix new p" by (auto simp: prefix_append)
    with True show ?thesis by (cases "p = []") auto
  next
    case False
    show ?thesis
    proof (cases p)
      case (Cons y p1)
      with 3(4) replaceAll_miss [OF False] have "y = x" and p1: "prefix p1 (replaceAll xs (o1 # os) new)" by simp_all
      from 3(2) [OF False _ p1] consider "prefix p1 xs"
        | u q where "p1 = u @ q" "q \<noteq> []" "prefix q new \<or> prefix new q" by auto
      then show ?thesis
      proof cases
        case 1
        then show ?thesis using Cons \<open>y = x\<close> by simp
      next
        case 2
        then show ?thesis using Cons by (intro disjI2 exI [of _ "y # u"] exI [of _ q]) simp
      qed
    qed simp
  qed
qed simp_all

lemma replaceAll_new_not_prefix:
  assumes "old \<noteq> []" "new \<noteq> []" "unbordered new" "\<not> sublist new s" "\<not> prefix old s"
  shows "\<not> prefix new (replaceAll s old new)"
proof
  assume "prefix new (replaceAll s old new)"
  from prefix_replaceAll [OF assms(1) this] assms(4,5) obtain u q
    where uq: "new = u @ q" "q \<noteq> []" "prefix q new \<or> prefix new q" "u \<noteq> []"
    by (auto dest: prefix_imp_sublist)
  then have "prefix q new" using prefix_length_le [of new q] by fastforce
  with uq show False by (rule_tac unborderedD [OF assms(3)])
qed

lemma replaceAll_back:
  assumes "old \<noteq> []" "new \<noteq> []" "unbordered new" "\<not> sublist new s"
  shows "replaceAll (replaceAll s old new) new old = s"
  using assms
proof (induction s old new rule: replaceAll.induct)
  case (2 o1 os new)
  then show ?case by (cases new) simp_all
next
  case (3 x xs o1 os new)
  then obtain n1 ns where new: "new = n1 # ns" by (cases new) auto
  show ?case
  proof (cases "prefix (o1 # os) (x # xs)")
    case True
    then obtain rest where xs: "x = o1" "xs = os @ rest" by (auto simp: prefix_def)
    have "\<not> sublist new rest"
    proof
      assume "sublist new rest"
      then obtain a b where "rest = a @ new @ b" by (auto simp: sublist_def)
      then have "x # xs = (x # os @ a) @ new @ b" using xs by simp
      then show False using 3(6) unfolding sublist_def by blast
    qed
    with 3(1) [OF True] 3(3-5) xs have "replaceAll (replaceAll rest (o1 # os) new) new (o1 # os) = rest"
      by simp
    with True xs new show ?thesis by simp
  next
    case False
    have "\<not> sublist new xs" using 3(6) by (simp add: sublist_Cons_right)
    with 3(2) [OF False] 3(3-5) have
      IH: "replaceAll (replaceAll xs (o1 # os) new) new (o1 # os) = xs" by simp
    have "\<not> prefix new (replaceAll (x # xs) (o1 # os) new)"
      by (rule replaceAll_new_not_prefix) (use 3(3-6) False in auto)
    with IH show ?thesis unfolding replaceAll_miss [OF False] new
      by (simp only: replaceAll.simps if_False)
  qed
qed simp

lemma contains_replaceAll:
  assumes "old \<noteq> []" and "sublist old s"
  shows "sublist new (replaceAll s old new)"
  using assms
proof (induction s old new rule: replaceAll.induct)
  case (3 x xs o1 os new)
  show ?case
  proof (cases "prefix (o1 # os) (x # xs)")
    case True
    then show ?thesis by (auto intro: prefix_imp_sublist)
  next
    case False
    with 3(4) have "sublist (o1 # os) xs" unfolding sublist_Cons_right by blast
    with 3(2) [OF False] show ?thesis
      by (simp only: replaceAll_miss [OF False]) (simp add: sublist_Cons_right)
  qed
qed simp_all

lemma sublist_joining_slash:
  assumes "sublist w b" and "w \<noteq> []" and "hd w \<noteq> CHR ''/''" and "bslash \<Longrightarrow> b \<noteq> [] \<and> hd b = CHR ''/''"
  shows "sublist w (joining_slash aslash bslash a b)"
proof -
  have "sublist w (tl b)" if bslash
  proof -
    from assms(4) [OF that] obtain c where "b = CHR ''/'' # c" by (cases b) auto
    moreover have "\<not> prefix w b" using assms(2,3) calculation by (cases w) auto
    ultimately show ?thesis using assms(1) by (auto simp: sublist_Cons_right)
  qed
  moreover have "sublist w (c @ d)" if "sublist w d" for c d
    using that by (metis sublist_append_leftI sublist_order.order_trans)
  ultimately show ?thesis
    using assms(1) by (auto simp: joining_slash_def sublist_Cons_right)
qed

section \<open>One-line bodies\<close>

lemma scan_one_line:
  assumes "CHR 0x0A \<notin> set s" and "s \<noteq> []" and "last s \<noteq> CHR 0x0D" and "length s < MaxScanTokenSize"
  shows "scan_lines s = [s]"
  using assms by (simp add: scan_lines_def split_on_no_sep dropCR_def)

lemma rewrite_one_line:
  assumes "CHR 0x0A \<notin> set s" and "s \<noteq> []" and "last s \<noteq> CHR 0x0D" and "length s < MaxScanTokenSize"
  shows "rewrite_body s = replaceAll s native_gv polyfill_gv"
  by (simp add: rewrite_body_def scan_one_line [OF assms])

lemma gv_facts:
  "native_gv \<noteq> []" "polyfill_gv \<noteq> []" "hd native_gv \<noteq> CHR ''/''" "unbordered polyfill_gv"
proof -
  show "unbordered polyfill_gv" unfolding unbordered_def polyfill_gv_def by code_simp
qed (simp_all add: native_gv_def polyfill_gv_def)

lemma SetURL_path:
  assumes "sublist native_gv (url_Path (pr_URL req))"
    and raw: "url_RawPath (pr_URL req) = []" "url_RawPath u = []"
  shows "sublist native_gv (url_Path (pr_URL (SetURL escaped u req)))"
  using sublist_joining_slash [OF assms(1) gv_facts(1,3)] raw
  by (simp add: SetURL_def joinURLPath_def Let_def has_prefix_slash_def)

section \<open>Properties\<close>

text \<open>
  (C21) For a request to the native policy API whose path is not escaped and whose body is one non-empty
  line of less than 64 KiB that has no carriage return at its end and does not itself name the polyfill API: the
  forwarded path names the polyfill API, and a response that echoes the forwarded body comes back with the body
  as it was sent, since the translation of the response then undoes the translation of the request, and with the matching
  content length. Longer bodies are lost, and bodies of several lines are joined.
\<close>

theorem interceptor_echo_roundtrip:
  assumes "contains (url_Path (pr_URL req)) native_gv"
    and "url_RawPath (pr_URL req) = []" "url_RawPath u = []"
    and "CHR 0x0A \<notin> set (pr_Body req)" "pr_Body req \<noteq> []" "last (pr_Body req) \<noteq> CHR 0x0D"
    and "length (pr_Body req) < MaxScanTokenSize" and "\<not> contains (pr_Body req) polyfill_gv"
    and "rs_RequestPath resp = url_Path (pr_URL (Rewrite escaped u req))"
    and "rs_Body resp = pr_Body (Rewrite escaped u req)"
  shows "contains (rs_RequestPath resp) polyfill_gv \<and>
    rs_Body (snd (ModifyResponse itoa resp)) = pr_Body req \<and>
    rs_ContentLength (snd (ModifyResponse itoa resp)) = int (length (pr_Body req))"
proof -
  have path: "url_Path (pr_URL (Rewrite escaped u req)) =
      replaceAll (url_Path (pr_URL (SetURL escaped u req))) native_gv polyfill_gv"
    using assms(1) by (simp add: Rewrite_def Let_def)
  have "sublist native_gv (url_Path (pr_URL (SetURL escaped u req)))"
    using assms(1-3) by (intro SetURL_path) (simp_all add: contains_sublist)
  then have c: "contains (rs_RequestPath resp) polyfill_gv"
    by (simp add: assms(9) path contains_sublist contains_replaceAll gv_facts)
  have "rs_Body resp = replaceAll (pr_Body req) native_gv polyfill_gv"
    using assms(1,4-7,10) by (simp add: Rewrite_def Let_def rewrite_one_line)
  then have "replaceAll (rs_Body resp) polyfill_gv native_gv = pr_Body req"
    using assms(8) by (simp add: replaceAll_back gv_facts contains_sublist)
  with c show ?thesis by (simp add: ModifyResponse_def Let_def)
qed

text \<open>
  (C33) A body whose first line has 64 KiB or more is lost: the scanner stops at once and the
  request is forwarded with an empty body.
\<close>

theorem interceptor_drops_long_lines:
  assumes "contains (url_Path (pr_URL req)) native_gv"
    and "pr_Body req = line @ rest" and "CHR 0x0A \<notin> set line" and "MaxScanTokenSize \<le> length line"
  shows "pr_Body (Rewrite escaped u req) = []"
proof -
  obtain l ls where l: "split_on CHR 0x0A (line @ rest) = (line @ l) # ls"
    using assms(3)
  proof (induction line arbitrary: thesis)
    case Nil
    then show ?case by (cases "split_on CHR 0x0A rest") auto
  next
    case (Cons c line)
    from Cons.prems(2) Cons.IH obtain l ls where "split_on CHR 0x0A (line @ rest) = (line @ l) # ls"
      by auto
    then show ?case using Cons.prems by auto
  qed
  have "scan_lines (pr_Body req) = []"
    using assms(4) by (simp add: scan_lines_def assms(2) l Let_def MaxScanTokenSize_def)
  then show ?thesis using assms(1) by (simp add: Rewrite_def Let_def rewrite_body_def)
qed

text \<open>
  Line ends are not forwarded: the body sent on is the concatenation of the translated lines.
\<close>

theorem interceptor_joins_lines:
  assumes "contains (url_Path (pr_URL req)) native_gv"
    and "pr_Body req = l1 @ CHR 0x0A # l2"
    and "CHR 0x0A \<notin> set l1" "CHR 0x0A \<notin> set l2" "l2 \<noteq> []"
    and "last (CHR 0x0A # l1) \<noteq> CHR 0x0D" "last l2 \<noteq> CHR 0x0D"
    and "length l1 < MaxScanTokenSize" "length l2 < MaxScanTokenSize"
  shows "pr_Body (Rewrite escaped u req) =
           replaceAll l1 native_gv polyfill_gv @ replaceAll l2 native_gv polyfill_gv"
proof -
  have "dropCR l1 = l1" using assms(6) by (cases l1) (simp_all add: dropCR_def)
  then have "scan_lines (pr_Body req) = [l1, l2]"
    using assms(3-5,7-9)
    by (simp add: scan_lines_def assms(2) split_on_sep split_on_no_sep dropCR_def)
  then show ?thesis using assms(1) by (simp add: Rewrite_def Let_def rewrite_body_def)
qed

section \<open>Instances\<close>

definition ex_url :: "string \<Rightarrow> go_url" where
  "ex_url p = \<lparr>url_Scheme = ''https'', url_Host = ''h'', url_Path = p, url_RawPath = [], url_RawQuery = []\<rparr>"

definition ex_req :: "string \<Rightarrow> proxy_request" where
  "ex_req body = \<lparr>pr_URL = ex_url (''/apis/'' @ native_gv), pr_Host = ''h'', pr_Header = Map.empty,
     pr_Body = body, pr_ContentLength = int (length body)\<rparr>"

definition ex_body :: string where "ex_body = ''apiVersion: '' @ native_gv @ '';''"

definition ex_resp :: proxy_response where
  "ex_resp = \<lparr>rs_RequestPath = url_Path (pr_URL (Rewrite url_Path (ex_url ''/'') (ex_req ex_body))),
     rs_Header = Map.empty, rs_Body = pr_Body (Rewrite url_Path (ex_url ''/'') (ex_req ex_body)),
     rs_ReadErr = None, rs_ContentLength = 0\<rparr>"

lemma ex_req_path: "contains (url_Path (pr_URL (ex_req body))) native_gv"
  by (simp add: ex_req_def ex_url_def native_gv_def)

theorem interceptor_echo_roundtrip_witness:
  "rs_Body (snd (ModifyResponse (\<lambda>_. []) ex_resp)) = ex_body"
proof -
  have "\<not> contains ex_body polyfill_gv"
    by (simp add: ex_body_def native_gv_def polyfill_gv_def)
  then show ?thesis
    using interceptor_echo_roundtrip [OF ex_req_path [of ex_body], of "ex_url ''/''" ex_resp url_Path "\<lambda>_. []"]
    by (simp add: ex_req_def ex_url_def ex_resp_def) (simp add: ex_body_def native_gv_def MaxScanTokenSize_def)
qed

theorem interceptor_drops_long_lines_witness:
  "pr_Body (Rewrite url_Path (ex_url ''/'') (ex_req (replicate 65536 CHR ''x''))) = []"
proof (rule interceptor_drops_long_lines [OF ex_req_path, where rest = "[]"])
  show "pr_Body (ex_req (replicate 65536 CHR ''x'')) = replicate 65536 CHR ''x'' @ []"
    by (simp only: ex_req_def proxy_request.select_convs append_Nil2)
  show "CHR 0x0A \<notin> set (replicate 65536 CHR ''x'')"
    by (simp only: in_set_replicate) auto
  show "MaxScanTokenSize \<le> length (replicate 65536 CHR ''x'')"
    by (simp only: length_replicate MaxScanTokenSize_def)
qed

theorem interceptor_joins_lines_witness:
  "pr_Body (Rewrite url_Path (ex_url ''/'') (ex_req (''a: 1'' @ CHR 0x0A # ''b: 2''))) = ''a: 1b: 2''"
  using interceptor_joins_lines [OF ex_req_path, of "''a: 1'' @ CHR 0x0A # ''b: 2''" "''a: 1''" "''b: 2''"
    url_Path "ex_url ''/''"]
  by (simp add: ex_req_def MaxScanTokenSize_def native_gv_def)

end
