(* ===== verification/Interceptor_Command.thy ===== *)
theory Interceptor_Command
  imports Interceptor
begin

text \<open>
  The command \<open>cmd/interceptor\<close> around its rewriting proxy: how it finds its client configuration,
  what of it becomes the connection to the API server, and where it gives up. The files, the
  environment, the URL and PEM parsers and the TLS listener are parameters;
  \<open>rest.Config.TransportConfig\<close> and \<open>rest.InClusterConfig\<close> are those of the vendored client-go.
\<close>

section \<open>Client configurations\<close>

record tls_data =
  tls_Insecure :: bool
  tls_ServerName :: string
  tls_CAFile :: string
  tls_CAData :: string
  tls_CertFile :: string
  tls_CertData :: string
  tls_KeyFile :: string
  tls_KeyData :: string

definition no_tls :: tls_data where
  "no_tls = \<lparr>tls_Insecure = False, tls_ServerName = [], tls_CAFile = [], tls_CAData = [],
     tls_CertFile = [], tls_CertData = [], tls_KeyFile = [], tls_KeyData = []\<rparr>"

record ('exec, 'auth) rest_config =
  rcf_Host :: string
  rcf_Username :: string
  rcf_Password :: string
  rcf_BearerToken :: string
  rcf_BearerTokenFile :: string
  rcf_ExecProvider :: "'exec option"
  rcf_AuthProvider :: "'auth option"
  rcf_TLS :: tls_data

record transport_config =
  tr_Username :: string
  tr_Password :: string
  tr_BearerToken :: string
  tr_BearerTokenFile :: string
  tr_TLS :: tls_data
  tr_wrappers :: nat

text \<open>The libraries: plugins for credentials, the system, the parsers, the listener.\<close>

record ('exec, 'auth, 'pool, 'cert) proxy_lib =
  lib_exec_Update :: "'exec \<Rightarrow> transport_config \<Rightarrow> go_error + transport_config"
  lib_GetAuthProvider :: "string \<Rightarrow> 'auth \<Rightarrow> go_error + unit"
  lib_kubeConfig :: "go_error + ('exec, 'auth) rest_config"
  lib_Getenv :: "string \<Rightarrow> string"
  lib_ReadFile :: "string \<Rightarrow> go_error + string"
  lib_NewPool :: "string \<Rightarrow> go_error + unit"
  lib_url_Parse :: "string \<Rightarrow> go_error + go_url"
  lib_CertsFromPEM :: "string \<Rightarrow> 'pool"
  lib_X509KeyPair :: "string \<Rightarrow> string \<Rightarrow> go_error + 'cert"

text \<open>\<open>TransportConfig\<close>; the call may run an external command, whose effects are not modelled.\<close>

definition TransportConfig ::
  "('exec, 'auth, 'pool, 'cert) proxy_lib \<Rightarrow> ('exec, 'auth) rest_config \<Rightarrow> go_error + transport_config" where
  "TransportConfig lib c =
     (let conf = \<lparr>tr_Username = rcf_Username c, tr_Password = rcf_Password c,
            tr_BearerToken = rcf_BearerToken c, tr_BearerTokenFile = rcf_BearerTokenFile c,
            tr_TLS = rcf_TLS c, tr_wrappers = 0\<rparr> in
      if rcf_ExecProvider c \<noteq> None \<and> rcf_AuthProvider c \<noteq> None
      then Inl (Plain ''execProvider and authProvider cannot be used in combination'')
      else
        (case (case rcf_ExecProvider c of None \<Rightarrow> Inr conf | Some e \<Rightarrow> lib_exec_Update lib e conf) of
           Inl err \<Rightarrow> Inl err
         | Inr conf \<Rightarrow>
             (case rcf_AuthProvider c of
                None \<Rightarrow> Inr conf
              | Some p \<Rightarrow>
                  (case lib_GetAuthProvider lib (rcf_Host c) p of
                     Inl err \<Rightarrow> Inl err
                   | Inr provider \<Rightarrow> Inr (conf\<lparr>tr_wrappers := tr_wrappers conf + 1\<rparr>)))))"

definition tokenFile :: string where
  "tokenFile = ''/var/run/secrets/kubernetes.io/serviceaccount/token''"

definition rootCAFile :: string where
  "rootCAFile = ''/var/run/secrets/kubernetes.io/serviceaccount/ca.crt''"

definition ErrNotInCluster :: go_error where
  "ErrNotInCluster = Plain ''unable to load in-cluster configuration, KUBERNETES_SERVICE_HOST and KUBERNETES_SERVICE_PORT must be defined''"

definition JoinHostPort :: "string \<Rightarrow> string \<Rightarrow> string" where
  "JoinHostPort host port =
     (if CHR '':'' \<in> set host then ''['' @ host @ '']:'' @ port else host @ '':'' @ port)"

definition proxy_InClusterConfig ::
  "('exec, 'auth, 'pool, 'cert) proxy_lib \<Rightarrow> go_error + ('exec, 'auth) rest_config" where
  "proxy_InClusterConfig lib =
     (let host = lib_Getenv lib ''KUBERNETES_SERVICE_HOST''; port = lib_Getenv lib ''KUBERNETES_SERVICE_PORT'' in
      if host = [] \<or> port = [] then Inl ErrNotInCluster
      else
        (case lib_ReadFile lib tokenFile of
           Inl err \<Rightarrow> Inl err
         | Inr token \<Rightarrow>
             Inr \<lparr>rcf_Host = ''https://'' @ JoinHostPort host port, rcf_Username = [], rcf_Password = [],
               rcf_BearerToken = token, rcf_BearerTokenFile = tokenFile,
               rcf_ExecProvider = None, rcf_AuthProvider = None,
               rcf_TLS = (case lib_NewPool lib rootCAFile of
                            Inl err \<Rightarrow> no_tls
                          | Inr pool \<Rightarrow> no_tls\<lparr>tls_CAFile := rootCAFile\<rparr>)\<rparr>))"

definition proxy_loadClientConfig ::
  "('exec, 'auth, 'pool, 'cert) proxy_lib \<Rightarrow> go_error + ('exec, 'auth) rest_config" where
  "proxy_loadClientConfig lib =
     (case lib_kubeConfig lib of Inr config \<Rightarrow> Inr config | Inl err \<Rightarrow> proxy_InClusterConfig lib)"

section \<open>The server\<close>

text \<open>What the reverse proxy connects to, and with which root and client certificates.\<close>

record ('pool, 'cert) upstream =
  up_target :: go_url
  up_RootCAs :: "'pool option"
  up_Certificates :: "'cert list"

datatype 'a go_outcome = Returned 'a | NilPointerPanic

text \<open>
  \<open>listen\<close> is \<open>ListenAndServeTLS\<close> with the proxy as its handler: it returns, always with an error,
  when it stops serving.
\<close>

type_synonym ('pool, 'cert, 'w) listener =
  "string \<Rightarrow> string \<Rightarrow> string \<Rightarrow> ('pool, 'cert) upstream \<Rightarrow> 'w \<Rightarrow> go_error \<times> 'w"

definition runServer ::
  "('exec, 'auth, 'pool, 'cert) proxy_lib \<Rightarrow> ('pool, 'cert, 'w) listener
   \<Rightarrow> string \<Rightarrow> string \<Rightarrow> string \<Rightarrow> 'w \<Rightarrow> go_error option go_outcome \<times> 'w" where
  "runServer lib listen certFile keyFile addr w =
     (case proxy_loadClientConfig lib of
        Inl err \<Rightarrow> (Returned (Some err), w)
      | Inr config \<Rightarrow>
     (let t0 = TransportConfig lib config in
      case lib_url_Parse lib (rcf_Host config) of
        Inl err \<Rightarrow> (Returned (Some err), w)
      | Inr u \<Rightarrow>
     (case t0 of
        Inl ignored \<Rightarrow> (NilPointerPanic, w)
      | Inr t \<Rightarrow>
     (let tls = tr_TLS t;
          up = \<lparr>up_target = u,
             up_RootCAs = (if length (tls_CAData tls) > 0 then Some (lib_CertsFromPEM lib (tls_CAData tls)) else None),
             up_Certificates = []\<rparr>;
          serve = (\<lambda>up. case listen addr certFile keyFile up w of (err, w') \<Rightarrow> (Returned (Some err), w')) in
      if length (tls_CertData tls) > 0 \<and> length (tls_KeyData tls) > 0
      then
        (case lib_X509KeyPair lib (tls_CertData tls) (tls_KeyData tls) of
           Inl err \<Rightarrow> (Returned (Some err), w)
         | Inr cert \<Rightarrow> serve (up\<lparr>up_Certificates := [cert]\<rparr>))
      else serve up))))"

text \<open>\<open>main\<close> with the values of its flags: the exit code and what is printed; a panic exits with 2.\<close>

record interceptor_flags =
  if_cert :: string
  if_key :: string
  if_addr :: string

definition default_interceptor_flags :: interceptor_flags where
  "default_interceptor_flags = \<lparr>if_cert = ''server.pem'', if_key = ''server-key.pem'', if_addr = ''0.0.0.0:8443''\<rparr>"

definition interceptor_main ::
  "('exec, 'auth, 'pool, 'cert) proxy_lib \<Rightarrow> ('pool, 'cert, 'w) listener \<Rightarrow> interceptor_flags \<Rightarrow> 'w
   \<Rightarrow> (int \<times> string list) \<times> 'w" where
  "interceptor_main lib listen flags w =
     (case runServer lib listen (if_cert flags) (if_key flags) (if_addr flags) w of
        (Returned (Some err), w') \<Rightarrow> ((1, [error_text err]), w')
      | (Returned None, w') \<Rightarrow> ((0, []), w')
      | (NilPointerPanic, w') \<Rightarrow> ((2, [''panic: runtime error: invalid memory address or nil pointer dereference'']), w'))"

section \<open>What is served\<close>

lemma in_cluster_transport:
  assumes "lib_Getenv lib ''KUBERNETES_SERVICE_HOST'' = host" "host \<noteq> []"
    and "lib_Getenv lib ''KUBERNETES_SERVICE_PORT'' = port" "port \<noteq> []"
    and "lib_ReadFile lib tokenFile = Inr token"
  shows "\<exists>config t. proxy_InClusterConfig lib = Inr config \<and> rcf_Host config = ''https://'' @ JoinHostPort host port \<and>
    TransportConfig lib config = Inr t \<and> tls_CAData (tr_TLS t) = [] \<and> tls_CertData (tr_TLS t) = []"
  using assms
  by (auto simp: proxy_InClusterConfig_def TransportConfig_def Let_def no_tls_def split: if_splits sum.splits)

section \<open>Properties\<close>

text \<open>
  (C40) The command never exits with success, and it crashes, instead of reporting an error, exactly when
  its configuration loads, the host of it parses and the credentials of it cannot be set up: the
  error of \<open>TransportConfig\<close> is dropped and its nil result read.
\<close>

theorem interceptor_crashes_on_bad_credentials:
  "(case interceptor_main lib listen flags w of ((code, out), w') \<Rightarrow>
      length out = 1 \<and>
      (if \<exists>config u err. proxy_loadClientConfig lib = Inr config \<and> lib_url_Parse lib (rcf_Host config) = Inr u \<and>
             TransportConfig lib config = Inl err
       then code = 2 \<and> w' = w else code = 1))"
  by (auto simp: interceptor_main_def runServer_def Let_def split: prod.splits sum.splits if_splits
      go_outcome.splits option.splits)

text \<open>
  With the configuration of its pod, used when there is no kubeconfig, the proxy connects to the
  API server without the root certificates and without the credentials of the service account:
  whatever the token and the root CA file, it serves with no root certificate and no
  client certificate of its own, since both are only taken from the inline data of a configuration.
\<close>

theorem in_cluster_proxy_is_anonymous:
  assumes "lib_kubeConfig lib = Inl e"
    and "lib_Getenv lib ''KUBERNETES_SERVICE_HOST'' = host" "host \<noteq> []"
    and "lib_Getenv lib ''KUBERNETES_SERVICE_PORT'' = port" "port \<noteq> []"
    and "lib_ReadFile lib tokenFile = Inr token"
    and "lib_url_Parse lib (''https://'' @ JoinHostPort host port) = Inr u"
  shows "runServer lib listen certFile keyFile addr w =
    (case listen addr certFile keyFile \<lparr>up_target = u, up_RootCAs = None, up_Certificates = []\<rparr> w of
       (err, w') \<Rightarrow> (Returned (Some err), w'))"
proof -
  from in_cluster_transport [OF assms(2-6)] obtain config t where
    "proxy_InClusterConfig lib = Inr config" "rcf_Host config = ''https://'' @ JoinHostPort host port"
    "TransportConfig lib config = Inr t" "tls_CAData (tr_TLS t) = []" "tls_CertData (tr_TLS t) = []" by blast
  with assms(1,7) show ?thesis by (simp add: runServer_def proxy_loadClientConfig_def Let_def)
qed

section \<open>Instances\<close>

definition ex_pod :: "(unit, unit, string, string) proxy_lib" where
  "ex_pod = \<lparr>lib_exec_Update = (\<lambda>e c. Inr c), lib_GetAuthProvider = (\<lambda>h a. Inr ()),
     lib_kubeConfig = Inl (Plain ''no configuration''),
     lib_Getenv = (\<lambda>v. if v = ''KUBERNETES_SERVICE_HOST'' then ''::1'' else ''443''),
     lib_ReadFile = (\<lambda>f. Inr ''token''), lib_NewPool = (\<lambda>f. Inr ()),
     lib_url_Parse = (\<lambda>s. Inr \<lparr>url_Scheme = ''https'', url_Host = drop 8 s, url_Path = [], url_RawPath = [],
        url_RawQuery = []\<rparr>),
     lib_CertsFromPEM = id, lib_X509KeyPair = (\<lambda>c k. Inr c)\<rparr>"

theorem in_cluster_proxy_is_anonymous_witness:
  "runServer ex_pod (\<lambda>addr c k up w. (Plain (url_Host (up_target up)), w + 1)) ''c'' ''k'' ''a'' (0 :: nat) =
     (Returned (Some (Plain ''[::1]:443'')), 1)"
  by (subst in_cluster_proxy_is_anonymous
      [of ex_pod "Plain ''no configuration''" "''::1''" "''443''" "''token''"
        "\<lparr>url_Scheme = ''https'', url_Host = ''[::1]:443'', url_Path = [], url_RawPath = [], url_RawQuery = []\<rparr>"])
    (simp_all add: ex_pod_def JoinHostPort_def)

end
