(* ===== verification/Pki.thy ===== *)
theory Pki
  imports Prelude "HOL-Library.Word"
begin

unbundle bit_operations_syntax

text \<open>
  The certificate generator of \<open>pkg/pki\<close>. The cryptographic primitives of Go's standard library (key generation, random bytes, signing, parsing
  and PEM encoding) are a parameter; each may fail.
\<close>

section \<open>Certificates\<close>

type_synonym bytes = "8 word list"

text \<open>The fields of \<open>x509.Certificate\<close> the program sets or reads; times in nanoseconds.\<close>

record certificate =
  ce_Raw :: bytes
  ce_SerialNumber :: int
  ce_CommonName :: string
  ce_NotBefore :: int
  ce_NotAfter :: int
  ce_KeyUsage :: "64 word"
  ce_ExtKeyUsage :: "string list"
  ce_BasicConstraintsValid :: bool
  ce_IsCA :: bool
  ce_DNSNames :: "string list"
  ce_PermittedDNSDomainsCritical :: bool
  ce_PermittedDNSDomains :: "string list"

definition KeyUsageDigitalSignature :: "64 word" where "KeyUsageDigitalSignature = push_bit 0 1"
definition KeyUsageKeyEncipherment :: "64 word" where "KeyUsageKeyEncipherment = push_bit 2 1"
definition KeyUsageCertSign :: "64 word" where "KeyUsageCertSign = push_bit 5 1"

text \<open>The standard library, over a world \<open>'w\<close> that holds the clock and the random source.\<close>

record ('pub, 'priv, 'w) crypto =
  cr_GenerateKey :: "'w \<Rightarrow> (go_error + 'pub \<times> 'priv) \<times> 'w"
  cr_Read :: "nat \<Rightarrow> 'w \<Rightarrow> (go_error + bytes) \<times> 'w"
  cr_Now :: "'w \<Rightarrow> int"
  cr_CreateCertificate ::
    "certificate \<Rightarrow> certificate \<Rightarrow> 'pub \<Rightarrow> 'priv \<Rightarrow> 'w \<Rightarrow> (go_error + bytes) \<times> 'w"
  cr_ParseCertificate :: "bytes \<Rightarrow> go_error + certificate"
  cr_MarshalPKCS8 :: "'priv \<Rightarrow> go_error + bytes"
  cr_PemEncode :: "string \<Rightarrow> bytes \<Rightarrow> bytes"

record 'priv certificateKeyPair =
  kp_PrivateKeyPem :: bytes
  kp_CertificatePem :: bytes
  kp_Certificate :: certificate
  kp_PrivateKey :: 'priv

record caConfig =
  ca_CommonName :: string
  ca_PermittedDNSDomains :: "string list"
  ca_Expiry :: int

definition hour :: int where "hour = 3600 * 1000000000"
definition minute :: int where "minute = 60 * 1000000000"
definition DefaultExpiry :: int where "DefaultExpiry = 365 * 24 * hour"

section \<open>cert.go\<close>

text \<open>\<open>big.Int.SetBytes\<close>: big-endian.\<close>

definition SetBytes :: "bytes \<Rightarrow> int" where
  "SetBytes b = foldl (\<lambda>n x. n * 256 + uint x) 0 b"

definition serialNumber ::
  "('pub, 'priv, 'w) crypto \<Rightarrow> 'w \<Rightarrow> (go_error + int) \<times> 'w" where
  "serialNumber cr w =
     (case cr_Read cr 20 w of
        (Inl err, w') \<Rightarrow> (Inl err, w')
      | (Inr b, w') \<Rightarrow> (Inr (SetBytes (b[0 := (b ! 0) AND 0x7F])), w'))"

definition populateTemplate ::
  "('pub, 'priv, 'w) crypto \<Rightarrow> string \<Rightarrow> int \<Rightarrow> 'w \<Rightarrow> (go_error + certificate) \<times> 'w" where
  "populateTemplate cr commonName expiry0 w =
     (let expiry = (if expiry0 = 0 then DefaultExpiry else expiry0) in
      case serialNumber cr w of
        (Inl err, w') \<Rightarrow> (Inl err, w')
      | (Inr sn, w') \<Rightarrow>
          (let now = cr_Now cr w' in
           (Inr \<lparr>ce_Raw = [], ce_SerialNumber = sn, ce_CommonName = commonName,
              ce_NotBefore = now + (- 5 * minute), ce_NotAfter = now + expiry,
              ce_KeyUsage = KeyUsageKeyEncipherment OR KeyUsageDigitalSignature,
              ce_ExtKeyUsage = [], ce_BasicConstraintsValid = True, ce_IsCA = False,
              ce_DNSNames = [], ce_PermittedDNSDomainsCritical = False,
              ce_PermittedDNSDomains = []\<rparr>, w')))"

definition encodeKeyPair ::
  "('pub, 'priv, 'w) crypto \<Rightarrow> certificate \<Rightarrow> 'priv \<Rightarrow> go_error + bytes \<times> bytes" where
  "encodeKeyPair cr cert priv =
     (case cr_MarshalPKCS8 cr priv of
        Inl err \<Rightarrow> Inl err
      | Inr privDer \<Rightarrow>
          Inr (cr_PemEncode cr ''CERTIFICATE'' (ce_Raw cert),
               cr_PemEncode cr ''PRIVATE KEY'' privDer))"

text \<open>The common end of both functions: sign, parse back, encode.\<close>

definition issue ::
  "('pub, 'priv, 'w) crypto \<Rightarrow> certificate \<Rightarrow> certificate \<Rightarrow> 'pub \<Rightarrow> 'priv \<Rightarrow> 'priv \<Rightarrow> 'w
   \<Rightarrow> (go_error + 'priv certificateKeyPair) \<times> 'w" where
  "issue cr template parent pub signer priv w =
     (case cr_CreateCertificate cr template parent pub signer w of
        (Inl err, w') \<Rightarrow> (Inl err, w')
      | (Inr certDer, w') \<Rightarrow>
          (case cr_ParseCertificate cr certDer of
             Inl err \<Rightarrow> (Inl err, w')
           | Inr cert \<Rightarrow>
               (case encodeKeyPair cr cert priv of
                  Inl err \<Rightarrow> (Inl err, w')
                | Inr (certPem, privPem) \<Rightarrow>
                    (Inr \<lparr>kp_PrivateKeyPem = privPem, kp_CertificatePem = certPem,
                       kp_Certificate = cert, kp_PrivateKey = priv\<rparr>, w'))))"

definition CreateCertificate ::
  "('pub, 'priv, 'w) crypto \<Rightarrow> 'priv certificateKeyPair \<Rightarrow> string \<Rightarrow> int \<Rightarrow> 'w
   \<Rightarrow> (go_error + 'priv certificateKeyPair) \<times> 'w" where
  "CreateCertificate cr c hostName expiry w =
     (case cr_GenerateKey cr w of
        (Inl err, w1) \<Rightarrow> (Inl err, w1)
      | (Inr (pub, priv), w1) \<Rightarrow>
          (case populateTemplate cr hostName expiry w1 of
             (Inl err, w2) \<Rightarrow> (Inl err, w2)
           | (Inr template, w2) \<Rightarrow>
               issue cr (template\<lparr>ce_DNSNames := [hostName],
                   ce_ExtKeyUsage := [''ClientAuth'', ''ServerAuth'']\<rparr>)
                 (kp_Certificate c) pub (kp_PrivateKey c) priv w2))"

section \<open>ca.go and pool.go\<close>

definition ca_template :: "caConfig \<Rightarrow> certificate \<Rightarrow> certificate" where
  "ca_template config t =
     (let t1 = t\<lparr>ce_IsCA := True, ce_KeyUsage := ce_KeyUsage t OR KeyUsageCertSign\<rparr> in
      if length (ca_PermittedDNSDomains config) > 0
      then t1\<lparr>ce_PermittedDNSDomainsCritical := True,
              ce_PermittedDNSDomains := ca_PermittedDNSDomains config\<rparr>
      else t1)"

definition GenerateCA ::
  "('pub, 'priv, 'w) crypto \<Rightarrow> caConfig \<Rightarrow> 'w \<Rightarrow> (go_error + 'priv certificateKeyPair) \<times> 'w" where
  "GenerateCA cr config w =
     (case cr_GenerateKey cr w of
        (Inl err, w1) \<Rightarrow> (Inl err, w1)
      | (Inr (pub, priv), w1) \<Rightarrow>
          (case populateTemplate cr (ca_CommonName config) (ca_Expiry config) w1 of
             (Inl err, w2) \<Rightarrow> (Inl err, w2)
           | (Inr template, w2) \<Rightarrow>
               (let t = ca_template config template in issue cr t t pub priv priv w2)))"

definition NewCertPoolFromCA :: "certificate \<Rightarrow> certificate list" where
  "NewCertPoolFromCA ca = [ca]"

section \<open>Serial numbers\<close>

lemma foldl_bytes:
  "foldl (\<lambda>n x. n * 256 + uint x) a b = a * 256 ^ length b + foldl (\<lambda>n x. n * 256 + uint x) 0 b"
  for b :: bytes
proof (induction b arbitrary: a)
  case (Cons x b)
  show ?case
    by (subst foldl_Cons, subst Cons.IH, subst foldl_Cons, subst (2) Cons.IH)
       (simp add: algebra_simps)
qed simp

lemma SetBytes_Cons: "SetBytes (x # b) = uint x * 256 ^ length b + SetBytes b"
  using foldl_bytes [of "uint x" b] by (simp add: SetBytes_def)

lemma SetBytes_bounds: "0 \<le> SetBytes b \<and> SetBytes b < 256 ^ length b"
proof (induction b)
  case Nil
  then show ?case by (simp add: SetBytes_def)
next
  case (Cons x b)
  define p :: int where "p = 256 ^ length b"
  have "uint x \<le> 255" using uint_bounded [of x] by simp
  then have "uint x * p \<le> 255 * p" by (intro mult_right_mono) (simp_all add: p_def)
  moreover have "0 \<le> uint x * p" by (simp add: p_def)
  moreover have "0 \<le> SetBytes b" "SetBytes b < p" using Cons by (simp_all add: p_def)
  ultimately have "0 \<le> uint x * p + SetBytes b \<and> uint x * p + SetBytes b < 256 * p" by linarith
  then show ?case by (simp add: SetBytes_Cons p_def)
qed

lemma masked_byte: "uint (x AND 0x7F) < 128" for x :: "8 word"
proof -
  have "(127 :: 8 word) = mask 7" by (simp add: mask_eq_exp_minus_1)
  then have "x AND 127 = take_bit 7 x" by (simp add: take_bit_eq_mask)
  then have "uint (x AND 127) = take_bit 7 (uint x)" by (simp add: unsigned_take_bit_eq)
  then show ?thesis using take_bit_int_less_exp [of 7 "uint x"] by simp
qed

lemma serial_bounds:
  assumes "length b = 20"
  shows "0 \<le> SetBytes (b[0 := (b ! 0) AND 0x7F]) \<and> SetBytes (b[0 := (b ! 0) AND 0x7F]) < 2 ^ 159"
proof -
  from assms obtain x xs where b: "b = x # xs" "length xs = 19" by (cases b) auto
  have "uint (x AND 0x7F) * 256 ^ 19 \<le> 127 * 256 ^ 19"
    using masked_byte [of x] by (intro mult_right_mono) simp_all
  with SetBytes_bounds [of xs] b show ?thesis by (simp add: SetBytes_Cons)
qed

section \<open>What the standard library promises\<close>

text \<open>A successful read fills the buffer.\<close>

definition reads_full :: "('pub, 'priv, 'w) crypto \<Rightarrow> bool" where
  "reads_full cr = (\<forall>n w b w'. cr_Read cr n w = (Inr b, w') \<longrightarrow> length b = n)"

text \<open>A certificate that was created from a template and parsed back has the template's fields.\<close>

definition same_fields :: "certificate \<Rightarrow> certificate \<Rightarrow> bool" where
  "same_fields c t =
     (ce_SerialNumber c = ce_SerialNumber t \<and> ce_CommonName c = ce_CommonName t \<and>
      ce_KeyUsage c = ce_KeyUsage t \<and> ce_ExtKeyUsage c = ce_ExtKeyUsage t \<and>
      ce_BasicConstraintsValid c = ce_BasicConstraintsValid t \<and> ce_IsCA c = ce_IsCA t \<and>
      ce_DNSNames c = ce_DNSNames t \<and>
      ce_PermittedDNSDomainsCritical c = ce_PermittedDNSDomainsCritical t \<and>
      ce_PermittedDNSDomains c = ce_PermittedDNSDomains t)"

definition parses_created :: "('pub, 'priv, 'w) crypto \<Rightarrow> bool" where
  "parses_created cr =
     (\<forall>t p pub k w der w' c. cr_CreateCertificate cr t p pub k w = (Inr der, w') \<longrightarrow>
        cr_ParseCertificate cr der = Inr c \<longrightarrow> same_fields c t)"

lemma populateTemplate_fields:
  assumes "populateTemplate cr cn expiry w = (Inr t, w')"
  shows "ce_CommonName t = cn" "ce_IsCA t = False" "ce_BasicConstraintsValid t"
    "ce_KeyUsage t = KeyUsageKeyEncipherment OR KeyUsageDigitalSignature"
    "ce_NotBefore t < ce_NotAfter t \<longleftrightarrow> - 5 * minute < (if expiry = 0 then DefaultExpiry else expiry)"
    "ce_PermittedDNSDomains t = []" "\<not> ce_PermittedDNSDomainsCritical t"
    "\<exists>w0. serialNumber cr w0 = (Inr (ce_SerialNumber t), w')"
  using assms by (auto simp: populateTemplate_def Let_def split: prod.splits sum.splits)

lemma issue_pair:
  assumes "parses_created cr" and "issue cr t parent pub signer priv w = (Inr kp, w')"
  shows "same_fields (kp_Certificate kp) t" "kp_PrivateKey kp = priv"
    "encodeKeyPair cr (kp_Certificate kp) priv = Inr (kp_CertificatePem kp, kp_PrivateKeyPem kp)"
  using assms
  by (auto simp: issue_def parses_created_def split: prod.splits sum.splits) blast

lemma serialNumber_ok:
  "reads_full cr \<Longrightarrow> serialNumber cr w = (Inr sn, w') \<Longrightarrow> 0 \<le> sn \<and> sn < 2 ^ 159"
  using serial_bounds by (fastforce simp: serialNumber_def reads_full_def split: prod.splits sum.splits)

text \<open>What the two generators make.\<close>

lemma GenerateCA_facts:
  assumes "parses_created cr" and "reads_full cr" and "GenerateCA cr config w = (Inr kp, w')"
  shows "ce_IsCA (kp_Certificate kp) \<and>
    ce_KeyUsage (kp_Certificate kp) AND KeyUsageCertSign = KeyUsageCertSign \<and>
    ce_CommonName (kp_Certificate kp) = ca_CommonName config \<and>
    ce_SerialNumber (kp_Certificate kp) \<in> {0..<2 ^ 159} \<and>
    (ce_PermittedDNSDomainsCritical (kp_Certificate kp) \<longleftrightarrow> ca_PermittedDNSDomains config \<noteq> []) \<and>
    ce_PermittedDNSDomains (kp_Certificate kp) = ca_PermittedDNSDomains config \<and>
    encodeKeyPair cr (kp_Certificate kp) (kp_PrivateKey kp) =
      Inr (kp_CertificatePem kp, kp_PrivateKeyPem kp)"
proof -
  from assms(3) obtain pub priv t w1 w2
    where t: "populateTemplate cr (ca_CommonName config) (ca_Expiry config) w1 = (Inr t, w2)"
      and i: "issue cr (ca_template config t) (ca_template config t) pub priv priv w2 = (Inr kp, w')"
    by (auto simp: GenerateCA_def Let_def split: prod.splits sum.splits)
  note f = populateTemplate_fields [OF t]
  from f(8) serialNumber_ok [OF assms(2)] have sn: "0 \<le> ce_SerialNumber t \<and> ce_SerialNumber t < 2 ^ 159"
    by blast
  have "(k OR KeyUsageCertSign) AND KeyUsageCertSign = KeyUsageCertSign" for k
    by (auto simp: bit_eq_iff bit_and_iff bit_or_iff)
  then show ?thesis
    using issue_pair [OF assms(1) i] f(1,6,7) sn
    by (auto simp: same_fields_def ca_template_def Let_def split: if_splits)
qed

lemma CreateCertificate_facts:
  assumes "parses_created cr" and "reads_full cr"
    and "CreateCertificate cr c hostName expiry w = (Inr kp, w')"
  shows "\<not> ce_IsCA (kp_Certificate kp) \<and>
    ce_KeyUsage (kp_Certificate kp) AND KeyUsageCertSign = 0 \<and>
    ce_DNSNames (kp_Certificate kp) = [hostName] \<and>
    ce_ExtKeyUsage (kp_Certificate kp) = [''ClientAuth'', ''ServerAuth''] \<and>
    ce_CommonName (kp_Certificate kp) = hostName \<and>
    ce_SerialNumber (kp_Certificate kp) \<in> {0..<2 ^ 159}"
proof -
  from assms(3) obtain pub priv t w1 w2
    where t: "populateTemplate cr hostName expiry w1 = (Inr t, w2)"
      and i: "issue cr (t\<lparr>ce_DNSNames := [hostName], ce_ExtKeyUsage := [''ClientAuth'', ''ServerAuth'']\<rparr>)
                (kp_Certificate c) pub (kp_PrivateKey c) priv w2 = (Inr kp, w')"
    by (auto simp: CreateCertificate_def split: prod.splits sum.splits)
  note f = populateTemplate_fields [OF t]
  from f(8) serialNumber_ok [OF assms(2)] have sn: "0 \<le> ce_SerialNumber t \<and> ce_SerialNumber t < 2 ^ 159"
    by blast
  have "(KeyUsageKeyEncipherment OR KeyUsageDigitalSignature) AND KeyUsageCertSign = 0"
    by (simp add: KeyUsageKeyEncipherment_def KeyUsageDigitalSignature_def KeyUsageCertSign_def)
  then show ?thesis
    using issue_pair(1) [OF assms(1) i] f(1,2,4) sn by (auto simp: same_fields_def)
qed

text \<open>Who signed a certificate, and a view of the world that the cryptographic calls leave alone.\<close>

definition signed_by :: "('pub, 'priv, 'w) crypto \<Rightarrow> 'priv certificateKeyPair \<Rightarrow> certificate \<Rightarrow> bool" where
  "signed_by cr ca c \<longleftrightarrow>
     (\<exists>t pub w der w'. cr_CreateCertificate cr t (kp_Certificate ca) pub (kp_PrivateKey ca) w = (Inr der, w') \<and>
        cr_ParseCertificate cr der = Inr c)"

lemma CreateCertificate_signed:
  assumes "CreateCertificate cr c hostName expiry w = (Inr kp, w')"
  shows "signed_by cr c (kp_Certificate kp)"
proof -
  from assms obtain pub priv t w1 w2
    where "issue cr (t\<lparr>ce_DNSNames := [hostName], ce_ExtKeyUsage := [''ClientAuth'', ''ServerAuth'']\<rparr>)
                (kp_Certificate c) pub (kp_PrivateKey c) priv w2 = (Inr kp, w')"
    by (auto simp: CreateCertificate_def split: prod.splits sum.splits)
  then obtain u der where
      "cr_CreateCertificate cr u (kp_Certificate c) pub (kp_PrivateKey c) w2 = (Inr der, w')"
      "cr_ParseCertificate cr der = Inr (kp_Certificate kp)"
    by (auto simp: issue_def split: prod.splits sum.splits)
  then show ?thesis unfolding signed_by_def by blast
qed

definition crypto_keeps :: "('pub, 'priv, 'w) crypto \<Rightarrow> ('w \<Rightarrow> 'v) \<Rightarrow> bool" where
  "crypto_keeps cr view \<longleftrightarrow>
     (\<forall>w. view (snd (cr_GenerateKey cr w)) = view w) \<and> (\<forall>n w. view (snd (cr_Read cr n w)) = view w) \<and>
     (\<forall>t p pub k w. view (snd (cr_CreateCertificate cr t p pub k w)) = view w)"

lemma crypto_keepsD:
  assumes "crypto_keeps cr view"
  shows "cr_GenerateKey cr w = (r, w') \<Longrightarrow> view w' = view w"
    and "cr_Read cr n w = (r2, w') \<Longrightarrow> view w' = view w"
    and "cr_CreateCertificate cr t p pub k w = (r3, w') \<Longrightarrow> view w' = view w"
  using assms by (metis crypto_keeps_def snd_conv)+

lemma populateTemplate_keeps:
  assumes "crypto_keeps cr view" and "populateTemplate cr cn expiry w = (r, w')"
  shows "view w' = view w"
  using assms(2) crypto_keepsD(2) [OF assms(1)]
  by (auto simp: populateTemplate_def serialNumber_def Let_def split: prod.splits sum.splits)

lemma issue_keeps:
  assumes "crypto_keeps cr view" and "issue cr template parent pub signer priv w = (r, w')"
  shows "view w' = view w"
  using assms(2) crypto_keepsD(3) [OF assms(1)]
  by (auto simp: issue_def split: prod.splits sum.splits)

lemma generators_keep:
  assumes "crypto_keeps cr view"
  shows "GenerateCA cr config w = (r, w') \<Longrightarrow> view w' = view w"
    and "CreateCertificate cr c hostName expiry w = (r', w') \<Longrightarrow> view w' = view w"
proof -
  note keep = crypto_keepsD(1) [OF assms] populateTemplate_keeps [OF assms] issue_keeps [OF assms]
  show "GenerateCA cr config w = (r, w') \<Longrightarrow> view w' = view w"
    by (auto simp: GenerateCA_def Let_def split: prod.splits sum.splits) (metis keep)+
  show "CreateCertificate cr c hostName expiry w = (r', w') \<Longrightarrow> view w' = view w"
    by (auto simp: CreateCertificate_def split: prod.splits sum.splits) (metis keep)+
qed

section \<open>Properties\<close>

text \<open>
  A serial number is non-negative and fits 20 bytes with its sign bit clear: it is below
  \<open>2 ^ 159\<close>, whatever the random source delivers.
\<close>

theorem serialNumber_bounds:
  assumes "reads_full cr" and "serialNumber cr w = (Inr sn, w')"
  shows "0 \<le> sn \<and> sn < 2 ^ 159"
  using assms by (rule serialNumber_ok)

text \<open>
  A generated CA is one: it is marked as such, may sign certificates, carries the configured
  name and a valid serial number, and constrains DNS names, critically, exactly when the
  configuration lists some; its PEM blocks encode this certificate and its own key.
\<close>

theorem GenerateCA_is_CA:
  assumes "parses_created cr" and "reads_full cr" and "GenerateCA cr config w = (Inr kp, w')"
  shows "ce_IsCA (kp_Certificate kp) \<and>
    ce_KeyUsage (kp_Certificate kp) AND KeyUsageCertSign = KeyUsageCertSign \<and>
    ce_CommonName (kp_Certificate kp) = ca_CommonName config \<and>
    ce_SerialNumber (kp_Certificate kp) \<in> {0..<2 ^ 159} \<and>
    (ce_PermittedDNSDomainsCritical (kp_Certificate kp) \<longleftrightarrow> ca_PermittedDNSDomains config \<noteq> []) \<and>
    ce_PermittedDNSDomains (kp_Certificate kp) = ca_PermittedDNSDomains config \<and>
    encodeKeyPair cr (kp_Certificate kp) (kp_PrivateKey kp) =
      Inr (kp_CertificatePem kp, kp_PrivateKeyPem kp)"
  using assms by (rule GenerateCA_facts)

text \<open>
  A serving certificate issued by a key pair is for the given host name only, may be used by
  clients and servers, is not itself a CA and may not sign certificates.
\<close>

theorem CreateCertificate_is_leaf:
  assumes "parses_created cr" and "reads_full cr"
    and "CreateCertificate cr c hostName expiry w = (Inr kp, w')"
  shows "\<not> ce_IsCA (kp_Certificate kp) \<and>
    ce_KeyUsage (kp_Certificate kp) AND KeyUsageCertSign = 0 \<and>
    ce_DNSNames (kp_Certificate kp) = [hostName] \<and>
    ce_ExtKeyUsage (kp_Certificate kp) = [''ClientAuth'', ''ServerAuth''] \<and>
    ce_CommonName (kp_Certificate kp) = hostName \<and>
    ce_SerialNumber (kp_Certificate kp) \<in> {0..<2 ^ 159}"
  using assms by (rule CreateCertificate_facts)

section \<open>Instances\<close>

text \<open>A library that keeps its certificates in the clear and draws the byte \<open>255\<close> for ever.\<close>

definition ex_cert :: certificate where
  "ex_cert = \<lparr>ce_Raw = [], ce_SerialNumber = 0, ce_CommonName = [], ce_NotBefore = 0, ce_NotAfter = 0,
     ce_KeyUsage = 0, ce_ExtKeyUsage = [], ce_BasicConstraintsValid = False, ce_IsCA = False,
     ce_DNSNames = [], ce_PermittedDNSDomainsCritical = False, ce_PermittedDNSDomains = []\<rparr>"

text \<open>It signs only the one template its DER bytes stand for.\<close>

definition ex_crypto :: "certificate \<Rightarrow> (unit, unit, unit) crypto" where
  "ex_crypto only =
     \<lparr>cr_GenerateKey = (\<lambda>w. (Inr ((), ()), w)), cr_Read = (\<lambda>n w. (Inr (replicate n 255), w)),
      cr_Now = (\<lambda>w. 0),
      cr_CreateCertificate = (\<lambda>t p pub k w. if t = only then (Inr [1], w) else (Inl (Plain []), w)),
      cr_ParseCertificate = (\<lambda>der. Inr only), cr_MarshalPKCS8 = (\<lambda>k. Inr [2]),
      cr_PemEncode = (\<lambda>ty b. b)\<rparr>"

lemma ex_crypto_ok: "reads_full (ex_crypto c)" "parses_created (ex_crypto c)"
  by (auto simp: ex_crypto_def reads_full_def parses_created_def same_fields_def split: if_splits)

definition ex_sn :: int where "ex_sn = SetBytes ((replicate 20 255)[0 := 255 AND 0x7F])"

definition ex_template :: "string \<Rightarrow> certificate" where
  "ex_template cn = \<lparr>ce_Raw = [], ce_SerialNumber = ex_sn, ce_CommonName = cn,
     ce_NotBefore = - 5 * minute, ce_NotAfter = DefaultExpiry,
     ce_KeyUsage = KeyUsageKeyEncipherment OR KeyUsageDigitalSignature, ce_ExtKeyUsage = [],
     ce_BasicConstraintsValid = True, ce_IsCA = False, ce_DNSNames = [],
     ce_PermittedDNSDomainsCritical = False, ce_PermittedDNSDomains = []\<rparr>"

lemma ex_populate: "populateTemplate (ex_crypto c) cn 0 () = (Inr (ex_template cn), ())"
  by (simp add: populateTemplate_def serialNumber_def ex_crypto_def ex_template_def ex_sn_def Let_def)

lemma ex_issue:
  "cr_GenerateKey (ex_crypto t) () = (Inr ((), ()), ())"
  "issue (ex_crypto t) t parent () () () () =
     (Inr \<lparr>kp_PrivateKeyPem = [2], kp_CertificatePem = ce_Raw t, kp_Certificate = t, kp_PrivateKey = ()\<rparr>, ())"
  by (simp_all add: issue_def encodeKeyPair_def ex_crypto_def)

definition ex_config :: caConfig where
  "ex_config = \<lparr>ca_CommonName = ''ca'', ca_PermittedDNSDomains = [''example.com''], ca_Expiry = 0\<rparr>"

theorem serialNumber_bounds_witness: "0 \<le> ex_sn \<and> ex_sn < 2 ^ 159"
  by (rule serialNumber_bounds [OF ex_crypto_ok(1), of "ex_template []" "()" _ "()"])
     (simp add: serialNumber_def ex_crypto_def ex_sn_def)

theorem GenerateCA_is_CA_witness:
  "\<exists>kp. GenerateCA (ex_crypto (ca_template ex_config (ex_template ''ca''))) ex_config () = (Inr kp, ()) \<and>
        ce_IsCA (kp_Certificate kp) \<and> ce_PermittedDNSDomainsCritical (kp_Certificate kp)"
proof -
  let ?cr = "ex_crypto (ca_template ex_config (ex_template ''ca''))"
  obtain kp where kp: "GenerateCA ?cr ex_config () = (Inr kp, ())"
    using ex_populate [of "ca_template ex_config (ex_template ''ca'')" "''ca''"]
      ex_issue [of "ca_template ex_config (ex_template ''ca'')"]
    by (simp add: GenerateCA_def ex_config_def Let_def)
  from GenerateCA_is_CA [OF ex_crypto_ok(2,1) kp] kp show ?thesis by (auto simp: ex_config_def)
qed

theorem CreateCertificate_is_leaf_witness:
  "\<exists>kp. CreateCertificate (ex_crypto ((ex_template ''h'')\<lparr>ce_DNSNames := [''h''],
          ce_ExtKeyUsage := [''ClientAuth'', ''ServerAuth'']\<rparr>))
        \<lparr>kp_PrivateKeyPem = [], kp_CertificatePem = [], kp_Certificate = ex_cert, kp_PrivateKey = ()\<rparr> ''h'' 0 ()
        = (Inr kp, ()) \<and> \<not> ce_IsCA (kp_Certificate kp)"
proof -
  let ?t = "(ex_template ''h'')\<lparr>ce_DNSNames := [''h''], ce_ExtKeyUsage := [''ClientAuth'', ''ServerAuth'']\<rparr>"
  let ?c = "\<lparr>kp_PrivateKeyPem = [], kp_CertificatePem = [], kp_Certificate = ex_cert, kp_PrivateKey = ()\<rparr>"
  obtain kp where kp: "CreateCertificate (ex_crypto ?t) ?c ''h'' 0 () = (Inr kp, ())"
    using ex_populate [of ?t "''h''"] ex_issue [of ?t] by (simp add: CreateCertificate_def)
  from CreateCertificate_is_leaf [OF ex_crypto_ok(2,1) kp] kp show ?thesis by blast
qed

end
