(* ===== verification/Gentls.thy ===== *)
theory Gentls
  imports Pki "HOL-Library.Sublist"
begin

text \<open>
  The command \<open>cmd/gentls\<close>: it makes a CA and a serving certificate and writes three files, and
  reports a failure with exit code 1. Writing files is a parameter.
\<close>

section \<open>The command\<close>

text \<open>\<open>os.WriteFile\<close>, with the permission bits it is given.\<close>

record 'w os_lib =
  os_WriteFile :: "string \<Rightarrow> bytes \<Rightarrow> nat \<Rightarrow> 'w \<Rightarrow> go_error option \<times> 'w"

definition oneYear :: int where
  "oneYear = hour * 24 * 365"

definition generateAndWriteCertificates ::
  "('pub, 'priv, 'w) crypto \<Rightarrow> 'w os_lib \<Rightarrow> string \<Rightarrow> 'w \<Rightarrow> go_error option \<times> 'w" where
  "generateAndWriteCertificates cr os hostName w =
     (case GenerateCA cr \<lparr>ca_CommonName = ''SelfSigned'', ca_PermittedDNSDomains = [], ca_Expiry = 0\<rparr> w of
        (Inl err, w1) \<Rightarrow> (Some err, w1)
      | (Inr ca, w1) \<Rightarrow>
          (case os_WriteFile os ''ca.pem'' (kp_CertificatePem ca) 438 w1 of
             (Some err, w2) \<Rightarrow> (Some err, w2)
           | (None, w2) \<Rightarrow>
               (case CreateCertificate cr ca hostName oneYear w2 of
                  (Inl err, w3) \<Rightarrow> (Some err, w3)
                | (Inr keyPair, w3) \<Rightarrow>
                    (case os_WriteFile os ''server.pem'' (kp_CertificatePem keyPair) 438 w3 of
                       (Some err, w4) \<Rightarrow> (Some err, w4)
                     | (None, w4) \<Rightarrow>
                         os_WriteFile os ''server-key.pem'' (kp_PrivateKeyPem keyPair) 438 w4))))"

text \<open>\<open>main\<close> with the value of its flag: the exit code and what is printed.\<close>

definition default_host :: string where
  "default_host = ''example.com''"

definition gentls_main ::
  "('pub, 'priv, 'w) crypto \<Rightarrow> 'w os_lib \<Rightarrow> string \<Rightarrow> 'w \<Rightarrow> (int \<times> string list) \<times> 'w" where
  "gentls_main cr os hostName w =
     (case generateAndWriteCertificates cr os hostName w of
        (Some err, w') \<Rightarrow> ((1, [error_text err]), w')
      | (None, w') \<Rightarrow> ((0, []), w'))"

section \<open>What is written\<close>

definition gentls_files :: "string list" where
  "gentls_files = [''ca.pem'', ''server.pem'', ''server-key.pem'']"

text \<open>A log of the files written so far; the cryptographic calls write none.\<close>

type_synonym 'w file_log = "'w \<Rightarrow> (string \<times> bytes \<times> nat) list"

definition logs_writes :: "'w os_lib \<Rightarrow> 'w file_log \<Rightarrow> bool" where
  "logs_writes os files \<longleftrightarrow>
     (\<forall>n b p w e w'. os_WriteFile os n b p w = (e, w') \<longrightarrow>
        files w' = (if e = None then files w @ [(n, b, p)] else files w))"

text \<open>What a complete run leaves: a CA, and a certificate for the host that it signed, with its key.\<close>

definition complete_files ::
  "('pub, 'priv, 'w) crypto \<Rightarrow> string \<Rightarrow> (string \<times> bytes \<times> nat) list \<Rightarrow> bool" where
  "complete_files cr hostName fs \<longleftrightarrow>
     (\<exists>(ca :: 'priv certificateKeyPair) (kp :: 'priv certificateKeyPair).
        fs = [(''ca.pem'', kp_CertificatePem ca, 438), (''server.pem'', kp_CertificatePem kp, 438),
          (''server-key.pem'', kp_PrivateKeyPem kp, 438)] \<and>
        ce_IsCA (kp_Certificate ca) \<and> ce_CommonName (kp_Certificate ca) = ''SelfSigned'' \<and>
        signed_by cr ca (kp_Certificate kp) \<and> \<not> ce_IsCA (kp_Certificate kp) \<and>
        ce_DNSNames (kp_Certificate kp) = [hostName] \<and>
        encodeKeyPair cr (kp_Certificate kp) (kp_PrivateKey kp) = Inr (kp_CertificatePem kp, kp_PrivateKeyPem kp))"

lemma complete_names: "complete_files cr hostName fs \<Longrightarrow> map fst fs = gentls_files"
  by (auto simp: complete_files_def gentls_files_def)

lemma CreateCertificate_pem:
  "parses_created cr \<Longrightarrow> CreateCertificate cr c hostName expiry w = (Inr kp, w') \<Longrightarrow>
     encodeKeyPair cr (kp_Certificate kp) (kp_PrivateKey kp) = Inr (kp_CertificatePem kp, kp_PrivateKeyPem kp)"
  by (auto simp: CreateCertificate_def split: prod.splits sum.splits) (metis issue_pair(2,3))

lemma generate_writes:
  assumes lib: "crypto_keeps cr files" "logs_writes os files" "parses_created cr" "reads_full cr"
    and run: "generateAndWriteCertificates cr os hostName w = (err, w')"
  shows "\<exists>fs. files w' = files w @ fs \<and>
    (if err = None then complete_files cr hostName fs else strict_prefix (map fst fs) gentls_files)"
proof -
  let ?config = "\<lparr>ca_CommonName = ''SelfSigned'', ca_PermittedDNSDomains = [], ca_Expiry = 0\<rparr>"
  have log: "files v' = (if e = None then files v @ [(n, b, p)] else files v)"
    if "os_WriteFile os n b p v = (e, v')" for n b p v e v'
    using lib(2) that by (simp add: logs_writes_def)
  obtain r1 w1 where ca: "GenerateCA cr ?config w = (r1, w1)" by fastforce
  note w1 = generators_keep(1) [OF lib(1) ca]
  show ?thesis
  proof (cases r1)
    case (Inl e)
    then show ?thesis using run ca w1 by (auto simp: generateAndWriteCertificates_def gentls_files_def)
  next
    case (Inr ca')
    obtain e2 w2 where f1: "os_WriteFile os ''ca.pem'' (kp_CertificatePem ca') 438 w1 = (e2, w2)" by fastforce
    obtain r3 w3 where kp: "CreateCertificate cr ca' hostName oneYear w2 = (r3, w3)" by fastforce
    note w3 = generators_keep(2) [OF lib(1) kp]
    show ?thesis
    proof (cases "e2 = None \<and> (\<exists>kp. r3 = Inr kp)")
      case False
      then show ?thesis
        using run ca Inr f1 kp log [OF f1] w1 w3
        by (cases e2; cases r3) (auto simp: generateAndWriteCertificates_def gentls_files_def)
    next
      case True
      then obtain kp' where kp': "r3 = Inr kp'" and e2: "e2 = None" by blast
      obtain e4 w4 where f2: "os_WriteFile os ''server.pem'' (kp_CertificatePem kp') 438 w3 = (e4, w4)" by fastforce
      obtain e5 w5 where f3: "os_WriteFile os ''server-key.pem'' (kp_PrivateKeyPem kp') 438 w4 = (e5, w5)" by fastforce
      note C = GenerateCA_facts [OF lib(3,4) ca [unfolded Inr]]
        CreateCertificate_facts [OF lib(3,4) kp [unfolded kp']]
        CreateCertificate_signed [OF kp [unfolded kp']] CreateCertificate_pem [OF lib(3) kp [unfolded kp']]
      have "complete_files cr hostName [(''ca.pem'', kp_CertificatePem ca', 438),
          (''server.pem'', kp_CertificatePem kp', 438), (''server-key.pem'', kp_PrivateKeyPem kp', 438)]"
        unfolding complete_files_def using C by (intro exI [of _ ca'] exI [of _ kp']) simp
      then show ?thesis
        using run ca Inr f1 kp kp' e2 f2 f3 log [OF f1] log [OF f2] log [OF f3] w1 w3
        by (cases e4; cases e5) (auto simp: generateAndWriteCertificates_def gentls_files_def)
    qed
  qed
qed

section \<open>Properties\<close>

text \<open>
  (C35) The exit code of \<open>gentls\<close> says whether its output is complete. With code 0 it has written the
  certificate of a CA, a certificate for the host that this CA signed, and the key of
  that certificate, in this order; with code 1, after printing the error, it has written a proper
  initial part of these files and no other.
\<close>

theorem gentls_exit_code:
  assumes "crypto_keeps cr files" "logs_writes os files" "parses_created cr" "reads_full cr"
    and "gentls_main cr os hostName w = ((code, out), w')"
  shows "\<exists>fs. files w' = files w @ fs \<and>
    (code = 0 \<and> out = [] \<and> complete_files cr hostName fs \<or>
     code = 1 \<and> length out = 1 \<and> strict_prefix (map fst fs) gentls_files)"
proof -
  obtain err v where g: "generateAndWriteCertificates cr os hostName w = (err, v)" by fastforce
  from generate_writes [OF assms(1-4) this] assms(5) g show ?thesis
    by (cases err) (auto simp: gentls_main_def)
qed

section \<open>Instances\<close>

text \<open>A library whose world is the list of files written, and which signs two templates.\<close>

definition ex_ca_template :: certificate where
  "ex_ca_template = ca_template \<lparr>ca_CommonName = ''SelfSigned'', ca_PermittedDNSDomains = [], ca_Expiry = 0\<rparr>
     (ex_template ''SelfSigned'')"

definition ex_leaf_template :: certificate where
  "ex_leaf_template = (ex_template ''h'')\<lparr>ce_DNSNames := [''h''], ce_ExtKeyUsage := [''ClientAuth'', ''ServerAuth'']\<rparr>"

definition ex_lib :: "(unit, unit, (string \<times> bytes \<times> nat) list) crypto" where
  "ex_lib =
     \<lparr>cr_GenerateKey = (\<lambda>w. (Inr ((), ()), w)), cr_Read = (\<lambda>n w. (Inr (replicate n 255), w)),
      cr_Now = (\<lambda>w. 0),
      cr_CreateCertificate = (\<lambda>t p pub k w.
        if t = ex_ca_template then (Inr [1], w)
        else if t = ex_leaf_template then (Inr [2], w) else (Inl (Plain []), w)),
      cr_ParseCertificate = (\<lambda>der. Inr (if der = [1] then ex_ca_template else ex_leaf_template)),
      cr_MarshalPKCS8 = (\<lambda>k. Inr [3]), cr_PemEncode = (\<lambda>ty b. b)\<rparr>"

text \<open>A disk that takes the files a predicate allows.\<close>

definition ex_disk :: "(string \<Rightarrow> bool) \<Rightarrow> (string \<times> bytes \<times> nat) list os_lib" where
  "ex_disk ok = \<lparr>os_WriteFile = (\<lambda>n b p w. if ok n then (None, w @ [(n, b, p)]) else (Some (Plain ''full''), w))\<rparr>"

lemma ex_lib_ok:
  "crypto_keeps ex_lib (\<lambda>w. w)" "logs_writes (ex_disk ok) (\<lambda>w. w)" "parses_created ex_lib" "reads_full ex_lib"
  by (auto simp: crypto_keeps_def logs_writes_def parses_created_def reads_full_def same_fields_def ex_lib_def
      ex_disk_def split: if_splits)

lemma ex_templates_differ: "ex_leaf_template \<noteq> ex_ca_template"
  by (simp add: ex_leaf_template_def ex_ca_template_def ca_template_def ex_template_def)

lemma ex_lib_populate: "populateTemplate ex_lib cn 0 w = (Inr (ex_template cn), w)"
  "populateTemplate ex_lib cn oneYear w = (Inr (ex_template cn), w)"
  by (simp_all add: populateTemplate_def serialNumber_def ex_lib_def ex_template_def ex_sn_def Let_def
      oneYear_def DefaultExpiry_def hour_def)

lemma ex_lib_issue:
  "issue ex_lib ex_ca_template parent () () () w =
     (Inr \<lparr>kp_PrivateKeyPem = [3], kp_CertificatePem = [], kp_Certificate = ex_ca_template, kp_PrivateKey = ()\<rparr>, w)"
  "issue ex_lib ex_leaf_template parent () () () w =
     (Inr \<lparr>kp_PrivateKeyPem = [3], kp_CertificatePem = [], kp_Certificate = ex_leaf_template, kp_PrivateKey = ()\<rparr>, w)"
  using ex_templates_differ
  by (simp_all add: issue_def encodeKeyPair_def ex_lib_def)
    (simp_all add: ex_ca_template_def ex_leaf_template_def ca_template_def ex_template_def)

lemma ex_gentls_runs:
  "gentls_main ex_lib (ex_disk (\<lambda>n. True)) ''h'' [] =
     ((0, []), [(''ca.pem'', [], 438), (''server.pem'', [], 438), (''server-key.pem'', [3], 438)])"
  "gentls_main ex_lib (ex_disk (\<lambda>n. n = ''ca.pem'')) ''h'' [] = ((1, [''full'']), [(''ca.pem'', [], 438)])"
proof -
  have k: "cr_GenerateKey ex_lib w = (Inr ((), ()), w)" for w
    by (simp add: ex_lib_def)
  have d: "os_WriteFile (ex_disk ok) n b p w = (if ok n then (None, w @ [(n, b, p)]) else (Some (Plain ''full''), w))"
    for ok n b p w by (simp add: ex_disk_def)
  show "gentls_main ex_lib (ex_disk (\<lambda>n. True)) ''h'' [] =
     ((0, []), [(''ca.pem'', [], 438), (''server.pem'', [], 438), (''server-key.pem'', [3], 438)])"
    and "gentls_main ex_lib (ex_disk (\<lambda>n. n = ''ca.pem'')) ''h'' [] = ((1, [''full'']), [(''ca.pem'', [], 438)])"
    using ex_lib_issue
    by (simp_all add: gentls_main_def generateAndWriteCertificates_def GenerateCA_def CreateCertificate_def k
        d ex_lib_populate flip: ex_ca_template_def ex_leaf_template_def)
qed

theorem gentls_exit_code_witness:
  "(\<exists>fs. fs = [(''ca.pem'', [], 438), (''server.pem'', [], 438), (''server-key.pem'', [3], 438)] \<and>
     complete_files ex_lib ''h'' fs) \<and>
   strict_prefix [''ca.pem''] gentls_files"
  using gentls_exit_code [OF ex_lib_ok ex_gentls_runs(1)] gentls_exit_code [OF ex_lib_ok ex_gentls_runs(2)]
  by simp

end
