(* ===== verification/Informer_Factory.thy ===== *)
theory Informer_Factory
  imports Lister
begin

text \<open>
  The generated shared informer factory (\<open>pkg/generated/informers/externalversions\<close>): one informer per
  object type, created on demand, each started at most once. Every method runs under the factory's
  lock and is one function; goroutines are tracked by the wait group, here the list of running
  informers.
\<close>

section \<open>The factory\<close>

record ('ty, 'inf, 'c, 'tw) sharedInformerFactory =
  f_client :: 'c
  f_namespace :: string
  f_tweakListOptions :: "'tw option"
  f_defaultResync :: int
  f_customResync :: "'ty \<rightharpoonup> int"
  f_informers :: "'ty \<rightharpoonup> 'inf"
  f_startedInformers :: "'ty \<rightharpoonup> bool"
  f_wg :: "('ty \<times> 'inf) list"
  f_shuttingDown :: bool

type_synonym ('ty, 'inf, 'c, 'tw) informer_option =
  "('ty, 'inf, 'c, 'tw) sharedInformerFactory \<Rightarrow> ('ty, 'inf, 'c, 'tw) sharedInformerFactory"

text \<open>Options; the entries of a resync configuration come in the order of the range statement.\<close>

definition WithCustomResyncConfig ::
  "('ob \<Rightarrow> 'ty) \<Rightarrow> ('ob \<times> int) list \<Rightarrow> ('ty, 'inf, 'c, 'tw) informer_option" where
  "WithCustomResyncConfig typeOf resyncConfig f =
     foldl (\<lambda>f (k, v). f\<lparr>f_customResync := (f_customResync f)(typeOf k \<mapsto> v)\<rparr>) f resyncConfig"

definition WithTweakListOptions :: "'tw \<Rightarrow> ('ty, 'inf, 'c, 'tw) informer_option" where
  "WithTweakListOptions tweak f = f\<lparr>f_tweakListOptions := Some tweak\<rparr>"

definition WithNamespace :: "string \<Rightarrow> ('ty, 'inf, 'c, 'tw) informer_option" where
  "WithNamespace namespace f = f\<lparr>f_namespace := namespace\<rparr>"

definition NewSharedInformerFactoryWithOptions ::
  "'c \<Rightarrow> int \<Rightarrow> ('ty, 'inf, 'c, 'tw) informer_option list
   \<Rightarrow> ('ty, 'inf, 'c, 'tw) sharedInformerFactory" where
  "NewSharedInformerFactoryWithOptions client defaultResync options =
     foldl (\<lambda>f opt. opt f)
       \<lparr>f_client = client, f_namespace = [], f_tweakListOptions = None,
        f_defaultResync = defaultResync, f_customResync = Map.empty, f_informers = Map.empty,
        f_startedInformers = Map.empty, f_wg = [], f_shuttingDown = False\<rparr> options"

definition NewSharedInformerFactory ::
  "'c \<Rightarrow> int \<Rightarrow> ('ty, 'inf, 'c, 'tw) sharedInformerFactory" where
  "NewSharedInformerFactory client defaultResync =
     NewSharedInformerFactoryWithOptions client defaultResync []"

definition NewFilteredSharedInformerFactory ::
  "'c \<Rightarrow> int \<Rightarrow> string \<Rightarrow> 'tw \<Rightarrow> ('ty, 'inf, 'c, 'tw) sharedInformerFactory" where
  "NewFilteredSharedInformerFactory client defaultResync namespace tweak =
     NewSharedInformerFactoryWithOptions client defaultResync
       [WithNamespace namespace, WithTweakListOptions tweak]"

definition InformerFor ::
  "'ty \<Rightarrow> ('c \<Rightarrow> int \<Rightarrow> 'inf) \<Rightarrow> ('ty, 'inf, 'c, 'tw) sharedInformerFactory
   \<Rightarrow> 'inf \<times> ('ty, 'inf, 'c, 'tw) sharedInformerFactory" where
  "InformerFor informerType newFunc f =
     (case f_informers f informerType of
        Some informer \<Rightarrow> (informer, f)
      | None \<Rightarrow>
          (let resyncPeriod =
                 (case f_customResync f informerType of Some p \<Rightarrow> p | None \<Rightarrow> f_defaultResync f);
               informer = newFunc (f_client f) resyncPeriod
           in (informer, f\<lparr>f_informers := (f_informers f)(informerType \<mapsto> informer)\<rparr>)))"

definition is_started :: "('ty, 'inf, 'c, 'tw) sharedInformerFactory \<Rightarrow> 'ty \<Rightarrow> bool" where
  "is_started f ty = (f_startedInformers f ty = Some True)"

text \<open>The loop of \<open>Start\<close>, over the registered types in the order of the range statement.\<close>

fun start_loop ::
  "('ty \<times> 'inf) list \<Rightarrow> ('ty, 'inf, 'c, 'tw) sharedInformerFactory
   \<Rightarrow> ('ty, 'inf, 'c, 'tw) sharedInformerFactory" where
  "start_loop [] f = f"
| "start_loop ((informerType, informer) # rest) f =
     start_loop rest
       (if \<not> is_started f informerType
        then f\<lparr>f_wg := f_wg f @ [(informerType, informer)],
               f_startedInformers := (f_startedInformers f)(informerType \<mapsto> True)\<rparr>
        else f)"

definition factory_Start ::
  "('ty \<times> 'inf) list \<Rightarrow> ('ty, 'inf, 'c, 'tw) sharedInformerFactory
   \<Rightarrow> ('ty, 'inf, 'c, 'tw) sharedInformerFactory" where
  "factory_Start order f = (if f_shuttingDown f then f else start_loop order f)"

text \<open>\<open>Shutdown\<close> sets the flag and returns once no goroutine is left.\<close>

definition factory_Shutdown ::
  "('ty, 'inf, 'c, 'tw) sharedInformerFactory \<Rightarrow> ('ty, 'inf, 'c, 'tw) sharedInformerFactory" where
  "factory_Shutdown f = f\<lparr>f_shuttingDown := True\<rparr>"

definition Shutdown_returns :: "('ty, 'inf, 'c, 'tw) sharedInformerFactory \<Rightarrow> bool" where
  "Shutdown_returns f = (f_wg f = [])"

text \<open>\<open>hasSynced\<close> is what \<open>cache.WaitForCacheSync\<close> returns for an informer.\<close>

definition WaitForCacheSync ::
  "('inf \<Rightarrow> bool) \<Rightarrow> ('ty, 'inf, 'c, 'tw) sharedInformerFactory \<Rightarrow> 'ty \<rightharpoonup> bool" where
  "WaitForCacheSync hasSynced f =
     (\<lambda>ty. if is_started f ty then map_option hasSynced (f_informers f ty) else None)"

section \<open>The informers of the two resources\<close>

text \<open>
  \<open>versioned.Interface\<close> as the informers use it: the list and watch calls of the two typed clients.
  A \<open>TweakListOptionsFunc\<close> changes the list options it points to, here a function on them.
\<close>

datatype policy_type = PolicyType | BindingType

record ('o, 'l, 'w) versioned_client =
  policies_List :: "'o \<Rightarrow> 'l"
  policies_Watch :: "'o \<Rightarrow> 'w"
  bindings_List :: "'o \<Rightarrow> 'l"
  bindings_Watch :: "'o \<Rightarrow> 'w"

record ('o, 'l, 'w) sharedIndexInformer =
  si_ListFunc :: "'o \<Rightarrow> 'l"
  si_WatchFunc :: "'o \<Rightarrow> 'w"
  si_type :: policy_type
  si_resync :: int
  si_indexers :: "string list"

type_synonym ('o, 'l, 'w) policy_factory =
  "(policy_type, ('o, 'l, 'w) sharedIndexInformer, ('o, 'l, 'w) versioned_client, 'o \<Rightarrow> 'o)
     sharedInformerFactory"

definition apply_tweak :: "('o \<Rightarrow> 'o) option \<Rightarrow> 'o \<Rightarrow> 'o" where
  "apply_tweak tweak options = (case tweak of None \<Rightarrow> options | Some t \<Rightarrow> t options)"

definition NewFilteredValidatingAdmissionPolicyInformer ::
  "('o, 'l, 'w) versioned_client \<Rightarrow> int \<Rightarrow> string list \<Rightarrow> ('o \<Rightarrow> 'o) option
   \<Rightarrow> ('o, 'l, 'w) sharedIndexInformer" where
  "NewFilteredValidatingAdmissionPolicyInformer client resyncPeriod indexers tweak =
     \<lparr>si_ListFunc = (\<lambda>options. policies_List client (apply_tweak tweak options)),
      si_WatchFunc = (\<lambda>options. policies_Watch client (apply_tweak tweak options)),
      si_type = PolicyType, si_resync = resyncPeriod, si_indexers = indexers\<rparr>"

definition NewValidatingAdmissionPolicyInformer ::
  "('o, 'l, 'w) versioned_client \<Rightarrow> int \<Rightarrow> string list \<Rightarrow> ('o, 'l, 'w) sharedIndexInformer" where
  "NewValidatingAdmissionPolicyInformer client resyncPeriod indexers =
     NewFilteredValidatingAdmissionPolicyInformer client resyncPeriod indexers None"

definition NewFilteredValidatingAdmissionPolicyBindingInformer ::
  "('o, 'l, 'w) versioned_client \<Rightarrow> int \<Rightarrow> string list \<Rightarrow> ('o \<Rightarrow> 'o) option
   \<Rightarrow> ('o, 'l, 'w) sharedIndexInformer" where
  "NewFilteredValidatingAdmissionPolicyBindingInformer client resyncPeriod indexers tweak =
     \<lparr>si_ListFunc = (\<lambda>options. bindings_List client (apply_tweak tweak options)),
      si_WatchFunc = (\<lambda>options. bindings_Watch client (apply_tweak tweak options)),
      si_type = BindingType, si_resync = resyncPeriod, si_indexers = indexers\<rparr>"

definition NewValidatingAdmissionPolicyBindingInformer ::
  "('o, 'l, 'w) versioned_client \<Rightarrow> int \<Rightarrow> string list \<Rightarrow> ('o, 'l, 'w) sharedIndexInformer" where
  "NewValidatingAdmissionPolicyBindingInformer client resyncPeriod indexers =
     NewFilteredValidatingAdmissionPolicyBindingInformer client resyncPeriod indexers None"

text \<open>
  \<open>Admissionregistration().V1alpha1()\<close> hands the factory, its namespace and its tweak on; both
  resources are cluster-wide and their informers take the tweak only. The factory is the state.
\<close>

record 'o informer_group =
  group_namespace :: string
  group_tweakListOptions :: "('o \<Rightarrow> 'o) option"

record 'o informer_version =
  version_namespace :: string
  version_tweakListOptions :: "('o \<Rightarrow> 'o) option"

record 'o resource_informer =
  ri_tweakListOptions :: "('o \<Rightarrow> 'o) option"

definition informer_group_New :: "string \<Rightarrow> ('o \<Rightarrow> 'o) option \<Rightarrow> 'o informer_group" where
  "informer_group_New namespace tweak = \<lparr>group_namespace = namespace, group_tweakListOptions = tweak\<rparr>"

definition Admissionregistration :: "('o, 'l, 'w) policy_factory \<Rightarrow> 'o informer_group" where
  "Admissionregistration f = informer_group_New (f_namespace f) (f_tweakListOptions f)"

definition informer_version_New :: "string \<Rightarrow> ('o \<Rightarrow> 'o) option \<Rightarrow> 'o informer_version" where
  "informer_version_New namespace tweak = \<lparr>version_namespace = namespace, version_tweakListOptions = tweak\<rparr>"

definition group_V1alpha1 :: "'o informer_group \<Rightarrow> 'o informer_version" where
  "group_V1alpha1 g = informer_version_New (group_namespace g) (group_tweakListOptions g)"

definition version_ValidatingAdmissionPolicies :: "'o informer_version \<Rightarrow> 'o resource_informer" where
  "version_ValidatingAdmissionPolicies v = \<lparr>ri_tweakListOptions = version_tweakListOptions v\<rparr>"

definition version_ValidatingAdmissionPolicyBindings :: "'o informer_version \<Rightarrow> 'o resource_informer" where
  "version_ValidatingAdmissionPolicyBindings v = \<lparr>ri_tweakListOptions = version_tweakListOptions v\<rparr>"

definition policy_defaultInformer ::
  "('o \<Rightarrow> 'o) option \<Rightarrow> ('o, 'l, 'w) versioned_client \<Rightarrow> int \<Rightarrow> ('o, 'l, 'w) sharedIndexInformer" where
  "policy_defaultInformer tweak client resyncPeriod =
     NewFilteredValidatingAdmissionPolicyInformer client resyncPeriod [''namespace''] tweak"

definition binding_defaultInformer ::
  "('o \<Rightarrow> 'o) option \<Rightarrow> ('o, 'l, 'w) versioned_client \<Rightarrow> int \<Rightarrow> ('o, 'l, 'w) sharedIndexInformer" where
  "binding_defaultInformer tweak client resyncPeriod =
     NewFilteredValidatingAdmissionPolicyBindingInformer client resyncPeriod [''namespace''] tweak"

definition validatingAdmissionPolicyInformer_Informer ::
  "'o resource_informer \<Rightarrow> ('o, 'l, 'w) policy_factory
   \<Rightarrow> ('o, 'l, 'w) sharedIndexInformer \<times> ('o, 'l, 'w) policy_factory" where
  "validatingAdmissionPolicyInformer_Informer i f =
     InformerFor PolicyType (policy_defaultInformer (ri_tweakListOptions i)) f"

definition validatingAdmissionPolicyBindingInformer_Informer ::
  "'o resource_informer \<Rightarrow> ('o, 'l, 'w) policy_factory
   \<Rightarrow> ('o, 'l, 'w) sharedIndexInformer \<times> ('o, 'l, 'w) policy_factory" where
  "validatingAdmissionPolicyBindingInformer_Informer i f =
     InformerFor BindingType (binding_defaultInformer (ri_tweakListOptions i)) f"

text \<open>The lister of an informer reads the informer's indexer, here a parameter.\<close>

definition validatingAdmissionPolicyInformer_Lister ::
  "(('o, 'l, 'w) sharedIndexInformer \<Rightarrow> 'obj indexer) \<Rightarrow> 'o resource_informer \<Rightarrow> ('o, 'l, 'w) policy_factory
   \<Rightarrow> 'obj validatingAdmissionPolicyLister \<times> ('o, 'l, 'w) policy_factory" where
  "validatingAdmissionPolicyInformer_Lister GetIndexer i f =
     (let (informer, f') = validatingAdmissionPolicyInformer_Informer i f
      in (NewValidatingAdmissionPolicyLister (GetIndexer informer), f'))"

definition validatingAdmissionPolicyBindingInformer_Lister ::
  "(('o, 'l, 'w) sharedIndexInformer \<Rightarrow> 'obj indexer) \<Rightarrow> 'o resource_informer \<Rightarrow> ('o, 'l, 'w) policy_factory
   \<Rightarrow> 'obj validatingAdmissionPolicyBindingLister \<times> ('o, 'l, 'w) policy_factory" where
  "validatingAdmissionPolicyBindingInformer_Lister GetIndexer i f =
     (let (informer, f') = validatingAdmissionPolicyBindingInformer_Informer i f
      in (NewValidatingAdmissionPolicyBindingLister (GetIndexer informer), f'))"

abbreviation policy_Informer where
  "policy_Informer f \<equiv> validatingAdmissionPolicyInformer_Informer
     (version_ValidatingAdmissionPolicies (group_V1alpha1 (Admissionregistration f))) f"

abbreviation binding_Informer where
  "binding_Informer f \<equiv> validatingAdmissionPolicyBindingInformer_Informer
     (version_ValidatingAdmissionPolicyBindings (group_V1alpha1 (Admissionregistration f))) f"

record ('o, 'l, 'w) genericInformer =
  gi_informer :: "('o, 'l, 'w) sharedIndexInformer"
  gi_resource :: group_resource

definition genericInformer_Informer :: "('o, 'l, 'w) genericInformer \<Rightarrow> ('o, 'l, 'w) sharedIndexInformer" where
  "genericInformer_Informer f = gi_informer f"

definition genericInformer_Lister ::
  "(('o, 'l, 'w) sharedIndexInformer \<Rightarrow> 'obj indexer) \<Rightarrow> ('o, 'l, 'w) genericInformer \<Rightarrow> 'obj genericLister" where
  "genericInformer_Lister GetIndexer f = NewGenericLister (GetIndexer (genericInformer_Informer f)) (gi_resource f)"

definition WithResource :: "string \<Rightarrow> gvr" where
  "WithResource resource =
     \<lparr>gvr_Group = ''admissionregistration.x-k8s.io'', gvr_Version = ''v1alpha1'',
      gvr_Resource = resource\<rparr>"

definition gvr_String :: "gvr \<Rightarrow> string" where
  "gvr_String r = gvr_Group r @ ''/'' @ gvr_Version r @ '', Resource='' @ gvr_Resource r"

definition ForResource ::
  "gvr \<Rightarrow> ('o, 'l, 'w) policy_factory
   \<Rightarrow> (go_error + ('o, 'l, 'w) genericInformer) \<times> ('o, 'l, 'w) policy_factory" where
  "ForResource resource f =
     (if resource = WithResource ''validatingadmissionpolicies''
      then (let (informer, f') = policy_Informer f
            in (Inr \<lparr>gi_informer = informer, gi_resource = GroupResource resource\<rparr>, f'))
      else if resource = WithResource ''validatingadmissionpolicybindings''
      then (let (informer, f') = binding_Informer f
            in (Inr \<lparr>gi_informer = informer, gi_resource = GroupResource resource\<rparr>, f'))
      else (Inl (Plain (''no informer found for '' @ gvr_String resource)), f))"

section \<open>The factory in use\<close>

text \<open>
  Any sequence of calls, with goroutines ending in between; \<open>Start\<close> visits the registered types in
  any order. The ghost list \<open>launched\<close> records every goroutine ever started.
\<close>

record ('ty, 'inf, 'c, 'tw) fsys =
  fac :: "('ty, 'inf, 'c, 'tw) sharedInformerFactory"
  launched :: "('ty \<times> 'inf) list"

definition visits_all :: "('ty \<times> 'inf) list \<Rightarrow> ('ty \<rightharpoonup> 'inf) \<Rightarrow> bool" where
  "visits_all order m = (distinct (map fst order) \<and> map_of order = m)"

inductive fsys_step ::
  "('ty, 'inf, 'c, 'tw) fsys \<Rightarrow> ('ty, 'inf, 'c, 'tw) fsys \<Rightarrow> bool" where
  call_InformerFor: "fsys_step s (s\<lparr>fac := snd (InformerFor ty newFunc (fac s))\<rparr>)"
| call_Start:
    "visits_all order (f_informers (fac s)) \<Longrightarrow> f' = factory_Start order (fac s) \<Longrightarrow>
     fsys_step s (s\<lparr>fac := f', launched := launched s @ drop (length (f_wg (fac s))) (f_wg f')\<rparr>)"
| call_Shutdown: "fsys_step s (s\<lparr>fac := factory_Shutdown (fac s)\<rparr>)"
| informer_ends:
    "f_wg (fac s) = pre @ x # post \<Longrightarrow> fsys_step s (s\<lparr>fac := (fac s)\<lparr>f_wg := pre @ post\<rparr>\<rparr>)"

text \<open>The factory starts from any options of the three kinds the package offers.\<close>

definition factory_options :: "('ob \<Rightarrow> 'ty) \<Rightarrow> ('ty, 'inf, 'c, 'tw) informer_option set" where
  "factory_options typeOf =
     range (WithCustomResyncConfig typeOf) \<union> range WithTweakListOptions \<union> range WithNamespace"

definition fsys_starts :: "('ob \<Rightarrow> 'ty) \<Rightarrow> ('ty, 'inf, 'c, 'tw) fsys \<Rightarrow> bool" where
  "fsys_starts typeOf s =
     (\<exists>client defaultResync options. set options \<subseteq> factory_options typeOf \<and>
        s = \<lparr>fac = NewSharedInformerFactoryWithOptions client defaultResync options, launched = []\<rparr>)"

abbreviation fsys_reachable :: "('ob \<Rightarrow> 'ty) \<Rightarrow> ('ty, 'inf, 'c, 'tw) fsys \<Rightarrow> bool" where
  "fsys_reachable typeOf \<equiv> reach (fsys_starts typeOf) fsys_step"

section \<open>What the operations do\<close>

lemma start_loop_frame [simp]:
  "f_informers (start_loop order f) = f_informers f"
  "f_client (start_loop order f) = f_client f"
  "f_shuttingDown (start_loop order f) = f_shuttingDown f"
  "f_tweakListOptions (start_loop order f) = f_tweakListOptions f"
  "f_customResync (start_loop order f) = f_customResync f"
  "f_defaultResync (start_loop order f) = f_defaultResync f"
  by (induction order f rule: start_loop.induct) simp_all

lemma is_started_start_loop [simp]:
  "is_started (start_loop order f) ty \<longleftrightarrow> is_started f ty \<or> ty \<in> fst ` set order"
  by (induction order f rule: start_loop.induct) (auto simp: is_started_def)

lemma start_loop_wg:
  "distinct (map fst order) \<Longrightarrow>
   f_wg (start_loop order f) = f_wg f @ filter (\<lambda>(ty, i). \<not> is_started f ty) order"
proof (induction order f rule: start_loop.induct)
  case (2 ty i rest f)
  have other: "filter (\<lambda>(t, i). \<not> is_started (f\<lparr>f_wg := w, f_startedInformers := (f_startedInformers f)(ty \<mapsto> True)\<rparr>) t) rest
      = filter (\<lambda>(t, i). \<not> is_started f t) rest" for w
    using 2(2) by (intro filter_cong) (auto simp: is_started_def image_iff)
  show ?case using 2 by (simp add: other)
qed simp

lemma visits_all_dom: "visits_all order m \<Longrightarrow> fst ` set order = dom m"
  by (metis dom_map_of_conv_image_fst visits_all_def)

lemma visits_all_set: "visits_all order m \<Longrightarrow> (ty, i) \<in> set order \<longleftrightarrow> m ty = Some i"
  by (auto simp: visits_all_def)

lemma InformerFor_informers:
  "f_informers (snd (InformerFor ty newFunc f)) =
     (if ty \<in> dom (f_informers f) then f_informers f
      else (f_informers f)(ty \<mapsto> fst (InformerFor ty newFunc f)))"
  by (auto simp: InformerFor_def Let_def split: option.splits)

lemma InformerFor_frame [simp]:
  "f_wg (snd (InformerFor ty newFunc f)) = f_wg f"
  "f_startedInformers (snd (InformerFor ty newFunc f)) = f_startedInformers f"
  "f_shuttingDown (snd (InformerFor ty newFunc f)) = f_shuttingDown f"
  by (simp_all add: InformerFor_def Let_def split: option.splits)

lemma InformerFor_registers:
  "f_informers (snd (InformerFor ty newFunc f)) ty = Some (fst (InformerFor ty newFunc f))"
  by (auto simp: InformerFor_def Let_def split: option.splits)

lemma InformerFor_registered:
  "f_informers f ty = Some i \<Longrightarrow> InformerFor ty newFunc f = (i, f)"
  by (simp add: InformerFor_def)

section \<open>The invariant\<close>

text \<open>What was launched is exactly what is registered and marked as started, once per type.\<close>

definition fsys_inv :: "('ty, 'inf, 'c, 'tw) fsys \<Rightarrow> bool" where
  "fsys_inv s \<longleftrightarrow>
     distinct (map fst (launched s)) \<and>
     (\<forall>ty i. (ty, i) \<in> set (launched s)
             \<longleftrightarrow> is_started (fac s) ty \<and> f_informers (fac s) ty = Some i) \<and>
     (\<forall>ty. is_started (fac s) ty \<longrightarrow> ty \<in> dom (f_informers (fac s))) \<and>
     set (f_wg (fac s)) \<subseteq> set (launched s)"

lemma options_keep_empty:
  assumes "set options \<subseteq> factory_options typeOf"
  shows "f_informers (foldl (\<lambda>f opt. opt f) f options) = f_informers f \<and>
         f_startedInformers (foldl (\<lambda>f opt. opt f) f options) = f_startedInformers f \<and>
         f_wg (foldl (\<lambda>f opt. opt f) f options) = f_wg f"
  using assms
proof (induction options arbitrary: f)
  case (Cons opt options)
  have "f_informers (WithCustomResyncConfig typeOf cfg f) = f_informers f \<and>
        f_startedInformers (WithCustomResyncConfig typeOf cfg f) = f_startedInformers f \<and>
        f_wg (WithCustomResyncConfig typeOf cfg f) = f_wg f" for cfg
    unfolding WithCustomResyncConfig_def by (induction cfg arbitrary: f) auto
  then show ?case
    using Cons by (auto simp: factory_options_def WithTweakListOptions_def WithNamespace_def)
qed simp

lemma fsys_inv_start: "fsys_starts typeOf s \<Longrightarrow> fsys_inv s"
  by (auto simp: options_keep_empty [where typeOf = typeOf] fsys_starts_def fsys_inv_def NewSharedInformerFactoryWithOptions_def is_started_def)

lemma fsys_inv_Start:
  assumes inv: "fsys_inv s" and order: "visits_all order (f_informers (fac s))"
  defines "f' \<equiv> factory_Start order (fac s)"
  shows "fsys_inv (s\<lparr>fac := f', launched := launched s @ drop (length (f_wg (fac s))) (f_wg f')\<rparr>)"
proof (cases "f_shuttingDown (fac s)")
  case True
  then show ?thesis using inv by (simp add: f'_def factory_Start_def fsys_inv_def)
next
  case False
  let ?new = "filter (\<lambda>(ty, i). \<not> is_started (fac s) ty) order"
  have d: "distinct (map fst order)" using order by (simp add: visits_all_def)
  then have "distinct (map fst ?new)" by (rule distinct_map_filter)
  moreover have "fst ` set (launched s) \<inter> fst ` set ?new = {}"
    using inv by (fastforce simp: fsys_inv_def)
  ultimately show ?thesis
    using inv False visits_all_dom [OF order] visits_all_set [OF order]
    by (auto simp: f'_def factory_Start_def start_loop_wg [OF d] fsys_inv_def)
qed

lemma fsys_inv_step: "fsys_step s s' \<Longrightarrow> fsys_inv s \<Longrightarrow> fsys_inv s'"
proof (induction rule: fsys_step.induct)
  case (call_InformerFor s ty newFunc)
  then show ?case
    by (auto simp: fsys_inv_def InformerFor_informers is_started_def split: if_splits)
next
  case (call_Start order s f')
  then show ?case using fsys_inv_Start by blast
next
  case (call_Shutdown s)
  then show ?case by (simp add: fsys_inv_def factory_Shutdown_def is_started_def)
next
  case (informer_ends s pre x post)
  then show ?case by (simp add: fsys_inv_def is_started_def)
qed

interpretation fsys: invariant_system "fsys_starts typeOf" fsys_step fsys_inv for typeOf
  by unfold_locales (auto intro: fsys_inv_start fsys_inv_step)

text \<open>A registered informer stays registered.\<close>

lemma fsys_step_registered:
  "fsys_step s s' \<Longrightarrow> f_informers (fac s) ty = Some i \<Longrightarrow> f_informers (fac s') ty = Some i"
  by (induction rule: fsys_step.induct)
     (auto simp: InformerFor_informers factory_Start_def factory_Shutdown_def)

lemma fsys_steps_registered:
  "fsys_step\<^sup>*\<^sup>* s s' \<Longrightarrow> f_informers (fac s) ty = Some i \<Longrightarrow> f_informers (fac s') ty = Some i"
  by (induction rule: rtranclp_induct) (auto dest: fsys_step_registered)

section \<open>Properties\<close>

text \<open>
  (C20) Over any sequence of calls, an informer is launched at most once per type, and the launched
  ones are the registered informers marked as started. A \<open>Start\<close> launches exactly the registered
  informers that were never launched, after which \<open>WaitForCacheSync\<close> waits for all registered
  informers; once the factory is shutting down, \<open>Start\<close> does nothing.
\<close>
theorem factory_launches_once:
  assumes reach: "fsys_reachable typeOf s"
    and order: "visits_all order (f_informers (fac s))"
  shows "distinct (map fst (launched s)) \<and>
         set (launched s) = {(ty, i). is_started (fac s) ty \<and> f_informers (fac s) ty = Some i} \<and>
         (if f_shuttingDown (fac s) then factory_Start order (fac s) = fac s
          else f_wg (factory_Start order (fac s))
                 = f_wg (fac s) @ filter (\<lambda>x. x \<notin> set (launched s)) order \<and>
               dom (WaitForCacheSync hasSynced (factory_Start order (fac s)))
                 = dom (f_informers (fac s)))"
proof -
  have inv: "fsys_inv s" using reach by (rule fsys.reach_inv)
  have d: "distinct (map fst order)" using order by (simp add: visits_all_def)
  have new: "filter (\<lambda>(ty, i). \<not> is_started (fac s) ty) order
             = filter (\<lambda>x. x \<notin> set (launched s)) order"
    using inv visits_all_set [OF order] by (intro filter_cong) (auto simp: fsys_inv_def)
  show ?thesis
    using inv visits_all_dom [OF order]
    by (auto simp: fsys_inv_def factory_Start_def start_loop_wg [OF d] new WaitForCacheSync_def
        split: if_splits)
qed

text \<open>A factory with one registered and started informer, and a second one registered later.\<close>

definition sample_sys :: "(nat, nat, nat, nat) fsys" where
  "sample_sys =
     \<lparr>fac = snd (InformerFor 2 (\<lambda>c r. 20) (factory_Start [(1, 10)]
              (snd (InformerFor 1 (\<lambda>c r. 10) (NewSharedInformerFactory 0 30))))),
      launched = [(1, 10)]\<rparr>"

lemma sample_sys_reachable: "fsys_reachable (id :: nat \<Rightarrow> nat) sample_sys"
proof -
  let ?f0 = "NewSharedInformerFactory 0 30 :: (nat, nat, nat, nat) sharedInformerFactory"
  let ?f1 = "snd (InformerFor 1 (\<lambda>c r. 10) ?f0)"
  let ?f2 = "factory_Start [(1, 10)] ?f1"
  have "fsys_starts id \<lparr>fac = ?f0, launched = []\<rparr>"
    unfolding fsys_starts_def NewSharedInformerFactory_def
    by (intro exI [of _ 0] exI [of _ 30] exI [of _ "[]"]) simp
  then have "fsys_reachable id \<lparr>fac = ?f0, launched = []\<rparr>" by (rule reach_start)
  from reach_step [OF this call_InformerFor [where ty = 1 and newFunc = "\<lambda>c r. 10"]]
  have s1: "fsys_reachable id \<lparr>fac = ?f1, launched = []\<rparr>" by simp
  have "visits_all [(1, 10)] (f_informers ?f1)"
    by (simp add: visits_all_def InformerFor_def NewSharedInformerFactory_def
        NewSharedInformerFactoryWithOptions_def)
  then have "fsys_step \<lparr>fac = ?f1, launched = []\<rparr> \<lparr>fac = ?f2, launched = [(1, 10)]\<rparr>"
    using call_Start [of "[(1, 10)]" "\<lparr>fac = ?f1, launched = []\<rparr>" ?f2]
    by (simp add: factory_Start_def is_started_def InformerFor_def NewSharedInformerFactory_def
        NewSharedInformerFactoryWithOptions_def)
  from reach_step [OF reach_step [OF s1 this] call_InformerFor [where ty = 2 and newFunc = "\<lambda>c r. 20"]]
  show ?thesis by (simp add: sample_sys_def)
qed

theorem factory_launches_once_witness:
  "f_wg (factory_Start [(2, 20), (1, 10)] (fac sample_sys)) = [(1, 10), (2, 20)]"
proof -
  have "visits_all [(2, 20), (1, 10)] (f_informers (fac sample_sys))"
    by (auto simp: visits_all_def sample_sys_def InformerFor_def NewSharedInformerFactory_def
        NewSharedInformerFactoryWithOptions_def factory_Start_def)
  from factory_launches_once [OF sample_sys_reachable this]
  show ?thesis
    by (simp add: sample_sys_def InformerFor_def NewSharedInformerFactory_def
        NewSharedInformerFactoryWithOptions_def factory_Start_def is_started_def split: if_splits)
qed

text \<open>The informer a resource has been given.\<close>

lemma ForResource_informer:
  assumes first: "ForResource resource (fac s) = (Inr gi, f')"
    and later: "fsys_step\<^sup>*\<^sup>* (s\<lparr>fac := f'\<rparr>) s'"
  shows "resource = WithResource ''validatingadmissionpolicies'' \<and> policy_Informer (fac s') = (gi_informer gi, fac s') \<or>
    resource = WithResource ''validatingadmissionpolicybindings'' \<and> binding_Informer (fac s') = (gi_informer gi, fac s')"
    and "gi_resource gi = GroupResource resource"
proof -
  consider (policy) "resource = WithResource ''validatingadmissionpolicies''"
    | (binding) "resource = WithResource ''validatingadmissionpolicybindings''"
    using first by (auto simp: ForResource_def split: if_splits)
  then have "(resource = WithResource ''validatingadmissionpolicies'' \<and> policy_Informer (fac s') = (gi_informer gi, fac s') \<or>
    resource = WithResource ''validatingadmissionpolicybindings'' \<and> binding_Informer (fac s') = (gi_informer gi, fac s')) \<and>
    gi_resource gi = GroupResource resource"
  proof cases
    case policy
    then have gi: "gi = \<lparr>gi_informer = fst (policy_Informer (fac s)), gi_resource = GroupResource resource\<rparr>"
      and f': "f' = snd (policy_Informer (fac s))"
      using first by (auto simp: ForResource_def split: prod.splits)
    have "f_informers (fac s') PolicyType = Some (gi_informer gi)"
      using fsys_steps_registered [OF later] by (simp add: gi f' validatingAdmissionPolicyInformer_Informer_def InformerFor_registers)
    then have "policy_Informer (fac s') = (gi_informer gi, fac s')"
      unfolding validatingAdmissionPolicyInformer_Informer_def by (rule InformerFor_registered)
    then show ?thesis using policy gi by simp
  next
    case binding
    then have gi: "gi = \<lparr>gi_informer = fst (binding_Informer (fac s)), gi_resource = GroupResource resource\<rparr>"
      and f': "f' = snd (binding_Informer (fac s))"
      using first by (auto simp: ForResource_def WithResource_def split: prod.splits)
    have "f_informers (fac s') BindingType = Some (gi_informer gi)"
      using fsys_steps_registered [OF later] by (simp add: gi f' validatingAdmissionPolicyBindingInformer_Informer_def InformerFor_registers)
    then have "binding_Informer (fac s') = (gi_informer gi, fac s')"
      unfolding validatingAdmissionPolicyBindingInformer_Informer_def by (rule InformerFor_registered)
    then show ?thesis using binding gi by simp
  qed
  then show "resource = WithResource ''validatingadmissionpolicies'' \<and> policy_Informer (fac s') = (gi_informer gi, fac s') \<or>
    resource = WithResource ''validatingadmissionpolicybindings'' \<and> binding_Informer (fac s') = (gi_informer gi, fac s')"
    and "gi_resource gi = GroupResource resource" by blast+
qed

text \<open>
  Informers are shared: once \<open>ForResource\<close> has returned an informer for a resource, it returns
  the same informer in every later state of the factory, and creates nothing.
\<close>
theorem ForResource_shares_informer:
  assumes first: "ForResource resource (fac s) = (Inr gi, f')"
    and later: "fsys_step\<^sup>*\<^sup>* (s\<lparr>fac := f'\<rparr>) s'"
  shows "ForResource resource (fac s') = (Inr gi, fac s')"
  using ForResource_informer [OF first later]
  by (cases gi) (auto simp: ForResource_def WithResource_def)

text \<open>
  The generic and the typed lister of a resource read the same indexer, that of the informer
  first made for it, in every later state.
\<close>
theorem factory_listers_share_store:
  assumes first: "ForResource (WithResource resource) (fac s) = (Inr gi, f')"
    and later: "fsys_step\<^sup>*\<^sup>* (s\<lparr>fac := f'\<rparr>) s'"
  shows "(resource = ''validatingadmissionpolicies'' \<and>
      validatingAdmissionPolicyInformer_Lister ix
          (version_ValidatingAdmissionPolicies (group_V1alpha1 (Admissionregistration (fac s')))) (fac s')
        = (\<lparr>vapl_indexer = gl_indexer (genericInformer_Lister ix gi)\<rparr>, fac s') \<or>
     resource = ''validatingadmissionpolicybindings'' \<and>
      validatingAdmissionPolicyBindingInformer_Lister ix
          (version_ValidatingAdmissionPolicyBindings (group_V1alpha1 (Admissionregistration (fac s')))) (fac s')
        = (\<lparr>vapbl_indexer = gl_indexer (genericInformer_Lister ix gi)\<rparr>, fac s')) \<and>
    gl_resource (genericInformer_Lister ix gi)
      = \<lparr>gr_Group = ''admissionregistration.x-k8s.io'', gr_Resource = resource\<rparr>"
  using ForResource_informer [OF first later]
  by (auto simp: validatingAdmissionPolicyInformer_Lister_def validatingAdmissionPolicyBindingInformer_Lister_def
      NewValidatingAdmissionPolicyLister_def NewValidatingAdmissionPolicyBindingLister_def
      genericInformer_Lister_def NewGenericLister_def genericInformer_Informer_def WithResource_def GroupResource_def)

definition sample_versioned :: "(nat, nat, nat) versioned_client" where
  "sample_versioned = \<lparr>policies_List = (\<lambda>o'. o'), policies_Watch = (\<lambda>o'. o' + 1),
     bindings_List = (\<lambda>o'. o' + 2), bindings_Watch = (\<lambda>o'. o' + 3)\<rparr>"

definition sample_informer :: "(nat, nat, nat) sharedIndexInformer" where
  "sample_informer =
     NewFilteredValidatingAdmissionPolicyInformer sample_versioned 30 [''namespace''] (Some (\<lambda>o'. 7))"

definition sample_policy_sys ::
  "(policy_type, (nat, nat, nat) sharedIndexInformer, (nat, nat, nat) versioned_client, nat \<Rightarrow> nat) fsys" where
  "sample_policy_sys =
     \<lparr>fac = NewFilteredSharedInformerFactory sample_versioned 30 [] (\<lambda>o'. 7), launched = []\<rparr>"

lemmas sample_factory_simps =
  sample_policy_sys_def NewFilteredSharedInformerFactory_def NewSharedInformerFactoryWithOptions_def
  WithNamespace_def WithTweakListOptions_def ForResource_def WithResource_def validatingAdmissionPolicyInformer_Informer_def
  InformerFor_def Admissionregistration_def group_V1alpha1_def policy_defaultInformer_def
  informer_group_New_def informer_version_New_def version_ValidatingAdmissionPolicies_def
  GroupResource_def sample_informer_def factory_Shutdown_def Let_def

theorem ForResource_shares_informer_witness:
  "fst (ForResource (WithResource ''validatingadmissionpolicies'')
     (factory_Shutdown (snd (ForResource (WithResource ''validatingadmissionpolicies'')
        (fac sample_policy_sys)))))
   = Inr \<lparr>gi_informer = sample_informer,
          gi_resource = GroupResource (WithResource ''validatingadmissionpolicies'')\<rparr>"
proof -
  let ?r = "WithResource ''validatingadmissionpolicies''"
  let ?gi = "\<lparr>gi_informer = sample_informer, gi_resource = GroupResource ?r\<rparr>"
  let ?f = "snd (ForResource ?r (fac sample_policy_sys))"
  have first: "ForResource ?r (fac sample_policy_sys) = (Inr ?gi, ?f)"
    by (simp add: sample_factory_simps)
  have "fsys_step\<^sup>*\<^sup>* (sample_policy_sys\<lparr>fac := ?f\<rparr>) (sample_policy_sys\<lparr>fac := factory_Shutdown ?f\<rparr>)"
    using call_Shutdown [of "sample_policy_sys\<lparr>fac := ?f\<rparr>"] by simp
  from ForResource_shares_informer [OF first this] show ?thesis by simp
qed

theorem factory_listers_share_store_witness:
  "\<forall>ix :: (nat, nat, nat) sharedIndexInformer \<Rightarrow> nat indexer. validatingAdmissionPolicyInformer_Lister ix
     (version_ValidatingAdmissionPolicies (group_V1alpha1 (Admissionregistration (factory_Shutdown
        (snd (ForResource (WithResource ''validatingadmissionpolicies'') (fac sample_policy_sys)))))))
     (factory_Shutdown (snd (ForResource (WithResource ''validatingadmissionpolicies'') (fac sample_policy_sys))))
   = (\<lparr>vapl_indexer = ix sample_informer\<rparr>,
      factory_Shutdown (snd (ForResource (WithResource ''validatingadmissionpolicies'') (fac sample_policy_sys))))"
proof
  fix ix :: "(nat, nat, nat) sharedIndexInformer \<Rightarrow> nat indexer"
  let ?r = "WithResource ''validatingadmissionpolicies''"
  let ?gi = "\<lparr>gi_informer = sample_informer, gi_resource = GroupResource ?r\<rparr>"
  let ?f = "snd (ForResource ?r (fac sample_policy_sys))"
  have first: "ForResource ?r (fac sample_policy_sys) = (Inr ?gi, ?f)"
    by (simp add: sample_factory_simps)
  have "fsys_step\<^sup>*\<^sup>* (sample_policy_sys\<lparr>fac := ?f\<rparr>) (sample_policy_sys\<lparr>fac := factory_Shutdown ?f\<rparr>)"
    using call_Shutdown [of "sample_policy_sys\<lparr>fac := ?f\<rparr>"] by simp
  from factory_listers_share_store [OF first this, of ix] show "validatingAdmissionPolicyInformer_Lister ix
      (version_ValidatingAdmissionPolicies (group_V1alpha1 (Admissionregistration (factory_Shutdown ?f)))) (factory_Shutdown ?f)
    = (\<lparr>vapl_indexer = ix sample_informer\<rparr>, factory_Shutdown ?f)"
    by (auto simp: genericInformer_Lister_def NewGenericLister_def genericInformer_Informer_def)
qed

end
