(* ===== verification/Go_Path.thy ===== *)
theory Go_Path
  imports Go_Strings
begin

text \<open>
  Go's \<open>path.Clean\<close> and \<open>path.Join\<close>, with which clients build the paths of their requests, on the
  segments between slashes; and what they make of a rooted path to which plain segments are added.
\<close>

section \<open>Joining and cleaning\<close>

fun join_slash :: "string list \<Rightarrow> string" where
  "join_slash [] = []"
| "join_slash [s] = s"
| "join_slash (s # t # ss) = s @ CHR ''/'' # join_slash (t # ss)"

text \<open>
  The loop of \<open>Clean\<close> with the segments written so far, last first. Empty and \<open>.\<close> segments
  are dropped, \<open>..\<close> takes back the last one, and at the root is dropped.
\<close>

fun clean_segments :: "bool \<Rightarrow> string list \<Rightarrow> string list \<Rightarrow> string list" where
  "clean_segments rooted acc [] = rev acc"
| "clean_segments rooted acc (s # ss) =
     (if s = [] \<or> s = ''.'' then clean_segments rooted acc ss
      else if s = ''..'' then
        (case acc of
           [] \<Rightarrow> clean_segments rooted (if rooted then [] else [s]) ss
         | a # as \<Rightarrow> clean_segments rooted (if a = ''..'' then s # acc else as) ss)
      else clean_segments rooted (s # acc) ss)"

definition path_Clean :: "string \<Rightarrow> string" where
  "path_Clean p =
     (case p of
        [] \<Rightarrow> ''.''
      | c # cs \<Rightarrow>
          if c = CHR ''/'' then CHR ''/'' # join_slash (clean_segments True [] (split_on CHR ''/'' p))
          else (case join_slash (clean_segments False [] (split_on CHR ''/'' p)) of
                  [] \<Rightarrow> ''.'' | out \<Rightarrow> out))"

text \<open>\<open>Join\<close> leaves out empty elements; of nothing it makes the empty path.\<close>

definition path_Join :: "string list \<Rightarrow> string" where
  "path_Join es =
     (case filter (\<lambda>e. e \<noteq> []) es of [] \<Rightarrow> [] | es' \<Rightarrow> path_Clean (join_slash es'))"

section \<open>Rooted paths\<close>

text \<open>A plain segment stands for itself.\<close>

definition plain_segment :: "string \<Rightarrow> bool" where
  "plain_segment s \<longleftrightarrow> s \<noteq> [] \<and> s \<noteq> ''.'' \<and> s \<noteq> ''..'' \<and> CHR ''/'' \<notin> set s"

definition rooted :: "string list \<Rightarrow> string" where
  "rooted ss = CHR ''/'' # join_slash ss"

lemma split_on_append:
  "split_on c (s @ c # t) = split_on c s @ split_on c t"
  by (induction s) (auto split: list.splits)

lemma split_join: "ss \<noteq> [] \<Longrightarrow> split_on CHR ''/'' (join_slash ss) = concat (map (split_on CHR ''/'') ss)"
  by (induction ss rule: join_slash.induct) (auto simp: split_on_append)

lemma split_plain: "plain_segment s \<Longrightarrow> split_on CHR ''/'' s = [s]"
  by (simp add: plain_segment_def split_on_no_sep)

lemma split_plains:
  "list_all plain_segment ss \<Longrightarrow> split_on CHR ''/'' (join_slash ss) = (if ss = [] then [[]] else ss)"
  by (simp add: split_join) (induction ss, auto simp: split_plain)

lemma clean_plain: "list_all plain_segment ss \<Longrightarrow> clean_segments r acc (ss @ ts) = clean_segments r (rev ss @ acc) ts"
  by (induction ss arbitrary: acc) (auto simp: plain_segment_def)

lemma split_rooted: "split_on CHR ''/'' (rooted ss) = [] # split_on CHR ''/'' (join_slash ss)"
  by (simp add: rooted_def)

text \<open>Whatever follows the root, the result is a rooted path of plain segments.\<close>

lemma clean_segments_plain:
  "(\<And>s. s \<in> set ss \<Longrightarrow> CHR ''/'' \<notin> set s) \<Longrightarrow> list_all plain_segment acc \<Longrightarrow>
     list_all plain_segment (clean_segments True acc ss)"
proof (induction ss arbitrary: acc)
  case (Cons s ss)
  show ?case
  proof (cases "s = [] \<or> s = ''.'' \<or> s = ''..''")
    case True
    with Cons show ?thesis
      by (cases acc) (auto simp: plain_segment_def)
  next
    case False
    with Cons show ?thesis by (simp add: plain_segment_def)
  qed
qed (simp add: list_all_iff)

lemma split_on_no_slash: "s \<in> set (split_on c p) \<Longrightarrow> c \<notin> set s"
  by (induction p arbitrary: s) (auto split: if_splits list.splits)

lemma hd_join_slash: "e \<noteq> [] \<Longrightarrow> \<exists>cs. join_slash (e # es) = hd e # cs"
  by (cases e; cases es) auto

lemma path_Join_root:
  assumes "p = CHR ''/'' # p'"
  shows "path_Join (p # es) =
    rooted (clean_segments True [] (concat (map (split_on CHR ''/'') (p # filter (\<lambda>e. e \<noteq> []) es))))"
proof -
  obtain cs where cs: "join_slash (p # filter (\<lambda>e. e \<noteq> []) es) = CHR ''/'' # cs"
    using hd_join_slash [of p "filter (\<lambda>e. e \<noteq> []) es"] assms by auto
  have "split_on CHR ''/'' (CHR ''/'' # cs) = concat (map (split_on CHR ''/'') (p # filter (\<lambda>e. e \<noteq> []) es))"
    using split_join [of "p # filter (\<lambda>e. e \<noteq> []) es"] cs by simp
  then show ?thesis
    unfolding path_Join_def using assms cs by (simp add: path_Clean_def rooted_def)
qed

lemma path_Join_rooted:
  assumes "p = CHR ''/'' # p'"
  obtains ss where "path_Join (p # es) = rooted ss" "list_all plain_segment ss"
proof -
  let ?ss = "concat (map (split_on CHR ''/'') (p # filter (\<lambda>e. e \<noteq> []) es))"
  have "list_all plain_segment (clean_segments True [] ?ss)"
    by (rule clean_segments_plain) (auto dest: split_on_no_slash simp del: list.map(2))
  then show ?thesis using that path_Join_root [OF assms] by blast
qed

text \<open>Plain segments are added at the end.\<close>

lemma path_Join_plain:
  assumes "list_all plain_segment ss" and "list_all (list_all plain_segment) tss"
  shows "path_Join (rooted ss # map join_slash tss) = rooted (ss @ concat tss)"
proof -
  have ne: "concat (map (split_on CHR ''/'') (filter (\<lambda>e. e \<noteq> []) (map join_slash tss))) = concat tss"
    using assms(2)
  proof (induction tss)
    case (Cons ts tss)
    have "join_slash ts = [] \<Longrightarrow> ts = []"
      using Cons.prems by (cases ts rule: join_slash.cases) (auto simp: plain_segment_def)
    then show ?case using Cons by (auto simp: split_plains)
  qed simp
  have "path_Join (rooted ss # map join_slash tss) =
      rooted (clean_segments True [] (split_on CHR ''/'' (rooted ss) @ concat tss))"
    using path_Join_root [of "rooted ss" "join_slash ss" "map join_slash tss"] ne by (simp add: rooted_def)
  also have "clean_segments True [] (split_on CHR ''/'' (rooted ss) @ concat tss) =
      clean_segments True [] (ss @ concat tss)"
    using assms(1) by (simp add: split_rooted split_plains)
  also have "\<dots> = ss @ concat tss"
    using assms clean_plain [of "ss @ concat tss" True "[]" "[]"] by (auto simp: list_all_iff)
  finally show ?thesis .
qed

lemma rooted_inj:
  assumes "list_all plain_segment ss" "list_all plain_segment ts" "rooted ss = rooted ts"
  shows "ss = ts"
proof -
  have "(if ss = [] then [[]] else ss) = (if ts = [] then [[]] else ts)"
    using split_plains [OF assms(1)] split_plains [OF assms(2)] assms(3) by (simp only: rooted_def list.inject)
  moreover have "ss \<noteq> [[]]" "ts \<noteq> [[]]" using assms(1,2) by (auto simp: plain_segment_def)
  ultimately show ?thesis by (cases "ss = []"; cases "ts = []") simp_all
qed

end
