(* ===== verification/Rest_Request.thy ===== *)
theory Rest_Request
  imports Go_Path Admission Policy_Types "HOL-Library.Word"
begin

text \<open>
  The request builder of the vendored \<open>client-go/rest\<close> package as the generated clients use it: a
  request collects its parts and its first error, is sent with retries, and its result is
  decoded into an object. The transport, the codec, the rate limiter and the context are
  parameters; headers that only label a connection, logging, metrics and waiting times are left out.
\<close>

section \<open>Objects, clients and requests\<close>

text \<open>What is sent and received: the API types, a status, and the options of a deletion.\<close>

record deleteOptions =
  do_GracePeriodSeconds :: "int option"
  do_PropagationPolicy :: "string option"
  do_DryRun :: "string slice"

datatype api_object =
    PolicyObj validatingAdmissionPolicy
  | PolicyListObj validatingAdmissionPolicyList
  | BindingObj validatingAdmissionPolicyBinding
  | BindingListObj validatingAdmissionPolicyBindingList
  | StatusObj status
  | DeleteOptionsObj deleteOptions
  | UnknownObj string

text \<open>The timeout is a duration in nanoseconds, a signed 64-bit integer; 0 is none.\<close>

type_synonym duration = "64 word"
type_synonym url_values = "string \<Rightarrow> string list"

record 'b http_request =
  hq_Method :: string
  hq_Path :: string
  hq_Query :: url_values
  hq_TimeoutParam :: duration
  hq_Header :: "string \<rightharpoonup> string list"
  hq_Body :: "'b option"
  hq_Deadline :: duration

text \<open>\<open>io.ReadAll\<close> of a body; an empty body is \<open>None\<close>.\<close>

datatype 'b body_read = BodyRead "'b option" | StreamError go_error | ReadError go_error

record 'b http_answer =
  ha_StatusCode :: int
  ha_ContentType :: string
  ha_RetryAfter :: "int option"
  ha_Body :: "'b body_read"

text \<open>
  What a decoder makes of a body, given the object to decode into: that object filled in, another
  object, or an error, which may leave the object partly filled in.
\<close>

datatype decoded =
    DecodedInto api_object
  | DecodedOther api_object
  | DecodeFailed api_object go_error

datatype 'b decoder_choice =
    BadMediaType go_error
  | NoDecoder
  | Decoder "'b \<Rightarrow> api_object option \<Rightarrow> decoded"

text \<open>The options of calls, as far as the clients look into them.\<close>

record listOptions =
  lo_LabelSelector :: string
  lo_FieldSelector :: string
  lo_Watch :: bool
  lo_AllowWatchBookmarks :: bool
  lo_ResourceVersion :: string
  lo_TimeoutSeconds :: "64 word option"
  lo_Limit :: int
  lo_Continue :: string

record writeOptions =
  wo_DryRun :: "string slice"
  wo_FieldManager :: string
  wo_FieldValidation :: string

datatype api_options =
    GetOptions string
  | ListOptions listOptions
  | CreateOptions writeOptions
  | UpdateOptions writeOptions
  | PatchOptions writeOptions "bool option"

text \<open>
  A client with what it is configured with: its codec (\<open>rc_Encode\<close>, \<open>rc_Decoder\<close> by content type,
  and the generated \<open>scheme.ParameterCodec\<close>), rate limiter, transport, the error of its context, the
  tests of transport errors, the decoder of watch streams, and the text of an answer that is text
  (\<open>unknown\<close> otherwise).
\<close>

record ('b, 'ev, 'w) restClient =
  rc_base :: "string option"
  rc_versionedAPIPath :: string
  rc_ContentType :: string
  rc_AcceptContentTypes :: string
  rc_GroupVersion :: gvk
  rc_Encode :: "api_object \<Rightarrow> go_error + 'b"
  rc_Decoder :: "string \<Rightarrow> 'b decoder_choice"
  rc_RateLimiter :: "('w \<Rightarrow> go_error option \<times> 'w) option"
  rc_ClientTimeout :: duration
  rc_CtxErr :: "'w \<Rightarrow> go_error option"
  rc_Do :: "'b http_request \<Rightarrow> 'w \<Rightarrow> (go_error + 'b http_answer) \<times> 'w"
  rc_ConnectionReset :: "go_error \<Rightarrow> bool"
  rc_ProbableEOF :: "go_error \<Rightarrow> bool"
  rc_NetTimeout :: "go_error \<Rightarrow> bool"
  rc_UnwrapURL :: "go_error \<Rightarrow> go_error"
  rc_Stream :: "'b http_answer \<Rightarrow> go_error + 'ev list"
  rc_TextOf :: "'b http_answer \<Rightarrow> string"
  rc_ParameterCodec :: "api_options \<Rightarrow> go_error + url_values"

record 'b request =
  rr_verb :: string
  rr_pathPrefix :: string
  rr_subpath :: string
  rr_params :: url_values
  rr_headers :: "string \<rightharpoonup> string list"
  rr_namespace :: string
  rr_namespaceSet :: bool
  rr_resource :: string
  rr_resourceName :: string
  rr_subresource :: string
  rr_err :: "go_error option"
  rr_bodyBytes :: "'b option"
  rr_timeout :: duration
  rr_maxRetries :: nat

section \<open>Building a request\<close>

text \<open>\<open>IsValidPathSegmentName\<close>.\<close>

definition NameMayNotBe :: "string list" where
  "NameMayNotBe = [''.'', ''..'']"

definition NameMayNotContain :: "string list" where
  "NameMayNotContain = [''/'', ''%'']"

definition single_quoted :: "string \<Rightarrow> string" where
  "single_quoted s = CHR 0x27 # s @ [CHR 0x27]"

definition IsValidPathSegmentName :: "string \<Rightarrow> string list" where
  "IsValidPathSegmentName name =
     (case filter (\<lambda>illegalName. name = illegalName) NameMayNotBe of
        illegalName # _ \<Rightarrow> [''may not be '' @ single_quoted illegalName]
      | [] \<Rightarrow> map (\<lambda>illegalContent. ''may not contain '' @ single_quoted illegalContent)
                (filter (contains name) NameMayNotContain))"

text \<open>A list of strings as \<open>%v\<close> prints it.\<close>

fun joined_spaces :: "string list \<Rightarrow> string" where
  "joined_spaces [] = []"
| "joined_spaces [s] = s"
| "joined_spaces (s # t # ss) = s @ '' '' @ joined_spaces (t # ss)"

definition bracketed :: "string list \<Rightarrow> string" where
  "bracketed ss = ''['' @ joined_spaces ss @ '']''"

definition req_SetHeader :: "string \<Rightarrow> string list \<Rightarrow> 'b request \<Rightarrow> 'b request" where
  "req_SetHeader key values r =
     r\<lparr>rr_headers := (rr_headers r)(key := (if values = [] then None else Some values))\<rparr>"

definition NewRequest :: "('b, 'ev, 'w) restClient \<Rightarrow> 'b request" where
  "NewRequest c =
     (let r = \<lparr>rr_verb = [],
               rr_pathPrefix =
                 (case rc_base c of
                    Some base \<Rightarrow> path_Join [''/'', base, rc_versionedAPIPath c]
                  | None \<Rightarrow> path_Join [''/'', rc_versionedAPIPath c]),
               rr_subpath = [], rr_params = (\<lambda>_. []), rr_headers = Map.empty, rr_namespace = [],
               rr_namespaceSet = False, rr_resource = [], rr_resourceName = [], rr_subresource = [],
               rr_err = None, rr_bodyBytes = None, rr_timeout = rc_ClientTimeout c, rr_maxRetries = 10\<rparr>
      in if rc_AcceptContentTypes c \<noteq> [] then req_SetHeader ''Accept'' [rc_AcceptContentTypes c] r
         else if rc_ContentType c \<noteq> [] then req_SetHeader ''Accept'' [rc_ContentType c @ '', */*''] r
         else r)"

definition req_Verb :: "string \<Rightarrow> 'b request \<Rightarrow> 'b request" where
  "req_Verb verb r = r\<lparr>rr_verb := verb\<rparr>"

text \<open>The five requests a client starts.\<close>

definition rest_Verb :: "('b, 'ev, 'w) restClient \<Rightarrow> string \<Rightarrow> 'b request" where
  "rest_Verb c verb = req_Verb verb (NewRequest c)"

definition rest_Post :: "('b, 'ev, 'w) restClient \<Rightarrow> 'b request" where
  "rest_Post c = rest_Verb c ''POST''"

definition rest_Put :: "('b, 'ev, 'w) restClient \<Rightarrow> 'b request" where
  "rest_Put c = rest_Verb c ''PUT''"

definition rest_Patch :: "('b, 'ev, 'w) restClient \<Rightarrow> string \<Rightarrow> 'b request" where
  "rest_Patch c pt = req_SetHeader ''Content-Type'' [pt] (rest_Verb c ''PATCH'')"

definition rest_Get :: "('b, 'ev, 'w) restClient \<Rightarrow> 'b request" where
  "rest_Get c = rest_Verb c ''GET''"

definition rest_Delete :: "('b, 'ev, 'w) restClient \<Rightarrow> 'b request" where
  "rest_Delete c = rest_Verb c ''DELETE''"

text \<open>Every step keeps a request that already has an error.\<close>

definition unless_failed :: "('b request \<Rightarrow> 'b request) \<Rightarrow> 'b request \<Rightarrow> 'b request" where
  "unless_failed f r = (if rr_err r \<noteq> None then r else f r)"

definition fail_with :: "string \<Rightarrow> 'b request \<Rightarrow> 'b request" where
  "fail_with msg r = r\<lparr>rr_err := Some (Plain msg)\<rparr>"

definition req_Resource :: "string \<Rightarrow> 'b request \<Rightarrow> 'b request" where
  "req_Resource resource = unless_failed (\<lambda>r.
     if rr_resource r \<noteq> [] then
       fail_with (''resource already set to '' @ quote (rr_resource r) @ '', cannot change to '' @ quote resource) r
     else if IsValidPathSegmentName resource \<noteq> [] then
       fail_with (''invalid resource '' @ quote resource @ '': '' @ bracketed (IsValidPathSegmentName resource)) r
     else r\<lparr>rr_resource := resource\<rparr>)"

definition req_SubResource :: "string list \<Rightarrow> 'b request \<Rightarrow> 'b request" where
  "req_SubResource subresources = unless_failed (\<lambda>r.
     if rr_subresource r \<noteq> [] then
       fail_with (''subresource already set to '' @ quote (rr_subresource r) @ '', cannot change to '' @
         quote (path_Join subresources)) r
     else
       (case filter (\<lambda>s. IsValidPathSegmentName s \<noteq> []) subresources of
          s # _ \<Rightarrow>
            fail_with (''invalid subresource '' @ quote s @ '': '' @ bracketed (IsValidPathSegmentName s)) r
        | [] \<Rightarrow> r\<lparr>rr_subresource := path_Join subresources\<rparr>))"

definition req_Name :: "string \<Rightarrow> 'b request \<Rightarrow> 'b request" where
  "req_Name resourceName = unless_failed (\<lambda>r.
     if resourceName = [] then fail_with ''resource name may not be empty'' r
     else if rr_resourceName r \<noteq> [] then
       fail_with (''resource name already set to '' @ quote (rr_resourceName r) @ '', cannot change to '' @
         quote resourceName) r
     else if IsValidPathSegmentName resourceName \<noteq> [] then
       fail_with (''invalid resource name '' @ quote resourceName @ '': '' @
         bracketed (IsValidPathSegmentName resourceName)) r
     else r\<lparr>rr_resourceName := resourceName\<rparr>)"

text \<open>The parameters an options object encodes to are the argument.\<close>

definition req_VersionedParams :: "go_error + url_values \<Rightarrow> 'b request \<Rightarrow> 'b request" where
  "req_VersionedParams encoded = unless_failed (\<lambda>r.
     case encoded of
       Inl err \<Rightarrow> r\<lparr>rr_err := Some err\<rparr>
     | Inr params \<Rightarrow> r\<lparr>rr_params := (\<lambda>k. rr_params r k @ params k)\<rparr>)"

definition req_Timeout :: "duration \<Rightarrow> 'b request \<Rightarrow> 'b request" where
  "req_Timeout d = unless_failed (\<lambda>r. r\<lparr>rr_timeout := d\<rparr>)"

text \<open>The bodies the generated clients pass: bytes, or an object that may be a nil pointer.\<close>

datatype 'b body_arg = BodyBytes 'b | BodyObject "api_object option"

definition req_Body :: "('b, 'ev, 'w) restClient \<Rightarrow> 'b body_arg \<Rightarrow> 'b request \<Rightarrow> 'b request" where
  "req_Body c obj = unless_failed (\<lambda>r.
     case obj of
       BodyBytes data \<Rightarrow> r\<lparr>rr_bodyBytes := Some data\<rparr>
     | BodyObject None \<Rightarrow> r
     | BodyObject (Some t) \<Rightarrow>
         (case rc_Encode c t of
            Inl err \<Rightarrow> r\<lparr>rr_err := Some err\<rparr>
          | Inr data \<Rightarrow>
              req_SetHeader ''Content-Type'' [rc_ContentType c] (r\<lparr>rr_bodyBytes := Some data\<rparr>)))"

section \<open>The request that is sent\<close>

definition to_lower :: "string \<Rightarrow> string" where
  "to_lower s = map (\<lambda>c. if of_char c \<ge> (65::nat) \<and> of_char c \<le> (90::nat) then char_of (of_char c + 32 :: nat) else c) s"

definition req_path :: "'b request \<Rightarrow> string" where
  "req_path r =
     (let p = rr_pathPrefix r;
          p = (if rr_namespaceSet r \<and> rr_namespace r \<noteq> [] then path_Join [p, ''namespaces'', rr_namespace r] else p);
          p = (if rr_resource r \<noteq> [] then path_Join [p, to_lower (rr_resource r)] else p)
      in if rr_resourceName r \<noteq> [] \<or> rr_subpath r \<noteq> [] \<or> rr_subresource r \<noteq> []
         then path_Join [p, rr_resourceName r, rr_subresource r, rr_subpath r] else p)"

text \<open>\<open>timeout\<close> is a query parameter unless it is zero.\<close>

definition newHTTPRequest :: "duration \<Rightarrow> 'b request \<Rightarrow> 'b http_request" where
  "newHTTPRequest deadline r =
     \<lparr>hq_Method = rr_verb r, hq_Path = req_path r, hq_Query = rr_params r, hq_TimeoutParam = rr_timeout r,
      hq_Header = rr_headers r, hq_Body = rr_bodyBytes r, hq_Deadline = deadline\<rparr>"

definition requestPreflightCheck :: "'b request \<Rightarrow> go_error option" where
  "requestPreflightCheck r =
     (if \<not> rr_namespaceSet r then None
      else if rr_namespace r \<noteq> [] then None
      else if rr_verb r = ''POST'' then Some (Plain ''an empty namespace may not be set during creation'')
      else if rr_verb r \<in> {''GET'', ''PUT'', ''DELETE''} \<and> rr_resourceName r \<noteq> []
      then Some (Plain ''an empty namespace may not be set when a resource name is provided'')
      else None)"

definition tryThrottle :: "('b, 'ev, 'w) restClient \<Rightarrow> 'w \<Rightarrow> go_error option \<times> 'w" where
  "tryThrottle c w =
     (case rc_RateLimiter c of
        None \<Rightarrow> (None, w)
      | Some wait \<Rightarrow>
          (let (err, w') = wait w
           in (map_option (\<lambda>e. Wrapped (''client rate limiter Wait returned an error: '' @ error_text e) [e]) err, w')))"

section \<open>Retries\<close>

record retry =
  rt_attempts :: nat
  rt_retryAfter :: bool
  rt_previousErr :: "go_error option"
  rt_currentErr :: "go_error option"

definition new_retry :: retry where
  "new_retry = \<lparr>rt_attempts = 0, rt_retryAfter = False, rt_previousErr = None, rt_currentErr = None\<rparr>"

definition trackPreviousError :: "go_error option \<Rightarrow> retry \<Rightarrow> retry" where
  "trackPreviousError err rt =
     rt\<lparr>rt_previousErr := (if rt_currentErr rt \<noteq> None then rt_currentErr rt else rt_previousErr rt),
        rt_currentErr := err\<rparr>"

text \<open>\<open>checkWait\<close>: the server asks for another attempt.\<close>

definition checkWait :: "'b http_answer \<Rightarrow> bool" where
  "checkWait resp \<longleftrightarrow>
     (ha_StatusCode resp = 429 \<or> ha_StatusCode resp \<ge> 500) \<and> ha_RetryAfter resp \<noteq> None"

text \<open>An error that may be retried counts as a 500 answer that asks to be tried again after a second.\<close>

definition IsNextRetry ::
  "nat \<Rightarrow> (go_error \<Rightarrow> bool) \<Rightarrow> go_error + 'b http_answer \<Rightarrow> retry \<Rightarrow> bool \<times> retry" where
  "IsNextRetry maxRetries retryable answer rt =
     (let rt' = rt\<lparr>rt_attempts := Suc (rt_attempts rt), rt_retryAfter := True\<rparr>;
          again = Suc (rt_attempts rt) \<le> maxRetries \<and>
            (case answer of Inl err \<Rightarrow> retryable err | Inr resp \<Rightarrow> checkWait resp)
      in (again, trackPreviousError (case answer of Inl err \<Rightarrow> Some err | Inr _ \<Rightarrow> None) rt'))"

definition retry_Before ::
  "('b, 'ev, 'w) restClient \<Rightarrow> retry \<Rightarrow> 'w \<Rightarrow> (go_error option \<times> retry) \<times> 'w" where
  "retry_Before c rt w =
     (case rc_CtxErr c w of
        Some err \<Rightarrow> ((Some err, trackPreviousError (Some err) rt), w)
      | None \<Rightarrow>
          if \<not> rt_retryAfter rt then ((None, rt), w)
          else (case tryThrottle c w of
                  (Some err, w') \<Rightarrow> ((Some err, trackPreviousError (rc_CtxErr c w') rt), w')
                | (None, w') \<Rightarrow> ((None, rt), w')))"

definition retry_After :: "retry \<Rightarrow> retry" where
  "retry_After rt = rt\<lparr>rt_retryAfter := False\<rparr>"

definition WrapPreviousError ::
  "('b, 'ev, 'w) restClient \<Rightarrow> retry \<Rightarrow> go_error \<Rightarrow> go_error" where
  "WrapPreviousError c rt currentErr =
     (case rt_previousErr rt of
        None \<Rightarrow> currentErr
      | Some previous \<Rightarrow>
          if error_text currentErr = error_text previous then currentErr
          else Wrapped (error_text currentErr @ '' - error from a previous attempt: '' @
                 error_text (rc_UnwrapURL c previous)) [currentErr])"

text \<open>
  The loop that \<open>request\<close> and \<open>Watch\<close> share: it ends before an attempt, with an error, or with the
  answer to the last attempt.
\<close>

datatype 'b loop_end = NotSent go_error | Answered "go_error + 'b http_answer" retry

function request_loop ::
  "('b, 'ev, 'w) restClient \<Rightarrow> nat \<Rightarrow> (go_error \<Rightarrow> bool) \<Rightarrow> 'b http_request \<Rightarrow> retry \<Rightarrow> 'w
   \<Rightarrow> 'b loop_end \<times> 'w" where
  "request_loop c maxRetries retryable req rt w =
     (case retry_Before c rt w of
        ((Some err, rt1), w1) \<Rightarrow> (NotSent (WrapPreviousError c rt1 err), w1)
      | ((None, rt1), w1) \<Rightarrow>
          (let (answer, w2) = rc_Do c req w1 in
           (case IsNextRetry maxRetries retryable answer (retry_After rt1) of
              (True, rt2) \<Rightarrow> request_loop c maxRetries retryable req rt2 w2
            | (False, rt2) \<Rightarrow> (Answered answer rt2, w2))))"
  by pat_completeness auto

termination
proof (relation "measure (\<lambda>(c, maxRetries, retryable, req, rt, w). Suc maxRetries - rt_attempts rt)", goal_cases)
  case (2 c maxRetries retryable req rt w p w1 p1 rt1 x answer w2 again rt2)
  have "rt_attempts rt1 = rt_attempts rt"
    using 2 by (auto simp: retry_Before_def trackPreviousError_def split: option.splits if_splits prod.splits)
  then show ?case
    using 2 by (auto simp: IsNextRetry_def retry_After_def trackPreviousError_def Let_def)
qed simp

declare request_loop.simps [simp del]

section \<open>Sending a request\<close>

text \<open>Only reads are repeated when the connection breaks.\<close>

definition request_retryable :: "('b, 'ev, 'w) restClient \<Rightarrow> string \<Rightarrow> go_error \<Rightarrow> bool" where
  "request_retryable c verb err \<longleftrightarrow> verb = ''GET'' \<and> (rc_ConnectionReset c err \<or> rc_ProbableEOF c err)"

definition req_request ::
  "('b, 'ev, 'w) restClient \<Rightarrow> 'b request \<Rightarrow> 'w \<Rightarrow> (go_error + 'b http_answer) \<times> 'w" where
  "req_request c r w =
     (case rr_err r of
        Some err \<Rightarrow> (Inl err, w)
      | None \<Rightarrow>
     (case requestPreflightCheck r of
        Some err \<Rightarrow> (Inl err, w)
      | None \<Rightarrow>
     (case tryThrottle c w of
        (Some err, w') \<Rightarrow> (Inl err, w')
      | (None, w') \<Rightarrow>
          (let deadline = (if 0 <s rr_timeout r then rr_timeout r else 0) in
           (case request_loop c (rr_maxRetries r) (request_retryable c (rr_verb r))
                   (newHTTPRequest deadline r) new_retry w' of
              (NotSent err, w'') \<Rightarrow> (Inl err, w'')
            | (Answered (Inl err) rt, w'') \<Rightarrow> (Inl (WrapPreviousError c rt err), w'')
            | (Answered (Inr resp) rt, w'') \<Rightarrow> (Inr resp, w''))))))"

section \<open>Results\<close>

text \<open>
  The error made of an answer that is no success. Its causes, which mark it as an unexpected answer
  of the server, are the flag \<open>res_unexpected\<close> of a result.
\<close>

fun digits :: "nat \<Rightarrow> string" where
  "digits n = (if n < 10 then [char_of (48 + n)] else digits (n div 10) @ [char_of (48 + n mod 10)])"

definition itoa :: "int \<Rightarrow> string" where
  "itoa i = (if i < 0 then ''-'' @ digits (nat (- i)) else digits (nat i))"

definition generic_reason :: "int \<Rightarrow> string \<Rightarrow> string \<Rightarrow> string \<times> string" where
  "generic_reason code verb serverMessage =
     (if code = 409 then (if verb = ''POST'' then ''AlreadyExists'' else ''Conflict'', ''the server reported a conflict'')
      else if code = 404 then (''NotFound'', ''the server could not find the requested resource'')
      else if code = 400 then (''BadRequest'', ''the server rejected our request for an unknown reason'')
      else if code = 401 then (''Unauthorized'', ''the server has asked for the client to provide credentials'')
      else if code = 403 then (''Forbidden'', serverMessage)
      else if code = 406 then (''NotAcceptable'',
        if serverMessage = [] \<or> serverMessage = ''unknown''
        then ''the server was unable to respond with a content type that the client supports'' else serverMessage)
      else if code = 415 then (''UnsupportedMediaType'', serverMessage)
      else if code = 405 then (''MethodNotAllowed'', ''the server does not allow this method on the requested resource'')
      else if code = 422 then (''Invalid'', ''the server rejected our request due to an error in our request'')
      else if code = 503 then (''ServiceUnavailable'', ''the server is currently unable to handle the request'')
      else if code = 504 then (''Timeout'',
        ''the server was unable to return a response in the time allotted, but may still be processing the request'')
      else if code = 429 then (''TooManyRequests'',
        ''the server has received too many requests and has asked us to try again later'')
      else if code \<ge> 500 then (''InternalError'',
        ''an error on the server ('' @ quote serverMessage @ '') has prevented the request from succeeding'')
      else (StatusReasonUnknown,
        ''the server responded with the status code '' @ itoa code @ '' but did not return more information''))"

definition NewGenericServerResponse ::
  "int \<Rightarrow> string \<Rightarrow> group_resource \<Rightarrow> string \<Rightarrow> string \<Rightarrow> go_error" where
  "NewGenericServerResponse code verb gr name serverMessage =
     (let (reason, message) = generic_reason code verb serverMessage;
          qualified = \<not> (gr_Group gr = [] \<and> gr_Resource gr = [])
      in StatusErr
        \<lparr>st_Status = ''Failure'',
         st_Message =
           (if qualified \<and> name \<noteq> [] then
              message @ '' ('' @ to_lower verb @ '' '' @ gr_String gr @ '' '' @ name @ '')''
            else if qualified then message @ '' ('' @ to_lower verb @ '' '' @ gr_String gr @ '')''
            else message),
         st_Reason = reason,
         st_Details = Some \<lparr>det_Group = gr_Group gr, det_Kind = gr_Resource gr, det_Name = name\<rparr>,
         st_Code = code\<rparr>)"

definition newUnstructuredResponseError ::
  "('b, 'ev, 'w) restClient \<Rightarrow> 'b request \<Rightarrow> 'b http_answer \<Rightarrow> go_error" where
  "newUnstructuredResponseError c r resp =
     NewGenericServerResponse (ha_StatusCode resp) (rr_verb r)
       (if rr_resource r \<noteq> [] then \<lparr>gr_Group = gvk_Group (rc_GroupVersion c), gr_Resource = rr_resource r\<rparr>
        else \<lparr>gr_Group = [], gr_Resource = []\<rparr>)
       (rr_resourceName r) (rc_TextOf c resp)"

record 'b rest_result =
  res_body :: "'b option"
  res_contentType :: string
  res_err :: "go_error option"
  res_unexpected :: bool
  res_statusCode :: int
  res_decoder :: "('b \<Rightarrow> api_object option \<Rightarrow> decoded) option"

definition error_result :: "go_error \<Rightarrow> 'b rest_result" where
  "error_result err = \<lparr>res_body = None, res_contentType = [], res_err = Some err, res_unexpected = False,
     res_statusCode = 0, res_decoder = None\<rparr>"

definition failed_status :: "int \<Rightarrow> bool" where
  "failed_status code \<longleftrightarrow> code \<noteq> 101 \<and> (code < 200 \<or> code > 206)"

definition internal_error :: "go_error \<Rightarrow> go_error" where
  "internal_error err = StatusErr \<lparr>st_Status = ''Failure'',
     st_Message = ''Internal error occurred: '' @ error_text err, st_Reason = ''InternalError'',
     st_Details = Some \<lparr>det_Group = [], det_Kind = [], det_Name = []\<rparr>, st_Code = 500\<rparr>"

definition transformResponse ::
  "('b, 'ev, 'w) restClient \<Rightarrow> 'b request \<Rightarrow> 'b http_answer \<Rightarrow> 'b rest_result" where
  "transformResponse c r resp =
     (case ha_Body resp of
        StreamError err \<Rightarrow> error_result (Wrapped (''stream error when reading response body, may be caused by closed connection. Please retry. Original error: '' @ error_text err) [err])
      | ReadError err \<Rightarrow> error_result (Wrapped (''unexpected error when reading response body. Please retry. Original error: '' @ error_text err) [err])
      | BodyRead body \<Rightarrow>
          (let contentType = (if ha_ContentType resp = [] then rc_ContentType c else ha_ContentType resp);
               err = newUnstructuredResponseError c r resp;
               result = (\<lambda>decoder. \<lparr>res_body = body, res_contentType = contentType,
                 res_err = (if failed_status (ha_StatusCode resp) then Some err else None),
                 res_unexpected = failed_status (ha_StatusCode resp),
                 res_statusCode = ha_StatusCode resp, res_decoder = decoder\<rparr>)
           in if contentType = [] then result None
              else (case rc_Decoder c contentType of
                      BadMediaType e \<Rightarrow> error_result (internal_error e)
                    | NoDecoder \<Rightarrow>
                        if failed_status (ha_StatusCode resp)
                        then (error_result err)\<lparr>res_unexpected := True\<rparr> else result None
                    | Decoder dec \<Rightarrow> result (Some dec))))"

definition req_Do ::
  "('b, 'ev, 'w) restClient \<Rightarrow> 'b request \<Rightarrow> 'w \<Rightarrow> 'b rest_result \<times> 'w" where
  "req_Do c r w =
     (case req_request c r w of
        (Inl err, w') \<Rightarrow> (error_result err, w')
      | (Inr resp, w') \<Rightarrow> (transformResponse c r resp, w'))"

text \<open>A status in the body is preferred to the generic error.\<close>

definition res_Error :: "'b rest_result \<Rightarrow> go_error option" where
  "res_Error r =
     (if res_err r = None \<or> \<not> res_unexpected r then res_err r
      else
        (case (res_body r, res_decoder r) of
           (Some body, Some dec) \<Rightarrow>
             (case dec body None of
                DecodeFailed _ _ \<Rightarrow> res_err r
              | DecodedInto out \<Rightarrow> res_err r
              | DecodedOther (StatusObj t) \<Rightarrow>
                  if st_Status t = ''Failure'' then Some (StatusErr t) else res_err r
              | DecodedOther _ \<Rightarrow> res_err r)
         | _ \<Rightarrow> res_err r))"

text \<open>\<open>Into\<close> returns the object as it is afterwards.\<close>

definition res_Into :: "api_object \<Rightarrow> 'b rest_result \<Rightarrow> api_object \<times> go_error option" where
  "res_Into obj r =
     (if res_err r \<noteq> None then (obj, res_Error r)
      else
        (case res_decoder r of
           None \<Rightarrow> (obj, Some (Plain (''serializer for '' @ res_contentType r @ '' doesn'' @ [CHR 0x27] @ ''t exist'')))
         | Some dec \<Rightarrow>
             (case res_body r of
                None \<Rightarrow> (obj, Some (Plain (''0-length response with status code: '' @ itoa (res_statusCode r) @
                   '' and content type: '' @ res_contentType r)))
              | Some body \<Rightarrow>
                  (case dec body (Some obj) of
                     DecodeFailed obj' err \<Rightarrow> (obj', Some err)
                   | DecodedInto obj' \<Rightarrow> (obj', None)
                   | DecodedOther (StatusObj t) \<Rightarrow>
                       (obj, if st_Status t \<noteq> ''Success'' then Some (StatusErr t) else None)
                   | DecodedOther _ \<Rightarrow> (obj, None)))))"

section \<open>Watches\<close>

definition watch_retryable :: "('b, 'ev, 'w) restClient \<Rightarrow> go_error \<Rightarrow> bool" where
  "watch_retryable c err \<longleftrightarrow> rc_ProbableEOF c err \<or> rc_NetTimeout c err"

text \<open>
  A watch is not throttled. A connection that keeps breaking is an empty watch; a 200 answer never
  asks for another attempt.
\<close>

definition req_Watch ::
  "('b, 'ev, 'w) restClient \<Rightarrow> 'b request \<Rightarrow> 'w
   \<Rightarrow> ('ev list option \<times> go_error option) \<times> 'w" where
  "req_Watch c r w =
     (case rr_err r of
        Some err \<Rightarrow> ((None, Some err), w)
      | None \<Rightarrow>
          (case request_loop c (rr_maxRetries r) (watch_retryable c) (newHTTPRequest 0 r) new_retry w of
             (NotSent err, w') \<Rightarrow> ((None, Some err), w')
           | (Answered (Inl err) rt, w') \<Rightarrow>
               if watch_retryable c err then ((Some [], None), w')
               else ((None, Some (WrapPreviousError c rt err)), w')
           | (Answered (Inr resp) rt, w') \<Rightarrow>
               if ha_StatusCode resp = 200 then
                 (case rc_Stream c resp of
                    Inl err \<Rightarrow> ((None, Some err), w') | Inr evs \<Rightarrow> ((Some evs, None), w'))
               else
                 (let err = (case res_err (transformResponse c r resp) of
                               Some err \<Rightarrow> err
                             | None \<Rightarrow> Plain (''for request '' @ req_path r @ '', got status: '' @ itoa (ha_StatusCode resp)))
                  in ((None, Some (WrapPreviousError c rt err)), w'))))"

end
