(* ===== verification/Client_Types.thy ===== *)
theory Client_Types
  imports Rest_Request Injected_Client
begin

text \<open>
  What the generated clients share: the group, zero values of the API types, type assertions, and the
  options of their calls.
\<close>

section \<open>The group and zero values\<close>

text \<open>The kinds of the generated registration.\<close>

definition GroupName :: string where
  "GroupName = ''admissionregistration.x-k8s.io''"

definition with_kind :: "string \<Rightarrow> gvk" where
  "with_kind kind = \<lparr>gvk_Group = GroupName, gvk_Version = ''v1alpha1'', gvk_Kind = kind\<rparr>"

definition with_resource :: "string \<Rightarrow> gvr" where
  "with_resource resource = \<lparr>gvr_Group = GroupName, gvr_Version = ''v1alpha1'', gvr_Resource = resource\<rparr>"

definition zero_listMeta :: listMeta where
  "zero_listMeta = \<lparr>lm_SelfLink = [], lm_ResourceVersion = [], lm_Continue = [], lm_RemainingItemCount = None\<rparr>"

definition zero_typeMeta :: typeMeta where
  "zero_typeMeta = \<lparr>tm_Kind = [], tm_APIVersion = []\<rparr>"

definition zero_policy :: validatingAdmissionPolicy where
  "zero_policy = \<lparr>vap_TypeMeta = zero_typeMeta, vap_ObjectMeta = zero_objectMeta,
     vap_Spec = zero_policySpec, vap_Status = zero_policyStatus\<rparr>"

definition zero_policyList :: validatingAdmissionPolicyList where
  "zero_policyList = \<lparr>vapl_TypeMeta = zero_typeMeta, vapl_ListMeta = zero_listMeta, vapl_Items = None\<rparr>"

definition zero_binding :: validatingAdmissionPolicyBinding where
  "zero_binding = \<lparr>vapb_TypeMeta = zero_typeMeta, vapb_ObjectMeta = zero_objectMeta, vapb_Spec = zero_bindingSpec\<rparr>"

definition zero_bindingList :: validatingAdmissionPolicyBindingList where
  "zero_bindingList = \<lparr>vapbl_TypeMeta = zero_typeMeta, vapbl_ListMeta = zero_listMeta, vapbl_Items = None\<rparr>"

definition as_policy :: "api_object \<Rightarrow> validatingAdmissionPolicy option" where
  "as_policy obj = (case obj of PolicyObj p \<Rightarrow> Some p | _ \<Rightarrow> None)"

definition as_binding :: "api_object \<Rightarrow> validatingAdmissionPolicyBinding option" where
  "as_binding obj = (case obj of BindingObj b \<Rightarrow> Some b | _ \<Rightarrow> None)"

text \<open>The options of one call, of which each method takes its own.\<close>

record call_options =
  co_Get :: string
  co_List :: listOptions
  co_Create :: writeOptions
  co_Update :: writeOptions
  co_Delete :: deleteOptions

end
