(* ===== verification/Rest_Client.thy ===== *)
theory Rest_Client
  imports Client_Types
begin

text \<open>
  The generated typed clients of policies and bindings
  (\<open>typed/admissionregistration.x-k8s.io/v1alpha1\<close>), each method the request it builds and what it
  makes of the result, the client of the group with its defaults, and the clientset.
\<close>

section \<open>What the methods share\<close>

type_synonym ('b, 'w) rest = "('b, string \<times> api_object, 'w) restClient"

text \<open>
  \<open>result = &T{}; err = ...Do(ctx).Into(result)\<close>: the new object is returned with every error, and it is
  never nil. Decoding keeps its type.
\<close>

definition do_into ::
  "('b, 'w) rest \<Rightarrow> api_object \<Rightarrow> (api_object \<Rightarrow> 'x option) \<Rightarrow> 'b request \<Rightarrow> 'w \<Rightarrow> 'x result \<times> 'w" where
  "do_into c zero as_x r w =
     (let (res, w') = req_Do c r w; (obj, err) = res_Into zero res
      in ((if as_x obj = None then as_x zero else as_x obj, err), w'))"

text \<open>\<open>Do(ctx).Error()\<close>.\<close>

definition do_error :: "('b, 'w) rest \<Rightarrow> 'b request \<Rightarrow> 'w \<Rightarrow> go_error option \<times> 'w" where
  "do_error c r w = (let (res, w') = req_Do c r w in (res_Error res, w'))"

text \<open>\<open>time.Duration(*opts.TimeoutSeconds) * time.Second\<close>, in 64 bits.\<close>

definition list_timeout :: "listOptions \<Rightarrow> duration" where
  "list_timeout opts =
     (case lo_TimeoutSeconds opts of None \<Rightarrow> 0 | Some seconds \<Rightarrow> seconds * 1000000000)"

definition as_policyList :: "api_object \<Rightarrow> validatingAdmissionPolicyList option" where
  "as_policyList obj = (case obj of PolicyListObj l \<Rightarrow> Some l | _ \<Rightarrow> None)"

definition as_bindingList :: "api_object \<Rightarrow> validatingAdmissionPolicyBindingList option" where
  "as_bindingList obj = (case obj of BindingListObj l \<Rightarrow> Some l | _ \<Rightarrow> None)"

definition policy_klist :: "validatingAdmissionPolicyList \<Rightarrow> validatingAdmissionPolicy klist" where
  "policy_klist l = \<lparr>kl_ListMeta = vapl_ListMeta l, kl_Items = vapl_Items l\<rparr>"

definition binding_klist :: "validatingAdmissionPolicyBindingList \<Rightarrow> validatingAdmissionPolicyBinding klist" where
  "binding_klist l = \<lparr>kl_ListMeta = vapbl_ListMeta l, kl_Items = vapbl_Items l\<rparr>"

definition policy_event ::
  "string \<times> api_object \<Rightarrow> (validatingAdmissionPolicy, validatingAdmissionPolicy) event" where
  "policy_event e = \<lparr>ev_Type = fst e,
     ev_Object = (case as_policy (snd e) of Some p \<Rightarrow> ReplacementObj p | None \<Rightarrow> OtherObj [])\<rparr>"

definition binding_event ::
  "string \<times> api_object \<Rightarrow> (validatingAdmissionPolicyBinding, validatingAdmissionPolicyBinding) event" where
  "binding_event e = \<lparr>ev_Type = fst e,
     ev_Object = (case as_binding (snd e) of Some b \<Rightarrow> ReplacementObj b | None \<Rightarrow> OtherObj [])\<rparr>"

section \<open>Policies\<close>

definition validatingAdmissionPolicies_Get :: "('b, 'w) rest \<Rightarrow> string \<Rightarrow> string \<Rightarrow> 'w \<Rightarrow> validatingAdmissionPolicy result \<times> 'w" where
  "validatingAdmissionPolicies_Get c name options w =
     do_into c (PolicyObj zero_policy) as_policy
       (req_VersionedParams (rc_ParameterCodec c (GetOptions options))
       (req_Name name
       (req_Resource ''validatingadmissionpolicies'' (rest_Get c)))) w"

definition validatingAdmissionPolicies_List :: "('b, 'w) rest \<Rightarrow> listOptions \<Rightarrow> 'w \<Rightarrow> validatingAdmissionPolicyList result \<times> 'w" where
  "validatingAdmissionPolicies_List c opts w =
     do_into c (PolicyListObj zero_policyList) as_policyList
       (req_Timeout (list_timeout opts)
       (req_VersionedParams (rc_ParameterCodec c (ListOptions opts))
       (req_Resource ''validatingadmissionpolicies'' (rest_Get c)))) w"

definition validatingAdmissionPolicies_Watch ::
  "('b, 'w) rest \<Rightarrow> listOptions \<Rightarrow> 'w \<Rightarrow> ((string \<times> api_object) list option \<times> go_error option) \<times> 'w" where
  "validatingAdmissionPolicies_Watch c opts w =
     req_Watch c
       (req_Timeout (list_timeout opts)
       (req_VersionedParams (rc_ParameterCodec c (ListOptions (opts\<lparr>lo_Watch := True\<rparr>)))
       (req_Resource ''validatingadmissionpolicies'' (rest_Get c)))) w"

definition validatingAdmissionPolicies_Create :: "('b, 'w) rest \<Rightarrow> validatingAdmissionPolicy option \<Rightarrow> writeOptions \<Rightarrow> 'w \<Rightarrow> validatingAdmissionPolicy result \<times> 'w" where
  "validatingAdmissionPolicies_Create c object opts w =
     do_into c (PolicyObj zero_policy) as_policy
       (req_Body c (BodyObject (map_option PolicyObj object))
       (req_VersionedParams (rc_ParameterCodec c (CreateOptions opts))
       (req_Resource ''validatingadmissionpolicies'' (rest_Post c)))) w"

text \<open>The name of the object is read first, and a nil pointer has none.\<close>

definition validatingAdmissionPolicies_Update ::
  "('b, 'w) rest \<Rightarrow> validatingAdmissionPolicy option \<Rightarrow> writeOptions \<Rightarrow> 'w \<Rightarrow> (validatingAdmissionPolicy result \<times> 'w) outcome" where
  "validatingAdmissionPolicies_Update c object opts w =
     (case object of
        None \<Rightarrow> Panics ''nil pointer dereference''
      | Some x \<Rightarrow>
          Returns (do_into c (PolicyObj zero_policy) as_policy
            (req_Body c (BodyObject (Some (PolicyObj x)))
            (req_VersionedParams (rc_ParameterCodec c (UpdateOptions opts))
            (req_Name (om_name (vap_ObjectMeta x))
            (req_Resource ''validatingadmissionpolicies'' (rest_Put c))))) w))"

definition validatingAdmissionPolicies_UpdateStatus ::
  "('b, 'w) rest \<Rightarrow> validatingAdmissionPolicy option \<Rightarrow> writeOptions \<Rightarrow> 'w \<Rightarrow> (validatingAdmissionPolicy result \<times> 'w) outcome" where
  "validatingAdmissionPolicies_UpdateStatus c object opts w =
     (case object of
        None \<Rightarrow> Panics ''nil pointer dereference''
      | Some x \<Rightarrow>
          Returns (do_into c (PolicyObj zero_policy) as_policy
            (req_Body c (BodyObject (Some (PolicyObj x)))
            (req_VersionedParams (rc_ParameterCodec c (UpdateOptions opts))
            (req_SubResource [''status'']
            (req_Name (om_name (vap_ObjectMeta x))
            (req_Resource ''validatingadmissionpolicies'' (rest_Put c)))))) w))"

definition validatingAdmissionPolicies_Delete :: "('b, 'w) rest \<Rightarrow> string \<Rightarrow> deleteOptions \<Rightarrow> 'w \<Rightarrow> go_error option \<times> 'w" where
  "validatingAdmissionPolicies_Delete c name opts w =
     do_error c
       (req_Body c (BodyObject (Some (DeleteOptionsObj opts)))
       (req_Name name
       (req_Resource ''validatingadmissionpolicies'' (rest_Delete c)))) w"

definition validatingAdmissionPolicies_DeleteCollection ::
  "('b, 'w) rest \<Rightarrow> deleteOptions \<Rightarrow> listOptions \<Rightarrow> 'w \<Rightarrow> go_error option \<times> 'w" where
  "validatingAdmissionPolicies_DeleteCollection c opts listOpts w =
     do_error c
       (req_Body c (BodyObject (Some (DeleteOptionsObj opts)))
       (req_Timeout (list_timeout listOpts)
       (req_VersionedParams (rc_ParameterCodec c (ListOptions listOpts))
       (req_Resource ''validatingadmissionpolicies'' (rest_Delete c))))) w"

definition validatingAdmissionPolicies_Patch ::
  "('b, 'w) rest \<Rightarrow> string \<Rightarrow> string \<Rightarrow> 'b \<Rightarrow> writeOptions \<Rightarrow> bool option \<Rightarrow> string list \<Rightarrow> 'w
   \<Rightarrow> validatingAdmissionPolicy result \<times> 'w" where
  "validatingAdmissionPolicies_Patch c name pt data opts force subresources w =
     do_into c (PolicyObj zero_policy) as_policy
       (req_Body c (BodyBytes data)
       (req_VersionedParams (rc_ParameterCodec c (PatchOptions opts force))
       (req_SubResource subresources
       (req_Name name
       (req_Resource ''validatingadmissionpolicies'' (rest_Patch c pt)))))) w"

text \<open>The methods as a client.\<close>

definition validatingAdmissionPolicies :: "('b, 'w) rest \<Rightarrow> (validatingAdmissionPolicy, validatingAdmissionPolicy, call_options, 'w) client" where
  "validatingAdmissionPolicies c =
     \<lparr>cl_Create = (\<lambda>object opts w. Returns (validatingAdmissionPolicies_Create c object (co_Create opts) w)),
      cl_Update = (\<lambda>object opts w. validatingAdmissionPolicies_Update c object (co_Update opts) w),
      cl_UpdateStatus = Some (\<lambda>object opts w. validatingAdmissionPolicies_UpdateStatus c object (co_Update opts) w),
      cl_Delete = (\<lambda>name opts w. Returns (validatingAdmissionPolicies_Delete c name (co_Delete opts) w)),
      cl_DeleteCollection = (\<lambda>opts listOpts w.
        Returns (validatingAdmissionPolicies_DeleteCollection c (co_Delete opts) (co_List listOpts) w)),
      cl_Get = (\<lambda>name opts w. Returns (validatingAdmissionPolicies_Get c name (co_Get opts) w)),
      cl_List = (\<lambda>opts w. Returns (map_prod (map_prod (map_option policy_klist) id) id
        (validatingAdmissionPolicies_List c (co_List opts) w))),
      cl_Watch = (\<lambda>opts w. Returns (map_prod (map_prod (map_option (map policy_event)) id) id
        (validatingAdmissionPolicies_Watch c (co_List opts) w)))\<rparr>"

section \<open>Bindings\<close>

definition validatingAdmissionPolicyBindings_Get :: "('b, 'w) rest \<Rightarrow> string \<Rightarrow> string \<Rightarrow> 'w \<Rightarrow> validatingAdmissionPolicyBinding result \<times> 'w" where
  "validatingAdmissionPolicyBindings_Get c name options w =
     do_into c (BindingObj zero_binding) as_binding
       (req_VersionedParams (rc_ParameterCodec c (GetOptions options))
       (req_Name name
       (req_Resource ''validatingadmissionpolicybindings'' (rest_Get c)))) w"

definition validatingAdmissionPolicyBindings_List :: "('b, 'w) rest \<Rightarrow> listOptions \<Rightarrow> 'w \<Rightarrow> validatingAdmissionPolicyBindingList result \<times> 'w" where
  "validatingAdmissionPolicyBindings_List c opts w =
     do_into c (BindingListObj zero_bindingList) as_bindingList
       (req_Timeout (list_timeout opts)
       (req_VersionedParams (rc_ParameterCodec c (ListOptions opts))
       (req_Resource ''validatingadmissionpolicybindings'' (rest_Get c)))) w"

definition validatingAdmissionPolicyBindings_Watch ::
  "('b, 'w) rest \<Rightarrow> listOptions \<Rightarrow> 'w \<Rightarrow> ((string \<times> api_object) list option \<times> go_error option) \<times> 'w" where
  "validatingAdmissionPolicyBindings_Watch c opts w =
     req_Watch c
       (req_Timeout (list_timeout opts)
       (req_VersionedParams (rc_ParameterCodec c (ListOptions (opts\<lparr>lo_Watch := True\<rparr>)))
       (req_Resource ''validatingadmissionpolicybindings'' (rest_Get c)))) w"

definition validatingAdmissionPolicyBindings_Create :: "('b, 'w) rest \<Rightarrow> validatingAdmissionPolicyBinding option \<Rightarrow> writeOptions \<Rightarrow> 'w \<Rightarrow> validatingAdmissionPolicyBinding result \<times> 'w" where
  "validatingAdmissionPolicyBindings_Create c object opts w =
     do_into c (BindingObj zero_binding) as_binding
       (req_Body c (BodyObject (map_option BindingObj object))
       (req_VersionedParams (rc_ParameterCodec c (CreateOptions opts))
       (req_Resource ''validatingadmissionpolicybindings'' (rest_Post c)))) w"

text \<open>The name of the object is read first, and a nil pointer has none.\<close>

definition validatingAdmissionPolicyBindings_Update ::
  "('b, 'w) rest \<Rightarrow> validatingAdmissionPolicyBinding option \<Rightarrow> writeOptions \<Rightarrow> 'w \<Rightarrow> (validatingAdmissionPolicyBinding result \<times> 'w) outcome" where
  "validatingAdmissionPolicyBindings_Update c object opts w =
     (case object of
        None \<Rightarrow> Panics ''nil pointer dereference''
      | Some x \<Rightarrow>
          Returns (do_into c (BindingObj zero_binding) as_binding
            (req_Body c (BodyObject (Some (BindingObj x)))
            (req_VersionedParams (rc_ParameterCodec c (UpdateOptions opts))
            (req_Name (om_name (vapb_ObjectMeta x))
            (req_Resource ''validatingadmissionpolicybindings'' (rest_Put c))))) w))"

definition validatingAdmissionPolicyBindings_Delete :: "('b, 'w) rest \<Rightarrow> string \<Rightarrow> deleteOptions \<Rightarrow> 'w \<Rightarrow> go_error option \<times> 'w" where
  "validatingAdmissionPolicyBindings_Delete c name opts w =
     do_error c
       (req_Body c (BodyObject (Some (DeleteOptionsObj opts)))
       (req_Name name
       (req_Resource ''validatingadmissionpolicybindings'' (rest_Delete c)))) w"

definition validatingAdmissionPolicyBindings_DeleteCollection ::
  "('b, 'w) rest \<Rightarrow> deleteOptions \<Rightarrow> listOptions \<Rightarrow> 'w \<Rightarrow> go_error option \<times> 'w" where
  "validatingAdmissionPolicyBindings_DeleteCollection c opts listOpts w =
     do_error c
       (req_Body c (BodyObject (Some (DeleteOptionsObj opts)))
       (req_Timeout (list_timeout listOpts)
       (req_VersionedParams (rc_ParameterCodec c (ListOptions listOpts))
       (req_Resource ''validatingadmissionpolicybindings'' (rest_Delete c))))) w"

definition validatingAdmissionPolicyBindings_Patch ::
  "('b, 'w) rest \<Rightarrow> string \<Rightarrow> string \<Rightarrow> 'b \<Rightarrow> writeOptions \<Rightarrow> bool option \<Rightarrow> string list \<Rightarrow> 'w
   \<Rightarrow> validatingAdmissionPolicyBinding result \<times> 'w" where
  "validatingAdmissionPolicyBindings_Patch c name pt data opts force subresources w =
     do_into c (BindingObj zero_binding) as_binding
       (req_Body c (BodyBytes data)
       (req_VersionedParams (rc_ParameterCodec c (PatchOptions opts force))
       (req_SubResource subresources
       (req_Name name
       (req_Resource ''validatingadmissionpolicybindings'' (rest_Patch c pt)))))) w"

text \<open>The methods as a client.\<close>

definition validatingAdmissionPolicyBindings :: "('b, 'w) rest \<Rightarrow> (validatingAdmissionPolicyBinding, validatingAdmissionPolicyBinding, call_options, 'w) client" where
  "validatingAdmissionPolicyBindings c =
     \<lparr>cl_Create = (\<lambda>object opts w. Returns (validatingAdmissionPolicyBindings_Create c object (co_Create opts) w)),
      cl_Update = (\<lambda>object opts w. validatingAdmissionPolicyBindings_Update c object (co_Update opts) w),
      cl_UpdateStatus = None,
      cl_Delete = (\<lambda>name opts w. Returns (validatingAdmissionPolicyBindings_Delete c name (co_Delete opts) w)),
      cl_DeleteCollection = (\<lambda>opts listOpts w.
        Returns (validatingAdmissionPolicyBindings_DeleteCollection c (co_Delete opts) (co_List listOpts) w)),
      cl_Get = (\<lambda>name opts w. Returns (validatingAdmissionPolicyBindings_Get c name (co_Get opts) w)),
      cl_List = (\<lambda>opts w. Returns (map_prod (map_prod (map_option binding_klist) id) id
        (validatingAdmissionPolicyBindings_List c (co_List opts) w))),
      cl_Watch = (\<lambda>opts w. Returns (map_prod (map_prod (map_option (map binding_event)) id) id
        (validatingAdmissionPolicyBindings_Watch c (co_List opts) w)))\<rparr>"

section \<open>The client of the group\<close>

text \<open>
  A REST configuration as the clients read it. \<open>'q\<close> is the type of rates, \<open>'lim\<close> is a rate limiter, \<open>'ser\<close> a serializer, \<open>'rest\<close>
  what of the configuration goes to the transport.
\<close>

record ('q, 'lim, 'ser, 'rest) config =
  cfg_Host :: string
  cfg_APIPath :: string
  cfg_GroupVersion :: "gvk option"
  cfg_NegotiatedSerializer :: "'ser option"
  cfg_UserAgent :: string
  cfg_QPS :: 'q
  cfg_Burst :: int
  cfg_RateLimiter :: "'lim option"
  cfg_Transport :: 'rest

text \<open>
  The functions of the client library: the user agent, \<open>scheme.Codecs.WithoutConversion()\<close>, the HTTP
  client of a configuration, REST and discovery clients on it, and token buckets.
\<close>

record ('q, 'lim, 'ser, 'rest, 'h, 'c, 'd) rest_lib =
  rl_UserAgent :: string
  rl_Codecs :: 'ser
  rl_HTTPClientFor :: "('q, 'lim, 'ser, 'rest) config \<Rightarrow> go_error + 'h"
  rl_RESTClientForConfigAndClient :: "('q, 'lim, 'ser, 'rest) config \<Rightarrow> 'h \<Rightarrow> go_error + 'c"
  rl_NewDiscoveryClient :: "('q, 'lim, 'ser, 'rest) config \<Rightarrow> 'h \<Rightarrow> go_error + 'd"
  rl_DiscoveryFor :: "'c \<Rightarrow> 'd"
  rl_NewTokenBucket :: "'q \<Rightarrow> int \<Rightarrow> 'lim"

definition SchemeGroupVersion :: gvk where
  "SchemeGroupVersion = with_kind []"

text \<open>The path of a group version, of the vendored \<open>rest\<close> package.\<close>

definition DefaultVersionedAPIPath :: "string \<Rightarrow> gvk \<Rightarrow> string" where
  "DefaultVersionedAPIPath apiPath groupVersion =
     (let versionedAPIPath = path_Join [''/'', apiPath] in
      if gvk_Group groupVersion \<noteq> []
      then path_Join [versionedAPIPath, gvk_Group groupVersion, gvk_Version groupVersion]
      else path_Join [versionedAPIPath, gvk_Version groupVersion])"

definition setConfigDefaults ::
  "('q, 'lim, 'ser, 'rest, 'h, 'c, 'd) rest_lib \<Rightarrow> ('q, 'lim, 'ser, 'rest) config \<Rightarrow> ('q, 'lim, 'ser, 'rest) config" where
  "setConfigDefaults lib config =
     (let config = config\<lparr>cfg_GroupVersion := Some SchemeGroupVersion, cfg_APIPath := ''/apis'',
                      cfg_NegotiatedSerializer := Some (rl_Codecs lib)\<rparr>
      in if cfg_UserAgent config = [] then config\<lparr>cfg_UserAgent := rl_UserAgent lib\<rparr> else config)"

record 'c admissionregistrationV1alpha1Client =
  arc_restClient :: 'c

definition group_NewForConfigAndClient ::
  "('q, 'lim, 'ser, 'rest, 'h, 'c, 'd) rest_lib \<Rightarrow> ('q, 'lim, 'ser, 'rest) config \<Rightarrow> 'h
   \<Rightarrow> go_error + 'c admissionregistrationV1alpha1Client" where
  "group_NewForConfigAndClient lib c h =
     (case rl_RESTClientForConfigAndClient lib (setConfigDefaults lib c) h of
        Inl err \<Rightarrow> Inl err
      | Inr client \<Rightarrow> Inr \<lparr>arc_restClient = client\<rparr>)"

definition group_NewForConfig ::
  "('q, 'lim, 'ser, 'rest, 'h, 'c, 'd) rest_lib \<Rightarrow> ('q, 'lim, 'ser, 'rest) config
   \<Rightarrow> go_error + 'c admissionregistrationV1alpha1Client" where
  "group_NewForConfig lib c =
     (let config = setConfigDefaults lib c in
      (case rl_HTTPClientFor lib config of
         Inl err \<Rightarrow> Inl err
       | Inr httpClient \<Rightarrow> group_NewForConfigAndClient lib config httpClient))"

definition group_NewForConfigOrDie ::
  "('q, 'lim, 'ser, 'rest, 'h, 'c, 'd) rest_lib \<Rightarrow> ('q, 'lim, 'ser, 'rest) config
   \<Rightarrow> 'c admissionregistrationV1alpha1Client outcome" where
  "group_NewForConfigOrDie lib c =
     (case group_NewForConfig lib c of Inl err \<Rightarrow> Panics (error_text err) | Inr client \<Rightarrow> Returns client)"

definition group_New :: "'c \<Rightarrow> 'c admissionregistrationV1alpha1Client" where
  "group_New c = \<lparr>arc_restClient = c\<rparr>"

text \<open>A nil client has no REST client.\<close>

definition group_RESTClient :: "'c admissionregistrationV1alpha1Client option \<Rightarrow> 'c option" where
  "group_RESTClient c = map_option arc_restClient c"

text \<open>The getters \<open>ValidatingAdmissionPolicies()\<close> and \<open>ValidatingAdmissionPolicyBindings()\<close>.\<close>

definition group_clients ::
  "('b, 'w) rest admissionregistrationV1alpha1Client \<Rightarrow> (call_options, 'w) group_client" where
  "group_clients c =
     \<lparr>gc_Policies = validatingAdmissionPolicies (arc_restClient c),
      gc_Bindings = validatingAdmissionPolicyBindings (arc_restClient c)\<rparr>"

section \<open>The clientset\<close>

record ('c, 'd) clientset =
  cs_DiscoveryClient :: 'd
  cs_admissionregistrationV1alpha1 :: "'c admissionregistrationV1alpha1Client"

definition clientset_AdmissionregistrationV1alpha1 ::
  "('c, 'd) clientset \<Rightarrow> 'c admissionregistrationV1alpha1Client" where
  "clientset_AdmissionregistrationV1alpha1 c = cs_admissionregistrationV1alpha1 c"

definition clientset_Discovery :: "('c, 'd) clientset option \<Rightarrow> 'd option" where
  "clientset_Discovery c = map_option cs_DiscoveryClient c"

definition clientset_NewForConfigAndClient ::
  "('q::{zero, linorder}, 'lim, 'ser, 'rest, 'h, 'c, 'd) rest_lib \<Rightarrow> ('q, 'lim, 'ser, 'rest) config \<Rightarrow> 'h
   \<Rightarrow> go_error + ('c, 'd) clientset" where
  "clientset_NewForConfigAndClient lib c httpClient =
     (if cfg_RateLimiter c = None \<and> cfg_QPS c > 0 \<and> cfg_Burst c \<le> 0
      then Inl (Plain ''burst is required to be greater than 0 when RateLimiter is not set and QPS is set to greater than 0'')
      else
        (let configShallowCopy =
               (if cfg_RateLimiter c = None \<and> cfg_QPS c > 0
                then c\<lparr>cfg_RateLimiter := Some (rl_NewTokenBucket lib (cfg_QPS c) (cfg_Burst c))\<rparr> else c)
         in (case group_NewForConfigAndClient lib configShallowCopy httpClient of
               Inl err \<Rightarrow> Inl err
             | Inr arv1alpha1 \<Rightarrow>
                 (case rl_NewDiscoveryClient lib configShallowCopy httpClient of
                    Inl err \<Rightarrow> Inl err
                  | Inr disco \<Rightarrow>
                      Inr \<lparr>cs_DiscoveryClient = disco, cs_admissionregistrationV1alpha1 = arv1alpha1\<rparr>))))"

definition clientset_NewForConfig ::
  "('q::{zero, linorder}, 'lim, 'ser, 'rest, 'h, 'c, 'd) rest_lib \<Rightarrow> ('q, 'lim, 'ser, 'rest) config \<Rightarrow> go_error + ('c, 'd) clientset" where
  "clientset_NewForConfig lib c =
     (let configShallowCopy = (if cfg_UserAgent c = [] then c\<lparr>cfg_UserAgent := rl_UserAgent lib\<rparr> else c) in
      (case rl_HTTPClientFor lib configShallowCopy of
         Inl err \<Rightarrow> Inl err
       | Inr httpClient \<Rightarrow> clientset_NewForConfigAndClient lib configShallowCopy httpClient))"

definition clientset_NewForConfigOrDie ::
  "('q::{zero, linorder}, 'lim, 'ser, 'rest, 'h, 'c, 'd) rest_lib \<Rightarrow> ('q, 'lim, 'ser, 'rest) config \<Rightarrow> ('c, 'd) clientset outcome" where
  "clientset_NewForConfigOrDie lib c =
     (case clientset_NewForConfig lib c of Inl err \<Rightarrow> Panics (error_text err) | Inr cs \<Rightarrow> Returns cs)"

definition clientset_New ::
  "('q, 'lim, 'ser, 'rest, 'h, 'c, 'd) rest_lib \<Rightarrow> 'c \<Rightarrow> ('c, 'd) clientset" where
  "clientset_New lib c =
     \<lparr>cs_DiscoveryClient = rl_DiscoveryFor lib c, cs_admissionregistrationV1alpha1 = group_New c\<rparr>"

end
