(* ===== verification/Rest_Properties.thy ===== *)
theory Rest_Properties
  imports Rest_Client
begin

text \<open>
  What the generated REST clients send and what they make of the answers: the requests of every call,
  with names that stay in their place of the path and a bounded number of attempts; and, over an
  API server that serves the collection, every call is the server's own step.
\<close>

section \<open>What is sent\<close>

text \<open>
  The requests a world has seen: \<open>seen\<close> is an observation that grows with every request the
  transport is given, and only then.
\<close>

definition observes :: "('b, 'w) rest \<Rightarrow> ('w \<Rightarrow> 'b http_request list) \<Rightarrow> bool" where
  "observes c seen \<longleftrightarrow>
     (\<forall>req w. seen (snd (rc_Do c req w)) = seen w @ [req]) \<and>
     (\<forall>wait w. rc_RateLimiter c = Some wait \<longrightarrow> seen (snd (wait w)) = seen w)"

lemma observes_Do: "observes c seen \<Longrightarrow> rc_Do c req w = (a, w') \<Longrightarrow> seen w' = seen w @ [req]"
  by (metis observes_def snd_conv)

lemma observes_throttle: "observes c seen \<Longrightarrow> tryThrottle c w = (e, w') \<Longrightarrow> seen w' = seen w"
  by (auto simp: observes_def tryThrottle_def Let_def split: option.splits prod.splits) (metis snd_conv)

lemma observes_Before: "observes c seen \<Longrightarrow> retry_Before c rt w = (r, w') \<Longrightarrow> seen w' = seen w"
  by (auto simp: retry_Before_def split: option.splits if_splits prod.splits dest: observes_throttle)

lemma Before_attempts: "retry_Before c rt w = ((e, rt'), w') \<Longrightarrow> rt_attempts rt' = rt_attempts rt"
  by (auto simp: retry_Before_def trackPreviousError_def split: option.splits if_splits prod.splits)

lemma IsNextRetry_attempts:
  "IsNextRetry m f a rt = (again, rt') \<Longrightarrow>
     rt_attempts rt' = Suc (rt_attempts rt) \<and> (again \<longrightarrow> Suc (rt_attempts rt) \<le> m)"
  by (auto simp: IsNextRetry_def trackPreviousError_def Let_def)

text \<open>The loop sends one and the same request, at most once more than it may retry.\<close>

lemma request_loop_sends:
  "observes c seen \<Longrightarrow> rt_attempts rt \<le> m \<Longrightarrow> request_loop c m f req rt w = (e, w') \<Longrightarrow>
    \<exists>k. seen w' = seen w @ replicate k req \<and> k + rt_attempts rt \<le> Suc m"
proof (induction "m - rt_attempts rt" arbitrary: rt w rule: less_induct)
  case less
  obtain e1 rt1 w1 where B: "retry_Before c rt w = ((e1, rt1), w1)" by (metis prod.exhaust)
  note w1 = observes_Before [OF less.prems(1) B] and rt1 = Before_attempts [OF B]
  show ?case
  proof (cases e1)
    case (Some err)
    then have "seen w' = seen w" using less.prems(3) B w1 by (simp add: request_loop.simps [of c])
    then show ?thesis using less.prems(2) by (intro exI [of _ 0]) simp
  next
    case None
    obtain a w2 where D: "rc_Do c req w1 = (a, w2)" by fastforce
    obtain again rt2 where N: "IsNextRetry m f a (retry_After rt1) = (again, rt2)" by fastforce
    have rt2: "rt_attempts rt2 = Suc (rt_attempts rt)" "again \<longrightarrow> Suc (rt_attempts rt) \<le> m"
      using IsNextRetry_attempts [OF N] rt1 by (simp_all add: retry_After_def)
    have w2: "seen w2 = seen w @ [req]" using observes_Do [OF less.prems(1) D] w1 by simp
    have step: "request_loop c m f req rt w = (if again then request_loop c m f req rt2 w2 else (Answered a rt2, w2))"
      using B None D N by (subst request_loop.simps) simp
    show ?thesis
    proof (cases again)
      case True
      then have "\<exists>k. seen w' = seen w2 @ replicate k req \<and> k + rt_attempts rt2 \<le> Suc m"
        using less.hyps [of rt2 w2] less.prems rt2 step by simp
      then obtain k where "seen w' = seen w2 @ replicate k req" "k + rt_attempts rt2 \<le> Suc m" by blast
      then show ?thesis using w2 rt2(1) by (intro exI [of _ "Suc k"]) simp
    next
      case False
      then show ?thesis using less.prems step w2 by (intro exI [of _ 1]) simp
    qed
  qed
qed

text \<open>A request that has an error is not sent; any other is sent as it is, at most eleven times.\<close>

lemma Do_sends:
  assumes "observes c seen" and "req_Do c r w = (res, w')"
  shows "\<exists>k deadline. seen w' = seen w @ replicate k (newHTTPRequest deadline r) \<and> k \<le> Suc (rr_maxRetries r) \<and>
    (rr_err r \<noteq> None \<longrightarrow> k = 0)"
proof (cases "rr_err r \<noteq> None \<or> requestPreflightCheck r \<noteq> None")
  case True
  then have "w' = w" using assms(2) by (cases "rr_err r") (auto simp: req_Do_def req_request_def)
  then show ?thesis by (intro exI [of _ 0]) simp
next
  case False
  obtain e1 w1 where T: "tryThrottle c w = (e1, w1)" by fastforce
  note w1 = observes_throttle [OF assms(1) T]
  show ?thesis
  proof (cases e1)
    case (Some err)
    then show ?thesis using assms(2) False T w1 by (auto simp: req_Do_def req_request_def intro!: exI [of _ 0])
  next
    case None
    let ?d = "if 0 <s rr_timeout r then rr_timeout r else 0"
    obtain e2 w2 where L: "request_loop c (rr_maxRetries r) (request_retryable c (rr_verb r)) (newHTTPRequest ?d r)
        new_retry w1 = (e2, w2)" by fastforce
    have "w2 = w'"
      using assms(2) False T None L
      by (auto simp: req_Do_def req_request_def Let_def split: loop_end.splits sum.splits)
    with request_loop_sends [OF assms(1) _ L] w1 False show ?thesis
      by (auto simp: new_retry_def intro!: exI [of _ ?d])
  qed
qed

section \<open>Paths\<close>

definition base_path :: "('b, 'w) rest \<Rightarrow> string" where
  "base_path c =
     (case rc_base c of Some base \<Rightarrow> path_Join [''/'', base, rc_versionedAPIPath c]
      | None \<Rightarrow> path_Join [''/'', rc_versionedAPIPath c])"

lemma base_path_rooted:
  obtains ss where "base_path c = rooted ss" "list_all plain_segment ss"
proof (cases "rc_base c")
  case None
  then show ?thesis using that path_Join_rooted [of "''/''" "[]" "[rc_versionedAPIPath c]"]
    by (auto simp: base_path_def)
next
  case (Some base)
  then show ?thesis using that path_Join_rooted [of "''/''" "[]" "[base, rc_versionedAPIPath c]"]
    by (auto simp: base_path_def)
qed

text \<open>A name the builder takes is one segment of the path.\<close>

definition valid_name :: "string \<Rightarrow> bool" where
  "valid_name n \<longleftrightarrow> n \<noteq> [] \<and> IsValidPathSegmentName n = []"

lemma contains_char: "contains s [x] \<longleftrightarrow> x \<in> set s"
  by (induction s) auto

lemma valid_name_iff: "valid_name n \<longleftrightarrow> plain_segment n \<and> CHR ''%'' \<notin> set n"
  by (auto simp: valid_name_def IsValidPathSegmentName_def NameMayNotBe_def NameMayNotContain_def
      plain_segment_def contains_char split: list.splits)

text \<open>The parts of a request of this API: started by a client, for a resource, possibly with a name.\<close>

definition api_request :: "('b, 'w) rest \<Rightarrow> string \<Rightarrow> string \<Rightarrow> string option \<Rightarrow> 'b request \<Rightarrow> bool" where
  "api_request c verb resource name r \<longleftrightarrow>
     rr_verb r = verb \<and> rr_maxRetries r = 10 \<and> rr_pathPrefix r = base_path c \<and> rr_subpath r = [] \<and>
     \<not> rr_namespaceSet r \<and> rr_resource r = resource \<and>
     rr_resourceName r = (case name of None \<Rightarrow> [] | Some n \<Rightarrow> n) \<and> rr_subresource r = [] \<and>
     (case name of None \<Rightarrow> True | Some n \<Rightarrow> valid_name n)"

lemma api_request_path:
  assumes "api_request c verb resource name r" and "base_path c = rooted ss" "list_all plain_segment ss"
    and "plain_segment resource" "to_lower resource = resource"
  shows "req_path r = rooted (ss @ resource # (case name of None \<Rightarrow> [] | Some n \<Rightarrow> [n]))"
proof -
  have res: "path_Join [rooted ss, resource] = rooted (ss @ [resource])"
    using path_Join_plain [OF assms(3), of "[[resource]]"] assms(4) by simp
  have "path_Join [rooted (ss @ [resource]), n, [], []] = rooted ((ss @ [resource]) @ [n])" if "plain_segment n" for n
    using path_Join_plain [of "ss @ [resource]" "[[n], [], []]"] assms(3,4) that by simp
  then show ?thesis
    using assms res by (auto simp: req_path_def api_request_def plain_segment_def valid_name_iff split: option.splits)
qed

text \<open>The steps of a builder keep the parts of a request; a step that fails has an error.\<close>

lemma started: "rr_err (rest_Verb c verb) = None"
  "rr_verb (rest_Verb c verb) = verb" "rr_maxRetries (rest_Verb c verb) = 10"
  "rr_pathPrefix (rest_Verb c verb) = base_path c" "rr_subpath (rest_Verb c verb) = []"
  "\<not> rr_namespaceSet (rest_Verb c verb)" "rr_resource (rest_Verb c verb) = []"
  "rr_resourceName (rest_Verb c verb) = []" "rr_subresource (rest_Verb c verb) = []"
  "rr_bodyBytes (rest_Verb c verb) = None"
  by (simp_all add: rest_Verb_def req_Verb_def NewRequest_def req_SetHeader_def base_path_def Let_def)

lemma api_Resource:
  assumes "valid_name resource"
  shows "api_request c verb resource None (req_Resource resource (rest_Verb c verb))"
    and "rr_err (req_Resource resource (rest_Verb c verb)) = None"
    and "rr_bodyBytes (req_Resource resource (rest_Verb c verb)) = None"
  using assms started [of c verb]
  by (auto simp: api_request_def req_Resource_def unless_failed_def valid_name_def)

lemma api_Name:
  assumes "api_request c verb resource None r" "rr_err r = None"
  shows "valid_name n \<Longrightarrow> rr_err (req_Name n r) = None \<and> api_request c verb resource (Some n) (req_Name n r)"
    and "\<not> valid_name n \<Longrightarrow> rr_err (req_Name n r) \<noteq> None"
    and "rr_bodyBytes (req_Name n r) = rr_bodyBytes r"
  using assms by (auto simp: req_Name_def unless_failed_def api_request_def valid_name_def fail_with_def)

lemma api_steps [simp]:
  "api_request c verb resource name (req_VersionedParams e r) = api_request c verb resource name r"
  "api_request c verb resource name (req_Timeout d r) = api_request c verb resource name r"
  "api_request c verb resource name (req_Body c b r) = api_request c verb resource name r"
  by (auto simp: api_request_def req_VersionedParams_def req_Timeout_def req_Body_def req_SetHeader_def
      unless_failed_def split: sum.split body_arg.split option.split)

lemma err_steps:
  "rr_err r \<noteq> None \<Longrightarrow> req_VersionedParams e r = r"
  "rr_err r \<noteq> None \<Longrightarrow> req_Timeout d r = r"
  "rr_err r \<noteq> None \<Longrightarrow> req_Body c b r = r"
  by (simp_all add: req_VersionedParams_def req_Timeout_def req_Body_def unless_failed_def)

section \<open>The requests of the typed clients\<close>

text \<open>The request of each call of a typed client, with the options it passes on.\<close>

fun call_request ::
  "('b, 'w) rest \<Rightarrow> string \<Rightarrow> ('x \<Rightarrow> api_object) \<Rightarrow> ('x \<Rightarrow> string) \<Rightarrow> call_options \<Rightarrow> 'x call \<Rightarrow> 'b request" where
  "call_request c resource obj_of key opts (CallCreate x) =
     req_Body c (BodyObject (Some (obj_of x)))
       (req_VersionedParams (rc_ParameterCodec c (CreateOptions (co_Create opts)))
         (req_Resource resource (rest_Post c)))"
| "call_request c resource obj_of key opts (CallUpdate x) =
     req_Body c (BodyObject (Some (obj_of x)))
       (req_VersionedParams (rc_ParameterCodec c (UpdateOptions (co_Update opts)))
         (req_Name (key x) (req_Resource resource (rest_Put c))))"
| "call_request c resource obj_of key opts (CallGet n) =
     req_VersionedParams (rc_ParameterCodec c (GetOptions (co_Get opts)))
       (req_Name n (req_Resource resource (rest_Get c)))"
| "call_request c resource obj_of key opts (CallDelete n) =
     req_Body c (BodyObject (Some (DeleteOptionsObj (co_Delete opts))))
       (req_Name n (req_Resource resource (rest_Delete c)))"
| "call_request c resource obj_of key opts CallList =
     req_Timeout (list_timeout (co_List opts))
       (req_VersionedParams (rc_ParameterCodec c (ListOptions (co_List opts)))
         (req_Resource resource (rest_Get c)))"

fun call_verb :: "'x call \<Rightarrow> string" where
  "call_verb (CallCreate x) = ''POST''"
| "call_verb (CallUpdate x) = ''PUT''"
| "call_verb (CallGet n) = ''GET''"
| "call_verb (CallDelete n) = ''DELETE''"
| "call_verb CallList = ''GET''"

text \<open>The name a call puts into the path.\<close>

fun call_name :: "('x \<Rightarrow> string) \<Rightarrow> 'x call \<Rightarrow> string option" where
  "call_name key (CallUpdate x) = Some (key x)"
| "call_name key (CallGet n) = Some n"
| "call_name key (CallDelete n) = Some n"
| "call_name key _ = None"

definition call_valid :: "('x \<Rightarrow> string) \<Rightarrow> 'x call \<Rightarrow> bool" where
  "call_valid key cl \<longleftrightarrow> (case call_name key cl of None \<Rightarrow> True | Some n \<Rightarrow> valid_name n)"

lemma call_request_api:
  assumes "valid_name resource"
  shows "if call_valid key cl
    then api_request c (call_verb cl) resource (call_name key cl) (call_request c resource obj_of key opts cl)
    else rr_err (call_request c resource obj_of key opts cl) \<noteq> None"
proof -
  have verbs: "rest_Post c = rest_Verb c ''POST''" "rest_Put c = rest_Verb c ''PUT''"
    "rest_Get c = rest_Verb c ''GET''" "rest_Delete c = rest_Verb c ''DELETE''" for c :: "('b, 'w) rest"
    by (simp_all add: rest_Post_def rest_Put_def rest_Get_def rest_Delete_def)
  note R = api_Resource [OF assms] and N = api_Name [OF api_Resource(1) [OF assms] api_Resource(2) [OF assms]]
  show ?thesis
  proof (cases "call_name key cl")
    case None
    then show ?thesis using R by (cases cl) (auto simp: call_valid_def verbs)
  next
    case (Some n)
    show ?thesis
    proof (cases "valid_name n")
      case True
      then show ?thesis using Some N(1) by (cases cl) (auto simp: call_valid_def verbs)
    next
      case False
      then have "\<And>verb. rr_err (req_Name n (req_Resource resource (rest_Verb c verb))) \<noteq> None" using N(2) by blast
      then show ?thesis
        using Some False by (cases cl) (auto simp: call_valid_def verbs err_steps)
    qed
  qed
qed

text \<open>A typed client: its methods are the requests above with what they make of the result.\<close>

locale rest_kind =
  fixes c :: "('b, 'w) rest" and resource :: string and obj_of :: "'x \<Rightarrow> api_object"
    and of_obj :: "api_object \<Rightarrow> 'x option" and key :: "'x \<Rightarrow> string" and zero :: api_object
    and zero_list :: api_object and of_list :: "api_object \<Rightarrow> 'x slice option"
    and cl :: "('x, 'x, call_options, 'w) client"
  assumes of_obj_of: "of_obj (obj_of x) = Some x"
    and resource_name: "valid_name resource" "to_lower resource = resource"
    and object_calls: "k \<noteq> CallList \<Longrightarrow> (\<forall>n. k \<noteq> CallDelete n) \<Longrightarrow>
      client_call cl opts k w = reply_of (do_into c zero of_obj (call_request c resource obj_of key opts k) w)"
    and delete_call: "client_call cl opts (CallDelete n) w =
      reply_done (do_error c (call_request c resource obj_of key opts (CallDelete n)) w)"
    and list_world: "client_call cl opts CallList w = (a, w') \<Longrightarrow>
      \<exists>res. req_Do c (call_request c resource obj_of key opts CallList) w = (res, w')"
    and list_call: "req_Do c (call_request c resource obj_of key opts CallList) w = (res, w') \<Longrightarrow>
      res_Into zero_list res = (obj, None) \<Longrightarrow> of_list obj = Some s \<Longrightarrow>
      client_call cl opts CallList w = (ReplyItems (elems s), w')"
    and list_error: "req_Do c (call_request c resource obj_of key opts CallList) w = (res, w') \<Longrightarrow>
      res_Into zero_list res = (obj, Some e) \<Longrightarrow> client_call cl opts CallList w = (ReplyErr e, w')"
begin

lemma call_sends:
  assumes "observes c seen" and "client_call cl opts k w = (a, w')"
    and "base_path c = rooted ss" "list_all plain_segment ss"
  shows "\<exists>rs. seen w' = seen w @ rs \<and> length rs \<le> 11 \<and>
    list_all (\<lambda>r. call_valid key k \<and> hq_Method r = call_verb k \<and>
      hq_Path r = rooted (ss @ resource # (case call_name key k of None \<Rightarrow> [] | Some n \<Rightarrow> [n]))) rs"
proof -
  let ?r = "call_request c resource obj_of key opts k"
  obtain res where "req_Do c ?r w = (res, w')"
  proof (cases "k = CallList \<or> (\<exists>n. k = CallDelete n)")
    case True
    then show ?thesis using that assms(2) list_world [of opts w a w'] delete_call [of opts _ w]
      by (auto simp: do_error_def reply_defs Let_def split: prod.splits option.splits)
  next
    case False
    then show ?thesis using that assms(2) object_calls [of k opts w]
      by (auto simp: do_into_def reply_defs Let_def split: prod.splits option.splits)
  qed
  from Do_sends [OF assms(1) this] obtain n d where
    n: "seen w' = seen w @ replicate n (newHTTPRequest d ?r)" "n \<le> Suc (rr_maxRetries ?r)" "rr_err ?r \<noteq> None \<longrightarrow> n = 0"
    by blast
  have plain: "plain_segment resource" using resource_name by (simp add: valid_name_iff)
  show ?thesis
  proof (cases "call_valid key k")
    case True
    then have api: "api_request c (call_verb k) resource (call_name key k) ?r"
      using call_request_api [OF resource_name(1), of key k c obj_of opts] by simp
    then show ?thesis
      using n api_request_path [OF api assms(3,4) plain resource_name(2)] True
      by (intro exI [of _ "replicate n (newHTTPRequest d ?r)"])
         (auto simp: list_all_iff newHTTPRequest_def api_request_def)
  next
    case False
    then have "n = 0" using n(3) call_request_api [OF resource_name(1), of key k c obj_of opts] by simp
    then show ?thesis using n(1) by auto
  qed
qed

end

section \<open>Over a server that serves the collection\<close>

text \<open>
  How an answer of the server presents a reply: an object or a list as a body that decodes to it,
  an error as a status with the failure it names. It does not ask to be tried again.
\<close>

definition presents ::
  "('b, 'w) rest \<Rightarrow> api_object \<Rightarrow> ('x \<Rightarrow> api_object) \<Rightarrow> api_object \<Rightarrow> (api_object \<Rightarrow> 'x slice option)
   \<Rightarrow> 'b http_answer \<Rightarrow> 'x reply \<Rightarrow> bool" where
  "presents c zero obj_of zero_list of_list ans a \<longleftrightarrow> \<not> checkWait ans \<and>
     (\<exists>body dec. ha_Body ans = BodyRead (Some body) \<and> ha_ContentType ans \<noteq> [] \<and>
        rc_Decoder c (ha_ContentType ans) = Decoder dec \<and>
        (case a of
           ReplyObj (Some x) \<Rightarrow> \<not> failed_status (ha_StatusCode ans) \<and> dec body (Some zero) = DecodedInto (obj_of x)
         | ReplyItems xs \<Rightarrow> \<not> failed_status (ha_StatusCode ans) \<and>
             (\<exists>obj s. dec body (Some zero_list) = DecodedInto obj \<and> of_list obj = Some s \<and> elems s = xs)
         | ReplyDone \<Rightarrow> \<not> failed_status (ha_StatusCode ans)
         | ReplyErr e \<Rightarrow> failed_status (ha_StatusCode ans) \<and>
             (\<exists>st. e = StatusErr st \<and> st_Status st = ''Failure'' \<and> dec body None = DecodedOther (StatusObj st))
         | _ \<Rightarrow> False))"

text \<open>
  The request of the API for a call with its options: verb, path, the parameters the options encode to, and
  the object for the calls that send one (a deletion sends its options).
\<close>

fun call_params :: "call_options \<Rightarrow> 'x call \<Rightarrow> api_options option" where
  "call_params opts (CallCreate x) = Some (CreateOptions (co_Create opts))"
| "call_params opts (CallUpdate x) = Some (UpdateOptions (co_Update opts))"
| "call_params opts (CallGet n) = Some (GetOptions (co_Get opts))"
| "call_params opts (CallDelete n) = None"
| "call_params opts CallList = Some (ListOptions (co_List opts))"

fun call_object :: "('x \<Rightarrow> api_object) \<Rightarrow> call_options \<Rightarrow> 'x call \<Rightarrow> api_object option" where
  "call_object obj_of opts (CallCreate x) = Some (obj_of x)"
| "call_object obj_of opts (CallUpdate x) = Some (obj_of x)"
| "call_object obj_of opts (CallDelete n) = Some (DeleteOptionsObj (co_Delete opts))"
| "call_object obj_of opts cl = None"

definition asks ::
  "('b, 'w) rest \<Rightarrow> string \<Rightarrow> ('x \<Rightarrow> api_object) \<Rightarrow> ('x \<Rightarrow> string) \<Rightarrow> call_options \<Rightarrow> 'x call
   \<Rightarrow> 'b http_request \<Rightarrow> bool" where
  "asks c resource obj_of key opts cl req \<longleftrightarrow>
     hq_Method req = call_verb cl \<and>
     hq_Path req = path_Join (base_path c # resource # (case call_name key cl of None \<Rightarrow> [] | Some n \<Rightarrow> [n])) \<and>
     Inr (hq_Query req) = (case call_params opts cl of None \<Rightarrow> Inr (\<lambda>k. []) | Some o' \<Rightarrow> rc_ParameterCodec c o') \<and>
     map_option Inr (hq_Body req) = map_option (rc_Encode c) (call_object obj_of opts cl)"

text \<open>The replies a call can have: an error, or what the call is for.\<close>

fun reply_fits :: "'x call \<Rightarrow> 'x reply \<Rightarrow> bool" where
  "reply_fits cl (ReplyErr e) = True"
| "reply_fits CallList (ReplyItems xs) = True"
| "reply_fits (CallDelete n) ReplyDone = True"
| "reply_fits (CallCreate x) (ReplyObj (Some y)) = True"
| "reply_fits (CallUpdate x) (ReplyObj (Some y)) = True"
| "reply_fits (CallGet n) (ReplyObj (Some y)) = True"
| "reply_fits cl a = False"

text \<open>
  A client in front of an API server \<open>srv\<close>, an arbitrary state machine over the objects of the collection:
  it may assign identities and versions, refuse stale updates, admit objects in another form, answer any call
  with an error, heed the options. Of the server this only says that it speaks the REST conventions, that is
  that its reply to the request for a call comes back as a status and a body that decodes to it; of the client, that
  options and objects of the scheme encode, that the context is alive and that the limiter lets requests pass.
\<close>

definition rest_server ::
  "('b, 'w) rest \<Rightarrow> string \<Rightarrow> api_object \<Rightarrow> ('x \<Rightarrow> api_object) \<Rightarrow> api_object \<Rightarrow> (api_object \<Rightarrow> 'x slice option)
   \<Rightarrow> ('x \<Rightarrow> string) \<Rightarrow> (call_options \<Rightarrow> 'x call \<Rightarrow> 's \<Rightarrow> 'x reply \<times> 's) \<Rightarrow> ('w \<Rightarrow> 's) \<Rightarrow> ('w \<Rightarrow> bool) \<Rightarrow> bool" where
  "rest_server c resource zero obj_of zero_list of_list key srv view good \<longleftrightarrow>
     (\<forall>w. good w \<longrightarrow> rc_CtxErr c w = None) \<and>
     (\<forall>wait w. rc_RateLimiter c = Some wait \<longrightarrow> good w \<longrightarrow>
        (\<exists>w'. wait w = (None, w') \<and> good w' \<and> view w' = view w)) \<and>
     (\<forall>options. \<exists>ps. rc_ParameterCodec c options = Inr ps) \<and>
     (\<forall>obj. \<exists>b. rc_Encode c obj = Inr b) \<and>
     (\<forall>opts cl w req. good w \<longrightarrow> call_valid key cl \<longrightarrow> asks c resource obj_of key opts cl req \<longrightarrow>
        (\<exists>ans w'. rc_Do c req w = (Inr ans, w') \<and> good w' \<and> reply_fits cl (fst (srv opts cl (view w))) \<and>
           presents c zero obj_of zero_list of_list ans (fst (srv opts cl (view w))) \<and>
           view w' = snd (srv opts cl (view w))))"

lemma Do_answered:
  assumes "rr_err r = None" "\<not> rr_namespaceSet r" and "tryThrottle c w = (None, w1)" "rc_CtxErr c w1 = None"
    and "rc_Do c (newHTTPRequest (if 0 <s rr_timeout r then rr_timeout r else 0) r) w1 = (Inr ans, w')"
    and "\<not> checkWait ans"
  shows "req_Do c r w = (transformResponse c r ans, w')"
  using assms
  by (simp add: req_Do_def req_request_def requestPreflightCheck_def request_loop.simps retry_Before_def
      new_retry_def IsNextRetry_def Let_def)

lemma built_call:
  assumes "\<And>options. \<exists>ps. rc_ParameterCodec c options = Inr ps" "\<And>obj. \<exists>b. rc_Encode c obj = Inr b"
    and "valid_name resource" "call_valid key cl"
  shows "rr_err (call_request c resource obj_of key opts cl) = None" (is ?noerr)
    and "map_option Inr (rr_bodyBytes (call_request c resource obj_of key opts cl)) =
      map_option (rc_Encode c) (call_object obj_of opts cl)" (is ?body)
    and "Inr (rr_params (call_request c resource obj_of key opts cl)) =
      (case call_params opts cl of None \<Rightarrow> Inr (\<lambda>k. []) | Some o' \<Rightarrow> rc_ParameterCodec c o')" (is ?params)
proof -
  have P: "rr_err (req_VersionedParams (rc_ParameterCodec c options) r) = rr_err r"
      "rr_bodyBytes (req_VersionedParams (rc_ParameterCodec c options) r) = rr_bodyBytes r"
      "rr_err r = None \<Longrightarrow> rr_params r = (\<lambda>k. []) \<Longrightarrow>
        Inr (rr_params (req_VersionedParams (rc_ParameterCodec c options) r)) = rc_ParameterCodec c options" for options r
    using assms(1) [of options] by (auto simp: req_VersionedParams_def unless_failed_def)
  have T: "rr_err (req_Timeout d r) = rr_err r" "rr_params (req_Timeout d r) = rr_params r"
      "rr_bodyBytes (req_Timeout d r) = rr_bodyBytes r" for d r
    by (simp_all add: req_Timeout_def unless_failed_def)
  have B: "rr_err (req_Body c (BodyObject (Some obj)) r) = rr_err r"
      "rr_params (req_Body c (BodyObject (Some obj)) r) = rr_params r"
      "rr_err r = None \<Longrightarrow> map_option Inr (rr_bodyBytes (req_Body c (BodyObject (Some obj)) r)) = Some (rc_Encode c obj)"
    for obj r
    using assms(2) [of obj] by (auto simp: req_Body_def unless_failed_def req_SetHeader_def)
  have R: "rr_params (req_Resource resource (rest_Verb c verb)) = (\<lambda>k. [])" for verb
    by (auto simp: req_Resource_def unless_failed_def fail_with_def rest_Verb_def req_Verb_def NewRequest_def
        req_SetHeader_def Let_def)
  have N: "rr_params (req_Name n r) = rr_params r" for n r
    by (simp add: req_Name_def unless_failed_def fail_with_def)
  note A = api_Resource [OF assms(3), of c]
    and M = api_Name [OF api_Resource(1) [OF assms(3), of c] api_Resource(2) [OF assms(3), of c]]
  note steps = P T B A R N M(1,3) call_valid_def rest_Post_def rest_Put_def rest_Get_def rest_Delete_def
  show ?noerr using assms(4) by (cases cl) (simp_all add: steps)
  show ?body using assms(4) by (cases cl) (simp_all add: steps)
  show ?params using assms(4) by (cases cl) (simp_all add: steps)
qed

context rest_kind
begin

lemma request_asks:
  assumes "\<And>options. \<exists>ps. rc_ParameterCodec c options = Inr ps" "\<And>obj. \<exists>b. rc_Encode c obj = Inr b"
    and "call_valid key k"
  shows "asks c resource obj_of key opts k (newHTTPRequest d (call_request c resource obj_of key opts k))"
proof -
  let ?r = "call_request c resource obj_of key opts k"
  obtain ss where ss: "base_path c = rooted ss" "list_all plain_segment ss" by (rule base_path_rooted)
  have plain: "plain_segment resource" using resource_name by (simp add: valid_name_iff)
  have api: "api_request c (call_verb k) resource (call_name key k) ?r"
    using call_request_api [OF resource_name(1), of key k c obj_of opts] assms(3) by simp
  have "req_path ?r = path_Join (base_path c # resource # (case call_name key k of None \<Rightarrow> [] | Some n \<Rightarrow> [n]))"
    using api_request_path [OF api ss plain resource_name(2)] assms(3) plain
      path_Join_plain [OF ss(2), of "[[resource]]"] path_Join_plain [OF ss(2), of "[[resource], [the (call_name key k)]]"]
    by (auto simp: ss(1) call_valid_def valid_name_iff split: option.splits)
  then show ?thesis
    using api built_call(2,3) [OF assms(1,2) resource_name(1) assms(3), of obj_of opts]
    by (simp add: asks_def newHTTPRequest_def api_request_def)
qed

text \<open>What a method makes of an answer is the reply it presents.\<close>

lemma presented_reply:
  assumes "presents c zero obj_of zero_list of_list ans a"
    and "req_Do c (call_request c resource obj_of key opts k) w =
      (transformResponse c (call_request c resource obj_of key opts k) ans, w')"
    and "reply_fits k a"
  shows "client_call cl opts k w = (a, w')"
proof -
  from assms(1) obtain body dec where
    b: "ha_Body ans = BodyRead (Some body)" "ha_ContentType ans \<noteq> []" "rc_Decoder c (ha_ContentType ans) = Decoder dec"
    by (auto simp: presents_def)
  let ?res = "transformResponse c (call_request c resource obj_of key opts CallList) ans"
  show ?thesis
  proof (cases "k = CallList")
    case True
    show ?thesis
    proof (cases a)
      case (ReplyItems xs)
      with assms(1) b obtain obj s where o: "dec body (Some zero_list) = DecodedInto obj" "of_list obj = Some s"
          "elems s = xs" "\<not> failed_status (ha_StatusCode ans)"
        by (auto simp: presents_def)
      have "res_Into zero_list ?res = (obj, None)"
        using b o by (simp add: transformResponse_def res_Into_def Let_def)
      from list_call [OF assms(2) [unfolded True] this o(2)] show ?thesis using True ReplyItems o(3) by simp
    next
      case (ReplyErr e)
      with assms(1) b obtain obj where "res_Into zero_list ?res = (obj, Some e)"
        by (auto simp: presents_def transformResponse_def res_Into_def res_Error_def Let_def)
      from list_error [OF assms(2) [unfolded True] this] show ?thesis using True ReplyErr by simp
    qed (use True assms(3) in simp_all)
  next
    case False
    show ?thesis
    proof (cases "\<exists>n. k = CallDelete n")
      case True
      then obtain n where k: "k = CallDelete n" by blast
      have "a = ReplyDone \<or> (\<exists>e. a = ReplyErr e)" using assms(3) k by (cases a) auto
      then show ?thesis
        using assms(1,2) b unfolding k delete_call
        by (auto simp: do_error_def presents_def transformResponse_def res_Error_def reply_defs)
    next
      case obj: False
      have "client_call cl opts k w = reply_of (do_into c zero of_obj (call_request c resource obj_of key opts k) w)"
        using False obj by (intro object_calls) auto
      moreover have "(\<exists>x. a = ReplyObj (Some x)) \<or> (\<exists>e. a = ReplyErr e)"
        using assms(3) False obj by (cases "(k, a)" rule: reply_fits.cases) auto
      ultimately show ?thesis
        using assms(1,2) b
        by (auto simp: do_into_def presents_def transformResponse_def res_Into_def res_Error_def reply_defs of_obj_of)
    qed
  qed
qed

text \<open>A call of the client is the step of the server.\<close>

lemma rest_server_call:
  assumes "rest_server c resource zero obj_of zero_list of_list key srv view good"
    and w: "good w" and valid: "call_valid key k"
  shows "\<exists>w'. client_call cl opts k w = (fst (srv opts k (view w)), w') \<and> view w' = snd (srv opts k (view w)) \<and> good w'"
proof -
  let ?r = "call_request c resource obj_of key opts k"
  have S: "\<And>w. good w \<Longrightarrow> rc_CtxErr c w = None" "\<And>options. \<exists>ps. rc_ParameterCodec c options = Inr ps"
      "\<And>obj. \<exists>b. rc_Encode c obj = Inr b"
      "\<And>wait w. rc_RateLimiter c = Some wait \<Longrightarrow> good w \<Longrightarrow> \<exists>w'. wait w = (None, w') \<and> good w' \<and> view w' = view w"
    and answers: "\<And>w req. good w \<Longrightarrow> asks c resource obj_of key opts k req \<Longrightarrow>
        \<exists>ans w'. rc_Do c req w = (Inr ans, w') \<and> good w' \<and> reply_fits k (fst (srv opts k (view w))) \<and>
           presents c zero obj_of zero_list of_list ans (fst (srv opts k (view w))) \<and>
           view w' = snd (srv opts k (view w))"
    using assms(1) valid unfolding rest_server_def by blast+
  obtain w1 where w1: "tryThrottle c w = (None, w1)" "good w1" "view w1 = view w"
    using S(4) [OF _ w] w by (cases "rc_RateLimiter c") (auto simp: tryThrottle_def)
  note asked = request_asks [OF S(2,3) valid, of opts]
  obtain ans w2 where ans: "rc_Do c (newHTTPRequest (if 0 <s rr_timeout ?r then rr_timeout ?r else 0) ?r) w1 = (Inr ans, w2)"
      "good w2" "reply_fits k (fst (srv opts k (view w)))"
      "presents c zero obj_of zero_list of_list ans (fst (srv opts k (view w)))"
      "view w2 = snd (srv opts k (view w))"
    using answers [OF w1(2) asked] unfolding w1(3) by blast
  have "\<not> rr_namespaceSet ?r"
    using call_request_api [OF resource_name(1), of key k c obj_of opts] valid by (simp add: api_request_def)
  moreover have "\<not> checkWait ans" using ans(4) by (simp add: presents_def)
  ultimately have "req_Do c ?r w = (transformResponse c ?r ans, w2)"
    using built_call(1) [OF S(2,3) resource_name(1) valid, of obj_of opts] w1 S(1) [OF w1(2)] ans(1) by (intro Do_answered)
  from presented_reply [OF ans(4) this ans(3)] ans(2,5) show ?thesis by blast
qed

end

section \<open>Both typed clients\<close>

definition policy_items :: "api_object \<Rightarrow> validatingAdmissionPolicy slice option" where
  "policy_items obj = map_option vapl_Items (as_policyList obj)"

definition binding_items :: "api_object \<Rightarrow> validatingAdmissionPolicyBinding slice option" where
  "binding_items obj = map_option vapbl_Items (as_bindingList obj)"

lemma resource_names:
  "valid_name ''validatingadmissionpolicies''" "to_lower ''validatingadmissionpolicies'' = ''validatingadmissionpolicies''"
  "valid_name ''validatingadmissionpolicybindings''"
  "to_lower ''validatingadmissionpolicybindings'' = ''validatingadmissionpolicybindings''"
  by code_simp+

interpretation rest_policies: rest_kind c "''validatingadmissionpolicies''" PolicyObj as_policy policy_key
  "PolicyObj zero_policy" "PolicyListObj zero_policyList" policy_items "validatingAdmissionPolicies c" for c
proof (unfold_locales, goal_cases)
  case (4 k opts w)
  then show ?case
    by (cases k) (simp_all add: validatingAdmissionPolicies_def validatingAdmissionPolicies_Create_def
        validatingAdmissionPolicies_Update_def validatingAdmissionPolicies_Get_def reply_unless_panic_def policy_key_def)
next
  case (6 opts w a w')
  then show ?case
    by (cases "req_Do c (call_request c ''validatingadmissionpolicies'' PolicyObj policy_key opts CallList) w")
       (auto simp: validatingAdmissionPolicies_def validatingAdmissionPolicies_List_def do_into_def reply_defs
        as_policyList_def Let_def split: prod.splits option.splits if_splits)
next
  case (7 opts w res w' obj s)
  then show ?case
    by (auto simp: validatingAdmissionPolicies_def validatingAdmissionPolicies_List_def do_into_def reply_defs
        policy_items_def policy_klist_def)
next
  case (8 opts w res w' obj e)
  then show ?case
    by (auto simp: validatingAdmissionPolicies_def validatingAdmissionPolicies_List_def do_into_def reply_defs as_policyList_def)
qed (simp_all add: as_policy_def resource_names validatingAdmissionPolicies_def
    validatingAdmissionPolicies_Delete_def reply_unless_panic_def)

interpretation rest_bindings: rest_kind c "''validatingadmissionpolicybindings''" BindingObj as_binding binding_key
  "BindingObj zero_binding" "BindingListObj zero_bindingList" binding_items "validatingAdmissionPolicyBindings c" for c
proof (unfold_locales, goal_cases)
  case (4 k opts w)
  then show ?case
    by (cases k) (simp_all add: validatingAdmissionPolicyBindings_def validatingAdmissionPolicyBindings_Create_def
        validatingAdmissionPolicyBindings_Update_def validatingAdmissionPolicyBindings_Get_def
        reply_unless_panic_def binding_key_def)
next
  case (6 opts w a w')
  then show ?case
    by (cases "req_Do c (call_request c ''validatingadmissionpolicybindings'' BindingObj binding_key opts CallList) w")
       (auto simp: validatingAdmissionPolicyBindings_def validatingAdmissionPolicyBindings_List_def do_into_def
        reply_defs as_bindingList_def Let_def split: prod.splits option.splits if_splits)
next
  case (7 opts w res w' obj s)
  then show ?case
    by (auto simp: validatingAdmissionPolicyBindings_def validatingAdmissionPolicyBindings_List_def do_into_def
        reply_defs binding_items_def binding_klist_def)
next
  case (8 opts w res w' obj e)
  then show ?case
    by (auto simp: validatingAdmissionPolicyBindings_def validatingAdmissionPolicyBindings_List_def do_into_def reply_defs as_bindingList_def)
qed (simp_all add: as_binding_def resource_names validatingAdmissionPolicyBindings_def
    validatingAdmissionPolicyBindings_Delete_def reply_unless_panic_def)

section \<open>Properties\<close>

text \<open>
  No call of the generated policy client leaves its place in the API. Whatever name it is
  given, every request it sends has the verb of the call and the path of the collection, below the
  base path of the client, with the name as one last segment for calls on one object; a
  name with a slash or a percent sign, a dot or two dots, or no name, sends nothing. A call sends at most
  eleven requests, all for that path.
\<close>

theorem rest_calls_stay_in_collection:
  assumes "observes c seen"
    and "client_call (validatingAdmissionPolicies c) opts call w = (reply, w')"
  shows "\<exists>ss rs. base_path c = rooted ss \<and> list_all plain_segment ss \<and>
    seen w' = seen w @ rs \<and> length rs \<le> 11 \<and>
    list_all (\<lambda>r. call_valid policy_key call \<and> hq_Method r = call_verb call \<and>
      hq_Path r = rooted (ss @ ''validatingadmissionpolicies'' #
        (case call_name policy_key call of None \<Rightarrow> [] | Some n \<Rightarrow> [n]))) rs"
proof -
  obtain ss where "base_path c = rooted ss" "list_all plain_segment ss" by (rule base_path_rooted)
  then show ?thesis using rest_policies.call_sends [OF assms] by blast
qed

text \<open>
  The timeout that \<open>List\<close>, \<open>Watch\<close> and \<open>DeleteCollection\<close> compute from \<open>TimeoutSeconds\<close> is that
  many seconds exactly as long as the nanoseconds fit 64 bits, which is up to 9223372036 seconds in
  either direction; beyond that it wraps around to another duration.
\<close>

theorem list_timeout_exact:
  "sint (list_timeout (opts\<lparr>lo_TimeoutSeconds := Some s\<rparr>)) = sint s * 1000000000 \<longleftrightarrow>
     \<bar>sint s\<bar> \<le> 9223372036"
proof -
  have "sint (1000000000 :: 64 word) = 1000000000" by code_simp
  then have "sint (s * 1000000000) = signed_take_bit 63 (sint s * 1000000000)"
    unfolding sint_word_ariths(3) by simp
  then have "sint (list_timeout (opts\<lparr>lo_TimeoutSeconds := Some s\<rparr>)) = sint s * 1000000000 \<longleftrightarrow>
      - (2 ^ 63) \<le> sint s * 1000000000 \<and> sint s * 1000000000 < 2 ^ 63"
    using signed_take_bit_int_eq_self_iff [of 63 "sint s * 1000000000"] by (simp add: list_timeout_def)
  also have "\<dots> \<longleftrightarrow> \<bar>sint s\<bar> \<le> 9223372036"
  proof -
    have "- 9223372036854775808 \<le> i * 1000000000 \<and> i * 1000000000 < 9223372036854775808 \<longleftrightarrow>
        i \<le> 9223372036 \<and> - i \<le> 9223372036" for i :: int
      by (intro iffI conjI; linarith)
    from this [of "sint s"] show ?thesis by (simp only: abs_le_iff) simp
  qed
  finally show ?thesis .
qed

text \<open>
  A clientset that \<open>NewForConfig\<close> returns sends its policy and binding requests below
  \<open>/apis/admissionregistration.x-k8s.io/v1alpha1\<close> of its host, whatever API path and group version the
  given configuration has, and it is never made from a positive rate with a burst that is not
  positive and no limiter. The REST client library is used for what it documents: a client for a
  configuration has the path of the host and the versioned path of the configuration's API path and
  group version.
\<close>

theorem clientset_base_path:
  fixes lib :: "('q::{zero, linorder}, 'lim, 'ser, 'cfg, 'h, ('b, 'w) rest, 'd) rest_lib"
  assumes "\<And>config h rest. rl_RESTClientForConfigAndClient lib config h = Inr rest \<Longrightarrow>
      rc_base rest = Some (hostPath (cfg_Host config)) \<and>
      rc_versionedAPIPath rest = DefaultVersionedAPIPath (cfg_APIPath config) (the (cfg_GroupVersion config))"
    and "clientset_NewForConfig lib cfg = Inr cs"
  shows "base_path (arc_restClient (clientset_AdmissionregistrationV1alpha1 cs)) =
      path_Join [''/'', hostPath (cfg_Host cfg), ''/apis/admissionregistration.x-k8s.io/v1alpha1''] \<and>
    (cfg_RateLimiter cfg = None \<and> 0 < cfg_QPS cfg \<longrightarrow> 0 < cfg_Burst cfg)"
proof -
  obtain cfg' h where cs: "clientset_NewForConfigAndClient lib cfg' h = Inr cs"
    and cfg': "cfg_RateLimiter cfg' = cfg_RateLimiter cfg" "cfg_QPS cfg' = cfg_QPS cfg" "cfg_Burst cfg' = cfg_Burst cfg"
      "cfg_Host cfg' = cfg_Host cfg"
    using assms(2) by (auto simp: clientset_NewForConfig_def Let_def split: sum.splits if_splits)
  then obtain config where
    r: "rl_RESTClientForConfigAndClient lib config h = Inr (arc_restClient (cs_admissionregistrationV1alpha1 cs))"
      "cfg_APIPath config = ''/apis''" "cfg_GroupVersion config = Some SchemeGroupVersion" "cfg_Host config = cfg_Host cfg"
    and "\<not> (cfg_RateLimiter cfg' = None \<and> 0 < cfg_QPS cfg' \<and> cfg_Burst cfg' \<le> 0)"
    by (auto simp: clientset_NewForConfigAndClient_def group_NewForConfigAndClient_def setConfigDefaults_def Let_def
        split: sum.splits if_splits)
  moreover have "DefaultVersionedAPIPath ''/apis'' SchemeGroupVersion = ''/apis/admissionregistration.x-k8s.io/v1alpha1''"
    by code_simp
  ultimately show ?thesis
    using assms(1) [OF r(1)] cfg' by (auto simp: base_path_def clientset_AdmissionregistrationV1alpha1_def)
qed

end
