(* ===== verification/Object_Tracker.thy ===== *)
theory Object_Tracker
  imports Client_Types "HOL-Library.AList" "HOL-Library.Product_Lexorder"
begin

text \<open>
  The object tracker and the action recorder of the vendored \<open>client-go/testing\<close> package, on which
  the generated fake clientset runs. A deep copy of a stored object is the same value; JSON patches
  and selectors are parsed by parameters. A panic loses the state.
\<close>

section \<open>Tracked objects\<close>

text \<open>\<open>meta.Accessor\<close>, and setting the namespace through it.\<close>

fun Accessor :: "api_object \<Rightarrow> objectMeta option" where
  "Accessor (PolicyObj p) = Some (vap_ObjectMeta p)"
| "Accessor (BindingObj b) = Some (vapb_ObjectMeta b)"
| "Accessor _ = None"

fun SetNamespace :: "string \<Rightarrow> api_object \<Rightarrow> api_object" where
  "SetNamespace ns (PolicyObj p) = PolicyObj (p\<lparr>vap_ObjectMeta := (vap_ObjectMeta p)\<lparr>om_namespace := ns\<rparr>\<rparr>)"
| "SetNamespace ns (BindingObj b) = BindingObj (b\<lparr>vapb_ObjectMeta := (vapb_ObjectMeta b)\<lparr>om_namespace := ns\<rparr>\<rparr>)"
| "SetNamespace ns obj = obj"

definition errNotObject :: go_error where
  "errNotObject = Plain ''object does not implement the Object interfaces''"

definition NewAlreadyExists :: "group_resource \<Rightarrow> string \<Rightarrow> go_error" where
  "NewAlreadyExists gr name =
     StatusErr
       \<lparr>st_Status = ''Failure'',
        st_Message = gr_String gr @ '' '' @ quote name @ '' already exists'',
        st_Reason = ''AlreadyExists'',
        st_Details = Some \<lparr>det_Group = gr_Group gr, det_Kind = gr_Resource gr, det_Name = name\<rparr>,
        st_Code = 409\<rparr>"

definition NewBadRequest :: "string \<Rightarrow> go_error" where
  "NewBadRequest reason =
     StatusErr \<lparr>st_Status = ''Failure'', st_Message = reason, st_Reason = ''BadRequest'',
       st_Details = None, st_Code = 400\<rparr>"

section \<open>The tracker\<close>

text \<open>A watcher's channel holds at most 100 events that nobody has read.\<close>

definition DefaultChanSize :: nat where
  "DefaultChanSize = 100"

record fake_watcher =
  fw_gvr :: gvr
  fw_ns :: string
  fw_stopped :: bool
  fw_pending :: "(string \<times> api_object) list"

type_synonym named_objects = "((string \<times> string) \<times> api_object) list"

record tracker =
  tr_objects :: "gvr \<rightharpoonup> named_objects"
  tr_watchers :: "fake_watcher list"

definition NewObjectTracker :: tracker where
  "NewObjectTracker = \<lparr>tr_objects = Map.empty, tr_watchers = []\<rparr>"

text \<open>\<open>getWatches\<close>: the watchers of the namespace, and those of all namespaces.\<close>

definition watches :: "gvr \<Rightarrow> string \<Rightarrow> fake_watcher \<Rightarrow> bool" where
  "watches gvr ns f \<longleftrightarrow> fw_gvr f = gvr \<and> (fw_ns f = ns \<or> ns \<noteq> [] \<and> fw_ns f = [])"

definition broadcast ::
  "string \<Rightarrow> api_object \<Rightarrow> gvr \<Rightarrow> string \<Rightarrow> fake_watcher list \<Rightarrow> fake_watcher list outcome" where
  "broadcast ty obj gvr ns ws =
     (if list_ex (\<lambda>f. watches gvr ns f \<and> \<not> fw_stopped f \<and> length (fw_pending f) \<ge> DefaultChanSize) ws
      then Panics ''channel full''
      else Returns (map (\<lambda>f. if watches gvr ns f \<and> \<not> fw_stopped f
                             then f\<lparr>fw_pending := fw_pending f @ [(ty, obj)]\<rparr> else f) ws))"

definition tracker_add ::
  "gvr \<Rightarrow> api_object \<Rightarrow> string \<Rightarrow> bool \<Rightarrow> tracker \<Rightarrow> (go_error option \<times> tracker) outcome" where
  "tracker_add gvr obj ns replaceExisting t =
     (case Accessor obj of
        None \<Rightarrow> Returns (Some errNotObject, t)
      | Some newMeta \<Rightarrow>
          (let obj' = (if om_namespace newMeta = [] then SetNamespace ns obj else obj);
               newNamespace = (if om_namespace newMeta = [] then ns else om_namespace newMeta)
           in if ns \<noteq> newNamespace then
                Returns (Some (NewBadRequest (''request namespace does not match object namespace, request: '' @
                  quote ns @ '' object: '' @ quote newNamespace)), t)
              else
                (let objs = (case tr_objects t gvr of Some objs \<Rightarrow> objs | None \<Rightarrow> []);
                     t1 = t\<lparr>tr_objects := (tr_objects t)(gvr \<mapsto> objs)\<rparr>;
                     namespacedName = (newNamespace, om_name newMeta);
                     stored = t1\<lparr>tr_objects := (tr_objects t1)(gvr \<mapsto> AList.update namespacedName obj' objs)\<rparr>
                 in if map_of objs namespacedName \<noteq> None then
                      if replaceExisting then
                        (case broadcast ''MODIFIED'' obj' gvr ns (tr_watchers t) of
                           Panics s \<Rightarrow> Panics s
                         | Returns ws \<Rightarrow> Returns (None, stored\<lparr>tr_watchers := ws\<rparr>))
                      else Returns (Some (NewAlreadyExists (GroupResource gvr) (om_name newMeta)), t1)
                    else if replaceExisting then
                      Returns (Some (NewNotFound (GroupResource gvr) (om_name newMeta)), t1)
                    else
                      (case broadcast ''ADDED'' obj' gvr ns (tr_watchers t) of
                         Panics s \<Rightarrow> Panics s
                       | Returns ws \<Rightarrow> Returns (None, stored\<lparr>tr_watchers := ws\<rparr>)))))"

definition tracker_Create :: "gvr \<Rightarrow> api_object \<Rightarrow> string \<Rightarrow> tracker \<Rightarrow> (go_error option \<times> tracker) outcome" where
  "tracker_Create gvr obj ns t = tracker_add gvr obj ns False t"

definition tracker_Update :: "gvr \<Rightarrow> api_object \<Rightarrow> string \<Rightarrow> tracker \<Rightarrow> (go_error option \<times> tracker) outcome" where
  "tracker_Update gvr obj ns t = tracker_add gvr obj ns True t"

text \<open>A stored status that is no success is returned as an error.\<close>

definition tracker_Get :: "gvr \<Rightarrow> string \<Rightarrow> string \<Rightarrow> tracker \<Rightarrow> go_error + api_object" where
  "tracker_Get gvr ns name t =
     (case tr_objects t gvr of
        None \<Rightarrow> Inl (NewNotFound (GroupResource gvr) name)
      | Some objs \<Rightarrow>
          (case map_of objs (ns, name) of
             None \<Rightarrow> Inl (NewNotFound (GroupResource gvr) name)
           | Some (StatusObj st) \<Rightarrow> if st_Status st \<noteq> ''Success'' then Inl (StatusErr st) else Inr (StatusObj st)
           | Some obj \<Rightarrow> Inr obj))"

definition tracker_Delete :: "gvr \<Rightarrow> string \<Rightarrow> string \<Rightarrow> tracker \<Rightarrow> (go_error option \<times> tracker) outcome" where
  "tracker_Delete gvr ns name t =
     (case tr_objects t gvr of
        None \<Rightarrow> Returns (Some (NewNotFound (GroupResource gvr) name), t)
      | Some objs \<Rightarrow>
          (case map_of objs (ns, name) of
             None \<Rightarrow> Returns (Some (NewNotFound (GroupResource gvr) name), t)
           | Some obj \<Rightarrow>
               (case broadcast ''DELETED'' obj gvr ns (tr_watchers t) of
                  Panics s \<Rightarrow> Panics s
                | Returns ws \<Rightarrow>
                    Returns (None, t\<lparr>tr_objects := (tr_objects t)(gvr \<mapsto> AList.delete (ns, name) objs),
                                     tr_watchers := ws\<rparr>))))"

text \<open>A watch is known by its place among the watchers.\<close>

definition tracker_Watch :: "gvr \<Rightarrow> string \<Rightarrow> tracker \<Rightarrow> nat \<times> tracker" where
  "tracker_Watch gvr ns t =
     (length (tr_watchers t),
      t\<lparr>tr_watchers := tr_watchers t @ [\<lparr>fw_gvr = gvr, fw_ns = ns, fw_stopped = False, fw_pending = []\<rparr>]\<rparr>)"

section \<open>Lists\<close>

text \<open>\<open>meta.SetList\<close>: the items of a list, if all are of its type.\<close>

fun as_policies :: "api_object list \<Rightarrow> validatingAdmissionPolicy list option" where
  "as_policies [] = Some []"
| "as_policies (PolicyObj p # os) = map_option (\<lambda>ps. p # ps) (as_policies os)"
| "as_policies _ = None"

fun as_bindings :: "api_object list \<Rightarrow> validatingAdmissionPolicyBinding list option" where
  "as_bindings [] = Some []"
| "as_bindings (BindingObj b # os) = map_option (\<lambda>bs. b # bs) (as_bindings os)"
| "as_bindings _ = None"

fun SetList :: "api_object \<Rightarrow> api_object list \<Rightarrow> go_error + api_object" where
  "SetList (PolicyListObj l) os =
     (case as_policies os of
        Some ps \<Rightarrow> Inr (PolicyListObj (l\<lparr>vapl_Items := Some ps\<rparr>))
      | None \<Rightarrow> Inl (Plain ''item: can not assign or convert''))"
| "SetList (BindingListObj l) os =
     (case as_bindings os of
        Some bs \<Rightarrow> Inr (BindingListObj (l\<lparr>vapbl_Items := Some bs\<rparr>))
      | None \<Rightarrow> Inl (Plain ''item: can not assign or convert''))"
| "SetList obj os = Inl (Plain ''not a list type'')"

definition is_list :: "api_object \<Rightarrow> bool" where
  "is_list obj = (case obj of PolicyListObj _ \<Rightarrow> True | BindingListObj _ \<Rightarrow> True | _ \<Rightarrow> False)"

text \<open>\<open>filterByNamespace\<close>: in the order of namespaces and names; an empty namespace is all of them.\<close>

definition object_name :: "api_object \<Rightarrow> string \<times> string" where
  "object_name obj = (case Accessor obj of Some m \<Rightarrow> (om_namespace m, om_name m) | None \<Rightarrow> ([], []))"

definition filterByNamespace :: "named_objects \<Rightarrow> string \<Rightarrow> go_error + api_object list" where
  "filterByNamespace objs ns =
     (if list_ex (\<lambda>p. Accessor (snd p) = None) objs then Inl errNotObject
      else Inr (sort_key object_name
             (filter (\<lambda>obj. ns = [] \<or> fst (object_name obj) = ns) (map snd objs))))"

definition tracker_List ::
  "(gvk \<Rightarrow> go_error + api_object) \<Rightarrow> gvr \<Rightarrow> gvk \<Rightarrow> string \<Rightarrow> tracker \<Rightarrow> go_error + api_object" where
  "tracker_List new gvr gvk ns t =
     (let listGVK = gvk\<lparr>gvk_Kind := gvk_Kind gvk @ ''List''\<rparr>;
          listGVK = (if gvk_Version listGVK = [] then listGVK\<lparr>gvk_Version := ''__internal''\<rparr> else listGVK)
      in (case new listGVK of
            Inl err \<Rightarrow> Inl err
          | Inr l \<Rightarrow>
              if \<not> is_list l then Inl (Plain (quote (gvk_Kind listGVK) @ '' is not a list type''))
              else (case tr_objects t gvr of
                      None \<Rightarrow> Inr l
                    | Some objs \<Rightarrow>
                        (case filterByNamespace objs ns of
                           Inl err \<Rightarrow> Inl err
                         | Inr matchingObjs \<Rightarrow> SetList l matchingObjs))))"

text \<open>
  \<open>Add\<close> of a single object: under the resources that \<open>UnsafeGuessKindToResource\<close> makes of the kinds
  the scheme has for it.
\<close>

definition unpluralizedSuffixes :: "string list" where
  "unpluralizedSuffixes = [''endpoints'']"

definition UnsafeGuessKindToResource :: "gvk \<Rightarrow> gvr" where
  "UnsafeGuessKindToResource k =
     (if gvk_Kind k = [] then \<lparr>gvr_Group = [], gvr_Version = [], gvr_Resource = []\<rparr>
      else
        (let singularName = to_lower (gvk_Kind k) in
         \<lparr>gvr_Group = gvk_Group k, gvr_Version = gvk_Version k,
          gvr_Resource =
            (if list_ex (\<lambda>skip. suffix skip singularName) unpluralizedSuffixes then singularName
             else if last singularName = CHR ''s'' then singularName @ ''es''
             else if last singularName = CHR ''y'' then butlast singularName @ ''ies''
             else singularName @ ''s'')\<rparr>))"

fun add_kinds :: "gvk list \<Rightarrow> api_object \<Rightarrow> string \<Rightarrow> tracker \<Rightarrow> (go_error option \<times> tracker) outcome" where
  "add_kinds [] obj ns t = Returns (None, t)"
| "add_kinds (gvk # gvks) obj ns t =
     (let gvr = UnsafeGuessKindToResource gvk;
          gvr = (if gvr_Version gvr = ''__internal'' then gvr\<lparr>gvr_Version := []\<rparr> else gvr)
      in (case tracker_add gvr obj ns False t of
            Panics s \<Rightarrow> Panics s
          | Returns (Some err, t') \<Rightarrow> Returns (Some err, t')
          | Returns (None, t') \<Rightarrow> add_kinds gvks obj ns t'))"

definition add_single ::
  "(api_object \<Rightarrow> go_error + gvk list) \<Rightarrow> api_object \<Rightarrow> tracker \<Rightarrow> (go_error option \<times> tracker) outcome" where
  "add_single kinds obj t =
     (case Accessor obj of
        None \<Rightarrow> Returns (Some errNotObject, t)
      | Some objMeta \<Rightarrow>
          (case kinds obj of
             Inl err \<Rightarrow> Returns (Some err, t)
           | Inr gvks \<Rightarrow>
               if gvks = [] then Returns (Some (Plain ''no registered kinds for the object''), t)
               else add_kinds gvks obj (om_namespace objMeta) t))"

text \<open>The objects of a list are added one by one; a list of lists does not exist here.\<close>

fun add_all :: "(api_object \<Rightarrow> go_error + gvk list) \<Rightarrow> api_object list \<Rightarrow> tracker \<Rightarrow> (go_error option \<times> tracker) outcome" where
  "add_all kinds [] t = Returns (None, t)"
| "add_all kinds (obj # objs) t =
     (case add_single kinds obj t of
        Panics s \<Rightarrow> Panics s
      | Returns (Some err, t') \<Rightarrow> Returns (Some err, t')
      | Returns (None, t') \<Rightarrow> add_all kinds objs t')"

definition tracker_Add ::
  "(api_object \<Rightarrow> go_error + gvk list) \<Rightarrow> api_object \<Rightarrow> tracker \<Rightarrow> (go_error option \<times> tracker) outcome" where
  "tracker_Add kinds obj t =
     (case obj of
        PolicyListObj l \<Rightarrow> add_all kinds (map PolicyObj (elems (vapl_Items l))) t
      | BindingListObj l \<Rightarrow> add_all kinds (map BindingObj (elems (vapbl_Items l))) t
      | _ \<Rightarrow> add_single kinds obj t)"

section \<open>Actions and reactions\<close>

datatype action =
    GetAction gvr string string
  | ListAction gvr gvk string
  | CreateAction gvr string string "api_object option"
  | UpdateAction gvr string string "api_object option"
  | DeleteAction gvr string string deleteOptions
  | DeleteCollectionAction gvr string
  | PatchAction gvr string string string string string
  | WatchAction gvr string

fun act_verb :: "action \<Rightarrow> string" where
  "act_verb (GetAction _ _ _) = ''get''"
| "act_verb (ListAction _ _ _) = ''list''"
| "act_verb (CreateAction _ _ _ _) = ''create''"
| "act_verb (UpdateAction _ _ _ _) = ''update''"
| "act_verb (DeleteAction _ _ _ _) = ''delete''"
| "act_verb (DeleteCollectionAction _ _) = ''delete-collection''"
| "act_verb (PatchAction _ _ _ _ _ _) = ''patch''"
| "act_verb (WatchAction _ _) = ''watch''"

fun act_resource :: "action \<Rightarrow> gvr" where
  "act_resource (GetAction r _ _) = r"
| "act_resource (ListAction r _ _) = r"
| "act_resource (CreateAction r _ _ _) = r"
| "act_resource (UpdateAction r _ _ _) = r"
| "act_resource (DeleteAction r _ _ _) = r"
| "act_resource (DeleteCollectionAction r _) = r"
| "act_resource (PatchAction r _ _ _ _ _) = r"
| "act_resource (WatchAction r _) = r"

fun act_namespace :: "action \<Rightarrow> string" where
  "act_namespace (GetAction _ ns _) = ns"
| "act_namespace (ListAction _ _ ns) = ns"
| "act_namespace (CreateAction _ ns _ _) = ns"
| "act_namespace (UpdateAction _ ns _ _) = ns"
| "act_namespace (DeleteAction _ ns _ _) = ns"
| "act_namespace (DeleteCollectionAction _ ns) = ns"
| "act_namespace (PatchAction _ ns _ _ _ _) = ns"
| "act_namespace (WatchAction _ ns) = ns"

fun act_subresource :: "action \<Rightarrow> string" where
  "act_subresource (CreateAction _ _ sub _) = sub"
| "act_subresource (UpdateAction _ _ sub _) = sub"
| "act_subresource (PatchAction _ _ _ sub _ _) = sub"
| "act_subresource _ = []"

type_synonym 'a reaction_result = "(bool \<times> 'a option \<times> go_error option) \<times> tracker"
type_synonym reaction = "action \<Rightarrow> tracker \<Rightarrow> api_object reaction_result outcome"

text \<open>What follows a tracker call that stored an object: it is read back.\<close>

definition then_get ::
  "gvr \<Rightarrow> string \<Rightarrow> string \<Rightarrow> (go_error option \<times> tracker) outcome \<Rightarrow> api_object reaction_result outcome" where
  "then_get gvr ns name out =
     (case out of
        Panics s \<Rightarrow> Panics s
      | Returns (Some err, t) \<Rightarrow> Returns ((True, None, Some err), t)
      | Returns (None, t) \<Rightarrow>
          (case tracker_Get gvr ns name t of
             Inl err \<Rightarrow> Returns ((True, None, Some err), t)
           | Inr obj \<Rightarrow> Returns ((True, Some obj, None), t)))"

definition same_type :: "api_object \<Rightarrow> api_object \<Rightarrow> bool" where
  "same_type x y \<longleftrightarrow>
     (case (x, y) of
        (PolicyObj _, PolicyObj _) \<Rightarrow> True
      | (BindingObj _, BindingObj _) \<Rightarrow> True
      | (PolicyListObj _, PolicyListObj _) \<Rightarrow> True
      | (BindingListObj _, BindingListObj _) \<Rightarrow> True
      | (StatusObj _, StatusObj _) \<Rightarrow> True
      | (DeleteOptionsObj _, DeleteOptionsObj _) \<Rightarrow> True
      | _ \<Rightarrow> False)"

text \<open>
  \<open>ObjectReaction\<close>. The parameter \<open>patched\<close> applies a patch of a type and decodes the result;
  it is only called for the types the code knows.
\<close>

definition known_patch_types :: "string list" where
  "known_patch_types =
     [''application/json-patch+json'', ''application/merge-patch+json'',
      ''application/strategic-merge-patch+json'', ''application/apply-patch+yaml'']"

fun ObjectReaction ::
  "(gvk \<Rightarrow> go_error + api_object) \<Rightarrow> (string \<Rightarrow> string \<Rightarrow> api_object \<Rightarrow> go_error + api_object) \<Rightarrow> reaction"
where
  "ObjectReaction new patched (ListAction gvr gvk ns) t =
     (case tracker_List new gvr gvk ns t of
        Inl err \<Rightarrow> Returns ((True, None, Some err), t)
      | Inr obj \<Rightarrow> Returns ((True, Some obj, None), t))"
| "ObjectReaction new patched (GetAction gvr ns name) t =
     (case tracker_Get gvr ns name t of
        Inl err \<Rightarrow> Returns ((True, None, Some err), t)
      | Inr obj \<Rightarrow> Returns ((True, Some obj, None), t))"
| "ObjectReaction new patched (CreateAction gvr ns sub object) t =
     (case object of
        None \<Rightarrow> Returns ((True, None, Some errNotObject), t)
      | Some obj \<Rightarrow>
          (case Accessor obj of
             None \<Rightarrow> Returns ((True, None, Some errNotObject), t)
           | Some objMeta \<Rightarrow>
               if sub = [] then then_get gvr ns (om_name objMeta) (tracker_Create gvr obj ns t)
               else
                 (case tracker_Get gvr ns (om_name objMeta) t of
                    Inl err \<Rightarrow> Returns ((True, None, Some err), t)
                  | Inr oldObj \<Rightarrow>
                      if same_type oldObj obj
                      then then_get gvr ns (om_name objMeta) (tracker_Update gvr obj ns t)
                      else Returns ((True, Some obj, None), t))))"
| "ObjectReaction new patched (UpdateAction gvr ns sub object) t =
     (case object of
        None \<Rightarrow> Returns ((True, None, Some errNotObject), t)
      | Some obj \<Rightarrow>
          (case Accessor obj of
             None \<Rightarrow> Returns ((True, None, Some errNotObject), t)
           | Some objMeta \<Rightarrow> then_get gvr ns (om_name objMeta) (tracker_Update gvr obj ns t)))"
| "ObjectReaction new patched (DeleteAction gvr ns name opts) t =
     (case tracker_Delete gvr ns name t of
        Panics s \<Rightarrow> Panics s
      | Returns (err, t') \<Rightarrow> Returns ((True, None, err), t'))"
| "ObjectReaction new patched (PatchAction gvr ns name sub pt data) t =
     (case tracker_Get gvr ns name t of
        Inl err \<Rightarrow> Returns ((True, None, Some err), t)
      | Inr obj \<Rightarrow>
          if pt \<notin> set known_patch_types
          then Returns ((True, None, Some (Plain ''PatchType is not supported'')), t)
          else
            (case patched pt data obj of
               Inl err \<Rightarrow> Returns ((True, None, Some err), t)
             | Inr obj' \<Rightarrow>
                 (case tracker_Update gvr obj' ns t of
                    Panics s \<Rightarrow> Panics s
                  | Returns (Some err, t') \<Rightarrow> Returns ((True, None, Some err), t')
                  | Returns (None, t') \<Rightarrow> Returns ((True, Some obj', None), t'))))"
| "ObjectReaction new patched act t =
     Returns ((False, None, Some (Plain (''no reaction implemented for '' @ act_verb act))), t)"

section \<open>The recorder\<close>

record reactor =
  re_Verb :: string
  re_Resource :: string
  re_Reaction :: reaction

record watch_reactor =
  wr_Resource :: string
  wr_Reaction :: "action \<Rightarrow> tracker \<Rightarrow> nat reaction_result outcome"

record fake =
  fk_actions :: "action list"
  fk_ReactionChain :: "reactor list"
  fk_WatchReactionChain :: "watch_reactor list"
  fk_tracker :: tracker

definition resourceCovers :: "string \<Rightarrow> action \<Rightarrow> bool" where
  "resourceCovers resource act \<longleftrightarrow>
     resource = ''*'' \<or> resource = gvr_Resource (act_resource act) \<or>
     (let before = takeWhile (\<lambda>c. c \<noteq> CHR ''/'') resource
      in before \<noteq> resource \<and> before = gvr_Resource (act_resource act) \<and>
         drop (Suc (length before)) resource = act_subresource act)"

definition reactor_Handles :: "reactor \<Rightarrow> action \<Rightarrow> bool" where
  "reactor_Handles r act \<longleftrightarrow>
     (re_Verb r = ''*'' \<or> re_Verb r = act_verb act) \<and> resourceCovers (re_Resource r) act"

definition AddReactor :: "string \<Rightarrow> string \<Rightarrow> reaction \<Rightarrow> fake \<Rightarrow> fake" where
  "AddReactor verb resource react c =
     c\<lparr>fk_ReactionChain := fk_ReactionChain c @ [\<lparr>re_Verb = verb, re_Resource = resource, re_Reaction = react\<rparr>]\<rparr>"

definition PrependReactor :: "string \<Rightarrow> string \<Rightarrow> reaction \<Rightarrow> fake \<Rightarrow> fake" where
  "PrependReactor verb resource react c =
     c\<lparr>fk_ReactionChain := \<lparr>re_Verb = verb, re_Resource = resource, re_Reaction = react\<rparr> # fk_ReactionChain c\<rparr>"

definition AddWatchReactor ::
  "string \<Rightarrow> (action \<Rightarrow> tracker \<Rightarrow> nat reaction_result outcome) \<Rightarrow> fake \<Rightarrow> fake" where
  "AddWatchReactor resource react c =
     c\<lparr>fk_WatchReactionChain := fk_WatchReactionChain c @ [\<lparr>wr_Resource = resource, wr_Reaction = react\<rparr>]\<rparr>"

text \<open>The first reactor that handles the action answers; the state of the tracker goes along.\<close>

fun react_in_turn ::
  "reactor list \<Rightarrow> action \<Rightarrow> api_object \<Rightarrow> tracker \<Rightarrow> ((api_object option \<times> go_error option) \<times> tracker) outcome" where
  "react_in_turn [] act defaultReturnObj t = Returns ((Some defaultReturnObj, None), t)"
| "react_in_turn (r # rs) act defaultReturnObj t =
     (if \<not> reactor_Handles r act then react_in_turn rs act defaultReturnObj t
      else
        (case re_Reaction r act t of
           Panics s \<Rightarrow> Panics s
         | Returns ((handled, ret, err), t') \<Rightarrow>
             if \<not> handled then react_in_turn rs act defaultReturnObj t'
             else Returns ((ret, err), t')))"

definition Invokes ::
  "action \<Rightarrow> api_object \<Rightarrow> fake \<Rightarrow> ((api_object option \<times> go_error option) \<times> fake) outcome" where
  "Invokes act defaultReturnObj c =
     (case react_in_turn (fk_ReactionChain c) act defaultReturnObj (fk_tracker c) of
        Panics s \<Rightarrow> Panics s
      | Returns (res, t) \<Rightarrow> Returns (res, c\<lparr>fk_actions := fk_actions c @ [act], fk_tracker := t\<rparr>))"

fun watch_in_turn ::
  "watch_reactor list \<Rightarrow> action \<Rightarrow> tracker \<Rightarrow> ((nat option \<times> go_error option) \<times> tracker) outcome" where
  "watch_in_turn [] act t = Returns ((None, Some (Plain ''unhandled watch'')), t)"
| "watch_in_turn (r # rs) act t =
     (if \<not> resourceCovers (wr_Resource r) act then watch_in_turn rs act t
      else
        (case wr_Reaction r act t of
           Panics s \<Rightarrow> Panics s
         | Returns ((handled, ret, err), t') \<Rightarrow>
             if \<not> handled then watch_in_turn rs act t' else Returns ((ret, err), t')))"

definition InvokesWatch :: "action \<Rightarrow> fake \<Rightarrow> ((nat option \<times> go_error option) \<times> fake) outcome" where
  "InvokesWatch act c =
     (case watch_in_turn (fk_WatchReactionChain c) act (fk_tracker c) of
        Panics s \<Rightarrow> Panics s
      | Returns (res, t) \<Rightarrow> Returns (res, c\<lparr>fk_actions := fk_actions c @ [act], fk_tracker := t\<rparr>))"

section \<open>The objects of one resource\<close>

text \<open>
  What the tracker holds under a resource, and the invariant of a resource of cluster-wide objects of
  one type: every object is of that type and under its own name, each name once.
\<close>

definition stored :: "gvr \<Rightarrow> tracker \<Rightarrow> named_objects" where
  "stored gvr t = (case tr_objects t gvr of Some objs \<Rightarrow> objs | None \<Rightarrow> [])"

definition typed_store :: "('x \<Rightarrow> api_object) \<Rightarrow> ('x \<Rightarrow> objectMeta) \<Rightarrow> gvr \<Rightarrow> tracker \<Rightarrow> bool" where
  "typed_store obj_of meta gvr t \<longleftrightarrow>
     distinct (map fst (stored gvr t)) \<and>
     (\<forall>(k, obj) \<in> set (stored gvr t).
        \<exists>x. obj = obj_of x \<and> om_namespace (meta x) = [] \<and> k = ([], om_name (meta x)))"

definition typed_view :: "(api_object \<Rightarrow> 'x option) \<Rightarrow> gvr \<Rightarrow> tracker \<Rightarrow> 'x objects" where
  "typed_view of_obj gvr t = (\<lambda>n. Option.bind (map_of (stored gvr t) ([], n)) of_obj)"

lemma stored_put [simp]:
  "stored gvr (t\<lparr>tr_objects := (tr_objects t)(gvr' \<mapsto> objs)\<rparr>) = (if gvr = gvr' then objs else stored gvr t)"
  "stored gvr (t\<lparr>tr_objects := (tr_objects t)(gvr' \<mapsto> objs), tr_watchers := ws\<rparr>) =
     (if gvr = gvr' then objs else stored gvr t)"
  "stored gvr (t\<lparr>tr_watchers := ws\<rparr>) = stored gvr t"
  by (simp_all add: stored_def)

lemma tracker_Get_stored:
  "tracker_Get gvr ns name t =
     (case map_of (stored gvr t) (ns, name) of
        None \<Rightarrow> Inl (NewNotFound (GroupResource gvr) name)
      | Some (StatusObj st) \<Rightarrow> if st_Status st \<noteq> ''Success'' then Inl (StatusErr st) else Inr (StatusObj st)
      | Some obj \<Rightarrow> Inr obj)"
  by (simp add: tracker_Get_def stored_def split: option.split)

text \<open>A type of tracked objects: how they are objects of the API, and their metadata.\<close>

locale tracked_kind =
  fixes obj_of :: "'x \<Rightarrow> api_object" and of_obj :: "api_object \<Rightarrow> 'x option"
    and meta :: "'x \<Rightarrow> objectMeta" and gvr :: gvr
  assumes of_obj_of [simp]: "of_obj (obj_of x) = Some x"
    and Accessor_of [simp]: "Accessor (obj_of x) = Some (meta x)"
    and SetNamespace_of: "om_namespace (meta x) = [] \<Longrightarrow> SetNamespace [] (obj_of x) = obj_of x"
begin

lemma obj_not_status [simp]: "obj_of x \<noteq> StatusObj st"
  using Accessor_of [of x] by (metis Accessor.simps(5) option.distinct(1))

lemma store_lookup:
  assumes "typed_store obj_of meta gvr t"
  shows "map_of (stored gvr t) ([], n) = map_option obj_of (typed_view of_obj gvr t n)"
proof (cases "map_of (stored gvr t) ([], n)")
  case (Some obj)
  then obtain x where "obj = obj_of x"
    using assms by (auto simp: typed_store_def dest!: map_of_SomeD)
  with Some show ?thesis by (simp add: typed_view_def)
qed (simp add: typed_view_def)

lemma Get_view:
  assumes "typed_store obj_of meta gvr t"
  shows "tracker_Get gvr [] n t =
    (case typed_view of_obj gvr t n of
       None \<Rightarrow> Inl (NewNotFound (GroupResource gvr) n) | Some x \<Rightarrow> Inr (obj_of x))"
proof (cases "typed_view of_obj gvr t n")
  case (Some x)
  then have "map_of (stored gvr t) ([], n) = Some (obj_of x)" using store_lookup [OF assms, of n] by simp
  with Some show ?thesis using obj_not_status [of x] by (cases "obj_of x") (auto simp: tracker_Get_stored)
qed (use store_lookup [OF assms, of n] in \<open>simp add: tracker_Get_stored\<close>)

text \<open>Storing under a name keeps the invariant and is an update of the view.\<close>

lemma put_store:
  assumes "typed_store obj_of meta gvr t" and "om_namespace (meta x) = []"
    and "stored gvr t' = AList.update ([], om_name (meta x)) (obj_of x) (stored gvr t)"
  shows "typed_store obj_of meta gvr t'"
    and "typed_view of_obj gvr t' = (typed_view of_obj gvr t)(om_name (meta x) \<mapsto> x)"
proof -
  have "(k, obj) \<in> set (AList.update k' v al) \<Longrightarrow> (k, obj) = (k', v) \<or> (k, obj) \<in> set al" for k obj k' v
    and al :: named_objects
    by (induction al) (auto split: if_splits)
  then show "typed_store obj_of meta gvr t'"
    using assms by (fastforce simp: typed_store_def distinct_update)
  show "typed_view of_obj gvr t' = (typed_view of_obj gvr t)(om_name (meta x) \<mapsto> x)"
    using assms(3) by (auto simp: typed_view_def update_conv' fun_eq_iff)
qed

lemma same_store:
  assumes "stored gvr t' = stored gvr t"
  shows "typed_store obj_of meta gvr t' = typed_store obj_of meta gvr t"
    and "typed_view of_obj gvr t' = typed_view of_obj gvr t"
  using assms by (simp_all add: typed_store_def typed_view_def)

text \<open>
  A call that stores, while nobody watches: it succeeds exactly if the name is free for a creation,
  taken for an update.
\<close>

lemma add_view:
  assumes "typed_store obj_of meta gvr t" and "om_namespace (meta x) = []"
    and "broadcast (if replaceExisting then ''MODIFIED'' else ''ADDED'') (obj_of x) gvr [] (tr_watchers t) = Returns ws"
  shows "\<exists>t'. tracker_add gvr (obj_of x) [] replaceExisting t =
      Returns (if (typed_view of_obj gvr t (om_name (meta x)) = None) = replaceExisting
               then Some ((if replaceExisting then NewNotFound else NewAlreadyExists)
                           (GroupResource gvr) (om_name (meta x)))
               else None, t') \<and>
    typed_store obj_of meta gvr t' \<and>
    typed_view of_obj gvr t' =
      (if (typed_view of_obj gvr t (om_name (meta x)) = None) = replaceExisting then typed_view of_obj gvr t
       else (typed_view of_obj gvr t)(om_name (meta x) \<mapsto> x)) \<and>
    tr_watchers t' =
      (if (typed_view of_obj gvr t (om_name (meta x)) = None) = replaceExisting then tr_watchers t else ws)"
proof -
  let ?n = "om_name (meta x)" and ?fails = "(typed_view of_obj gvr t (om_name (meta x)) = None) = replaceExisting"
  define t' where "t' = (if ?fails then t\<lparr>tr_objects := (tr_objects t)(gvr \<mapsto> stored gvr t)\<rparr>
    else t\<lparr>tr_objects := (tr_objects t)(gvr \<mapsto> AList.update ([], ?n) (obj_of x) (stored gvr t)), tr_watchers := ws\<rparr>)"
  have "tracker_add gvr (obj_of x) [] replaceExisting t = Returns (if ?fails
      then Some ((if replaceExisting then NewNotFound else NewAlreadyExists) (GroupResource gvr) ?n) else None, t')"
    using assms(2,3) store_lookup [OF assms(1), of ?n]
    by (auto simp: tracker_add_def SetNamespace_of Let_def t'_def stored_def [symmetric] split: if_splits)
  moreover have "typed_store obj_of meta gvr t' \<and> typed_view of_obj gvr t' =
      (if ?fails then typed_view of_obj gvr t else (typed_view of_obj gvr t)(?n \<mapsto> x))"
  proof (cases ?fails)
    case True
    then show ?thesis using assms(1) same_store [of t' t] by (simp add: t'_def)
  next
    case False
    then show ?thesis using put_store [OF assms(1,2), of t'] by (simp add: t'_def)
  qed
  ultimately show ?thesis by (auto simp: t'_def)
qed

lemma delete_view:
  assumes "typed_store obj_of meta gvr t"
    and "\<And>obj. broadcast ''DELETED'' obj gvr [] (tr_watchers t) = Returns (ws obj)"
  shows "\<exists>t'. tracker_Delete gvr [] n t =
      Returns (if typed_view of_obj gvr t n = None then Some (NewNotFound (GroupResource gvr) n) else None, t') \<and>
    typed_store obj_of meta gvr t' \<and> typed_view of_obj gvr t' = (typed_view of_obj gvr t)(n := None) \<and>
    tr_watchers t' = (case typed_view of_obj gvr t n of None \<Rightarrow> tr_watchers t | Some x \<Rightarrow> ws (obj_of x))"
proof (cases "typed_view of_obj gvr t n")
  case None
  then have "tracker_Delete gvr [] n t = Returns (Some (NewNotFound (GroupResource gvr) n), t)"
    using store_lookup [OF assms(1), of n] by (auto simp: tracker_Delete_def stored_def split: option.splits)
  then show ?thesis using None assms(1) by auto
next
  case (Some x)
  define t' where "t' = t\<lparr>tr_objects := (tr_objects t)(gvr \<mapsto> AList.delete ([], n) (stored gvr t)),
    tr_watchers := ws (obj_of x)\<rparr>"
  have "tracker_Delete gvr [] n t = Returns (None, t')"
    using store_lookup [OF assms(1), of n] Some assms(2)
    by (auto simp: tracker_Delete_def stored_def t'_def split: option.splits)
  moreover have "typed_store obj_of meta gvr t'"
    using assms(1) by (auto simp: typed_store_def t'_def AList.delete_eq distinct_map_filter)
  moreover have "typed_view of_obj gvr t' = (typed_view of_obj gvr t)(n := None)"
    by (auto simp: t'_def typed_view_def delete_conv' fun_eq_iff)
  ultimately show ?thesis using Some by (auto simp: t'_def)
qed

text \<open>Listing returns the objects in the order of their names.\<close>

lemma dom_view:
  assumes "typed_store obj_of meta gvr t"
  shows "map fst (stored gvr t) = map (Pair []) (map (\<lambda>p. snd (fst p)) (stored gvr t))"
    and "dom (typed_view of_obj gvr t) = set (map (\<lambda>p. snd (fst p)) (stored gvr t))"
proof -
  show keys: "map fst (stored gvr t) = map (Pair []) (map (\<lambda>p. snd (fst p)) (stored gvr t))"
    using assms by (auto simp: typed_store_def)
  have at: "n \<in> dom (typed_view of_obj gvr t) \<longleftrightarrow> ([], n) \<in> set (map fst (stored gvr t))" for n
  proof -
    have "n \<in> dom (typed_view of_obj gvr t) \<longleftrightarrow> map_of (stored gvr t) ([], n) \<noteq> None"
      using store_lookup [OF assms, of n] by (cases "typed_view of_obj gvr t n") auto
    then show ?thesis by (simp add: map_of_eq_None_iff)
  qed
  show "dom (typed_view of_obj gvr t) = set (map (\<lambda>p. snd (fst p)) (stored gvr t))"
  proof (rule set_eqI)
    fix n
    have "([], n) \<in> set (map fst (stored gvr t)) \<longleftrightarrow> n \<in> set (map (\<lambda>p. snd (fst p)) (stored gvr t))"
      unfolding keys set_map by auto
    then show "n \<in> dom (typed_view of_obj gvr t) \<longleftrightarrow> n \<in> set (map (\<lambda>p. snd (fst p)) (stored gvr t))"
      unfolding at .
  qed
qed

lemma filterByNamespace_view:
  assumes "typed_store obj_of meta gvr t"
  shows "filterByNamespace (stored gvr t) [] =
    Inr (map obj_of (map (\<lambda>n. the (typed_view of_obj gvr t n)) (sorted_list_of_set (dom (typed_view of_obj gvr t)))))"
proof -
  let ?objs = "map snd (stored gvr t)" and ?names = "sorted_list_of_set (dom (typed_view of_obj gvr t))"
  let ?ys = "map obj_of (map (\<lambda>n. the (typed_view of_obj gvr t n)) ?names)"
  have name: "object_name obj = k" if "(k, obj) \<in> set (stored gvr t)" for k obj
    using assms that by (auto simp: typed_store_def object_name_def)
  then have names: "map object_name ?objs = map fst (stored gvr t)" by (auto intro: map_cong)
  have acc: "\<not> list_ex (\<lambda>p. Accessor (snd p) = None) (stored gvr t)"
    using assms by (auto simp: typed_store_def list_ex_iff)
  have fin: "finite (dom (typed_view of_obj gvr t))" using dom_view(2) [OF assms] by simp
  have at: "(([], n), obj_of (the (typed_view of_obj gvr t n))) \<in> set (stored gvr t)"
    if "n \<in> dom (typed_view of_obj gvr t)" for n
    using that store_lookup [OF assms, of n] by (auto intro!: map_of_SomeD)
  have ynames: "map object_name ?ys = map (Pair []) ?names"
    using fin by (auto simp: name [OF at])
  have "sort_key object_name ?objs = ?ys"
  proof (rule map_sorted_distinct_set_unique [where f = object_name])
    have "set ?ys = set ?objs"
    proof
      show "set ?ys \<subseteq> set ?objs" using at fin by force
      show "set ?objs \<subseteq> set ?ys"
      proof
        fix obj assume "obj \<in> set ?objs"
        then obtain k where k: "(k, obj) \<in> set (stored gvr t)" by auto
        with assms obtain x where x: "obj = obj_of x" "k = ([], om_name (meta x))"
          by (auto simp: typed_store_def)
        have "map_of (stored gvr t) k = Some obj"
          using k assms by (simp add: typed_store_def)
        with x store_lookup [OF assms, of "om_name (meta x)"]
        have v: "map_option obj_of (typed_view of_obj gvr t (om_name (meta x))) = Some (obj_of x)" by simp
        then obtain y where "typed_view of_obj gvr t (om_name (meta x)) = Some y" "obj_of y = obj_of x" by auto
        with x fin show "obj \<in> set ?ys" by force
      qed
    qed
    then show "set (sort_key object_name ?objs) = set ?ys" by simp
    have keys: "distinct (map object_name ?objs)"
      unfolding names using assms by (simp add: typed_store_def)
    then have inj: "distinct ?objs" "inj_on object_name (set ?objs)"
      unfolding distinct_map [of object_name] by blast+
    then show "distinct (map object_name (sort_key object_name ?objs))"
      unfolding distinct_map [of object_name] by (simp only: distinct_sort set_sort)
    show "sorted (map object_name (sort_key object_name ?objs))" by simp
    show "distinct (map object_name ?ys)" unfolding ynames by (simp add: distinct_map inj_on_def)
    show "sorted (map object_name ?ys)" unfolding ynames by (simp add: sorted_map less_eq_prod_def)
    show "inj_on object_name (set (sort_key object_name ?objs) \<union> set ?ys)"
      using inj(2) \<open>set ?ys = set ?objs\<close> by (simp only: set_sort Un_absorb)
  qed
  then show ?thesis using acc by (simp add: filterByNamespace_def)
qed

end

end
