(* ===== verification/Scheme.thy ===== *)
theory Scheme
  imports Client_Types
begin

text \<open>
  Scheme registration: the type registry of the vendored \<open>runtime\<close> package as registration uses it,
  the generated registration of the group (\<open>zz_generated.register.go\<close>) and the schemes that the
  clientset and the fake clientset build at start-up (\<open>scheme/register.go\<close>, \<open>fake/register.go\<close>).
  Conversion and defaulting functions, which are registered alongside, are left out.
\<close>

section \<open>The registry\<close>

text \<open>A struct type as \<open>reflect\<close> names it, and a group version.\<close>

record reflect_type =
  rt_PkgPath :: string
  rt_Name :: string

record group_version =
  gv_Group :: string
  gv_Version :: string

definition GroupVersion_of :: "gvk \<Rightarrow> group_version" where
  "GroupVersion_of k = \<lparr>gv_Group = gvk_Group k, gv_Version = gvk_Version k\<rparr>"

definition WithKind :: "group_version \<Rightarrow> string \<Rightarrow> gvk" where
  "WithKind gv kind = \<lparr>gvk_Group = gv_Group gv, gvk_Version = gv_Version gv, gvk_Kind = kind\<rparr>"

text \<open>\<open>String()\<close> of both.\<close>

definition gv_string :: "group_version \<Rightarrow> string" where
  "gv_string gv = (if gv_Group gv \<noteq> [] then gv_Group gv @ ''/'' @ gv_Version gv else gv_Version gv)"

definition gvk_string :: "gvk \<Rightarrow> string" where
  "gvk_string k = gvk_Group k @ ''/'' @ gvk_Version k @ '', Kind='' @ gvk_Kind k"

definition APIVersionInternal :: string where
  "APIVersionInternal = ''__internal''"

record scheme =
  gvkToType :: "gvk \<rightharpoonup> reflect_type"
  typeToGVK :: "reflect_type \<rightharpoonup> gvk list"
  unversionedTypes :: "reflect_type \<rightharpoonup> gvk"
  unversionedKinds :: "string \<rightharpoonup> reflect_type"
  observedVersions :: "group_version list"
  schemeName :: string

definition NewScheme :: "string \<Rightarrow> scheme" where
  "NewScheme name = \<lparr>gvkToType = Map.empty, typeToGVK = Map.empty, unversionedTypes = Map.empty,
     unversionedKinds = Map.empty, observedVersions = [], schemeName = name\<rparr>"

definition addObservedVersion :: "group_version \<Rightarrow> scheme \<Rightarrow> scheme" where
  "addObservedVersion version s =
     (if gv_Version version = [] \<or> gv_Version version = APIVersionInternal then s
      else if version \<in> set (observedVersions s) then s
      else s\<lparr>observedVersions := observedVersions s @ [version]\<rparr>)"

definition kinds_of :: "scheme \<Rightarrow> reflect_type \<Rightarrow> gvk list" where
  "kinds_of s t = (case typeToGVK s t of None \<Rightarrow> [] | Some ks \<Rightarrow> ks)"

text \<open>
  \<open>AddKnownTypeWithName\<close>: a kind needs a version, and is never given to a second type. The object is
  a pointer to a struct of type \<open>t\<close>.
\<close>

definition double_registration :: "gvk \<Rightarrow> reflect_type \<Rightarrow> reflect_type \<Rightarrow> string \<Rightarrow> string" where
  "double_registration gvk oldT t name =
     ''Double registration of different types for '' @ gvk_string gvk @ '': old='' @ rt_PkgPath oldT @ ''.'' @
     rt_Name oldT @ '', new='' @ rt_PkgPath t @ ''.'' @ rt_Name t @ '' in scheme '' @ quote name"

definition record_kind :: "gvk \<Rightarrow> reflect_type \<Rightarrow> scheme \<Rightarrow> scheme" where
  "record_kind gvk t s0 =
     (let s = s0\<lparr>gvkToType := (gvkToType s0)(gvk \<mapsto> t)\<rparr> in
      if gvk \<in> set (kinds_of s t) then s
      else s\<lparr>typeToGVK := (typeToGVK s)(t \<mapsto> kinds_of s t @ [gvk])\<rparr>)"

definition AddKnownTypeWithName :: "gvk \<Rightarrow> reflect_type \<Rightarrow> scheme \<Rightarrow> scheme outcome" where
  "AddKnownTypeWithName gvk t s0 =
     (let s = addObservedVersion (GroupVersion_of gvk) s0 in
      if gvk_Version gvk = [] then Panics (''version is required on all types: '' @ gvk_string gvk)
      else
        (case gvkToType s gvk of
           Some oldT \<Rightarrow>
             if oldT \<noteq> t then Panics (double_registration gvk oldT t (schemeName s))
             else Returns (record_kind gvk t s)
         | None \<Rightarrow> Returns (record_kind gvk t s)))"

text \<open>A loop whose body may panic.\<close>

fun each :: "('x \<Rightarrow> 's \<Rightarrow> 's outcome) \<Rightarrow> 'x list \<Rightarrow> 's \<Rightarrow> 's outcome" where
  "each f [] s = Returns s"
| "each f (x # xs) s = (case f x s of Panics m \<Rightarrow> Panics m | Returns s' \<Rightarrow> each f xs s')"

definition and_then :: "'s outcome \<Rightarrow> ('s \<Rightarrow> 'a outcome) \<Rightarrow> 'a outcome" where
  "and_then out f = (case out of Panics m \<Rightarrow> Panics m | Returns s \<Rightarrow> f s)"

definition AddKnownTypes :: "group_version \<Rightarrow> reflect_type list \<Rightarrow> scheme \<Rightarrow> scheme outcome" where
  "AddKnownTypes gv types s =
     each (\<lambda>t. AddKnownTypeWithName (WithKind gv (rt_Name t)) t) types (addObservedVersion gv s)"

definition add_unversioned :: "group_version \<Rightarrow> reflect_type \<Rightarrow> scheme \<Rightarrow> scheme outcome" where
  "add_unversioned version t s0 =
     (let gvk = WithKind version (rt_Name t); s = s0\<lparr>unversionedTypes := (unversionedTypes s0)(t \<mapsto> gvk)\<rparr> in
      case unversionedKinds s (gvk_Kind gvk) of
        Some old \<Rightarrow>
          if t \<noteq> old
          then Panics (rt_PkgPath old @ ''.'' @ rt_Name old @ '' has already been registered as unversioned kind '' @
            quote (gvk_string gvk) @ '' - kind name must be unique in scheme '' @ quote (schemeName s))
          else Returns (s\<lparr>unversionedKinds := (unversionedKinds s)(gvk_Kind gvk \<mapsto> t)\<rparr>)
      | None \<Rightarrow> Returns (s\<lparr>unversionedKinds := (unversionedKinds s)(gvk_Kind gvk \<mapsto> t)\<rparr>))"

definition AddUnversionedTypes :: "group_version \<Rightarrow> reflect_type list \<Rightarrow> scheme \<Rightarrow> scheme outcome" where
  "AddUnversionedTypes version types s =
     and_then (AddKnownTypes version types (addObservedVersion version s)) (each (add_unversioned version) types)"

text \<open>Lookups. \<open>New\<close> gives the type of which a new object is made.\<close>

definition NewNotRegisteredErrForKind :: "string \<Rightarrow> gvk \<Rightarrow> go_error" where
  "NewNotRegisteredErrForKind name k = Plain
     (if gvk_Kind k = [] then ''no version '' @ quote (gv_string (GroupVersion_of k)) @ '' has been registered in scheme '' @ quote name
      else if gvk_Version k = APIVersionInternal
      then ''no kind '' @ quote (gvk_Kind k) @ '' is registered for the internal version of group '' @
        quote (gvk_Group k) @ '' in scheme '' @ quote name
      else ''no kind '' @ quote (gvk_Kind k) @ '' is registered for version '' @
        quote (gv_string (GroupVersion_of k)) @ '' in scheme '' @ quote name)"

definition Recognizes :: "scheme \<Rightarrow> gvk \<Rightarrow> bool" where
  "Recognizes s k \<longleftrightarrow> gvkToType s k \<noteq> None"

definition Scheme_New :: "scheme \<Rightarrow> gvk \<Rightarrow> go_error + reflect_type" where
  "Scheme_New s kind =
     (case gvkToType s kind of
        Some t \<Rightarrow> Inr t
      | None \<Rightarrow>
          (case unversionedKinds s (gvk_Kind kind) of
             Some t \<Rightarrow> Inr t
           | None \<Rightarrow> Inl (NewNotRegisteredErrForKind (schemeName s) kind)))"

definition ObjectKinds :: "scheme \<Rightarrow> reflect_type \<Rightarrow> go_error + gvk list \<times> bool" where
  "ObjectKinds s t =
     (case typeToGVK s t of
        None \<Rightarrow> Inl (Plain (''no kind is registered for the type '' @ rt_Name t @ '' in scheme '' @ quote (schemeName s)))
      | Some gvks \<Rightarrow> Inr (gvks, unversionedTypes s t \<noteq> None))"

section \<open>Registration\<close>

text \<open>\<open>metav1.AddToGroupVersion\<close>.\<close>

definition meta_type :: "string \<Rightarrow> reflect_type" where
  "meta_type name = \<lparr>rt_PkgPath = ''k8s.io/apimachinery/pkg/apis/meta/v1'', rt_Name = name\<rparr>"

definition optionsTypes :: "reflect_type list" where
  "optionsTypes = map meta_type [''ListOptions'', ''GetOptions'', ''DeleteOptions'', ''CreateOptions'',
     ''UpdateOptions'', ''PatchOptions'']"

definition unversioned_types :: "reflect_type list" where
  "unversioned_types = map meta_type [''Status'', ''APIVersions'', ''APIGroupList'', ''APIGroup'', ''APIResourceList'']"

definition Unversioned :: group_version where
  "Unversioned = \<lparr>gv_Group = [], gv_Version = ''v1''\<rparr>"

definition AddToGroupVersion :: "group_version \<Rightarrow> scheme \<Rightarrow> scheme outcome" where
  "AddToGroupVersion groupVersion s =
     and_then (AddKnownTypeWithName (WithKind groupVersion ''WatchEvent'') (meta_type ''WatchEvent'') s) (\<lambda>s.
     and_then (AddKnownTypeWithName
         (WithKind \<lparr>gv_Group = gv_Group groupVersion, gv_Version = APIVersionInternal\<rparr> ''WatchEvent'')
         (meta_type ''InternalEvent'') s) (\<lambda>s.
     and_then (AddKnownTypes groupVersion optionsTypes s)
       (AddUnversionedTypes Unversioned unversioned_types)))"

text \<open>Builders collect functions that may fail; \<open>AddToScheme\<close> applies them in turn up to the first error.\<close>

type_synonym scheme_func = "scheme \<Rightarrow> (go_error option \<times> scheme) outcome"

definition SchemeBuilder_Register :: "scheme_func list \<Rightarrow> scheme_func list \<Rightarrow> scheme_func list" where
  "SchemeBuilder_Register sb funcs = sb @ funcs"

fun SchemeBuilder_AddToScheme :: "scheme_func list \<Rightarrow> scheme_func" where
  "SchemeBuilder_AddToScheme [] s = Returns (None, s)"
| "SchemeBuilder_AddToScheme (f # fs) s =
     (case f s of
        Panics m \<Rightarrow> Panics m
      | Returns (Some err, s') \<Rightarrow> Returns (Some err, s')
      | Returns (None, s') \<Rightarrow> SchemeBuilder_AddToScheme fs s')"

text \<open>The registration of the group.\<close>

definition group_SchemeGroupVersion :: group_version where
  "group_SchemeGroupVersion = \<lparr>gv_Group = GroupName, gv_Version = ''v1alpha1''\<rparr>"

definition group_Resource :: "string \<Rightarrow> group_resource" where
  "group_Resource resource = GroupResource (with_resource resource)"

definition api_type :: "string \<Rightarrow> reflect_type" where
  "api_type name =
     \<lparr>rt_PkgPath = ''k8s.io/cel-admission-webhook/pkg/apis/admissionregistration.x-k8s.io/v1alpha1'', rt_Name = name\<rparr>"

definition api_types :: "reflect_type list" where
  "api_types = map api_type [''ValidatingAdmissionPolicy'', ''ValidatingAdmissionPolicyBinding'',
     ''ValidatingAdmissionPolicyBindingList'', ''ValidatingAdmissionPolicyList'']"

definition addKnownTypes :: scheme_func where
  "addKnownTypes s =
     and_then (AddKnownTypes group_SchemeGroupVersion api_types s) (\<lambda>s.
     and_then (AddToGroupVersion group_SchemeGroupVersion s) (\<lambda>s. Returns (None, s)))"

text \<open>The builder after \<open>init\<close> of the package, and its \<open>AddToScheme\<close>.\<close>

definition localSchemeBuilder :: "scheme_func list" where
  "localSchemeBuilder = SchemeBuilder_Register [] [addKnownTypes]"

definition AddToScheme :: scheme_func where
  "AddToScheme = SchemeBuilder_AddToScheme localSchemeBuilder"

text \<open>
  \<open>scheme/register.go\<close> and \<open>fake/register.go\<close>: both build a scheme with the common types of group
  version \<open>v1\<close> and those of the group; \<open>Must\<close> panics on an error.
\<close>

definition clientset_SchemeBuilder :: "scheme_func list" where
  "clientset_SchemeBuilder = [AddToScheme]"

definition clientset_AddToScheme :: scheme_func where
  "clientset_AddToScheme = SchemeBuilder_AddToScheme clientset_SchemeBuilder"

definition clientset_init :: "scheme \<Rightarrow> scheme outcome" where
  "clientset_init Scheme =
     and_then (AddToGroupVersion \<lparr>gv_Group = [], gv_Version = ''v1''\<rparr> Scheme) (\<lambda>s.
     and_then (clientset_AddToScheme s) (\<lambda>(err, s).
       case err of Some e \<Rightarrow> Panics (error_text e) | None \<Rightarrow> Returns s))"

text \<open>The types of objects, and new objects of a type; types no client handles are known by name only.\<close>

definition type_of :: "api_object \<Rightarrow> reflect_type" where
  "type_of obj =
     (case obj of
        PolicyObj _ \<Rightarrow> api_type ''ValidatingAdmissionPolicy''
      | BindingObj _ \<Rightarrow> api_type ''ValidatingAdmissionPolicyBinding''
      | PolicyListObj _ \<Rightarrow> api_type ''ValidatingAdmissionPolicyList''
      | BindingListObj _ \<Rightarrow> api_type ''ValidatingAdmissionPolicyBindingList''
      | StatusObj _ \<Rightarrow> meta_type ''Status''
      | DeleteOptionsObj _ \<Rightarrow> meta_type ''DeleteOptions''
      | UnknownObj name \<Rightarrow> \<lparr>rt_PkgPath = [], rt_Name = name\<rparr>)"

definition new_object :: "reflect_type \<Rightarrow> api_object" where
  "new_object t =
     (if t = api_type ''ValidatingAdmissionPolicy'' then PolicyObj zero_policy
      else if t = api_type ''ValidatingAdmissionPolicyBinding'' then BindingObj zero_binding
      else if t = api_type ''ValidatingAdmissionPolicyList'' then PolicyListObj zero_policyList
      else if t = api_type ''ValidatingAdmissionPolicyBindingList'' then BindingListObj zero_bindingList
      else UnknownObj (rt_Name t))"

section \<open>Registration as a sequence of steps\<close>

text \<open>All of this is a loop over three kinds of steps.\<close>

datatype registration =
    Observe group_version
  | Kind gvk reflect_type
  | Unver group_version reflect_type

fun register :: "registration \<Rightarrow> scheme \<Rightarrow> scheme outcome" where
  "register (Observe gv) s = Returns (addObservedVersion gv s)"
| "register (Kind gvk t) s = AddKnownTypeWithName gvk t s"
| "register (Unver gv t) s = add_unversioned gv t s"

definition kind_regs :: "group_version \<Rightarrow> reflect_type list \<Rightarrow> registration list" where
  "kind_regs gv types = Observe gv # map (\<lambda>t. Kind (WithKind gv (rt_Name t)) t) types"

definition common_regs :: "group_version \<Rightarrow> registration list" where
  "common_regs gv =
     [Kind (WithKind gv ''WatchEvent'') (meta_type ''WatchEvent''),
      Kind (WithKind \<lparr>gv_Group = gv_Group gv, gv_Version = APIVersionInternal\<rparr> ''WatchEvent'') (meta_type ''InternalEvent'')] @
     kind_regs gv optionsTypes @ Observe Unversioned # kind_regs Unversioned unversioned_types @
     map (Unver Unversioned) unversioned_types"

definition group_regs :: "registration list" where
  "group_regs = kind_regs group_SchemeGroupVersion api_types @ common_regs group_SchemeGroupVersion"

lemma and_then_simps [simp]:
  "and_then (Returns s) f = f s" "and_then (Panics m) f = Panics m"
  "and_then (and_then out f) g = and_then out (\<lambda>s. and_then (f s) g)" "and_then out Returns = out"
  by (cases out; simp add: and_then_def)+

lemma each_eq: "each f (x # xs) = (\<lambda>s. and_then (f x s) (each f xs))"
  by (simp add: and_then_def fun_eq_iff)

declare each.simps(2) [simp del]

lemma each_Nil [simp]: "each f [] = Returns"
  by (simp add: fun_eq_iff)

lemma each_append: "each f (xs @ ys) = (\<lambda>s. and_then (each f xs s) (each f ys))"
  by (induction xs) (simp_all add: each_eq)

lemma each_map: "each f (map g xs) = each (\<lambda>x. f (g x)) xs"
  by (induction xs) (simp_all add: each_eq)

lemma register_eqs:
  "register (Observe gv) = (\<lambda>s. Returns (addObservedVersion gv s))"
  "register (Kind gvk t) = AddKnownTypeWithName gvk t" "register (Unver gv t) = add_unversioned gv t"
  by (simp_all add: fun_eq_iff)

lemma AddKnownTypes_steps: "AddKnownTypes gv types s = each register (kind_regs gv types) s"
  by (simp add: AddKnownTypes_def kind_regs_def each_eq each_map register_eqs)

lemma AddToGroupVersion_steps: "AddToGroupVersion gv s = each register (common_regs gv) s"
  unfolding AddToGroupVersion_def AddUnversionedTypes_def AddKnownTypes_steps common_regs_def
  by (simp add: each_append each_eq each_map register_eqs)

lemma addKnownTypes_steps: "addKnownTypes s = and_then (each register group_regs s) (\<lambda>s. Returns (None, s))"
  by (simp add: addKnownTypes_def AddKnownTypes_steps AddToGroupVersion_steps group_regs_def each_append)

lemma AddToScheme_steps: "AddToScheme s = and_then (each register group_regs s) (\<lambda>s. Returns (None, s))"
proof -
  have "AddToScheme s = and_then (addKnownTypes s) (\<lambda>(err, s). Returns (err, s))"
    by (cases "addKnownTypes s")
       (auto simp: AddToScheme_def localSchemeBuilder_def SchemeBuilder_Register_def split: option.split)
  then show ?thesis by (simp add: addKnownTypes_steps)
qed

lemma clientset_init_steps:
  "clientset_init s = each register (common_regs \<lparr>gv_Group = [], gv_Version = ''v1''\<rparr> @ group_regs) s"
proof -
  have "clientset_AddToScheme s = AddToScheme s" for s
    by (cases "AddToScheme s") (auto simp: clientset_AddToScheme_def clientset_SchemeBuilder_def split: option.split)
  then show ?thesis
    by (simp add: clientset_init_def AddToGroupVersion_steps AddToScheme_steps each_append)
qed

section \<open>Loops that settle\<close>

text \<open>
  Steps that, once done, stay done: what is settled by a step is not undone by those it agrees with. A
  loop over steps that agree can be repeated without effect, and panics exactly if
  one of its steps clashes with the state it starts from.
\<close>

locale settling_loop =
  fixes step :: "'x \<Rightarrow> 's \<Rightarrow> 's outcome" and agree :: "'x \<Rightarrow> 'x \<Rightarrow> bool" and clash :: "'x \<Rightarrow> 's \<Rightarrow> bool"
  assumes panics_iff: "(\<exists>m. step x s = Panics m) \<longleftrightarrow> clash x s"
    and settles: "step x s = Returns s' \<Longrightarrow> step x s' = Returns s'"
    and stays: "step x s = Returns s \<Longrightarrow> agree x y \<Longrightarrow> step y s = Returns s' \<Longrightarrow> step x s' = Returns s'"
    and no_new_clash: "agree x y \<Longrightarrow> step y s = Returns s' \<Longrightarrow> clash x s' \<longleftrightarrow> clash x s"
begin

lemma each_stays:
  "step x s = Returns s \<Longrightarrow> list_all (agree x) ys \<Longrightarrow> each step ys s = Returns s' \<Longrightarrow> step x s' = Returns s'"
proof (induction ys arbitrary: s)
  case (Cons y ys)
  then show ?case using stays [of x s y] by (cases "step y s") (auto simp: each_eq)
qed simp

lemma each_settles:
  "each step xs s = Returns s' \<Longrightarrow> list_all (\<lambda>x. list_all (agree x) xs) xs \<Longrightarrow> x \<in> set xs \<Longrightarrow> step x s' = Returns s'"
proof (induction xs arbitrary: s x)
  case (Cons y ys)
  then obtain u where u: "step y s = Returns u" "each step ys u = Returns s'" by (cases "step y s") (auto simp: each_eq)
  have ys: "list_all (\<lambda>x. list_all (agree x) ys) ys" "list_all (agree y) ys"
    using Cons.prems(2) by (auto simp: list_all_iff)
  show ?case
    using Cons.prems(3) Cons.IH [OF u(2) ys(1)] each_stays [OF settles [OF u(1)] ys(2) u(2)] by auto
qed simp

lemma each_settled: "(\<And>x. x \<in> set xs \<Longrightarrow> step x s = Returns s) \<Longrightarrow> each step xs s = Returns s"
  by (induction xs) (simp_all add: each_eq)

lemma each_again:
  "each step xs s = Returns s' \<Longrightarrow> list_all (\<lambda>x. list_all (agree x) xs) xs \<Longrightarrow> each step xs s' = Returns s'"
  using each_settles each_settled by blast

lemma each_panics_iff:
  "list_all (\<lambda>x. list_all (agree x) xs) xs \<Longrightarrow> (\<exists>m. each step xs s = Panics m) \<longleftrightarrow> (\<exists>x\<in>set xs. clash x s)"
proof (induction xs arbitrary: s)
  case (Cons y ys)
  then have ys: "list_all (\<lambda>x. list_all (agree x) ys) ys" "\<And>x. x \<in> set ys \<Longrightarrow> agree x y"
    by (auto simp: list_all_iff)
  show ?case
  proof (cases "step y s")
    case (Panics m)
    then show ?thesis using panics_iff [of y s] by (auto simp: each_eq)
  next
    case (Returns u)
    then have "\<not> clash y s" using panics_iff [of y s] by auto
    with Returns show ?thesis
      using Cons.IH [OF ys(1), of u] no_new_clash [OF ys(2) Returns] by (auto simp: each_eq)
  qed
qed simp

end

text \<open>The steps of registration are such steps.\<close>

fun agree :: "registration \<Rightarrow> registration \<Rightarrow> bool" where
  "agree (Kind g t) (Kind g' t') \<longleftrightarrow> g = g' \<longrightarrow> t = t'"
| "agree (Unver gv t) (Unver gv' t') \<longleftrightarrow> rt_Name t = rt_Name t' \<longrightarrow> gv = gv' \<and> t = t'"
| "agree _ _ \<longleftrightarrow> True"

fun clash :: "registration \<Rightarrow> scheme \<Rightarrow> bool" where
  "clash (Observe gv) s \<longleftrightarrow> False"
| "clash (Kind g t) s \<longleftrightarrow> gvk_Version g = [] \<or> (\<exists>old. gvkToType s g = Some old \<and> old \<noteq> t)"
| "clash (Unver gv t) s \<longleftrightarrow> (\<exists>old. unversionedKinds s (rt_Name t) = Some old \<and> old \<noteq> t)"

lemma observed_fields [simp]:
  "gvkToType (addObservedVersion gv s) = gvkToType s" "typeToGVK (addObservedVersion gv s) = typeToGVK s"
  "unversionedTypes (addObservedVersion gv s) = unversionedTypes s"
  "unversionedKinds (addObservedVersion gv s) = unversionedKinds s" "kinds_of (addObservedVersion gv s) = kinds_of s"
  "schemeName (addObservedVersion gv s) = schemeName s"
  by (simp_all add: addObservedVersion_def kinds_of_def fun_eq_iff)

definition observed :: "group_version \<Rightarrow> scheme \<Rightarrow> bool" where
  "observed gv s \<longleftrightarrow> gv_Version gv = [] \<or> gv_Version gv = APIVersionInternal \<or> gv \<in> set (observedVersions s)"

lemma addObserved_id: "addObservedVersion gv s = s \<longleftrightarrow> observed gv s"
  by (cases s) (auto simp: addObservedVersion_def observed_def)

lemma observed_addObserved [simp]: "observed gv (addObservedVersion gv' s) \<longleftrightarrow> observed gv s \<or> gv = gv' "
  by (auto simp: addObservedVersion_def observed_def)

lemma observed_unversioned [simp]:
  "observed gv (s\<lparr>unversionedTypes := u\<rparr>) = observed gv s" "observed gv (s\<lparr>unversionedKinds := k\<rparr>) = observed gv s"
  by (simp_all add: observed_def)

lemma kinds_of_simps [simp]:
  "kinds_of (s\<lparr>gvkToType := m\<rparr>) = kinds_of s" "kinds_of (s\<lparr>unversionedTypes := u\<rparr>) = kinds_of s"
  "kinds_of (s\<lparr>unversionedKinds := k\<rparr>) = kinds_of s" "kinds_of (s\<lparr>observedVersions := o1\<rparr>) = kinds_of s"
  "kinds_of (s\<lparr>typeToGVK := (typeToGVK s')(t \<mapsto> ks)\<rparr>) = (kinds_of s')(t := ks)"
  by (simp_all add: kinds_of_def fun_eq_iff)

lemma record_kind_fields [simp]:
  "gvkToType (record_kind g t s) = (gvkToType s)(g \<mapsto> t)"
  "kinds_of (record_kind g t s) = (kinds_of s)(t := (if g \<in> set (kinds_of s t) then kinds_of s t else kinds_of s t @ [g]))"
  "unversionedTypes (record_kind g t s) = unversionedTypes s" "unversionedKinds (record_kind g t s) = unversionedKinds s"
  "observed gv (record_kind g t s) = observed gv s"
  by (auto simp: record_kind_def Let_def observed_def fun_eq_iff)

lemma Kind_returns_iff:
  "AddKnownTypeWithName g t s = Returns s' \<longleftrightarrow>
     \<not> clash (Kind g t) s \<and> s' = record_kind g t (addObservedVersion (GroupVersion_of g) s)"
  by (auto simp: AddKnownTypeWithName_def Let_def split: option.split)

lemma record_kind_id: "record_kind g t s = s \<longleftrightarrow> gvkToType s g = Some t \<and> g \<in> set (kinds_of s t)"
proof
  assume r: "record_kind g t s = s"
  have "gvkToType s g = Some t" "g \<in> set (kinds_of s t)"
    using arg_cong [OF r, of "\<lambda>s. gvkToType s g"] arg_cong [OF r, of "\<lambda>s. set (kinds_of s t)"]
    by (auto split: if_splits)
  then show "gvkToType s g = Some t \<and> g \<in> set (kinds_of s t)" ..
next
  assume "gvkToType s g = Some t \<and> g \<in> set (kinds_of s t)"
  moreover from this have "(gvkToType s)(g \<mapsto> t) = gvkToType s" by (auto simp: fun_upd_idem)
  ultimately show "record_kind g t s = s" by (cases s) (simp add: record_kind_def Let_def)
qed

lemma Kind_settled_iff:
  "AddKnownTypeWithName g t s = Returns s \<longleftrightarrow>
     gvk_Version g \<noteq> [] \<and> observed (GroupVersion_of g) s \<and> gvkToType s g = Some t \<and> g \<in> set (kinds_of s t)"
proof
  assume s: "AddKnownTypeWithName g t s = Returns s"
  then have r: "s = record_kind g t (addObservedVersion (GroupVersion_of g) s)" by (simp add: Kind_returns_iff)
  have "observed (GroupVersion_of g) s" using arg_cong [OF r, of "observed (GroupVersion_of g)"] by simp
  moreover from this r have "record_kind g t s = s" by (metis addObserved_id)
  ultimately show "gvk_Version g \<noteq> [] \<and> observed (GroupVersion_of g) s \<and> gvkToType s g = Some t \<and> g \<in> set (kinds_of s t)"
    using s by (auto simp: record_kind_id Kind_returns_iff)
next
  assume "gvk_Version g \<noteq> [] \<and> observed (GroupVersion_of g) s \<and> gvkToType s g = Some t \<and> g \<in> set (kinds_of s t)"
  then show "AddKnownTypeWithName g t s = Returns s"
    by (auto simp: Kind_returns_iff addObserved_id [THEN iffD2] record_kind_id [THEN iffD2])
qed

lemma Unver_returns_iff:
  "add_unversioned gv t s = Returns s' \<longleftrightarrow>
     \<not> clash (Unver gv t) s \<and>
     s' = s\<lparr>unversionedTypes := (unversionedTypes s)(t \<mapsto> WithKind gv (rt_Name t)),
            unversionedKinds := (unversionedKinds s)(rt_Name t \<mapsto> t)\<rparr>"
  by (auto simp: add_unversioned_def Let_def WithKind_def split: option.split)

lemma Unver_settled_iff:
  "add_unversioned gv t s = Returns s \<longleftrightarrow>
     unversionedTypes s t = Some (WithKind gv (rt_Name t)) \<and> unversionedKinds s (rt_Name t) = Some t"
proof
  assume s: "add_unversioned gv t s = Returns s"
  then have r: "s = s\<lparr>unversionedTypes := (unversionedTypes s)(t \<mapsto> WithKind gv (rt_Name t)),
      unversionedKinds := (unversionedKinds s)(rt_Name t \<mapsto> t)\<rparr>" by (simp add: Unver_returns_iff)
  show "unversionedTypes s t = Some (WithKind gv (rt_Name t)) \<and> unversionedKinds s (rt_Name t) = Some t"
    using arg_cong [OF r, of "\<lambda>s. unversionedTypes s t"] arg_cong [OF r, of "\<lambda>s. unversionedKinds s (rt_Name t)"] by simp
next
  assume u: "unversionedTypes s t = Some (WithKind gv (rt_Name t)) \<and> unversionedKinds s (rt_Name t) = Some t"
  then have "(unversionedTypes s)(t \<mapsto> WithKind gv (rt_Name t)) = unversionedTypes s"
    "(unversionedKinds s)(rt_Name t \<mapsto> t) = unversionedKinds s" by (auto simp: fun_upd_idem)
  with u show "add_unversioned gv t s = Returns s" by (auto simp: Unver_returns_iff)
qed

text \<open>Registration only adds to a scheme.\<close>

lemma register_grows:
  assumes "register y s = Returns s'"
  shows "observed gv s \<Longrightarrow> observed gv s'" and "gvkToType s g = Some t \<Longrightarrow> gvkToType s' g = Some t"
    and "k \<in> set (kinds_of s t) \<Longrightarrow> k \<in> set (kinds_of s' t)"
    and "unversionedKinds s n = Some t \<Longrightarrow> unversionedKinds s' n = Some t"
    and "(\<And>gv'. y = Unver gv' t \<Longrightarrow> gv' = gv) \<Longrightarrow> unversionedTypes s t = Some (WithKind gv (rt_Name t)) \<Longrightarrow>
      unversionedTypes s' t = Some (WithKind gv (rt_Name t))"
  using assms
  by (cases y; auto simp: Kind_returns_iff Unver_returns_iff)+

interpretation regs: settling_loop register agree clash
proof
  fix x s
  show "(\<exists>m. register x s = Panics m) \<longleftrightarrow> clash x s"
    by (cases x) (auto simp: AddKnownTypeWithName_def add_unversioned_def Let_def WithKind_def split: option.splits)
next
  fix x s s'
  assume "register x s = Returns s'"
  then show "register x s' = Returns s'"
    by (cases x) (auto simp: addObserved_id Kind_settled_iff Unver_settled_iff Kind_returns_iff Unver_returns_iff)
next
  fix x y s s'
  assume "register x s = Returns s" "agree x y" "register y s = Returns s'"
  note grows = register_grows [OF this(3)]
  show "register x s' = Returns s'"
  proof (cases x)
    case (Unver gv t)
    with \<open>agree x y\<close> have "y = Unver gv' t \<Longrightarrow> gv' = gv" for gv' by auto
    with Unver \<open>register x s = Returns s\<close> show ?thesis using grows(4,5) by (simp add: Unver_settled_iff)
  qed (use \<open>register x s = Returns s\<close> grows in \<open>auto simp: addObserved_id Kind_settled_iff\<close>)
next
  fix x y s s'
  assume "agree x y" "register y s = Returns s'"
  then show "clash x s' \<longleftrightarrow> clash x s"
    by (cases x; cases y) (auto simp: Kind_returns_iff Unver_returns_iff)
qed

text \<open>The kinds of the group and the common ones are each for one type.\<close>

definition type_for :: "gvk \<Rightarrow> reflect_type" where
  "type_for g =
     (if gvk_Version g = APIVersionInternal then meta_type ''InternalEvent''
      else if gvk_Kind g \<in> rt_Name ` set api_types then api_type (gvk_Kind g)
      else meta_type (gvk_Kind g))"

fun in_order :: "registration \<Rightarrow> bool" where
  "in_order (Observe gv) \<longleftrightarrow> True"
| "in_order (Kind g t) \<longleftrightarrow> gvk_Version g \<noteq> [] \<and> t = type_for g"
| "in_order (Unver gv t) \<longleftrightarrow> gv = Unversioned \<and> t = meta_type (rt_Name t)"

lemma in_order_agree: "list_all in_order xs \<Longrightarrow> list_all (\<lambda>x. list_all (agree x) xs) xs"
proof -
  have "in_order x \<Longrightarrow> in_order y \<Longrightarrow> agree x y" for x y
    by (cases x; cases y) (simp, simp, simp, simp, simp, simp, simp, simp, simp, metis)
  then show "list_all in_order xs \<Longrightarrow> list_all (\<lambda>x. list_all (agree x) xs) xs" by (auto simp: list_all_iff)
qed

lemma regs_in_order: "list_all in_order group_regs" "list_all in_order (common_regs \<lparr>gv_Group = [], gv_Version = ''v1''\<rparr>)"
  by code_simp+

section \<open>What schemes know\<close>

text \<open>The two directions of the registry agree.\<close>

definition scheme_ok :: "scheme \<Rightarrow> bool" where
  "scheme_ok s \<longleftrightarrow>
     (\<forall>g t. gvkToType s g = Some t \<longleftrightarrow> g \<in> set (kinds_of s t)) \<and> (\<forall>t. distinct (kinds_of s t)) \<and>
     (\<forall>g t. gvkToType s g = Some t \<longrightarrow> gvk_Version g \<noteq> []) \<and> (\<forall>t. typeToGVK s t \<noteq> Some [])"

definition registers :: "scheme \<Rightarrow> scheme \<Rightarrow> bool" where
  "registers s s' \<longleftrightarrow> (\<exists>r. register r s = Returns s')"

lemma typeToGVK_record_kind:
  "typeToGVK (record_kind g t s) =
     (if g \<in> set (kinds_of s t) then typeToGVK s else (typeToGVK s)(t \<mapsto> kinds_of s t @ [g]))"
  by (simp add: record_kind_def Let_def)

interpretation registry: invariant_system "\<lambda>s. \<exists>name. s = NewScheme name" registers scheme_ok
proof
  fix s assume "\<exists>name. s = NewScheme name"
  then show "scheme_ok s" by (auto simp: scheme_ok_def NewScheme_def kinds_of_def)
next
  fix s s' assume "registers s s'" and ok: "scheme_ok s"
  then obtain r where r: "register r s = Returns s'" by (auto simp: registers_def)
  show "scheme_ok s'"
  proof (cases r)
    case (Kind g t)
    with r have c: "\<not> clash (Kind g t) s" and eq: "s' = record_kind g t (addObservedVersion (GroupVersion_of g) s)"
      by (auto simp: Kind_returns_iff)
    have s': "gvkToType s' = (gvkToType s)(g \<mapsto> t)" "\<And>t'. t' \<noteq> t \<Longrightarrow> kinds_of s' t' = kinds_of s t'"
        "kinds_of s' t = (if g \<in> set (kinds_of s t) then kinds_of s t else kinds_of s t @ [g])"
        "typeToGVK s' = (if g \<in> set (kinds_of s t) then typeToGVK s else (typeToGVK s)(t \<mapsto> kinds_of s t @ [g]))"
      unfolding eq by (simp_all add: typeToGVK_record_kind)
    have g: "gvk_Version g \<noteq> []" "t' = t" if "g \<in> set (kinds_of s t') \<or> t' = t" for t'
      using c ok that by (auto simp: scheme_ok_def)
    show ?thesis unfolding scheme_ok_def
    proof (intro conjI allI impI)
      fix g' t'
      show "gvkToType s' g' = Some t' \<longleftrightarrow> g' \<in> set (kinds_of s' t')"
        using ok g(2) by (cases "t' = t") (auto simp: s' scheme_ok_def)
    next
      fix t'
      show "distinct (kinds_of s' t')" using ok by (cases "t' = t") (auto simp: s' scheme_ok_def)
    qed (use ok g in \<open>auto simp: s' scheme_ok_def split: if_splits\<close>)
  qed (use r ok in \<open>auto simp: scheme_ok_def Unver_returns_iff\<close>)
qed

lemma each_registers: "each register rs s = Returns s' \<Longrightarrow> registers\<^sup>*\<^sup>* s s'"
proof (induction rs arbitrary: s)
  case (Cons r rs)
  then obtain u where "register r s = Returns u" "each register rs u = Returns s'"
    by (cases "register r s") (auto simp: each_eq)
  with Cons.IH show ?case by (metis converse_rtranclp_into_rtranclp registers_def)
qed simp

lemma each_scheme_ok: "each register rs s = Returns s' \<Longrightarrow> scheme_ok s \<Longrightarrow> scheme_ok s'"
proof (induction rs arbitrary: s)
  case (Cons r rs)
  then obtain u where "register r s = Returns u" "each register rs u = Returns s'"
    by (cases "register r s") (auto simp: each_eq)
  with Cons registry.inv_step show ?case by (metis registers_def)
qed simp

lemma each_from:
  "each register rs s = Returns s' \<Longrightarrow>
     (gvkToType s' g = Some t \<longrightarrow> gvkToType s g = Some t \<or> Kind g t \<in> set rs) \<and>
     (unversionedTypes s' t \<noteq> None \<longrightarrow> unversionedTypes s t \<noteq> None \<or> (\<exists>gv. Unver gv t \<in> set rs))"
proof (induction rs arbitrary: s)
  case (Cons r rs)
  then obtain u where u: "register r s = Returns u" "each register rs u = Returns s'"
    by (cases "register r s") (auto simp: each_eq)
  from u(1) have "(gvkToType u g = Some t \<longrightarrow> gvkToType s g = Some t \<or> r = Kind g t) \<and>
      (unversionedTypes u t \<noteq> None \<longrightarrow> unversionedTypes s t \<noteq> None \<or> (\<exists>gv. r = Unver gv t))"
    by (cases r) (auto simp: Kind_returns_iff Unver_returns_iff split: if_splits)
  with Cons.IH [OF u(2)] show ?case by auto
qed simp

lemma each_known:
  assumes "each register rs s = Returns s'" "list_all in_order rs" "Kind g t \<in> set rs"
  shows "gvkToType s' g = Some t"
  using regs.each_settles [OF assms(1) in_order_agree [OF assms(2)] assms(3)] by (simp add: Kind_settled_iff)

lemma in_order_returns:
  assumes "list_all in_order rs"
  shows "\<exists>s'. each register rs (NewScheme name) = Returns s'"
proof -
  have "\<not> (\<exists>x\<in>set rs. clash x (NewScheme name))"
    using assms by (auto simp: NewScheme_def list_all_iff elim!: clash.elims dest!: bspec)
  then show ?thesis
    using regs.each_panics_iff [OF in_order_agree [OF assms], of "NewScheme name"] by (metis outcome.exhaust)
qed

text \<open>The kinds of the API group and their types.\<close>

definition group_kinds :: "(string \<times> reflect_type) list" where
  "group_kinds = map (\<lambda>t. (rt_Name t, t)) (api_types @ meta_type ''WatchEvent'' # optionsTypes)"

lemma group_kind_regs:
  "Kind (with_kind kind) t \<in> set (common_regs \<lparr>gv_Group = [], gv_Version = ''v1''\<rparr> @ group_regs) \<longleftrightarrow> (kind, t) \<in> set group_kinds"
  by (auto simp: common_regs_def group_regs_def kind_regs_def group_kinds_def WithKind_def with_kind_def GroupName_def
      group_SchemeGroupVersion_def Unversioned_def APIVersionInternal_def api_types_def optionsTypes_def
      unversioned_types_def api_type_def meta_type_def)

lemma group_kinds_distinct: "distinct (map fst group_kinds)"
  by code_simp

lemma api_kind_of: "t \<in> set api_types \<Longrightarrow> map_of group_kinds (rt_Name t) = Some t"
  using group_kinds_distinct by (auto simp: group_kinds_def intro!: map_of_is_SomeI)

text \<open>The API types are registered under these kinds only.\<close>

definition api_kinds_only :: "registration list \<Rightarrow> bool" where
  "api_kinds_only rs = list_all (\<lambda>r. case r of
      Kind g t \<Rightarrow> t \<notin> set api_types \<or> g = with_kind (rt_Name t)
    | Unver gv t \<Rightarrow> t \<notin> set api_types
    | Observe gv \<Rightarrow> True) rs"

lemma api_kind_regs:
  assumes "t \<in> set api_types"
  shows "Kind g t \<in> set (common_regs \<lparr>gv_Group = [], gv_Version = ''v1''\<rparr> @ group_regs) \<longleftrightarrow> g = with_kind (rt_Name t)"
    and "Unver gv t \<notin> set (common_regs \<lparr>gv_Group = [], gv_Version = ''v1''\<rparr> @ group_regs)"
proof -
  have "api_kinds_only (common_regs \<lparr>gv_Group = [], gv_Version = ''v1''\<rparr> @ group_regs)" by code_simp
  moreover have "Kind (with_kind (rt_Name t)) t \<in> set group_regs"
    using assms by (simp add: group_regs_def kind_regs_def WithKind_def with_kind_def group_SchemeGroupVersion_def)
  ultimately show "Kind g t \<in> set (common_regs \<lparr>gv_Group = [], gv_Version = ''v1''\<rparr> @ group_regs) \<longleftrightarrow> g = with_kind (rt_Name t)"
    "Unver gv t \<notin> set (common_regs \<lparr>gv_Group = [], gv_Version = ''v1''\<rparr> @ group_regs)"
    using assms unfolding api_kinds_only_def list_all_iff by fastforce+
qed

lemma distinct_singleton_list: "distinct xs \<Longrightarrow> set xs = {x} \<Longrightarrow> xs = [x]"
  by (cases xs rule: remdups_adj.cases) auto

section \<open>Properties\<close>

text \<open>
  In every scheme that registration can build, kinds and types determine each other: the kinds
  of a type are distinct, have a version, and \<open>New\<close> makes an object of that type for each; and every
  kind the scheme recognizes is among the kinds of the type it stands for. Registrations that would
  break this panic.
\<close>

theorem scheme_kinds_and_types:
  assumes "reach (\<lambda>s. \<exists>name. s = NewScheme name) registers s"
  shows "(\<forall>ks u. ObjectKinds s t = Inr (ks, u) \<longrightarrow>
      ks \<noteq> [] \<and> distinct ks \<and> list_all (\<lambda>k. gvk_Version k \<noteq> [] \<and> Scheme_New s k = Inr t) ks) \<and>
    (\<forall>k. Recognizes s k \<and> Scheme_New s k = Inr t \<longrightarrow> (\<exists>ks u. ObjectKinds s t = Inr (ks, u) \<and> k \<in> set ks))"
proof -
  have ok: "scheme_ok s" using registry.reach_inv [OF assms] .
  have "\<exists>ks. typeToGVK s t = Some ks \<and> k \<in> set ks" if "gvkToType s k = Some t" for k
    using ok that by (cases "typeToGVK s t") (auto simp: scheme_ok_def kinds_of_def split: option.splits)
  moreover have "ks \<noteq> [] \<and> distinct ks \<and> list_all (\<lambda>k. gvk_Version k \<noteq> [] \<and> gvkToType s k = Some t) ks"
    if "typeToGVK s t = Some ks" for ks
    using ok that unfolding scheme_ok_def kinds_of_def list_all_iff by (metis option.simps(5))
  ultimately show ?thesis
    by (auto simp: ObjectKinds_def Recognizes_def Scheme_New_def list_all_iff split: option.splits)
qed

text \<open>
  \<open>AddToScheme\<close> can be applied to a scheme again without any effect, and it panics exactly if
  the scheme has one of its kinds for another type. It never returns an error, which is why the
  command and the clientsets lose nothing by ignoring or asserting it.
\<close>

theorem AddToScheme_settles:
  "case AddToScheme s of
     Panics m \<Rightarrow> list_ex (\<lambda>r. clash r s) group_regs
   | Returns (err, s') \<Rightarrow> err = None \<and> AddToScheme s' = Returns (None, s') \<and> \<not> list_ex (\<lambda>r. clash r s) group_regs"
proof (cases "each register group_regs s")
  case (Panics m)
  then show ?thesis
    using regs.each_panics_iff [OF in_order_agree [OF regs_in_order(1)], of s] by (auto simp: AddToScheme_steps list_ex_iff)
next
  case (Returns s')
  then show ?thesis
    using regs.each_again [OF Returns in_order_agree [OF regs_in_order(1)]]
      regs.each_panics_iff [OF in_order_agree [OF regs_in_order(1)], of s]
    by (auto simp: AddToScheme_steps list_ex_iff)
qed

lemma clientset_scheme:
  obtains s where "clientset_init (NewScheme name) = Returns s" "scheme_ok s"
    "\<And>kind. gvkToType s (with_kind kind) = map_of group_kinds kind"
    "\<And>t. t \<in> set api_types \<Longrightarrow> ObjectKinds s t = Inr ([with_kind (rt_Name t)], False)"
proof -
  let ?rs = "common_regs \<lparr>gv_Group = [], gv_Version = ''v1''\<rparr> @ group_regs"
  have order: "list_all in_order ?rs" using regs_in_order by simp
  obtain s where s: "each register ?rs (NewScheme name) = Returns s" using in_order_returns [OF order] by blast
  have ok: "scheme_ok s" using each_scheme_ok [OF s] registry.inv_start by blast
  have group: "gvkToType s (with_kind kind) = Some t \<longleftrightarrow> (kind, t) \<in> set group_kinds" for kind t
    using each_from [OF s, of "with_kind kind" t] each_known [OF s order, of "with_kind kind" t] group_kind_regs [of kind t]
    by (auto simp: NewScheme_def)
  then have kinds: "gvkToType s (with_kind kind) = map_of group_kinds kind" for kind
    using group_kinds_distinct by (metis map_of_eq_Some_iff not_Some_eq)
  have "ObjectKinds s t = Inr ([with_kind (rt_Name t)], False)" if t: "t \<in> set api_types" for t
  proof -
    have "set (kinds_of s t) = {g. gvkToType s g = Some t}" "distinct (kinds_of s t)"
      using ok by (auto simp: scheme_ok_def)
    moreover have "gvkToType s g = Some t \<longleftrightarrow> g = with_kind (rt_Name t)" for g
      using each_from [OF s, of g t] each_known [OF s order, of g t] api_kind_regs(1) [OF t] by (auto simp: NewScheme_def)
    ultimately have "kinds_of s t = [with_kind (rt_Name t)]" by (simp add: distinct_singleton_list)
    moreover have "unversionedTypes s t = None"
      using each_from [OF s, of _ t] api_kind_regs(2) [OF t] by (cases "unversionedTypes s t") (auto simp: NewScheme_def)
    ultimately show ?thesis by (auto simp: ObjectKinds_def kinds_of_def split: option.splits)
  qed
  with that s ok kinds show ?thesis by (simp add: clientset_init_steps)
qed

text \<open>
  The start-up code of the clientset and of its fake builds a scheme without a panic. It knows
  exactly the four kinds of the API group, the watch event and the options of calls for the group's
  version, a new object of each is of the Go type that registered it, and each of the
  four API types is written under exactly one kind.
\<close>

theorem clientset_scheme_exact:
  "\<exists>s. clientset_init (NewScheme name) = Returns s \<and>
     (\<forall>kind. gvkToType s (with_kind kind) = map_of group_kinds kind) \<and>
     list_all (\<lambda>t. ObjectKinds s t = Inr ([with_kind (rt_Name t)], False) \<and>
       Scheme_New s (with_kind (rt_Name t)) = Inr t) api_types"
proof -
  obtain s where "clientset_init (NewScheme name) = Returns s"
    "\<And>kind. gvkToType s (with_kind kind) = map_of group_kinds kind"
    "\<And>t. t \<in> set api_types \<Longrightarrow> ObjectKinds s t = Inr ([with_kind (rt_Name t)], False)"
    by (metis clientset_scheme)
  then show ?thesis using api_kind_of by (auto simp: list_all_iff Scheme_New_def)
qed

theorem scheme_kinds_and_types_witness:
  "\<exists>s. clientset_init (NewScheme ''scheme'') = Returns s \<and>
     (\<exists>ks u. ObjectKinds s (api_type ''ValidatingAdmissionPolicy'') = Inr (ks, u) \<and> with_kind ''ValidatingAdmissionPolicy'' \<in> set ks)"
proof -
  obtain s where s: "clientset_init (NewScheme ''scheme'') = Returns s"
    "gvkToType s (with_kind ''ValidatingAdmissionPolicy'') = map_of group_kinds ''ValidatingAdmissionPolicy''"
    by (metis clientset_scheme)
  then have "registers\<^sup>*\<^sup>* (NewScheme ''scheme'') s" using each_registers by (metis clientset_init_steps)
  then have "reach (\<lambda>s. \<exists>name. s = NewScheme name) registers s"
    by (induction rule: rtranclp_induct) (auto intro: reach_start reach_step)
  moreover have "gvkToType s (with_kind ''ValidatingAdmissionPolicy'') = Some (api_type ''ValidatingAdmissionPolicy'')"
    unfolding s(2) by code_simp
  ultimately show ?thesis
    using scheme_kinds_and_types [of s "api_type ''ValidatingAdmissionPolicy''"] s(1)
    by (auto simp: Recognizes_def Scheme_New_def)
qed

end
