(* ===== verification/Fake_Client.thy ===== *)
theory Fake_Client
  imports Object_Tracker Scheme
begin

text \<open>
  The generated fake clientset of \<open>pkg/generated/clientset/versioned/fake\<close> and its typed clients,
  on the object tracker. The fakes of policies and of bindings keep the contract of an object
  store.
\<close>

section \<open>Results of the recorder\<close>

text \<open>\<open>if obj == nil { return nil, err }; return obj.(*T), err\<close>.\<close>

definition typed_result ::
  "(api_object \<Rightarrow> 'x option) \<Rightarrow> ((api_object option \<times> go_error option) \<times> fake) outcome
   \<Rightarrow> ('x result \<times> fake) outcome" where
  "typed_result as_x out =
     (case out of
        Panics s \<Rightarrow> Panics s
      | Returns ((None, err), c) \<Rightarrow> Returns ((None, err), c)
      | Returns ((Some obj, err), c) \<Rightarrow>
          (case as_x obj of
             None \<Rightarrow> Panics ''interface conversion''
           | Some x \<Rightarrow> Returns ((Some x, err), c)))"

definition error_only ::
  "((api_object option \<times> go_error option) \<times> fake) outcome \<Rightarrow> (go_error option \<times> fake) outcome" where
  "error_only out =
     (case out of Panics s \<Rightarrow> Panics s | Returns ((_, err), c) \<Rightarrow> Returns (err, c))"

text \<open>
  Parsers of label and field selectors, \<open>None\<close> for an invalid one; the fakes use only the labels. An
  empty selector selects everything.
\<close>

record selectors =
  parse_labels :: "string \<Rightarrow> (str_map \<Rightarrow> bool) option"
  parse_fields :: "string \<Rightarrow> bool"

definition ExtractFromListOptions :: "selectors \<Rightarrow> listOptions \<Rightarrow> (str_map \<Rightarrow> bool) outcome" where
  "ExtractFromListOptions sel opts =
     (case (if lo_LabelSelector opts = [] then Some (\<lambda>_. True) else parse_labels sel (lo_LabelSelector opts)) of
        None \<Rightarrow> Panics ''invalid selector''
      | Some label \<Rightarrow>
          if lo_FieldSelector opts \<noteq> [] \<and> \<not> parse_fields sel (lo_FieldSelector opts)
          then Panics ''invalid selector'' else Returns label)"

section \<open>Policies\<close>

definition validatingadmissionpoliciesResource :: gvr where
  "validatingadmissionpoliciesResource = with_resource ''validatingadmissionpolicies''"

definition validatingadmissionpoliciesKind :: gvk where
  "validatingadmissionpoliciesKind = with_kind ''ValidatingAdmissionPolicy''"

definition FakeValidatingAdmissionPolicies_Get :: "string \<Rightarrow> string \<Rightarrow> fake \<Rightarrow> (validatingAdmissionPolicy result \<times> fake) outcome" where
  "FakeValidatingAdmissionPolicies_Get name options c =
     typed_result as_policy (Invokes (GetAction validatingadmissionpoliciesResource [] name) (PolicyObj zero_policy) c)"

text \<open>The label selector filters what the tracker lists; an invalid selector panics.\<close>

definition FakeValidatingAdmissionPolicies_List ::
  "selectors \<Rightarrow> listOptions \<Rightarrow> fake \<Rightarrow> (validatingAdmissionPolicy klist result \<times> fake) outcome" where
  "FakeValidatingAdmissionPolicies_List sel opts c =
     (case ExtractFromListOptions sel opts of
        Panics s \<Rightarrow> Panics s
      | Returns label \<Rightarrow>
          (case Invokes (ListAction validatingadmissionpoliciesResource validatingadmissionpoliciesKind []) (PolicyListObj zero_policyList) c of
             Panics s \<Rightarrow> Panics s
           | Returns ((None, err), c') \<Rightarrow> Returns ((None, err), c')
           | Returns ((Some obj, err), c') \<Rightarrow>
               (case obj of
                  PolicyListObj l \<Rightarrow>
                    Returns ((Some \<lparr>kl_ListMeta = vapl_ListMeta l,
                      kl_Items = foldl append_slice None
                        (filter (\<lambda>item. label (om_labels (vap_ObjectMeta item))) (elems (vapl_Items l)))\<rparr>, err), c')
                | _ \<Rightarrow> Panics ''interface conversion'')))"

definition FakeValidatingAdmissionPolicies_Watch ::
  "selectors \<Rightarrow> listOptions \<Rightarrow> fake \<Rightarrow> ((nat option \<times> go_error option) \<times> fake) outcome" where
  "FakeValidatingAdmissionPolicies_Watch sel opts c =
     (case ExtractFromListOptions sel opts of
        Panics s \<Rightarrow> Panics s
      | Returns label \<Rightarrow> InvokesWatch (WatchAction validatingadmissionpoliciesResource []) c)"

definition FakeValidatingAdmissionPolicies_Create ::
  "validatingAdmissionPolicy option \<Rightarrow> writeOptions \<Rightarrow> fake \<Rightarrow> (validatingAdmissionPolicy result \<times> fake) outcome" where
  "FakeValidatingAdmissionPolicies_Create object opts c =
     typed_result as_policy
       (Invokes (CreateAction validatingadmissionpoliciesResource [] [] (map_option PolicyObj object)) (PolicyObj zero_policy) c)"

definition FakeValidatingAdmissionPolicies_Update ::
  "validatingAdmissionPolicy option \<Rightarrow> writeOptions \<Rightarrow> fake \<Rightarrow> (validatingAdmissionPolicy result \<times> fake) outcome" where
  "FakeValidatingAdmissionPolicies_Update object opts c =
     typed_result as_policy
       (Invokes (UpdateAction validatingadmissionpoliciesResource [] [] (map_option PolicyObj object)) (PolicyObj zero_policy) c)"

text \<open>Only the subresource of the action says that this is a status.\<close>

definition FakeValidatingAdmissionPolicies_UpdateStatus ::
  "validatingAdmissionPolicy option \<Rightarrow> writeOptions \<Rightarrow> fake \<Rightarrow> (validatingAdmissionPolicy result \<times> fake) outcome" where
  "FakeValidatingAdmissionPolicies_UpdateStatus object opts c =
     typed_result as_policy
       (Invokes (UpdateAction validatingadmissionpoliciesResource [] ''status'' (map_option PolicyObj object)) (PolicyObj zero_policy) c)"

definition FakeValidatingAdmissionPolicies_Delete :: "string \<Rightarrow> deleteOptions \<Rightarrow> fake \<Rightarrow> (go_error option \<times> fake) outcome" where
  "FakeValidatingAdmissionPolicies_Delete name opts c =
     error_only (Invokes (DeleteAction validatingadmissionpoliciesResource [] name opts) (PolicyObj zero_policy) c)"

definition FakeValidatingAdmissionPolicies_DeleteCollection ::
  "selectors \<Rightarrow> deleteOptions \<Rightarrow> listOptions \<Rightarrow> fake \<Rightarrow> (go_error option \<times> fake) outcome" where
  "FakeValidatingAdmissionPolicies_DeleteCollection sel opts listOpts c =
     (case ExtractFromListOptions sel listOpts of
        Panics s \<Rightarrow> Panics s
      | Returns label \<Rightarrow>
          error_only (Invokes (DeleteCollectionAction validatingadmissionpoliciesResource []) (PolicyListObj zero_policyList) c))"

definition FakeValidatingAdmissionPolicies_Patch ::
  "string \<Rightarrow> string \<Rightarrow> string \<Rightarrow> string list \<Rightarrow> fake \<Rightarrow> (validatingAdmissionPolicy result \<times> fake) outcome" where
  "FakeValidatingAdmissionPolicies_Patch name pt data subresources c =
     typed_result as_policy
       (Invokes (PatchAction validatingadmissionpoliciesResource [] name (path_Join subresources) pt data) (PolicyObj zero_policy) c)"

text \<open>The methods as a client; a watch has delivered nothing when it is returned.\<close>

definition FakeValidatingAdmissionPolicies ::
  "selectors \<Rightarrow> (validatingAdmissionPolicy, validatingAdmissionPolicy, call_options, fake) client" where
  "FakeValidatingAdmissionPolicies sel =
     \<lparr>cl_Create = (\<lambda>object opts. FakeValidatingAdmissionPolicies_Create object (co_Create opts)),
      cl_Update = (\<lambda>object opts. FakeValidatingAdmissionPolicies_Update object (co_Update opts)),
      cl_UpdateStatus = Some (\<lambda>object opts. FakeValidatingAdmissionPolicies_UpdateStatus object (co_Update opts)),
      cl_Delete = (\<lambda>name opts. FakeValidatingAdmissionPolicies_Delete name (co_Delete opts)),
      cl_DeleteCollection = (\<lambda>opts listOpts.
        FakeValidatingAdmissionPolicies_DeleteCollection sel (co_Delete opts) (co_List listOpts)),
      cl_Get = (\<lambda>name opts. FakeValidatingAdmissionPolicies_Get name (co_Get opts)),
      cl_List = (\<lambda>opts. FakeValidatingAdmissionPolicies_List sel (co_List opts)),
      cl_Watch = (\<lambda>opts c.
        case FakeValidatingAdmissionPolicies_Watch sel (co_List opts) c of
          Panics s \<Rightarrow> Panics s
        | Returns ((watcher, err), c') \<Rightarrow> Returns ((map_option (\<lambda>_. []) watcher, err), c'))\<rparr>"

section \<open>Bindings\<close>

definition validatingadmissionpolicybindingsResource :: gvr where
  "validatingadmissionpolicybindingsResource = with_resource ''validatingadmissionpolicybindings''"

definition validatingadmissionpolicybindingsKind :: gvk where
  "validatingadmissionpolicybindingsKind = with_kind ''ValidatingAdmissionPolicyBinding''"

definition FakeValidatingAdmissionPolicyBindings_Get :: "string \<Rightarrow> string \<Rightarrow> fake \<Rightarrow> (validatingAdmissionPolicyBinding result \<times> fake) outcome" where
  "FakeValidatingAdmissionPolicyBindings_Get name options c =
     typed_result as_binding (Invokes (GetAction validatingadmissionpolicybindingsResource [] name) (BindingObj zero_binding) c)"

text \<open>The label selector filters what the tracker lists; an invalid selector panics.\<close>

definition FakeValidatingAdmissionPolicyBindings_List ::
  "selectors \<Rightarrow> listOptions \<Rightarrow> fake \<Rightarrow> (validatingAdmissionPolicyBinding klist result \<times> fake) outcome" where
  "FakeValidatingAdmissionPolicyBindings_List sel opts c =
     (case ExtractFromListOptions sel opts of
        Panics s \<Rightarrow> Panics s
      | Returns label \<Rightarrow>
          (case Invokes (ListAction validatingadmissionpolicybindingsResource validatingadmissionpolicybindingsKind []) (BindingListObj zero_bindingList) c of
             Panics s \<Rightarrow> Panics s
           | Returns ((None, err), c') \<Rightarrow> Returns ((None, err), c')
           | Returns ((Some obj, err), c') \<Rightarrow>
               (case obj of
                  BindingListObj l \<Rightarrow>
                    Returns ((Some \<lparr>kl_ListMeta = vapbl_ListMeta l,
                      kl_Items = foldl append_slice None
                        (filter (\<lambda>item. label (om_labels (vapb_ObjectMeta item))) (elems (vapbl_Items l)))\<rparr>, err), c')
                | _ \<Rightarrow> Panics ''interface conversion'')))"

definition FakeValidatingAdmissionPolicyBindings_Watch ::
  "selectors \<Rightarrow> listOptions \<Rightarrow> fake \<Rightarrow> ((nat option \<times> go_error option) \<times> fake) outcome" where
  "FakeValidatingAdmissionPolicyBindings_Watch sel opts c =
     (case ExtractFromListOptions sel opts of
        Panics s \<Rightarrow> Panics s
      | Returns label \<Rightarrow> InvokesWatch (WatchAction validatingadmissionpolicybindingsResource []) c)"

definition FakeValidatingAdmissionPolicyBindings_Create ::
  "validatingAdmissionPolicyBinding option \<Rightarrow> writeOptions \<Rightarrow> fake \<Rightarrow> (validatingAdmissionPolicyBinding result \<times> fake) outcome" where
  "FakeValidatingAdmissionPolicyBindings_Create object opts c =
     typed_result as_binding
       (Invokes (CreateAction validatingadmissionpolicybindingsResource [] [] (map_option BindingObj object)) (BindingObj zero_binding) c)"

definition FakeValidatingAdmissionPolicyBindings_Update ::
  "validatingAdmissionPolicyBinding option \<Rightarrow> writeOptions \<Rightarrow> fake \<Rightarrow> (validatingAdmissionPolicyBinding result \<times> fake) outcome" where
  "FakeValidatingAdmissionPolicyBindings_Update object opts c =
     typed_result as_binding
       (Invokes (UpdateAction validatingadmissionpolicybindingsResource [] [] (map_option BindingObj object)) (BindingObj zero_binding) c)"

definition FakeValidatingAdmissionPolicyBindings_Delete :: "string \<Rightarrow> deleteOptions \<Rightarrow> fake \<Rightarrow> (go_error option \<times> fake) outcome" where
  "FakeValidatingAdmissionPolicyBindings_Delete name opts c =
     error_only (Invokes (DeleteAction validatingadmissionpolicybindingsResource [] name opts) (BindingObj zero_binding) c)"

definition FakeValidatingAdmissionPolicyBindings_DeleteCollection ::
  "selectors \<Rightarrow> deleteOptions \<Rightarrow> listOptions \<Rightarrow> fake \<Rightarrow> (go_error option \<times> fake) outcome" where
  "FakeValidatingAdmissionPolicyBindings_DeleteCollection sel opts listOpts c =
     (case ExtractFromListOptions sel listOpts of
        Panics s \<Rightarrow> Panics s
      | Returns label \<Rightarrow>
          error_only (Invokes (DeleteCollectionAction validatingadmissionpolicybindingsResource []) (BindingListObj zero_bindingList) c))"

definition FakeValidatingAdmissionPolicyBindings_Patch ::
  "string \<Rightarrow> string \<Rightarrow> string \<Rightarrow> string list \<Rightarrow> fake \<Rightarrow> (validatingAdmissionPolicyBinding result \<times> fake) outcome" where
  "FakeValidatingAdmissionPolicyBindings_Patch name pt data subresources c =
     typed_result as_binding
       (Invokes (PatchAction validatingadmissionpolicybindingsResource [] name (path_Join subresources) pt data) (BindingObj zero_binding) c)"

text \<open>The methods as a client; a watch has delivered nothing when it is returned.\<close>

definition FakeValidatingAdmissionPolicyBindings ::
  "selectors \<Rightarrow> (validatingAdmissionPolicyBinding, validatingAdmissionPolicyBinding, call_options, fake) client" where
  "FakeValidatingAdmissionPolicyBindings sel =
     \<lparr>cl_Create = (\<lambda>object opts. FakeValidatingAdmissionPolicyBindings_Create object (co_Create opts)),
      cl_Update = (\<lambda>object opts. FakeValidatingAdmissionPolicyBindings_Update object (co_Update opts)),
      cl_UpdateStatus = None,
      cl_Delete = (\<lambda>name opts. FakeValidatingAdmissionPolicyBindings_Delete name (co_Delete opts)),
      cl_DeleteCollection = (\<lambda>opts listOpts.
        FakeValidatingAdmissionPolicyBindings_DeleteCollection sel (co_Delete opts) (co_List listOpts)),
      cl_Get = (\<lambda>name opts. FakeValidatingAdmissionPolicyBindings_Get name (co_Get opts)),
      cl_List = (\<lambda>opts. FakeValidatingAdmissionPolicyBindings_List sel (co_List opts)),
      cl_Watch = (\<lambda>opts c.
        case FakeValidatingAdmissionPolicyBindings_Watch sel (co_List opts) c of
          Panics s \<Rightarrow> Panics s
        | Returns ((watcher, err), c') \<Rightarrow> Returns ((map_option (\<lambda>_. []) watcher, err), c'))\<rparr>"

section \<open>The clientset\<close>

text \<open>The reaction to watches: the tracker's watch never fails.\<close>

definition watch_reaction :: "action \<Rightarrow> tracker \<Rightarrow> nat reaction_result outcome" where
  "watch_reaction act t =
     (let (w, t') = tracker_Watch (act_resource act) (act_namespace act) t in Returns ((True, Some w, None), t'))"

text \<open>The scheme of \<open>fake/register.go\<close>; its name, a call site, appears in messages only.\<close>

definition fake_scheme :: scheme where
  "fake_scheme =
     (case clientset_init (NewScheme ''register.go'') of Returns s \<Rightarrow> s | Panics _ \<Rightarrow> NewScheme ''register.go'')"

definition scheme_New :: "gvk \<Rightarrow> go_error + api_object" where
  "scheme_New k = (case Scheme_New fake_scheme k of Inl err \<Rightarrow> Inl err | Inr t \<Rightarrow> Inr (new_object t))"

definition scheme_ObjectKinds :: "api_object \<Rightarrow> go_error + gvk list" where
  "scheme_ObjectKinds obj =
     (case ObjectKinds fake_scheme (type_of obj) of Inl err \<Rightarrow> Inl err | Inr (gvks, _) \<Rightarrow> Inr gvks)"

fun add_objects :: "api_object list \<Rightarrow> tracker \<Rightarrow> tracker outcome" where
  "add_objects [] o1 = Returns o1"
| "add_objects (obj # objs) o1 =
     (case tracker_Add scheme_ObjectKinds obj o1 of
        Panics s \<Rightarrow> Panics s
      | Returns (Some err, o2) \<Rightarrow> Panics (error_text err)
      | Returns (None, o2) \<Rightarrow> add_objects objs o2)"

definition NewSimpleClientset ::
  "(string \<Rightarrow> string \<Rightarrow> api_object \<Rightarrow> go_error + api_object) \<Rightarrow> api_object list \<Rightarrow> fake outcome" where
  "NewSimpleClientset patched objects =
     (case add_objects objects NewObjectTracker of
        Panics s \<Rightarrow> Panics s
      | Returns o1 \<Rightarrow>
          Returns (AddWatchReactor ''*'' watch_reaction
            (AddReactor ''*'' ''*'' (ObjectReaction scheme_New patched)
              \<lparr>fk_actions = [], fk_ReactionChain = [], fk_WatchReactionChain = [], fk_tracker = o1\<rparr>)))"

text \<open>\<open>AdmissionregistrationV1alpha1()\<close> of the fake clientset: its two typed fakes.\<close>

definition FakeAdmissionregistrationV1alpha1 :: "selectors \<Rightarrow> (call_options, fake) group_client" where
  "FakeAdmissionregistrationV1alpha1 sel =
     \<lparr>gc_Policies = FakeValidatingAdmissionPolicies sel, gc_Bindings = FakeValidatingAdmissionPolicyBindings sel\<rparr>"

section \<open>The contract\<close>

text \<open>A clientset as \<open>NewSimpleClientset\<close> makes it, without watchers, over well-typed objects.\<close>

definition object_reactor :: "(string \<Rightarrow> string \<Rightarrow> api_object \<Rightarrow> go_error + api_object) \<Rightarrow> reactor" where
  "object_reactor patched =
     \<lparr>re_Verb = ''*'', re_Resource = ''*'', re_Reaction = ObjectReaction scheme_New patched\<rparr>"

definition fake_good ::
  "('x \<Rightarrow> api_object) \<Rightarrow> ('x \<Rightarrow> objectMeta) \<Rightarrow> gvr
   \<Rightarrow> (string \<Rightarrow> string \<Rightarrow> api_object \<Rightarrow> go_error + api_object) \<Rightarrow> fake \<Rightarrow> bool" where
  "fake_good obj_of meta gvr patched c \<longleftrightarrow>
     fk_ReactionChain c = [object_reactor patched] \<and> tr_watchers (fk_tracker c) = [] \<and>
     typed_store obj_of meta gvr (fk_tracker c)"

definition tracker_errors :: "gvr \<Rightarrow> api_errors" where
  "tracker_errors gvr = \<lparr>ae_exists = NewAlreadyExists (GroupResource gvr), ae_missing = NewNotFound (GroupResource gvr)\<rparr>"

text \<open>Policies and bindings are cluster-wide: the calls with objects that have no namespace.\<close>

fun cluster_wide :: "('x \<Rightarrow> objectMeta) \<Rightarrow> 'x call \<Rightarrow> bool" where
  "cluster_wide meta (CallCreate x) \<longleftrightarrow> om_namespace (meta x) = []"
| "cluster_wide meta (CallUpdate x) \<longleftrightarrow> om_namespace (meta x) = []"
| "cluster_wide meta _ \<longleftrightarrow> True"

text \<open>Options whose selectors select everything.\<close>

definition everything :: "selectors \<Rightarrow> call_options \<Rightarrow> bool" where
  "everything sel opts \<longleftrightarrow> ExtractFromListOptions sel (co_List opts) = Returns (\<lambda>_. True)"

lemma Invokes_reaction:
  assumes "fk_ReactionChain c = [object_reactor patched]"
    and "ObjectReaction scheme_New patched act (fk_tracker c) = Returns ((True, ret, err), t)"
  shows "Invokes act d c = Returns ((ret, err), c\<lparr>fk_actions := fk_actions c @ [act], fk_tracker := t\<rparr>)"
  using assms by (simp add: Invokes_def object_reactor_def reactor_Handles_def resourceCovers_def)

lemma broadcast_nobody [simp]: "broadcast ty obj gvr ns [] = Returns []"
  by (simp add: broadcast_def)

text \<open>The typed client of a kind: which action each method invokes.\<close>

locale fake_kind = tracked_kind obj_of of_obj meta gvr
  for obj_of :: "'x \<Rightarrow> api_object" and of_obj :: "api_object \<Rightarrow> 'x option"
    and meta :: "'x \<Rightarrow> objectMeta" and gvr :: gvr +
  fixes gvk :: gvk and lst :: "'x slice \<Rightarrow> api_object" and d :: api_object
    and cl :: "('x, 'x, call_options, fake) client" and plain :: "call_options \<Rightarrow> bool"
  assumes new_list: "scheme_New (gvk\<lparr>gvk_Kind := gvk_Kind gvk @ ''List''\<rparr>) = Inr (lst None)"
    and version: "gvk_Version gvk \<noteq> []"
    and is_list_lst: "is_list (lst None)"
    and SetList_lst: "SetList (lst None) (map obj_of xs) = Inr (lst (Some xs))"
    and create: "cl_Create cl (Some x) opts c =
      typed_result of_obj (Invokes (CreateAction gvr [] [] (Some (obj_of x))) d c)"
    and update: "cl_Update cl (Some x) opts c =
      typed_result of_obj (Invokes (UpdateAction gvr [] [] (Some (obj_of x))) d c)"
    and get: "cl_Get cl n opts c = typed_result of_obj (Invokes (GetAction gvr [] n) d c)"
    and delete: "cl_Delete cl n opts c = error_only (Invokes (DeleteAction gvr [] n (co_Delete opts)) d c)"
    and list_items: "plain opts \<Longrightarrow>
      Invokes (ListAction gvr gvk []) (lst None) c = Returns ((Some (lst s), None), c') \<Longrightarrow>
      \<exists>l. cl_List cl opts c = Returns ((Some l, None), c') \<and> elems (kl_Items l) = elems s"
begin

lemma good_after:
  assumes "fake_good obj_of meta gvr patched c" and "typed_store obj_of meta gvr t" and "tr_watchers t = []"
  shows "fake_good obj_of meta gvr patched (c\<lparr>fk_actions := as, fk_tracker := t\<rparr>)"
  using assms by (simp add: fake_good_def)

lemma then_get_stored:
  assumes "typed_store obj_of meta gvr t" and "typed_view of_obj gvr t n = Some x"
  shows "then_get gvr [] n (Returns (None, t)) = Returns ((True, Some (obj_of x), None), t)"
  using Get_view [OF assms(1)] assms(2) by (simp add: then_get_def)

lemma store_call:
  assumes "fake_good obj_of meta gvr patched c" and "om_namespace (meta x) = []"
    and "ObjectReaction scheme_New patched act (fk_tracker c) =
      then_get gvr [] (om_name (meta x)) (tracker_add gvr (obj_of x) [] replaceExisting (fk_tracker c))"
    and "reply_unless_panic reply_of c (typed_result of_obj (Invokes act d c)) = (a, c')"
  shows "spec_call (\<lambda>x. om_name (meta x)) (\<lambda>x. x) (tracker_errors gvr)
      (if replaceExisting then CallUpdate x else CallCreate x) (typed_view of_obj gvr (fk_tracker c)) =
      (a, typed_view of_obj gvr (fk_tracker c')) \<and> fake_good obj_of meta gvr patched c'"
proof -
  let ?v = "typed_view of_obj gvr (fk_tracker c)" and ?n = "om_name (meta x)"
  from assms(1) have g: "typed_store obj_of meta gvr (fk_tracker c)" "tr_watchers (fk_tracker c) = []"
      "fk_ReactionChain c = [object_reactor patched]"
    by (simp_all add: fake_good_def)
  from add_view [OF g(1) assms(2), of replaceExisting "[]"] g(2) obtain t where
    t: "tracker_add gvr (obj_of x) [] replaceExisting (fk_tracker c) =
        Returns (if (?v ?n = None) = replaceExisting
               then Some ((if replaceExisting then NewNotFound else NewAlreadyExists) (GroupResource gvr) ?n)
               else None, t)"
      "typed_store obj_of meta gvr t" "tr_watchers t = []"
      "typed_view of_obj gvr t = (if (?v ?n = None) = replaceExisting then ?v else ?v(?n \<mapsto> x))"
    by (auto split: if_splits)
  have "ObjectReaction scheme_New patched act (fk_tracker c) = Returns
      (if (?v ?n = None) = replaceExisting
       then ((True, None, Some ((if replaceExisting then NewNotFound else NewAlreadyExists) (GroupResource gvr) ?n)), t)
       else ((True, Some (obj_of x), None), t))"
    unfolding assms(3) t(1) using then_get_stored [OF t(2), of ?n x] t(4)
    by (auto simp: then_get_def [of gvr "[]" ?n "Returns (Some _, t)"])
  then show ?thesis
    using assms(4) Invokes_reaction [OF g(3)] good_after [OF assms(1) t(2,3)] t(4)
    by (auto simp: typed_result_def reply_defs tracker_errors_def split: if_splits)
qed

lemma list_call:
  assumes "fake_good obj_of meta gvr patched c" and "plain opts"
    and "client_call cl opts CallList c = (a, c')"
  shows "spec_call (\<lambda>x. om_name (meta x)) (\<lambda>x. x) (tracker_errors gvr) CallList
      (typed_view of_obj gvr (fk_tracker c)) = (a, typed_view of_obj gvr (fk_tracker c')) \<and>
    fake_good obj_of meta gvr patched c'"
proof -
  let ?t = "fk_tracker c" and ?v = "typed_view of_obj gvr (fk_tracker c)"
  let ?xs = "map (\<lambda>n. the (?v n)) (sorted_list_of_set (dom ?v))"
  from assms(1) have g: "typed_store obj_of meta gvr ?t" "tr_watchers ?t = []"
      "fk_ReactionChain c = [object_reactor patched]"
    by (simp_all add: fake_good_def)
  have "\<exists>s. tracker_List scheme_New gvr gvk [] ?t = Inr (lst s) \<and> elems s = ?xs"
  proof (cases "tr_objects ?t gvr")
    case None
    then have "?v = Map.empty" by (simp add: typed_view_def stored_def fun_eq_iff)
    then show ?thesis
      using None by (auto simp: tracker_List_def new_list version is_list_lst Let_def intro!: exI [of _ None])
  next
    case (Some objs)
    then have "filterByNamespace objs [] = Inr (map obj_of ?xs)"
      using filterByNamespace_view [OF g(1)] by (simp add: stored_def)
    then show ?thesis
      using Some SetList_lst [of ?xs]
      by (auto simp: tracker_List_def new_list version is_list_lst Let_def simp del: map_map)
  qed
  then obtain s where s: "tracker_List scheme_New gvr gvk [] ?t = Inr (lst s)" "elems s = ?xs" by blast
  let ?c = "c\<lparr>fk_actions := fk_actions c @ [ListAction gvr gvk []], fk_tracker := ?t\<rparr>"
  have "Invokes (ListAction gvr gvk []) (lst None) c = Returns ((Some (lst s), None), ?c)"
    by (rule Invokes_reaction [OF g(3)]) (simp add: s)
  from list_items [OF assms(2) this] obtain l where
    "cl_List cl opts c = Returns ((Some l, None), ?c)" "elems (kl_Items l) = ?xs" using s by auto
  then show ?thesis using assms(3) good_after [OF assms(1) g(1,2)] by (auto simp: reply_defs)
qed

theorem fake_object_api:
  assumes "plain opts"
  shows "object_api (\<lambda>x. om_name (meta x)) (\<lambda>x. x) (tracker_errors gvr) (cluster_wide meta)
    (client_call cl opts) (\<lambda>c. typed_view of_obj gvr (fk_tracker c)) (fake_good obj_of meta gvr patched)"
proof
  fix c k a c'
  assume good: "fake_good obj_of meta gvr patched c" and acc: "cluster_wide meta k"
    and call: "client_call cl opts k c = (a, c')"
  let ?v = "typed_view of_obj gvr (fk_tracker c)"
  from good have g: "typed_store obj_of meta gvr (fk_tracker c)" "tr_watchers (fk_tracker c) = []"
      "fk_ReactionChain c = [object_reactor patched]"
    by (simp_all add: fake_good_def)
  show "spec_call (\<lambda>x. om_name (meta x)) (\<lambda>x. x) (tracker_errors gvr) k ?v =
      (a, typed_view of_obj gvr (fk_tracker c')) \<and> fake_good obj_of meta gvr patched c'"
  proof (cases k)
    case (CallCreate x)
    then show ?thesis
      using store_call [OF good, of x "CreateAction gvr [] [] (Some (obj_of x))" False a c'] acc call
      by (simp add: create tracker_Create_def)
  next
    case (CallUpdate x)
    then show ?thesis
      using store_call [OF good, of x "UpdateAction gvr [] [] (Some (obj_of x))" True a c'] acc call
      by (simp add: update tracker_Update_def)
  next
    case (CallGet n)
    then show ?thesis
      using call Invokes_reaction [OF g(3), of "GetAction gvr [] n"] Get_view [OF g(1), of n]
        good_after [OF good g(1,2)]
      by (cases "?v n") (auto simp: get typed_result_def reply_defs tracker_errors_def)
  next
    case (CallDelete n)
    from delete_view [OF g(1), of "\<lambda>_. []" n] g(2) obtain t where
      t: "tracker_Delete gvr [] n (fk_tracker c) =
          Returns (if ?v n = None then Some (NewNotFound (GroupResource gvr) n) else None, t)"
        "typed_store obj_of meta gvr t" "typed_view of_obj gvr t = ?v(n := None)" "tr_watchers t = []"
      by (auto split: option.splits)
    then show ?thesis
      using CallDelete call Invokes_reaction [OF g(3), of "DeleteAction gvr [] n (co_Delete opts)"]
        good_after [OF good t(2,4)]
      by (cases "?v n") (auto simp: delete error_only_def reply_defs tracker_errors_def)
  next
    case CallList
    show ?thesis unfolding CallList by (rule list_call [OF good assms call [unfolded CallList]])
  qed
qed

end

text \<open>Both typed fakes are such clients.\<close>

lemma as_items [simp]: "as_policies (map PolicyObj ps) = Some ps" "as_bindings (map BindingObj bs) = Some bs"
  by (induction ps; simp) (induction bs; simp)

text \<open>What the scheme knows of the four API types.\<close>

lemma fake_scheme_types:
  assumes "t \<in> set api_types"
  shows "ObjectKinds fake_scheme t = Inr ([with_kind (rt_Name t)], False)"
    and "Scheme_New fake_scheme (with_kind (rt_Name t)) = Inr t"
proof -
  obtain s where s: "clientset_init (NewScheme ''register.go'') = Returns s"
    "gvkToType s (with_kind (rt_Name t)) = map_of group_kinds (rt_Name t)"
    "ObjectKinds s t = Inr ([with_kind (rt_Name t)], False)"
    using assms by (metis clientset_scheme)
  then show "ObjectKinds fake_scheme t = Inr ([with_kind (rt_Name t)], False)"
    "Scheme_New fake_scheme (with_kind (rt_Name t)) = Inr t"
    using api_kind_of [OF assms] by (simp_all add: fake_scheme_def Scheme_New_def)
qed

lemma fake_object_kinds:
  "scheme_ObjectKinds (PolicyObj p) = Inr [with_kind ''ValidatingAdmissionPolicy'']"
  "scheme_ObjectKinds (BindingObj b) = Inr [with_kind ''ValidatingAdmissionPolicyBinding'']"
  using fake_scheme_types(1) [of "api_type ''ValidatingAdmissionPolicy''"]
    fake_scheme_types(1) [of "api_type ''ValidatingAdmissionPolicyBinding''"]
  by (simp_all add: scheme_ObjectKinds_def type_of_def api_types_def api_type_def)

lemma fake_list_scheme:
  "scheme_New (validatingadmissionpoliciesKind\<lparr>gvk_Kind := gvk_Kind validatingadmissionpoliciesKind @ ''List''\<rparr>) =
     Inr (PolicyListObj zero_policyList)"
  "scheme_New (validatingadmissionpolicybindingsKind
      \<lparr>gvk_Kind := gvk_Kind validatingadmissionpolicybindingsKind @ ''List''\<rparr>) =
     Inr (BindingListObj zero_bindingList)"
  using fake_scheme_types(2) [of "api_type ''ValidatingAdmissionPolicyList''"]
    fake_scheme_types(2) [of "api_type ''ValidatingAdmissionPolicyBindingList''"]
  by (simp_all add: scheme_New_def new_object_def api_types_def api_type_def with_kind_def
      validatingadmissionpoliciesKind_def validatingadmissionpolicybindingsKind_def)

interpretation fake_policies: fake_kind PolicyObj as_policy vap_ObjectMeta validatingadmissionpoliciesResource
  validatingadmissionpoliciesKind "\<lambda>s. PolicyListObj (zero_policyList\<lparr>vapl_Items := s\<rparr>)" "PolicyObj zero_policy"
  "FakeValidatingAdmissionPolicies sel" "everything sel" for sel
proof (unfold_locales, goal_cases)
  case (4)
  have "zero_policyList\<lparr>vapl_Items := None\<rparr> = zero_policyList" by (simp add: zero_policyList_def)
  then show ?case using fake_list_scheme(1) by simp
next
  case (12 opts c s c')
  have [simp]: "zero_policyList\<lparr>vapl_Items := None\<rparr> = zero_policyList" by (simp add: zero_policyList_def)
  from 12 show ?case
    by (auto simp: FakeValidatingAdmissionPolicies_def FakeValidatingAdmissionPolicies_List_def everything_def)
qed (auto simp: as_policy_def validatingadmissionpoliciesKind_def with_kind_def is_list_def
    FakeValidatingAdmissionPolicies_def FakeValidatingAdmissionPolicies_Create_def
    FakeValidatingAdmissionPolicies_Update_def FakeValidatingAdmissionPolicies_Get_def
    FakeValidatingAdmissionPolicies_Delete_def)

interpretation fake_bindings: fake_kind BindingObj as_binding vapb_ObjectMeta
  validatingadmissionpolicybindingsResource validatingadmissionpolicybindingsKind
  "\<lambda>s. BindingListObj (zero_bindingList\<lparr>vapbl_Items := s\<rparr>)" "BindingObj zero_binding"
  "FakeValidatingAdmissionPolicyBindings sel" "everything sel" for sel
proof (unfold_locales, goal_cases)
  case (4)
  have "zero_bindingList\<lparr>vapbl_Items := None\<rparr> = zero_bindingList" by (simp add: zero_bindingList_def)
  then show ?case using fake_list_scheme(2) by simp
next
  case (12 opts c s c')
  have [simp]: "zero_bindingList\<lparr>vapbl_Items := None\<rparr> = zero_bindingList" by (simp add: zero_bindingList_def)
  from 12 show ?case
    by (auto simp: FakeValidatingAdmissionPolicyBindings_def FakeValidatingAdmissionPolicyBindings_List_def
        everything_def)
qed (auto simp: as_binding_def validatingadmissionpolicybindingsKind_def with_kind_def is_list_def
    FakeValidatingAdmissionPolicyBindings_def FakeValidatingAdmissionPolicyBindings_Create_def
    FakeValidatingAdmissionPolicyBindings_Update_def FakeValidatingAdmissionPolicyBindings_Get_def
    FakeValidatingAdmissionPolicyBindings_Delete_def)

text \<open>Options that ask for nothing in particular.\<close>

definition all_objects :: listOptions where
  "all_objects = \<lparr>lo_LabelSelector = [], lo_FieldSelector = [], lo_Watch = False, lo_AllowWatchBookmarks = False,
     lo_ResourceVersion = [], lo_TimeoutSeconds = None, lo_Limit = 0, lo_Continue = []\<rparr>"

definition plain_write :: writeOptions where
  "plain_write = \<lparr>wo_DryRun = None, wo_FieldManager = [], wo_FieldValidation = []\<rparr>"

definition plain_delete :: deleteOptions where
  "plain_delete = \<lparr>do_GracePeriodSeconds = None, do_PropagationPolicy = None, do_DryRun = None\<rparr>"

definition plain_opts :: call_options where
  "plain_opts = \<lparr>co_Get = [], co_List = all_objects, co_Create = plain_write, co_Update = plain_write,
     co_Delete = plain_delete\<rparr>"

lemma plain_everything: "everything sel plain_opts"
  by (simp add: everything_def ExtractFromListOptions_def plain_opts_def all_objects_def)

section \<open>Properties of the fakes\<close>

lemma policy_key_eq: "(\<lambda>x. om_name (vap_ObjectMeta x)) = policy_key"
  by (simp add: policy_key_def fun_eq_iff)

lemma binding_key_eq: "(\<lambda>x. om_name (vapb_ObjectMeta x)) = binding_key"
  by (simp add: binding_key_def fun_eq_iff)

interpretation fake_policy_api: object_api policy_key "\<lambda>x. x" "tracker_errors validatingadmissionpoliciesResource"
  "cluster_wide vap_ObjectMeta" "client_call (FakeValidatingAdmissionPolicies sel) plain_opts"
  "\<lambda>c. typed_view as_policy validatingadmissionpoliciesResource (fk_tracker c)"
  "fake_good PolicyObj vap_ObjectMeta validatingadmissionpoliciesResource patched" for sel patched
  using fake_policies.fake_object_api [OF plain_everything] unfolding policy_key_eq .

interpretation fake_binding_api: object_api binding_key "\<lambda>x. x"
  "tracker_errors validatingadmissionpolicybindingsResource"
  "cluster_wide vapb_ObjectMeta" "client_call (FakeValidatingAdmissionPolicyBindings sel) plain_opts"
  "\<lambda>c. typed_view as_binding validatingadmissionpolicybindingsResource (fk_tracker c)"
  "fake_good BindingObj vapb_ObjectMeta validatingadmissionpolicybindingsResource patched" for sel patched
  using fake_bindings.fake_object_api [OF plain_everything] unfolding binding_key_eq .

lemmas policies_api = fake_policies.fake_object_api [unfolded policy_key_eq]
lemmas bindings_api = fake_bindings.fake_object_api [unfolded binding_key_eq]

text \<open>
  The fake client of policies is a store: from any clientset with the reactor of
  \<open>NewSimpleClientset\<close>, well-typed policies and no watchers, every sequence of create, update, get,
  delete and list calls gets the answers of a map from names to policies, errors included, and
  leaves the tracker holding what that map would hold.
\<close>

theorem fake_policies_are_a_store:
  assumes "everything sel opts"
    and "fake_good PolicyObj vap_ObjectMeta validatingadmissionpoliciesResource patched c"
    and "list_all (cluster_wide vap_ObjectMeta) calls"
    and "run_calls (client_call (FakeValidatingAdmissionPolicies sel) opts) calls c = (replies, c')"
  shows "run_calls (spec_call policy_key (\<lambda>x. x) (tracker_errors validatingadmissionpoliciesResource)) calls
      (typed_view as_policy validatingadmissionpoliciesResource (fk_tracker c)) =
    (replies, typed_view as_policy validatingadmissionpoliciesResource (fk_tracker c')) \<and>
    fake_good PolicyObj vap_ObjectMeta validatingadmissionpoliciesResource patched c'"
  using object_api.calls_agree [OF policies_api [OF assms(1)] assms(2-4)] .

text \<open>The fake client of bindings is a store in the same way.\<close>

theorem fake_bindings_are_a_store:
  assumes "everything sel opts"
    and "fake_good BindingObj vapb_ObjectMeta validatingadmissionpolicybindingsResource patched c"
    and "list_all (cluster_wide vapb_ObjectMeta) calls"
    and "run_calls (client_call (FakeValidatingAdmissionPolicyBindings sel) opts) calls c = (replies, c')"
  shows "run_calls (spec_call binding_key (\<lambda>x. x) (tracker_errors validatingadmissionpolicybindingsResource)) calls
      (typed_view as_binding validatingadmissionpolicybindingsResource (fk_tracker c)) =
    (replies, typed_view as_binding validatingadmissionpolicybindingsResource (fk_tracker c')) \<and>
    fake_good BindingObj vapb_ObjectMeta validatingadmissionpolicybindingsResource patched c'"
  using object_api.calls_agree [OF bindings_api [OF assms(1)] assms(2-4)] .

text \<open>
  \<open>DeleteCollection\<close> of the fakes deletes nothing: no reactor handles the action, so the call
  reports success and every object is still there.
\<close>

theorem fake_delete_collection_deletes_nothing:
  assumes "fk_ReactionChain c = [object_reactor patched]"
    and "ExtractFromListOptions sel listOpts = Returns label"
  shows "(\<exists>c'. FakeValidatingAdmissionPolicies_DeleteCollection sel opts listOpts c = Returns (None, c') \<and>
      fk_tracker c' = fk_tracker c) \<and>
    (\<exists>c'. FakeValidatingAdmissionPolicyBindings_DeleteCollection sel opts listOpts c = Returns (None, c') \<and>
      fk_tracker c' = fk_tracker c)"
  using assms
  by (simp add: FakeValidatingAdmissionPolicies_DeleteCollection_def
      FakeValidatingAdmissionPolicyBindings_DeleteCollection_def Invokes_def object_reactor_def
      reactor_Handles_def resourceCovers_def error_only_def)

section \<open>A new clientset\<close>

text \<open>The resources that \<open>Add\<close> guesses are those of the typed clients.\<close>

lemma guessed_resources:
  "UnsafeGuessKindToResource (with_kind ''ValidatingAdmissionPolicy'') = validatingadmissionpoliciesResource"
  "UnsafeGuessKindToResource (with_kind ''ValidatingAdmissionPolicyBinding'') =
     validatingadmissionpolicybindingsResource"
  by code_simp+

lemma own_version:
  "gvr_Version validatingadmissionpoliciesResource = ''v1alpha1''"
  "gvr_Version validatingadmissionpolicybindingsResource = ''v1alpha1''"
  by (simp_all add: validatingadmissionpoliciesResource_def validatingadmissionpolicybindingsResource_def
      with_resource_def)

lemma tracker_add_elsewhere:
  "tracker_add gvr obj ns replaceExisting t = Returns (err, t') \<Longrightarrow> gvr' \<noteq> gvr \<Longrightarrow> stored gvr' t' = stored gvr' t"
  by (auto simp: tracker_add_def Let_def stored_def split: option.splits if_splits outcome.splits)

lemma resources_differ: "validatingadmissionpoliciesResource \<noteq> validatingadmissionpolicybindingsResource"
  by (simp add: validatingadmissionpoliciesResource_def validatingadmissionpolicybindingsResource_def
      with_resource_def)

text \<open>What a tracker holds of both kinds, well-typed and unwatched.\<close>

definition holds ::
  "validatingAdmissionPolicy objects \<Rightarrow> validatingAdmissionPolicyBinding objects \<Rightarrow> tracker \<Rightarrow> bool" where
  "holds ps bs t \<longleftrightarrow>
     typed_store PolicyObj vap_ObjectMeta validatingadmissionpoliciesResource t \<and>
     typed_view as_policy validatingadmissionpoliciesResource t = ps \<and>
     typed_store BindingObj vapb_ObjectMeta validatingadmissionpolicybindingsResource t \<and>
     typed_view as_binding validatingadmissionpolicybindingsResource t = bs \<and> tr_watchers t = []"

lemma holds_add_policy:
  assumes "holds ps bs t" and "om_namespace (vap_ObjectMeta p) = []" and "ps (policy_key p) = None"
  shows "\<exists>t'. tracker_Add scheme_ObjectKinds (PolicyObj p) t = Returns (None, t') \<and> holds (ps(policy_key p \<mapsto> p)) bs t'"
proof -
  from fake_policies.add_view [of t p False "[]"] assms obtain t' where
    t': "tracker_add validatingadmissionpoliciesResource (PolicyObj p) [] False t = Returns (None, t')"
      "typed_store PolicyObj vap_ObjectMeta validatingadmissionpoliciesResource t'"
      "typed_view as_policy validatingadmissionpoliciesResource t' = ps(policy_key p \<mapsto> p)" "tr_watchers t' = []"
    by (auto simp: holds_def policy_key_def)
  have "holds (ps(policy_key p \<mapsto> p)) bs t'"
    using assms(1) t' fake_bindings.same_store [OF tracker_add_elsewhere [OF t'(1) resources_differ [symmetric]]]
    by (simp add: holds_def)
  then show ?thesis
    using t'(1) assms(2) by (simp add: tracker_Add_def add_single_def fake_object_kinds guessed_resources own_version)
qed

lemma holds_add_binding:
  assumes "holds ps bs t" and "om_namespace (vapb_ObjectMeta b) = []" and "bs (binding_key b) = None"
  shows "\<exists>t'. tracker_Add scheme_ObjectKinds (BindingObj b) t = Returns (None, t') \<and> holds ps (bs(binding_key b \<mapsto> b)) t'"
proof -
  from fake_bindings.add_view [of t b False "[]"] assms obtain t' where
    t': "tracker_add validatingadmissionpolicybindingsResource (BindingObj b) [] False t = Returns (None, t')"
      "typed_store BindingObj vapb_ObjectMeta validatingadmissionpolicybindingsResource t'"
      "typed_view as_binding validatingadmissionpolicybindingsResource t' = bs(binding_key b \<mapsto> b)"
      "tr_watchers t' = []"
    by (auto simp: holds_def binding_key_def)
  have "holds ps (bs(binding_key b \<mapsto> b)) t'"
    using assms(1) t' fake_policies.same_store [OF tracker_add_elsewhere [OF t'(1) resources_differ]]
    by (simp add: holds_def)
  then show ?thesis
    using t'(1) assms(2) by (simp add: tracker_Add_def add_single_def fake_object_kinds guessed_resources own_version)
qed

text \<open>Objects to start from: single cluster-wide ones, with the names that are taken so far.\<close>

fun seeds :: "string set \<Rightarrow> string set \<Rightarrow> api_object list \<Rightarrow> bool" where
  "seeds P B [] \<longleftrightarrow> True"
| "seeds P B (PolicyObj p # objs) \<longleftrightarrow>
     om_namespace (vap_ObjectMeta p) = [] \<and> policy_key p \<notin> P \<and> seeds (insert (policy_key p) P) B objs"
| "seeds P B (BindingObj b # objs) \<longleftrightarrow>
     om_namespace (vapb_ObjectMeta b) = [] \<and> binding_key b \<notin> B \<and> seeds P (insert (binding_key b) B) objs"
| "seeds P B (_ # objs) \<longleftrightarrow> False"

fun seeded_policies :: "api_object list \<Rightarrow> validatingAdmissionPolicy objects \<Rightarrow> validatingAdmissionPolicy objects" where
  "seeded_policies [] ps = ps"
| "seeded_policies (PolicyObj p # objs) ps = seeded_policies objs (ps(policy_key p \<mapsto> p))"
| "seeded_policies (_ # objs) ps = seeded_policies objs ps"

fun seeded_bindings ::
  "api_object list \<Rightarrow> validatingAdmissionPolicyBinding objects \<Rightarrow> validatingAdmissionPolicyBinding objects" where
  "seeded_bindings [] bs = bs"
| "seeded_bindings (BindingObj b # objs) bs = seeded_bindings objs (bs(binding_key b \<mapsto> b))"
| "seeded_bindings (_ # objs) bs = seeded_bindings objs bs"

lemma add_objects_holds:
  "seeds P B objs \<Longrightarrow> holds ps bs t \<Longrightarrow> dom ps = P \<Longrightarrow> dom bs = B \<Longrightarrow>
     \<exists>t'. add_objects objs t = Returns t' \<and> holds (seeded_policies objs ps) (seeded_bindings objs bs) t'"
proof (induction P B objs arbitrary: ps bs t rule: seeds.induct)
  case (2 P B p objs)
  then obtain t' where "tracker_Add scheme_ObjectKinds (PolicyObj p) t = Returns (None, t')" "holds (ps(policy_key p \<mapsto> p)) bs t'"
    using holds_add_policy [of ps bs t p] by auto
  with 2 show ?case by auto
next
  case (3 P B b objs)
  then obtain t' where "tracker_Add scheme_ObjectKinds (BindingObj b) t = Returns (None, t')" "holds ps (bs(binding_key b \<mapsto> b)) t'"
    using holds_add_binding [of ps bs t b] by auto
  with 3 show ?case by auto
qed simp_all

lemma empty_tracker: "holds Map.empty Map.empty NewObjectTracker"
  by (simp add: holds_def NewObjectTracker_def typed_store_def typed_view_def stored_def)

lemma new_clientset_holds:
  assumes "seeds {} {} objs"
  shows "\<exists>c. NewSimpleClientset patched objs = Returns c \<and> fk_actions c = [] \<and>
    fake_good PolicyObj vap_ObjectMeta validatingadmissionpoliciesResource patched c \<and>
    fake_good BindingObj vapb_ObjectMeta validatingadmissionpolicybindingsResource patched c \<and>
    typed_view as_policy validatingadmissionpoliciesResource (fk_tracker c) = seeded_policies objs Map.empty \<and>
    typed_view as_binding validatingadmissionpolicybindingsResource (fk_tracker c) = seeded_bindings objs Map.empty"
proof -
  from add_objects_holds [OF assms empty_tracker] obtain t where
    "add_objects objs NewObjectTracker = Returns t"
    "holds (seeded_policies objs Map.empty) (seeded_bindings objs Map.empty) t" by auto
  then show ?thesis
    by (simp add: NewSimpleClientset_def AddWatchReactor_def AddReactor_def fake_good_def object_reactor_def
        holds_def)
qed

text \<open>A name that is taken makes \<open>Add\<close> fail, and the constructor panics with its error.\<close>

lemma add_taken:
  assumes "holds ps bs t"
  shows "om_namespace (vap_ObjectMeta p) = [] \<Longrightarrow> ps (policy_key p) \<noteq> None \<Longrightarrow>
      \<exists>err t'. tracker_Add scheme_ObjectKinds (PolicyObj p) t = Returns (Some err, t')"
    and "om_namespace (vapb_ObjectMeta b) = [] \<Longrightarrow> bs (binding_key b) \<noteq> None \<Longrightarrow>
      \<exists>err t'. tracker_Add scheme_ObjectKinds (BindingObj b) t = Returns (Some err, t')"
  using assms fake_policies.add_view [of t p False "[]"] fake_bindings.add_view [of t b False "[]"]
  by (auto simp: holds_def policy_key_def binding_key_def tracker_Add_def add_single_def fake_object_kinds
      guessed_resources own_version)

fun cluster_object :: "api_object \<Rightarrow> bool" where
  "cluster_object (PolicyObj p) = (om_namespace (vap_ObjectMeta p) = [])"
| "cluster_object (BindingObj b) = (om_namespace (vapb_ObjectMeta b) = [])"
| "cluster_object obj = False"

text \<open>The resource and name under which an object is kept.\<close>

fun object_key :: "api_object \<Rightarrow> gvr \<times> string" where
  "object_key (PolicyObj p) = (validatingadmissionpoliciesResource, policy_key p)"
| "object_key (BindingObj b) = (validatingadmissionpolicybindingsResource, binding_key b)"
| "object_key obj = (validatingadmissionpoliciesResource, [])"

lemma seeds_distinct:
  "list_all cluster_object objs \<Longrightarrow> seeds P B objs \<longleftrightarrow> distinct (map object_key objs) \<and>
     (\<forall>k \<in> P. (validatingadmissionpoliciesResource, k) \<notin> set (map object_key objs)) \<and>
     (\<forall>k \<in> B. (validatingadmissionpolicybindingsResource, k) \<notin> set (map object_key objs))"
  using resources_differ
  by (induction P B objs rule: seeds.induct) (simp_all, blast+)

lemma add_objects_panics:
  "\<not> seeds P B objs \<Longrightarrow> list_all cluster_object objs \<Longrightarrow> holds ps bs t \<Longrightarrow> dom ps = P \<Longrightarrow> dom bs = B \<Longrightarrow>
     \<exists>msg. add_objects objs t = Panics msg"
proof (induction P B objs arbitrary: ps bs t rule: seeds.induct)
  case (2 P B p objs)
  show ?case
  proof (cases "ps (policy_key p)")
    case None
    then obtain t' where "tracker_Add scheme_ObjectKinds (PolicyObj p) t = Returns (None, t')" "holds (ps(policy_key p \<mapsto> p)) bs t'"
      using holds_add_policy [of ps bs t p] 2 by auto
    with 2 None show ?thesis by auto
  next
    case (Some q)
    with 2 add_taken(1) [of ps bs t p] show ?thesis by auto
  qed
next
  case (3 P B b objs)
  show ?case
  proof (cases "bs (binding_key b)")
    case None
    then obtain t' where "tracker_Add scheme_ObjectKinds (BindingObj b) t = Returns (None, t')" "holds ps (bs(binding_key b \<mapsto> b)) t'"
      using holds_add_binding [of ps bs t b] 3 by auto
    with 3 None show ?thesis by auto
  next
    case (Some q)
    with 3 add_taken(2) [of ps bs t b] show ?thesis by auto
  qed
qed simp_all

text \<open>
  (C36) For single policies and bindings without namespaces, a new fake clientset is made exactly if no two
  of one kind have the same name, and otherwise the constructor panics. The new clientset answers with exactly the
  given objects, each under its kind and name, and has recorded no action; its tracker is well-typed for both
  kinds, so that its two typed clients are stores from there on.
\<close>

theorem NewSimpleClientset_holds_objects:
  assumes "list_all cluster_object objs"
  shows "if distinct (map object_key objs)
    then \<exists>c. NewSimpleClientset patched objs = Returns c \<and> fk_actions c = [] \<and>
      fake_good PolicyObj vap_ObjectMeta validatingadmissionpoliciesResource patched c \<and>
      fake_good BindingObj vapb_ObjectMeta validatingadmissionpolicybindingsResource patched c \<and>
      typed_view as_policy validatingadmissionpoliciesResource (fk_tracker c) = seeded_policies objs Map.empty \<and>
      typed_view as_binding validatingadmissionpolicybindingsResource (fk_tracker c) = seeded_bindings objs Map.empty
    else \<exists>msg. NewSimpleClientset patched objs = Panics msg"
proof (cases "distinct (map object_key objs)")
  case True
  then show ?thesis using new_clientset_holds [of objs patched] seeds_distinct [OF assms] by simp
next
  case False
  then have "\<not> seeds {} {} objs" using seeds_distinct [OF assms, of "{}" "{}"] by blast
  from add_objects_panics [OF this assms empty_tracker] False show ?thesis by (auto simp: NewSimpleClientset_def)
qed

section \<open>Instances\<close>

definition no_selectors :: selectors where
  "no_selectors = \<lparr>parse_labels = (\<lambda>s. None), parse_fields = (\<lambda>s. False)\<rparr>"

definition ex_patched :: "string \<Rightarrow> string \<Rightarrow> api_object \<Rightarrow> go_error + api_object" where
  "ex_patched pt data obj = Inr obj"

definition ex_objects :: "api_object list" where
  "ex_objects = [PolicyObj ex_policy, BindingObj ex_binding]"

lemma ex_seeds: "seeds {} {} ex_objects"
  by (simp add: ex_objects_def ex_policy_def ex_binding_def zero_objectMeta_def)

lemma ex_names: "policy_key ex_policy = ''p''" "binding_key ex_binding = ''b''"
  "om_namespace (vap_ObjectMeta ex_policy) = []"
  by (simp_all add: ex_policy_def ex_binding_def policy_key_def binding_key_def zero_objectMeta_def)

lemma ex_seeded:
  "seeded_policies ex_objects Map.empty = [''p'' \<mapsto> ex_policy]"
  "seeded_bindings ex_objects Map.empty = [''b'' \<mapsto> ex_binding]"
  by (simp_all add: ex_objects_def ex_names)

theorem fake_policies_are_a_store_witness:
  "\<exists>c c'. NewSimpleClientset ex_patched ex_objects = Returns c \<and>
     run_calls (client_call (FakeValidatingAdmissionPolicies no_selectors) plain_opts)
       [CallGet ''p'', CallCreate ex_policy, CallList, CallDelete ''p'', CallGet ''p''] c =
     ([ReplyObj (Some ex_policy),
       ReplyErr (NewAlreadyExists (GroupResource validatingadmissionpoliciesResource) ''p''),
       ReplyItems [ex_policy], ReplyDone,
       ReplyErr (NewNotFound (GroupResource validatingadmissionpoliciesResource) ''p'')], c')"
proof -
  let ?calls = "[CallGet ''p'', CallCreate ex_policy, CallList, CallDelete ''p'', CallGet ''p'']"
  obtain c where c: "NewSimpleClientset ex_patched ex_objects = Returns c"
    "fake_good PolicyObj vap_ObjectMeta validatingadmissionpoliciesResource ex_patched c"
    "typed_view as_policy validatingadmissionpoliciesResource (fk_tracker c) = [''p'' \<mapsto> ex_policy]"
    using new_clientset_holds [OF ex_seeds, of ex_patched] unfolding ex_seeded by blast
  obtain rs c' where r: "run_calls (client_call (FakeValidatingAdmissionPolicies no_selectors) plain_opts) ?calls c = (rs, c')"
    by fastforce
  have "list_all (cluster_wide vap_ObjectMeta) ?calls" by (simp add: ex_names)
  from fake_policies_are_a_store [OF plain_everything c(2) this r] c(1) r show ?thesis
    unfolding c(3) by (auto simp: Let_def tracker_errors_def ex_names)
qed

theorem fake_delete_collection_deletes_nothing_witness:
  "\<exists>c c'. NewSimpleClientset ex_patched ex_objects = Returns c \<and>
     FakeValidatingAdmissionPolicies_DeleteCollection no_selectors plain_delete all_objects c = Returns (None, c') \<and>
     typed_view as_policy validatingadmissionpoliciesResource (fk_tracker c') ''p'' = Some ex_policy"
proof -
  obtain c where c: "NewSimpleClientset ex_patched ex_objects = Returns c"
    "fake_good PolicyObj vap_ObjectMeta validatingadmissionpoliciesResource ex_patched c"
    "typed_view as_policy validatingadmissionpoliciesResource (fk_tracker c) = [''p'' \<mapsto> ex_policy]"
    using new_clientset_holds [OF ex_seeds, of ex_patched] unfolding ex_seeded by blast
  have "fk_ReactionChain c = [object_reactor ex_patched]" using c(2) by (simp add: fake_good_def)
  moreover have "ExtractFromListOptions no_selectors all_objects = Returns (\<lambda>_. True)"
    by (simp add: ExtractFromListOptions_def all_objects_def)
  ultimately show ?thesis
    using fake_delete_collection_deletes_nothing [of c ex_patched no_selectors all_objects _ plain_delete] c
    by fastforce
qed

theorem NewSimpleClientset_holds_objects_witness:
  "(\<exists>c. NewSimpleClientset ex_patched ex_objects = Returns c \<and>
     typed_view as_policy validatingadmissionpoliciesResource (fk_tracker c) ''p'' = Some ex_policy \<and>
     typed_view as_binding validatingadmissionpolicybindingsResource (fk_tracker c) ''b'' = Some ex_binding) \<and>
   (\<exists>msg. NewSimpleClientset ex_patched [PolicyObj ex_policy, PolicyObj ex_policy] = Panics msg)"
proof -
  have "list_all cluster_object ex_objects" "distinct (map object_key ex_objects)"
    "list_all cluster_object [PolicyObj ex_policy, PolicyObj ex_policy]"
    "\<not> distinct (map object_key [PolicyObj ex_policy, PolicyObj ex_policy])"
    using resources_differ by (simp_all add: ex_objects_def ex_policy_def ex_binding_def zero_objectMeta_def)
  with NewSimpleClientset_holds_objects [of ex_objects ex_patched]
    NewSimpleClientset_holds_objects [of "[PolicyObj ex_policy, PolicyObj ex_policy]" ex_patched]
  show ?thesis unfolding ex_seeded by fastforce
qed

end
