(* ===== verification/Client_Properties.thy ===== *)
theory Client_Properties
  imports Rest_Properties Fake_Client
begin

text \<open>
  The clients together: the wrapped client of \<open>injected_client.go\<close> over the generated REST client and
  over the generated fake; and instances, with an API server that keeps policies in a map.
\<close>

section \<open>The wrapped client over a store\<close>

abbreviation native_policy :: "validatingAdmissionPolicy \<Rightarrow> validatingAdmissionPolicy" where
  "native_policy \<equiv> with_version ''apiregistration.k8s.io/v1alpha1''"

abbreviation crd_policy :: "validatingAdmissionPolicy \<Rightarrow> validatingAdmissionPolicy" where
  "crd_policy \<equiv> with_version ''admissionregistration.x-k8s.io/v1alpha1''"

abbreviation native_binding :: "validatingAdmissionPolicyBinding \<Rightarrow> validatingAdmissionPolicyBinding" where
  "native_binding \<equiv> binding_with_version ''apiregistration.k8s.io/v1alpha1''"

abbreviation crd_binding :: "validatingAdmissionPolicyBinding \<Rightarrow> validatingAdmissionPolicyBinding" where
  "crd_binding \<equiv> binding_with_version ''admissionregistration.x-k8s.io/v1alpha1''"

lemma converted_policies:
  assumes "object_api policy_key admit errs accepts (client_call (gc_Policies (rp_replacement r)) opts) view good"
    and "\<And>w. good w \<Longrightarrow> finite (dom (view w))"
  shows "converted_api (CRDToNativePolicy p) (NativeToCRDPolicy p) crd_policy native_policy policy_key policy_key
    admit errs accepts (ValidatingAdmissionPolicies p r) opts view good"
  by (intro converted_api.intro converted_api_axioms.intro pc.conversion_axioms)
     (simp_all add: ValidatingAdmissionPolicies_def assms)

lemma converted_bindings:
  assumes "object_api binding_key admit errs accepts (client_call (gc_Bindings (rp_replacement r)) opts) view good"
    and "\<And>w. good w \<Longrightarrow> finite (dom (view w))"
  shows "converted_api (CRDToNativePolicyBinding p) (NativeToCRDPolicyBinding p) crd_binding native_binding
    binding_key binding_key admit errs accepts (ValidatingAdmissionPolicyBindings p r) opts view good"
  by (intro converted_api.intro converted_api_axioms.intro bc.conversion_axioms)
     (simp_all add: ValidatingAdmissionPolicyBindings_def assms)

text \<open>The conversions keep names and namespaces.\<close>

lemma crd_policy_keeps:
  "policy_key (crd_policy x) = policy_key x"
  "om_namespace (vap_ObjectMeta (crd_policy x)) = om_namespace (vap_ObjectMeta x)"
  by (simp_all add: policy_key_def with_version_def norm_policy_def norm_objectMeta_def)

lemma call_valid_crd: "call_valid policy_key (map_call crd_policy cl) = call_valid policy_key cl"
  by (cases cl) (simp_all add: call_valid_def crd_policy_keeps)

lemma cluster_wide_crd: "cluster_wide vap_ObjectMeta (map_call crd_policy cl) = cluster_wide vap_ObjectMeta cl"
  by (cases cl) (simp_all add: crd_policy_keeps)

text \<open>The fakes hold finitely many objects.\<close>

lemma fake_finite:
  "fake_good PolicyObj vap_ObjectMeta validatingadmissionpoliciesResource patched c \<Longrightarrow>
     finite (dom (typed_view as_policy validatingadmissionpoliciesResource (fk_tracker c)))"
  "fake_good BindingObj vapb_ObjectMeta validatingadmissionpolicybindingsResource patched c \<Longrightarrow>
     finite (dom (typed_view as_binding validatingadmissionpolicybindingsResource (fk_tracker c)))"
  using fake_policies.dom_view(2) fake_bindings.dom_view(2) by (metis List.finite_set fake_good_def)+

interpretation wrapped_fake_policies: converted_api "CRDToNativePolicy p" "NativeToCRDPolicy p" crd_policy
  native_policy policy_key policy_key "\<lambda>x. x" "tracker_errors validatingadmissionpoliciesResource"
  "cluster_wide vap_ObjectMeta"
  "ValidatingAdmissionPolicies p \<lparr>rp_native = native, rp_replacement = FakeAdmissionregistrationV1alpha1 sel\<rparr>"
  plain_opts "\<lambda>c. typed_view as_policy validatingadmissionpoliciesResource (fk_tracker c)"
  "fake_good PolicyObj vap_ObjectMeta validatingadmissionpoliciesResource patched" for p native sel patched
  by (rule converted_policies)
     (simp_all add: FakeAdmissionregistrationV1alpha1_def fake_policy_api.object_api_axioms fake_finite)

interpretation wrapped_fake_bindings: converted_api "CRDToNativePolicyBinding p" "NativeToCRDPolicyBinding p"
  crd_binding native_binding binding_key binding_key "\<lambda>x. x"
  "tracker_errors validatingadmissionpolicybindingsResource" "cluster_wide vapb_ObjectMeta"
  "ValidatingAdmissionPolicyBindings p \<lparr>rp_native = native, rp_replacement = FakeAdmissionregistrationV1alpha1 sel\<rparr>"
  plain_opts "\<lambda>c. typed_view as_binding validatingadmissionpolicybindingsResource (fk_tracker c)"
  "fake_good BindingObj vapb_ObjectMeta validatingadmissionpolicybindingsResource patched" for p native sel patched
  by (rule converted_bindings)
     (simp_all add: FakeAdmissionregistrationV1alpha1_def fake_binding_api.object_api_axioms fake_finite)

section \<open>Properties\<close>

text \<open>The native client in front of a server of custom resources: the server with converted calls and replies.\<close>

definition converted_server ::
  "(call_options \<Rightarrow> validatingAdmissionPolicy call \<Rightarrow> 's \<Rightarrow> validatingAdmissionPolicy reply \<times> 's)
   \<Rightarrow> call_options \<times> validatingAdmissionPolicy call \<Rightarrow> 's \<Rightarrow> validatingAdmissionPolicy reply \<times> 's" where
  "converted_server srv call s =
     map_prod (map_reply native_policy) id (srv (fst call) (map_call crd_policy (snd call)) s)"

lemma wrapped_call_is_server_call:
  assumes "rest_server c ''validatingadmissionpolicies'' (PolicyObj zero_policy) PolicyObj
      (PolicyListObj zero_policyList) policy_items policy_key srv view good"
    and "good w" and "call_valid policy_key cl"
  shows "\<exists>w'. tc_call (ValidatingAdmissionPolicies partial
        \<lparr>rp_native = native, rp_replacement = group_clients (group_New c)\<rparr>) opts cl w =
      (fst (converted_server srv (opts, cl) (view w)), w') \<and>
    view w' = snd (converted_server srv (opts, cl) (view w)) \<and> good w'"
proof -
  let ?tc = "ValidatingAdmissionPolicies partial \<lparr>rp_native = native, rp_replacement = group_clients (group_New c)\<rparr>"
  have "tc_To ?tc = CRDToNativePolicy partial" "tc_From ?tc = NativeToCRDPolicy partial"
    "tc_ReplacementClient ?tc = validatingAdmissionPolicies c"
    by (simp_all add: ValidatingAdmissionPolicies_def group_clients_def group_New_def)
  with pc.tc_call_converts [OF this(1,2), of opts cl w]
    rest_policies.rest_server_call [OF assms(1,2), of "map_call crd_policy cl" opts] assms(3)
  show ?thesis by (auto simp: converted_server_def call_valid_crd)
qed

text \<open>
  (C11) The wrapped client is transparent over the generated REST client: whatever API server of custom
  policies answers the REST client, a server that assigns UIDs and resource versions, refuses stale
  updates, admits objects in another form or heeds the options of a call included, every sequence of create,
  update, get, delete and list calls of the wrapped client, each with its options, gets the replies of that server to
  the same calls, objects and errors alike, and takes the server through the same states. Every policy a call
  sends arrives as a custom resource and every policy of a reply comes back in its native form, with nothing
  changed but its API version, up to the form that JSON gives it.
\<close>

theorem policy_client_relays_server:
  assumes "rest_server c ''validatingadmissionpolicies'' (PolicyObj zero_policy) PolicyObj
      (PolicyListObj zero_policyList) policy_items policy_key srv view good"
    and "good w" and "list_all (\<lambda>call. call_valid policy_key (snd call)) calls"
  shows "\<exists>w'. run_calls (\<lambda>call. tc_call (ValidatingAdmissionPolicies partial
        \<lparr>rp_native = native, rp_replacement = group_clients (group_New c)\<rparr>) (fst call) (snd call)) calls w =
      (fst (run_calls (converted_server srv) calls (view w)), w') \<and>
    view w' = snd (run_calls (converted_server srv) calls (view w)) \<and> good w'"
  using assms(2,3)
proof (induction calls arbitrary: w)
  case (Cons call calls)
  from wrapped_call_is_server_call [OF assms(1) Cons.prems(1), of "snd call" partial native "fst call"] Cons.prems(2)
  obtain v where v: "tc_call (ValidatingAdmissionPolicies partial
        \<lparr>rp_native = native, rp_replacement = group_clients (group_New c)\<rparr>) (fst call) (snd call) w =
      (fst (converted_server srv call (view w)), v)" "view v = snd (converted_server srv call (view w))" "good v"
    by auto
  from Cons.IH [OF v(3)] Cons.prems(2) v(1,2) show ?case by (auto simp: Let_def split: prod.splits)
qed simp

text \<open>
  The wrapped client over the generated fake, without any hypothesis on a server: from a clientset
  of \<open>NewSimpleClientset\<close> with cluster-wide policies and bindings of different names, every sequence
  of calls on the wrapped policy client gets the answers of a store of native policies that starts with
  the seeded policies in their native form.
\<close>

theorem wrapped_fake_is_a_store:
  assumes "seeds {} {} objs" and "list_all (cluster_wide vap_ObjectMeta) calls"
  shows "\<exists>c replies c'. NewSimpleClientset patched objs = Returns c \<and>
    run_calls (tc_call (ValidatingAdmissionPolicies partial
      \<lparr>rp_native = native, rp_replacement = FakeAdmissionregistrationV1alpha1 sel\<rparr>) plain_opts) calls c = (replies, c') \<and>
    run_calls (spec_call policy_key (\<lambda>x. native_policy (crd_policy x)) (tracker_errors validatingadmissionpoliciesResource))
      calls (abs_objects native_policy (seeded_policies objs Map.empty)) =
    (replies, abs_objects native_policy (typed_view as_policy validatingadmissionpoliciesResource (fk_tracker c')))"
proof -
  let ?run = "run_calls (tc_call (ValidatingAdmissionPolicies partial
      \<lparr>rp_native = native, rp_replacement = FakeAdmissionregistrationV1alpha1 sel\<rparr>) plain_opts) calls"
  obtain c where c: "NewSimpleClientset patched objs = Returns c"
    "fake_good PolicyObj vap_ObjectMeta validatingadmissionpoliciesResource patched c"
    "typed_view as_policy validatingadmissionpoliciesResource (fk_tracker c) = seeded_policies objs Map.empty"
    using new_clientset_holds [OF assms(1), of patched] by blast
  obtain replies c' where run: "?run c = (replies, c')" by fastforce
  from object_api.calls_agree [OF wrapped_fake_policies.native_api c(2) _ run] assms(2) c run show ?thesis
    by (simp add: cluster_wide_crd)
qed

section \<open>Instances\<close>

text \<open>
  An API server that keeps policies in a map, gives them identities and resource versions and refuses an
  update of an old version, with a log of its requests. Bodies are the objects themselves; a decoder fills the given
  object or returns the one it reads.
\<close>

type_synonym ex_state = "validatingAdmissionPolicy objects \<times> int"
type_synonym ex_world = "ex_state \<times> api_object http_request list"

definition ex_collection :: string where
  "ex_collection = ''/apis/admissionregistration.x-k8s.io/v1alpha1/validatingadmissionpolicies''"

text \<open>The name in a path: what follows the collection and a slash.\<close>

definition ex_name :: "string \<Rightarrow> string option" where
  "ex_name path = (case drop (length ex_collection) path of [] \<Rightarrow> None | _ # n \<Rightarrow> Some n)"

definition ex_call :: "api_object http_request \<Rightarrow> validatingAdmissionPolicy call option" where
  "ex_call req =
     (case (ex_name (hq_Path req), Option.bind (hq_Body req) as_policy) of
        (None, Some x) \<Rightarrow> if hq_Method req = ''POST'' then Some (CallCreate x) else Some CallList
      | (None, None) \<Rightarrow> Some CallList
      | (Some n, body) \<Rightarrow>
          if hq_Method req = ''DELETE'' then Some (CallDelete n)
          else if hq_Method req = ''PUT'' then map_option CallUpdate body
          else Some (CallGet n))"

fun ex_body :: "validatingAdmissionPolicy reply \<Rightarrow> api_object" where
  "ex_body (ReplyObj (Some x)) = PolicyObj x"
| "ex_body (ReplyItems xs) = PolicyListObj (zero_policyList\<lparr>vapl_Items := Some xs\<rparr>)"
| "ex_body (ReplyErr (StatusErr st)) = StatusObj st"
| "ex_body _ = UnknownObj []"

definition ex_errors :: api_errors where
  "ex_errors = tracker_errors validatingadmissionpoliciesResource"

definition ex_answer :: "validatingAdmissionPolicy reply \<Rightarrow> api_object http_answer" where
  "ex_answer a =
     \<lparr>ha_StatusCode = (case a of ReplyErr e \<Rightarrow> 404 | _ \<Rightarrow> 200), ha_ContentType = ''application/json'',
      ha_RetryAfter = None, ha_Body = BodyRead (Some (ex_body a))\<rparr>"

abbreviation version_of :: "validatingAdmissionPolicy \<Rightarrow> string" where
  "version_of x \<equiv> om_resourceVersion (vap_ObjectMeta x)"

definition ex_stamp :: "int \<Rightarrow> validatingAdmissionPolicy \<Rightarrow> validatingAdmissionPolicy" where
  "ex_stamp n x = x\<lparr>vap_ObjectMeta := (vap_ObjectMeta x)
     \<lparr>om_uid := (if om_uid (vap_ObjectMeta x) = [] then ''uid-'' @ itoa n else om_uid (vap_ObjectMeta x)),
      om_resourceVersion := itoa n\<rparr>\<rparr>"

definition ex_conflict :: "string \<Rightarrow> go_error" where
  "ex_conflict name = StatusErr \<lparr>st_Status = ''Failure'', st_Message = ''Operation cannot be fulfilled on '' @ name,
     st_Reason = ''Conflict'', st_Details = None, st_Code = 409\<rparr>"

fun ex_server :: "call_options \<Rightarrow> validatingAdmissionPolicy call \<Rightarrow> ex_state \<Rightarrow> validatingAdmissionPolicy reply \<times> ex_state" where
  "ex_server opts (CallCreate x) (m, n) =
     (if m (policy_key x) \<noteq> None then (ReplyErr (ae_exists ex_errors (policy_key x)), (m, n))
      else (ReplyObj (Some (ex_stamp n x)), (m(policy_key x \<mapsto> ex_stamp n x), n + 1)))"
| "ex_server opts (CallUpdate x) (m, n) =
     (case m (policy_key x) of
        None \<Rightarrow> (ReplyErr (ae_missing ex_errors (policy_key x)), (m, n))
      | Some old \<Rightarrow>
          if version_of x \<noteq> version_of old then (ReplyErr (ex_conflict (policy_key x)), (m, n))
          else (ReplyObj (Some (ex_stamp n x)), (m(policy_key x \<mapsto> ex_stamp n x), n + 1)))"
| "ex_server opts cl (m, n) = map_prod id (\<lambda>m'. (m', n)) (spec_call policy_key (\<lambda>x. x) ex_errors cl m)"

definition ex_handle :: "api_object http_request \<Rightarrow> ex_world \<Rightarrow> (go_error + api_object http_answer) \<times> ex_world" where
  "ex_handle req w =
     (case ex_call req of
        None \<Rightarrow> (Inr (ex_answer ReplyPanic), (fst w, snd w @ [req]))
      | Some cl \<Rightarrow> (let (a, s) = ex_server plain_opts cl (fst w) in (Inr (ex_answer a), (s, snd w @ [req]))))"

definition ex_rest :: "(api_object, ex_world) rest" where
  "ex_rest =
     \<lparr>rc_base = Some ''/'', rc_versionedAPIPath = DefaultVersionedAPIPath ''/apis'' SchemeGroupVersion,
      rc_ContentType = ''application/json'', rc_AcceptContentTypes = [], rc_GroupVersion = SchemeGroupVersion,
      rc_Encode = (\<lambda>obj. Inr obj),
      rc_Decoder = (\<lambda>_. Decoder (\<lambda>body into. case into of None \<Rightarrow> DecodedOther body | Some _ \<Rightarrow> DecodedInto body)),
      rc_RateLimiter = None, rc_ClientTimeout = 0, rc_CtxErr = (\<lambda>w. None), rc_Do = ex_handle,
      rc_ConnectionReset = (\<lambda>_. False), rc_ProbableEOF = (\<lambda>_. False), rc_NetTimeout = (\<lambda>_. False),
      rc_UnwrapURL = (\<lambda>e. e), rc_Stream = (\<lambda>_. Inr []), rc_TextOf = (\<lambda>_. []),
      rc_ParameterCodec = (\<lambda>_. Inr (\<lambda>_. []))\<rparr>"

lemma ex_base: "base_path ex_rest = rooted [''apis'', ''admissionregistration.x-k8s.io'', ''v1alpha1'']"
proof -
  have "path_Join [''/'', ''/'', DefaultVersionedAPIPath ''/apis'' SchemeGroupVersion] =
      rooted [''apis'', ''admissionregistration.x-k8s.io'', ''v1alpha1'']"
    by code_simp
  then show ?thesis by (simp add: base_path_def ex_rest_def)
qed

lemma ex_path:
  "path_Join [base_path ex_rest, ''validatingadmissionpolicies''] = ex_collection"
  "valid_name n \<Longrightarrow> path_Join [base_path ex_rest, ''validatingadmissionpolicies'', n] = ex_collection @ CHR ''/'' # n"
proof -
  let ?ss = "[''apis'', ''admissionregistration.x-k8s.io'', ''v1alpha1'']"
  have plain: "list_all plain_segment ?ss" "plain_segment ''validatingadmissionpolicies''" by code_simp+
  show "path_Join [base_path ex_rest, ''validatingadmissionpolicies''] = ex_collection"
    using path_Join_plain [OF plain(1), of "[[''validatingadmissionpolicies'']]"] plain(2)
    by (simp add: ex_base ex_collection_def rooted_def)
  show "path_Join [base_path ex_rest, ''validatingadmissionpolicies'', n] = ex_collection @ CHR ''/'' # n" if "valid_name n"
    using path_Join_plain [OF plain(1), of "[[''validatingadmissionpolicies''], [n]]"] plain(2) that
    by (simp add: ex_base ex_collection_def rooted_def valid_name_iff)
qed

lemma ex_call_asked:
  assumes "call_valid policy_key cl" "asks ex_rest ''validatingadmissionpolicies'' PolicyObj policy_key opts cl req"
  shows "ex_call req = Some cl"
proof -
  have "hq_Path req = ex_collection @ (case call_name policy_key cl of None \<Rightarrow> [] | Some n \<Rightarrow> CHR ''/'' # n)"
    using assms ex_path by (auto simp: asks_def call_valid_def split: option.splits)
  then have name: "ex_name (hq_Path req) = call_name policy_key cl" by (simp add: ex_name_def split: option.split)
  have body: "hq_Body req = Some (PolicyObj x)" if "cl = CallCreate x \<or> cl = CallUpdate x" for x
    using assms(2) that by (auto simp: asks_def ex_rest_def)
  have verb: "hq_Method req = call_verb cl" using assms(2) by (simp add: asks_def)
  show ?thesis
    using name verb body by (cases cl) (auto simp: ex_call_def as_policy_def split: option.split)
qed

lemma ex_presents:
  "a \<noteq> ReplyPanic \<Longrightarrow> a \<noteq> ReplyObj None \<Longrightarrow> (\<And>e. a = ReplyErr e \<Longrightarrow> \<exists>st. e = StatusErr st \<and> st_Status st = ''Failure'') \<Longrightarrow>
     presents ex_rest (PolicyObj zero_policy) PolicyObj (PolicyListObj zero_policyList) policy_items (ex_answer a) a"
  by (cases a)
     (auto simp: presents_def ex_rest_def ex_answer_def checkWait_def failed_status_def policy_items_def as_policyList_def
       split: option.split)

lemma ex_failures:
  "\<exists>st. ae_exists ex_errors n = StatusErr st \<and> st_Status st = ''Failure''"
  "\<exists>st. ae_missing ex_errors n = StatusErr st \<and> st_Status st = ''Failure''"
  "\<exists>st. ex_conflict n = StatusErr st \<and> st_Status st = ''Failure''"
  by (auto simp: ex_errors_def tracker_errors_def NewAlreadyExists_def NewNotFound_def ex_conflict_def)

lemma ex_replies:
  "reply_fits cl (fst (ex_server opts cl s))"
  "fst (ex_server opts cl s) = ReplyErr e \<Longrightarrow> \<exists>st. e = StatusErr st \<and> st_Status st = ''Failure''"
  using ex_failures by (cases "(opts, cl, s)" rule: ex_server.cases; force split: option.splits if_splits)+

lemma ex_server_opts: "ex_server opts cl s = ex_server plain_opts cl s"
  by (cases "(opts, cl, s)" rule: ex_server.cases) simp_all

lemma ex_rest_server:
  "rest_server ex_rest ''validatingadmissionpolicies'' (PolicyObj zero_policy) PolicyObj (PolicyListObj zero_policyList)
     policy_items policy_key ex_server fst (\<lambda>w. True)"
proof -
  have "\<exists>ans w'. rc_Do ex_rest req w = (Inr ans, w') \<and> reply_fits cl (fst (ex_server opts cl (fst w))) \<and>
      presents ex_rest (PolicyObj zero_policy) PolicyObj (PolicyListObj zero_policyList) policy_items ans
        (fst (ex_server opts cl (fst w))) \<and>
      fst w' = snd (ex_server opts cl (fst w))"
    if "call_valid policy_key cl" "asks ex_rest ''validatingadmissionpolicies'' PolicyObj policy_key opts cl req"
    for opts cl w req
  proof -
    let ?s = "ex_server opts cl (fst w)"
    have "rc_Do ex_rest req w = (Inr (ex_answer (fst ?s)), (snd ?s, snd w @ [req]))"
      using ex_call_asked [OF that]
      by (simp add: ex_rest_def ex_handle_def Let_def ex_server_opts [of opts] split: prod.split)
    moreover have "fst ?s \<noteq> ReplyPanic" "fst ?s \<noteq> ReplyObj None"
      using ex_replies(1) [of cl opts "fst w"] by (cases cl; auto)+
    ultimately show ?thesis
      using ex_presents [of "fst ?s"] ex_replies(1) [of cl opts "fst w"] ex_replies(2) [of opts cl "fst w"]
      by (metis fst_conv)
  qed
  then show ?thesis by (simp add: rest_server_def) (simp add: ex_rest_def)
qed

lemma abs_objects_simps [simp]:
  "abs_objects bwd Map.empty = Map.empty"
  "abs_objects bwd (m(n \<mapsto> x)) = (abs_objects bwd m)(n \<mapsto> bwd x)"
  by (simp_all add: abs_objects_def fun_eq_iff)

lemma ex_valid: "valid_name ''p''" "\<not> valid_name ''..''"
  by code_simp+

text \<open>
  A policy is created, an update of a version the server never gave fails, and the policy is still there as it
  was created, with the identity and version the server gave it.
\<close>

definition ex_stale :: validatingAdmissionPolicy where
  "ex_stale = ex_policy\<lparr>vap_ObjectMeta := (vap_ObjectMeta ex_policy)\<lparr>om_resourceVersion := ''0''\<rparr>\<rparr>"

lemma ex_versions:
  "policy_key ex_stale = ''p''" "version_of (ex_stamp n x) = itoa n" "version_of (crd_policy ex_stale) = ''0''"
  by (simp_all add: ex_stale_def ex_policy_def policy_key_def zero_objectMeta_def ex_stamp_def with_version_def
      norm_policy_def norm_objectMeta_def)

theorem policy_client_relays_server_witness:
  "\<exists>w'. run_calls (\<lambda>call. tc_call (ValidatingAdmissionPolicies ex_policy
       \<lparr>rp_native = group_clients (group_New ex_rest), rp_replacement = group_clients (group_New ex_rest)\<rparr>)
         (fst call) (snd call))
       (map (Pair plain_opts) [CallGet ''p'', CallCreate ex_policy, CallUpdate ex_stale, CallList, CallDelete ''p''])
       ((Map.empty, 1), []) =
     ([ReplyErr (NewNotFound (GroupResource validatingadmissionpoliciesResource) ''p''),
       ReplyObj (Some (native_policy (ex_stamp 1 (crd_policy ex_policy)))), ReplyErr (ex_conflict ''p''),
       ReplyItems [native_policy (ex_stamp 1 (crd_policy ex_policy))], ReplyDone], w')"
proof -
  let ?calls = "map (Pair plain_opts) [CallGet ''p'', CallCreate ex_policy, CallUpdate ex_stale, CallList, CallDelete ''p'']"
  have one: "itoa 1 = ''1''" by code_simp
  have "list_all (\<lambda>call. call_valid policy_key (snd call)) ?calls"
    by (simp add: call_valid_def ex_names ex_valid ex_versions)
  from policy_client_relays_server [OF ex_rest_server, where w = "((Map.empty, 1), [])" and calls = ?calls
      and partial = ex_policy and native = "group_clients (group_New ex_rest)"] this
  show ?thesis
    by (auto simp: converted_server_def Let_def ex_errors_def tracker_errors_def ex_names ex_versions crd_policy_keeps one)
qed

theorem wrapped_fake_is_a_store_witness:
  "\<exists>c c'. NewSimpleClientset ex_patched ex_objects = Returns c \<and>
     run_calls (tc_call (ValidatingAdmissionPolicies ex_policy
       \<lparr>rp_native = FakeAdmissionregistrationV1alpha1 no_selectors, rp_replacement = FakeAdmissionregistrationV1alpha1 no_selectors\<rparr>) plain_opts)
       [CallGet ''p'', CallDelete ''p'', CallList] c =
     ([ReplyObj (Some (native_policy ex_policy)), ReplyDone, ReplyItems []], c')"
  using wrapped_fake_is_a_store [OF ex_seeds, of "[CallGet ''p'', CallDelete ''p'', CallList]" ex_patched
      ex_policy "FakeAdmissionregistrationV1alpha1 no_selectors" no_selectors]
  by (auto simp: ex_seeded)

theorem rest_calls_stay_in_collection_witness:
  "\<exists>reply w' reply' v. client_call (validatingAdmissionPolicies ex_rest) plain_opts (CallGet ''p'') ((Map.empty, 1), []) = (reply, w') \<and>
     list_all (\<lambda>r. hq_Method r = ''GET'' \<and>
       hq_Path r = ''/apis/admissionregistration.x-k8s.io/v1alpha1/validatingadmissionpolicies/p'') (snd w') \<and>
     client_call (validatingAdmissionPolicies ex_rest) plain_opts (CallGet ''..'') w' = (reply', v) \<and> snd v = snd w'"
proof -
  have obs: "observes ex_rest snd"
    by (auto simp: observes_def ex_rest_def ex_handle_def Let_def split: option.split prod.split)
  let ?call = "client_call (validatingAdmissionPolicies ex_rest) plain_opts"
  have plain: "list_all plain_segment [''apis'', ''admissionregistration.x-k8s.io'', ''v1alpha1'']" by code_simp
  obtain reply w' where a: "?call (CallGet ''p'') ((Map.empty, 1), []) = (reply, w')" by (rule prod.exhaust)
  from rest_calls_stay_in_collection [OF obs a] rooted_inj [OF _ plain] ex_base obtain rs where
    rs: "snd w' = rs" "list_all (\<lambda>r. hq_Method r = ''GET'' \<and>
      hq_Path r = rooted [''apis'', ''admissionregistration.x-k8s.io'', ''v1alpha1'', ''validatingadmissionpolicies'', ''p'']) rs"
    by (fastforce simp: list_all_iff)
  obtain reply' v where b: "?call (CallGet ''..'') w' = (reply', v)" by (rule prod.exhaust)
  from rest_calls_stay_in_collection [OF obs b] have "snd v = snd w'"
    by (auto simp: call_valid_def ex_valid list_all_iff)
  with a b rs show ?thesis by (cases v) (simp add: rooted_def)
qed

definition ex_lib :: "(int, unit, unit, unit, unit, (api_object, ex_world) rest, unit) rest_lib" where
  "ex_lib =
     \<lparr>rl_UserAgent = ''polyfill'', rl_Codecs = (), rl_HTTPClientFor = (\<lambda>_. Inr ()),
      rl_RESTClientForConfigAndClient = (\<lambda>config h. Inr (ex_rest\<lparr>rc_base := Some ''/'',
        rc_versionedAPIPath := DefaultVersionedAPIPath (cfg_APIPath config) (the (cfg_GroupVersion config))\<rparr>)),
      rl_NewDiscoveryClient = (\<lambda>config h. Inr ()), rl_DiscoveryFor = (\<lambda>c. ()), rl_NewTokenBucket = (\<lambda>q b. ())\<rparr>"

definition ex_config :: "(int, unit, unit, unit) config" where
  "ex_config = \<lparr>cfg_Host = ''https://localhost'', cfg_APIPath = ''/api'', cfg_GroupVersion = None,
     cfg_NegotiatedSerializer = None, cfg_UserAgent = [], cfg_QPS = 5, cfg_Burst = 10, cfg_RateLimiter = None,
     cfg_Transport = ()\<rparr>"

theorem clientset_base_path_witness:
  "\<exists>cs. clientset_NewForConfig ex_lib ex_config = Inr cs \<and>
     base_path (arc_restClient (clientset_AdmissionregistrationV1alpha1 cs)) =
       ''/apis/admissionregistration.x-k8s.io/v1alpha1''"
proof -
  obtain cs where cs: "clientset_NewForConfig ex_lib ex_config = Inr cs"
    by (simp add: clientset_NewForConfig_def clientset_NewForConfigAndClient_def group_NewForConfigAndClient_def
        ex_lib_def ex_config_def Let_def)
  have "path_Join [''/'', ''/'', ''/apis/admissionregistration.x-k8s.io/v1alpha1''] =
      ''/apis/admissionregistration.x-k8s.io/v1alpha1''"
    by code_simp
  then show ?thesis
    using clientset_base_path [OF _ cs, of "\<lambda>_. ''/''"] cs by (auto simp: ex_lib_def)
qed

end
