(* ===== verification/Policy_Matcher.thy ===== *)
theory Policy_Matcher
  imports Lister Policy_Types
begin

text \<open>
  When a policy or a binding concerns a request: the vendored packages
  \<open>validatingadmissionpolicy/matching\<close> and \<open>webhook/predicates\<close>, with label selectors as
  \<open>metav1.LabelSelectorAsSelector\<close> makes them, and the registry of equivalent resources the webhook
  hands to its validators, which nothing ever fills.
\<close>

section \<open>Label selectors\<close>

datatype selection_operator = SelIn | SelNotIn | SelEquals | SelExists | SelDoesNotExist

record requirement =
  req_key :: string
  req_operator :: selection_operator
  req_values :: "string list"

datatype label_selector = NothingSelector | InternalSelector "requirement list"

text \<open>The syntax checks of keys and values and the texts of the errors they give.\<close>

record label_lib =
  lb_keyError :: "string \<Rightarrow> string option"
  lb_valueError :: "string \<Rightarrow> string \<Rightarrow> string option"
  lb_valuesInvalid :: "string list \<Rightarrow> string \<Rightarrow> string"

text \<open>The text of an aggregate: each message once, in brackets when there are several.\<close>

definition first_occurrences :: "'a list \<Rightarrow> 'a list" where
  "first_occurrences xs = rev (remdups (rev xs))"

fun join_texts :: "string \<Rightarrow> string list \<Rightarrow> string" where
  "join_texts sep [] = []"
| "join_texts sep [s] = s"
| "join_texts sep (s # t # ts) = s @ sep @ join_texts sep (t # ts)"

definition NewAggregate :: "string list \<Rightarrow> go_error option" where
  "NewAggregate msgs =
     (if msgs = [] then None
      else if length (first_occurrences msgs) = 1 then Some (Plain (hd msgs))
      else Some (Plain (''['' @ join_texts '', '' (first_occurrences msgs) @ '']'')))"

definition option_list :: "'a option \<Rightarrow> 'a list" where
  "option_list x = (case x of None \<Rightarrow> [] | Some y \<Rightarrow> [y])"

definition NewRequirement ::
  "label_lib \<Rightarrow> string \<Rightarrow> selection_operator \<Rightarrow> string list \<Rightarrow> go_error + requirement" where
  "NewRequirement lib key op vals =
     (let allErrs =
        option_list (lb_keyError lib key) @
        (case op of
           SelIn \<Rightarrow> if vals = [] then [lb_valuesInvalid lib vals ''for 'in', 'notin' operators, values set can't be empty''] else []
         | SelNotIn \<Rightarrow> if vals = [] then [lb_valuesInvalid lib vals ''for 'in', 'notin' operators, values set can't be empty''] else []
         | SelEquals \<Rightarrow> if length vals \<noteq> 1 then [lb_valuesInvalid lib vals ''exact-match compatibility requires one single value''] else []
         | SelExists \<Rightarrow> if vals \<noteq> [] then [lb_valuesInvalid lib vals ''values set must be empty for exists and does not exist''] else []
         | SelDoesNotExist \<Rightarrow> if vals \<noteq> [] then [lb_valuesInvalid lib vals ''values set must be empty for exists and does not exist''] else []) @
        concat (map (\<lambda>v. option_list (lb_valueError lib key v)) vals) in
      case NewAggregate allErrs of
        Some err \<Rightarrow> Inl err
      | None \<Rightarrow> Inr \<lparr>req_key = key, req_operator = op, req_values = vals\<rparr>)"

definition requirement_Matches :: "requirement \<Rightarrow> (string \<rightharpoonup> string) \<Rightarrow> bool" where
  "requirement_Matches r ls =
     (case req_operator r of
        SelIn \<Rightarrow> (case ls (req_key r) of None \<Rightarrow> False | Some v \<Rightarrow> v \<in> set (req_values r))
      | SelEquals \<Rightarrow> (case ls (req_key r) of None \<Rightarrow> False | Some v \<Rightarrow> v \<in> set (req_values r))
      | SelNotIn \<Rightarrow> (case ls (req_key r) of None \<Rightarrow> True | Some v \<Rightarrow> v \<notin> set (req_values r))
      | SelExists \<Rightarrow> ls (req_key r) \<noteq> None
      | SelDoesNotExist \<Rightarrow> ls (req_key r) = None)"

definition selector_Empty :: "label_selector \<Rightarrow> bool" where
  "selector_Empty s = (case s of NothingSelector \<Rightarrow> False | InternalSelector rs \<Rightarrow> rs = [])"

text \<open>The requirements are kept in the order of their construction: sorting does not change a match.\<close>

definition selector_Matches :: "label_selector \<Rightarrow> (string \<rightharpoonup> string) \<Rightarrow> bool" where
  "selector_Matches s ls =
     (case s of NothingSelector \<Rightarrow> False | InternalSelector rs \<Rightarrow> list_all (\<lambda>r. requirement_Matches r ls) rs)"

definition operator_of :: "string \<Rightarrow> selection_operator option" where
  "operator_of op =
     (if op = ''In'' then Some SelIn else if op = ''NotIn'' then Some SelNotIn
      else if op = ''Exists'' then Some SelExists else if op = ''DoesNotExist'' then Some SelDoesNotExist
      else None)"

fun label_requirements :: "label_lib \<Rightarrow> (string \<times> string) list \<Rightarrow> go_error + requirement list" where
  "label_requirements lib [] = Inr []"
| "label_requirements lib ((k, v) # ms) =
     (case NewRequirement lib k SelEquals [v] of
        Inl err \<Rightarrow> Inl err
      | Inr r \<Rightarrow> (case label_requirements lib ms of Inl err \<Rightarrow> Inl err | Inr rs \<Rightarrow> Inr (r # rs)))"

fun expression_requirements :: "label_lib \<Rightarrow> labelSelectorRequirement list \<Rightarrow> go_error + requirement list" where
  "expression_requirements lib [] = Inr []"
| "expression_requirements lib (e # es) =
     (case operator_of (lr_Operator e) of
        None \<Rightarrow> Inl (Plain (quote (lr_Operator e) @ '' is not a valid label selector operator''))
      | Some op \<Rightarrow>
          (case NewRequirement lib (lr_Key e) op (elems (lr_Values e)) of
             Inl err \<Rightarrow> Inl err
           | Inr r \<Rightarrow> (case expression_requirements lib es of Inl err \<Rightarrow> Inl err | Inr rs \<Rightarrow> Inr (r # rs))))"

definition LabelSelectorAsSelector :: "label_lib \<Rightarrow> labelSelector option \<Rightarrow> go_error + label_selector" where
  "LabelSelectorAsSelector lib ps =
     (case ps of
        None \<Rightarrow> Inr NothingSelector
      | Some s \<Rightarrow>
          if length (elems (ls_MatchLabels s)) + length (elems (ls_MatchExpressions s)) = 0
          then Inr (InternalSelector [])
          else
            (case label_requirements lib (elems (ls_MatchLabels s)) of
               Inl err \<Rightarrow> Inl err
             | Inr rs \<Rightarrow>
                 (case expression_requirements lib (elems (ls_MatchExpressions s)) of
                    Inl err \<Rightarrow> Inl err
                  | Inr rs' \<Rightarrow> Inr (InternalSelector (rs @ rs')))))"

section \<open>Namespaces and objects\<close>

definition NewInternalError :: "go_error \<Rightarrow> go_error" where
  "NewInternalError err =
     StatusErr \<lparr>st_Status = ''Failure'', st_Message = ''Internal error occurred: '' @ error_text err,
       st_Reason = ''InternalError'', st_Details = Some \<lparr>det_Group = [], det_Kind = [], det_Name = []\<rparr>,
       st_Code = 500\<rparr>"

text \<open>
  What matching looks up: the labels of an object (\<open>None\<close>: it has no metadata), of a namespace in
  the lister's cache and, by a call to the server, in the cluster; and the equivalent resources.
\<close>

record 'obj match_env =
  me_labels :: label_lib
  me_accessor :: "'obj \<Rightarrow> str_map option"
  me_NamespaceLister :: "string \<Rightarrow> go_error + str_map"
  me_Client :: "string \<Rightarrow> go_error + str_map"
  me_EquivalentResourcesFor :: "gvr \<Rightarrow> string \<Rightarrow> gvr list"
  me_KindFor :: "gvr \<Rightarrow> string \<Rightarrow> gvk"

definition meta_labels :: "'obj match_env \<Rightarrow> 'obj option \<Rightarrow> go_error + str_map" where
  "meta_labels env ob =
     (case Option.bind ob (me_accessor env) of None \<Rightarrow> Inl errNotObject | Some ls \<Rightarrow> Inr ls)"

definition GetNamespaceLabels :: "'obj match_env \<Rightarrow> 'obj attributes \<Rightarrow> go_error + str_map" where
  "GetNamespaceLabels env attr =
     (if gvr_Resource (at_resource attr) = ''namespaces'' \<and> length (at_subresource attr) = 0 \<and>
         (at_operation attr = ''CREATE'' \<or> at_operation attr = ''UPDATE'')
      then meta_labels env (at_object attr)
      else
        (case me_NamespaceLister env (at_namespace attr) of
           Inr ls \<Rightarrow> Inr ls
         | Inl err \<Rightarrow> if IsNotFound err then me_Client env (at_namespace attr) else Inl err))"

definition MatchNamespaceSelector ::
  "'obj match_env \<Rightarrow> labelSelector option \<Rightarrow> 'obj attributes \<Rightarrow> bool \<times> go_error option" where
  "MatchNamespaceSelector env namespaceSelector attr =
     (if length (at_namespace attr) = 0 \<and> gvr_Resource (at_resource attr) \<noteq> ''namespaces'' then (True, None)
      else
        (case LabelSelectorAsSelector (me_labels env) namespaceSelector of
           Inl err \<Rightarrow> (False, Some (NewInternalError err))
         | Inr selector \<Rightarrow>
             if selector_Empty selector then (True, None)
             else
               (case GetNamespaceLabels env attr of
                  Inl err \<Rightarrow>
                    (False, Some (if IsNotFound err
                       then (case err of StatusErr st \<Rightarrow> StatusErr st | _ \<Rightarrow> NewInternalError err)
                       else NewInternalError err))
                | Inr ls \<Rightarrow> (selector_Matches selector (map_of (elems ls)), None))))"

definition matchObject :: "'obj match_env \<Rightarrow> 'obj option \<Rightarrow> label_selector \<Rightarrow> bool" where
  "matchObject env ob selector =
     (case meta_labels env ob of Inl err \<Rightarrow> False | Inr ls \<Rightarrow> selector_Matches selector (map_of (elems ls)))"

definition MatchObjectSelector ::
  "'obj match_env \<Rightarrow> labelSelector option \<Rightarrow> 'obj attributes \<Rightarrow> bool \<times> go_error option" where
  "MatchObjectSelector env objectSelector attr =
     (case LabelSelectorAsSelector (me_labels env) objectSelector of
        Inl err \<Rightarrow> (False, Some (NewInternalError err))
      | Inr selector \<Rightarrow>
          if selector_Empty selector then (True, None)
          else (matchObject env (at_object attr) selector \<or> matchObject env (at_oldObject attr) selector, None))"

section \<open>Rules\<close>

fun exactOrWildcard :: "string list \<Rightarrow> string \<Rightarrow> bool" where
  "exactOrWildcard [] requested = False"
| "exactOrWildcard (item # items) requested =
     (if item = ''*'' then True else if item = requested then True else exactOrWildcard items requested)"

definition namespaceResource :: gvr where
  "namespaceResource = \<lparr>gvr_Group = [], gvr_Version = ''v1'', gvr_Resource = ''namespaces''\<rparr>"

definition rule_scope :: "namedRuleWithOperations \<Rightarrow> gvr \<Rightarrow> 'obj attributes \<Rightarrow> bool" where
  "rule_scope rule res attr =
     (case nr_Scope rule of
        None \<Rightarrow> True
      | Some scope \<Rightarrow>
          if scope = AllScopes then True
          else if scope = NamespacedScope then res \<noteq> namespaceResource \<and> at_namespace attr \<noteq> []
          else if scope = ClusterScope then res = namespaceResource \<or> at_namespace attr = []
          else False)"

fun rule_operation :: "OperationType list \<Rightarrow> operation \<Rightarrow> bool" where
  "rule_operation [] attrOp = False"
| "rule_operation (op # ops) attrOp =
     (if op = OperationAll then True else if op = attrOp then True else rule_operation ops attrOp)"

text \<open>\<open>strings.SplitN(resSub, "/", 2)\<close>.\<close>

definition splitResource :: "string \<Rightarrow> string \<times> string" where
  "splitResource resSub =
     (let res = takeWhile (\<lambda>c. c \<noteq> CHR ''/'') resSub
      in if length res = length resSub then (resSub, []) else (res, drop (Suc (length res)) resSub))"

fun rule_resource :: "string list \<Rightarrow> string \<Rightarrow> string \<Rightarrow> bool" where
  "rule_resource [] opRes opSub = False"
| "rule_resource (r # rs) opRes opSub =
     (let (res, sub) = splitResource r in
      if (res = ''*'' \<or> res = opRes) \<and> (sub = ''*'' \<or> sub = opSub) then True
      else rule_resource rs opRes opSub)"

text \<open>\<open>rules.Matcher.Matches\<close> for the attributes with their resource overridden.\<close>

definition rule_Matches :: "namedRuleWithOperations \<Rightarrow> gvr \<Rightarrow> 'obj attributes \<Rightarrow> bool" where
  "rule_Matches rule res attr \<longleftrightarrow>
     rule_scope rule res attr \<and>
     rule_operation (elems (nr_Operations rule)) (at_operation attr) \<and>
     exactOrWildcard (elems (nr_APIGroups rule)) (gvr_Group res) \<and>
     exactOrWildcard (elems (nr_APIVersions rule)) (gvr_Version res) \<and>
     rule_resource (elems (nr_Resources rule)) (gvr_Resource res) (at_subresource attr)"

section \<open>Matching resource rules\<close>

definition name_matches :: "namedRuleWithOperations \<Rightarrow> 'obj attributes \<Rightarrow> bool" where
  "name_matches rule attr \<longleftrightarrow>
     length (elems (nr_ResourceNames rule)) = 0 \<or> at_name attr \<in> set (elems (nr_ResourceNames rule))"

fun direct_match :: "namedRuleWithOperations list \<Rightarrow> 'obj attributes \<Rightarrow> bool" where
  "direct_match [] attr = False"
| "direct_match (rule # rules) attr =
     (if \<not> rule_Matches rule (at_resource attr) attr then direct_match rules attr
      else if name_matches rule attr then True
      else direct_match rules attr)"

definition no_kind :: gvk where
  "no_kind = \<lparr>gvk_Group = [], gvk_Version = [], gvk_Kind = []\<rparr>"

definition infGVR_String :: "gvr \<Rightarrow> string" where
  "infGVR_String r = gvr_Group r @ ''/'' @ gvr_Version r @ '', Resource='' @ gvr_Resource r"

text \<open>The second pair of loops, over every rule and, for each, every equivalent resource.\<close>

fun equivalent_match ::
  "'obj match_env \<Rightarrow> (namedRuleWithOperations \<times> gvr) list \<Rightarrow> 'obj attributes \<Rightarrow> bool \<times> gvk \<times> go_error option" where
  "equivalent_match env [] attr = (False, no_kind, None)"
| "equivalent_match env ((rule, equivalent) # pairs) attr =
     (if equivalent = at_resource attr then equivalent_match env pairs attr
      else if \<not> rule_Matches rule equivalent attr then equivalent_match env pairs attr
      else
        (let matchKind = me_KindFor env equivalent (at_subresource attr) in
         if matchKind = no_kind
         then (False, no_kind, Some (Plain (''unable to convert to '' @ infGVR_String equivalent @ '': unknown kind'')))
         else if name_matches rule attr then (True, matchKind, None)
         else equivalent_match env pairs attr))"

definition matchesResourceRules ::
  "'obj match_env \<Rightarrow> namedRuleWithOperations list \<Rightarrow> MatchPolicyType option \<Rightarrow> 'obj attributes
   \<Rightarrow> bool \<times> gvk \<times> go_error option" where
  "matchesResourceRules env namedRules matchPolicy attr =
     (if direct_match namedRules attr then (True, at_kind attr, None)
      else if matchPolicy = None \<or> matchPolicy = Some Exact then (False, no_kind, None)
      else
        (let equivalents = me_EquivalentResourcesFor env (at_resource attr) (at_subresource attr)
         in equivalent_match env (concat (map (\<lambda>rule. map (Pair rule) equivalents) namedRules)) attr))"

section \<open>Matches\<close>

text \<open>\<open>None\<close> is a panic: reading the selectors of a policy without match constraints.\<close>

definition Matches ::
  "'obj match_env \<Rightarrow> matchResources option \<Rightarrow> 'obj attributes \<Rightarrow> (bool \<times> gvk \<times> go_error option) option" where
  "Matches env criteria attr =
     (case criteria of
        None \<Rightarrow> None
      | Some c \<Rightarrow>
     Some
       (let (matchesNs, matchNsErr) = MatchNamespaceSelector env (mr_NamespaceSelector c) attr in
        if \<not> matchesNs \<and> matchNsErr = None then (False, no_kind, None)
        else
       (let (matchesObj, matchObjErr) = MatchObjectSelector env (mr_ObjectSelector c) attr in
        if \<not> matchesObj \<and> matchObjErr = None then (False, no_kind, None)
        else
       (let (isExcluded, _, err) =
              matchesResourceRules env (elems (mr_ExcludeResourceRules c)) (mr_MatchPolicy c) attr in
        if isExcluded \<or> err \<noteq> None then (False, no_kind, err)
        else
       (let (isMatch, matchKind, matchErr) =
              (if length (elems (mr_ResourceRules c)) = 0 then (True, at_kind attr, None)
               else matchesResourceRules env (elems (mr_ResourceRules c)) (mr_MatchPolicy c) attr) in
        if matchErr \<noteq> None then (False, no_kind, matchErr)
        else if \<not> isMatch then (False, no_kind, None)
        else if matchNsErr \<noteq> None then (False, no_kind, matchNsErr)
        else if matchObjErr \<noteq> None then (False, no_kind, matchObjErr)
        else (True, matchKind, None))))))"

text \<open>The two questions the evaluator asks (\<open>matcher.go\<close>).\<close>

definition DefinitionMatches ::
  "'obj match_env \<Rightarrow> 'obj attributes \<Rightarrow> validatingAdmissionPolicy \<Rightarrow> (bool \<times> gvk \<times> go_error option) option" where
  "DefinitionMatches env a definition = Matches env (ps_MatchConstraints (vap_Spec definition)) a"

definition BindingMatches ::
  "'obj match_env \<Rightarrow> 'obj attributes \<Rightarrow> validatingAdmissionPolicyBinding \<Rightarrow> (bool \<times> go_error option) option" where
  "BindingMatches env a binding =
     (case bs_MatchResources (vapb_Spec binding) of
        None \<Rightarrow> Some (True, None)
      | Some c \<Rightarrow> (case Matches env (Some c) a of None \<Rightarrow> None | Some (isMatch, _, err) \<Rightarrow> Some (isMatch, err)))"

section \<open>The registry of equivalent resources\<close>

record equivalentResourceRegistry =
  er_resources :: "string \<rightharpoonup> string \<rightharpoonup> gvr list"
  er_kinds :: "gvr \<rightharpoonup> string \<rightharpoonup> gvk"
  er_keys :: "group_resource \<rightharpoonup> string"

definition NewEquivalentResourceRegistry :: equivalentResourceRegistry where
  "NewEquivalentResourceRegistry = \<lparr>er_resources = Map.empty, er_kinds = Map.empty, er_keys = Map.empty\<rparr>"

text \<open>Reading a missing key of a Go map gives the zero value.\<close>

definition EquivalentResourcesFor :: "equivalentResourceRegistry \<Rightarrow> gvr \<Rightarrow> string \<Rightarrow> gvr list" where
  "EquivalentResourcesFor r resource subresource =
     (let key = (case er_keys r (GroupResource resource) of None \<Rightarrow> [] | Some k \<Rightarrow> k)
      in case er_resources r key of
           None \<Rightarrow> []
         | Some m \<Rightarrow> (case m subresource of None \<Rightarrow> [] | Some rs \<Rightarrow> rs))"

definition KindFor :: "equivalentResourceRegistry \<Rightarrow> gvr \<Rightarrow> string \<Rightarrow> gvk" where
  "KindFor r resource subresource =
     (case er_kinds r resource of
        None \<Rightarrow> no_kind
      | Some m \<Rightarrow> (case m subresource of None \<Rightarrow> no_kind | Some k \<Rightarrow> k))"

text \<open>\<open>NewObjectInterfacesFromScheme\<close>, which \<open>webhook.New\<close> calls, makes a new registry.\<close>

definition webhook_match_env :: "'obj match_env \<Rightarrow> bool" where
  "webhook_match_env env \<longleftrightarrow>
     me_EquivalentResourcesFor env = EquivalentResourcesFor NewEquivalentResourceRegistry \<and>
     me_KindFor env = KindFor NewEquivalentResourceRegistry"

section \<open>Rules as sets of requests\<close>

text \<open>What a rule says, without the loops.\<close>

definition covers :: "string list \<Rightarrow> string \<Rightarrow> bool" where
  "covers items x \<longleftrightarrow> ''*'' \<in> set items \<or> x \<in> set items"

definition rule_covers :: "namedRuleWithOperations \<Rightarrow> 'obj attributes \<Rightarrow> bool" where
  "rule_covers rule a \<longleftrightarrow>
     (let res = at_resource a; namespaced = (res \<noteq> namespaceResource \<and> at_namespace a \<noteq> []) in
      (case nr_Scope rule of
         None \<Rightarrow> True
       | Some s \<Rightarrow> s = AllScopes \<or> s = NamespacedScope \<and> namespaced \<or> s = ClusterScope \<and> \<not> namespaced) \<and>
      covers (elems (nr_Operations rule)) (at_operation a) \<and>
      covers (elems (nr_APIGroups rule)) (gvr_Group res) \<and>
      covers (elems (nr_APIVersions rule)) (gvr_Version res) \<and>
      (\<exists>r \<in> set (elems (nr_Resources rule)).
         fst (splitResource r) \<in> {''*'', gvr_Resource res} \<and> snd (splitResource r) \<in> {''*'', at_subresource a}) \<and>
      (elems (nr_ResourceNames rule) = [] \<or> at_name a \<in> set (elems (nr_ResourceNames rule))))"

lemma exactOrWildcard_covers: "exactOrWildcard items x = covers items x"
  by (induction items) (auto simp: covers_def)

lemma rule_operation_covers: "rule_operation ops x = covers ops x"
  by (induction ops) (auto simp: covers_def OperationAll_def)

lemma rule_resource_iff:
  "rule_resource rs res sub \<longleftrightarrow>
     (\<exists>r \<in> set rs. fst (splitResource r) \<in> {''*'', res} \<and> snd (splitResource r) \<in> {''*'', sub})"
  by (induction rs) (auto split: prod.splits)

lemma rule_scope_iff:
  "rule_scope rule (at_resource a) a \<longleftrightarrow>
     (case nr_Scope rule of
         None \<Rightarrow> True
       | Some s \<Rightarrow> s = AllScopes \<or> s = NamespacedScope \<and> at_resource a \<noteq> namespaceResource \<and> at_namespace a \<noteq> [] \<or>
           s = ClusterScope \<and> \<not> (at_resource a \<noteq> namespaceResource \<and> at_namespace a \<noteq> []))"
  by (auto simp: rule_scope_def AllScopes_def NamespacedScope_def ClusterScope_def split: option.splits)

lemma direct_match_iff: "direct_match rules a \<longleftrightarrow> (\<exists>rule \<in> set rules. rule_covers rule a)"
proof (induction rules)
  case (Cons rule rules)
  have "rule_Matches rule (at_resource a) a \<and> name_matches rule a \<longleftrightarrow> rule_covers rule a"
    by (auto simp: rule_Matches_def rule_covers_def name_matches_def Let_def rule_scope_iff exactOrWildcard_covers
        rule_operation_covers rule_resource_iff split: option.splits)
  then show ?case using Cons by auto
qed simp

lemma webhook_no_equivalents:
  "webhook_match_env env \<Longrightarrow> me_EquivalentResourcesFor env r s = []"
  by (simp add: webhook_match_env_def EquivalentResourcesFor_def NewEquivalentResourceRegistry_def)

lemma no_pairs [simp]: "concat (map (\<lambda>x. []) xs) = []"
  by (induction xs) auto

lemma webhook_matchesResourceRules:
  "webhook_match_env env \<Longrightarrow> matchesResourceRules env rules p a =
     (if \<exists>rule \<in> set rules. rule_covers rule a then (True, at_kind a, None) else (False, no_kind, None))"
  by (simp add: matchesResourceRules_def webhook_no_equivalents direct_match_iff)

section \<open>What a label selector selects\<close>

definition expression_holds :: "labelSelectorRequirement \<Rightarrow> (string \<rightharpoonup> string) \<Rightarrow> bool" where
  "expression_holds e ls \<longleftrightarrow>
     (lr_Operator e = ''In'' \<and> (\<exists>v \<in> set (elems (lr_Values e)). ls (lr_Key e) = Some v)) \<or>
     (lr_Operator e = ''NotIn'' \<and> \<not> (\<exists>v \<in> set (elems (lr_Values e)). ls (lr_Key e) = Some v)) \<or>
     (lr_Operator e = ''Exists'' \<and> ls (lr_Key e) \<noteq> None) \<or>
     (lr_Operator e = ''DoesNotExist'' \<and> ls (lr_Key e) = None)"

definition selector_holds :: "labelSelector \<Rightarrow> (string \<rightharpoonup> string) \<Rightarrow> bool" where
  "selector_holds s ls \<longleftrightarrow>
     (\<forall>(k, v) \<in> set (elems (ls_MatchLabels s)). ls k = Some v) \<and>
     (\<forall>e \<in> set (elems (ls_MatchExpressions s)). expression_holds e ls)"

lemma NewRequirement_fields:
  "NewRequirement lib key op vals = Inr r \<Longrightarrow> r = \<lparr>req_key = key, req_operator = op, req_values = vals\<rparr>"
  by (auto simp: NewRequirement_def Let_def split: option.splits)

lemma label_requirements_match:
  "label_requirements lib ms = Inr rs \<Longrightarrow>
     list_all (\<lambda>r. requirement_Matches r ls) rs \<longleftrightarrow> (\<forall>(k, v) \<in> set ms. ls k = Some v)"
proof (induction ms arbitrary: rs)
  case (Cons m ms)
  obtain k v where m: "m = (k, v)" by (rule prod.exhaust)
  from Cons.prems obtain r rs' where r: "NewRequirement lib k SelEquals [v] = Inr r"
    and rs': "label_requirements lib ms = Inr rs'" and rs: "rs = r # rs'"
    by (auto simp: m split: sum.splits)
  show ?case using Cons.IH [OF rs'] NewRequirement_fields [OF r]
    by (auto simp: m rs requirement_Matches_def split: option.splits)
qed simp

lemma operator_match:
  "operator_of (lr_Operator e) = Some op \<Longrightarrow>
     requirement_Matches \<lparr>req_key = lr_Key e, req_operator = op, req_values = elems (lr_Values e)\<rparr> ls
       \<longleftrightarrow> expression_holds e ls"
  by (auto simp: operator_of_def requirement_Matches_def expression_holds_def split: if_splits option.splits)

lemma expression_requirements_match:
  "expression_requirements lib es = Inr rs \<Longrightarrow>
     list_all (\<lambda>r. requirement_Matches r ls) rs \<longleftrightarrow> (\<forall>e \<in> set es. expression_holds e ls)"
proof (induction es arbitrary: rs)
  case (Cons e es)
  from Cons.prems obtain op r rs' where op: "operator_of (lr_Operator e) = Some op"
    and r: "NewRequirement lib (lr_Key e) op (elems (lr_Values e)) = Inr r"
    and rs': "expression_requirements lib es = Inr rs'" and rs: "rs = r # rs'"
    by (auto split: sum.splits option.splits)
  show ?case using Cons.IH [OF rs'] NewRequirement_fields [OF r] operator_match [OF op, of ls] by (simp add: rs)
qed simp

lemma label_selector_semantics:
  "LabelSelectorAsSelector lib (Some s) = Inr sel \<Longrightarrow> selector_Matches sel ls = selector_holds s ls"
  by (auto simp: LabelSelectorAsSelector_def selector_Matches_def selector_holds_def list_all_append
      label_requirements_match expression_requirements_match split: if_splits sum.splits)

lemma selector_Empty_iff:
  "LabelSelectorAsSelector lib (Some s) = Inr sel \<Longrightarrow>
     selector_Empty sel \<longleftrightarrow> elems (ls_MatchLabels s) = [] \<and> elems (ls_MatchExpressions s) = []"
  by (cases "elems (ls_MatchLabels s)"; cases "elems (ls_MatchExpressions s)")
    (auto simp: LabelSelectorAsSelector_def selector_Empty_def split: if_splits sum.splits option.splits)

section \<open>What match resources select\<close>

definition valid_selector :: "label_lib \<Rightarrow> labelSelector \<Rightarrow> bool" where
  "valid_selector lib s \<longleftrightarrow> (\<exists>sel. LabelSelectorAsSelector lib (Some s) = Inr sel)"

definition selects_all :: "labelSelector \<Rightarrow> bool" where
  "selects_all s \<longleftrightarrow> elems (ls_MatchLabels s) = [] \<and> elems (ls_MatchExpressions s) = []"

definition namespace_selected :: "'obj match_env \<Rightarrow> labelSelector \<Rightarrow> 'obj attributes \<Rightarrow> bool" where
  "namespace_selected env s a \<longleftrightarrow>
     at_namespace a = [] \<and> gvr_Resource (at_resource a) \<noteq> ''namespaces'' \<or>
     valid_selector (me_labels env) s \<and>
     (selects_all s \<or> (\<exists>ls. GetNamespaceLabels env a = Inr ls \<and> selector_holds s (map_of (elems ls))))"

definition object_selected :: "'obj match_env \<Rightarrow> labelSelector \<Rightarrow> 'obj attributes \<Rightarrow> bool" where
  "object_selected env s a \<longleftrightarrow>
     valid_selector (me_labels env) s \<and>
     (selects_all s \<or>
      (\<exists>ob ls. (at_object a = Some ob \<or> at_oldObject a = Some ob) \<and> me_accessor env ob = Some ls \<and>
         selector_holds s (map_of (elems ls))))"

lemma namespace_selected_iff:
  "MatchNamespaceSelector env (Some s) a = (True, None) \<longleftrightarrow> namespace_selected env s a"
proof (cases "LabelSelectorAsSelector (me_labels env) (Some s)")
  case (Inl err)
  then show ?thesis by (auto simp: MatchNamespaceSelector_def namespace_selected_def valid_selector_def)
next
  case (Inr sel)
  then show ?thesis
    using label_selector_semantics [OF Inr] selector_Empty_iff [OF Inr]
    by (auto simp: MatchNamespaceSelector_def namespace_selected_def valid_selector_def selects_all_def split: sum.splits)
qed

lemma matchObject_iff:
  "matchObject env x sel \<longleftrightarrow> (\<exists>ob ls. x = Some ob \<and> me_accessor env ob = Some ls \<and> selector_Matches sel (map_of (elems ls)))"
  by (cases x) (auto simp: matchObject_def meta_labels_def split: option.splits sum.splits)

lemma object_selected_iff:
  "MatchObjectSelector env (Some s) a = (True, None) \<longleftrightarrow> object_selected env s a"
proof (cases "LabelSelectorAsSelector (me_labels env) (Some s)")
  case (Inl err)
  then show ?thesis by (auto simp: MatchObjectSelector_def object_selected_def valid_selector_def)
next
  case (Inr sel)
  then show ?thesis
    using label_selector_semantics [OF Inr] selector_Empty_iff [OF Inr]
    by (auto simp: MatchObjectSelector_def object_selected_def valid_selector_def selects_all_def matchObject_iff)
qed

text \<open>The whole of match resources; the API server's defaults set both selectors.\<close>

definition resources_select :: "'obj match_env \<Rightarrow> matchResources \<Rightarrow> 'obj attributes \<Rightarrow> bool" where
  "resources_select env c a \<longleftrightarrow>
     (\<exists>ns obj. mr_NamespaceSelector c = Some ns \<and> mr_ObjectSelector c = Some obj \<and>
        namespace_selected env ns a \<and> object_selected env obj a) \<and>
     \<not> (\<exists>rule \<in> set (elems (mr_ExcludeResourceRules c)). rule_covers rule a) \<and>
     (elems (mr_ResourceRules c) = [] \<or> (\<exists>rule \<in> set (elems (mr_ResourceRules c)). rule_covers rule a))"

lemma Matches_iff:
  assumes "webhook_match_env env" and "mr_NamespaceSelector c \<noteq> None" and "mr_ObjectSelector c \<noteq> None"
  shows "(\<exists>k. Matches env (Some c) a = Some (True, k, None)) \<longleftrightarrow> resources_select env c a"
    and "Matches env (Some c) a = Some (True, k, e) \<Longrightarrow> k = at_kind a \<and> e = None"
proof -
  obtain ns obj where s: "mr_NamespaceSelector c = Some ns" "mr_ObjectSelector c = Some obj"
    using assms(2,3) by auto
  obtain m1 e1 m2 e2 where m: "MatchNamespaceSelector env (Some ns) a = (m1, e1)"
    "MatchObjectSelector env (Some obj) a = (m2, e2)" by fastforce
  have err: "m1 \<Longrightarrow> e1 = None" "m2 \<Longrightarrow> e2 = None"
    using m by (auto simp: MatchNamespaceSelector_def MatchObjectSelector_def split: if_splits sum.splits)
  have sel: "namespace_selected env ns a \<longleftrightarrow> m1" "object_selected env obj a \<longleftrightarrow> m2"
    using namespace_selected_iff [of env ns a] object_selected_iff [of env obj a] m err by auto
  show "(\<exists>k. Matches env (Some c) a = Some (True, k, None)) \<longleftrightarrow> resources_select env c a"
    using err by (auto simp: Matches_def resources_select_def webhook_matchesResourceRules [OF assms(1)] s m sel Let_def)
  show "Matches env (Some c) a = Some (True, k, e) \<Longrightarrow> k = at_kind a \<and> e = None"
    by (auto simp: Matches_def webhook_matchesResourceRules [OF assms(1)] s m Let_def split: if_splits)
qed

section \<open>Properties\<close>

text \<open>
  (C15) Which requests a policy concerns. With the registry of the webhook, match resources with both
  selectors match a request exactly when its namespace and its object are selected, no
  exclusion rule covers it and, if there are rules, one of them does; and it is always evaluated in
  the kind of the request.
\<close>

theorem matches_what_resources_select:
  assumes "webhook_match_env env" and "mr_NamespaceSelector c \<noteq> None" and "mr_ObjectSelector c \<noteq> None"
  shows "(Matches env (Some c) a = Some (True, at_kind a, None) \<longleftrightarrow> resources_select env c a) \<and>
    (\<forall>k e. Matches env (Some c) a = Some (True, k, e) \<longrightarrow> k = at_kind a \<and> e = None)"
  using Matches_iff [OF assms] by blast

text \<open>
  (C23) The match policy of a policy has no effect in the webhook: a policy that asks for equivalent
  resources, the default, matches exactly what one with the policy \<open>Exact\<close> matches, since the registry
  of equivalent resources is empty.
\<close>

theorem match_policy_is_ignored:
  assumes "webhook_match_env env"
  shows "Matches env (Some (c\<lparr>mr_MatchPolicy := p\<rparr>)) a = Matches env (Some (c\<lparr>mr_MatchPolicy := Some Exact\<rparr>)) a"
  by (cases "MatchNamespaceSelector env (mr_NamespaceSelector c) a"; cases "MatchObjectSelector env (mr_ObjectSelector c) a")
    (simp add: Matches_def webhook_matchesResourceRules [OF assms] Let_def)

section \<open>Instances\<close>

text \<open>Objects are their labels; one namespace; no label is malformed.\<close>

definition ex_match_env :: "str_map match_env" where
  "ex_match_env =
     \<lparr>me_labels = \<lparr>lb_keyError = (\<lambda>k. None), lb_valueError = (\<lambda>k v. None), lb_valuesInvalid = (\<lambda>vs d. d)\<rparr>,
      me_accessor = Some, me_NamespaceLister = (\<lambda>n. Inr (Some [(''env'', ''prod'')])),
      me_Client = (\<lambda>n. Inl (Plain ''down'')),
      me_EquivalentResourcesFor = EquivalentResourcesFor NewEquivalentResourceRegistry,
      me_KindFor = KindFor NewEquivalentResourceRegistry\<rparr>"

definition ex_rule :: namedRuleWithOperations where
  "ex_rule = \<lparr>nr_ResourceNames = None, nr_Operations = Some [''CREATE''], nr_APIGroups = Some [''apps''],
     nr_APIVersions = Some [''*''], nr_Resources = Some [''deployments''], nr_Scope = None\<rparr>"

definition ex_resources :: matchResources where
  "ex_resources =
     \<lparr>mr_NamespaceSelector = Some \<lparr>ls_MatchLabels = Some [(''env'', ''prod'')], ls_MatchExpressions = None\<rparr>,
      mr_ObjectSelector = Some \<lparr>ls_MatchLabels = None, ls_MatchExpressions = None\<rparr>,
      mr_ResourceRules = Some [ex_rule], mr_ExcludeResourceRules = None, mr_MatchPolicy = Some Equivalent\<rparr>"

definition ex_deployment :: "string \<Rightarrow> str_map attributes" where
  "ex_deployment op = NewAttributesRecord (Some None) None
     \<lparr>gvk_Group = ''apps'', gvk_Version = ''v1'', gvk_Kind = ''Deployment''\<rparr> ''shop'' ''web''
     \<lparr>gvr_Group = ''apps'', gvr_Version = ''v1'', gvr_Resource = ''deployments''\<rparr> [] op None False
     \<lparr>ui_Name = ''u'', ui_UID = [], ui_Groups = None, ui_Extra = None\<rparr>"

lemma ex_match_env_ok: "webhook_match_env ex_match_env"
  by (simp add: webhook_match_env_def ex_match_env_def)

lemma ex_resources_select:
  "resources_select ex_match_env ex_resources (ex_deployment ''CREATE'')"
  "\<not> resources_select ex_match_env ex_resources (ex_deployment ''DELETE'')"
  by (auto simp: resources_select_def ex_resources_def namespace_selected_def object_selected_def valid_selector_def
      selects_all_def selector_holds_def LabelSelectorAsSelector_def NewRequirement_def NewAggregate_def option_list_def
      rule_covers_def covers_def ex_rule_def ex_match_env_def ex_deployment_def NewAttributesRecord_def
      GetNamespaceLabels_def splitResource_def Let_def)

theorem matches_what_resources_select_witness:
  "Matches ex_match_env (Some ex_resources) (ex_deployment ''CREATE'')
     = Some (True, \<lparr>gvk_Group = ''apps'', gvk_Version = ''v1'', gvk_Kind = ''Deployment''\<rparr>, None) \<and>
   Matches ex_match_env (Some ex_resources) (ex_deployment ''DELETE'')
     \<noteq> Some (True, \<lparr>gvk_Group = ''apps'', gvk_Version = ''v1'', gvk_Kind = ''Deployment''\<rparr>, None)"
  using matches_what_resources_select [OF ex_match_env_ok, of ex_resources "ex_deployment ''CREATE''"]
    matches_what_resources_select [OF ex_match_env_ok, of ex_resources "ex_deployment ''DELETE''"] ex_resources_select
  by (simp add: ex_resources_def ex_deployment_def NewAttributesRecord_def)

theorem match_policy_is_ignored_witness:
  "Matches ex_match_env (Some ex_resources) (ex_deployment ''UPDATE'')
     = Matches ex_match_env (Some (ex_resources\<lparr>mr_MatchPolicy := Some Exact\<rparr>)) (ex_deployment ''UPDATE'')"
  using match_policy_is_ignored [OF ex_match_env_ok, of "Some Equivalent" ex_resources "ex_deployment ''UPDATE''"]
  by (simp add: ex_resources_def)

end
