(* ===== verification/Cel_Validator.thy ===== *)
theory Cel_Validator
  imports Policy_Matcher "HOL-Library.Sublist"
begin

text \<open>
  From compiled CEL expressions to decisions: the vendored \<open>plugin/cel/filter.go\<close>, which runs the
  programs of a policy within a cost budget, \<open>matchconditions/matcher.go\<close> and
  \<open>validatingadmissionpolicy/validator.go\<close>. The programs themselves, compiled by cel-go, are
  functions from an activation to a result and a cost; durations are left out.
\<close>

section \<open>Values, errors, expressions\<close>

datatype cel_value = CelBool bool | CelString string | CelNull | CelOther string

text \<open>An error of type \<open>*cel.Error\<close>, with its type and detail, or any other.\<close>

datatype filter_error = CelError string string | OtherError go_error

fun filter_error_text :: "filter_error \<Rightarrow> string" where
  "filter_error_text (CelError ty detail) = detail"
| "filter_error_text (OtherError e) = error_text e"

definition ErrorTypeInvalid :: string where "ErrorTypeInvalid = ''RuleInvalid''"
definition ErrorTypeInternal :: string where "ErrorTypeInternal = ''InternalError''"

record validationCondition =
  vc_Expression :: string
  vc_Message :: string
  vc_Reason :: "string option"

record auditAnnotationCondition =
  ac_Key :: string
  ac_ValueExpression :: string

datatype expressionAccessor =
    ValidationAccessor validationCondition
  | AuditAnnotationAccessor auditAnnotationCondition
  | MessageAccessor string
  | MatchAccessor matchCondition

fun GetExpression :: "expressionAccessor \<Rightarrow> string" where
  "GetExpression (ValidationAccessor v) = vc_Expression v"
| "GetExpression (AuditAnnotationAccessor v) = ac_ValueExpression v"
| "GetExpression (MessageAccessor m) = m"
| "GetExpression (MatchAccessor c) = mc_Expression c"

text \<open>The verb \<open>%T\<close>.\<close>

fun accessor_type :: "expressionAccessor \<Rightarrow> string" where
  "accessor_type (ValidationAccessor v) = ''*validatingadmissionpolicy.ValidationCondition''"
| "accessor_type (AuditAnnotationAccessor v) = ''*validatingadmissionpolicy.AuditAnnotationCondition''"
| "accessor_type (MessageAccessor m) = ''*validatingadmissionpolicy.MessageExpressionCondition''"
| "accessor_type (MatchAccessor c) = ''*matchconditions.MatchCondition''"

section \<open>The filter\<close>

text \<open>The request as \<open>NewVersionedAttributes\<close> hands it on, and the variables of an expression.\<close>

record 'obj versionedAttributes =
  vat_Attributes :: "'obj attributes"
  vat_VersionedObject :: "'obj option"
  vat_VersionedOldObject :: "'obj option"
  vat_VersionedKind :: gvk

record ('obj, 'u) activation =
  act_object :: "'u option"
  act_oldObject :: "'u option"
  act_params :: "'u option"
  act_request :: 'u
  act_authorizer :: "'obj attributes option"

text \<open>Conversion to unstructured data; it may fail.\<close>

record ('obj, 'u) cel_lib =
  cl_ToUnstructured :: "'obj \<Rightarrow> go_error + 'u"
  cl_requestToUnstructured :: "'obj attributes \<Rightarrow> go_error + 'u"

text \<open>
  A compiled expression; a missing accessor is a placeholder. A program gives its value or an
  error, and its details: none, or the cost if it is known, a \<open>uint64\<close>.
\<close>

type_synonym ('obj, 'u) program = "('obj, 'u) activation \<Rightarrow> (string + cel_value) \<times> nat option option"

record ('obj, 'u) compilationResult =
  cp_ExpressionAccessor :: "expressionAccessor option"
  cp_Error :: "string option"
  cp_Program :: "('obj, 'u) program option"

type_synonym ('obj, 'u) filter = "('obj, 'u) compilationResult list"

record evaluationResult =
  er_ExpressionAccessor :: "expressionAccessor option"
  er_EvalResult :: "cel_value option"
  er_Error :: "filter_error option"

definition no_evaluation :: evaluationResult where
  "no_evaluation = \<lparr>er_ExpressionAccessor = None, er_EvalResult = None, er_Error = None\<rparr>"

definition objectToResolveVal :: "('obj, 'u) cel_lib \<Rightarrow> 'obj option \<Rightarrow> go_error + 'u option" where
  "objectToResolveVal lib r =
     (case r of
        None \<Rightarrow> Inr None
      | Some ob \<Rightarrow> (case cl_ToUnstructured lib ob of Inl err \<Rightarrow> Inl err | Inr u \<Rightarrow> Inr (Some u)))"

definition new_activation ::
  "('obj, 'u) cel_lib \<Rightarrow> 'obj versionedAttributes \<Rightarrow> 'obj option \<Rightarrow> bool \<Rightarrow> go_error + ('obj, 'u) activation" where
  "new_activation lib va params hasAuthorizer =
     (case objectToResolveVal lib (vat_VersionedOldObject va) of
        Inl err \<Rightarrow> Inl err
      | Inr oldObjectVal \<Rightarrow>
     (case objectToResolveVal lib (vat_VersionedObject va) of
        Inl err \<Rightarrow> Inl err
      | Inr objectVal \<Rightarrow>
     (case objectToResolveVal lib params of
        Inl err \<Rightarrow> Inl err
      | Inr paramsVal \<Rightarrow>
     (case cl_requestToUnstructured lib (vat_Attributes va) of
        Inl err \<Rightarrow> Inl err
      | Inr requestVal \<Rightarrow>
          Inr \<lparr>act_object = objectVal, act_oldObject = oldObjectVal, act_params = paramsVal,
            act_request = requestVal,
            act_authorizer = (if hasAuthorizer then Some (vat_Attributes va) else None)\<rparr>))))"

definition MaxInt64 :: int where "MaxInt64 = 2 ^ 63 - 1"

definition out_of_budget :: string where
  "out_of_budget = ''validation failed due to running out of cost budget''"

definition no_cost :: "string \<Rightarrow> expressionAccessor \<Rightarrow> filter_error" where
  "no_cost ty e = CelError ty (''runtime cost could not be calculated for expression: '' @ GetExpression e @
     '', no further expression will be run'')"

text \<open>The loop over the expressions; the left value ends it with an error.\<close>

fun eval_loop ::
  "('obj, 'u) filter \<Rightarrow> ('obj, 'u) activation \<Rightarrow> int \<Rightarrow> filter_error + evaluationResult list \<times> int" where
  "eval_loop [] act remainingBudget = Inr ([], remainingBudget)"
| "eval_loop (c # cs) act remainingBudget =
     (case (case cp_ExpressionAccessor c of
              None \<Rightarrow> Inr (no_evaluation, remainingBudget)
            | Some e \<Rightarrow>
                (case cp_Error c of
                   Some err \<Rightarrow>
                     Inr (no_evaluation\<lparr>er_ExpressionAccessor := Some e,
                            er_Error := Some (CelError ErrorTypeInvalid (''compilation error: '' @ err))\<rparr>, remainingBudget)
                 | None \<Rightarrow>
                     (case cp_Program c of
                        None \<Rightarrow>
                          Inr (no_evaluation\<lparr>er_ExpressionAccessor := Some e,
                            er_Error := Some (CelError ErrorTypeInternal ''unexpected internal error compiling expression'')\<rparr>,
                            remainingBudget)
                      | Some prog \<Rightarrow>
                          (case prog act of
                             (r, None) \<Rightarrow> Inl (no_cost ErrorTypeInternal e)
                           | (r, Some None) \<Rightarrow> Inl (no_cost ErrorTypeInvalid e)
                           | (r, Some (Some rtCost)) \<Rightarrow>
                               if int rtCost > MaxInt64 \<or> int rtCost > remainingBudget
                               then Inl (CelError ErrorTypeInvalid (out_of_budget @ '', no further validation rules will be run''))
                               else
                                 (case r of
                                    Inl err \<Rightarrow>
                                      Inr (no_evaluation\<lparr>er_ExpressionAccessor := Some e,
                                        er_Error := Some (CelError ErrorTypeInvalid
                                          (''expression '' @ [CHR 0x27] @ GetExpression e @ [CHR 0x27] @ '' resulted in error: '' @ err))\<rparr>,
                                        remainingBudget - int rtCost)
                                  | Inr v \<Rightarrow>
                                      Inr (no_evaluation\<lparr>er_ExpressionAccessor := Some e, er_EvalResult := Some v\<rparr>,
                                        remainingBudget - int rtCost))))))
      of Inl err \<Rightarrow> Inl err
       | Inr (r, budget) \<Rightarrow>
           (case eval_loop cs act budget of
              Inl err \<Rightarrow> Inl err
            | Inr (rs, budget') \<Rightarrow> Inr (r # rs, budget')))"

definition ForInput ::
  "('obj, 'u) cel_lib \<Rightarrow> ('obj, 'u) filter \<Rightarrow> 'obj versionedAttributes \<Rightarrow> 'obj option \<Rightarrow> bool \<Rightarrow> int
   \<Rightarrow> evaluationResult list \<times> int \<times> filter_error option" where
  "ForInput lib f va params hasAuthorizer runtimeCELCostBudget =
     (case new_activation lib va params hasAuthorizer of
        Inl err \<Rightarrow> ([], - 1, Some (OtherError err))
      | Inr act \<Rightarrow>
          (case eval_loop f act runtimeCELCostBudget of
             Inl err \<Rightarrow> ([], - 1, Some err)
           | Inr (evaluations, remainingBudget) \<Rightarrow> (evaluations, remainingBudget, None)))"

section \<open>Match conditions\<close>

definition RuntimeCELCostBudget :: int where "RuntimeCELCostBudget = 10000000"
definition RuntimeCELCostBudgetMatchConditions :: int where "RuntimeCELCostBudgetMatchConditions = 2500000"

record matchResult =
  mt_Matches :: bool
  mt_Error :: "go_error option"
  mt_FailedConditionName :: string

definition match_result :: "bool \<Rightarrow> matchResult" where
  "match_result b = \<lparr>mt_Matches = b, mt_Error = None, mt_FailedConditionName = []\<rparr>"

text \<open>
  \<open>matchconditions.NewMatcher\<close>: the failure policy defaults to \<open>Fail\<close>. Of the authorizer it only
  matters here whether there is one.
\<close>

record ('obj, 'u) condition_matcher =
  cm_filter :: "('obj, 'u) filter"
  cm_authorizer :: bool
  cm_failPolicy :: FailurePolicyType

definition NewConditionMatcher ::
  "('obj, 'u) filter \<Rightarrow> bool \<Rightarrow> FailurePolicyType option \<Rightarrow> ('obj, 'u) condition_matcher" where
  "NewConditionMatcher f authz failPolicy =
     \<lparr>cm_filter = f, cm_authorizer = authz, cm_failPolicy = (case failPolicy of None \<Rightarrow> Fail | Some p \<Rightarrow> p)\<rparr>"

text \<open>The loop: the left value is the result of a condition that is false.\<close>

fun match_loop :: "evaluationResult list \<Rightarrow> string list \<Rightarrow> matchResult + string list" where
  "match_loop [] errorList = Inr errorList"
| "match_loop (r # rs) errorList =
     (case er_ExpressionAccessor r of
        Some (MatchAccessor matchCond) \<Rightarrow>
          (let errorList' = errorList @ (case er_Error r of None \<Rightarrow> [] | Some err \<Rightarrow> [filter_error_text err]) in
           if er_EvalResult r = Some (CelBool False)
           then Inl \<lparr>mt_Matches = False, mt_Error = None, mt_FailedConditionName = mc_Name matchCond\<rparr>
           else match_loop rs errorList')
      | _ \<Rightarrow> match_loop rs (errorList @ [''internal error converting ExpressionAccessor to MatchCondition'']))"

definition condition_Match ::
  "('obj, 'u) cel_lib \<Rightarrow> ('obj, 'u) condition_matcher \<Rightarrow> 'obj versionedAttributes \<Rightarrow> 'obj option \<Rightarrow> matchResult" where
  "condition_Match lib m va params =
     (let (evalResults, _, err) = ForInput lib (cm_filter m) va params (cm_authorizer m) RuntimeCELCostBudgetMatchConditions in
      if err \<noteq> None \<and> cm_failPolicy m = Fail
      then (match_result False)\<lparr>mt_Error := map_option (\<lambda>e. Plain (filter_error_text e)) err\<rparr>
      else if err \<noteq> None \<and> cm_failPolicy m = Ignore then match_result False
      else
        (case match_loop evalResults [] of
           Inl result \<Rightarrow> result
         | Inr errorList \<Rightarrow>
             if length errorList > 0 \<and> cm_failPolicy m = Fail
             then (match_result False)\<lparr>mt_Error := NewAggregate errorList\<rparr>
             else if length errorList > 0 \<and> cm_failPolicy m = Ignore then match_result False
             else match_result True))"

section \<open>Decisions\<close>

type_synonym policyDecisionAction = string
type_synonym policyDecisionEvaluation = string

definition ActionAdmit :: policyDecisionAction where "ActionAdmit = ''admit''"
definition ActionDeny :: policyDecisionAction where "ActionDeny = ''deny''"
definition EvalAdmit :: policyDecisionEvaluation where "EvalAdmit = ''admit''"
definition EvalError :: policyDecisionEvaluation where "EvalError = ''error''"

record policyDecision =
  dc_Action :: policyDecisionAction
  dc_Evaluation :: policyDecisionEvaluation
  dc_Message :: string
  dc_Reason :: string

definition AuditAnnotationActionPublish :: string where "AuditAnnotationActionPublish = ''publish''"
definition AuditAnnotationActionError :: string where "AuditAnnotationActionError = ''error''"
definition AuditAnnotationActionExclude :: string where "AuditAnnotationActionExclude = ''exclude''"

record policyAuditAnnotation =
  an_Key :: string
  an_Value :: string
  an_Action :: string
  an_Error :: string

lemmas decision_strings = ActionAdmit_def ActionDeny_def EvalAdmit_def EvalError_def
  AuditAnnotationActionPublish_def AuditAnnotationActionError_def AuditAnnotationActionExclude_def

definition StatusReasonInvalid :: string where "StatusReasonInvalid = ''Invalid''"

definition reasonToCode :: "string \<Rightarrow> int" where
  "reasonToCode r =
     (if r = ''Forbidden'' then 403 else if r = ''Unauthorized'' then 401
      else if r = ''RequestEntityTooLarge'' then 413 else if r = ''Invalid'' then 422 else 422)"

record validateResult =
  vr_Decisions :: "policyDecision list"
  vr_AuditAnnotations :: "policyAuditAnnotation list"

section \<open>The validator\<close>

record ('obj, 'u) cel_validator =
  vd_celMatcher :: "('obj, 'u) condition_matcher option"
  vd_validationFilter :: "('obj, 'u) filter"
  vd_auditAnnotationFilter :: "('obj, 'u) filter"
  vd_messageFilter :: "('obj, 'u) filter"
  vd_failPolicy :: "FailurePolicyType option"
  vd_authorizer :: bool

definition NewValidator ::
  "('obj, 'u) filter \<Rightarrow> ('obj, 'u) condition_matcher option \<Rightarrow> ('obj, 'u) filter \<Rightarrow> ('obj, 'u) filter
   \<Rightarrow> FailurePolicyType option \<Rightarrow> bool \<Rightarrow> ('obj, 'u) cel_validator" where
  "NewValidator validationFilter celMatcher auditAnnotationFilter messageFilter failPolicy authz =
     \<lparr>vd_celMatcher = celMatcher, vd_validationFilter = validationFilter,
      vd_auditAnnotationFilter = auditAnnotationFilter, vd_messageFilter = messageFilter,
      vd_failPolicy = failPolicy, vd_authorizer = authz\<rparr>"

definition policyDecisionActionForError :: "FailurePolicyType \<Rightarrow> policyDecisionAction" where
  "policyDecisionActionForError f = (if f = Ignore then ActionAdmit else ActionDeny)"

definition auditAnnotationEvaluationForError :: "FailurePolicyType \<Rightarrow> string" where
  "auditAnnotationEvaluationForError f =
     (if f = Ignore then AuditAnnotationActionExclude else AuditAnnotationActionError)"

definition error_decision :: "FailurePolicyType \<Rightarrow> string \<Rightarrow> policyDecision" where
  "error_decision f msg =
     \<lparr>dc_Action = policyDecisionActionForError f, dc_Evaluation = EvalError, dc_Message = msg, dc_Reason = []\<rparr>"

text \<open>\<open>strings.TrimSpace\<close>, for the white space of ASCII.\<close>

definition is_space :: "char \<Rightarrow> bool" where
  "is_space c \<longleftrightarrow> c \<in> {CHR 0x09, CHR 0x0A, CHR 0x0B, CHR 0x0C, CHR 0x0D, CHR '' ''}"

definition TrimSpace :: "string \<Rightarrow> string" where
  "TrimSpace s = rev (dropWhile is_space (rev (dropWhile is_space s)))"

definition MaxEvaluatedMessageExpressionSizeBytes :: nat where
  "MaxEvaluatedMessageExpressionSizeBytes = 5 * 1024"

text \<open>The message of a failed validation: its message expression, its message, or its expression.\<close>

definition failure_message :: "validationCondition \<Rightarrow> evaluationResult option \<Rightarrow> string" where
  "failure_message v messageResult =
     (let evaluated =
            (case messageResult of
               None \<Rightarrow> []
             | Some r \<Rightarrow>
                 (case (er_Error r, er_EvalResult r) of
                    (None, Some (CelString s)) \<Rightarrow>
                      (let m = TrimSpace s;
                           m = (if length m > MaxEvaluatedMessageExpressionSizeBytes then [] else m)
                       in if CHR 0x0A \<in> set m then [] else m)
                  | _ \<Rightarrow> []));
          message = (if evaluated = [] \<and> length (vc_Message v) > 0 then TrimSpace (vc_Message v) else evaluated)
      in if message = [] then ''failed expression: '' @ TrimSpace (vc_Expression v) else message)"

text \<open>An error of the message filter that counts against every decision.\<close>

definition fatal_message_error :: "filter_error option \<Rightarrow> bool" where
  "fatal_message_error err =
     (case err of
        Some (CelError ty detail) \<Rightarrow> ty = ErrorTypeInternal \<or> ty = ErrorTypeInvalid \<and> prefix out_of_budget detail
      | _ \<Rightarrow> False)"

definition decide ::
  "FailurePolicyType \<Rightarrow> filter_error option \<Rightarrow> evaluationResult option \<Rightarrow> evaluationResult \<Rightarrow> policyDecision" where
  "decide f err messageResult evalResult =
     (case er_ExpressionAccessor evalResult of
        Some (ValidationAccessor v) \<Rightarrow>
          (case er_Error evalResult of
             Some e \<Rightarrow> error_decision f (filter_error_text e)
           | None \<Rightarrow>
               if fatal_message_error err
               then error_decision f (''failed messageExpression: '' @
                      (case err of None \<Rightarrow> [] | Some e \<Rightarrow> filter_error_text e))
               else if er_EvalResult evalResult \<noteq> Some (CelBool True)
               then \<lparr>dc_Action = ActionDeny, dc_Evaluation = [], dc_Message = failure_message v messageResult,
                     dc_Reason = (case vc_Reason v of None \<Rightarrow> StatusReasonInvalid | Some r \<Rightarrow> r)\<rparr>
               else \<lparr>dc_Action = ActionAdmit, dc_Evaluation = EvalAdmit, dc_Message = [], dc_Reason = []\<rparr>)
      | _ \<Rightarrow> error_decision f ''Invalid type sent to validator, expected ValidationCondition'')"

text \<open>The loop over the results; \<open>messageResults\<close> may be shorter.\<close>

fun decide_loop ::
  "FailurePolicyType \<Rightarrow> filter_error option \<Rightarrow> evaluationResult list \<Rightarrow> evaluationResult list \<Rightarrow> policyDecision list" where
  "decide_loop f err messageResults [] = []"
| "decide_loop f err [] (r # rs) = decide f err None r # decide_loop f err [] rs"
| "decide_loop f err (m # ms) (r # rs) = decide f err (Some m) r # decide_loop f err ms rs"

definition no_annotation :: policyAuditAnnotation where
  "no_annotation = \<lparr>an_Key = [], an_Value = [], an_Action = [], an_Error = []\<rparr>"

fun cel_type :: "cel_value option \<Rightarrow> string" where
  "cel_type (Some (CelBool b)) = ''bool''"
| "cel_type (Some (CelString s)) = ''string''"
| "cel_type (Some CelNull) = ''null_type''"
| "cel_type (Some (CelOther t)) = t"
| "cel_type None = []"

definition audit_annotation :: "FailurePolicyType \<Rightarrow> evaluationResult \<Rightarrow> policyAuditAnnotation" where
  "audit_annotation f evalResult =
     (case er_ExpressionAccessor evalResult of
        None \<Rightarrow> no_annotation
      | Some (AuditAnnotationAccessor v) \<Rightarrow>
          (let r = no_annotation\<lparr>an_Key := ac_Key v\<rparr> in
           case er_Error evalResult of
             Some e \<Rightarrow> r\<lparr>an_Action := auditAnnotationEvaluationForError f, an_Error := filter_error_text e\<rparr>
           | None \<Rightarrow>
               (case er_EvalResult evalResult of
                  Some (CelString s) \<Rightarrow>
                    (let value = TrimSpace s in
                     if length value = 0 then r\<lparr>an_Action := AuditAnnotationActionExclude\<rparr>
                     else r\<lparr>an_Action := AuditAnnotationActionPublish, an_Value := value\<rparr>)
                | Some CelNull \<Rightarrow> r\<lparr>an_Action := AuditAnnotationActionExclude\<rparr>
                | other \<Rightarrow>
                    r\<lparr>an_Action := AuditAnnotationActionError,
                      an_Error := ''valueExpression '' @ [CHR 0x27] @ ac_ValueExpression v @ [CHR 0x27] @
                        '' resulted in unsupported return type: '' @ cel_type other @
                        ''. Return type must be either string or null.''\<rparr>))
      | Some e \<Rightarrow>
          no_annotation\<lparr>an_Action := auditAnnotationEvaluationForError f,
            an_Error := ''Invalid type sent to validator, expected AuditAnnotationCondition but got '' @ accessor_type e\<rparr>)"

definition validator_Validate ::
  "('obj, 'u) cel_lib \<Rightarrow> ('obj, 'u) cel_validator \<Rightarrow> 'obj versionedAttributes \<Rightarrow> 'obj option \<Rightarrow> int \<Rightarrow> validateResult" where
  "validator_Validate lib v versionedAttr versionedParams runtimeCELCostBudget =
     (let f = (case vd_failPolicy v of None \<Rightarrow> Fail | Some p \<Rightarrow> p);
          go = (let (evalResults, remainingBudget, err) =
                      ForInput lib (vd_validationFilter v) versionedAttr versionedParams (vd_authorizer v) runtimeCELCostBudget in
                case err of
                  Some e \<Rightarrow> \<lparr>vr_Decisions = [error_decision f (filter_error_text e)], vr_AuditAnnotations = []\<rparr>
                | None \<Rightarrow>
               (let (messageResults, _, err) =
                      ForInput lib (vd_messageFilter v) versionedAttr versionedParams False remainingBudget;
                    decisions = decide_loop f err messageResults evalResults;
                    (auditAnnotationEvalResults, _, err) =
                      ForInput lib (vd_auditAnnotationFilter v) versionedAttr versionedParams False runtimeCELCostBudget in
                case err of
                  Some e \<Rightarrow> \<lparr>vr_Decisions = [error_decision f (filter_error_text e)], vr_AuditAnnotations = []\<rparr>
                | None \<Rightarrow>
                    \<lparr>vr_Decisions = decisions,
                     vr_AuditAnnotations = map (audit_annotation f) auditAnnotationEvalResults\<rparr>)) in
      case vd_celMatcher v of
        None \<Rightarrow> go
      | Some m \<Rightarrow>
          (let matchResults = condition_Match lib m versionedAttr versionedParams in
           case mt_Error matchResults of
             Some e \<Rightarrow> \<lparr>vr_Decisions = [error_decision f (error_text e)], vr_AuditAnnotations = []\<rparr>
           | None \<Rightarrow>
               if \<not> mt_Matches matchResults then \<lparr>vr_Decisions = [], vr_AuditAnnotations = []\<rparr>
               else go))"

section \<open>The budget\<close>

text \<open>The cost of the programs a filter runs.\<close>

definition step_cost :: "('obj, 'u) activation \<Rightarrow> ('obj, 'u) compilationResult \<Rightarrow> int" where
  "step_cost act c =
     (case (cp_ExpressionAccessor c, cp_Error c, cp_Program c) of
        (Some e, None, Some prog) \<Rightarrow> (case snd (prog act) of Some (Some n) \<Rightarrow> int n | _ \<Rightarrow> 0)
      | _ \<Rightarrow> 0)"

lemma eval_loop_Cons:
  "eval_loop (c # cs) act b = Inr (rs, b') \<Longrightarrow>
     \<exists>r rs'. rs = r # rs' \<and> step_cost act c \<le> b \<and> eval_loop cs act (b - step_cost act c) = Inr (rs', b') \<and>
       er_ExpressionAccessor r = cp_ExpressionAccessor c" if "0 \<le> b" for b :: int
  using that by (auto simp: step_cost_def no_evaluation_def split: option.splits sum.splits prod.splits if_splits)

lemma eval_loop_budget:
  "eval_loop f act b = Inr (rs, b') \<Longrightarrow> 0 \<le> b \<Longrightarrow>
     0 \<le> b' \<and> b' = b - sum_list (map (step_cost act) f) \<and>
     map er_ExpressionAccessor rs = map cp_ExpressionAccessor f"
proof (induction f arbitrary: b rs)
  case (Cons c cs)
  from eval_loop_Cons [OF Cons.prems(2,1)] obtain r rs' where
    r: "rs = r # rs'" "step_cost act c \<le> b" "eval_loop cs act (b - step_cost act c) = Inr (rs', b')"
      "er_ExpressionAccessor r = cp_ExpressionAccessor c" by blast
  then show ?case using Cons.IH [OF r(3)] by simp
qed simp

text \<open>A program that ends the loop: it reports no cost, or one that is more than what is left.\<close>

definition breaks_budget :: "('obj, 'u) activation \<Rightarrow> int \<Rightarrow> ('obj, 'u) compilationResult \<Rightarrow> bool" where
  "breaks_budget act left c \<longleftrightarrow>
     (case (cp_ExpressionAccessor c, cp_Error c, cp_Program c) of
        (Some e, None, Some prog) \<Rightarrow>
          (case snd (prog act) of Some (Some n) \<Rightarrow> int n > MaxInt64 \<or> int n > left | _ \<Rightarrow> True)
      | _ \<Rightarrow> False)"

lemma eval_loop_step:
  "eval_loop (c # cs) act b = Inl err \<Longrightarrow>
     breaks_budget act b c \<or> eval_loop cs act (b - step_cost act c) = Inl err"
  by (auto simp: step_cost_def breaks_budget_def split: option.splits sum.splits prod.splits if_splits)

lemma eval_loop_error:
  "eval_loop f act b = Inl err \<Longrightarrow>
     \<exists>before c after. f = before @ c # after \<and> breaks_budget act (b - sum_list (map (step_cost act) before)) c"
proof (induction f arbitrary: b)
  case (Cons c cs)
  from eval_loop_step [OF Cons.prems] show ?case
  proof
    assume "breaks_budget act b c"
    then show ?thesis by (intro exI [of _ "[]"]) simp
  next
    assume "eval_loop cs act (b - step_cost act c) = Inl err"
    from Cons.IH [OF this] obtain before d after where
      "cs = before @ d # after" "breaks_budget act (b - step_cost act c - sum_list (map (step_cost act) before)) d" by blast
    then show ?thesis by (intro exI [of _ "c # before"]) (simp add: algebra_simps)
  qed
qed simp

lemma ForInput_accessors:
  "ForInput lib f va params auth b = (rs, b', None) \<Longrightarrow> 0 \<le> b \<Longrightarrow>
     0 \<le> b' \<and> map er_ExpressionAccessor rs = map cp_ExpressionAccessor f"
  using eval_loop_budget by (fastforce simp: ForInput_def split: sum.splits)

section \<open>What a validator decides\<close>

text \<open>Filters made of expressions of one kind, as the controller compiles them.\<close>

definition validation_filter :: "('obj, 'u) filter \<Rightarrow> bool" where
  "validation_filter f \<longleftrightarrow> list_all (\<lambda>c. \<exists>v. cp_ExpressionAccessor c = Some (ValidationAccessor v)) f"

definition audit_filter :: "('obj, 'u) filter \<Rightarrow> bool" where
  "audit_filter f \<longleftrightarrow> list_all (\<lambda>c. \<exists>v. cp_ExpressionAccessor c = Some (AuditAnnotationAccessor v)) f"

lemma validation_results:
  "ForInput lib f va params auth b = (rs, b', None) \<Longrightarrow> 0 \<le> b \<Longrightarrow> validation_filter f \<Longrightarrow>
     r \<in> set rs \<Longrightarrow> \<exists>v. er_ExpressionAccessor r = Some (ValidationAccessor v)"
  using ForInput_accessors [of lib f va params auth b rs b']
  by (auto simp: validation_filter_def list_all_iff) (metis image_iff image_set)

definition fail_policy :: "('obj, 'u) cel_validator \<Rightarrow> FailurePolicyType" where
  "fail_policy v = (case vd_failPolicy v of None \<Rightarrow> Fail | Some p \<Rightarrow> p)"

lemma admit_neq_deny: "ActionAdmit \<noteq> ActionDeny"
  by (simp add: decision_strings)

lemma decide_action: "dc_Action (decide f err m r) \<in> {ActionAdmit, ActionDeny}"
  by (auto simp: decide_def error_decision_def policyDecisionActionForError_def decision_strings
      split: option.splits expressionAccessor.splits)

lemma decide_loop_elem:
  "d \<in> set (decide_loop f err ms rs) \<Longrightarrow> \<exists>m. \<exists>r \<in> set rs. d = decide f err m r"
  by (induction f err ms rs rule: decide_loop.induct) auto

lemma decide_loop_hit:
  "r \<in> set rs \<Longrightarrow> \<exists>m. decide f err m r \<in> set (decide_loop f err ms rs)"
  by (induction f err ms rs rule: decide_loop.induct) auto

lemma error_decision_actions:
  "dc_Action (error_decision f msg) \<in> {ActionAdmit, ActionDeny}"
  "dc_Action (error_decision f msg) = ActionDeny \<longleftrightarrow> f \<noteq> Ignore"
  "dc_Evaluation (error_decision f msg) = EvalError"
  by (auto simp: error_decision_def policyDecisionActionForError_def decision_strings)

text \<open>A result that denies, given the failure policy and the error of the message filter.\<close>

definition denies :: "FailurePolicyType \<Rightarrow> filter_error option \<Rightarrow> evaluationResult \<Rightarrow> bool" where
  "denies f err r \<longleftrightarrow>
     (if er_Error r \<noteq> None \<or> fatal_message_error err then f \<noteq> Ignore
      else er_EvalResult r \<noteq> Some (CelBool True))"

lemma decide_denies:
  "er_ExpressionAccessor r = Some (ValidationAccessor v) \<Longrightarrow>
     dc_Action (decide f err m r) = ActionDeny \<longleftrightarrow> denies f err r"
  using admit_neq_deny by (auto simp: decide_def denies_def error_decision_actions split: option.splits)

lemma decide_loop_denies:
  assumes "\<And>r. r \<in> set rs \<Longrightarrow> \<exists>v. er_ExpressionAccessor r = Some (ValidationAccessor v)"
  shows "(\<exists>d \<in> set (decide_loop f err ms rs). dc_Action d = ActionDeny) \<longleftrightarrow> (\<exists>r \<in> set rs. denies f err r)"
proof
  assume "\<exists>d \<in> set (decide_loop f err ms rs). dc_Action d = ActionDeny"
  then obtain m r where r: "r \<in> set rs" "dc_Action (decide f err m r) = ActionDeny"
    using decide_loop_elem by metis
  with assms decide_denies show "\<exists>r \<in> set rs. denies f err r" by metis
next
  assume "\<exists>r \<in> set rs. denies f err r"
  then obtain r where r: "r \<in> set rs" "denies f err r" ..
  from decide_loop_hit [OF r(1)] obtain m where "decide f err m r \<in> set (decide_loop f err ms rs)" ..
  with assms [OF r(1)] decide_denies r(2) show "\<exists>d \<in> set (decide_loop f err ms rs). dc_Action d = ActionDeny" by metis
qed

text \<open>The verdict, without the loops. Match conditions: an error, or whether they hold.\<close>

definition conditions ::
  "('obj, 'u) cel_lib \<Rightarrow> ('obj, 'u) cel_validator \<Rightarrow> 'obj versionedAttributes \<Rightarrow> 'obj option \<Rightarrow> go_error + bool" where
  "conditions lib v va params =
     (case vd_celMatcher v of
        None \<Rightarrow> Inr True
      | Some m \<Rightarrow>
          (case mt_Error (condition_Match lib m va params) of
             Some e \<Rightarrow> Inl e
           | None \<Rightarrow> Inr (mt_Matches (condition_Match lib m va params))))"

definition validator_denies ::
  "('obj, 'u) cel_lib \<Rightarrow> ('obj, 'u) cel_validator \<Rightarrow> 'obj versionedAttributes \<Rightarrow> 'obj option \<Rightarrow> int \<Rightarrow> bool" where
  "validator_denies lib v va params b =
     (case conditions lib v va params of
        Inl err \<Rightarrow> fail_policy v \<noteq> Ignore
      | Inr False \<Rightarrow> False
      | Inr True \<Rightarrow>
          (case ForInput lib (vd_validationFilter v) va params (vd_authorizer v) b of
             (_, _, Some e) \<Rightarrow> fail_policy v \<noteq> Ignore
           | (rs, b', None) \<Rightarrow>
               if snd (snd (ForInput lib (vd_auditAnnotationFilter v) va params False b)) \<noteq> None
               then fail_policy v \<noteq> Ignore
               else (\<exists>r \<in> set rs. denies (fail_policy v)
                       (snd (snd (ForInput lib (vd_messageFilter v) va params False b'))) r)))"

lemma validator_denies_exactly:
  assumes "validation_filter (vd_validationFilter v)" and "0 \<le> b"
  shows "(\<exists>d \<in> set (vr_Decisions (validator_Validate lib v va params b)). dc_Action d = ActionDeny)
    \<longleftrightarrow> validator_denies lib v va params b"
proof -
  obtain rs b1 e1 where rs: "ForInput lib (vd_validationFilter v) va params (vd_authorizer v) b = (rs, b1, e1)"
    by (rule prod_cases3)
  obtain ms b2 e2 where ms: "ForInput lib (vd_messageFilter v) va params False b1 = (ms, b2, e2)"
    by (rule prod_cases3)
  obtain aus b3 e3 where aus: "ForInput lib (vd_auditAnnotationFilter v) va params False b = (aus, b3, e3)"
    by (rule prod_cases3)
  have loop: "e1 = None \<Longrightarrow> (\<exists>d \<in> set (decide_loop (fail_policy v) e2 ms rs). dc_Action d = ActionDeny)
      \<longleftrightarrow> (\<exists>r \<in> set rs. denies (fail_policy v) e2 r)"
    using validation_results [OF _ assms(2,1)] rs by (intro decide_loop_denies) blast
  show ?thesis
    using loop
    by (cases e1; cases e3)
      (auto simp: validator_Validate_def validator_denies_def conditions_def Let_def rs ms aus error_decision_actions
        fail_policy_def [symmetric] split: option.splits bool.splits)
qed

lemma validator_actions:
  "d \<in> set (vr_Decisions (validator_Validate lib v va params b)) \<Longrightarrow> dc_Action d \<in> {ActionAdmit, ActionDeny}"
  using decide_action error_decision_actions(1)
  by (auto simp: validator_Validate_def Let_def dest!: decide_loop_elem split: option.splits prod.splits if_splits)

lemma audit_annotation_action:
  "er_ExpressionAccessor r = Some (AuditAnnotationAccessor v) \<Longrightarrow>
     an_Action (audit_annotation f r) \<in> {AuditAnnotationActionPublish, AuditAnnotationActionError, AuditAnnotationActionExclude}"
  by (auto simp: audit_annotation_def auditAnnotationEvaluationForError_def no_annotation_def Let_def
      split: option.splits cel_value.splits)

lemma validator_audit_actions:
  assumes "audit_filter (vd_auditAnnotationFilter v)" and "0 \<le> b"
    and "an \<in> set (vr_AuditAnnotations (validator_Validate lib v va params b))"
  shows "an_Action an \<in> {AuditAnnotationActionPublish, AuditAnnotationActionError, AuditAnnotationActionExclude}"
proof -
  obtain rs b3 e3 where rs: "ForInput lib (vd_auditAnnotationFilter v) va params False b = (rs, b3, e3)"
    by (rule prod_cases3)
  have none: "e3 = None" and an: "an \<in> set (map (audit_annotation (fail_policy v)) rs)"
    using assms(3) by (auto simp: validator_Validate_def rs Let_def fail_policy_def [symmetric] split: option.splits prod.splits if_splits)
  have "\<forall>x \<in> set (map er_ExpressionAccessor rs). \<exists>a. x = Some (AuditAnnotationAccessor a)"
    using ForInput_accessors [OF rs [unfolded none] assms(2)] assms(1) by (auto simp: audit_filter_def list_all_iff)
  then show ?thesis using an audit_annotation_action by auto
qed

section \<open>Properties\<close>

text \<open>
  (C39) A filter stays within its cost budget. If it reports no error, then what it reports as remaining is what it was
  given less the costs of the programs it ran, and is not negative, and it returns one result per expression, for that
  expression. If it reports an error, then it returns no results at all, not even those of the expressions before,
  and the reason is that its inputs could not be converted, or a program that reported no cost or one that exceeds
  what the programs before it had left.
\<close>

theorem filter_stays_within_budget:
  assumes "ForInput lib f va params authz budget = (results, remaining, err)" and "0 \<le> budget"
  shows "case err of
      None \<Rightarrow> (\<exists>act. new_activation lib va params authz = Inr act \<and>
        remaining = budget - sum_list (map (step_cost act) f) \<and> 0 \<le> remaining \<and>
        map er_ExpressionAccessor results = map cp_ExpressionAccessor f)
    | Some e \<Rightarrow> results = [] \<and> remaining = - 1 \<and>
        ((\<exists>g. new_activation lib va params authz = Inl g \<and> e = OtherError g) \<or>
         (\<exists>act before c after. new_activation lib va params authz = Inr act \<and> f = before @ c # after \<and>
            breaks_budget act (budget - sum_list (map (step_cost act) before)) c))"
proof (cases "new_activation lib va params authz")
  case (Inl g)
  then show ?thesis using assms(1) by (auto simp: ForInput_def)
next
  case (Inr act)
  show ?thesis
  proof (cases "eval_loop f act budget")
    case (Inl e)
    then have "results = []" "remaining = - 1" "err = Some e" using assms(1) Inr by (auto simp: ForInput_def)
    with Inr eval_loop_error [OF Inl] show ?thesis by simp
  next
    case (Inr r)
    then have run: "eval_loop f act budget = Inr (results, remaining)" and "err = None"
      using assms(1) \<open>new_activation lib va params authz = Inr act\<close> by (auto simp: ForInput_def split: prod.splits)
    then show ?thesis
      using eval_loop_budget [OF run assms(2)] \<open>new_activation lib va params authz = Inr act\<close> by simp
  qed
qed

end
