(* ===== verification/Policy_Evaluator.thy ===== *)
theory Policy_Evaluator
  imports Cel_Validator
begin

text \<open>
  The policy evaluator behind the CEL plugin: \<open>celAdmissionController.Validate\<close> of the vendored
  \<open>validatingadmissionpolicy/controller.go\<close>, which asks every policy and binding that matches a
  request for its decisions, and what it leaves behind: warnings, audit annotations and the error.
  Metrics and logging are left out.
\<close>

section \<open>Policy data\<close>

record ('obj, 'u) bindingInfo =
  bi_validator :: "('obj, 'u) cel_validator option"
  bi_lastReconciledValue :: validatingAdmissionPolicyBinding

text \<open>The controller of a kind of parameters: whether its cache syncs within a second, and its lister.\<close>

record 'obj param_controller =
  pc_WaitForCacheSync :: bool
  pc_Get :: "string \<Rightarrow> go_error + 'obj"
  pc_NamespacedGet :: "string \<Rightarrow> string \<Rightarrow> go_error + 'obj"

record ('obj, 'u) policyData =
  pd_configurationError :: "go_error option"
  pd_lastReconciledValue :: validatingAdmissionPolicy
  pd_paramController :: "'obj param_controller option"
  pd_bindings :: "('obj, 'u) bindingInfo list"

record policyDecisionWithMetadata =
  dm_Decision :: policyDecision
  dm_Definition :: validatingAdmissionPolicy
  dm_Binding :: "validatingAdmissionPolicyBinding option"

abbreviation policy_name :: "validatingAdmissionPolicy \<Rightarrow> string" where
  "policy_name p \<equiv> om_name (vap_ObjectMeta p)"

abbreviation binding_name :: "validatingAdmissionPolicyBinding \<Rightarrow> string" where
  "binding_name b \<equiv> om_name (vapb_ObjectMeta b)"

text \<open>How the controller passes a failure policy on; an unknown one becomes the empty string.\<close>

definition convertv1alpha1FailurePolicyTypeTov1FailurePolicyType ::
  "FailurePolicyType option \<Rightarrow> FailurePolicyType option" where
  "convertv1alpha1FailurePolicyTypeTov1FailurePolicyType policyType =
     (case policyType of
        None \<Rightarrow> None
      | Some p \<Rightarrow> Some (if p = Fail then Fail else if p = Ignore then Ignore else []))"

section \<open>Audit annotations\<close>

text \<open>The collector: values by key, with the keys in the order of their first value.\<close>

type_synonym auditAnnotationCollector = "(string \<times> string list) list"

fun collector_add :: "string \<Rightarrow> string \<Rightarrow> auditAnnotationCollector \<Rightarrow> auditAnnotationCollector" where
  "collector_add key value [] = [(key, [value])]"
| "collector_add key value ((k, vs) # rest) =
     (if k = key then (k, if value \<in> set vs then vs else vs @ [value]) # rest
      else (k, vs) # collector_add key value rest)"

text \<open>
  The annotations published for a policy, in some order: Go ranges over the map, and
  \<open>AddAnnotation\<close> may refuse one, which is only logged.
\<close>

definition collector_publish :: "string \<Rightarrow> auditAnnotationCollector \<Rightarrow> (string \<times> string) list" where
  "collector_publish policyName c = map (\<lambda>(key, vs). (policyName @ ''/'' @ key, join_texts '', '' vs)) c"

definition maxAuditAnnotationValueLength :: nat where
  "maxAuditAnnotationValueLength = 10 * 1024"

section \<open>One binding\<close>

text \<open>
  What a request leaves behind while it is evaluated. A step goes on with a new state, returns an
  error from \<open>Validate\<close> at once, or panics.
\<close>

record eval_state =
  es_denied :: "policyDecisionWithMetadata list"
  es_warnings :: "string list"
  es_annotations :: "(string \<times> string) list"
  es_collector :: auditAnnotationCollector

datatype 'a flow = Continue 'a | ReturnError go_error 'a | Panic

text \<open>What evaluation calls: matching, conversion of objects to a kind, CEL.\<close>

record ('obj, 'u) eval_env =
  ee_match :: "'obj match_env"
  ee_cel :: "('obj, 'u) cel_lib"
  ee_ConvertToGVK :: "'obj \<Rightarrow> gvk \<Rightarrow> go_error + 'obj"
  ee_failure_json :: "nat \<Rightarrow> string \<Rightarrow> validatingAdmissionPolicyBinding \<Rightarrow> string"
  ee_accessor :: "'obj \<Rightarrow> (string \<times> string) option"

definition config_decision ::
  "string \<Rightarrow> validatingAdmissionPolicy \<Rightarrow> validatingAdmissionPolicyBinding option \<Rightarrow> policyDecisionWithMetadata" where
  "config_decision message definition0 binding =
     \<lparr>dm_Decision = \<lparr>dc_Action = ActionDeny, dc_Evaluation = [], dc_Message = message, dc_Reason = []\<rparr>,
      dm_Definition = definition0, dm_Binding = binding\<rparr>"

text \<open>The closure \<open>addConfigError\<close>: the decisions it appends.\<close>

definition config_errors ::
  "go_error \<Rightarrow> validatingAdmissionPolicy \<Rightarrow> validatingAdmissionPolicyBinding option \<Rightarrow> policyDecisionWithMetadata list" where
  "config_errors err definition0 binding =
     (let policy = (case ps_FailurePolicy (vap_Spec definition0) of None \<Rightarrow> Fail | Some p \<Rightarrow> p) in
      if policy = Ignore then []
      else if policy = Fail
      then [config_decision ((if binding = None then ''failed to configure policy: '' else ''failed to configure binding: '')
              @ error_text err) definition0 binding]
      else [config_decision (''unrecognized failure policy: '' @ [CHR 0x27] @ policy @ [CHR 0x27]) definition0 binding])"

definition addConfigError ::
  "go_error \<Rightarrow> validatingAdmissionPolicy \<Rightarrow> validatingAdmissionPolicyBinding option \<Rightarrow> eval_state \<Rightarrow> eval_state" where
  "addConfigError err definition0 binding s = s\<lparr>es_denied := es_denied s @ config_errors err definition0 binding\<rparr>"

definition paramKind_String :: "paramKind \<Rightarrow> string" where
  "paramKind_String k = ''&ParamKind{APIVersion:'' @ pk_APIVersion k @ '',Kind:'' @ pk_Kind k @ '',}''"

text \<open>\<open>NewVersionedAttributes\<close>: the old object is converted first.\<close>

definition NewVersionedAttributes ::
  "('obj, 'u) eval_env \<Rightarrow> 'obj attributes \<Rightarrow> gvk \<Rightarrow> go_error + 'obj versionedAttributes" where
  "NewVersionedAttributes env attr kind =
     (let convert = (\<lambda>x. case x of None \<Rightarrow> Inr None
            | Some ob \<Rightarrow> (case ee_ConvertToGVK env ob kind of Inl err \<Rightarrow> Inl err | Inr out \<Rightarrow> Inr (Some out))) in
      case convert (at_oldObject attr) of
        Inl err \<Rightarrow> Inl err
      | Inr old \<Rightarrow>
          (case convert (at_object attr) of
             Inl err \<Rightarrow> Inl err
           | Inr new \<Rightarrow>
               Inr \<lparr>vat_Attributes = attr, vat_VersionedObject = new, vat_VersionedOldObject = old,
                 vat_VersionedKind = kind\<rparr>))"

text \<open>The parameter of a binding: none, an object, or a configuration error.\<close>

definition lookup_param ::
  "('obj, 'u) policyData \<Rightarrow> validatingAdmissionPolicyBinding \<Rightarrow> go_error + 'obj option" where
  "lookup_param pd binding =
     (case (ps_ParamKind (vap_Spec (pd_lastReconciledValue pd)), bs_ParamRef (vapb_Spec binding)) of
        (Some paramKind, Some paramRef) \<Rightarrow>
          (case pd_paramController pd of
             None \<Rightarrow> Inl (Plain (''paramKind kind `'' @ paramKind_String paramKind @ ''` not known''))
           | Some paramController \<Rightarrow>
               if \<not> pc_WaitForCacheSync paramController
               then Inl (Plain (''paramKind kind `'' @ paramKind_String paramKind @
                      ''` not yet synced to use for admission''))
               else
                 (case (if length (pref_Namespace paramRef) = 0 then pc_Get paramController (pref_Name paramRef)
                        else pc_NamespacedGet paramController (pref_Namespace paramRef) (pref_Name paramRef)) of
                    Inl err \<Rightarrow> Inl err
                  | Inr param \<Rightarrow> Inr (Some param)))
      | _ \<Rightarrow> Inr None)"

text \<open>The actions of a binding on a decision that denies; an unknown one does nothing.\<close>

fun apply_actions ::
  "('obj, 'u) eval_env \<Rightarrow> validatingAdmissionPolicy \<Rightarrow> validatingAdmissionPolicyBinding \<Rightarrow> nat \<Rightarrow> policyDecision
   \<Rightarrow> ValidationAction list \<Rightarrow> eval_state \<Rightarrow> eval_state" where
  "apply_actions env definition0 binding i decision [] s = s"
| "apply_actions env definition0 binding i decision (action # actions) s =
     apply_actions env definition0 binding i decision actions
       (if action = Deny
        then s\<lparr>es_denied := es_denied s @
               [\<lparr>dm_Decision = decision, dm_Definition = definition0, dm_Binding = Some binding\<rparr>]\<rparr>
        else if action = Audit
        then s\<lparr>es_annotations := es_annotations s @
               [(''validation.policy.admission.k8s.io/validation_failure'', ee_failure_json env i (dc_Message decision) binding)]\<rparr>
        else if action = Warn
        then s\<lparr>es_warnings := es_warnings s @
               [''Validation failed for ValidatingAdmissionPolicy '' @ [CHR 0x27] @ policy_name definition0 @ [CHR 0x27] @
                '' with binding '' @ [CHR 0x27] @ binding_name binding @ [CHR 0x27] @ '': '' @ dc_Message decision]\<rparr>
        else s)"

fun decision_loop ::
  "('obj, 'u) eval_env \<Rightarrow> validatingAdmissionPolicy \<Rightarrow> validatingAdmissionPolicyBinding \<Rightarrow> nat \<Rightarrow> policyDecision list
   \<Rightarrow> eval_state \<Rightarrow> eval_state flow" where
  "decision_loop env definition0 binding i [] s = Continue s"
| "decision_loop env definition0 binding i (decision # ds) s =
     (if dc_Action decision = ActionAdmit then decision_loop env definition0 binding (Suc i) ds s
      else if dc_Action decision = ActionDeny
      then decision_loop env definition0 binding (Suc i) ds
             (apply_actions env definition0 binding i decision (elems (bs_ValidationActions (vapb_Spec binding))) s)
      else ReturnError (Plain (''unrecognized evaluation decision '' @ [CHR 0x27] @ dc_Action decision @ [CHR 0x27] @
             '' for ValidatingAdmissionPolicyBinding '' @ [CHR 0x27] @ binding_name binding @ [CHR 0x27] @
             '' with ValidatingAdmissionPolicy '' @ [CHR 0x27] @ policy_name definition0 @ [CHR 0x27])) s)"

definition annotation_denial ::
  "validatingAdmissionPolicy \<Rightarrow> validatingAdmissionPolicyBinding \<Rightarrow> policyAuditAnnotation \<Rightarrow> policyDecisionWithMetadata" where
  "annotation_denial definition0 binding an =
     \<lparr>dm_Decision = \<lparr>dc_Action = ActionDeny, dc_Evaluation = EvalError, dc_Message = an_Error an, dc_Reason = []\<rparr>,
      dm_Definition = definition0, dm_Binding = Some binding\<rparr>"

fun annotation_loop ::
  "validatingAdmissionPolicy \<Rightarrow> validatingAdmissionPolicyBinding \<Rightarrow> policyAuditAnnotation list
   \<Rightarrow> eval_state \<Rightarrow> eval_state flow" where
  "annotation_loop definition0 binding [] s = Continue s"
| "annotation_loop definition0 binding (an # ans) s =
     (if an_Action an = AuditAnnotationActionPublish
      then annotation_loop definition0 binding ans
             (s\<lparr>es_collector := collector_add (an_Key an)
                 (if length (an_Value an) > maxAuditAnnotationValueLength
                  then take maxAuditAnnotationValueLength (an_Value an) else an_Value an) (es_collector s)\<rparr>)
      else if an_Action an = AuditAnnotationActionError
      then annotation_loop definition0 binding ans
             (s\<lparr>es_denied := es_denied s @ [annotation_denial definition0 binding an]\<rparr>)
      else if an_Action an = AuditAnnotationActionExclude then annotation_loop definition0 binding ans s
      else ReturnError (Plain (''unsupported AuditAnnotation Action: '' @ an_Action an)) s)"

definition eval_binding ::
  "('obj, 'u) eval_env \<Rightarrow> 'obj attributes \<Rightarrow> gvk \<Rightarrow> ('obj, 'u) policyData \<Rightarrow> ('obj, 'u) bindingInfo
   \<Rightarrow> eval_state \<Rightarrow> eval_state flow" where
  "eval_binding env a matchKind pd bi s =
     (let definition0 = pd_lastReconciledValue pd; binding = bi_lastReconciledValue bi in
      case BindingMatches (ee_match env) a binding of
        None \<Rightarrow> Panic
      | Some (matches, Some err) \<Rightarrow> Continue (addConfigError err definition0 (Some binding) s)
      | Some (False, None) \<Rightarrow> Continue s
      | Some (True, None) \<Rightarrow>
     (case lookup_param pd binding of
        Inl err \<Rightarrow> Continue (addConfigError err definition0 (Some binding) s)
      | Inr param \<Rightarrow>
     (case NewVersionedAttributes env a matchKind of
        Inl err \<Rightarrow>
          Continue (addConfigError (Plain (''failed to convert object version: '' @ error_text err)) definition0 (Some binding) s)
      | Inr va \<Rightarrow>
     (case bi_validator bi of
        None \<Rightarrow> Panic
      | Some v \<Rightarrow>
          (let validationResult = validator_Validate (ee_cel env) v va param RuntimeCELCostBudget in
           case decision_loop env definition0 binding 0 (vr_Decisions validationResult) s of
             Continue s' \<Rightarrow> annotation_loop definition0 binding (vr_AuditAnnotations validationResult) s'
           | other \<Rightarrow> other)))))"

section \<open>All policies\<close>

fun eval_bindings ::
  "('obj, 'u) eval_env \<Rightarrow> 'obj attributes \<Rightarrow> gvk \<Rightarrow> ('obj, 'u) policyData \<Rightarrow> ('obj, 'u) bindingInfo list
   \<Rightarrow> eval_state \<Rightarrow> eval_state flow" where
  "eval_bindings env a matchKind pd [] s = Continue s"
| "eval_bindings env a matchKind pd (bi # bis) s =
     (case eval_binding env a matchKind pd bi s of
        Continue s' \<Rightarrow> eval_bindings env a matchKind pd bis s'
      | other \<Rightarrow> other)"

definition eval_policy ::
  "('obj, 'u) eval_env \<Rightarrow> 'obj attributes \<Rightarrow> ('obj, 'u) policyData \<Rightarrow> eval_state \<Rightarrow> eval_state flow" where
  "eval_policy env a pd s =
     (let definition0 = pd_lastReconciledValue pd in
      case DefinitionMatches (ee_match env) a definition0 of
        None \<Rightarrow> Panic
      | Some (matches, matchKind, Some err) \<Rightarrow> Continue (addConfigError err definition0 None s)
      | Some (False, matchKind, None) \<Rightarrow> Continue s
      | Some (True, matchKind, None) \<Rightarrow>
          (case pd_configurationError pd of
             Some err \<Rightarrow> Continue (addConfigError err definition0 None s)
           | None \<Rightarrow>
               (case eval_bindings env a matchKind pd (pd_bindings pd) (s\<lparr>es_collector := []\<rparr>) of
                  Continue s' \<Rightarrow>
                    Continue (s'\<lparr>es_annotations := es_annotations s' @
                      collector_publish (policy_name definition0) (es_collector s')\<rparr>)
                | other \<Rightarrow> other)))"

fun eval_policies ::
  "('obj, 'u) eval_env \<Rightarrow> 'obj attributes \<Rightarrow> ('obj, 'u) policyData list \<Rightarrow> eval_state \<Rightarrow> eval_state flow" where
  "eval_policies env a [] s = Continue s"
| "eval_policies env a (pd # pds) s =
     (case eval_policy env a pd s of
        Continue s' \<Rightarrow> eval_policies env a pds s'
      | other \<Rightarrow> other)"

definition denial_message :: "policyDecisionWithMetadata \<Rightarrow> string" where
  "denial_message d =
     ''ValidatingAdmissionPolicy '' @ [CHR 0x27] @ policy_name (dm_Definition d) @ [CHR 0x27] @
     (case dm_Binding d of
        Some b \<Rightarrow> '' with binding '' @ [CHR 0x27] @ binding_name b @ [CHR 0x27]
      | None \<Rightarrow> []) @
     '' denied request: '' @ dc_Message (dm_Decision d)"

text \<open>
  The error of the first denial: a forbidden error whose reason and code are those of the decision;
  its causes, which nothing modelled reads, are left out.
\<close>

definition denial_error ::
  "('obj \<Rightarrow> (string \<times> string) option) \<Rightarrow> 'obj attributes \<Rightarrow> policyDecisionWithMetadata \<Rightarrow> go_error" where
  "denial_error accessor a d =
     (let reason = (if length (dc_Reason (dm_Decision d)) = 0 then StatusReasonInvalid else dc_Reason (dm_Decision d)) in
      case NewForbidden accessor a (Plain (denial_message d)) of
        StatusErr st \<Rightarrow> StatusErr (st\<lparr>st_Reason := reason, st_Code := reasonToCode reason\<rparr>)
      | other \<Rightarrow> other)"

definition start_eval :: eval_state where
  "start_eval = \<lparr>es_denied = [], es_warnings = [], es_annotations = [], es_collector = []\<rparr>"

text \<open>\<open>Validate\<close> once the evaluator has synced: its result and what it left behind; \<open>None\<close> is a panic.\<close>

definition evaluator_Validate ::
  "('obj, 'u) eval_env \<Rightarrow> bool \<Rightarrow> ('obj, 'u) policyData list \<Rightarrow> 'obj attributes \<Rightarrow> (go_error option \<times> eval_state) option" where
  "evaluator_Validate env synced policyDatas a =
     (if \<not> synced then Some (Some (NewForbidden (ee_accessor env) a (Plain ''not yet ready to handle request'')), start_eval)
      else
        (case eval_policies env a policyDatas start_eval of
           Panic \<Rightarrow> None
         | ReturnError err s \<Rightarrow> Some (Some err, s)
         | Continue s \<Rightarrow>
             (case es_denied s of
                [] \<Rightarrow> Some (None, s)
              | d # ds \<Rightarrow> Some (Some (denial_error (ee_accessor env) a d), s))))"

end
