(* ===== verification/Policy_Controller.thy ===== *)
theory Policy_Controller
  imports Policy_Evaluator
begin

text \<open>
  The policy controller of the vendored \<open>validatingadmissionpolicy/controller_reconcile.go\<close>: it
  indexes the policies and bindings it is told about, runs a controller per kind of parameters,
  compiles the expressions of a policy when they are first needed, and hands the
  evaluator a snapshot. Every operation runs under the controller's mutex and is one function.
\<close>

section \<open>State\<close>

type_synonym namespacedName = "string \<times> string"

definition getNamespaceName :: "string \<Rightarrow> string \<Rightarrow> namespacedName" where
  "getNamespaceName namespace name = (namespace, name)"

record definitionInfo =
  di_configurationError :: "go_error option"
  di_lastReconciledValue :: validatingAdmissionPolicy

record 'obj paramInfo =
  pi_controller :: "'obj param_controller"
  pi_dependentDefinitions :: "namespacedName set"

text \<open>Slices and maps are lists and maps; a nil \<open>cachedPolicies\<close> is the empty list.\<close>

record ('obj, 'u) policyController =
  pcs_cachedPolicies :: "('obj, 'u) policyData list"
  pcs_paramsCRDControllers :: "paramKind \<rightharpoonup> 'obj paramInfo"
  pcs_definitionInfo :: "namespacedName \<rightharpoonup> definitionInfo"
  pcs_bindingInfos :: "namespacedName \<rightharpoonup> ('obj, 'u) bindingInfo"
  pcs_definitionsToBindings :: "namespacedName \<rightharpoonup> namespacedName set"

text \<open>
  What it calls: the comparison of specs, to which nil and empty slices are equal; the CEL
  compiler, for an expression with or without parameters and authorizer; the REST mapper; and the
  start of a controller for a kind of parameters.
\<close>

record ('obj, 'u) policy_lib =
  pl_equalDefinitionSpec :: "validatingAdmissionPolicySpec \<Rightarrow> validatingAdmissionPolicySpec \<Rightarrow> bool"
  pl_equalBindingSpec :: "validatingAdmissionPolicyBindingSpec \<Rightarrow> validatingAdmissionPolicyBindingSpec \<Rightarrow> bool"
  pl_compileProgram :: "expressionAccessor \<Rightarrow> bool \<Rightarrow> bool \<Rightarrow> string + ('obj, 'u) program"
  pl_newParamController :: "paramKind \<Rightarrow> gvr \<Rightarrow> 'obj param_controller"
  pl_authz :: bool

type_synonym rest_mapper = "gvk \<Rightarrow> go_error + gvr"

section \<open>Compiling a policy\<close>

definition CompileCELExpression ::
  "('obj, 'u) policy_lib \<Rightarrow> bool \<Rightarrow> bool \<Rightarrow> expressionAccessor \<Rightarrow> ('obj, 'u) compilationResult" where
  "CompileCELExpression lib hasParams hasAuthorizer e =
     (case pl_compileProgram lib e hasParams hasAuthorizer of
        Inl err \<Rightarrow> \<lparr>cp_ExpressionAccessor = Some e, cp_Error = Some err, cp_Program = None\<rparr>
      | Inr prog \<Rightarrow> \<lparr>cp_ExpressionAccessor = Some e, cp_Error = None, cp_Program = Some prog\<rparr>)"

definition Compile ::
  "('obj, 'u) policy_lib \<Rightarrow> bool \<Rightarrow> bool \<Rightarrow> expressionAccessor option list \<Rightarrow> ('obj, 'u) filter" where
  "Compile lib hasParams hasAuthorizer accessors =
     map (\<lambda>x. case x of
            None \<Rightarrow> \<lparr>cp_ExpressionAccessor = None, cp_Error = None, cp_Program = None\<rparr>
          | Some e \<Rightarrow> CompileCELExpression lib hasParams hasAuthorizer e) accessors"

definition convertv1alpha1Validations :: "validation list \<Rightarrow> expressionAccessor option list" where
  "convertv1alpha1Validations =
     map (\<lambda>v. Some (ValidationAccessor
            \<lparr>vc_Expression = va_Expression v, vc_Message = va_Message v, vc_Reason = va_Reason v\<rparr>))"

definition convertV1Alpha1MessageExpressions :: "validation list \<Rightarrow> expressionAccessor option list" where
  "convertV1Alpha1MessageExpressions =
     map (\<lambda>v. if va_MessageExpression v \<noteq> [] then Some (MessageAccessor (va_MessageExpression v)) else None)"

definition convertv1alpha1AuditAnnotations :: "auditAnnotation list \<Rightarrow> expressionAccessor option list" where
  "convertv1alpha1AuditAnnotations =
     map (\<lambda>v. Some (AuditAnnotationAccessor \<lparr>ac_Key = aa_Key v, ac_ValueExpression = aa_ValueExpression v\<rparr>))"

definition compile_validator ::
  "('obj, 'u) policy_lib \<Rightarrow> validatingAdmissionPolicy \<Rightarrow> ('obj, 'u) cel_validator" where
  "compile_validator lib definition0 =
     (let spec = vap_Spec definition0;
          hasParam = (ps_ParamKind spec \<noteq> None);
          failurePolicy = convertv1alpha1FailurePolicyTypeTov1FailurePolicyType (ps_FailurePolicy spec);
          matchConditions = elems (ps_MatchConditions spec);
          matcher = (if length matchConditions > 0
            then Some (NewConditionMatcher (Compile lib hasParam True (map (\<lambda>c. Some (MatchAccessor c)) matchConditions))
                   (pl_authz lib) failurePolicy)
            else None)
      in NewValidator
           (Compile lib hasParam True (convertv1alpha1Validations (elems (ps_Validations spec))))
           matcher
           (Compile lib hasParam True (convertv1alpha1AuditAnnotations (elems (ps_AuditAnnotations spec))))
           (Compile lib hasParam False (convertV1Alpha1MessageExpressions (elems (ps_Validations spec))))
           failurePolicy (pl_authz lib))"

section \<open>Reconciling a policy\<close>

definition ParseGroupVersion :: "string \<Rightarrow> go_error + string \<times> string" where
  "ParseGroupVersion gv =
     (if length gv = 0 \<or> gv = ''/'' then Inr ([], [])
      else
        (case split_on CHR ''/'' gv of
           [version] \<Rightarrow> Inr ([], version)
         | [g, version] \<Rightarrow> Inr (g, version)
         | _ \<Rightarrow> Inl (Plain (''unexpected GroupVersion string: '' @ gv))))"

text \<open>Letting go of a kind of parameters; its controller stops with its last dependent.\<close>

definition release_param ::
  "namespacedName \<Rightarrow> paramKind \<Rightarrow> ('obj, 'u) policyController \<Rightarrow> ('obj, 'u) policyController" where
  "release_param nn kind c =
     (case pcs_paramsCRDControllers c kind of
        None \<Rightarrow> c
      | Some info \<Rightarrow>
          (let rest = pi_dependentDefinitions info - {nn} in
           c\<lparr>pcs_paramsCRDControllers := (pcs_paramsCRDControllers c)(kind :=
               (if rest = {} then None else Some (info\<lparr>pi_dependentDefinitions := rest\<rparr>)))\<rparr>))"

definition hold_param ::
  "('obj, 'u) policy_lib \<Rightarrow> namespacedName \<Rightarrow> paramKind \<Rightarrow> gvr \<Rightarrow> ('obj, 'u) policyController
   \<Rightarrow> ('obj, 'u) policyController" where
  "hold_param lib nn kind resource c =
     (let info = (case pcs_paramsCRDControllers c kind of
            Some info \<Rightarrow> info\<lparr>pi_dependentDefinitions := insert nn (pi_dependentDefinitions info)\<rparr>
          | None \<Rightarrow> \<lparr>pi_controller = pl_newParamController lib kind resource, pi_dependentDefinitions = {nn}\<rparr>)
      in c\<lparr>pcs_paramsCRDControllers := (pcs_paramsCRDControllers c)(kind \<mapsto> info)\<rparr>)"

text \<open>Dropping the compiled validators of a policy; \<open>None\<close> is the panic of a missing binding.\<close>

definition reset_validators ::
  "namespacedName \<Rightarrow> ('obj, 'u) policyController \<Rightarrow> ('obj, 'u) policyController option" where
  "reset_validators nn c =
     (let keys = (case pcs_definitionsToBindings c nn of None \<Rightarrow> {} | Some s \<Rightarrow> s) in
      if \<exists>key \<in> keys. pcs_bindingInfos c key = None then None
      else Some (c\<lparr>pcs_bindingInfos := (\<lambda>key. if key \<in> keys
             then map_option (\<lambda>info. info\<lparr>bi_validator := None\<rparr>) (pcs_bindingInfos c key)
             else pcs_bindingInfos c key)\<rparr>))"

definition store_definition ::
  "namespacedName \<Rightarrow> go_error option \<Rightarrow> validatingAdmissionPolicy \<Rightarrow> ('obj, 'u) policyController \<Rightarrow> ('obj, 'u) policyController" where
  "store_definition nn err definition0 c =
     c\<lparr>pcs_definitionInfo := (pcs_definitionInfo c)(nn \<mapsto>
         \<lparr>di_configurationError = err, di_lastReconciledValue = definition0\<rparr>)\<rparr>"

text \<open>The second half of \<open>reconcilePolicyDefinitionSpec\<close>: storing a policy and finding its parameters.\<close>

definition set_definition ::
  "('obj, 'u) policy_lib \<Rightarrow> rest_mapper \<Rightarrow> namespacedName \<Rightarrow> validatingAdmissionPolicy \<Rightarrow> ('obj, 'u) policyController
   \<Rightarrow> go_error option \<times> ('obj, 'u) policyController" where
  "set_definition lib restMapper nn d c =
     (case ps_ParamKind (vap_Spec d) of
        None \<Rightarrow> (None, store_definition nn None d c)
      | Some source \<Rightarrow>
          (case ParseGroupVersion (pk_APIVersion source) of
             Inl err \<Rightarrow>
               (None, store_definition nn (Some (Plain (''failed to parse apiVersion of paramKind '' @ [CHR 0x27] @
                  paramKind_String source @ [CHR 0x27] @ '' with error: '' @ error_text err))) d c)
           | Inr (g, version) \<Rightarrow>
               (let kind = \<lparr>gvk_Group = g, gvk_Version = version, gvk_Kind = pk_Kind source\<rparr> in
                case restMapper kind of
                  Inl err \<Rightarrow>
                    (let e = Plain (''failed to find resource referenced by paramKind: '' @ [CHR 0x27] @
                               gvk_String kind @ [CHR 0x27])
                     in (Some e, store_definition nn (Some e) d c))
                | Inr resource \<Rightarrow> (None, hold_param lib nn source resource (store_definition nn None d c)))))"

text \<open>The first half: letting go of the old kind of parameters if the policy no longer asks for it.\<close>

definition old_param_kind :: "namespacedName \<Rightarrow> ('obj, 'u) policyController \<Rightarrow> paramKind option" where
  "old_param_kind nn c =
     Option.bind (pcs_definitionInfo c nn) (\<lambda>info. ps_ParamKind (vap_Spec (di_lastReconciledValue info)))"

definition release_old_param ::
  "namespacedName \<Rightarrow> paramKind option \<Rightarrow> ('obj, 'u) policyController \<Rightarrow> ('obj, 'u) policyController" where
  "release_old_param nn paramSource c =
     (case old_param_kind nn c of
        None \<Rightarrow> c
      | Some old \<Rightarrow> if paramSource \<noteq> Some old then release_param nn old c else c)"

text \<open>The whole function; the outer \<open>None\<close> is a panic.\<close>

definition spec_unchanged ::
  "('obj, 'u) policy_lib \<Rightarrow> definitionInfo option \<Rightarrow> validatingAdmissionPolicy option \<Rightarrow> bool" where
  "spec_unchanged lib info definition0 =
     (case (info, definition0) of
        (Some i, Some d) \<Rightarrow> pl_equalDefinitionSpec lib (vap_Spec (di_lastReconciledValue i)) (vap_Spec d)
      | _ \<Rightarrow> False)"

definition reconcilePolicyDefinitionSpec ::
  "('obj, 'u) policy_lib \<Rightarrow> rest_mapper \<Rightarrow> string \<Rightarrow> string \<Rightarrow> validatingAdmissionPolicy option
   \<Rightarrow> ('obj, 'u) policyController \<Rightarrow> (go_error option \<times> ('obj, 'u) policyController) option" where
  "reconcilePolicyDefinitionSpec lib restMapper namespace name definition0 c0 =
     (let c = c0\<lparr>pcs_cachedPolicies := []\<rparr>; nn = getNamespaceName namespace name in
      if spec_unchanged lib (pcs_definitionInfo c nn) definition0 then Some (None, c)
      else
        (let paramSource = Option.bind definition0 (\<lambda>d. ps_ParamKind (vap_Spec d));
             c1 = release_old_param nn paramSource c in
         case reset_validators nn c1 of
           None \<Rightarrow> None
         | Some c2 \<Rightarrow>
             (case definition0 of
                None \<Rightarrow> Some (None, c2\<lparr>pcs_definitionInfo := (pcs_definitionInfo c2)(nn := None)\<rparr>)
              | Some d \<Rightarrow> Some (set_definition lib restMapper nn d c2))))"

section \<open>Reconciling a binding\<close>

definition detach_binding ::
  "namespacedName \<Rightarrow> namespacedName \<Rightarrow> ('obj, 'u) policyController \<Rightarrow> ('obj, 'u) policyController" where
  "detach_binding old nn c =
     (case pcs_definitionsToBindings c old of
        None \<Rightarrow> c
      | Some dependentBindings \<Rightarrow>
          c\<lparr>pcs_definitionsToBindings := (pcs_definitionsToBindings c)(old :=
              (if dependentBindings - {nn} = {} then None else Some (dependentBindings - {nn})))\<rparr>)"

definition attach_binding ::
  "namespacedName \<Rightarrow> namespacedName \<Rightarrow> ('obj, 'u) policyController \<Rightarrow> ('obj, 'u) policyController" where
  "attach_binding new nn c =
     c\<lparr>pcs_definitionsToBindings := (pcs_definitionsToBindings c)(new \<mapsto>
         (case pcs_definitionsToBindings c new of Some s \<Rightarrow> insert nn s | None \<Rightarrow> {nn}))\<rparr>"

definition reconcilePolicyBinding ::
  "('obj, 'u) policy_lib \<Rightarrow> string \<Rightarrow> string \<Rightarrow> validatingAdmissionPolicyBinding option
   \<Rightarrow> ('obj, 'u) policyController \<Rightarrow> ('obj, 'u) policyController" where
  "reconcilePolicyBinding lib namespace name binding c0 =
     (let c = c0\<lparr>pcs_cachedPolicies := []\<rparr>; nn = getNamespaceName namespace name; info = pcs_bindingInfos c nn;
          unchanged = (case (info, binding) of
            (Some i, Some b) \<Rightarrow> pl_equalBindingSpec lib (vapb_Spec (bi_lastReconciledValue i)) (vapb_Spec b)
          | _ \<Rightarrow> False) in
      if unchanged then c
      else
        (let old = (case info of
               None \<Rightarrow> ([], [])
             | Some i \<Rightarrow> getNamespaceName [] (bs_PolicyName (vapb_Spec (bi_lastReconciledValue i))));
             new = (case binding of None \<Rightarrow> ([], []) | Some b \<Rightarrow> getNamespaceName [] (bs_PolicyName (vapb_Spec b)));
             c1 = (if old \<noteq> new then detach_binding old nn c else c) in
         case binding of
           None \<Rightarrow> c1\<lparr>pcs_bindingInfos := (pcs_bindingInfos c1)(nn := None)\<rparr>
         | Some b \<Rightarrow>
             (let c2 = attach_binding new nn c1
              in c2\<lparr>pcs_bindingInfos := (pcs_bindingInfos c2)(nn \<mapsto>
                     \<lparr>bi_validator = None, bi_lastReconciledValue = b\<rparr>)\<rparr>)))"

section \<open>The status of a policy\<close>

text \<open>
  \<open>reconcilePolicyStatus\<close>: the update it sends, if any; an error of the update is only logged.
  \<open>check\<close> is the type checker.
\<close>

definition reconcilePolicyStatus ::
  "(validatingAdmissionPolicy \<Rightarrow> expressionWarning slice) \<Rightarrow> validatingAdmissionPolicy option
   \<Rightarrow> validatingAdmissionPolicy option" where
  "reconcilePolicyStatus check definition0 =
     (case definition0 of
        None \<Rightarrow> None
      | Some d \<Rightarrow>
          if pst_ObservedGeneration (vap_Status d) < om_generation (vap_ObjectMeta d)
          then Some (d\<lparr>vap_Status := (vap_Status d)\<lparr>
                 pst_ObservedGeneration := om_generation (vap_ObjectMeta d),
                 pst_TypeChecking := Some \<lparr>tc_ExpressionWarnings = check d\<rparr>\<rparr>\<rparr>)
          else None)"

text \<open>\<open>reconcilePolicyDefinition\<close>, with the status update it sends.\<close>

definition reconcilePolicyDefinition ::
  "('obj, 'u) policy_lib \<Rightarrow> rest_mapper \<Rightarrow> (validatingAdmissionPolicy \<Rightarrow> expressionWarning slice) option
   \<Rightarrow> string \<Rightarrow> string \<Rightarrow> validatingAdmissionPolicy option \<Rightarrow> ('obj, 'u) policyController
   \<Rightarrow> (go_error option \<times> validatingAdmissionPolicy option \<times> ('obj, 'u) policyController) option" where
  "reconcilePolicyDefinition lib restMapper typeChecker namespace name definition0 c =
     (case reconcilePolicyDefinitionSpec lib restMapper namespace name definition0 c of
        None \<Rightarrow> None
      | Some (Some err, c') \<Rightarrow> Some (Some err, None, c')
      | Some (None, c') \<Rightarrow>
          Some (None, Option.bind typeChecker (\<lambda>check. reconcilePolicyStatus check definition0), c'))"

section \<open>The snapshot\<close>

text \<open>
  \<open>latestPolicyData\<close>, given the orders in which Go visits the policies and the bindings of each.
  A binding without a validator gets one, which stays; \<open>None\<close> is the panic of a missing binding.
\<close>

definition ensure_validator ::
  "('obj, 'u) policy_lib \<Rightarrow> definitionInfo \<Rightarrow> ('obj, 'u) bindingInfo \<Rightarrow> ('obj, 'u) bindingInfo" where
  "ensure_validator lib info b =
     (if bi_validator b = None \<and> di_configurationError info = None
      then b\<lparr>bi_validator := Some (compile_validator lib (di_lastReconciledValue info))\<rparr> else b)"

fun visit_bindings ::
  "('obj, 'u) policy_lib \<Rightarrow> definitionInfo \<Rightarrow> namespacedName list
   \<Rightarrow> (namespacedName \<rightharpoonup> ('obj, 'u) bindingInfo) \<Rightarrow> (('obj, 'u) bindingInfo list \<times> (namespacedName \<rightharpoonup> ('obj, 'u) bindingInfo)) option" where
  "visit_bindings lib info [] m = Some ([], m)"
| "visit_bindings lib info (nn # nns) m =
     (case m nn of
        None \<Rightarrow> None
      | Some b \<Rightarrow>
          (let b' = ensure_validator lib info b in
           case visit_bindings lib info nns (m(nn \<mapsto> b')) of
             None \<Rightarrow> None
           | Some (bs, m') \<Rightarrow> Some (b' # bs, m')))"

fun visit_definitions ::
  "('obj, 'u) policy_lib \<Rightarrow> ('obj, 'u) policyController \<Rightarrow> (namespacedName \<times> namespacedName list) list
   \<Rightarrow> (namespacedName \<rightharpoonup> ('obj, 'u) bindingInfo) \<Rightarrow> (('obj, 'u) policyData list \<times> (namespacedName \<rightharpoonup> ('obj, 'u) bindingInfo)) option" where
  "visit_definitions lib c [] m = Some ([], m)"
| "visit_definitions lib c ((nn, nns) # order) m =
     (case pcs_definitionInfo c nn of
        None \<Rightarrow> None
      | Some info \<Rightarrow>
          (case visit_bindings lib info nns m of
             None \<Rightarrow> None
           | Some (bs, m') \<Rightarrow>
               (let paramController =
                      Option.bind (ps_ParamKind (vap_Spec (di_lastReconciledValue info)))
                        (\<lambda>kind. map_option pi_controller (pcs_paramsCRDControllers c kind));
                    pd = \<lparr>pd_configurationError = di_configurationError info,
                      pd_lastReconciledValue = di_lastReconciledValue info,
                      pd_paramController = paramController, pd_bindings = bs\<rparr> in
                case visit_definitions lib c order m' of
                  None \<Rightarrow> None
                | Some (pds, m'') \<Rightarrow> Some (pd # pds, m''))))"

definition latestPolicyData ::
  "('obj, 'u) policy_lib \<Rightarrow> (namespacedName \<times> namespacedName list) list \<Rightarrow> ('obj, 'u) policyController
   \<Rightarrow> (('obj, 'u) policyData list \<times> ('obj, 'u) policyController) option" where
  "latestPolicyData lib order c =
     (if pcs_cachedPolicies c \<noteq> [] then Some (pcs_cachedPolicies c, c)
      else
        (case visit_definitions lib c order (pcs_bindingInfos c) of
           None \<Rightarrow> None
         | Some (res, m) \<Rightarrow> Some (res, c\<lparr>pcs_bindingInfos := m, pcs_cachedPolicies := res\<rparr>)))"

section \<open>The controller in use\<close>

text \<open>
  Any sequence of reconciliations, of policies and bindings that have a name, and of refreshes by the
  evaluator, which publishes the snapshot it gets. The ghost maps hold the value each key was last
  reconciled with.
\<close>

record ('obj, 'u) policy_sys =
  ps_ctl :: "('obj, 'u) policyController"
  ps_defs :: "namespacedName \<rightharpoonup> validatingAdmissionPolicy"
  ps_binds :: "namespacedName \<rightharpoonup> validatingAdmissionPolicyBinding"
  ps_published :: "('obj, 'u) policyData list option"

definition dependents :: "('obj, 'u) policyController \<Rightarrow> namespacedName \<Rightarrow> namespacedName set" where
  "dependents c k = (case pcs_definitionsToBindings c k of None \<Rightarrow> {} | Some s \<Rightarrow> s)"

definition visits_policies ::
  "(namespacedName \<times> namespacedName list) list \<Rightarrow> ('obj, 'u) policyController \<Rightarrow> bool" where
  "visits_policies order c \<longleftrightarrow>
     distinct (map fst order) \<and> set (map fst order) = dom (pcs_definitionInfo c) \<and>
     (\<forall>(nn, nns) \<in> set order. distinct nns \<and> set nns = dependents c nn)"

inductive policy_step ::
  "('obj, 'u) policy_lib \<Rightarrow> ('obj, 'u) policy_sys \<Rightarrow> ('obj, 'u) policy_sys \<Rightarrow> bool" for lib where
  reconcile_definition:
    "name \<noteq> [] \<Longrightarrow> reconcilePolicyDefinitionSpec lib restMapper [] name d (ps_ctl s) = Some (err, c) \<Longrightarrow>
     policy_step lib s (s\<lparr>ps_ctl := c, ps_defs := (ps_defs s)(([], name) := d)\<rparr>)"
| reconcile_binding:
    "name \<noteq> [] \<Longrightarrow>
     policy_step lib s (s\<lparr>ps_ctl := reconcilePolicyBinding lib [] name b (ps_ctl s),
       ps_binds := (ps_binds s)(([], name) := b)\<rparr>)"
| refreshPolicies:
    "visits_policies order (ps_ctl s) \<Longrightarrow> latestPolicyData lib order (ps_ctl s) = Some (pds, c) \<Longrightarrow>
     policy_step lib s (s\<lparr>ps_ctl := c, ps_published := Some pds\<rparr>)"

definition policy_start :: "('obj, 'u) policy_sys \<Rightarrow> bool" where
  "policy_start s \<longleftrightarrow>
     s = \<lparr>ps_ctl = \<lparr>pcs_cachedPolicies = [], pcs_paramsCRDControllers = Map.empty, pcs_definitionInfo = Map.empty,
            pcs_bindingInfos = Map.empty, pcs_definitionsToBindings = Map.empty\<rparr>,
          ps_defs = Map.empty, ps_binds = Map.empty, ps_published = None\<rparr>"

abbreviation policy_reachable :: "('obj, 'u) policy_lib \<Rightarrow> ('obj, 'u) policy_sys \<Rightarrow> bool" where
  "policy_reachable lib \<equiv> reach policy_start (policy_step lib)"

text \<open>
  What is documented of the comparison: it is reflexive, and equal specs name the same policy and the
  same kind of parameters, and both have match constraints or neither.
\<close>

definition DeepEqual_laws :: "('obj, 'u) policy_lib \<Rightarrow> bool" where
  "DeepEqual_laws lib \<longleftrightarrow>
     (\<forall>d. pl_equalDefinitionSpec lib d d) \<and> (\<forall>b. pl_equalBindingSpec lib b b) \<and>
     (\<forall>b b'. pl_equalBindingSpec lib b b' \<longrightarrow> bs_PolicyName b = bs_PolicyName b') \<and>
     (\<forall>d d'. pl_equalDefinitionSpec lib d d' \<longrightarrow>
        ps_ParamKind d = ps_ParamKind d' \<and> (ps_MatchConstraints d = None \<longleftrightarrow> ps_MatchConstraints d' = None))"

section \<open>The invariant\<close>

text \<open>The bindings of a policy, by what the bindings say.\<close>

definition bound_to :: "('obj, 'u) policyController \<Rightarrow> namespacedName \<Rightarrow> namespacedName set" where
  "bound_to c k =
     {nn. \<exists>b. pcs_bindingInfos c nn = Some b \<and> ([], bs_PolicyName (vapb_Spec (bi_lastReconciledValue b))) = k}"

definition index_inv :: "('obj, 'u) policyController \<Rightarrow> bool" where
  "index_inv c \<longleftrightarrow>
     (\<forall>k. k \<noteq> ([], []) \<longrightarrow> dependents c k = bound_to c k) \<and>
     (\<forall>k s. pcs_definitionsToBindings c k = Some s \<longrightarrow> s \<noteq> {}) \<and>
     pcs_definitionInfo c ([], []) = None"

definition validator_inv :: "('obj, 'u) policy_lib \<Rightarrow> ('obj, 'u) policyController \<Rightarrow> bool" where
  "validator_inv lib c \<longleftrightarrow>
     (\<forall>nn b v. pcs_bindingInfos c nn = Some b \<longrightarrow> bi_validator b = Some v \<longrightarrow>
        (\<exists>info. pcs_definitionInfo c ([], bs_PolicyName (vapb_Spec (bi_lastReconciledValue b))) = Some info \<and>
           di_configurationError info = None \<and> v = compile_validator lib (di_lastReconciledValue info)))"

definition params_inv ::
  "(paramKind \<rightharpoonup> 'obj paramInfo) \<Rightarrow> (namespacedName \<rightharpoonup> definitionInfo) \<Rightarrow> bool" where
  "params_inv P D \<longleftrightarrow>
     (\<forall>kind info. P kind = Some info \<longrightarrow> pi_dependentDefinitions info \<noteq> {} \<and>
        (\<forall>nn \<in> pi_dependentDefinitions info. \<exists>d. D nn = Some d \<and> ps_ParamKind (vap_Spec (di_lastReconciledValue d)) = Some kind)) \<and>
     (\<forall>nn d kind. D nn = Some d \<longrightarrow> di_configurationError d = None \<longrightarrow>
        ps_ParamKind (vap_Spec (di_lastReconciledValue d)) = Some kind \<longrightarrow>
        (\<exists>info. P kind = Some info \<and> nn \<in> pi_dependentDefinitions info))"

text \<open>A snapshot that is right for the policies and bindings the controller knows.\<close>

definition snapshot_entry ::
  "('obj, 'u) policy_lib \<Rightarrow> ('obj, 'u) policyController \<Rightarrow> namespacedName \<times> namespacedName list \<Rightarrow> ('obj, 'u) policyData \<Rightarrow> bool" where
  "snapshot_entry lib c x pd \<longleftrightarrow>
     (\<exists>info. pcs_definitionInfo c (fst x) = Some info \<and>
        pd_configurationError pd = di_configurationError info \<and> pd_lastReconciledValue pd = di_lastReconciledValue info \<and>
        pd_paramController pd = Option.bind (ps_ParamKind (vap_Spec (di_lastReconciledValue info)))
          (\<lambda>kind. map_option pi_controller (pcs_paramsCRDControllers c kind)) \<and>
        list_all2 (\<lambda>nn bi. \<exists>b. pcs_bindingInfos c nn = Some b \<and> bi_lastReconciledValue bi = bi_lastReconciledValue b \<and>
            (di_configurationError info = None \<longrightarrow> bi_validator bi = Some (compile_validator lib (di_lastReconciledValue info))))
          (snd x) (pd_bindings pd))"

definition snapshot ::
  "('obj, 'u) policy_lib \<Rightarrow> ('obj, 'u) policyController \<Rightarrow> ('obj, 'u) policyData list \<Rightarrow> bool" where
  "snapshot lib c pds \<longleftrightarrow> (\<exists>order. visits_policies order c \<and> list_all2 (snapshot_entry lib c) order pds)"

definition ctl_inv :: "('obj, 'u) policy_lib \<Rightarrow> ('obj, 'u) policyController \<Rightarrow> bool" where
  "ctl_inv lib c \<longleftrightarrow>
     index_inv c \<and> validator_inv lib c \<and> params_inv (pcs_paramsCRDControllers c) (pcs_definitionInfo c) \<and>
     (pcs_cachedPolicies c \<noteq> [] \<longrightarrow> snapshot lib c (pcs_cachedPolicies c))"

section \<open>Reconciling a policy keeps the invariant\<close>

lemma reset_validators_fields:
  assumes "reset_validators nn c = Some c'"
  shows "pcs_definitionInfo c' = pcs_definitionInfo c" "pcs_definitionsToBindings c' = pcs_definitionsToBindings c"
    "pcs_paramsCRDControllers c' = pcs_paramsCRDControllers c" "pcs_cachedPolicies c' = pcs_cachedPolicies c"
    "pcs_bindingInfos c' = (\<lambda>key. if key \<in> dependents c nn
       then map_option (\<lambda>info. info\<lparr>bi_validator := None\<rparr>) (pcs_bindingInfos c key) else pcs_bindingInfos c key)"
  using assms by (auto simp: reset_validators_def dependents_def Let_def split: if_splits)

lemma reset_validators_some:
  "index_inv c \<Longrightarrow> nn \<noteq> ([], []) \<Longrightarrow> \<exists>c'. reset_validators nn c = Some c'"
proof -
  assume "index_inv c" "nn \<noteq> ([], [])"
  then have "dependents c nn = bound_to c nn" unfolding index_inv_def by blast
  then show ?thesis by (auto simp: reset_validators_def bound_to_def Let_def simp flip: dependents_def)
qed

lemma release_param_fields [simp]:
  "pcs_definitionInfo (release_param nn k c) = pcs_definitionInfo c"
  "pcs_definitionsToBindings (release_param nn k c) = pcs_definitionsToBindings c"
  "pcs_bindingInfos (release_param nn k c) = pcs_bindingInfos c"
  "pcs_cachedPolicies (release_param nn k c) = pcs_cachedPolicies c"
  by (simp_all add: release_param_def Let_def split: option.splits)

lemma release_old_param_fields [simp]:
  "pcs_definitionInfo (release_old_param nn k c) = pcs_definitionInfo c"
  "pcs_definitionsToBindings (release_old_param nn k c) = pcs_definitionsToBindings c"
  "pcs_bindingInfos (release_old_param nn k c) = pcs_bindingInfos c"
  "pcs_cachedPolicies (release_old_param nn k c) = pcs_cachedPolicies c"
  by (simp_all add: release_old_param_def split: option.splits)

lemma hold_param_fields [simp]:
  "pcs_definitionInfo (hold_param lib nn k r c) = pcs_definitionInfo c"
  "pcs_definitionsToBindings (hold_param lib nn k r c) = pcs_definitionsToBindings c"
  "pcs_bindingInfos (hold_param lib nn k r c) = pcs_bindingInfos c"
  "pcs_cachedPolicies (hold_param lib nn k r c) = pcs_cachedPolicies c"
  by (simp_all add: hold_param_def Let_def)

lemma store_definition_fields [simp]:
  "pcs_definitionInfo (store_definition nn e d c) =
     (pcs_definitionInfo c)(nn \<mapsto> \<lparr>di_configurationError = e, di_lastReconciledValue = d\<rparr>)"
  "pcs_definitionsToBindings (store_definition nn e d c) = pcs_definitionsToBindings c"
  "pcs_bindingInfos (store_definition nn e d c) = pcs_bindingInfos c"
  "pcs_cachedPolicies (store_definition nn e d c) = pcs_cachedPolicies c"
  "pcs_paramsCRDControllers (store_definition nn e d c) = pcs_paramsCRDControllers c"
  by (simp_all add: store_definition_def)

text \<open>After the release, the policy is a dependent of its new kind at most.\<close>

definition after_release ::
  "namespacedName \<Rightarrow> paramKind option \<Rightarrow> (paramKind \<rightharpoonup> 'obj paramInfo) \<Rightarrow> (namespacedName \<rightharpoonup> definitionInfo) \<Rightarrow> bool" where
  "after_release nn source P D \<longleftrightarrow>
     (\<forall>kind info. P kind = Some info \<longrightarrow> pi_dependentDefinitions info \<noteq> {} \<and>
        (\<forall>m \<in> pi_dependentDefinitions info.
           if m = nn then source = Some kind
           else \<exists>d. D m = Some d \<and> ps_ParamKind (vap_Spec (di_lastReconciledValue d)) = Some kind)) \<and>
     (\<forall>m d kind. m \<noteq> nn \<longrightarrow> D m = Some d \<longrightarrow> di_configurationError d = None \<longrightarrow>
        ps_ParamKind (vap_Spec (di_lastReconciledValue d)) = Some kind \<longrightarrow>
        (\<exists>info. P kind = Some info \<and> m \<in> pi_dependentDefinitions info))"

lemma release_old_param_lookup:
  "pcs_paramsCRDControllers (release_old_param nn source c) kind =
     (if old_param_kind nn c = Some kind \<and> source \<noteq> Some kind then
        Option.bind (pcs_paramsCRDControllers c kind) (\<lambda>info.
          if pi_dependentDefinitions info - {nn} = {} then None
          else Some (info\<lparr>pi_dependentDefinitions := pi_dependentDefinitions info - {nn}\<rparr>))
      else pcs_paramsCRDControllers c kind)"
  by (auto simp: release_old_param_def release_param_def Let_def split: option.splits)

lemma release_param_params:
  assumes inv: "params_inv (pcs_paramsCRDControllers c) (pcs_definitionInfo c)"
  shows "after_release nn source
    (pcs_paramsCRDControllers (release_old_param nn source c)) (pcs_definitionInfo c)"
  unfolding after_release_def
proof (intro conjI allI impI ballI)
  fix kind info
  assume I: "pcs_paramsCRDControllers (release_old_param nn source c) kind = Some info"
  show "pi_dependentDefinitions info \<noteq> {}"
    using I inv by (auto simp: release_old_param_lookup params_inv_def bind_eq_Some_conv split: if_splits)
  fix m assume "m \<in> pi_dependentDefinitions info"
  then show "if m = nn then source = Some kind
    else \<exists>d. pcs_definitionInfo c m = Some d \<and> ps_ParamKind (vap_Spec (di_lastReconciledValue d)) = Some kind"
    using I inv
    by (auto simp: release_old_param_lookup params_inv_def bind_eq_Some_conv old_param_kind_def split: if_splits) fastforce+
next
  fix m d kind
  assume "m \<noteq> nn" "pcs_definitionInfo c m = Some d" "di_configurationError d = None"
    "ps_ParamKind (vap_Spec (di_lastReconciledValue d)) = Some kind"
  with inv obtain info where "pcs_paramsCRDControllers c kind = Some info" "m \<in> pi_dependentDefinitions info"
    unfolding params_inv_def by blast
  with \<open>m \<noteq> nn\<close> show "\<exists>info. pcs_paramsCRDControllers (release_old_param nn source c) kind = Some info \<and> m \<in> pi_dependentDefinitions info"
    by (auto simp: release_old_param_lookup)
qed

lemma after_release_inv:
  "after_release nn None P D \<Longrightarrow> params_inv P (D(nn := None))"
  "after_release nn (ps_ParamKind (vap_Spec d)) P D \<Longrightarrow> e \<noteq> None \<or> ps_ParamKind (vap_Spec d) = None \<Longrightarrow>
     params_inv P (D(nn \<mapsto> \<lparr>di_configurationError = e, di_lastReconciledValue = d\<rparr>))"
  by (auto simp: after_release_def params_inv_def split: if_splits)

lemma hold_param_params:
  "after_release nn (Some kind) (pcs_paramsCRDControllers c) D \<Longrightarrow> ps_ParamKind (vap_Spec d) = Some kind \<Longrightarrow>
     params_inv (pcs_paramsCRDControllers (hold_param lib nn kind r c))
       (D(nn \<mapsto> \<lparr>di_configurationError = e, di_lastReconciledValue = d\<rparr>))"
  by (auto simp: params_inv_def after_release_def hold_param_def Let_def split: option.splits if_splits) fastforce+

lemma set_definition_cases:
  assumes "set_definition lib restMapper nn d c = (err, c')"
  obtains (stored) e where "c' = store_definition nn e d c" "e \<noteq> None \<or> ps_ParamKind (vap_Spec d) = None"
  | (held) kind r where "ps_ParamKind (vap_Spec d) = Some kind" "c' = hold_param lib nn kind r (store_definition nn None d c)"
proof (cases "ps_ParamKind (vap_Spec d)")
  case None
  with assms stored [of None] show ?thesis by (simp add: set_definition_def)
next
  case (Some kind)
  with assms have "(\<exists>m. c' = store_definition nn (Some m) d c) \<or> (\<exists>r. c' = hold_param lib nn kind r (store_definition nn None d c))"
    by (auto simp: set_definition_def Let_def split: sum.splits)
  with Some stored held show ?thesis by blast
qed

text \<open>The ways a reconciliation of a policy returns.\<close>

lemma reconcile_definition_cases [consumes 1]:
  fixes c0 :: "('obj, 'u) policyController"
  assumes run: "reconcilePolicyDefinitionSpec lib restMapper [] name d c0 = Some (err, c)"
  defines "c1 \<equiv> release_old_param ([], name) (Option.bind d (\<lambda>d. ps_ParamKind (vap_Spec d))) (c0\<lparr>pcs_cachedPolicies := []\<rparr>)"
  obtains (unchanged) "spec_unchanged lib (pcs_definitionInfo c0 ([], name)) d" "c = c0\<lparr>pcs_cachedPolicies := []\<rparr>"
  | (deleted) c2 where "d = None" "reset_validators ([], name) c1 = Some c2"
      "c = c2\<lparr>pcs_definitionInfo := (pcs_definitionInfo c2)(([], name) := None)\<rparr>"
  | (stored) c2 d' e where "d = Some d'" "reset_validators ([], name) c1 = Some c2"
      "c = store_definition ([], name) e d' c2" "e \<noteq> None \<or> ps_ParamKind (vap_Spec d') = None"
  | (held) c2 d' kind r where "d = Some d'" "reset_validators ([], name) c1 = Some c2" "ps_ParamKind (vap_Spec d') = Some kind"
      "c = hold_param lib ([], name) kind r (store_definition ([], name) None d' c2)"
proof (cases "spec_unchanged lib (pcs_definitionInfo c0 ([], name)) d")
  case True
  with run unchanged show ?thesis by (simp add: reconcilePolicyDefinitionSpec_def getNamespaceName_def Let_def)
next
  case False
  with run obtain c2 where c2: "reset_validators ([], name) c1 = Some c2" and D: "case d of
      None \<Rightarrow> c = c2\<lparr>pcs_definitionInfo := (pcs_definitionInfo c2)(([], name) := None)\<rparr>
    | Some d' \<Rightarrow> set_definition lib restMapper ([], name) d' c2 = (err, c)"
    by (auto simp: reconcilePolicyDefinitionSpec_def getNamespaceName_def Let_def c1_def split: option.splits)
  show ?thesis
  proof (cases d)
    case None
    with D deleted [OF None c2] show ?thesis by simp
  next
    case (Some d')
    with D have "set_definition lib restMapper ([], name) d' c2 = (err, c)" by simp
    then show ?thesis
      by (cases rule: set_definition_cases) (use stored [OF Some c2] held [OF Some c2] in blast)+
  qed
qed

lemma reset_after_release:
  assumes "reset_validators nn (release_old_param nn source (c0\<lparr>pcs_cachedPolicies := []\<rparr>)) = Some c2"
  shows "pcs_definitionInfo c2 = pcs_definitionInfo c0" "pcs_definitionsToBindings c2 = pcs_definitionsToBindings c0"
    "pcs_cachedPolicies c2 = []"
    "pcs_paramsCRDControllers c2 = pcs_paramsCRDControllers (release_old_param nn source (c0\<lparr>pcs_cachedPolicies := []\<rparr>))"
    "pcs_bindingInfos c2 = (\<lambda>key. if key \<in> dependents c0 nn
       then map_option (\<lambda>b. b\<lparr>bi_validator := None\<rparr>) (pcs_bindingInfos c0 key) else pcs_bindingInfos c0 key)"
  using reset_validators_fields [OF assms] by (simp_all add: dependents_def cong: if_cong)

text \<open>What a reconciliation of a policy does to each part of the state.\<close>

lemma reconcile_definition_fields:
  assumes "ctl_inv lib c0"
    and "reconcilePolicyDefinitionSpec lib restMapper [] name d c0 = Some (err, c)"
  shows "pcs_cachedPolicies c = []" and "pcs_definitionsToBindings c = pcs_definitionsToBindings c0"
  using assms(2) by (cases rule: reconcile_definition_cases; simp add: reset_after_release)+

lemma reconcile_definition_params:
  assumes inv: "ctl_inv lib c0"
    and run: "reconcilePolicyDefinitionSpec lib restMapper [] name d c0 = Some (err, c)"
  shows "params_inv (pcs_paramsCRDControllers c) (pcs_definitionInfo c)"
proof -
  have I: "params_inv (pcs_paramsCRDControllers (c0\<lparr>pcs_cachedPolicies := []\<rparr>)) (pcs_definitionInfo (c0\<lparr>pcs_cachedPolicies := []\<rparr>))"
    using inv by (simp add: ctl_inv_def)
  have rel: "after_release ([], name) source (pcs_paramsCRDControllers c2) (pcs_definitionInfo c2)"
    if "reset_validators ([], name) (release_old_param ([], name) source (c0\<lparr>pcs_cachedPolicies := []\<rparr>)) = Some c2" for source c2
    using release_param_params [OF I, of "([], name)" source] reset_after_release [OF that] by simp
  from run show ?thesis
  proof (cases rule: reconcile_definition_cases)
    case unchanged
    with I show ?thesis by simp
  next
    case (deleted c2)
    with rel [OF deleted(2)] show ?thesis by (simp add: after_release_inv(1))
  next
    case (stored c2 d' e)
    with rel [OF stored(2)] show ?thesis by (simp add: after_release_inv(2))
  next
    case (held c2 d' kind r)
    with rel [OF held(2)]
    have "after_release ([], name) (Some kind) (pcs_paramsCRDControllers (store_definition ([], name) None d' c2)) (pcs_definitionInfo c2)"
      by simp
    from hold_param_params [OF this held(3)] held show ?thesis by simp
  qed
qed

lemma reconcile_definition_maps:
  assumes "ctl_inv lib c0"
    and run: "reconcilePolicyDefinitionSpec lib restMapper [] name d c0 = Some (err, c)"
  shows "(\<exists>info d'. d = Some d' \<and> pcs_definitionInfo c0 ([], name) = Some info \<and>
            pl_equalDefinitionSpec lib (vap_Spec (di_lastReconciledValue info)) (vap_Spec d') \<and>
            pcs_definitionInfo c = pcs_definitionInfo c0 \<and> pcs_bindingInfos c = pcs_bindingInfos c0) \<or>
         ((\<exists>e. pcs_definitionInfo c = (pcs_definitionInfo c0)(([], name) :=
              map_option (\<lambda>d'. \<lparr>di_configurationError = e, di_lastReconciledValue = d'\<rparr>) d)) \<and>
          pcs_bindingInfos c = (\<lambda>key. if key \<in> dependents c0 ([], name)
             then map_option (\<lambda>b. b\<lparr>bi_validator := None\<rparr>) (pcs_bindingInfos c0 key) else pcs_bindingInfos c0 key))"
  using run
proof (cases rule: reconcile_definition_cases)
  case unchanged
  then show ?thesis by (auto simp: spec_unchanged_def split: option.splits)
next
  case (deleted c2)
  with reset_after_release [OF deleted(2)] show ?thesis by simp
next
  case (stored c2 d' e)
  with reset_after_release [OF stored(2)] show ?thesis by auto
next
  case (held c2 d' kind r)
  with reset_after_release [OF held(2)] show ?thesis by auto
qed

lemmas reconcile_definition_effect =
  reconcile_definition_fields reconcile_definition_params reconcile_definition_maps

lemma reconcile_definition_returns:
  assumes "index_inv c0" and "name \<noteq> []"
  shows "\<exists>err c. reconcilePolicyDefinitionSpec lib restMapper [] name d c0 = Some (err, c)"
proof -
  have "index_inv (release_old_param nn source (c0\<lparr>pcs_cachedPolicies := []\<rparr>))" for nn source
    using assms(1) by (simp add: index_inv_def dependents_def bound_to_def)
  from reset_validators_some [OF this, of "([], name)"] assms(2) obtain c2 where
    "reset_validators ([], name) (release_old_param ([], name) (Option.bind d (\<lambda>d. ps_ParamKind (vap_Spec d)))
        (c0\<lparr>pcs_cachedPolicies := []\<rparr>)) = Some c2" by blast
  then show ?thesis
    by (cases d; cases "set_definition lib restMapper ([], name) (the d) c2")
      (simp_all add: reconcilePolicyDefinitionSpec_def getNamespaceName_def Let_def)
qed

lemma index_dependents: "index_inv c \<Longrightarrow> k \<noteq> ([], []) \<Longrightarrow> dependents c k = bound_to c k"
  unfolding index_inv_def by blast

lemma reconcile_definition_inv:
  assumes inv: "ctl_inv lib c0" and name: "name \<noteq> []"
    and run: "reconcilePolicyDefinitionSpec lib restMapper [] name d c0 = Some (err, c)"
  shows "ctl_inv lib c"
proof -
  note E = reconcile_definition_effect [OF inv run]
  have idx: "index_inv c0" and val: "validator_inv lib c0" using inv by (simp_all add: ctl_inv_def)
  have same: "map_option bi_lastReconciledValue (pcs_bindingInfos c nn) = map_option bi_lastReconciledValue (pcs_bindingInfos c0 nn)" for nn
    using E(4) by (auto simp: option.map_comp comp_def)
  have bound: "bound_to c k = bound_to c0 k" for k
  proof -
    have key: "nn \<in> bound_to x k \<longleftrightarrow> (\<exists>b. map_option bi_lastReconciledValue (pcs_bindingInfos x nn) = Some b \<and> ([], bs_PolicyName (vapb_Spec b)) = k)"
      for nn and x :: "('a, 'b) policyController" by (auto simp: bound_to_def)
    show ?thesis by (simp only: set_eq_iff key same simp_thms)
  qed
  have "pcs_definitionInfo c ([], []) = None"
    using E(4) idx name by (auto simp: index_inv_def)
  then have "index_inv c"
    using idx E(2) bound by (simp add: index_inv_def dependents_def)
  moreover have "validator_inv lib c"
    using E(4)
  proof (elim disjE conjE exE)
    fix info d'
    assume "pcs_definitionInfo c = pcs_definitionInfo c0" "pcs_bindingInfos c = pcs_bindingInfos c0"
    then show ?thesis using val by (simp add: validator_inv_def)
  next
    fix e
    assume D: "pcs_definitionInfo c = (pcs_definitionInfo c0)(([], name) :=
        map_option (\<lambda>d'. \<lparr>di_configurationError = e, di_lastReconciledValue = d'\<rparr>) d)"
      and B: "pcs_bindingInfos c = (\<lambda>key. if key \<in> dependents c0 ([], name)
        then map_option (\<lambda>b. b\<lparr>bi_validator := None\<rparr>) (pcs_bindingInfos c0 key) else pcs_bindingInfos c0 key)"
    show ?thesis
      unfolding validator_inv_def
    proof (intro allI impI)
      fix nn b v assume b: "pcs_bindingInfos c nn = Some b" and v: "bi_validator b = Some v"
      have "dependents c0 ([], name) = bound_to c0 ([], name)"
        using index_dependents [OF idx] name by blast
      then have "pcs_bindingInfos c0 nn = Some b" "bs_PolicyName (vapb_Spec (bi_lastReconciledValue b)) \<noteq> name"
        using b v B by (auto simp: bound_to_def split: if_splits)
      moreover from this(1) v val have "\<exists>info. pcs_definitionInfo c0 ([], bs_PolicyName (vapb_Spec (bi_lastReconciledValue b))) = Some info \<and>
          di_configurationError info = None \<and> v = compile_validator lib (di_lastReconciledValue info)"
        unfolding validator_inv_def by blast
      ultimately show "\<exists>info. pcs_definitionInfo c ([], bs_PolicyName (vapb_Spec (bi_lastReconciledValue b))) = Some info \<and>
          di_configurationError info = None \<and> v = compile_validator lib (di_lastReconciledValue info)"
        by (simp add: D)
    qed
  qed
  ultimately show ?thesis using E(1,3) by (simp add: ctl_inv_def)
qed

section \<open>Reconciling a binding keeps the invariant\<close>

lemma detach_binding_fields [simp]:
  "pcs_definitionInfo (detach_binding old nn c) = pcs_definitionInfo c"
  "pcs_bindingInfos (detach_binding old nn c) = pcs_bindingInfos c"
  "pcs_paramsCRDControllers (detach_binding old nn c) = pcs_paramsCRDControllers c"
  "pcs_cachedPolicies (detach_binding old nn c) = pcs_cachedPolicies c"
  "dependents (detach_binding old nn c) k = (if k = old then dependents c k - {nn} else dependents c k)"
  by (auto simp: detach_binding_def dependents_def split: option.splits if_splits)

lemma attach_binding_fields [simp]:
  "pcs_definitionInfo (attach_binding new nn c) = pcs_definitionInfo c"
  "pcs_bindingInfos (attach_binding new nn c) = pcs_bindingInfos c"
  "pcs_paramsCRDControllers (attach_binding new nn c) = pcs_paramsCRDControllers c"
  "pcs_cachedPolicies (attach_binding new nn c) = pcs_cachedPolicies c"
  "dependents (attach_binding new nn c) k = (if k = new then insert nn (dependents c k) else dependents c k)"
  by (auto simp: attach_binding_def dependents_def split: option.splits)

definition no_empty_sets :: "('obj, 'u) policyController \<Rightarrow> bool" where
  "no_empty_sets c \<longleftrightarrow> (\<forall>k s. pcs_definitionsToBindings c k = Some s \<longrightarrow> s \<noteq> {})"

lemma attach_detach_no_empty:
  "no_empty_sets c \<Longrightarrow> no_empty_sets (detach_binding old nn c)"
  "no_empty_sets c \<Longrightarrow> no_empty_sets (attach_binding old nn c)"
  by (auto simp: no_empty_sets_def detach_binding_def attach_binding_def split: option.splits if_splits)

lemma reconcile_binding_effect:
  fixes c0 c :: "('obj, 'u) policyController"
  assumes inv: "index_inv c0" and nes: "no_empty_sets c0"
    and c_def: "c = reconcilePolicyBinding lib [] name b c0"
  shows "pcs_cachedPolicies c = []" and "pcs_definitionInfo c = pcs_definitionInfo c0"
    and "pcs_paramsCRDControllers c = pcs_paramsCRDControllers c0" and "no_empty_sets c"
    and "(\<exists>i b'. b = Some b' \<and> pcs_bindingInfos c0 ([], name) = Some i \<and>
            pl_equalBindingSpec lib (vapb_Spec (bi_lastReconciledValue i)) (vapb_Spec b') \<and>
            pcs_bindingInfos c = pcs_bindingInfos c0 \<and> dependents c = dependents c0) \<or>
         (pcs_bindingInfos c = (pcs_bindingInfos c0)(([], name) :=
             map_option (\<lambda>b'. \<lparr>bi_validator = None, bi_lastReconciledValue = b'\<rparr>) b) \<and>
          (\<forall>k. k \<noteq> ([], []) \<longrightarrow> dependents c k =
             (dependents c0 k - {([], name)}) \<union> (if \<exists>b'. b = Some b' \<and> k = ([], bs_PolicyName (vapb_Spec b')) then {([], name)} else {})))"
proof -
  let ?nn = "([], name) :: namespacedName"
  let ?info = "pcs_bindingInfos c0 ?nn"
  define old :: namespacedName where "old = (case ?info of None \<Rightarrow> ([], []) | Some i \<Rightarrow> ([], bs_PolicyName (vapb_Spec (bi_lastReconciledValue i))))"
  define new :: namespacedName where "new = (case b of None \<Rightarrow> ([], []) | Some b' \<Rightarrow> ([], bs_PolicyName (vapb_Spec b')))"
  define eq where "eq \<longleftrightarrow> (case (?info, b) of
      (Some i, Some b') \<Rightarrow> pl_equalBindingSpec lib (vapb_Spec (bi_lastReconciledValue i)) (vapb_Spec b') | _ \<Rightarrow> False)"
  let ?c = "c0\<lparr>pcs_cachedPolicies := []\<rparr>"
  let ?c1 = "if old \<noteq> new then detach_binding old ?nn ?c else ?c"
  have c: "c = (if eq then ?c else (case b of
      None \<Rightarrow> ?c1\<lparr>pcs_bindingInfos := (pcs_bindingInfos ?c1)(?nn := None)\<rparr>
    | Some b' \<Rightarrow> (attach_binding new ?nn ?c1)\<lparr>pcs_bindingInfos :=
        (pcs_bindingInfos (attach_binding new ?nn ?c1))(?nn \<mapsto> \<lparr>bi_validator = None, bi_lastReconciledValue = b'\<rparr>)\<rparr>))"
    by (simp add: c_def reconcilePolicyBinding_def getNamespaceName_def Let_def old_def new_def eq_def
        cong: option.case_cong if_cong)
  have dep0: "dependents ?c = dependents c0" by (simp add: dependents_def fun_eq_iff)
  have upd: "dependents (x\<lparr>pcs_bindingInfos := m\<rparr>) = dependents x" "no_empty_sets (x\<lparr>pcs_bindingInfos := m\<rparr>) = no_empty_sets x"
    for x :: "('obj, 'u) policyController" and m by (simp_all add: dependents_def no_empty_sets_def fun_eq_iff)
  have elsewhere: "k \<noteq> ([], []) \<Longrightarrow> k \<noteq> old \<Longrightarrow> ?nn \<notin> dependents c0 k" for k
    using index_dependents [OF inv, of k] by (auto simp: bound_to_def old_def split: option.splits)
  show "pcs_cachedPolicies c = []" "pcs_definitionInfo c = pcs_definitionInfo c0"
    "pcs_paramsCRDControllers c = pcs_paramsCRDControllers c0"
    by (simp_all add: c split: option.splits)
  have "no_empty_sets ?c" using nes by (simp add: no_empty_sets_def)
  then show "no_empty_sets c"
    by (simp add: c upd attach_detach_no_empty split: option.splits)
  show "(\<exists>i b'. b = Some b' \<and> pcs_bindingInfos c0 ?nn = Some i \<and>
            pl_equalBindingSpec lib (vapb_Spec (bi_lastReconciledValue i)) (vapb_Spec b') \<and>
            pcs_bindingInfos c = pcs_bindingInfos c0 \<and> dependents c = dependents c0) \<or>
         (pcs_bindingInfos c = (pcs_bindingInfos c0)(?nn :=
             map_option (\<lambda>b'. \<lparr>bi_validator = None, bi_lastReconciledValue = b'\<rparr>) b) \<and>
          (\<forall>k. k \<noteq> ([], []) \<longrightarrow> dependents c k =
             (dependents c0 k - {?nn}) \<union> (if \<exists>b'. b = Some b' \<and> k = ([], bs_PolicyName (vapb_Spec b')) then {?nn} else {})))"
  proof (cases eq)
    case True
    then show ?thesis by (auto simp: c dep0 eq_def split: option.splits)
  next
    case False
    have "pcs_bindingInfos c = (pcs_bindingInfos c0)(?nn :=
             map_option (\<lambda>b'. \<lparr>bi_validator = None, bi_lastReconciledValue = b'\<rparr>) b)"
      using False by (simp add: c split: option.splits)
    moreover have "dependents c k = (dependents c0 k - {?nn}) \<union>
        (if \<exists>b'. b = Some b' \<and> k = ([], bs_PolicyName (vapb_Spec b')) then {?nn} else {})" if k: "k \<noteq> ([], [])" for k
      using False elsewhere [OF k] k by (cases b) (auto simp: c upd dep0 new_def)
    ultimately show ?thesis by blast
  qed
qed


lemma reconcile_binding_inv:
  assumes inv: "ctl_inv lib c0" and name: "name \<noteq> []"
  shows "ctl_inv lib (reconcilePolicyBinding lib [] name b c0)"
proof -
  let ?nn = "([], name) :: namespacedName"
  let ?c = "reconcilePolicyBinding lib [] name b c0"
  have idx: "index_inv c0" and val: "validator_inv lib c0" and nes: "no_empty_sets c0"
    using inv by (simp_all add: ctl_inv_def index_inv_def no_empty_sets_def)
  note E = reconcile_binding_effect [OF idx nes, where lib = lib and name = name and b = b, OF refl]
  have "dependents ?c k = bound_to ?c k" if k: "k \<noteq> ([], [])" for k
    using E(5)
  proof (elim disjE conjE exE)
    assume "pcs_bindingInfos ?c = pcs_bindingInfos c0" "dependents ?c = dependents c0"
    then show ?thesis using index_dependents [OF idx k] by (simp add: bound_to_def)
  next
    assume B: "pcs_bindingInfos ?c = (pcs_bindingInfos c0)(?nn :=
        map_option (\<lambda>b'. \<lparr>bi_validator = None, bi_lastReconciledValue = b'\<rparr>) b)"
      and D: "\<forall>k. k \<noteq> ([], []) \<longrightarrow> dependents ?c k = (dependents c0 k - {?nn}) \<union>
        (if \<exists>b'. b = Some b' \<and> k = ([], bs_PolicyName (vapb_Spec b')) then {?nn} else {})"
    have "bound_to ?c k = (bound_to c0 k - {?nn}) \<union>
        (if \<exists>b'. b = Some b' \<and> k = ([], bs_PolicyName (vapb_Spec b')) then {?nn} else {})"
      unfolding bound_to_def B by auto
    moreover note D [THEN spec, THEN mp, OF k]
    ultimately show ?thesis by (simp only: index_dependents [OF idx k])
  qed
  then have "index_inv ?c"
    using E(2,4) idx unfolding index_inv_def no_empty_sets_def by simp
  moreover have "validator_inv lib ?c"
    unfolding validator_inv_def
  proof (intro allI impI)
    fix nn b' v
    assume b: "pcs_bindingInfos ?c nn = Some b'" and v: "bi_validator b' = Some v"
    have "pcs_bindingInfos c0 nn = Some b'"
      using E(5) b v by (cases "nn = ?nn") (auto simp: fun_upd_def)
    with val v show "\<exists>info. pcs_definitionInfo ?c ([], bs_PolicyName (vapb_Spec (bi_lastReconciledValue b'))) = Some info \<and>
        di_configurationError info = None \<and> v = compile_validator lib (di_lastReconciledValue info)"
      unfolding validator_inv_def E(2) by blast
  qed
  ultimately show ?thesis using inv E(1,2,3) by (simp add: ctl_inv_def)
qed

end
