(* ===== verification/Policy_Snapshot.thy ===== *)
theory Policy_Snapshot
  imports Policy_Controller
begin

text \<open>
  The snapshots of the policy controller: every reachable state has an index, compiled validators and
  parameter controllers that fit the policies and bindings it was last told of, so the snapshot
  \<open>latestPolicyData\<close> hands out is the current one.
\<close>

section \<open>The snapshot is right\<close>

type_synonym ('obj, 'u) binding_map = "namespacedName \<rightharpoonup> ('obj, 'u) bindingInfo"

definition valid_validators ::
  "('obj, 'u) policy_lib \<Rightarrow> (namespacedName \<rightharpoonup> definitionInfo) \<Rightarrow> ('obj, 'u) binding_map \<Rightarrow> bool" where
  "valid_validators lib D m \<longleftrightarrow>
     (\<forall>nn b v. m nn = Some b \<longrightarrow> bi_validator b = Some v \<longrightarrow>
        (\<exists>info. D ([], bs_PolicyName (vapb_Spec (bi_lastReconciledValue b))) = Some info \<and>
           di_configurationError info = None \<and> v = compile_validator lib (di_lastReconciledValue info)))"

definition values_of :: "('obj, 'u) binding_map \<Rightarrow> namespacedName \<rightharpoonup> validatingAdmissionPolicyBinding" where
  "values_of m nn = map_option bi_lastReconciledValue (m nn)"

lemma ensure_validator_value [simp]:
  "bi_lastReconciledValue (ensure_validator lib info b) = bi_lastReconciledValue b"
  by (simp add: ensure_validator_def)

lemma ensure_validator_valid:
  assumes "valid_validators lib D m" "m nn = Some b"
    and "D ([], bs_PolicyName (vapb_Spec (bi_lastReconciledValue b))) = Some info"
  shows "valid_validators lib D (m(nn \<mapsto> ensure_validator lib info b))"
    and "di_configurationError info = None \<Longrightarrow>
      bi_validator (ensure_validator lib info b) = Some (compile_validator lib (di_lastReconciledValue info))"
proof -
  have old: "di_configurationError info = None \<and> v = compile_validator lib (di_lastReconciledValue info)"
    if "bi_validator b = Some v" for v
    using assms that unfolding valid_validators_def by fastforce
  then show "di_configurationError info = None \<Longrightarrow>
      bi_validator (ensure_validator lib info b) = Some (compile_validator lib (di_lastReconciledValue info))"
    by (cases "bi_validator b") (auto simp: ensure_validator_def)
  have new: "di_configurationError info = None \<and> v = compile_validator lib (di_lastReconciledValue info)"
    if "bi_validator (ensure_validator lib info b) = Some v" for v
    using that old by (auto simp: ensure_validator_def split: if_splits)
  show "valid_validators lib D (m(nn \<mapsto> ensure_validator lib info b))"
    unfolding valid_validators_def
  proof (intro allI impI)
    fix n x v
    assume "(m(nn \<mapsto> ensure_validator lib info b)) n = Some x" "bi_validator x = Some v"
    then show "\<exists>info. D ([], bs_PolicyName (vapb_Spec (bi_lastReconciledValue x))) = Some info \<and>
        di_configurationError info = None \<and> v = compile_validator lib (di_lastReconciledValue info)"
      using assms new unfolding valid_validators_def by (cases "n = nn") (auto simp del: split_paired_All)
  qed
qed

definition binding_entry ::
  "('obj, 'u) policy_lib \<Rightarrow> definitionInfo \<Rightarrow> (namespacedName \<rightharpoonup> validatingAdmissionPolicyBinding) \<Rightarrow> namespacedName
   \<Rightarrow> ('obj, 'u) bindingInfo \<Rightarrow> bool" where
  "binding_entry lib info V nn bi \<longleftrightarrow>
     V nn = Some (bi_lastReconciledValue bi) \<and>
     (di_configurationError info = None \<longrightarrow> bi_validator bi = Some (compile_validator lib (di_lastReconciledValue info)))"

lemma visit_bindings_ok:
  assumes "valid_validators lib D m" "D k = Some info"
    and "\<And>nn. nn \<in> set nns \<Longrightarrow> \<exists>b. values_of m nn = Some b \<and> ([], bs_PolicyName (vapb_Spec b)) = k"
  shows "\<exists>bs m'. visit_bindings lib info nns m = Some (bs, m') \<and> valid_validators lib D m' \<and>
    values_of m' = values_of m \<and> list_all2 (binding_entry lib info (values_of m)) nns bs"
  using assms
proof (induction nns arbitrary: m)
  case (Cons nn nns)
  from Cons.prems(3) [of nn] obtain b where b: "m nn = Some b"
    "([], bs_PolicyName (vapb_Spec (bi_lastReconciledValue b))) = k" by (auto simp: values_of_def)
  let ?b = "ensure_validator lib info b"
  let ?m = "m(nn \<mapsto> ?b)"
  have D: "D ([], bs_PolicyName (vapb_Spec (bi_lastReconciledValue b))) = Some info"
    using Cons.prems(2) b(2) by simp
  note ok = ensure_validator_valid [OF Cons.prems(1) b(1) D]
  have same: "values_of ?m = values_of m" using b(1) by (auto simp: values_of_def fun_eq_iff)
  have "\<exists>bs m'. visit_bindings lib info nns ?m = Some (bs, m') \<and> valid_validators lib D m' \<and>
    values_of m' = values_of ?m \<and> list_all2 (binding_entry lib info (values_of ?m)) nns bs"
    by (rule Cons.IH [OF ok(1) Cons.prems(2)]) (unfold same, rule Cons.prems(3), simp)
  then obtain bs m' where IH: "visit_bindings lib info nns ?m = Some (bs, m')" "valid_validators lib D m'"
    "values_of m' = values_of m" "list_all2 (binding_entry lib info (values_of m)) nns bs"
    using same by auto
  have "binding_entry lib info (values_of m) nn ?b"
    using ok(2) b(1) by (simp add: binding_entry_def values_of_def)
  with IH b(1) show ?case by simp
qed simp

text \<open>A whole visit; the state matters only by the values of its bindings.\<close>

lemma snapshot_entry_values:
  "snapshot_entry lib c x pd \<longleftrightarrow>
     (\<exists>info. pcs_definitionInfo c (fst x) = Some info \<and>
        pd_configurationError pd = di_configurationError info \<and> pd_lastReconciledValue pd = di_lastReconciledValue info \<and>
        pd_paramController pd = Option.bind (ps_ParamKind (vap_Spec (di_lastReconciledValue info)))
          (\<lambda>kind. map_option pi_controller (pcs_paramsCRDControllers c kind)) \<and>
        list_all2 (binding_entry lib info (values_of (pcs_bindingInfos c))) (snd x) (pd_bindings pd))"
  unfolding snapshot_entry_def binding_entry_def values_of_def
  by (intro ex_cong1 conj_cong refl arg_cong [where f = "\<lambda>r. list_all2 r (snd x) (pd_bindings pd)"] ext) auto

lemma visit_definitions_ok:
  assumes "valid_validators lib (pcs_definitionInfo c) m" "values_of m = values_of (pcs_bindingInfos c)"
    and "\<And>k nns. (k, nns) \<in> set order \<Longrightarrow> pcs_definitionInfo c k \<noteq> None \<and>
      (\<forall>nn \<in> set nns. \<exists>b. values_of m nn = Some b \<and> ([], bs_PolicyName (vapb_Spec b)) = k)"
  shows "\<exists>pds m'. visit_definitions lib c order m = Some (pds, m') \<and> valid_validators lib (pcs_definitionInfo c) m' \<and>
    values_of m' = values_of m \<and> list_all2 (snapshot_entry lib c) order pds"
  using assms
proof (induction order arbitrary: m)
  case (Cons x order)
  obtain k nns where x: "x = (k, nns)" by (rule prod.exhaust)
  from Cons.prems(3) [of k nns] x obtain info where D: "pcs_definitionInfo c k = Some info" by auto
  have "\<exists>bs m'. visit_bindings lib info nns m = Some (bs, m') \<and> valid_validators lib (pcs_definitionInfo c) m' \<and>
    values_of m' = values_of m \<and> list_all2 (binding_entry lib info (values_of m)) nns bs"
    by (rule visit_bindings_ok [OF Cons.prems(1) D]) (use Cons.prems(3) [of k nns] x in auto)
  then obtain bs m1 where B: "visit_bindings lib info nns m = Some (bs, m1)"
    "valid_validators lib (pcs_definitionInfo c) m1" "values_of m1 = values_of m"
    "list_all2 (binding_entry lib info (values_of m)) nns bs" by blast
  have "\<exists>pds m'. visit_definitions lib c order m1 = Some (pds, m') \<and> valid_validators lib (pcs_definitionInfo c) m' \<and>
    values_of m' = values_of m1 \<and> list_all2 (snapshot_entry lib c) order pds"
  proof (rule Cons.IH [OF B(2)])
    show "values_of m1 = values_of (pcs_bindingInfos c)" using B(3) Cons.prems(2) by simp
    show "pcs_definitionInfo c k \<noteq> None \<and>
        (\<forall>nn \<in> set nns. \<exists>b. values_of m1 nn = Some b \<and> ([], bs_PolicyName (vapb_Spec b)) = k)"
      if "(k, nns) \<in> set order" for k nns
      unfolding B(3) by (rule Cons.prems(3)) (use that in simp)
  qed
  then obtain pds m2 where P: "visit_definitions lib c order m1 = Some (pds, m2)"
    "valid_validators lib (pcs_definitionInfo c) m2" "values_of m2 = values_of m" "list_all2 (snapshot_entry lib c) order pds"
    using B(3) by auto
  have "snapshot_entry lib c x \<lparr>pd_configurationError = di_configurationError info,
      pd_lastReconciledValue = di_lastReconciledValue info,
      pd_paramController = Option.bind (ps_ParamKind (vap_Spec (di_lastReconciledValue info)))
        (\<lambda>kind. map_option pi_controller (pcs_paramsCRDControllers c kind)), pd_bindings = bs\<rparr>"
    using D B(4) Cons.prems(2) by (simp add: snapshot_entry_values x)
  with D B(1) P show ?case by (simp add: x Let_def)
qed simp

lemma validator_inv_valid: "validator_inv lib c \<longleftrightarrow> valid_validators lib (pcs_definitionInfo c) (pcs_bindingInfos c)"
  by (simp add: validator_inv_def valid_validators_def)


lemma visits_policies_bound:
  assumes "index_inv c" "visits_policies order c" "(k, nns) \<in> set order"
  shows "pcs_definitionInfo c k \<noteq> None"
    and "\<forall>nn \<in> set nns. \<exists>b. values_of (pcs_bindingInfos c) nn = Some b \<and> ([], bs_PolicyName (vapb_Spec b)) = k"
proof -
  have "k \<in> set (map fst order)" using assms(3) by force
  then show D: "pcs_definitionInfo c k \<noteq> None" using assms(2) by (auto simp: visits_policies_def)
  have "k \<noteq> ([], [])" using D assms(1) by (auto simp: index_inv_def)
  moreover have "set nns = dependents c k" using assms(2,3) unfolding visits_policies_def by blast
  ultimately have "set nns = bound_to c k" using index_dependents [OF assms(1)] by simp
  then show "\<forall>nn \<in> set nns. \<exists>b. values_of (pcs_bindingInfos c) nn = Some b \<and> ([], bs_PolicyName (vapb_Spec b)) = k"
    by (auto simp: bound_to_def values_of_def)
qed

lemma latest_policy_data_ok:
  assumes inv: "ctl_inv lib c" and order: "visits_policies order c"
  shows "\<exists>pds c'. latestPolicyData lib order c = Some (pds, c') \<and> ctl_inv lib c' \<and> snapshot lib c' pds \<and>
    pcs_definitionInfo c' = pcs_definitionInfo c \<and> values_of (pcs_bindingInfos c') = values_of (pcs_bindingInfos c) \<and>
    pcs_paramsCRDControllers c' = pcs_paramsCRDControllers c"
proof (cases "pcs_cachedPolicies c = []")
  case False
  with inv show ?thesis by (simp add: latestPolicyData_def ctl_inv_def)
next
  case True
  have idx: "index_inv c" using inv by (simp add: ctl_inv_def)
  have "\<exists>pds m'. visit_definitions lib c order (pcs_bindingInfos c) = Some (pds, m') \<and>
    valid_validators lib (pcs_definitionInfo c) m' \<and> values_of m' = values_of (pcs_bindingInfos c) \<and>
    list_all2 (snapshot_entry lib c) order pds"
    by (rule visit_definitions_ok)
      (use inv visits_policies_bound [OF idx order] in \<open>simp_all add: ctl_inv_def validator_inv_valid\<close>)
  then obtain pds m where V: "visit_definitions lib c order (pcs_bindingInfos c) = Some (pds, m)"
    "valid_validators lib (pcs_definitionInfo c) m" "values_of m = values_of (pcs_bindingInfos c)"
    "list_all2 (snapshot_entry lib c) order pds" by blast
  let ?c = "c\<lparr>pcs_bindingInfos := m, pcs_cachedPolicies := pds\<rparr>"
  have bound: "nn \<in> bound_to x k \<longleftrightarrow>
      (\<exists>b. values_of (pcs_bindingInfos x) nn = Some b \<and> ([], bs_PolicyName (vapb_Spec b)) = k)"
    for x :: "('a, 'b) policyController" and nn k by (auto simp: bound_to_def values_of_def)
  have "bound_to ?c k = bound_to c k" for k by (simp add: set_eq_iff bound V(3))
  then have "index_inv ?c" using idx by (simp add: index_inv_def dependents_def)
  moreover have "visits_policies order ?c" using order by (simp add: visits_policies_def dependents_def)
  moreover have "list_all2 (snapshot_entry lib ?c) order pds"
    using V(4) by (rule list_all2_mono) (simp add: snapshot_entry_values V(3))
  ultimately have "snapshot lib ?c pds \<and> ctl_inv lib ?c"
    using inv V(2) by (auto simp: snapshot_def ctl_inv_def validator_inv_valid)
  with True V(1,3) show ?thesis by (simp add: latestPolicyData_def)
qed

section \<open>The controller in use keeps its invariant\<close>

text \<open>What the controller knows is what it was last told, up to the comparison of specs.\<close>

definition told_definitions ::
  "('obj, 'u) policy_lib \<Rightarrow> (namespacedName \<rightharpoonup> definitionInfo) \<Rightarrow> (namespacedName \<rightharpoonup> validatingAdmissionPolicy) \<Rightarrow> bool" where
  "told_definitions lib D defs \<longleftrightarrow>
     (\<forall>nn. rel_option (\<lambda>i d. pl_equalDefinitionSpec lib (vap_Spec (di_lastReconciledValue i)) (vap_Spec d)) (D nn) (defs nn))"

definition told_bindings ::
  "('obj, 'u) policy_lib \<Rightarrow> (namespacedName \<rightharpoonup> validatingAdmissionPolicyBinding)
   \<Rightarrow> (namespacedName \<rightharpoonup> validatingAdmissionPolicyBinding) \<Rightarrow> bool" where
  "told_bindings lib V binds \<longleftrightarrow>
     (\<forall>nn. rel_option (\<lambda>b b'. pl_equalBindingSpec lib (vapb_Spec b) (vapb_Spec b')) (V nn) (binds nn))"

definition policy_inv :: "('obj, 'u) policy_lib \<Rightarrow> ('obj, 'u) policy_sys \<Rightarrow> bool" where
  "policy_inv lib s \<longleftrightarrow>
     ctl_inv lib (ps_ctl s) \<and>
     (DeepEqual_laws lib \<longrightarrow>
        told_definitions lib (pcs_definitionInfo (ps_ctl s)) (ps_defs s) \<and>
        told_bindings lib (values_of (pcs_bindingInfos (ps_ctl s))) (ps_binds s))"

lemma told_update:
  "told_definitions lib D defs \<Longrightarrow> rel_option (\<lambda>i d. pl_equalDefinitionSpec lib (vap_Spec (di_lastReconciledValue i)) (vap_Spec d)) i d \<Longrightarrow>
     told_definitions lib (D(nn := i)) (defs(nn := d))"
  "told_definitions lib D defs \<Longrightarrow> rel_option (\<lambda>i d. pl_equalDefinitionSpec lib (vap_Spec (di_lastReconciledValue i)) (vap_Spec d)) (D nn) d \<Longrightarrow>
     told_definitions lib D (defs(nn := d))"
  "told_bindings lib V binds \<Longrightarrow> rel_option (\<lambda>b b'. pl_equalBindingSpec lib (vapb_Spec b) (vapb_Spec b')) v b \<Longrightarrow>
     told_bindings lib (V(nn := v)) (binds(nn := b))"
  "told_bindings lib V binds \<Longrightarrow> rel_option (\<lambda>b b'. pl_equalBindingSpec lib (vapb_Spec b) (vapb_Spec b')) (V nn) b \<Longrightarrow>
     told_bindings lib V (binds(nn := b))"
  by (simp_all add: told_definitions_def told_bindings_def)

lemma policy_inv_start: "policy_start s \<Longrightarrow> policy_inv lib s"
  by (simp add: policy_start_def policy_inv_def ctl_inv_def index_inv_def validator_inv_def params_inv_def dependents_def
      bound_to_def told_definitions_def told_bindings_def values_of_def)

lemma policy_inv_definition:
  assumes inv: "policy_inv lib s" and name: "name \<noteq> []"
    and run: "reconcilePolicyDefinitionSpec lib restMapper [] name d (ps_ctl s) = Some (err, c)"
  shows "policy_inv lib (s\<lparr>ps_ctl := c, ps_defs := (ps_defs s)(([], name) := d)\<rparr>)"
proof -
  have ctl: "ctl_inv lib (ps_ctl s)" using inv by (simp add: policy_inv_def)
  note E = reconcile_definition_effect [OF ctl run]
  have same: "values_of (pcs_bindingInfos c) = values_of (pcs_bindingInfos (ps_ctl s))"
    using E(4) by (auto simp: values_of_def fun_eq_iff option.map_comp comp_def)
  have "told_definitions lib (pcs_definitionInfo c) ((ps_defs s)(([], name) := d))"
    if laws: "DeepEqual_laws lib" and told: "told_definitions lib (pcs_definitionInfo (ps_ctl s)) (ps_defs s)"
    using E(4)
  proof (elim disjE conjE exE)
    fix info d'
    assume "d = Some d'" "pcs_definitionInfo (ps_ctl s) ([], name) = Some info"
      "pl_equalDefinitionSpec lib (vap_Spec (di_lastReconciledValue info)) (vap_Spec d')"
      "pcs_definitionInfo c = pcs_definitionInfo (ps_ctl s)"
    then show ?thesis using told by (simp add: told_update(2))
  next
    fix e
    assume D: "pcs_definitionInfo c = (pcs_definitionInfo (ps_ctl s))(([], name) :=
        map_option (\<lambda>d'. \<lparr>di_configurationError = e, di_lastReconciledValue = d'\<rparr>) d)"
    show ?thesis
      unfolding D by (rule told_update(1) [OF told]) (use laws in \<open>cases d; simp add: DeepEqual_laws_def\<close>)
  qed
  then show ?thesis
    using inv reconcile_definition_inv [OF ctl name run] by (simp add: policy_inv_def same)
qed

lemma policy_inv_binding:
  assumes inv: "policy_inv lib s" and name: "name \<noteq> []"
  shows "policy_inv lib (s\<lparr>ps_ctl := reconcilePolicyBinding lib [] name b (ps_ctl s), ps_binds := (ps_binds s)(([], name) := b)\<rparr>)"
proof -
  let ?old = "ps_ctl s" and ?c = "reconcilePolicyBinding lib [] name b (ps_ctl s)"
  have ctl: "ctl_inv lib ?old" using inv by (simp add: policy_inv_def)
  then have "index_inv ?old" "no_empty_sets ?old" by (simp_all add: ctl_inv_def index_inv_def no_empty_sets_def)
  note E = reconcile_binding_effect [OF this, where lib = lib and name = name and b = b, OF refl]
  have "told_bindings lib (values_of (pcs_bindingInfos ?c)) ((ps_binds s)(([], name) := b))"
    if laws: "DeepEqual_laws lib" and told: "told_bindings lib (values_of (pcs_bindingInfos ?old)) (ps_binds s)"
    using E(5)
  proof (elim disjE conjE exE)
    fix i b'
    assume "b = Some b'" "pcs_bindingInfos ?old ([], name) = Some i"
      "pl_equalBindingSpec lib (vapb_Spec (bi_lastReconciledValue i)) (vapb_Spec b')"
      "pcs_bindingInfos ?c = pcs_bindingInfos ?old"
    then show ?thesis using told by (simp add: told_update(4) values_of_def)
  next
    assume "pcs_bindingInfos ?c = (pcs_bindingInfos ?old)(([], name) :=
        map_option (\<lambda>b'. \<lparr>bi_validator = None, bi_lastReconciledValue = b'\<rparr>) b)"
    then have V: "values_of (pcs_bindingInfos ?c) = (values_of (pcs_bindingInfos ?old))(([], name) := b)"
      by (auto simp: values_of_def fun_eq_iff option.map_comp comp_def option.map_ident)
    show ?thesis
      unfolding V by (rule told_update(3) [OF told]) (use laws in \<open>cases b; simp add: DeepEqual_laws_def\<close>)
  qed
  moreover have "ctl_inv lib ?c" by (rule reconcile_binding_inv [OF ctl name])
  ultimately show ?thesis using inv E(2) by (simp add: policy_inv_def)
qed

lemma policy_inv_step: "policy_step lib s t \<Longrightarrow> policy_inv lib s \<Longrightarrow> policy_inv lib t"
proof (induction rule: policy_step.induct)
  case (refreshPolicies order s pds c)
  then have "ctl_inv lib (ps_ctl s)" by (simp add: policy_inv_def)
  from latest_policy_data_ok [OF this refreshPolicies(1)] refreshPolicies(2,3) show ?case
    by (simp add: policy_inv_def)
qed (auto intro: policy_inv_definition policy_inv_binding)

interpretation policy_ctl: invariant_system policy_start "policy_step lib" "policy_inv lib" for lib
  by unfold_locales (auto intro: policy_inv_start policy_inv_step)

section \<open>Properties of the policy controller\<close>

text \<open>
  The snapshot a reader expects: one entry per policy, with the policy, all its bindings, and for
  each binding the validator compiled from that policy, unless the policy has a configuration error.
\<close>

definition current_binding ::
  "('obj, 'u) policy_lib \<Rightarrow> (namespacedName \<rightharpoonup> validatingAdmissionPolicyBinding) \<Rightarrow> ('obj, 'u) policyData
   \<Rightarrow> namespacedName \<Rightarrow> ('obj, 'u) bindingInfo \<Rightarrow> bool" where
  "current_binding lib binds pd nn bi \<longleftrightarrow>
     (\<exists>b. binds nn = Some b \<and> pl_equalBindingSpec lib (vapb_Spec (bi_lastReconciledValue bi)) (vapb_Spec b)) \<and>
     (pd_configurationError pd = None \<longrightarrow> bi_validator bi = Some (compile_validator lib (pd_lastReconciledValue pd)))"

definition current_policy ::
  "('obj, 'u) policy_lib \<Rightarrow> (namespacedName \<rightharpoonup> validatingAdmissionPolicy) \<Rightarrow> (namespacedName \<rightharpoonup> validatingAdmissionPolicyBinding)
   \<Rightarrow> namespacedName \<Rightarrow> ('obj, 'u) policyData \<Rightarrow> bool" where
  "current_policy lib defs binds k pd \<longleftrightarrow>
     (\<exists>d. defs k = Some d \<and> pl_equalDefinitionSpec lib (vap_Spec (pd_lastReconciledValue pd)) (vap_Spec d)) \<and>
     (\<exists>nns. distinct nns \<and> set nns = {nn. \<exists>b. binds nn = Some b \<and> ([], bs_PolicyName (vapb_Spec b)) = k} \<and>
        list_all2 (current_binding lib binds pd) nns (pd_bindings pd))"

definition current_snapshot ::
  "('obj, 'u) policy_lib \<Rightarrow> (namespacedName \<rightharpoonup> validatingAdmissionPolicy) \<Rightarrow> (namespacedName \<rightharpoonup> validatingAdmissionPolicyBinding)
   \<Rightarrow> ('obj, 'u) policyData list \<Rightarrow> bool" where
  "current_snapshot lib defs binds pds \<longleftrightarrow>
     (\<exists>ks. distinct ks \<and> set ks = dom defs \<and> list_all2 (current_policy lib defs binds) ks pds)"

lemma told_dom:
  assumes told: "told_definitions lib D defs"
  shows "dom defs = dom D"
proof -
  have "defs k = None \<longleftrightarrow> D k = None" for k
  proof -
    have "rel_option (\<lambda>i d. pl_equalDefinitionSpec lib (vap_Spec (di_lastReconciledValue i)) (vap_Spec d)) (D k) (defs k)"
      using told unfolding told_definitions_def by blast
    then show ?thesis by (cases rule: option.rel_cases) auto
  qed
  then show ?thesis unfolding dom_def by simp
qed

lemma told_bound:
  assumes laws: "DeepEqual_laws lib" and told: "told_bindings lib V binds"
  shows "{nn. \<exists>b. binds nn = Some b \<and> ([], bs_PolicyName (vapb_Spec b)) = k} = {nn. \<exists>b. V nn = Some b \<and> ([], bs_PolicyName (vapb_Spec b)) = k}"
proof -
  have "(\<exists>b. binds nn = Some b \<and> ([], bs_PolicyName (vapb_Spec b)) = k) \<longleftrightarrow> (\<exists>b. V nn = Some b \<and> ([], bs_PolicyName (vapb_Spec b)) = k)" for nn
  proof -
    have "rel_option (\<lambda>b b'. pl_equalBindingSpec lib (vapb_Spec b) (vapb_Spec b')) (V nn) (binds nn)"
      using told unfolding told_bindings_def by blast
    then show ?thesis using laws by (cases rule: option.rel_cases) (auto simp: DeepEqual_laws_def)
  qed
  then show ?thesis by blast
qed

lemma snapshot_current:
  assumes laws: "DeepEqual_laws lib" and idx: "index_inv c" and snap: "snapshot lib c pds"
    and defs: "told_definitions lib (pcs_definitionInfo c) defs"
    and binds: "told_bindings lib (values_of (pcs_bindingInfos c)) binds"
  shows "current_snapshot lib defs binds pds"
proof -
  from snap obtain order where order: "visits_policies order c" "list_all2 (snapshot_entry lib c) order pds"
    unfolding snapshot_def by blast
  have entry: "current_policy lib defs binds (fst x) pd" if x: "x \<in> set order" and e: "snapshot_entry lib c x pd" for x pd
  proof -
    obtain k nns where kn: "x = (k, nns)" by (rule prod.exhaust)
    from e kn obtain info where info: "pcs_definitionInfo c k = Some info"
      "pd_configurationError pd = di_configurationError info" "pd_lastReconciledValue pd = di_lastReconciledValue info"
      "list_all2 (binding_entry lib info (values_of (pcs_bindingInfos c))) nns (pd_bindings pd)"
      by (auto simp: snapshot_entry_values)
    have "rel_option (\<lambda>i d. pl_equalDefinitionSpec lib (vap_Spec (di_lastReconciledValue i)) (vap_Spec d)) (pcs_definitionInfo c k) (defs k)"
      using defs unfolding told_definitions_def by blast
    then have d: "\<exists>d. defs k = Some d \<and> pl_equalDefinitionSpec lib (vap_Spec (pd_lastReconciledValue pd)) (vap_Spec d)"
      by (cases rule: option.rel_cases) (auto simp: info)
    have "k \<noteq> ([], [])" using info(1) idx by (auto simp: index_inv_def)
    then have "set nns = bound_to c k" "distinct nns"
      using order(1) x kn index_dependents [OF idx] unfolding visits_policies_def by blast+
    moreover have "bound_to c k = {nn. \<exists>b. values_of (pcs_bindingInfos c) nn = Some b \<and> ([], bs_PolicyName (vapb_Spec b)) = k}"
      by (auto simp: bound_to_def values_of_def)
    ultimately have nns: "distinct nns" "set nns = {nn. \<exists>b. binds nn = Some b \<and> ([], bs_PolicyName (vapb_Spec b)) = k}"
      using told_bound [OF laws binds, of k] by simp_all
    have "current_binding lib binds pd nn bi" if "binding_entry lib info (values_of (pcs_bindingInfos c)) nn bi" for nn bi
    proof -
      have "rel_option (\<lambda>b b'. pl_equalBindingSpec lib (vapb_Spec b) (vapb_Spec b')) (values_of (pcs_bindingInfos c) nn) (binds nn)"
        using binds unfolding told_bindings_def by blast
      then show ?thesis
        using that by (cases rule: option.rel_cases) (auto simp: binding_entry_def current_binding_def info)
    qed
    with info(4) have "list_all2 (current_binding lib binds pd) nns (pd_bindings pd)" by (rule list_all2_mono)
    with d nns kn show ?thesis by (auto simp: current_policy_def)
  qed
  have "list_all2 (current_policy lib defs binds) (map fst order) pds"
    using order(2) entry by (auto simp: list_all2_conv_all_nth)
  moreover have "distinct (map fst order)" "set (map fst order) = dom defs"
    using order(1) told_dom [OF defs] by (simp_all add: visits_policies_def)
  ultimately show ?thesis unfolding current_snapshot_def by blast
qed

lemma reachable_policy_inv: "policy_reachable lib s \<Longrightarrow> policy_inv lib s"
  by (rule policy_ctl.reach_inv)

text \<open>
  (C7) The controller implements its contract. After any sequence of reconciliations and refreshes, in
  any order and with any failures of the REST mapper, the snapshot it hands to the evaluator has
  one entry for each policy it was last told of, with all of that policy's bindings, and each validator is
  compiled from the spec in that entry; \<open>latestPolicyData\<close> never meets a missing binding.
\<close>

theorem policy_snapshot_is_current:
  assumes "DeepEqual_laws lib" and "policy_reachable lib s" and "visits_policies order (ps_ctl s)"
  shows "\<exists>pds c. latestPolicyData lib order (ps_ctl s) = Some (pds, c) \<and> current_snapshot lib (ps_defs s) (ps_binds s) pds"
proof -
  have inv: "policy_inv lib s" using assms(2) by (rule reachable_policy_inv)
  then have ctl: "ctl_inv lib (ps_ctl s)" by (simp add: policy_inv_def)
  from latest_policy_data_ok [OF ctl assms(3)] obtain pds c where L: "latestPolicyData lib order (ps_ctl s) = Some (pds, c)"
    "ctl_inv lib c" "snapshot lib c pds" "pcs_definitionInfo c = pcs_definitionInfo (ps_ctl s)"
    "values_of (pcs_bindingInfos c) = values_of (pcs_bindingInfos (ps_ctl s))" by blast
  have "current_snapshot lib (ps_defs s) (ps_binds s) pds"
    by (rule snapshot_current [OF assms(1) _ L(3)]) (use L inv assms(1) in \<open>simp_all add: policy_inv_def ctl_inv_def\<close>)
  with L(1) show ?thesis by blast
qed

text \<open>
  Reconciling a policy never panics: every binding the index names is known, whatever was
  reconciled before. It always returns, with or without an error.
\<close>

theorem policy_controller_never_panics:
  assumes "policy_reachable lib s" and "name \<noteq> []"
  shows "reconcilePolicyDefinition lib restMapper typeChecker [] name d (ps_ctl s) \<noteq> None"
proof -
  have "index_inv (ps_ctl s)" using reachable_policy_inv [OF assms(1)] by (simp add: policy_inv_def ctl_inv_def)
  from reconcile_definition_returns [OF this assms(2)] show ?thesis
    by (auto simp: reconcilePolicyDefinition_def split: option.splits)
qed

text \<open>
  (C22) A controller for a kind of parameters runs only while some policy asks for that kind, and it runs
  whenever a policy without a configuration error asks for it.
\<close>

theorem param_controllers_match_policies:
  assumes "DeepEqual_laws lib" and "policy_reachable lib s"
  shows "(pcs_paramsCRDControllers (ps_ctl s) kind \<noteq> None \<longrightarrow>
       (\<exists>nn d. ps_defs s nn = Some d \<and> ps_ParamKind (vap_Spec d) = Some kind)) \<and>
     ((\<exists>nn d. ps_defs s nn = Some d \<and> ps_ParamKind (vap_Spec d) = Some kind \<and>
         Option.bind (pcs_definitionInfo (ps_ctl s) nn) di_configurationError = None) \<longrightarrow>
       pcs_paramsCRDControllers (ps_ctl s) kind \<noteq> None)"
proof -
  let ?D = "pcs_definitionInfo (ps_ctl s)" and ?P = "pcs_paramsCRDControllers (ps_ctl s)"
  have inv: "params_inv ?P ?D" "told_definitions lib ?D (ps_defs s)"
    using reachable_policy_inv [OF assms(2)] assms(1) by (simp_all add: policy_inv_def ctl_inv_def)
  have rel: "rel_option (\<lambda>i d. pl_equalDefinitionSpec lib (vap_Spec (di_lastReconciledValue i)) (vap_Spec d)) (?D nn) (ps_defs s nn)" for nn
    using inv(2) unfolding told_definitions_def by blast
  have "\<exists>nn d. ps_defs s nn = Some d \<and> ps_ParamKind (vap_Spec d) = Some kind" if running: "?P kind \<noteq> None"
  proof -
    obtain info where "?P kind = Some info" using running by blast
    then obtain nn i where i: "?D nn = Some i" "ps_ParamKind (vap_Spec (di_lastReconciledValue i)) = Some kind"
      using inv(1) unfolding params_inv_def by blast
    from rel [of nn] i assms(1) show ?thesis
      by (cases rule: option.rel_cases) (auto simp: DeepEqual_laws_def simp del: split_paired_Ex)
  qed
  moreover have "?P kind \<noteq> None" if d: "ps_defs s nn = Some d" "ps_ParamKind (vap_Spec d) = Some kind"
    and ok: "Option.bind (?D nn) di_configurationError = None" for nn d
  proof -
    from rel [of nn] d(1) obtain i where i: "?D nn = Some i"
      "pl_equalDefinitionSpec lib (vap_Spec (di_lastReconciledValue i)) (vap_Spec d)"
      by (cases rule: option.rel_cases) auto
    then have "di_configurationError i = None" "ps_ParamKind (vap_Spec (di_lastReconciledValue i)) = Some kind"
      using ok d(2) assms(1) by (auto simp: DeepEqual_laws_def)
    with i(1) inv(1) show ?thesis unfolding params_inv_def by blast
  qed
  ultimately show ?thesis by blast
qed

text \<open>
  A policy whose \<open>paramKind\<close> the REST mapper does not know is reported as a failure, to be retried, yet
  the retry sees an unchanged spec and returns at once: the configuration error stays, even
  when the mapper knows the kind by then.
\<close>

theorem failed_param_kind_is_final:
  assumes "DeepEqual_laws lib"
    and "reconcilePolicyDefinitionSpec lib restMapper namespace name (Some d) c0 = Some (Some err, c1)"
  shows "reconcilePolicyDefinitionSpec lib restMapper' namespace name (Some d) c1 = Some (None, c1) \<and>
    Option.bind (pcs_definitionInfo c1 (namespace, name)) di_configurationError = Some err"
proof -
  let ?nn = "(namespace, name)"
  from assms(2) obtain c2 where
    run: "reset_validators ?nn (release_old_param ?nn (ps_ParamKind (vap_Spec d)) (c0\<lparr>pcs_cachedPolicies := []\<rparr>)) = Some c2"
      "set_definition lib restMapper ?nn d c2 = (Some err, c1)"
    by (auto simp: reconcilePolicyDefinitionSpec_def getNamespaceName_def Let_def split: if_splits option.splits)
  have "c1 = store_definition ?nn (Some err) d c2"
    using run(2) by (auto simp: set_definition_def Let_def split: option.splits sum.splits)
  moreover have "pcs_cachedPolicies c2 = []" using reset_validators_fields(4) [OF run(1)] by simp
  ultimately have c1: "pcs_definitionInfo c1 ?nn = Some \<lparr>di_configurationError = Some err, di_lastReconciledValue = d\<rparr>"
    "c1\<lparr>pcs_cachedPolicies := []\<rparr> = c1" by simp_all
  then show ?thesis
    using assms(1)
    by (simp add: reconcilePolicyDefinitionSpec_def getNamespaceName_def Let_def spec_unchanged_def DeepEqual_laws_def)
qed

section \<open>Instances\<close>

text \<open>One policy with a kind of parameters and one binding of it; specs are compared by equality.\<close>

definition snap_meta :: "string \<Rightarrow> objectMeta" where
  "snap_meta n = \<lparr>om_name = n, om_generateName = [], om_namespace = [], om_selfLink = [], om_uid = [],
     om_resourceVersion = [], om_generation = 1, om_creationTimestamp = None, om_deletionTimestamp = None,
     om_deletionGracePeriodSeconds = None, om_labels = None, om_annotations = None, om_ownerReferences = None,
     om_finalizers = None, om_managedFields = None\<rparr>"

definition snap_kind :: paramKind where
  "snap_kind = \<lparr>pk_APIVersion = ''v1'', pk_Kind = ''ConfigMap''\<rparr>"

definition snap_policy :: validatingAdmissionPolicy where
  "snap_policy = \<lparr>vap_TypeMeta = \<lparr>tm_Kind = [], tm_APIVersion = []\<rparr>, vap_ObjectMeta = snap_meta ''p'',
     vap_Spec = \<lparr>ps_ParamKind = Some snap_kind, ps_MatchConstraints = None, ps_Validations = None, ps_FailurePolicy = None,
       ps_AuditAnnotations = None, ps_MatchConditions = None\<rparr>,
     vap_Status = \<lparr>pst_ObservedGeneration = 0, pst_TypeChecking = None, pst_Conditions = None\<rparr>\<rparr>"

definition snap_binding :: validatingAdmissionPolicyBinding where
  "snap_binding = \<lparr>vapb_TypeMeta = \<lparr>tm_Kind = [], tm_APIVersion = []\<rparr>, vapb_ObjectMeta = snap_meta ''b'',
     vapb_Spec = \<lparr>bs_PolicyName = ''p'', bs_ParamRef = None, bs_MatchResources = None, bs_ValidationActions = Some [Deny]\<rparr>\<rparr>"

definition snap_param_controller :: "unit param_controller" where
  "snap_param_controller = \<lparr>pc_WaitForCacheSync = True, pc_Get = (\<lambda>_. Inl (Plain ''not found'')),
     pc_NamespacedGet = (\<lambda>_ _. Inl (Plain ''not found''))\<rparr>"

definition snap_lib :: "(unit, unit) policy_lib" where
  "snap_lib = \<lparr>pl_equalDefinitionSpec = (=), pl_equalBindingSpec = (=),
     pl_compileProgram = (\<lambda>_ _ _. Inl ''undeclared reference''), pl_newParamController = (\<lambda>_ _. snap_param_controller),
     pl_authz = False\<rparr>"

definition snap_mapper :: rest_mapper where
  "snap_mapper k = (if gvk_Kind k = ''ConfigMap''
     then Inr \<lparr>gvr_Group = [], gvr_Version = ''v1'', gvr_Resource = ''configmaps''\<rparr> else Inl (Plain ''no match''))"

definition snap_start :: "(unit, unit) policy_sys" where
  "snap_start = \<lparr>ps_ctl = \<lparr>pcs_cachedPolicies = [], pcs_paramsCRDControllers = Map.empty, pcs_definitionInfo = Map.empty,
       pcs_bindingInfos = Map.empty, pcs_definitionsToBindings = Map.empty\<rparr>,
     ps_defs = Map.empty, ps_binds = Map.empty, ps_published = None\<rparr>"

definition snap_ctl :: "(unit, unit) policyController" where
  "snap_ctl = \<lparr>pcs_cachedPolicies = [],
     pcs_paramsCRDControllers = [snap_kind \<mapsto> \<lparr>pi_controller = snap_param_controller, pi_dependentDefinitions = {([], ''p'')}\<rparr>],
     pcs_definitionInfo = [([], ''p'') \<mapsto> \<lparr>di_configurationError = None, di_lastReconciledValue = snap_policy\<rparr>],
     pcs_bindingInfos = Map.empty, pcs_definitionsToBindings = Map.empty\<rparr>"

lemma snap_laws: "DeepEqual_laws snap_lib"
  by (simp add: DeepEqual_laws_def snap_lib_def)

lemma parse_v1: "ParseGroupVersion ''v1'' = Inr ([], ''v1'')"
  by code_simp

lemma snap_first:
  "reconcilePolicyDefinitionSpec snap_lib snap_mapper [] ''p'' (Some snap_policy) (ps_ctl snap_start) = Some (None, snap_ctl)"
  by (simp add: reconcilePolicyDefinitionSpec_def snap_start_def getNamespaceName_def spec_unchanged_def release_old_param_def
      old_param_kind_def reset_validators_def set_definition_def snap_policy_def snap_kind_def parse_v1 snap_mapper_def
      store_definition_def hold_param_def snap_ctl_def snap_lib_def fun_eq_iff Let_def)

definition snap_first_state :: "(unit, unit) policy_sys" where
  "snap_first_state = snap_start\<lparr>ps_ctl := snap_ctl, ps_defs := (ps_defs snap_start)(([], ''p'') := Some snap_policy)\<rparr>"

definition snap_state :: "(unit, unit) policy_sys" where
  "snap_state = snap_first_state\<lparr>
     ps_ctl := reconcilePolicyBinding snap_lib [] ''b'' (Some snap_binding) (ps_ctl snap_first_state),
     ps_binds := (ps_binds snap_first_state)(([], ''b'') := Some snap_binding)\<rparr>"

lemma snap_reachable: "policy_reachable snap_lib snap_first_state" "policy_reachable snap_lib snap_state"
proof -
  have "policy_reachable snap_lib snap_start" by (rule reach_start) (simp add: policy_start_def snap_start_def)
  moreover have "policy_step snap_lib snap_start snap_first_state"
    unfolding snap_first_state_def by (rule policy_step.reconcile_definition [OF _ snap_first]) simp
  ultimately show first: "policy_reachable snap_lib snap_first_state" by (rule reach_step)
  have "policy_step snap_lib snap_first_state snap_state"
    unfolding snap_state_def by (rule policy_step.reconcile_binding) simp
  with first show "policy_reachable snap_lib snap_state" by (rule reach_step)
qed

lemma snap_visits: "visits_policies [(([], ''p''), [([], ''b'')])] (ps_ctl snap_state)"
  by (simp add: visits_policies_def snap_state_def snap_first_state_def snap_ctl_def reconcilePolicyBinding_def getNamespaceName_def
      snap_binding_def dependents_def detach_binding_def attach_binding_def Let_def)

theorem policy_snapshot_is_current_witness:
  "\<exists>pds c. latestPolicyData snap_lib [(([], ''p''), [([], ''b'')])] (ps_ctl snap_state) = Some (pds, c) \<and>
     current_snapshot snap_lib [([], ''p'') \<mapsto> snap_policy] [([], ''b'') \<mapsto> snap_binding] pds"
  using policy_snapshot_is_current [OF snap_laws snap_reachable(2) snap_visits]
  by (simp add: snap_state_def snap_first_state_def snap_start_def)

theorem policy_controller_never_panics_witness:
  "reconcilePolicyDefinition snap_lib snap_mapper None [] ''p'' None (ps_ctl snap_state) \<noteq> None"
  by (rule policy_controller_never_panics [OF snap_reachable(2)]) simp

theorem param_controllers_match_policies_witness:
  "pcs_paramsCRDControllers (ps_ctl snap_first_state) snap_kind \<noteq> None \<and>
   (\<exists>nn d. ps_defs snap_first_state nn = Some d \<and> ps_ParamKind (vap_Spec d) = Some snap_kind)"
  using param_controllers_match_policies [OF snap_laws snap_reachable(1), of snap_kind]
  by (auto simp: snap_first_state_def snap_ctl_def)

theorem failed_param_kind_is_final_witness:
  "\<exists>err c1. reconcilePolicyDefinitionSpec snap_lib (\<lambda>_. Inl (Plain ''no match'')) [] ''p'' (Some snap_policy) (ps_ctl snap_start)
       = Some (Some err, c1) \<and>
     reconcilePolicyDefinitionSpec snap_lib snap_mapper [] ''p'' (Some snap_policy) c1 = Some (None, c1) \<and>
     Option.bind (pcs_definitionInfo c1 ([], ''p'')) di_configurationError = Some err"
proof -
  have "\<exists>err c1. reconcilePolicyDefinitionSpec snap_lib (\<lambda>_. Inl (Plain ''no match'')) [] ''p'' (Some snap_policy) (ps_ctl snap_start)
      = Some (Some err, c1)"
    by (simp add: reconcilePolicyDefinitionSpec_def snap_start_def getNamespaceName_def spec_unchanged_def release_old_param_def
        old_param_kind_def reset_validators_def set_definition_def snap_policy_def snap_kind_def parse_v1 Let_def)
  then show ?thesis using failed_param_kind_is_final [OF snap_laws] by blast
qed

end
