(* ===== verification/Rest_Mapper.thy ===== *)
theory Rest_Mapper
  imports Object_Tracker Scheme "HOL-Library.List_Lexorder" "HOL-Library.Char_ord"
begin

text \<open>
  The REST mapper of the polyfill command: the lazy loader that \<open>main.go\<close> builds over discovery, the
  goroutine that resets it every minute, and the vendored mappers behind it as far as the policy evaluator asks them:
  for the mapping of a kind (\<open>RESTMapping\<close>) and for the kinds of a resource (\<open>KindsFor\<close>).
\<close>

section \<open>Mappers\<close>

datatype rest_scope = ScopeNamespace | ScopeRoot

record rest_mapping =
  rm_Resource :: gvr
  rm_GroupVersionKind :: gvk
  rm_Scope :: rest_scope

datatype mapping_error =
    NoKindMatch string string "string list"
  | NoResourceMatch gvr
  | AmbiguousKind string string "gvk list"
  | ResourceMissing gvr
  | Aggregate "mapping_error list"
  | LoadError go_error

fun IsNoMatchError :: "mapping_error \<Rightarrow> bool" where
  "IsNoMatchError (NoKindMatch g k vs) \<longleftrightarrow> True"
| "IsNoMatchError (NoResourceMatch r) \<longleftrightarrow> True"
| "IsNoMatchError _ \<longleftrightarrow> False"

text \<open>\<open>DefaultRESTMapper\<close>.\<close>

record default_mapper =
  defaultGroupVersions :: "group_version list"
  resourceToKind :: "gvr \<rightharpoonup> gvk"
  kindToPluralResource :: "gvk \<rightharpoonup> gvr"
  kindToScope :: "gvk \<rightharpoonup> rest_scope"

definition NewDefaultRESTMapper :: "group_version list \<Rightarrow> default_mapper" where
  "NewDefaultRESTMapper gvs =
     \<lparr>defaultGroupVersions = gvs, resourceToKind = Map.empty, kindToPluralResource = Map.empty, kindToScope = Map.empty\<rparr>"

definition AddSpecific :: "gvk \<Rightarrow> gvr \<Rightarrow> gvr \<Rightarrow> rest_scope \<Rightarrow> default_mapper \<Rightarrow> default_mapper" where
  "AddSpecific kind plural singular scope m =
     m\<lparr>resourceToKind := (resourceToKind m)(singular \<mapsto> kind, plural \<mapsto> kind),
       kindToPluralResource := (kindToPluralResource m)(kind \<mapsto> plural), kindToScope := (kindToScope m)(kind \<mapsto> scope)\<rparr>"

text \<open>The second result of \<open>UnsafeGuessKindToResource\<close>.\<close>

definition guess_singular :: "gvk \<Rightarrow> gvr" where
  "guess_singular k =
     (if gvk_Kind k = [] then \<lparr>gvr_Group = [], gvr_Version = [], gvr_Resource = []\<rparr>
      else \<lparr>gvr_Group = gvk_Group k, gvr_Version = gvk_Version k, gvr_Resource = to_lower (gvk_Kind k)\<rparr>)"

definition mapper_Add :: "gvk \<Rightarrow> rest_scope \<Rightarrow> default_mapper \<Rightarrow> default_mapper" where
  "mapper_Add kind scope m = AddSpecific kind (UnsafeGuessKindToResource kind) (guess_singular kind) scope m"

text \<open>The first asked version that is known; the default versions when none was asked for.\<close>

definition with_version_of :: "string \<Rightarrow> string \<Rightarrow> string \<Rightarrow> gvk" where
  "with_version_of grp kind version = \<lparr>gvk_Group = grp, gvk_Version = version, gvk_Kind = kind\<rparr>"

definition potentialGVK :: "default_mapper \<Rightarrow> string \<Rightarrow> string \<Rightarrow> string list \<Rightarrow> gvk list" where
  "potentialGVK m grp kind versions =
     (let asked = filter (\<lambda>v. \<not> (v = [] \<or> v = APIVersionInternal)) versions;
          known = filter (\<lambda>v. kindToPluralResource m (with_version_of grp kind v) \<noteq> None) asked
      in if asked \<noteq> [] then map (with_version_of grp kind) (take 1 known)
         else map (\<lambda>gv. with_version_of grp kind (gv_Version gv))
           (filter (\<lambda>gv. gv_Group gv = grp) (defaultGroupVersions m)))"

fun collect_mappings :: "default_mapper \<Rightarrow> gvk list \<Rightarrow> mapping_error + rest_mapping list" where
  "collect_mappings m [] = Inr []"
| "collect_mappings m (gvk # gvks) =
     (case kindToPluralResource m gvk of
        None \<Rightarrow> collect_mappings m gvks
      | Some res \<Rightarrow>
          (case kindToScope m gvk of
             None \<Rightarrow> Inl (LoadError (Plain (''the provided version '' @ quote (gv_string (GroupVersion_of gvk)) @
               '' and kind '' @ quote (gvk_Kind gvk) @ '' cannot be mapped to a supported scope'')))
           | Some scope \<Rightarrow>
               (case collect_mappings m gvks of
                  Inl err \<Rightarrow> Inl err
                | Inr ms \<Rightarrow> Inr (\<lparr>rm_Resource = res, rm_GroupVersionKind = gvk, rm_Scope = scope\<rparr> # ms))))"

definition default_RESTMappings ::
  "default_mapper \<Rightarrow> string \<Rightarrow> string \<Rightarrow> string list \<Rightarrow> mapping_error + rest_mapping list" where
  "default_RESTMappings m grp kind versions =
     (if potentialGVK m grp kind versions = [] then Inl (NoKindMatch grp kind versions)
      else (case collect_mappings m (potentialGVK m grp kind versions) of
              Inl err \<Rightarrow> Inl err
            | Inr [] \<Rightarrow> Inl (NoResourceMatch \<lparr>gvr_Group = grp, gvr_Version = [], gvr_Resource = kind\<rparr>)
            | Inr ms \<Rightarrow> Inr ms))"

text \<open>
  \<open>KindsFor\<close> of a default mapper. Go visits the map \<open>resourceToKind\<close> in an order of its own, here \<open>order\<close>; the kinds
  found are sorted by \<open>kindByPreferredGroupVersion\<close>, by insertion as Go does for up to twelve.
\<close>

definition coerceResourceForMatching :: "gvr \<Rightarrow> gvr" where
  "coerceResourceForMatching r =
     r\<lparr>gvr_Resource := to_lower (gvr_Resource r),
       gvr_Version := (if gvr_Version r = APIVersionInternal then [] else gvr_Version r)\<rparr>"

definition last_position :: "'a \<Rightarrow> 'a list \<Rightarrow> int" where
  "last_position x xs = (if x \<in> set xs then int (length xs) - 1 - int (length (takeWhile (\<lambda>y. y \<noteq> x) (rev xs))) else - 1)"

definition kind_before :: "group_version list \<Rightarrow> gvk \<Rightarrow> gvk \<Rightarrow> bool" where
  "kind_before sortOrder lhs rhs =
     (if lhs = rhs then False
      else if GroupVersion_of lhs = GroupVersion_of rhs then gvk_Kind lhs < gvk_Kind rhs
      else if last_position (GroupVersion_of rhs) sortOrder = - 1 then True
      else last_position (GroupVersion_of lhs) sortOrder < last_position (GroupVersion_of rhs) sortOrder)"

definition insert_from_right :: "('a \<Rightarrow> 'a \<Rightarrow> bool) \<Rightarrow> 'a list \<Rightarrow> 'a \<Rightarrow> 'a list" where
  "insert_from_right before xs x = rev (takeWhile (before x) (rev xs) @ x # dropWhile (before x) (rev xs))"

definition visit_kinds :: "gvr list \<Rightarrow> default_mapper \<Rightarrow> (gvr \<Rightarrow> bool) \<Rightarrow> gvk list" where
  "visit_kinds order m matches =
     concat (map (\<lambda>r. case resourceToKind m r of Some k \<Rightarrow> if matches r then [k] else [] | None \<Rightarrow> []) order)"

definition matching_kinds :: "gvr list \<Rightarrow> default_mapper \<Rightarrow> gvr \<Rightarrow> gvk list" where
  "matching_kinds order m resource =
     (let hasGroup = gvr_Group resource \<noteq> []; hasVersion = gvr_Version resource \<noteq> [];
          same = (\<lambda>r. gvr_Resource r = gvr_Resource resource) in
      if hasGroup \<and> hasVersion then (case resourceToKind m resource of Some k \<Rightarrow> [k] | None \<Rightarrow> [])
      else if hasGroup
      then (let exact = visit_kinds order m (\<lambda>r. GroupResource r = GroupResource resource)
            in if exact \<noteq> [] then exact
               else visit_kinds order m (\<lambda>r. prefix (gvr_Group resource) (gvr_Group r) \<and> same r))
      else if hasVersion then visit_kinds order m (\<lambda>r. gvr_Version r = gvr_Version resource \<and> same r)
      else visit_kinds order m same)"

definition default_KindsFor :: "gvr list \<Rightarrow> default_mapper \<Rightarrow> gvr \<Rightarrow> mapping_error + gvk list" where
  "default_KindsFor order m input =
     (let resource = coerceResourceForMatching input in
      if length (gvr_Resource resource) = 0 then Inl (ResourceMissing resource)
      else
        (let ret = matching_kinds order m resource in
         if length ret = 0 then Inl (NoResourceMatch input)
         else Inr (foldl (insert_from_right (kind_before (defaultGroupVersions m))) [] ret)))"

text \<open>\<open>MultiRESTMapper\<close> over default mappers: what does not match is skipped, other errors are collected.\<close>

definition lefts :: "('a + 'b) list \<Rightarrow> 'a list" where
  "lefts rs = concat (map (\<lambda>r. case r of Inl e \<Rightarrow> [e] | Inr _ \<Rightarrow> []) rs)"

definition rights :: "('a + 'b) list \<Rightarrow> 'b list" where
  "rights rs = concat (map (\<lambda>r. case r of Inl _ \<Rightarrow> [] | Inr x \<Rightarrow> [x]) rs)"

definition multi_RESTMappings ::
  "default_mapper list \<Rightarrow> string \<Rightarrow> string \<Rightarrow> string list \<Rightarrow> mapping_error + rest_mapping list" where
  "multi_RESTMappings mappers grp kind versions =
     (let answers = map (\<lambda>t. default_RESTMappings t grp kind versions) mappers;
          errors = filter (\<lambda>e. \<not> IsNoMatchError e) (lefts answers);
          allMappings = concat (rights answers)
      in if errors \<noteq> [] then Inl (Aggregate errors)
         else if allMappings = [] then Inl (NoKindMatch grp kind versions)
         else Inr allMappings)"

text \<open>Its \<open>KindsFor\<close> stops at the first error that is no missing match and drops duplicates.\<close>

fun multi_kinds :: "(default_mapper \<Rightarrow> gvr list) \<Rightarrow> default_mapper list \<Rightarrow> gvr \<Rightarrow> gvk list \<Rightarrow> mapping_error + gvk list" where
  "multi_kinds order [] resource allGVKs = (if length allGVKs = 0 then Inl (NoResourceMatch resource) else Inr allGVKs)"
| "multi_kinds order (t # ts) resource allGVKs =
     (case default_KindsFor (order t) t resource of
        Inl err \<Rightarrow> if IsNoMatchError err then multi_kinds order ts resource allGVKs else Inl err
      | Inr gvks \<Rightarrow> multi_kinds order ts resource (foldl (\<lambda>ks k. if k \<in> set ks then ks else ks @ [k]) allGVKs gvks))"

definition multi_KindsFor :: "(default_mapper \<Rightarrow> gvr list) \<Rightarrow> default_mapper list \<Rightarrow> gvr \<Rightarrow> mapping_error + gvk list" where
  "multi_KindsFor order mappers resource = multi_kinds order mappers resource []"

text \<open>\<open>PriorityRESTMapper\<close>.\<close>

definition AnyX :: string where
  "AnyX = ''*''"

definition kindMatches :: "gvk \<Rightarrow> gvk \<Rightarrow> bool" where
  "kindMatches pattern kind \<longleftrightarrow>
     (gvk_Group pattern = AnyX \<or> gvk_Group pattern = gvk_Group kind) \<and>
     (gvk_Version pattern = AnyX \<or> gvk_Version pattern = gvk_Version kind) \<and>
     (gvk_Kind pattern = AnyX \<or> gvk_Kind pattern = gvk_Kind kind)"

record priority_mapper =
  pm_Delegate :: "default_mapper list"
  pm_KindPriority :: "gvk list"

fun narrow :: "gvk list \<Rightarrow> rest_mapping list \<Rightarrow> rest_mapping list" where
  "narrow [] remaining = remaining"
| "narrow (pattern # patterns) remaining =
     (let matching = filter (\<lambda>m. kindMatches pattern (rm_GroupVersionKind m)) remaining in
      case matching of
        [] \<Rightarrow> narrow patterns remaining
      | [m] \<Rightarrow> [m]
      | _ \<Rightarrow> narrow patterns matching)"

definition priority_RESTMapping ::
  "priority_mapper \<Rightarrow> string \<Rightarrow> string \<Rightarrow> string list \<Rightarrow> mapping_error + rest_mapping" where
  "priority_RESTMapping pm grp kind versions =
     (case multi_RESTMappings (pm_Delegate pm) grp kind versions of
        Inl err \<Rightarrow> Inl err
      | Inr mappings \<Rightarrow>
          (case narrow (map (\<lambda>v. \<lparr>gvk_Group = grp, gvk_Version = v, gvk_Kind = AnyX\<rparr>) versions @ pm_KindPriority pm)
              mappings of
             [m] \<Rightarrow> Inr m
           | _ \<Rightarrow> Inl (AmbiguousKind grp kind (map rm_GroupVersionKind mappings))))"

definition priority_KindsFor :: "(default_mapper \<Rightarrow> gvr list) \<Rightarrow> priority_mapper \<Rightarrow> gvr \<Rightarrow> mapping_error + gvk list" where
  "priority_KindsFor order m resource = multi_KindsFor order (pm_Delegate m) resource"

section \<open>Mappers from discovery\<close>

text \<open>What discovery knows of a resource, and the versions of a group with their resources.\<close>

record api_resource =
  ar_Name :: string
  ar_SingularName :: string
  ar_Kind :: string
  ar_Namespaced :: bool

record api_group =
  ag_Name :: string
  ag_Versions :: "string list"
  ag_PreferredVersion :: string

record group_resources =
  gr_APIGroup :: api_group
  gr_VersionedResources :: "string \<rightharpoonup> api_resource list"

type_synonym discovery = "go_error + api_group list \<times> (group_version \<times> api_resource list) list"

text \<open>\<open>GetAPIGroupResources\<close>: of two lists for one group version the later one counts.\<close>

definition GetAPIGroupResources :: "discovery \<Rightarrow> go_error + group_resources list" where
  "GetAPIGroupResources d =
     (case d of
        Inl err \<Rightarrow> Inl err
      | Inr (gs, rs) \<Rightarrow>
          Inr (map (\<lambda>g. \<lparr>gr_APIGroup = g,
            gr_VersionedResources = (\<lambda>v. if v \<in> set (ag_Versions g)
              then map_of (rev rs) \<lparr>gv_Group = ag_Name g, gv_Version = v\<rparr> else None)\<rparr>) gs))"

definition add_resource :: "group_version \<Rightarrow> api_resource \<Rightarrow> default_mapper \<Rightarrow> default_mapper" where
  "add_resource gv resource m =
     (if contains (ar_Name resource) ''/'' then m
      else
        (let scope = (if ar_Namespaced resource then ScopeNamespace else ScopeRoot);
             plural = \<lparr>gvr_Group = gv_Group gv, gvr_Version = gv_Version gv, gvr_Resource = ar_Name resource\<rparr>;
             singular = (if length (ar_SingularName resource) = 0 then guess_singular (WithKind gv (ar_Kind resource))
               else \<lparr>gvr_Group = gv_Group gv, gvr_Version = gv_Version gv, gvr_Resource = ar_SingularName resource\<rparr>)
         in mapper_Add (WithKind gv (ar_Kind resource @ ''List'')) scope
              (AddSpecific (WithKind gv (ar_Kind resource)) plural singular scope
                (AddSpecific (WithKind gv (to_lower (ar_Kind resource))) plural singular scope m))))"

definition version_mapper :: "group_version \<Rightarrow> api_resource list \<Rightarrow> default_mapper" where
  "version_mapper gv resources =
     mapper_Add (WithKind gv ''List'') ScopeRoot (fold (add_resource gv) resources (NewDefaultRESTMapper [gv]))"

definition version_mappers :: "group_resources \<Rightarrow> string \<Rightarrow> default_mapper list" where
  "version_mappers g v =
     (case gr_VersionedResources g v of
        None \<Rightarrow> []
      | Some resources \<Rightarrow> [version_mapper \<lparr>gv_Group = ag_Name (gr_APIGroup g), gv_Version = v\<rparr> resources])"

definition group_mappers :: "group_resources \<Rightarrow> default_mapper list" where
  "group_mappers g = concat (map (version_mappers g) (ag_Versions (gr_APIGroup g)))"

definition group_kind_priority :: "group_resources \<Rightarrow> gvk list" where
  "group_kind_priority g =
     (let name = ag_Name (gr_APIGroup g); preferred = ag_PreferredVersion (gr_APIGroup g) in
      (if preferred \<noteq> [] \<and> gr_VersionedResources g preferred \<noteq> None then [with_version_of name AnyX preferred] else []) @
      concat (map (\<lambda>v. if gr_VersionedResources g v \<noteq> None \<and> v \<noteq> preferred then [with_version_of name AnyX v] else [])
        (ag_Versions (gr_APIGroup g))))"

definition NewDiscoveryRESTMapper :: "group_resources list \<Rightarrow> priority_mapper" where
  "NewDiscoveryRESTMapper groupResources =
     \<lparr>pm_Delegate = concat (map group_mappers groupResources),
      pm_KindPriority = with_version_of [] AnyX ''v1'' # concat (map group_kind_priority groupResources) @
        map (\<lambda>g. with_version_of (ag_Name (gr_APIGroup g)) AnyX AnyX) groupResources\<rparr>"

section \<open>The lazy loader and its refreshing\<close>

text \<open>The loader function of \<open>main\<close>, which asks discovery.\<close>

definition main_mapper_loader :: "discovery \<Rightarrow> go_error + priority_mapper" where
  "main_mapper_loader d =
     (case GetAPIGroupResources d of
        Inl err \<Rightarrow> Inl err
      | Inr groupResources \<Rightarrow> Inr (NewDiscoveryRESTMapper groupResources))"

text \<open>
  \<open>lazyObject\<close>: \<open>lz_loaded\<close> holds the mapper or the error once it has been loaded. The lock makes
  \<open>init\<close> and \<open>Reset\<close> one step each.
\<close>

record lazy_object =
  lz_loaded :: "(go_error + priority_mapper) option"

definition NewLazyRESTMapperLoader :: lazy_object where
  "NewLazyRESTMapperLoader = \<lparr>lz_loaded = None\<rparr>"

definition lazy_init :: "discovery \<Rightarrow> lazy_object \<Rightarrow> lazy_object" where
  "lazy_init d lz = (case lz_loaded lz of Some _ \<Rightarrow> lz | None \<Rightarrow> lz\<lparr>lz_loaded := Some (main_mapper_loader d)\<rparr>)"

definition lazy_RESTMapping ::
  "discovery \<Rightarrow> string \<Rightarrow> string \<Rightarrow> string list \<Rightarrow> lazy_object \<Rightarrow> (mapping_error + rest_mapping) \<times> lazy_object" where
  "lazy_RESTMapping d grp kind versions lz =
     (let lz' = lazy_init d lz in
      (case lz_loaded lz' of
         Some (Inr m) \<Rightarrow> priority_RESTMapping m grp kind versions
       | Some (Inl err) \<Rightarrow> Inl (LoadError err)
       | None \<Rightarrow> Inl (NoKindMatch grp kind versions), lz'))"

definition lazy_KindsFor ::
  "(default_mapper \<Rightarrow> gvr list) \<Rightarrow> discovery \<Rightarrow> gvr \<Rightarrow> lazy_object \<Rightarrow> (mapping_error + gvk list) \<times> lazy_object" where
  "lazy_KindsFor order d resource lz =
     (let lz' = lazy_init d lz in
      (case lz_loaded lz' of
         Some (Inr m) \<Rightarrow> priority_KindsFor order m resource
       | Some (Inl err) \<Rightarrow> Inl (LoadError err)
       | None \<Rightarrow> Inl (NoResourceMatch resource), lz'))"

text \<open>
  \<open>Reset\<close> passes the reset on to a mapper that can be reset, and so do the priority and the multi
  mapper; the default mappers below cannot, so nothing is left to do.
\<close>

definition default_reset :: "default_mapper \<Rightarrow> default_mapper" where
  "default_reset m = m"

definition multi_Reset :: "default_mapper list \<Rightarrow> default_mapper list" where
  "multi_Reset ms = map default_reset ms"

definition priority_Reset :: "priority_mapper \<Rightarrow> priority_mapper" where
  "priority_Reset pm = pm\<lparr>pm_Delegate := multi_Reset (pm_Delegate pm)\<rparr>"

definition lazy_Reset :: "lazy_object \<Rightarrow> lazy_object" where
  "lazy_Reset lz =
     (case lz_loaded lz of Some (Inr m) \<Rightarrow> lz\<lparr>lz_loaded := Some (Inr (priority_Reset m))\<rparr> | _ \<Rightarrow> lz)"

text \<open>
  The life of the mapper in the command: discovery changes, the evaluator asks, and a tick of the
  minute resets. The logs have the questions of both sorts with their answers.
\<close>

record mapper_sys =
  ms_discovery :: discovery
  ms_mapper :: lazy_object
  ms_answers :: "((string \<times> string \<times> string list) \<times> (mapping_error + rest_mapping)) list"
  ms_kinds :: "(gvr \<times> (mapping_error + gvk list)) list"

definition visits_resources :: "(default_mapper \<Rightarrow> gvr list) \<Rightarrow> bool" where
  "visits_resources order \<longleftrightarrow>
     (\<forall>t. finite (dom (resourceToKind t)) \<longrightarrow> distinct (order t) \<and> set (order t) = dom (resourceToKind t))"

inductive mapper_step :: "mapper_sys \<Rightarrow> mapper_sys \<Rightarrow> bool" where
  discovery_changes: "mapper_step s (s\<lparr>ms_discovery := d\<rparr>)"
| minute: "mapper_step s (s\<lparr>ms_mapper := lazy_Reset (ms_mapper s)\<rparr>)"
| ask:
    "lazy_RESTMapping (ms_discovery s) grp kind versions (ms_mapper s) = (a, m) \<Longrightarrow>
     mapper_step s (s\<lparr>ms_mapper := m, ms_answers := ms_answers s @ [((grp, kind, versions), a)]\<rparr>)"
| ask_kinds:
    "visits_resources order \<Longrightarrow> lazy_KindsFor order (ms_discovery s) resource (ms_mapper s) = (a, m) \<Longrightarrow>
     mapper_step s (s\<lparr>ms_mapper := m, ms_kinds := ms_kinds s @ [(resource, a)]\<rparr>)"

definition mapper_starts :: "mapper_sys \<Rightarrow> bool" where
  "mapper_starts s \<longleftrightarrow> ms_mapper s = NewLazyRESTMapperLoader \<and> ms_answers s = [] \<and> ms_kinds s = []"

section \<open>A reset changes nothing\<close>

fun answer_for :: "discovery \<Rightarrow> string \<times> string \<times> string list \<Rightarrow> mapping_error + rest_mapping" where
  "answer_for d (grp, kind, versions) =
     (case main_mapper_loader d of
        Inl err \<Rightarrow> Inl (LoadError err)
      | Inr m \<Rightarrow> priority_RESTMapping m grp kind versions)"

definition kinds_for_resource :: "(default_mapper \<Rightarrow> gvr list) \<Rightarrow> discovery \<Rightarrow> gvr \<Rightarrow> mapping_error + gvk list" where
  "kinds_for_resource order d resource =
     (case main_mapper_loader d of
        Inl err \<Rightarrow> Inl (LoadError err)
      | Inr m \<Rightarrow> priority_KindsFor order m resource)"

definition answers_of :: "discovery \<Rightarrow> mapper_sys \<Rightarrow> bool" where
  "answers_of d s \<longleftrightarrow>
     list_all (\<lambda>(q, a). a = answer_for d q) (ms_answers s) \<and>
     list_all (\<lambda>(r, a). \<exists>order. visits_resources order \<and> a = kinds_for_resource order d r) (ms_kinds s)"

lemma lazy_Reset_id [simp]: "lazy_Reset lz = lz"
proof -
  have "multi_Reset ms = ms" for ms by (induction ms) (simp_all add: multi_Reset_def default_reset_def)
  then show ?thesis by (cases lz) (auto simp: lazy_Reset_def priority_Reset_def split: option.split sum.split)
qed

text \<open>
  Once the mapper has been loaded from a discovery it stays with it, and it is loaded by the first question.
\<close>

definition frozen_at :: "discovery \<Rightarrow> mapper_sys \<Rightarrow> bool" where
  "frozen_at d s \<longleftrightarrow> lz_loaded (ms_mapper s) = Some (main_mapper_loader d) \<and> answers_of d s"

definition asked :: "mapper_sys \<Rightarrow> bool" where
  "asked s \<longleftrightarrow> ms_answers s \<noteq> [] \<or> ms_kinds s \<noteq> []"

definition mapper_inv :: "mapper_sys \<Rightarrow> bool" where
  "mapper_inv s \<longleftrightarrow> (lz_loaded (ms_mapper s) = None \<longleftrightarrow> \<not> asked s)"

lemma question_freezes:
  assumes "mapper_step s t" and "mapper_inv s" "\<not> asked s" "asked t"
  shows "frozen_at (ms_discovery s) t"
  using assms
  by cases (auto simp: mapper_inv_def frozen_at_def asked_def answers_of_def lazy_RESTMapping_def lazy_KindsFor_def
      lazy_init_def kinds_for_resource_def Let_def split: sum.splits)

interpretation mapper_life: invariant_system mapper_starts mapper_step mapper_inv
proof
  fix s assume "mapper_starts s"
  then show "mapper_inv s" by (simp add: mapper_starts_def mapper_inv_def asked_def NewLazyRESTMapperLoader_def)
next
  fix s t assume "mapper_step s t" "mapper_inv s"
  then show "mapper_inv t"
    by cases (auto simp: mapper_inv_def asked_def lazy_RESTMapping_def lazy_KindsFor_def lazy_init_def Let_def
        split: option.splits)
qed

interpretation frozen: invariant_system "frozen_at d" mapper_step "frozen_at d" for d
proof
  fix s t assume "mapper_step s t" "frozen_at d s"
  then show "frozen_at d t"
    by cases (auto simp: frozen_at_def answers_of_def lazy_RESTMapping_def lazy_KindsFor_def lazy_init_def
        kinds_for_resource_def Let_def split: sum.splits)
qed

section \<open>What discovery is turned into\<close>

text \<open>
  The kinds a resource is entered under: its kind, that kind in lower case, and the guessed list kind.
\<close>

definition entered :: "api_resource \<Rightarrow> string set" where
  "entered r = (if contains (ar_Name r) ''/'' then {} else {ar_Kind r, to_lower (ar_Kind r), ar_Kind r @ ''List''})"

definition resource_gvr :: "group_version \<Rightarrow> api_resource \<Rightarrow> gvr" where
  "resource_gvr gv r = \<lparr>gvr_Group = gv_Group gv, gvr_Version = gv_Version gv, gvr_Resource = ar_Name r\<rparr>"

definition resource_scope :: "api_resource \<Rightarrow> rest_scope" where
  "resource_scope r = (if ar_Namespaced r then ScopeNamespace else ScopeRoot)"

lemma WithKind_eq [simp]: "WithKind gv k = WithKind gv k' \<longleftrightarrow> k = k'"
  by (simp add: WithKind_def)

lemma add_resource_other:
  "k \<notin> entered r \<Longrightarrow> kindToPluralResource (add_resource gv r m) (WithKind gv k) = kindToPluralResource m (WithKind gv k)"
  "k \<notin> entered r \<Longrightarrow> kindToScope (add_resource gv r m) (WithKind gv k) = kindToScope m (WithKind gv k)"
  by (auto simp: entered_def add_resource_def mapper_Add_def AddSpecific_def Let_def split: if_splits)

lemma add_resource_own:
  assumes "\<not> contains (ar_Name r) ''/''"
  shows "kindToPluralResource (add_resource gv r m) (WithKind gv (ar_Kind r)) = Some (resource_gvr gv r)"
    and "kindToScope (add_resource gv r m) (WithKind gv (ar_Kind r)) = Some (resource_scope r)"
  using assms
  by (simp_all add: add_resource_def mapper_Add_def AddSpecific_def Let_def resource_gvr_def resource_scope_def)

lemma fold_resources_other:
  "\<forall>r\<in>set rs. k \<notin> entered r \<Longrightarrow>
     kindToPluralResource (fold (add_resource gv) rs m) (WithKind gv k) = kindToPluralResource m (WithKind gv k) \<and>
     kindToScope (fold (add_resource gv) rs m) (WithKind gv k) = kindToScope m (WithKind gv k)"
  by (induction rs arbitrary: m) (simp_all add: add_resource_other)

text \<open>
  A resource whose kind no later resource takes over, and which is not a list, is mapped to itself.
\<close>

definition own_kind :: "api_resource list \<Rightarrow> api_resource \<Rightarrow> bool" where
  "own_kind resources r \<longleftrightarrow>
     \<not> contains (ar_Name r) ''/'' \<and> ar_Kind r \<noteq> ''List'' \<and>
     (\<exists>before after. resources = before @ r # after \<and> (\<forall>r'\<in>set after. ar_Kind r \<notin> entered r'))"

lemma version_mapper_own:
  assumes "own_kind resources r"
  shows "kindToPluralResource (version_mapper gv resources) (WithKind gv (ar_Kind r)) = Some (resource_gvr gv r)"
    and "kindToScope (version_mapper gv resources) (WithKind gv (ar_Kind r)) = Some (resource_scope r)"
proof -
  obtain bs as where "resources = bs @ r # as" "\<forall>r'\<in>set as. ar_Kind r \<notin> entered r'"
    and r: "\<not> contains (ar_Name r) ''/''" "ar_Kind r \<noteq> ''List''"
    using assms by (auto simp: own_kind_def)
  then show "kindToPluralResource (version_mapper gv resources) (WithKind gv (ar_Kind r)) = Some (resource_gvr gv r)"
    "kindToScope (version_mapper gv resources) (WithKind gv (ar_Kind r)) = Some (resource_scope r)"
    using fold_resources_other [of as "ar_Kind r" gv] add_resource_own [OF r(1)]
    by (simp_all add: version_mapper_def mapper_Add_def AddSpecific_def)
qed

text \<open>A version mapper knows kinds of its own group version only.\<close>

lemma add_resource_version:
  assumes "kindToPluralResource (add_resource gv r m) k \<noteq> None"
  shows "kindToPluralResource m k \<noteq> None \<or> GroupVersion_of k = gv"
  using assms
  by (auto simp: add_resource_def mapper_Add_def AddSpecific_def Let_def WithKind_def GroupVersion_of_def split: if_splits)

lemma version_mapper_version:
  assumes "kindToPluralResource (version_mapper gv rs) k \<noteq> None"
  shows "GroupVersion_of k = gv"
proof -
  have "kindToPluralResource (fold (add_resource gv) rs m) k \<noteq> None \<Longrightarrow>
      kindToPluralResource m k \<noteq> None \<or> GroupVersion_of k = gv" for m
  proof (induction rs arbitrary: m)
    case (Cons r rs)
    then show ?case using Cons.IH [of "add_resource gv r m"] add_resource_version [of gv r m k] by auto
  qed simp
  from this [of "NewDefaultRESTMapper [gv]"] assms show ?thesis
    by (auto simp: version_mapper_def mapper_Add_def AddSpecific_def NewDefaultRESTMapper_def WithKind_def
        GroupVersion_of_def split: if_splits)
qed

lemma mappings_of_version:
  assumes "v \<noteq> []" "v \<noteq> APIVersionInternal"
  shows "default_RESTMappings (version_mapper gv rs) grp kind [v] =
    (if gv = \<lparr>gv_Group = grp, gv_Version = v\<rparr> \<and> kindToPluralResource (version_mapper gv rs) (WithKind gv kind) \<noteq> None
     then collect_mappings (version_mapper gv rs) [WithKind gv kind] else Inl (NoKindMatch grp kind [v]))"
proof -
  have "potentialGVK (version_mapper gv rs) grp kind [v] =
      (if kindToPluralResource (version_mapper gv rs) (with_version_of grp kind v) \<noteq> None
       then [with_version_of grp kind v] else [])"
    using assms by (simp add: potentialGVK_def Let_def)
  moreover have "kindToPluralResource (version_mapper gv rs) (with_version_of grp kind v) \<noteq> None \<longleftrightarrow>
      gv = \<lparr>gv_Group = grp, gv_Version = v\<rparr> \<and> kindToPluralResource (version_mapper gv rs) (WithKind gv kind) \<noteq> None"
    using version_mapper_version [of gv rs "with_version_of grp kind v"]
    by (auto simp: with_version_of_def WithKind_def GroupVersion_of_def)
  moreover have "gv = \<lparr>gv_Group = grp, gv_Version = v\<rparr> \<Longrightarrow> with_version_of grp kind v = WithKind gv kind"
    by (simp add: with_version_of_def WithKind_def)
  ultimately show ?thesis
    by (auto simp: default_RESTMappings_def split: option.splits sum.splits list.splits)
qed

text \<open>One match among several mappers is the answer, whatever the priorities.\<close>

lemma narrow_single: "narrow ps [m] = [m]"
  by (induction ps) (simp_all add: Let_def)

lemma multi_single:
  assumes "default_RESTMappings t grp kind vs = Inr [m]"
    and "\<forall>u\<in>set bs \<union> set as. \<exists>e. default_RESTMappings u grp kind vs = Inl e \<and> IsNoMatchError e"
  shows "multi_RESTMappings (bs @ t # as) grp kind vs = Inr [m]"
proof -
  let ?a = "\<lambda>t. default_RESTMappings t grp kind vs"
  have skip: "filter (\<lambda>e. \<not> IsNoMatchError e) (lefts (map ?a us)) = [] \<and> concat (rights (map ?a us)) = []"
    if "\<forall>t\<in>set us. \<exists>e. ?a t = Inl e \<and> IsNoMatchError e" for us
    using that by (induction us) (auto simp: lefts_def rights_def)
  have app: "lefts (xs @ ys) = lefts xs @ lefts ys" "rights (xs @ ys) = rights xs @ rights ys"
    for xs ys :: "(mapping_error + rest_mapping list) list" by (simp_all add: lefts_def rights_def)
  have one: "lefts (?a t # xs) = lefts xs" "rights (?a t # xs) = [m] # rights xs" for xs
    using assms(1) by (simp_all add: lefts_def rights_def)
  show ?thesis
    using skip [of bs] skip [of as] assms(2)
    by (simp add: multi_RESTMappings_def Let_def app one del: concat_eq_Nil_conv)
qed

lemma group_mappers_version:
  "t \<in> set (group_mappers g) \<Longrightarrow>
     \<exists>v rs. v \<in> set (ag_Versions (gr_APIGroup g)) \<and> t = version_mapper \<lparr>gv_Group = ag_Name (gr_APIGroup g), gv_Version = v\<rparr> rs"
  by (auto simp: group_mappers_def version_mappers_def split: option.splits)

lemma discovered_mapping:
  assumes d: "main_mapper_loader (Inr (groups, rs)) = Inr pm"
    and groups: "groups = gb @ g # ga" "distinct (map ag_Name groups)"
    and vs: "ag_Versions g = vb @ v # va" "distinct (ag_Versions g)" "v \<noteq> []" "v \<noteq> APIVersionInternal"
    and resources: "map_of (rev rs) \<lparr>gv_Group = ag_Name g, gv_Version = v\<rparr> = Some resources" "own_kind resources r"
  shows "priority_RESTMapping pm (ag_Name g) (ar_Kind r) [v] =
    Inr \<lparr>rm_Resource = resource_gvr \<lparr>gv_Group = ag_Name g, gv_Version = v\<rparr> r,
      rm_GroupVersionKind = with_version_of (ag_Name g) (ar_Kind r) v, rm_Scope = resource_scope r\<rparr>"
proof -
  let ?gv = "\<lparr>gv_Group = ag_Name g, gv_Version = v\<rparr>"
  let ?res = "\<lambda>h. \<lparr>gr_APIGroup = h, gr_VersionedResources = (\<lambda>v. if v \<in> set (ag_Versions h)
              then map_of (rev rs) \<lparr>gv_Group = ag_Name h, gv_Version = v\<rparr> else None)\<rparr>"
  let ?ms = "version_mappers (?res g)"
  let ?b = "concat (map (\<lambda>h. group_mappers (?res h)) gb) @ concat (map ?ms vb)"
    and ?a = "concat (map ?ms va) @ concat (map (\<lambda>h. group_mappers (?res h)) ga)"
  have "group_mappers (?res g) = concat (map ?ms vb) @ version_mapper ?gv resources # concat (map ?ms va)"
    using vs(1) resources(1) by (simp add: group_mappers_def version_mappers_def [of _ v])
  then have pm: "pm_Delegate pm = ?b @ version_mapper ?gv resources # ?a"
    using d groups(1) by (auto simp: main_mapper_loader_def GetAPIGroupResources_def NewDiscoveryRESTMapper_def o_def)
  have others: "\<exists>gv rs. t = version_mapper gv rs \<and> gv \<noteq> ?gv" if t: "t \<in> set ?b \<union> set ?a" for t
  proof -
    consider h where "h \<in> set gb \<union> set ga" "t \<in> set (group_mappers (?res h))"
      | u where "u \<in> set vb \<union> set va" "t \<in> set (?ms u)" using t by auto
    then show ?thesis
    proof cases
      case 1
      then obtain u rs' where "t = version_mapper \<lparr>gv_Group = ag_Name h, gv_Version = u\<rparr> rs'"
        using group_mappers_version [of t "?res h"] by auto
      moreover have "ag_Name h \<noteq> ag_Name g" using 1(1) groups by (auto; metis image_eqI)
      ultimately show ?thesis by (metis group_version.select_convs(1))
    next
      case 2
      then show ?thesis using vs(1,2) by (auto simp: version_mappers_def split: option.splits if_splits)
    qed
  qed
  have "default_RESTMappings (version_mapper ?gv resources) (ag_Name g) (ar_Kind r) [v] =
      Inr [\<lparr>rm_Resource = resource_gvr ?gv r, rm_GroupVersionKind = WithKind ?gv (ar_Kind r), rm_Scope = resource_scope r\<rparr>]"
    using version_mapper_own [OF resources(2), of ?gv] vs(3,4) by (simp add: mappings_of_version)
  moreover have "\<exists>e. default_RESTMappings t (ag_Name g) (ar_Kind r) [v] = Inl e \<and> IsNoMatchError e" if "t \<in> set ?b \<union> set ?a" for t
    using others [OF that] vs(3,4) by (auto simp: mappings_of_version)
  ultimately show ?thesis
    using multi_single [of "version_mapper ?gv resources" "ag_Name g" "ar_Kind r" "[v]" _ ?b ?a]
    by (simp add: priority_RESTMapping_def pm narrow_single with_version_of_def WithKind_def)
qed

section \<open>Properties\<close>

text \<open>
  (C27) The mapper of the command is frozen at its first use. From the step on that asks the first question, for
  a kind or for a resource, all answers, that one and all later ones, are those of discovery as it was at that
  step: whatever discovery serves later, and however often the goroutine of \<open>main\<close> resets the mapper. If that first
  call of discovery failed, then every question fails for ever.
\<close>

theorem restmapper_never_refreshes:
  assumes "reach mapper_starts mapper_step s" and "\<not> asked s" and "mapper_step s t" "asked t"
    and "(mapper_step ^^ k) t u"
  shows "answers_of (ms_discovery s) u"
  using frozen.steps_inv [OF assms(5) question_freezes [OF assms(3) mapper_life.reach_inv [OF assms(1)] assms(2,4)]]
  by (simp add: frozen_at_def)

text \<open>
  A kind that discovery serves is mapped to the resource and scope discovery gives for it, for any
  order of groups, versions and resources; names with a slash are subresources and are not mapped.
\<close>

theorem discovered_kind_is_mapped:
  assumes "g \<in> set groups" "distinct (map ag_Name groups)"
    and "v \<in> set (ag_Versions g)" "distinct (ag_Versions g)" "v \<noteq> []" "v \<noteq> APIVersionInternal"
    and "map_of (rev rs) \<lparr>gv_Group = ag_Name g, gv_Version = v\<rparr> = Some resources" "own_kind resources r"
  shows "answer_for (Inr (groups, rs)) (ag_Name g, ar_Kind r, [v]) =
    Inr \<lparr>rm_Resource = resource_gvr \<lparr>gv_Group = ag_Name g, gv_Version = v\<rparr> r,
      rm_GroupVersionKind = with_version_of (ag_Name g) (ar_Kind r) v, rm_Scope = resource_scope r\<rparr>"
proof -
  obtain gb ga vb va where "groups = gb @ g # ga" "ag_Versions g = vb @ v # va"
    using assms(1,3) by (metis split_list)
  moreover obtain pm where "main_mapper_loader (Inr (groups, rs)) = Inr pm"
    by (simp add: main_mapper_loader_def GetAPIGroupResources_def)
  ultimately show ?thesis using discovered_mapping [OF _ _ assms(2) _ assms(4-8)] by simp
qed

section \<open>Instances\<close>

definition ex_resource :: api_resource where
  "ex_resource = \<lparr>ar_Name = ''widgets'', ar_SingularName = ''widget'', ar_Kind = ''Widget'', ar_Namespaced = True\<rparr>"

lemma ex_resource_fields [simp]:
  "ar_Name ex_resource = ''widgets''" "ar_Kind ex_resource = ''Widget''" "ar_Namespaced ex_resource"
  by (simp_all add: ex_resource_def)

definition ex_discovery :: discovery where
  "ex_discovery = Inr ([\<lparr>ag_Name = ''example.com'', ag_Versions = [''v1''], ag_PreferredVersion = ''v1''\<rparr>],
     [(\<lparr>gv_Group = ''example.com'', gv_Version = ''v1''\<rparr>, [ex_resource])])"

text \<open>The first question comes while discovery fails; it recovers, a minute passes, and nothing changes.\<close>

lemma four_steps:
  assumes "reach mapper_starts mapper_step s0" and "mapper_step s0 s1" "mapper_step s1 s2" "mapper_step s2 s3" "mapper_step s3 s4"
  shows "(mapper_step ^^ 3) s1 s4" and "reach mapper_starts mapper_step s4"
  using assms(3-5) reach_step [OF reach_step [OF reach_step [OF reach_step [OF assms(1,2)] assms(3)] assms(4)] assms(5)]
  by (auto simp: numeral_3_eq_3)

theorem restmapper_never_refreshes_witness:
  "\<exists>s. reach mapper_starts mapper_step s \<and> ms_discovery s = ex_discovery \<and>
     ms_answers s = replicate 2 ((''example.com'', ''Widget'', [''v1'']), Inl (LoadError (Plain ''timeout''))) \<and>
     answers_of (Inl (Plain ''timeout'')) s"
proof -
  let ?q = "(''example.com'', ''Widget'', [''v1''])"
  let ?a = "Inl (LoadError (Plain ''timeout'')) :: mapping_error + rest_mapping"
  let ?m = "\<lparr>lz_loaded = Some (Inl (Plain ''timeout''))\<rparr>"
  let ?s0 = "\<lparr>ms_discovery = Inl (Plain ''timeout''), ms_mapper = NewLazyRESTMapperLoader, ms_answers = [], ms_kinds = []\<rparr>"
  let ?s1 = "?s0\<lparr>ms_mapper := ?m, ms_answers := [(?q, ?a)]\<rparr>"
  let ?s2 = "?s1\<lparr>ms_discovery := ex_discovery\<rparr>"
  let ?s3 = "?s2\<lparr>ms_mapper := lazy_Reset (ms_mapper ?s2)\<rparr>"
  let ?s4 = "?s3\<lparr>ms_mapper := ?m, ms_answers := [(?q, ?a), (?q, ?a)]\<rparr>"
  have ask: "mapper_step s (s\<lparr>ms_mapper := ?m, ms_answers := ms_answers s @ [(?q, ?a)]\<rparr>)"
    if "lazy_RESTMapping (ms_discovery s) ''example.com'' ''Widget'' [''v1''] (ms_mapper s) = (?a, ?m)" for s
    using mapper_step.ask [OF that] .
  have s0: "reach mapper_starts mapper_step ?s0" by (rule reach_start) (simp add: mapper_starts_def)
  have first: "mapper_step ?s0 ?s1"
    using ask [of ?s0] by (simp add: lazy_RESTMapping_def lazy_init_def NewLazyRESTMapperLoader_def
        main_mapper_loader_def GetAPIGroupResources_def)
  have s12: "mapper_step ?s1 ?s2" by (rule discovery_changes)
  have s23: "mapper_step ?s2 ?s3" by (rule minute)
  have s34: "mapper_step ?s3 ?s4" using ask [of ?s3] by (simp add: lazy_RESTMapping_def lazy_init_def)
  note later = four_steps [OF s0 first s12 s23 s34]
  from restmapper_never_refreshes [OF s0 _ first _ later(1)] have "answers_of (Inl (Plain ''timeout'')) ?s4"
    by (simp add: asked_def)
  with later(2) show ?thesis by (intro exI [of _ ?s4]) (simp add: numeral_2_eq_2)
qed

theorem discovered_kind_is_mapped_witness:
  "answer_for ex_discovery (''example.com'', ''Widget'', [''v1'']) =
     Inr \<lparr>rm_Resource = \<lparr>gvr_Group = ''example.com'', gvr_Version = ''v1'', gvr_Resource = ''widgets''\<rparr>,
       rm_GroupVersionKind = with_version_of ''example.com'' ''Widget'' ''v1'', rm_Scope = ScopeNamespace\<rparr>"
proof -
  let ?g = "\<lparr>ag_Name = ''example.com'', ag_Versions = [''v1''], ag_PreferredVersion = ''v1''\<rparr>"
  have "own_kind [ex_resource] ex_resource"
    by (auto simp: own_kind_def intro!: exI [of _ "[]"])
  then show ?thesis
    using discovered_kind_is_mapped [of ?g "[?g]" "''v1''" "[(\<lparr>gv_Group = ''example.com'', gv_Version = ''v1''\<rparr>, [ex_resource])]"
        "[ex_resource]" ex_resource]
    by (simp add: ex_discovery_def APIVersionInternal_def resource_gvr_def resource_scope_def del: answer_for.simps)
qed

end
