(* ===== verification/Kind_Lookup.thy ===== *)
theory Kind_Lookup
  imports Rest_Mapper
begin

text \<open>
  What the command's REST mapper answers for a resource, from discovery to \<open>KindsFor\<close>. A default mapper of one group version
  has at most one kind for a resource, so neither the order of Go's maps nor the sorting matters; the empty
  group of the core API stands for any group.
\<close>

section \<open>The entries of a version mapper\<close>

definition at_version :: "group_version \<Rightarrow> gvr \<Rightarrow> bool" where
  "at_version gv r \<longleftrightarrow> gvr_Resource r = [] \<or> gvr_Group r = gv_Group gv \<and> gvr_Version r = gv_Version gv"

definition entries_at :: "group_version \<Rightarrow> default_mapper \<Rightarrow> bool" where
  "entries_at gv m \<longleftrightarrow> finite (dom (resourceToKind m)) \<and> (\<forall>r k. resourceToKind m r = Some k \<longrightarrow> at_version gv r)"

lemma entries_at_AddSpecific:
  "entries_at gv m \<Longrightarrow> at_version gv plural \<Longrightarrow> at_version gv singular \<Longrightarrow> entries_at gv (AddSpecific kind plural singular scope m)"
  by (auto simp: entries_at_def AddSpecific_def split: if_splits)

lemma at_version_guess: "at_version gv (UnsafeGuessKindToResource (WithKind gv k))" "at_version gv (guess_singular (WithKind gv k))"
  by (simp_all add: at_version_def UnsafeGuessKindToResource_def guess_singular_def WithKind_def Let_def)

lemma entries_at_add: "entries_at gv m \<Longrightarrow> entries_at gv (add_resource gv r m)"
  by (auto simp: add_resource_def mapper_Add_def Let_def at_version_def intro!: entries_at_AddSpecific at_version_guess)

lemma version_mapper_entries: "entries_at gv (version_mapper gv rs)"
proof -
  have "entries_at gv (fold (add_resource gv) rs m)" if "entries_at gv m" for m
    using that by (induction rs arbitrary: m) (simp_all add: entries_at_add)
  moreover have "entries_at gv (NewDefaultRESTMapper [gv])" by (simp add: entries_at_def NewDefaultRESTMapper_def)
  ultimately show ?thesis
    by (auto simp: version_mapper_def mapper_Add_def intro: entries_at_AddSpecific at_version_guess)
qed

section \<open>KindsFor of one version\<close>

text \<open>Visiting in any order finds the one entry that matches.\<close>

lemma visit_one:
  assumes "distinct order" and "set order = dom (resourceToKind m)"
    and "\<And>r k. resourceToKind m r = Some k \<Longrightarrow> matches r \<longleftrightarrow> r = one"
  shows "visit_kinds order m matches = (case resourceToKind m one of Some k \<Rightarrow> [k] | None \<Rightarrow> [])"
proof -
  have none: "concat (map (\<lambda>r. case resourceToKind m r of Some k \<Rightarrow> if matches r then [k] else [] | None \<Rightarrow> []) rs) = []"
    if "one \<notin> set rs" for rs
    using that assms(3) by (auto split: option.splits)
  show ?thesis
  proof (cases "resourceToKind m one")
    case None
    then have "one \<notin> set order" using assms(2) by auto
    from none [OF this] None show ?thesis by (simp add: visit_kinds_def)
  next
    case (Some k)
    then have "one \<in> set order" using assms(2) by auto
    then obtain xs ys where xs: "order = xs @ one # ys" by (auto dest: split_list)
    with assms(1) have "one \<notin> set xs" "one \<notin> set ys" by auto
    from none [OF this(1)] none [OF this(2)] Some assms(3) [OF Some] show ?thesis
      by (simp add: visit_kinds_def xs del: concat_eq_Nil_conv)
  qed
qed

text \<open>What a version mapper knows under a resource's name.\<close>

definition version_kind :: "default_mapper \<Rightarrow> group_version \<Rightarrow> string \<Rightarrow> gvk option" where
  "version_kind m gv name = resourceToKind m \<lparr>gvr_Group = gv_Group gv, gvr_Version = gv_Version gv, gvr_Resource = name\<rparr>"

definition asks_version :: "gvr \<Rightarrow> group_version \<Rightarrow> bool" where
  "asks_version r gv \<longleftrightarrow> gvr_Version r = gv_Version gv \<and> (gvr_Group r = [] \<or> gvr_Group r = gv_Group gv)"

lemma matching_kinds_version:
  assumes m: "entries_at gv m" and order: "distinct order" "set order = dom (resourceToKind m)"
    and r: "gvr_Version r \<noteq> []" "gvr_Resource r \<noteq> []"
  shows "matching_kinds order m r =
    (if asks_version r gv then (case version_kind m gv (gvr_Resource r) of Some k \<Rightarrow> [k] | None \<Rightarrow> []) else [])"
proof -
  let ?one = "\<lparr>gvr_Group = gv_Group gv, gvr_Version = gv_Version gv, gvr_Resource = gvr_Resource r\<rparr>"
  have entry: "gvr_Group x = gv_Group gv" "gvr_Version x = gv_Version gv"
    if "resourceToKind m x = Some k" "gvr_Resource x \<noteq> []" for x k
    using m that by (auto simp: entries_at_def at_version_def)
  show ?thesis
  proof (cases "gvr_Group r = []")
    case False
    have "resourceToKind m r = None" if "\<not> asks_version r gv"
    proof (rule ccontr)
      assume "resourceToKind m r \<noteq> None"
      then obtain k where "resourceToKind m r = Some k" by blast
      with entry [OF this r(2)] that show False by (simp add: asks_version_def)
    qed
    moreover have "?one = r" if "asks_version r gv" using that False by (simp add: asks_version_def)
    ultimately show ?thesis using False r by (auto simp: matching_kinds_def Let_def version_kind_def)
  next
    case True
    let ?P = "\<lambda>x. gvr_Version x = gvr_Version r \<and> gvr_Resource x = gvr_Resource r"
    show ?thesis
    proof (cases "gvr_Version r = gv_Version gv")
      case same: True
      have "?P x \<longleftrightarrow> x = ?one" if "resourceToKind m x = Some k" for x k
        using entry [OF that] same r(2) by (cases x) auto
      from visit_one [where matches = ?P and one = ?one, OF order this] show ?thesis
        using True same r(1) by (simp add: matching_kinds_def Let_def version_kind_def asks_version_def)
    next
      case other: False
      have "visit_kinds order m ?P = []"
        using entry other r(2) by (fastforce simp: visit_kinds_def split: option.splits)
      with True other r(1) show ?thesis by (simp add: matching_kinds_def Let_def asks_version_def)
    qed
  qed
qed

definition version_answer :: "gvr \<Rightarrow> group_version \<times> default_mapper \<Rightarrow> gvk list" where
  "version_answer r = (\<lambda>(gv, m).
     if asks_version r gv then (case version_kind m gv (gvr_Resource r) of Some k \<Rightarrow> [k] | None \<Rightarrow> []) else [])"

text \<open>A request as the mappers take it: a name in lower case and a version that is asked for.\<close>

definition plain_request :: "gvr \<Rightarrow> bool" where
  "plain_request r \<longleftrightarrow> gvr_Resource r \<noteq> [] \<and> to_lower (gvr_Resource r) = gvr_Resource r \<and>
     gvr_Version r \<noteq> [] \<and> gvr_Version r \<noteq> APIVersionInternal"

lemma default_KindsFor_version:
  assumes "entries_at gv m" and "visits_resources order" and "plain_request r"
  shows "default_KindsFor (order m) m r =
    (if version_answer r (gv, m) = [] then Inl (NoResourceMatch r) else Inr (version_answer r (gv, m)))"
proof -
  have "distinct (order m)" "set (order m) = dom (resourceToKind m)"
    using assms(1,2) by (simp_all add: entries_at_def visits_resources_def)
  moreover have "coerceResourceForMatching r = r"
    using assms(3) by (cases r) (simp add: coerceResourceForMatching_def plain_request_def)
  ultimately show ?thesis
    using matching_kinds_version [OF assms(1), of "order m" r] assms(3)
    by (auto simp: default_KindsFor_def Let_def plain_request_def version_answer_def insert_from_right_def split: option.splits)
qed

section \<open>KindsFor of all versions\<close>

lemma add_new_kinds: "foldl (\<lambda>ks k. if k \<in> set ks then ks else ks @ [k]) ks [] = ks"
  "set (foldl (\<lambda>ks k. if k \<in> set ks then ks else ks @ [k]) ks new) = set ks \<union> set new"
  "distinct ks \<Longrightarrow> distinct (foldl (\<lambda>ks k. if k \<in> set ks then ks else ks @ [k]) ks new)"
  by (induction new arbitrary: ks) auto

lemma multi_kinds_versions:
  assumes "\<forall>(gv, m) \<in> set ts. entries_at gv m" and "visits_resources order" and "plain_request r"
  shows "\<exists>ks. set ks = set acc \<union> (\<Union>t \<in> set ts. set (version_answer r t)) \<and> (distinct acc \<longrightarrow> distinct ks) \<and>
    multi_kinds order (map snd ts) r acc = (if ks = [] then Inl (NoResourceMatch r) else Inr ks)"
  using assms(1)
proof (induction ts arbitrary: acc)
  case Nil
  show ?case by (rule exI [of _ acc]) simp
next
  case (Cons t ts)
  obtain gv m where t: "t = (gv, m)" by (cases t)
  let ?acc = "foldl (\<lambda>ks k. if k \<in> set ks then ks else ks @ [k]) acc (version_answer r t)"
  from Cons.prems have "\<forall>(gv, m) \<in> set ts. entries_at gv m" "entries_at gv m" by (auto simp: t)
  from Cons.IH [OF this(1), of ?acc] obtain ks where
    ks: "set ks = set ?acc \<union> (\<Union>t \<in> set ts. set (version_answer r t))" "distinct ?acc \<longrightarrow> distinct ks"
      "multi_kinds order (map snd ts) r ?acc = (if ks = [] then Inl (NoResourceMatch r) else Inr ks)" by blast
  have "multi_kinds order (map snd (t # ts)) r acc = multi_kinds order (map snd ts) r ?acc"
    using default_KindsFor_version [OF \<open>entries_at gv m\<close> assms(2,3)] by (auto simp: t)
  with ks show ?case by (intro exI [of _ ks]) (auto simp: add_new_kinds)
qed

section \<open>From discovery\<close>

text \<open>
  The names a resource is entered under besides its own; a resource whose name no later resource takes over is
  found under it.
\<close>

definition list_names :: "string \<Rightarrow> string set" where
  "list_names kind = {to_lower kind @ ''list'', to_lower kind @ ''lists''}"

definition other_names :: "api_resource \<Rightarrow> string set" where
  "other_names r = (if contains (ar_Name r) ''/'' then {}
     else {if ar_SingularName r = [] then to_lower (ar_Kind r) else ar_SingularName r} \<union> list_names (ar_Kind r))"

definition own_name :: "api_resource list \<Rightarrow> api_resource \<Rightarrow> bool" where
  "own_name resources r \<longleftrightarrow>
     \<not> contains (ar_Name r) ''/'' \<and> ar_Name r \<noteq> [] \<and> ar_Name r \<notin> list_names (ar_Kind r) \<union> {''list'', ''lists''} \<and>
     (\<exists>before after. resources = before @ r # after \<and>
        (\<forall>r' \<in> set after. ar_Name r' \<noteq> ar_Name r \<and> ar_Name r \<notin> other_names r'))"

lemma to_lower_append: "to_lower (a @ b) = to_lower a @ to_lower b"
  by (simp add: to_lower_def)

lemma to_lower_List: "to_lower (k @ ''List'') = to_lower k @ ''list''" "to_lower ''List'' = ''list''" "to_lower [] = []"
  by (simp add: to_lower_append) code_simp+

lemma guessed_names:
  "UnsafeGuessKindToResource (WithKind gv (kind @ ''List'')) =
     \<lparr>gvr_Group = gv_Group gv, gvr_Version = gv_Version gv, gvr_Resource = to_lower kind @ ''lists''\<rparr>"
  "guess_singular (WithKind gv (kind @ ''List'')) =
     \<lparr>gvr_Group = gv_Group gv, gvr_Version = gv_Version gv, gvr_Resource = to_lower kind @ ''list''\<rparr>"
proof -
  note low = to_lower_List(1)
  have "\<not> suffix ''endpoints'' (to_lower kind @ ''list'')" by (auto simp: suffix_def append_eq_append_conv2 append_eq_Cons_conv)
  with low show "UnsafeGuessKindToResource (WithKind gv (kind @ ''List'')) =
     \<lparr>gvr_Group = gv_Group gv, gvr_Version = gv_Version gv, gvr_Resource = to_lower kind @ ''lists''\<rparr>"
    by (simp add: UnsafeGuessKindToResource_def WithKind_def unpluralizedSuffixes_def Let_def)
  from low show "guess_singular (WithKind gv (kind @ ''List'')) =
     \<lparr>gvr_Group = gv_Group gv, gvr_Version = gv_Version gv, gvr_Resource = to_lower kind @ ''list''\<rparr>"
    by (simp add: guess_singular_def WithKind_def)
qed

lemma guess_singular_eq:
  "guess_singular (WithKind gv k) =
     (if k = [] then \<lparr>gvr_Group = [], gvr_Version = [], gvr_Resource = []\<rparr>
      else \<lparr>gvr_Group = gv_Group gv, gvr_Version = gv_Version gv, gvr_Resource = to_lower k\<rparr>)"
  by (simp add: guess_singular_def WithKind_def)

lemma add_resource_names:
  "ar_Name r' \<noteq> n \<Longrightarrow> n \<notin> other_names r' \<Longrightarrow> n \<noteq> [] \<Longrightarrow> version_kind (add_resource gv r' m) gv n = version_kind m gv n"
  "\<not> contains (ar_Name r) ''/'' \<Longrightarrow> ar_Name r \<notin> list_names (ar_Kind r) \<Longrightarrow>
   version_kind (add_resource gv r m) gv (ar_Name r) = Some (WithKind gv (ar_Kind r))"
  by (auto simp: version_kind_def add_resource_def mapper_Add_def AddSpecific_def guessed_names other_names_def list_names_def
      guessed_names [where kind = "[]", simplified] guess_singular_eq to_lower_List Let_def split: if_splits)

lemma version_mapper_name:
  assumes "own_name resources r"
  shows "version_kind (version_mapper gv resources) gv (ar_Name r) = Some (WithKind gv (ar_Kind r))"
proof -
  obtain before after where split: "resources = before @ r # after"
      "\<forall>r' \<in> set after. ar_Name r' \<noteq> ar_Name r \<and> ar_Name r \<notin> other_names r'"
    and r: "\<not> contains (ar_Name r) ''/''" "ar_Name r \<noteq> []" "ar_Name r \<notin> list_names (ar_Kind r)" "ar_Name r \<notin> {''list'', ''lists''}"
    using assms by (auto simp: own_name_def)
  have "version_kind (fold (add_resource gv) after m) gv (ar_Name r) = version_kind m gv (ar_Name r)" for m
    using split(2) r(2) by (induction after arbitrary: m) (simp_all add: add_resource_names(1))
  moreover have "version_kind (mapper_Add (WithKind gv ''List'') ScopeRoot m) gv (ar_Name r) = version_kind m gv (ar_Name r)" for m
    using guessed_names [of gv "[]"] r(4) by (simp add: version_kind_def mapper_Add_def AddSpecific_def to_lower_def)
  ultimately show ?thesis using add_resource_names(2) [OF r(1,3)] by (simp add: version_mapper_def split(1))
qed

text \<open>The mappers of the discovered versions, each with its group version.\<close>

definition version_mappers_of :: "api_group list \<Rightarrow> (group_version \<times> api_resource list) list \<Rightarrow> (group_version \<times> default_mapper) list" where
  "version_mappers_of groups rs =
     [(\<lparr>gv_Group = ag_Name g, gv_Version = v\<rparr>, version_mapper \<lparr>gv_Group = ag_Name g, gv_Version = v\<rparr> resources).
        g \<leftarrow> groups, v \<leftarrow> ag_Versions g,
        resources \<leftarrow> (case map_of (rev rs) \<lparr>gv_Group = ag_Name g, gv_Version = v\<rparr> of None \<Rightarrow> [] | Some resources \<Rightarrow> [resources])]"

lemma group_mappers_of:
  "group_mappers \<lparr>gr_APIGroup = g, gr_VersionedResources = (\<lambda>v. if v \<in> set (ag_Versions g)
     then map_of (rev rs) \<lparr>gv_Group = ag_Name g, gv_Version = v\<rparr> else None)\<rparr> = map snd (version_mappers_of [g] rs)"
proof -
  let ?g = "\<lparr>gr_APIGroup = g, gr_VersionedResources = (\<lambda>v. if v \<in> set (ag_Versions g)
     then map_of (rev rs) \<lparr>gv_Group = ag_Name g, gv_Version = v\<rparr> else None)\<rparr>"
  have "concat (map (version_mappers ?g) vs) =
      map snd (concat (map (\<lambda>v. map (\<lambda>resources. (\<lparr>gv_Group = ag_Name g, gv_Version = v\<rparr>,
          version_mapper \<lparr>gv_Group = ag_Name g, gv_Version = v\<rparr> resources))
        (case map_of (rev rs) \<lparr>gv_Group = ag_Name g, gv_Version = v\<rparr> of None \<Rightarrow> [] | Some resources \<Rightarrow> [resources])) vs))"
    if "set vs \<subseteq> set (ag_Versions g)" for vs
    using that by (induction vs) (auto simp: version_mappers_def split: option.split)
  from this [OF subset_refl] show ?thesis by (simp add: group_mappers_def version_mappers_of_def)
qed

lemma set_case_option: "x \<in> set (case opt of None \<Rightarrow> [] | Some y \<Rightarrow> [y]) \<longleftrightarrow> opt = Some x"
  by (auto split: option.split)

lemma kinds_from_versions:
  "kinds_for_resource order (Inr (groups, rs)) r = multi_kinds order (map snd (version_mappers_of groups rs)) r []"
proof -
  have "concat (map (\<lambda>g. map snd (version_mappers_of [g] rs)) groups) = map snd (version_mappers_of groups rs)"
    by (induction groups) (simp_all add: version_mappers_of_def)
  then show ?thesis
    by (simp add: kinds_for_resource_def main_mapper_loader_def GetAPIGroupResources_def NewDiscoveryRESTMapper_def
        priority_KindsFor_def multi_KindsFor_def o_def group_mappers_of)
qed

lemma version_mappers_of_entries: "\<forall>(gv, m) \<in> set (version_mappers_of groups rs). entries_at gv m"
  by (auto simp: version_mappers_of_def version_mapper_entries)

lemma version_mappers_of_iff:
  "(gv, m) \<in> set (version_mappers_of groups rs) \<longleftrightarrow>
     (\<exists>resources. map_of (rev rs) gv = Some resources \<and> m = version_mapper gv resources \<and>
        (\<exists>g \<in> set groups. ag_Name g = gv_Group gv \<and> gv_Version gv \<in> set (ag_Versions g)))"
  (is "_ \<longleftrightarrow> ?rhs")
proof
  assume "(gv, m) \<in> set (version_mappers_of groups rs)"
  then show ?rhs by (auto simp: version_mappers_of_def set_case_option) metis
next
  assume ?rhs
  then obtain resources g where gv: "map_of (rev rs) gv = Some resources" "m = version_mapper gv resources"
      "ag_Name g = gv_Group gv" "g \<in> set groups" "gv_Version gv \<in> set (ag_Versions g)" by auto
  have eq: "\<lparr>gv_Group = ag_Name g, gv_Version = gv_Version gv\<rparr> = gv" using gv(3) by (cases gv) simp
  have "(gv, m) \<in> set (version_mappers_of [g] rs)"
    unfolding version_mappers_of_def using gv(1,2) by (auto simp: eq set_case_option intro!: bexI [OF _ gv(5)])
  moreover have "set (version_mappers_of [g] rs) \<subseteq> set (version_mappers_of groups rs)"
    using gv(4) by (auto simp: version_mappers_of_def)
  ultimately show "(gv, m) \<in> set (version_mappers_of groups rs)" by blast
qed

text \<open>
  The kinds of a resource that discovery serves. With its group named, it is exactly the resource's kind. Asked for
  the core group, whose name is empty, the mapper answers for every group that serves a resource of that name and
  version: the answer has the kinds of all of them.
\<close>

theorem kinds_of_discovered_resource:
  assumes "g \<in> set groups" and "v \<in> set (ag_Versions g)"
    and "map_of (rev rs) \<lparr>gv_Group = ag_Name g, gv_Version = v\<rparr> = Some resources" and "own_name resources r"
    and "visits_resources order" and "v \<noteq> []" "v \<noteq> APIVersionInternal" "to_lower (ar_Name r) = ar_Name r"
  shows "(ag_Name g \<noteq> [] \<longrightarrow>
      kinds_for_resource order (Inr (groups, rs)) \<lparr>gvr_Group = ag_Name g, gvr_Version = v, gvr_Resource = ar_Name r\<rparr> =
        Inr [with_version_of (ag_Name g) (ar_Kind r) v]) \<and>
    (\<exists>ks. kinds_for_resource order (Inr (groups, rs)) \<lparr>gvr_Group = [], gvr_Version = v, gvr_Resource = ar_Name r\<rparr> = Inr ks \<and>
       distinct ks \<and> with_version_of (ag_Name g) (ar_Kind r) v \<in> set ks)"
proof -
  let ?gv = "\<lparr>gv_Group = ag_Name g, gv_Version = v\<rparr>" and ?m = "version_mapper \<lparr>gv_Group = ag_Name g, gv_Version = v\<rparr> resources"
  let ?k = "with_version_of (ag_Name g) (ar_Kind r) v"
  have name: "version_kind ?m ?gv (ar_Name r) = Some ?k"
    using version_mapper_name [OF assms(4), of ?gv] by (simp add: with_version_of_def WithKind_def)
  have mem: "(?gv, ?m) \<in> set (version_mappers_of groups rs)"
    unfolding version_mappers_of_iff using assms(1-3) by auto
  have plain: "plain_request \<lparr>gvr_Group = grp, gvr_Version = v, gvr_Resource = ar_Name r\<rparr>" for grp
    using assms(4,6-8) by (simp add: plain_request_def own_name_def)
  note kinds = multi_kinds_versions [OF version_mappers_of_entries [of groups rs] assms(5) plain, of "[]", folded kinds_from_versions]
  have "kinds_for_resource order (Inr (groups, rs)) \<lparr>gvr_Group = ag_Name g, gvr_Version = v, gvr_Resource = ar_Name r\<rparr> = Inr [?k]"
    if named: "ag_Name g \<noteq> []"
  proof -
    let ?r = "\<lparr>gvr_Group = ag_Name g, gvr_Version = v, gvr_Resource = ar_Name r\<rparr>"
    have "(\<Union>t \<in> set (version_mappers_of groups rs). set (version_answer ?r t)) = {?k}"
    proof -
      have "version_answer ?r (gv, m) = (if gv = ?gv then [?k] else [])" if "(gv, m) \<in> set (version_mappers_of groups rs)" for gv m
        using that assms(3) name named by (cases gv) (auto simp: version_answer_def asks_version_def version_mappers_of_iff)
      with mem show ?thesis by force
    qed
    with kinds [of "ag_Name g"] obtain ks where ks: "set ks = {?k}" "distinct ks"
        "kinds_for_resource order (Inr (groups, rs)) ?r = (if ks = [] then Inl (NoResourceMatch ?r) else Inr ks)" by auto
    have "ks = [?k]" using ks(1,2) by (cases ks; cases "tl ks") auto
    with ks(3) show ?thesis by simp
  qed
  moreover have "\<exists>ks. kinds_for_resource order (Inr (groups, rs)) \<lparr>gvr_Group = [], gvr_Version = v, gvr_Resource = ar_Name r\<rparr> = Inr ks \<and>
      distinct ks \<and> ?k \<in> set ks"
  proof -
    let ?r = "\<lparr>gvr_Group = [], gvr_Version = v, gvr_Resource = ar_Name r\<rparr>"
    have "?k \<in> set (version_answer ?r (?gv, ?m))" using name by (simp add: version_answer_def asks_version_def)
    with mem kinds [of "[]"] obtain ks where "?k \<in> set ks" "distinct ks"
        "kinds_for_resource order (Inr (groups, rs)) ?r = (if ks = [] then Inl (NoResourceMatch ?r) else Inr ks)" by auto
    then show ?thesis by (intro exI [of _ ks]) auto
  qed
  ultimately show ?thesis by blast
qed

section \<open>Instance: events of two groups\<close>

definition events_resource :: api_resource where
  "events_resource = \<lparr>ar_Name = ''events'', ar_SingularName = ''event'', ar_Kind = ''Event'', ar_Namespaced = True\<rparr>"

definition events_group :: "string \<Rightarrow> api_group" where
  "events_group name = \<lparr>ag_Name = name, ag_Versions = [''v1''], ag_PreferredVersion = ''v1''\<rparr>"

definition events_lists :: "(group_version \<times> api_resource list) list" where
  "events_lists = map (\<lambda>name. (\<lparr>gv_Group = name, gv_Version = ''v1''\<rparr>, [events_resource])) [[], ''events.k8s.io'']"

lemma events_facts:
  "events_group name \<in> set (map events_group [[], ''events.k8s.io'']) \<longleftrightarrow> name = [] \<or> name = ''events.k8s.io''"
  "''v1'' \<in> set (ag_Versions (events_group name))" "ag_Name (events_group name) = name"
  "own_name [events_resource] events_resource" "to_lower (ar_Name events_resource) = ar_Name events_resource"
  "ar_Kind events_resource = ''Event''" "ar_Name events_resource = ''events''"
proof -
  have "\<not> contains ''events'' ''/''" "''events'' \<notin> list_names ''Event'' \<union> {''list'', ''lists''}" by code_simp+
  then show "own_name [events_resource] events_resource"
    unfolding own_name_def by (intro conjI exI [of _ "[]"]) (simp_all add: events_resource_def)
  show "to_lower (ar_Name events_resource) = ar_Name events_resource" by code_simp
qed (auto simp: events_group_def events_resource_def)

lemma events_served:
  "name = [] \<or> name = ''events.k8s.io'' \<Longrightarrow> map_of (rev events_lists) \<lparr>gv_Group = name, gv_Version = ''v1''\<rparr> = Some [events_resource]"
  by (elim disjE) (simp_all add: events_lists_def)

lemma some_order_visits: "\<exists>order. visits_resources order"
proof -
  have "\<forall>t. \<exists>ks. finite (dom (resourceToKind t)) \<longrightarrow> distinct ks \<and> set ks = dom (resourceToKind t)"
  proof
    fix t
    show "\<exists>ks. finite (dom (resourceToKind t)) \<longrightarrow> distinct ks \<and> set ks = dom (resourceToKind t)"
      by (cases "finite (dom (resourceToKind t))") (use finite_distinct_list [of "dom (resourceToKind t)"] in auto)
  qed
  from choice [OF this] show ?thesis by (auto simp: visits_resources_def)
qed

end
