(* ===== verification/Type_Checker.thy ===== *)
theory Type_Checker
  imports Policy_Snapshot Schema_Resolver Kind_Lookup Rest_Request
    "HOL-Library.List_Lexorder" "HOL-Library.Char_ord" "HOL-Library.Product_Lexorder"
begin

text \<open>
  The type checker of the policy evaluator (the vendored \<open>validatingadmissionpolicy/typechecking.go\<close>): which kinds
  the expressions of a policy are checked against, the environments of CEL they are compiled in, and
  the warnings that go to the status of the policy. It gets its schemas from a schema resolver, in the polyfill
  the caching one of \<open>pkg/controller/schemaresolver\<close>, whose state is threaded through. The CEL library is a parameter.
\<close>

section \<open>Kinds to check\<close>

definition contains_any :: "string \<Rightarrow> string \<Rightarrow> bool" where
  "contains_any s chars \<longleftrightarrow> list_ex (\<lambda>c. c \<in> set chars) s"

text \<open>A wildcard among groups or versions gives up the rule; wildcards and subresources are left out.\<close>

definition extractGroups :: "namedRuleWithOperations \<Rightarrow> string list" where
  "extractGroups rule =
     (if list_ex (\<lambda>g. contains_any g ''*'') (elems (nr_APIGroups rule)) then [] else elems (nr_APIGroups rule))"

definition extractVersions :: "namedRuleWithOperations \<Rightarrow> string list" where
  "extractVersions rule =
     (if list_ex (\<lambda>v. contains_any v ''*'') (elems (nr_APIVersions rule)) then [] else elems (nr_APIVersions rule))"

definition extractResources :: "namedRuleWithOperations \<Rightarrow> string list" where
  "extractResources rule = filter (\<lambda>r. \<not> contains_any r ''*/'') (elems (nr_Resources rule))"

text \<open>\<open>sortGVKList\<close>, by group, version and kind, compared as Go compares strings.\<close>

definition gvk_key :: "gvk \<Rightarrow> string \<times> string \<times> string" where
  "gvk_key k = (gvk_Group k, gvk_Version k, gvk_Kind k)"

definition sortGVKList :: "gvk list \<Rightarrow> gvk list" where
  "sortGVKList ks = sort_key gvk_key ks"

definition gvk_Empty :: "gvk \<Rightarrow> bool" where
  "gvk_Empty k \<longleftrightarrow> length (gvk_Group k) = 0 \<and> length (gvk_Version k) = 0 \<and> length (gvk_Kind k) = 0"

definition maxTypesToCheck :: nat where
  "maxTypesToCheck = 10"

text \<open>
  The loops of \<open>typesToCheck\<close>. The set \<open>gvks\<close> is a list without duplicates; a loop also tells whether the limit
  was reached, which returns at once. The mapper's \<open>KindsFor\<close> is an argument.
\<close>

fun insert_kinds :: "gvk list \<Rightarrow> nat \<times> gvk list \<Rightarrow> bool \<times> nat \<times> gvk list" where
  "insert_kinds [] s = (False, s)"
| "insert_kinds (r # rs) (count, gvks) =
     (if \<not> gvk_Empty r
      then (if count + 1 = maxTypesToCheck then (True, count + 1, List.insert r gvks)
            else insert_kinds rs (count + 1, List.insert r gvks))
      else insert_kinds rs (count, gvks))"

type_synonym kinds_for = "gvr \<Rightarrow> mapping_error + gvk list"

fun visit_resources :: "kinds_for \<Rightarrow> gvr list \<Rightarrow> nat \<times> gvk list \<Rightarrow> bool \<times> nat \<times> gvk list" where
  "visit_resources mapper [] s = (False, s)"
| "visit_resources mapper (resource # resources) s =
     (case mapper resource of
        Inl err \<Rightarrow> visit_resources mapper resources s
      | Inr resolved \<Rightarrow>
          (case insert_kinds resolved s of
             (True, s') \<Rightarrow> (True, s')
           | (False, s') \<Rightarrow> visit_resources mapper resources s'))"

definition rule_resources :: "namedRuleWithOperations \<Rightarrow> gvr list" where
  "rule_resources rule =
     [\<lparr>gvr_Group = g, gvr_Version = v, gvr_Resource = r\<rparr>.
        g \<leftarrow> sort (extractGroups rule), v \<leftarrow> sort (extractVersions rule), r \<leftarrow> sort (extractResources rule)]"

fun visit_rules :: "kinds_for \<Rightarrow> namedRuleWithOperations list \<Rightarrow> gvk list \<Rightarrow> gvk list" where
  "visit_rules mapper [] gvks = gvks"
| "visit_rules mapper (rule # rules) gvks =
     (if length (extractGroups rule) = 0 \<or> length (extractVersions rule) = 0 \<or> length (extractResources rule) = 0
      then visit_rules mapper rules gvks
      else
        (case visit_resources mapper (rule_resources rule) (0, gvks) of
           (True, _, gvks') \<Rightarrow> gvks'
         | (False, _, gvks') \<Rightarrow> visit_rules mapper rules gvks'))"

definition typesToCheck :: "kinds_for \<Rightarrow> validatingAdmissionPolicySpec \<Rightarrow> gvk list" where
  "typesToCheck mapper spec =
     (case ps_MatchConstraints spec of
        None \<Rightarrow> []
      | Some constraints \<Rightarrow> sortGVKList (visit_rules mapper (elems (mr_ResourceRules constraints)) []))"

section \<open>Environments of CEL\<close>

text \<open>
  The options of an environment, over declared types \<open>'d\<close> and rule types \<open>'p\<close>: a variable has the type of a
  declaration or, without one, the dynamic type; a single provider of types stands for itself, several are tried in order.
\<close>

datatype ('d, 'p) env_option =
    Variable string "'d option"
  | CustomTypeProvider "'p list"
  | CustomTypeAdapter "'p list"

text \<open>
  The CEL library: the base environment, the types of requests and of schemas, their rule types, a
  provider over the base environment's own, an extended environment, and compilation, whose issues are \<open>None\<close> for nil.
\<close>

record ('s, 'd, 'p, 'env, 'iss) cel_types =
  ct_BaseEnv :: "go_error + 'env"
  ct_RequestType :: 'd
  ct_SchemaDeclType :: "'s option \<Rightarrow> 'd option"
  ct_NewRuleTypes :: "'d \<Rightarrow> go_error + 'p option"
  ct_WithTypeProvider :: "'env \<Rightarrow> 'p \<Rightarrow> go_error + 'p"
  ct_Extend :: "'env \<Rightarrow> ('d, 'p) env_option list \<Rightarrow> go_error + 'env"
  ct_Compile :: "'env \<Rightarrow> string \<Rightarrow> 'iss option"
  ct_IssuesString :: "'iss \<Rightarrow> string"

definition createRuleTypesAndOptions ::
  "('s, 'd, 'p, 'env, 'iss) cel_types \<Rightarrow> 'd option \<Rightarrow> string list \<Rightarrow> go_error + 'p option \<times> ('d, 'p) env_option list" where
  "createRuleTypesAndOptions ct declType variables =
     (case declType of
        None \<Rightarrow> Inr (None, map (\<lambda>v. Variable v None) variables)
      | Some d \<Rightarrow>
          (case ct_NewRuleTypes ct d of
             Inl err \<Rightarrow> Inl err
           | Inr None \<Rightarrow> Inr (None, [])
           | Inr (Some rt) \<Rightarrow> Inr (Some rt, map (\<lambda>v. Variable v (Some d)) variables)))"

fun with_providers :: "('s, 'd, 'p, 'env, 'iss) cel_types \<Rightarrow> 'env \<Rightarrow> 'p option list \<Rightarrow> go_error + 'p list" where
  "with_providers ct baseEnv [] = Inr []"
| "with_providers ct baseEnv (None # rts) = with_providers ct baseEnv rts"
| "with_providers ct baseEnv (Some rt # rts) =
     (case ct_WithTypeProvider ct baseEnv rt of
        Inl err \<Rightarrow> Inl err
      | Inr withTP \<Rightarrow> map_sum id (Cons withTP) (with_providers ct baseEnv rts))"

definition ruleTypesOpts ::
  "('s, 'd, 'p, 'env, 'iss) cel_types \<Rightarrow> 'env \<Rightarrow> 'p option list \<Rightarrow> go_error + ('d, 'p) env_option list" where
  "ruleTypesOpts ct baseEnv ruleTypes =
     map_sum id (\<lambda>providers. if providers = [] then [] else [CustomTypeProvider providers, CustomTypeAdapter providers])
       (with_providers ct baseEnv ruleTypes)"

text \<open>\<open>buildEnv\<close>: the variables \<open>request\<close>, \<open>object\<close> and \<open>oldObject\<close>, and \<open>params\<close> if the policy has them.\<close>

definition buildEnv ::
  "('s, 'd, 'p, 'env, 'iss) cel_types \<Rightarrow> bool \<Rightarrow> 'd option \<Rightarrow> 'd option \<Rightarrow> go_error + 'env" where
  "buildEnv ct hasParams object params =
     (case ct_BaseEnv ct of Inl err \<Rightarrow> Inl err | Inr baseEnv \<Rightarrow>
      case createRuleTypesAndOptions ct (Some (ct_RequestType ct)) [''request''] of Inl err \<Rightarrow> Inl err | Inr (rt, varOpts) \<Rightarrow>
      case createRuleTypesAndOptions ct object [''object'', ''oldObject''] of Inl err \<Rightarrow> Inl err | Inr (rt', varOpts') \<Rightarrow>
      case (if hasParams then createRuleTypesAndOptions ct params [''params''] else Inr (None, [])) of
        Inl err \<Rightarrow> Inl err | Inr (rt'', varOpts'') \<Rightarrow>
      case ruleTypesOpts ct baseEnv [rt, rt', rt''] of Inl err \<Rightarrow> Inl err | Inr opts \<Rightarrow>
        ct_Extend ct baseEnv (opts @ varOpts @ varOpts' @ varOpts''))"

text \<open>\<open>checkExpression\<close>: issues and error.\<close>

definition checkExpression ::
  "('s, 'd, 'p, 'env, 'iss) cel_types \<Rightarrow> string \<Rightarrow> bool \<Rightarrow> 'd option \<Rightarrow> 'd option \<Rightarrow> 'iss option \<times> go_error option" where
  "checkExpression ct expression hasParams object params =
     (case buildEnv ct hasParams object params of
        Inl err \<Rightarrow> (None, Some err)
      | Inr env \<Rightarrow> (ct_Compile ct env expression, None))"

section \<open>Checking\<close>

text \<open>A schema resolver, with an effect on its state.\<close>

type_synonym ('s, 'r) schema_resolver = "gvk \<Rightarrow> 'r \<Rightarrow> ('s option \<times> go_error option) \<times> 'r"

record ('s, 'r) typeChecker =
  tch_schemaResolver :: "('s, 'r) schema_resolver"
  tch_restMapper :: kinds_for

text \<open>The first loop of \<open>CheckExpressions\<close>: kinds without a schema are skipped.\<close>

fun resolve_kinds :: "('s, 'r) schema_resolver \<Rightarrow> gvk list \<Rightarrow> 'r \<Rightarrow> (gvk \<times> 's option) list \<times> 'r" where
  "resolve_kinds resolver [] st = ([], st)"
| "resolve_kinds resolver (k # ks) st =
     (case resolver k st of
        ((s, Some err), st') \<Rightarrow> resolve_kinds resolver ks st'
      | ((s, None), st') \<Rightarrow> (case resolve_kinds resolver ks st' of (rest, st'') \<Rightarrow> ((k, s) # rest, st'')))"

definition paramsType :: "validatingAdmissionPolicySpec \<Rightarrow> gvk" where
  "paramsType spec =
     (case ps_ParamKind spec of
        None \<Rightarrow> \<lparr>gvk_Group = [], gvk_Version = [], gvk_Kind = []\<rparr>
      | Some source \<Rightarrow>
          (case ParseGroupVersion (pk_APIVersion source) of
             Inl err \<Rightarrow> \<lparr>gvk_Group = [], gvk_Version = [], gvk_Kind = []\<rparr>
           | Inr (g, version) \<Rightarrow> \<lparr>gvk_Group = g, gvk_Version = version, gvk_Kind = pk_Kind source\<rparr>))"

definition declType ::
  "('s, 'd, 'p, 'env, 'iss) cel_types \<Rightarrow> ('s, 'r) schema_resolver \<Rightarrow> gvk \<Rightarrow> 'r \<Rightarrow> ('d option \<times> go_error option) \<times> 'r" where
  "declType ct resolver gvk st =
     (if gvk_Empty gvk then ((None, None), st)
      else
        (case resolver gvk st of
           ((s, Some err), st') \<Rightarrow> ((None, Some err), st')
         | ((s, None), st') \<Rightarrow> ((ct_SchemaDeclType ct s, None), st')))"

text \<open>\<open>formatWarning\<close>: a line for every kind with issues or an error; the last line break is trimmed.\<close>

definition format_result :: "('s, 'd, 'p, 'env, 'iss) cel_types \<Rightarrow> gvk \<times> 'iss option \<times> go_error option \<Rightarrow> string" where
  "format_result ct result =
     (case result of
        (gvk, issues, Some err) \<Rightarrow> gvk_String gvk @ '': type checking error: '' @ error_text err @ [CHR 0x0A]
      | (gvk, Some issues, None) \<Rightarrow> gvk_String gvk @ '': '' @ ct_IssuesString ct issues @ [CHR 0x0A]
      | (gvk, None, None) \<Rightarrow> [])"

definition trim_newline :: "string \<Rightarrow> string" where
  "trim_newline s = (if s \<noteq> [] \<and> last s = CHR 0x0A then butlast s else s)"

definition formatWarning :: "('s, 'd, 'p, 'env, 'iss) cel_types \<Rightarrow> (gvk \<times> 'iss option \<times> go_error option) list \<Rightarrow> string" where
  "formatWarning ct results = trim_newline (concat (map (format_result ct) results))"

definition check_kinds ::
  "('s, 'd, 'p, 'env, 'iss) cel_types \<Rightarrow> bool \<Rightarrow> 'd option \<Rightarrow> (gvk \<times> 's option) list \<Rightarrow> string
   \<Rightarrow> (gvk \<times> 'iss option \<times> go_error option) list" where
  "check_kinds ct hasParams params kinds expression =
     map (\<lambda>(gvk, s). (gvk, checkExpression ct expression hasParams (ct_SchemaDeclType ct s) params)) kinds"

definition CheckExpressions ::
  "('s, 'd, 'p, 'env, 'iss) cel_types \<Rightarrow> ('s, 'r) typeChecker \<Rightarrow> string list \<Rightarrow> bool \<Rightarrow> validatingAdmissionPolicySpec
   \<Rightarrow> 'r \<Rightarrow> string list \<times> 'r" where
  "CheckExpressions ct tc expressions hasParams spec st =
     (let (kinds, st1) = resolve_kinds (tch_schemaResolver tc) (typesToCheck (tch_restMapper tc) spec) st;
          ((d, err), st2) = declType ct (tch_schemaResolver tc) (paramsType spec) st1;
          params = (if err \<noteq> None then None else d)
      in (map (\<lambda>expression. formatWarning ct (check_kinds ct hasParams params kinds expression)) expressions, st2))"

text \<open>\<open>field.Path\<close>, from the root, and how it is written.\<close>

datatype path_elem = PathName string | PathIndex string

fun path_elem_String :: "bool \<Rightarrow> path_elem \<Rightarrow> string" where
  "path_elem_String root (PathIndex i) = ''['' @ i @ '']''"
| "path_elem_String root (PathName n) =
     (if n = [] then ''[]'' else if root then n else CHR ''.'' # n)"

fun path_String :: "path_elem list \<Rightarrow> string" where
  "path_String [] = ''<nil>''"
| "path_String (p # ps) = path_elem_String True p @ concat (map (path_elem_String False) ps)"

definition expression_path :: "nat \<Rightarrow> path_elem list" where
  "expression_path i = [PathName ''spec'', PathName ''validations'', PathIndex (itoa (int i)), PathName ''expression'']"

text \<open>\<open>Check\<close>, on the policy's spec, the only part it reads.\<close>

definition Check ::
  "('s, 'd, 'p, 'env, 'iss) cel_types \<Rightarrow> ('s, 'r) typeChecker \<Rightarrow> validatingAdmissionPolicy \<Rightarrow> 'r
   \<Rightarrow> expressionWarning slice \<times> 'r" where
  "Check ct tc policy st =
     (let exps = map va_Expression (elems (ps_Validations (vap_Spec policy)));
          (msgs, st') = CheckExpressions ct tc exps (ps_ParamKind (vap_Spec policy) \<noteq> None) (vap_Spec policy) st
      in (foldl (\<lambda>results (i, msg). if msg \<noteq> []
            then append_slice results \<lparr>ew_FieldRef = path_String (expression_path i), ew_Warning = msg\<rparr> else results)
          None (enumerate 0 msgs), st'))"

section \<open>How many kinds are checked\<close>

text \<open>The kinds a rule resolves to, in the order of the loops, and what the limit leaves of the rules' kinds.\<close>

definition rule_kinds :: "kinds_for \<Rightarrow> namedRuleWithOperations \<Rightarrow> gvk list" where
  "rule_kinds mapper rule = filter (\<lambda>k. \<not> gvk_Empty k) (concat (rights (map mapper (rule_resources rule))))"

fun within_limit :: "gvk list list \<Rightarrow> gvk list" where
  "within_limit [] = []"
| "within_limit (ks # kss) = take maxTypesToCheck ks @ (if maxTypesToCheck \<le> length ks then [] else within_limit kss)"

definition constraint_rules :: "validatingAdmissionPolicySpec \<Rightarrow> namedRuleWithOperations list" where
  "constraint_rules spec = (case ps_MatchConstraints spec of None \<Rightarrow> [] | Some c \<Rightarrow> elems (mr_ResourceRules c))"

text \<open>The order in which Go lists the set does not matter.\<close>

lemma sortGVKList_unordered:
  "distinct ks \<Longrightarrow> distinct ks' \<Longrightarrow> set ks = set ks' \<Longrightarrow> sortGVKList ks = sortGVKList ks'"
  unfolding sortGVKList_def
  by (rule map_sorted_distinct_set_unique [where f = gvk_key]) (auto simp: inj_on_def gvk_key_def distinct_map)

lemma insert_kinds_eq:
  "count < maxTypesToCheck \<Longrightarrow>
   insert_kinds rs (count, gvks) =
     (let ks = filter (\<lambda>k. \<not> gvk_Empty k) rs; n = maxTypesToCheck - count
      in (n \<le> length ks, count + min n (length ks), fold List.insert (take n ks) gvks))"
proof (induction rs arbitrary: count gvks)
  case (Cons r rs)
  show ?case
  proof (cases "gvk_Empty r \<or> count + 1 = maxTypesToCheck")
    case True
    moreover have "take (maxTypesToCheck - count) (r # ks) = [r]" if "count + 1 = maxTypesToCheck" for ks
      using arg_cong [OF that, of "\<lambda>n. n - count"] by (simp flip: that)
    ultimately show ?thesis using Cons by (auto simp: Let_def)
  next
    case False
    then have "count + 1 < maxTypesToCheck" "maxTypesToCheck - count = Suc (maxTypesToCheck - (count + 1))" using Cons.prems by auto
    with False Cons.IH [of "count + 1"] show ?thesis by (auto simp: Let_def)
  qed
qed (simp add: Let_def)

lemma visit_resources_eq:
  "count < maxTypesToCheck \<Longrightarrow>
   visit_resources mapper rs (count, gvks) =
     (let ks = filter (\<lambda>k. \<not> gvk_Empty k) (concat (rights (map mapper rs))); n = maxTypesToCheck - count
      in (n \<le> length ks, count + min n (length ks), fold List.insert (take n ks) gvks))"
proof (induction rs arbitrary: count gvks)
  case (Cons r rs)
  show ?case
  proof (cases "mapper r")
    case (Inl err)
    then show ?thesis using Cons by (simp add: rights_def)
  next
    case (Inr resolved)
    let ?ks = "filter (\<lambda>k. \<not> gvk_Empty k) resolved"
    show ?thesis
    proof (cases "maxTypesToCheck - count \<le> length ?ks")
      case True
      then show ?thesis using Inr insert_kinds_eq [OF Cons.prems, of resolved gvks] by (simp add: Let_def rights_def)
    next
      case False
      then have "count + length ?ks < maxTypesToCheck" by simp
      from Cons.IH [OF this] False show ?thesis
        using Inr insert_kinds_eq [OF Cons.prems, of resolved gvks] by (auto simp: Let_def rights_def diff_add_assoc2)
    qed
  qed
qed (simp add: Let_def rights_def)

lemma rule_without_resources:
  "extractGroups rule = [] \<or> extractVersions rule = [] \<or> extractResources rule = [] \<Longrightarrow> rule_resources rule = []"
  by (auto simp: rule_resources_def)

lemma visit_rules_eq:
  "visit_rules mapper rules gvks = fold List.insert (within_limit (map (rule_kinds mapper) rules)) gvks"
proof (induction rules arbitrary: gvks)
  case (Cons rule rules)
  have "visit_resources mapper (rule_resources rule) (0, gvks) =
      (maxTypesToCheck \<le> length (rule_kinds mapper rule), min maxTypesToCheck (length (rule_kinds mapper rule)),
       fold List.insert (take maxTypesToCheck (rule_kinds mapper rule)) gvks)"
    using visit_resources_eq [of 0 mapper "rule_resources rule" gvks] by (simp add: maxTypesToCheck_def Let_def rule_kinds_def)
  moreover have "rule_kinds mapper rule = []" if "extractGroups rule = [] \<or> extractVersions rule = [] \<or> extractResources rule = []"
    using rule_without_resources [OF that] by (simp add: rule_kinds_def rights_def)
  ultimately show ?case using Cons.IH by (auto simp: maxTypesToCheck_def)
qed simp

lemma fold_insert_props:
  "set (fold List.insert xs ys) = set xs \<union> set ys"
  "distinct ys \<Longrightarrow> distinct (fold List.insert xs ys)"
  by (induction xs arbitrary: ys) auto

lemma length_fold_insert: "length (fold List.insert xs ys) \<le> length xs + length ys"
proof (induction xs arbitrary: ys)
  case (Cons x xs)
  have "length (List.insert x ys) \<le> Suc (length ys)" by (simp add: List.insert_def)
  with Cons [of "List.insert x ys"] show ?case by simp
qed simp

lemma length_within_limit: "length (within_limit kss) \<le> (maxTypesToCheck - 1) * length kss + 1"
  by (induction kss) (auto simp: maxTypesToCheck_def)

lemma within_limit_set: "set (within_limit kss) \<subseteq> (\<Union>ks \<in> set kss. set ks)"
  by (induction kss) (auto dest: in_set_takeD)

lemma within_limit_all:
  "\<forall>ks \<in> set kss. length ks < maxTypesToCheck \<Longrightarrow> within_limit kss = concat kss"
  by (induction kss) auto

lemma typesToCheck_eq:
  "typesToCheck mapper spec = sortGVKList (fold List.insert (within_limit (map (rule_kinds mapper) (constraint_rules spec))) [])"
  by (simp add: typesToCheck_def constraint_rules_def visit_rules_eq sortGVKList_def split: option.split)

text \<open>
  (C24) What is type checked. The kinds come in order without duplicates, each of them is one a rule's concrete
  resources resolve to, and they are all such kinds as long as no rule has ten of them. But the limit is one of each
  rule and counts the same kind again: with several rules there can be more than ten.
\<close>

theorem types_to_check_bounded:
  "distinct (typesToCheck mapper spec) \<and> sorted (map gvk_key (typesToCheck mapper spec)) \<and>
   length (typesToCheck mapper spec) \<le> (maxTypesToCheck - 1) * length (constraint_rules spec) + 1 \<and>
   set (typesToCheck mapper spec) \<subseteq> (\<Union>rule \<in> set (constraint_rules spec). set (rule_kinds mapper rule)) \<and>
   ((\<forall>rule \<in> set (constraint_rules spec). length (rule_kinds mapper rule) < maxTypesToCheck) \<longrightarrow>
     set (typesToCheck mapper spec) = (\<Union>rule \<in> set (constraint_rules spec). set (rule_kinds mapper rule)))"
  (is "_ \<and> _ \<and> ?bound \<and> ?sub \<and> ?all")
proof (intro conjI)
  let ?kss = "map (rule_kinds mapper) (constraint_rules spec)"
  note eq = typesToCheck_eq [of mapper spec]
  show "distinct (typesToCheck mapper spec)" "sorted (map gvk_key (typesToCheck mapper spec))"
    by (simp_all add: eq sortGVKList_def fold_insert_props)
  show ?bound
    using length_fold_insert [of "within_limit ?kss" "[]"] length_within_limit [of ?kss] by (simp add: eq sortGVKList_def)
  show ?sub using within_limit_set [of ?kss] by (auto simp: eq sortGVKList_def fold_insert_props)
  show ?all using within_limit_all [of ?kss] by (auto simp: eq sortGVKList_def fold_insert_props)
qed

section \<open>Which warnings there are\<close>

text \<open>An expression is complained about if some kind has issues with it or its environment has an error.\<close>

definition complains ::
  "('s, 'd, 'p, 'env, 'iss) cel_types \<Rightarrow> bool \<Rightarrow> 'd option \<Rightarrow> (gvk \<times> 's option) list \<Rightarrow> string \<Rightarrow> bool" where
  "complains ct hasParams params kinds expression \<longleftrightarrow>
     (\<exists>(gvk, s) \<in> set kinds. checkExpression ct expression hasParams (ct_SchemaDeclType ct s) params \<noteq> (None, None))"

definition checked_kinds :: "('s, 'r) typeChecker \<Rightarrow> validatingAdmissionPolicySpec \<Rightarrow> 'r \<Rightarrow> (gvk \<times> 's option) list" where
  "checked_kinds tc spec st = fst (resolve_kinds (tch_schemaResolver tc) (typesToCheck (tch_restMapper tc) spec) st)"

definition checked_params ::
  "('s, 'd, 'p, 'env, 'iss) cel_types \<Rightarrow> ('s, 'r) typeChecker \<Rightarrow> validatingAdmissionPolicySpec \<Rightarrow> 'r \<Rightarrow> 'd option" where
  "checked_params ct tc spec st =
     (let st1 = snd (resolve_kinds (tch_schemaResolver tc) (typesToCheck (tch_restMapper tc) spec) st);
          (d, err) = fst (declType ct (tch_schemaResolver tc) (paramsType spec) st1)
      in if err \<noteq> None then None else d)"

lemma format_result_silent:
  "format_result ct (gvk, issues, err) = [] \<longleftrightarrow> (issues, err) = (None, None)"
  "format_result ct (gvk, issues, err) \<noteq> [] \<Longrightarrow> 2 \<le> length (format_result ct (gvk, issues, err))"
  by (auto simp: format_result_def split: option.splits)

lemma trim_newline_Nil: "2 \<le> length s \<Longrightarrow> trim_newline s \<noteq> []" "trim_newline [] = []"
  by (cases s rule: rev_cases) (auto simp: trim_newline_def)

lemma formatWarning_silent:
  "formatWarning ct results = [] \<longleftrightarrow> (\<forall>(gvk, r) \<in> set results. r = (None, None))"
proof (cases "\<forall>(gvk, r) \<in> set results. r = (None, None)")
  case True
  then have "concat (map (format_result ct) results) = []"
    by (induction results) (auto simp: format_result_def)
  then show ?thesis using True by (simp only: formatWarning_def trim_newline_Nil) simp
next
  case False
  then obtain x where "x \<in> set results" "\<not> (case x of (gvk, r) \<Rightarrow> r = (None, None))" by blast
  moreover obtain gvk issues err where "x = (gvk, issues, err)" by (cases x)
  ultimately have r: "(gvk, issues, err) \<in> set results" "(issues, err) \<noteq> (None, None)" by simp_all
  from r(2) have "format_result ct (gvk, issues, err) \<noteq> []" using format_result_silent(1) by blast
  from format_result_silent(2) [OF this] have "2 \<le> length (format_result ct (gvk, issues, err))" .
  moreover from split_list [OF r(1)] obtain xs ys where "results = xs @ (gvk, issues, err) # ys" by blast
  ultimately have "2 \<le> length (concat (map (format_result ct) results))" by simp
  from trim_newline_Nil(1) [OF this] show ?thesis using False by (simp add: formatWarning_def)
qed

lemma warning_complains:
  "formatWarning ct (check_kinds ct hasParams params kinds expression) \<noteq> [] \<longleftrightarrow> complains ct hasParams params kinds expression"
  by (auto simp: formatWarning_silent check_kinds_def complains_def split_def)

declare digits.simps [simp del]

lemma digit_inj: "i < 10 \<Longrightarrow> j < 10 \<Longrightarrow> (char_of (48 + i :: nat) :: char) = char_of (48 + j :: nat) \<longleftrightarrow> i = j"
  by (simp add: char_of_eq_iff take_bit_nat_eq_self)

lemma digits_nonempty [simp]: "digits n \<noteq> []" "[] \<noteq> digits n"
  by (simp_all add: digits.simps [of n])

lemma digits_inj: "digits m = digits n \<Longrightarrow> m = n"
proof (induction m arbitrary: n rule: digits.induct)
  case (1 m)
  show ?case
  proof (cases "m < 10 \<or> n < 10")
    case True
    with "1.prems" show ?thesis by (auto simp: digits.simps [of m] digits.simps [of n] digit_inj split: if_splits)
  next
    case False
    with "1.prems" have "digits (m div 10) = digits (n div 10)" "m mod 10 = n mod 10"
      by (simp_all add: digits.simps [of m] digits.simps [of n] digit_inj)
    with "1.IH" False have "m div 10 = n div 10" by simp
    with \<open>m mod 10 = n mod 10\<close> show ?thesis by (metis div_mult_mod_eq)
  qed
qed

lemma expression_path_inj: "path_String (expression_path i) = path_String (expression_path j) \<longleftrightarrow> i = j"
  by (auto simp: expression_path_def itoa_def dest: digits_inj)

lemma append_loop:
  "foldl (\<lambda>results (i, msg). if p msg then append_slice results (f i msg) else results) acc ps =
   foldl append_slice acc (map (\<lambda>(i, msg). f i msg) (filter (\<lambda>(i, msg). p msg) ps))"
  by (induction ps arbitrary: acc) auto

lemma foldl_append_slice_eq_None: "foldl append_slice acc xs = None \<longleftrightarrow> acc = None \<and> xs = []"
  by (induction xs arbitrary: acc) (auto simp: append_slice_def)

definition expression_at :: "validatingAdmissionPolicy \<Rightarrow> nat \<Rightarrow> string" where
  "expression_at policy i = va_Expression (elems (ps_Validations (vap_Spec policy)) ! i)"

definition complained :: "('s, 'd, 'p, 'env, 'iss) cel_types \<Rightarrow> ('s, 'r) typeChecker \<Rightarrow> validatingAdmissionPolicy \<Rightarrow> 'r \<Rightarrow> nat list" where
  "complained ct tc policy st =
     filter (\<lambda>i. complains ct (ps_ParamKind (vap_Spec policy) \<noteq> None) (checked_params ct tc (vap_Spec policy) st)
         (checked_kinds tc (vap_Spec policy) st) (expression_at policy i))
       [0..<length (elems (ps_Validations (vap_Spec policy)))]"

lemma filter_enumerate:
  "filter (\<lambda>(i, x). p x) (enumerate 0 xs) = map (\<lambda>i. (i, xs ! i)) (filter (\<lambda>i. p (xs ! i)) [0..<length xs])"
proof -
  have "enumerate 0 xs = map (\<lambda>i. (i, xs ! i)) [0..<length xs]"
    by (rule nth_equalityI) (auto simp: nth_enumerate_eq)
  then show ?thesis by (simp add: filter_map comp_def)
qed

lemma warning_loop:
  "foldl (\<lambda>results (i, msg). if msg \<noteq> [] then append_slice results (f i msg) else results) None (enumerate 0 msgs) =
   foldl append_slice None (map (\<lambda>i. f i (msgs ! i)) (filter (\<lambda>i. msgs ! i \<noteq> []) [0..<length msgs]))"
  by (subst append_loop) (simp add: filter_enumerate comp_def)

lemma Check_warnings:
  "fst (Check ct tc policy st) =
     (let msgs = fst (CheckExpressions ct tc (map va_Expression (elems (ps_Validations (vap_Spec policy))))
           (ps_ParamKind (vap_Spec policy) \<noteq> None) (vap_Spec policy) st)
      in foldl append_slice None (map (\<lambda>i. \<lparr>ew_FieldRef = path_String (expression_path i), ew_Warning = msgs ! i\<rparr>)
           (filter (\<lambda>i. msgs ! i \<noteq> []) [0..<length msgs])))"
  by (simp add: Check_def Let_def warning_loop split: prod.split)

text \<open>
  (C25) The warnings of a policy. There is one for each expression that some kind with a schema complains about, and
  none for any other; they come in order, and their field paths tell the expressions apart. Kinds
  whose schema does not resolve are not checked, and a policy without complaints gets a nil list.
\<close>

theorem Check_warns_exactly:
  "map ew_FieldRef (elems (fst (Check ct tc policy st))) = map (path_String \<circ> expression_path) (complained ct tc policy st) \<and>
   distinct (map ew_FieldRef (elems (fst (Check ct tc policy st)))) \<and>
   (fst (Check ct tc policy st) = None) = (complained ct tc policy st = [])"
proof -
  let ?exps = "map va_Expression (elems (ps_Validations (vap_Spec policy)))"
  let ?warn = "\<lambda>e. formatWarning ct (check_kinds ct (ps_ParamKind (vap_Spec policy) \<noteq> None)
    (checked_params ct tc (vap_Spec policy) st) (checked_kinds tc (vap_Spec policy) st) e)"
  have "fst (CheckExpressions ct tc ?exps (ps_ParamKind (vap_Spec policy) \<noteq> None) (vap_Spec policy) st) = map ?warn ?exps"
    by (simp add: CheckExpressions_def checked_kinds_def checked_params_def Let_def split_def)
  moreover have "filter (\<lambda>i. map ?warn ?exps ! i \<noteq> []) [0..<length (map ?warn ?exps)] = complained ct tc policy st"
    unfolding complained_def by (rule filter_cong) (auto simp: warning_complains expression_at_def)
  ultimately have "fst (Check ct tc policy st) = foldl append_slice None
      (map (\<lambda>i. \<lparr>ew_FieldRef = path_String (expression_path i), ew_Warning = map ?warn ?exps ! i\<rparr>) (complained ct tc policy st))"
    by (simp only: Check_warnings Let_def)
  then show ?thesis
    by (simp add: foldl_append_slice_eq_None distinct_map inj_on_def expression_path_inj comp_def complained_def)
qed

section \<open>With the caching resolver\<close>

text \<open>The resolver of \<open>pkg/controller/schemaresolver\<close> as a schema resolver, with the world discovery works on.\<close>

definition caching_resolver :: "('s, 'w) Schema_Resolver.discovery \<Rightarrow> ('s, 's resolver \<times> 'w) schema_resolver" where
  "caching_resolver disco gvk st =
     (case ResolveSchema disco gvk (fst st) (snd st) of (answer, r, w) \<Rightarrow> (answer, (r, w)))"

text \<open>The type checker that \<open>NewAdmissionController\<close> makes of it.\<close>

definition caching_checker :: "('s, 'w) Schema_Resolver.discovery \<Rightarrow> kinds_for \<Rightarrow> ('s, 's resolver \<times> 'w) typeChecker" where
  "caching_checker disco mapper = \<lparr>tch_schemaResolver = caching_resolver disco, tch_restMapper = mapper\<rparr>"

lemma caching_resolver_final:
  assumes "caching_resolver disco k (r, w) = (answer, (r', w'))"
  shows "cache r \<subseteq>\<^sub>m cache r'"
    and "cache r' \<subseteq>\<^sub>m cache r'' \<Longrightarrow> caching_resolver disco' k (r'', v) = (answer, (r'', v))"
proof -
  have "\<exists>e. cache r' k = Some e \<and> answer = (ce_schema e, ce_error e) \<and> cache r \<subseteq>\<^sub>m cache r'"
  proof (cases "cache r k")
    case None
    obtain data err where "disco k w = ((data, err), w')" "answer = (data, err)"
        "r' = store_entry k \<lparr>ce_error = err, ce_schema = data\<rparr> r"
      using assms None by (auto simp: caching_resolver_def ResolveSchema_def resolveSchemaFromCache_def Let_def split: prod.splits)
    with None show ?thesis by (auto simp: store_entry_def map_le_def)
  next
    case (Some e)
    with assms show ?thesis by (simp add: caching_resolver_def ResolveSchema_def resolveSchemaFromCache_def)
  qed
  then obtain e where e: "cache r' k = Some e" "answer = (ce_schema e, ce_error e)" and grows: "cache r \<subseteq>\<^sub>m cache r'"
    by blast
  show "cache r \<subseteq>\<^sub>m cache r'" by (rule grows)
  show "caching_resolver disco' k (r'', v) = (answer, (r'', v))" if "cache r' \<subseteq>\<^sub>m cache r''"
  proof -
    from that e(1) have "cache r'' k = Some e" by (metis domI map_le_def)
    with e(2) show ?thesis by (simp add: caching_resolver_def ResolveSchema_def resolveSchemaFromCache_def)
  qed
qed

lemma resolve_kinds_final:
  "resolve_kinds (caching_resolver disco) ks (r, w) = (found, (r', w')) \<Longrightarrow>
   cache r \<subseteq>\<^sub>m cache r' \<and>
   (cache r' \<subseteq>\<^sub>m cache r'' \<longrightarrow> resolve_kinds (caching_resolver disco') ks (r'', v) = (found, (r'', v)))"
proof (induction ks arbitrary: r w found)
  case (Cons k ks)
  obtain s err r1 w1 where one: "caching_resolver disco k (r, w) = ((s, err), (r1, w1))" by (metis prod.exhaust)
  obtain found1 where rest: "resolve_kinds (caching_resolver disco) ks (r1, w1) = (found1, (r', w'))"
    and found: "found = (if err = None then (k, s) # found1 else found1)"
    using Cons.prems one by (cases err) (auto split: prod.splits)
  note IH = Cons.IH [OF rest]
  from caching_resolver_final(1) [OF one] IH have "cache r \<subseteq>\<^sub>m cache r'" by (blast intro: map_le_trans)
  moreover have "resolve_kinds (caching_resolver disco') (k # ks) (r'', v) = (found, (r'', v))" if "cache r' \<subseteq>\<^sub>m cache r''"
  proof -
    have "cache r1 \<subseteq>\<^sub>m cache r''" using IH that by (blast intro: map_le_trans)
    from caching_resolver_final(2) [OF one this, of disco' v] IH that show ?thesis by (cases err) (simp_all add: found)
  qed
  ultimately show ?case by blast
qed simp

lemma declType_final:
  assumes "declType ct (caching_resolver disco) k (r, w) = (d, (r', w'))"
  shows "cache r \<subseteq>\<^sub>m cache r'"
    and "cache r' \<subseteq>\<^sub>m cache r'' \<Longrightarrow> declType ct (caching_resolver disco') k (r'', v) = (d, (r'', v))"
proof -
  obtain s err r1 w1 where one: "caching_resolver disco k (r, w) = ((s, err), (r1, w1))" by (metis prod.exhaust)
  show "cache r \<subseteq>\<^sub>m cache r'"
    using assms one caching_resolver_final(1) [OF one] by (cases err) (auto simp: declType_def split: if_splits)
  show "declType ct (caching_resolver disco') k (r'', v) = (d, (r'', v))" if "cache r' \<subseteq>\<^sub>m cache r''"
  proof (cases "gvk_Empty k")
    case False
    with assms one have "r1 = r'" "d = (if err = None then (ct_SchemaDeclType ct s, None) else (None, err))"
      by (cases err; simp add: declType_def)+
    with caching_resolver_final(2) [OF one, of r'' disco' v] that False show ?thesis by (cases err) (simp_all add: declType_def)
  qed (use assms in \<open>simp add: declType_def\<close>)
qed

lemma CheckExpressions_final:
  assumes "CheckExpressions ct (caching_checker disco mapper) exps has spec (r, w) = (msgs, (r', w'))"
    and "cache r' \<subseteq>\<^sub>m cache r''"
  shows "CheckExpressions ct (caching_checker disco' mapper) exps has spec (r'', v) = (msgs, (r'', v))"
proof -
  obtain kinds r1 w1 where kinds: "resolve_kinds (caching_resolver disco) (typesToCheck mapper spec) (r, w) = (kinds, (r1, w1))"
    by (metis prod.exhaust)
  obtain d err r2 w2 where d: "declType ct (caching_resolver disco) (paramsType spec) (r1, w1) = ((d, err), (r2, w2))"
    by (metis prod.exhaust)
  have r2: "r2 = r'" using assms(1) by (simp add: CheckExpressions_def caching_checker_def kinds d Let_def)
  have "cache r1 \<subseteq>\<^sub>m cache r''" using declType_final(1) [OF d] assms(2) r2 by (blast intro: map_le_trans)
  with resolve_kinds_final [OF kinds, of r'' disco' v]
  have "resolve_kinds (caching_resolver disco') (typesToCheck mapper spec) (r'', v) = (kinds, (r'', v))" by blast
  with declType_final(2) [OF d, unfolded r2, OF assms(2), of disco' v] show ?thesis
    using assms(1) by (simp add: CheckExpressions_def caching_checker_def kinds d Let_def)
qed

text \<open>
  (C18) A type check is never repeated. With the caching resolver, whose cache only grows because nothing in the
  command runs the handlers that purge it, the first check of a spec decides the warnings of every later check of it,
  whatever schemas the cluster has by then, and of the status the policy controller writes: discovery is not asked
  again, and neither are kinds whose schema could not be found.
\<close>

theorem type_checks_are_final:
  assumes "Check ct (caching_checker disco mapper) policy (r, w) = (warnings, (r', w'))"
    and "cache r' \<subseteq>\<^sub>m cache r''" and "vap_Spec policy' = vap_Spec policy"
  shows "Check ct (caching_checker disco' mapper) policy' (r'', v) = (warnings, (r'', v)) \<and>
    (\<forall>update. reconcilePolicyStatus (\<lambda>d. fst (Check ct (caching_checker disco' mapper) d (r'', v))) (Some policy') = Some update \<longrightarrow>
       Option.bind (pst_TypeChecking (vap_Status update)) tc_ExpressionWarnings = warnings)"
proof -
  let ?check = "\<lambda>disco. CheckExpressions ct (caching_checker disco mapper) (map va_Expression (elems (ps_Validations (vap_Spec policy))))
    (ps_ParamKind (vap_Spec policy) \<noteq> None) (vap_Spec policy)"
  obtain msgs r1 w1 where msgs: "?check disco (r, w) = (msgs, (r1, w1))" by (metis prod.exhaust)
  with assms(1) have "r1 = r'" by (simp add: Check_def Let_def)
  with assms(2) CheckExpressions_final [OF msgs, of r'' disco' v]
  have "CheckExpressions ct (caching_checker disco' mapper) (map va_Expression (elems (ps_Validations (vap_Spec policy))))
    (ps_ParamKind (vap_Spec policy) \<noteq> None) (vap_Spec policy) (r'', v) = (msgs, (r'', v))" by simp
  then have "Check ct (caching_checker disco' mapper) policy' (r'', v) = (warnings, (r'', v))"
    using assms(1) msgs unfolding Check_def assms(3) by (simp add: Let_def)
  then show ?thesis by (auto simp: reconcilePolicyStatus_def)
qed

section \<open>With the command's REST mapper\<close>

text \<open>
  (C26) Rules on the core group reach into other groups. With the mapper the command builds from discovery, if a
  rule of a policy names the core group, whose name is empty, a version and a resource (with whatever other groups,
  versions and resources), then the expressions are checked also against the resource of that name and version of
  any other group that serves one under that name, as long as no rule of the policy resolves to ten kinds, where the
  checker stops looking. The served resource is one with a lower case name of its own, no subresource, that no other resource
  of its list takes over.
\<close>

theorem core_rules_check_other_groups:
  assumes "g \<in> set groups" and "v \<in> set (ag_Versions g)" and "v \<noteq> []" "v \<noteq> APIVersionInternal"
    and "map_of (rev rs) \<lparr>gv_Group = ag_Name g, gv_Version = v\<rparr> = Some resources" and "own_name resources r"
    and "to_lower (ar_Name r) = ar_Name r" and "visits_resources order"
    and rule: "rule \<in> set (constraint_rules spec)" "[] \<in> set (extractGroups rule)"
      "v \<in> set (extractVersions rule)" "ar_Name r \<in> set (extractResources rule)"
    and few: "\<forall>rule \<in> set (constraint_rules spec).
      length (rule_kinds (kinds_for_resource order (Inr (groups, rs))) rule) < maxTypesToCheck"
  shows "with_version_of (ag_Name g) (ar_Kind r) v \<in> set (typesToCheck (kinds_for_resource order (Inr (groups, rs))) spec)"
proof -
  let ?mapper = "kinds_for_resource order (Inr (groups, rs))"
  from kinds_of_discovered_resource [OF assms(1,2,5,6,8,3,4,7)] obtain ks where
    ks: "?mapper \<lparr>gvr_Group = [], gvr_Version = v, gvr_Resource = ar_Name r\<rparr> = Inr ks" "with_version_of (ag_Name g) (ar_Kind r) v \<in> set ks"
    by blast
  have "\<lparr>gvr_Group = [], gvr_Version = v, gvr_Resource = ar_Name r\<rparr> \<in> set (rule_resources rule)"
    using rule(2-4) by (force simp: rule_resources_def)
  then have "with_version_of (ag_Name g) (ar_Kind r) v \<in> set (rule_kinds ?mapper rule)"
    using ks assms(3) by (force simp: rule_kinds_def rights_def gvk_Empty_def with_version_of_def)
  then show ?thesis
    using rule(1) few by (auto simp: typesToCheck_eq sortGVKList_def fold_insert_props within_limit_all)
qed

section \<open>Instances\<close>

text \<open>
  Schemas are lists of fields and an expression is a field of \<open>object\<close>; every resource is its own kind. Discovery
  does not know a schema before the CRD is there.
\<close>

definition ex_cel :: "(string list, string list, unit, (string list, unit) env_option list, string) cel_types" where
  "ex_cel = \<lparr>ct_BaseEnv = Inr [], ct_RequestType = [], ct_SchemaDeclType = id, ct_NewRuleTypes = (\<lambda>d. Inr (Some ())),
     ct_WithTypeProvider = (\<lambda>env rt. Inr ()), ct_Extend = (\<lambda>env opts. Inr (env @ opts)),
     ct_Compile = (\<lambda>env e. if list_ex (\<lambda>opt. case opt of Variable n (Some known) \<Rightarrow> n = ''object'' \<and> e \<in> set known | _ \<Rightarrow> False) env
       then None else Some (''undefined field '' @ e)),
     ct_IssuesString = id\<rparr>"

definition ex_kinds_for :: kinds_for where
  "ex_kinds_for r = Inr [\<lparr>gvk_Group = gvr_Group r, gvk_Version = gvr_Version r, gvk_Kind = gvr_Resource r\<rparr>]"

definition ex_schemas :: "(string list, nat) Schema_Resolver.discovery" where
  "ex_schemas k w = (if w = 0 then (None, Some (Plain ''schema not found'')) else (Some [''size''], None), w)"

definition ex_typed_rule :: "string list \<Rightarrow> namedRuleWithOperations" where
  "ex_typed_rule resources = \<lparr>nr_ResourceNames = None, nr_Operations = None, nr_APIGroups = Some [''example.com''],
     nr_APIVersions = Some [''v1''], nr_Resources = Some resources, nr_Scope = None\<rparr>"

definition ex_typed_spec :: "string list list \<Rightarrow> validatingAdmissionPolicySpec" where
  "ex_typed_spec resources = (vap_Spec snap_policy)\<lparr>ps_ParamKind := None,
     ps_MatchConstraints := Some \<lparr>mr_NamespaceSelector = None, mr_ObjectSelector = None,
       mr_ResourceRules = Some (map ex_typed_rule resources), mr_ExcludeResourceRules = None, mr_MatchPolicy = None\<rparr>,
     ps_Validations := Some (map (\<lambda>e. \<lparr>va_Expression = e, va_Message = [], va_Reason = None, va_MessageExpression = []\<rparr>)
       [''size'', ''colour''])\<rparr>"

definition ex_typed :: "validatingAdmissionPolicy" where
  "ex_typed = snap_policy\<lparr>vap_Spec := ex_typed_spec [[''widgets'']]\<rparr>"

definition ex_two_rules :: validatingAdmissionPolicySpec where
  "ex_two_rules = ex_typed_spec [map (\<lambda>c. [c]) ''abcdefghi'', map (\<lambda>c. [c]) ''ABCDEFGHIJ'']"

lemma ex_over_limit: "length (typesToCheck ex_kinds_for ex_two_rules) = 19"
  by code_simp

theorem types_to_check_bounded_witness:
  "set (typesToCheck ex_kinds_for (ex_typed_spec [[''widgets'']])) = set (rule_kinds ex_kinds_for (ex_typed_rule [''widgets''])) \<and>
   maxTypesToCheck < length (typesToCheck ex_kinds_for ex_two_rules) \<and> length (typesToCheck ex_kinds_for ex_two_rules) \<le> 9 * 2 + 1"
proof (intro conjI)
  have rules: "constraint_rules (ex_typed_spec [[''widgets'']]) = [ex_typed_rule [''widgets'']]" "length (constraint_rules ex_two_rules) = 2"
    by (simp_all add: constraint_rules_def ex_typed_spec_def ex_two_rules_def)
  have "length (rule_kinds ex_kinds_for (ex_typed_rule [''widgets''])) < maxTypesToCheck" by code_simp
  with types_to_check_bounded [of ex_kinds_for "ex_typed_spec [[''widgets'']]"] rules(1)
  show "set (typesToCheck ex_kinds_for (ex_typed_spec [[''widgets'']])) = set (rule_kinds ex_kinds_for (ex_typed_rule [''widgets'']))"
    by simp
  show "maxTypesToCheck < length (typesToCheck ex_kinds_for ex_two_rules)" by (simp add: ex_over_limit maxTypesToCheck_def)
  show "length (typesToCheck ex_kinds_for ex_two_rules) \<le> 9 * 2 + 1"
    using types_to_check_bounded [of ex_kinds_for ex_two_rules] rules(2) by (simp add: maxTypesToCheck_def)
qed

text \<open>
  A policy is checked before the CRD of its kind is there, and again, for its status, when it is: \<open>colour\<close> is still not
  complained about, though a checker with a fresh cache would.
\<close>

theorem type_checks_are_final_witness:
  "\<exists>r' update. Check ex_cel (caching_checker ex_schemas ex_kinds_for) ex_typed (resolver_New, 0) = (None, (r', 0)) \<and>
     reconcilePolicyStatus (\<lambda>d. fst (Check ex_cel (caching_checker ex_schemas ex_kinds_for) d (r', 1))) (Some ex_typed) = Some update \<and>
     Option.bind (pst_TypeChecking (vap_Status update)) tc_ExpressionWarnings = None \<and>
     fst (Check ex_cel (caching_checker ex_schemas ex_kinds_for) ex_typed (resolver_New, 1)) \<noteq> None"
proof -
  have kinds: "typesToCheck ex_kinds_for (vap_Spec ex_typed) = [\<lparr>gvk_Group = ''example.com'', gvk_Version = ''v1'', gvk_Kind = ''widgets''\<rparr>]"
    by code_simp
  note eval = Check_def CheckExpressions_def caching_checker_def kinds caching_resolver_def ResolveSchema_def resolveSchemaFromCache_def
    resolver_New_def ex_schemas_def store_entry_def declType_def paramsType_def gvk_Empty_def
  have exps: "map va_Expression (elems (ps_Validations (vap_Spec ex_typed))) = [''size'', ''colour'']"
    "ps_ParamKind (vap_Spec ex_typed) = None"
    by (simp_all add: ex_typed_def ex_typed_spec_def)
  obtain r' where first: "Check ex_cel (caching_checker ex_schemas ex_kinds_for) ex_typed (resolver_New, 0) = (None, (r', 0))"
    by (simp add: eval exps check_kinds_def formatWarning_def trim_newline_def)
  from type_checks_are_final [OF first map_le_refl refl, where disco' = ex_schemas and v = 1]
  have final: "Option.bind (pst_TypeChecking (vap_Status u)) tc_ExpressionWarnings = None"
    if "reconcilePolicyStatus (\<lambda>d. fst (Check ex_cel (caching_checker ex_schemas ex_kinds_for) d (r', 1))) (Some ex_typed) = Some u" for u
    using that by blast
  have "fst (Check ex_cel (caching_checker ex_schemas ex_kinds_for) ex_typed (resolver_New, 1)) \<noteq> None"
    by (simp add: eval exps check_kinds_def formatWarning_def format_result_def trim_newline_def checkExpression_def buildEnv_def
        createRuleTypesAndOptions_def ruleTypesOpts_def ex_cel_def append_slice_def gvk_String_def)
  moreover obtain u where "reconcilePolicyStatus (\<lambda>d. fst (Check ex_cel (caching_checker ex_schemas ex_kinds_for) d (r', 1))) (Some ex_typed) = Some u"
    by (simp add: reconcilePolicyStatus_def ex_typed_def snap_policy_def snap_meta_def)
  ultimately show ?thesis using first final by blast
qed

text \<open>A policy on core events is checked against the events of \<open>events.k8s.io\<close>.\<close>

definition ex_events_rule :: namedRuleWithOperations where
  "ex_events_rule = \<lparr>nr_ResourceNames = None, nr_Operations = None, nr_APIGroups = Some [[]],
     nr_APIVersions = Some [''v1''], nr_Resources = Some [''events''], nr_Scope = None\<rparr>"

definition ex_events_spec :: validatingAdmissionPolicySpec where
  "ex_events_spec = (vap_Spec snap_policy)\<lparr>ps_MatchConstraints := Some \<lparr>mr_NamespaceSelector = None, mr_ObjectSelector = None,
     mr_ResourceRules = Some [ex_events_rule], mr_ExcludeResourceRules = None, mr_MatchPolicy = None\<rparr>\<rparr>"

theorem core_rules_check_other_groups_witness:
  "\<exists>order. visits_resources order \<and>
     with_version_of ''events.k8s.io'' ''Event'' ''v1'' \<in>
       set (typesToCheck (kinds_for_resource order (Inr (map events_group [[], ''events.k8s.io''], events_lists))) ex_events_spec)"
proof -
  obtain order where order: "visits_resources order" using some_order_visits by blast
  let ?d = "(map events_group [[], ''events.k8s.io''], events_lists)"
  let ?r = "\<lparr>gvr_Group = [], gvr_Version = ''v1'', gvr_Resource = ''events''\<rparr>"
  have rule: "constraint_rules ex_events_spec = [ex_events_rule]" "extractGroups ex_events_rule = [[]]"
    "extractVersions ex_events_rule = [''v1'']" "extractResources ex_events_rule = [ar_Name events_resource]"
    by (simp_all add: constraint_rules_def ex_events_spec_def ex_events_rule_def extractGroups_def extractVersions_def
        extractResources_def contains_any_def events_facts)
  have plain: "plain_request ?r" by code_simp
  have few: "length (rule_kinds (kinds_for_resource order (Inr ?d)) ex_events_rule) < maxTypesToCheck"
  proof -
    from multi_kinds_versions [OF version_mappers_of_entries [of "fst ?d" "snd ?d"] order plain, of "[]", folded kinds_from_versions]
    obtain ks where ks: "set ks \<subseteq> (\<Union>t \<in> set (version_mappers_of (fst ?d) (snd ?d)). set (version_answer ?r t))" "distinct ks"
      "kinds_for_resource order (Inr ?d) ?r = (if ks = [] then Inl (NoResourceMatch ?r) else Inr ks)" by auto
    have "version_mappers_of (fst ?d) (snd ?d) =
        map (\<lambda>name. (\<lparr>gv_Group = name, gv_Version = ''v1''\<rparr>, version_mapper \<lparr>gv_Group = name, gv_Version = ''v1''\<rparr> [events_resource]))
          [[], ''events.k8s.io'']"
      by (simp add: version_mappers_of_def events_group_def events_lists_def)
    with ks(1) have "set ks \<subseteq> set (concat (map (version_answer ?r) (version_mappers_of (fst ?d) (snd ?d))))" by simp
    then have "card (set ks) \<le> length (concat (map (version_answer ?r) (version_mappers_of (fst ?d) (snd ?d))))"
      by (meson card_length card_mono finite_set le_trans)
    also have "\<dots> \<le> 2"
      by (simp add: version_mappers_of_def events_group_def events_lists_def version_answer_def split: option.split)
    finally have "length ks \<le> 2" using ks(2) by (simp add: distinct_card)
    then have "length (filter (\<lambda>k. \<not> gvk_Empty k) ks) \<le> 2" using length_filter_le le_trans by blast
    then show ?thesis using ks(3) rule(2-4)
      by (auto simp: rule_kinds_def rule_resources_def rights_def maxTypesToCheck_def events_facts)
  qed
  have few_all: "\<forall>rule \<in> set (constraint_rules ex_events_spec). length (rule_kinds (kinds_for_resource order (Inr ?d)) rule) < maxTypesToCheck"
    unfolding rule(1) using few by (simp only: list.set ball_simps)
  have served: "map_of (rev events_lists) \<lparr>gv_Group = ag_Name (events_group ''events.k8s.io''), gv_Version = ''v1''\<rparr> = Some [events_resource]"
    by (simp add: events_facts events_served)
  have "with_version_of (ag_Name (events_group ''events.k8s.io'')) (ar_Kind events_resource) ''v1'' \<in>
      set (typesToCheck (kinds_for_resource order (Inr ?d)) ex_events_spec)"
    by (rule core_rules_check_other_groups [OF _ events_facts(2) _ _ served events_facts(4) events_facts(5) order
        _ _ _ _ few_all, where rule = ex_events_rule])
      (simp_all add: APIVersionInternal_def rule)
  then show ?thesis using order by (auto simp: events_facts)
qed

end
