(* ===== verification/Go_Heap.thy ===== *)
theory Go_Heap
  imports Prelude "HOL-Library.State_Monad"
begin

text \<open>
  Go values with their memory, for the code whose purpose is not to share it: structs and scalars are
  inline, pointers, slices and maps refer to cells of a heap. A type descriptor says which
  fields of a struct hold references. The theory gives the value a reference stands for (\<open>rd\<close>), the cells
  it uses (\<open>fp\<close>), a deep copy driven by the descriptor (\<open>dcopy\<close>), and the contract \<open>deep_copier\<close> of
  a function that copies a type: the same value, in fresh cells.
\<close>

section \<open>Values, types, heaps\<close>

datatype prim = PStr string | PInt int | PBool bool

text \<open>A slice is an array cell with the offset and length of the window it shows; nil is \<open>None\<close>.\<close>

datatype gval =
    VPrim prim
  | VStruct "(string \<times> gval) list"
  | VPtr "nat option"
  | VSlice "(nat \<times> nat \<times> nat) option"
  | VMap "nat option"

datatype cell = Obj gval | Arr "gval list" | Tab "(string \<times> gval) list"

type_synonym heap = "cell list"

datatype gty =
    TPrim
  | TStruct "(string \<times> gty) list"
  | TPtr gty
  | TSlice gty
  | TMap gty

text \<open>What a value stands for, with the memory gone.\<close>

datatype tree =
    Leaf prim
  | Node "(string \<times> tree) list"
  | NilRef
  | Pointee tree
  | Elements "tree list"
  | Entries "(string \<times> tree) list"

definition cell_at :: "heap \<Rightarrow> nat \<Rightarrow> cell option" where
  "cell_at h l = (if l < length h then Some (h ! l) else None)"

definition as_obj :: "cell option \<Rightarrow> gval option" where
  "as_obj c = (case c of Some (Obj v) \<Rightarrow> Some v | _ \<Rightarrow> None)"

definition as_arr :: "nat \<Rightarrow> nat \<Rightarrow> cell option \<Rightarrow> gval list option" where
  "as_arr off n c =
     (case c of Some (Arr xs) \<Rightarrow> if off + n \<le> length xs then Some (take n (drop off xs)) else None
      | _ \<Rightarrow> None)"

definition as_tab :: "cell option \<Rightarrow> (string \<times> gval) list option" where
  "as_tab c = (case c of Some (Tab es) \<Rightarrow> Some es | _ \<Rightarrow> None)"

text \<open>All results of a list, if there are all.\<close>

fun all_some :: "('a \<Rightarrow> 'b option) \<Rightarrow> 'a list \<Rightarrow> 'b list option" where
  "all_some f [] = Some []"
| "all_some f (x # xs) =
     (case f x of None \<Rightarrow> None | Some y \<Rightarrow> map_option (\<lambda>ys. y # ys) (all_some f xs))"

lemma all_some_cong [fundef_cong]:
  "xs = ys \<Longrightarrow> (\<And>x. x \<in> set ys \<Longrightarrow> f x = g x) \<Longrightarrow> all_some f xs = all_some g ys"
  by (induction ys arbitrary: xs) (auto split: option.splits)

fun rd :: "heap \<Rightarrow> gty \<Rightarrow> gval \<Rightarrow> tree option"
  and rd_fields :: "heap \<Rightarrow> (string \<times> gty) list \<Rightarrow> (string \<times> gval) list \<Rightarrow> (string \<times> tree) list option"
where
  "rd h TPrim (VPrim p) = Some (Leaf p)"
| "rd h (TStruct fs) (VStruct vs) = map_option Node (rd_fields h fs vs)"
| "rd h (TPtr ty) (VPtr None) = Some NilRef"
| "rd h (TPtr ty) (VPtr (Some l)) =
     (case as_obj (cell_at h l) of None \<Rightarrow> None | Some v \<Rightarrow> map_option Pointee (rd h ty v))"
| "rd h (TSlice ty) (VSlice None) = Some NilRef"
| "rd h (TSlice ty) (VSlice (Some (l, off, n))) =
     (case as_arr off n (cell_at h l) of
        None \<Rightarrow> None | Some xs \<Rightarrow> map_option Elements (all_some (rd h ty) xs))"
| "rd h (TMap ty) (VMap None) = Some NilRef"
| "rd h (TMap ty) (VMap (Some l)) =
     (case as_tab (cell_at h l) of
        None \<Rightarrow> None
      | Some es \<Rightarrow>
          map_option Entries (all_some (\<lambda>e. map_option (Pair (fst e)) (rd h ty (snd e))) es))"
| "rd h _ _ = None"
| "rd_fields h [] [] = Some []"
| "rd_fields h ((n, ty) # fs) ((m, v) # vs) =
     (if n \<noteq> m then None
      else (case rd h ty v of
              None \<Rightarrow> None | Some t \<Rightarrow> map_option (\<lambda>ts. (n, t) # ts) (rd_fields h fs vs)))"
| "rd_fields h _ _ = None"

text \<open>The cells a value reaches.\<close>

fun fp :: "heap \<Rightarrow> gty \<Rightarrow> gval \<Rightarrow> nat set"
  and fp_fields :: "heap \<Rightarrow> (string \<times> gty) list \<Rightarrow> (string \<times> gval) list \<Rightarrow> nat set" where
  "fp h (TStruct fs) (VStruct vs) = fp_fields h fs vs"
| "fp h (TPtr ty) (VPtr (Some l)) =
     insert l (case as_obj (cell_at h l) of None \<Rightarrow> {} | Some v \<Rightarrow> fp h ty v)"
| "fp h (TSlice ty) (VSlice (Some (l, off, n))) =
     insert l (case as_arr off n (cell_at h l) of None \<Rightarrow> {} | Some xs \<Rightarrow> \<Union> (fp h ty ` set xs))"
| "fp h (TMap ty) (VMap (Some l)) =
     insert l (case as_tab (cell_at h l) of
                 None \<Rightarrow> {} | Some es \<Rightarrow> \<Union> ((\<lambda>e. fp h ty (snd e)) ` set es))"
| "fp h _ _ = {}"
| "fp_fields h ((n, ty) # fs) ((m, v) # vs) = fp h ty v \<union> fp_fields h fs vs"
| "fp_fields h _ _ = {}"

section \<open>Operations on memory\<close>

definition new :: "cell \<Rightarrow> (heap, nat) state" where
  "new c = State (\<lambda>h. (length h, h @ [c]))"

text \<open>Loads; a reference in a running program is never dangling, the fall-back is not used.\<close>

definition load :: "nat \<Rightarrow> (heap, gval) state" where
  "load l = State (\<lambda>h. (case as_obj (cell_at h l) of Some v \<Rightarrow> v | None \<Rightarrow> VPtr None, h))"

definition load_window :: "nat \<Rightarrow> nat \<Rightarrow> nat \<Rightarrow> (heap, gval list) state" where
  "load_window l off n =
     State (\<lambda>h. (case as_arr off n (cell_at h l) of Some xs \<Rightarrow> xs | None \<Rightarrow> [], h))"

definition load_entries :: "nat \<Rightarrow> (heap, (string \<times> gval) list) state" where
  "load_entries l = State (\<lambda>h. (case as_tab (cell_at h l) of Some es \<Rightarrow> es | None \<Rightarrow> [], h))"

lemma run_state_ops [simp]:
  "run_state (new c) h = (length h, h @ [c])"
  "run_state (load l) h = (case as_obj (cell_at h l) of Some v \<Rightarrow> v | None \<Rightarrow> VPtr None, h)"
  "run_state (load_window l off n) h =
     (case as_arr off n (cell_at h l) of Some xs \<Rightarrow> xs | None \<Rightarrow> [], h)"
  "run_state (load_entries l) h = (case as_tab (cell_at h l) of Some es \<Rightarrow> es | None \<Rightarrow> [], h)"
  by (simp_all add: new_def load_def load_window_def load_entries_def)

text \<open>Fields of a struct: reading one and assigning one.\<close>

fun set_first :: "string \<Rightarrow> 'a \<Rightarrow> (string \<times> 'a) list \<Rightarrow> (string \<times> 'a) list" where
  "set_first n x [] = []"
| "set_first n x ((m, y) # es) = (if m = n then (m, x) # es else (m, y) # set_first n x es)"

fun fld :: "string \<Rightarrow> gval \<Rightarrow> gval" where
  "fld n (VStruct vs) = (case map_of vs n of Some v \<Rightarrow> v | None \<Rightarrow> VPtr None)"
| "fld n v = VPtr None"

fun upd :: "string \<Rightarrow> gval \<Rightarrow> gval \<Rightarrow> gval" where
  "upd n x (VStruct vs) = VStruct (set_first n x vs)"
| "upd n x v = v"

section \<open>A deep copy driven by the type\<close>

text \<open>A flat type holds no references; assigning such a value copies it.\<close>

fun flat :: "gty \<Rightarrow> bool" where
  "flat TPrim = True"
| "flat (TStruct fs) = list_all (\<lambda>f. flat (snd f)) fs"
| "flat _ = False"

definition copy_elements ::
  "(gval \<Rightarrow> (heap, gval) state) \<Rightarrow> gval list \<Rightarrow> (heap, gval list) state" where
  "copy_elements dc xs = State_Monad.traverse_list dc xs"

text \<open>A map gets its entries one after the other, in the order the range statement visits them.\<close>

fun copy_entries ::
  "(gval \<Rightarrow> (heap, gval) state) \<Rightarrow> (string \<times> gval) list \<Rightarrow> (heap, (string \<times> gval) list) state" where
  "copy_entries dc [] = State_Monad.return []"
| "copy_entries dc ((k, v) # es) =
     do { v' \<leftarrow> dc v; es' \<leftarrow> copy_entries dc es; State_Monad.return ((k, v') # es') }"

definition copy_ptr :: "(gval \<Rightarrow> (heap, gval) state) \<Rightarrow> gval \<Rightarrow> (heap, gval) state" where
  "copy_ptr dc v =
     (case v of
        VPtr (Some l) \<Rightarrow>
          do { x \<leftarrow> load l; x' \<leftarrow> dc x; p \<leftarrow> new (Obj x'); State_Monad.return (VPtr (Some p)) }
      | _ \<Rightarrow> State_Monad.return v)"

definition copy_slice :: "(gval \<Rightarrow> (heap, gval) state) \<Rightarrow> gval \<Rightarrow> (heap, gval) state" where
  "copy_slice dc v =
     (case v of
        VSlice (Some (l, off, n)) \<Rightarrow>
          do { xs \<leftarrow> load_window l off n; ys \<leftarrow> copy_elements dc xs; p \<leftarrow> new (Arr ys);
               State_Monad.return (VSlice (Some (p, 0, length ys))) }
      | _ \<Rightarrow> State_Monad.return v)"

definition copy_map :: "(gval \<Rightarrow> (heap, gval) state) \<Rightarrow> gval \<Rightarrow> (heap, gval) state" where
  "copy_map dc v =
     (case v of
        VMap (Some l) \<Rightarrow>
          do { es \<leftarrow> load_entries l; es' \<leftarrow> copy_entries dc es; p \<leftarrow> new (Tab es');
               State_Monad.return (VMap (Some p)) }
      | _ \<Rightarrow> State_Monad.return v)"

text \<open>Copying one field of \<open>in\<close> into \<open>out\<close>.\<close>

definition copy_field ::
  "string \<Rightarrow> (gval \<Rightarrow> (heap, gval) state) \<Rightarrow> gval \<Rightarrow> gval \<Rightarrow> (heap, gval) state" where
  "copy_field n dc i out = do { x \<leftarrow> dc (fld n i); State_Monad.return (upd n x out) }"

fun dcopy :: "gty \<Rightarrow> gval \<Rightarrow> (heap, gval) state"
  and dcopy_fields :: "(string \<times> gty) list \<Rightarrow> gval \<Rightarrow> gval \<Rightarrow> (heap, gval) state" where
  "dcopy TPrim v = State_Monad.return v"
| "dcopy (TStruct fs) v = dcopy_fields fs v v"
| "dcopy (TPtr ty) v = copy_ptr (dcopy ty) v"
| "dcopy (TSlice ty) v = copy_slice (dcopy ty) v"
| "dcopy (TMap ty) v = copy_map (dcopy ty) v"
| "dcopy_fields [] i out = State_Monad.return out"
| "dcopy_fields ((n, ty) # fs) i out =
     (if flat ty then dcopy_fields fs i out
      else do { out' \<leftarrow> copy_field n (dcopy ty) i out; dcopy_fields fs i out' })"

section \<open>Frame properties\<close>

text \<open>Cells outside the footprint do not matter.\<close>

lemma all_some_eq: "(\<And>x. x \<in> set xs \<Longrightarrow> f x = g x) \<Longrightarrow> all_some f xs = all_some g xs"
  by (rule all_some_cong) simp_all

lemma rd_unreferenced:
  "rd h' ty (VPrim p) = rd h ty (VPrim p)" "rd h' ty (VPtr None) = rd h ty (VPtr None)"
  "rd h' ty (VSlice None) = rd h ty (VSlice None)" "rd h' ty (VMap None) = rd h ty (VMap None)"
  by (cases ty; simp)+

lemma rd_primitive: "rd h' TPrim v = rd h TPrim v"
  by (cases v) simp_all

lemma rd_fields_empty:
  "rd_fields h' [] vs = rd_fields h [] vs" "rd_fields h' fs [] = rd_fields h fs []"
  by (cases vs; simp) (cases fs; simp)

lemma rd_frame:
  "(\<And>l. l \<in> fp h ty v \<Longrightarrow> cell_at h' l = cell_at h l) \<Longrightarrow>
     rd h' ty v = rd h ty v \<and> fp h' ty v = fp h ty v"
  "(\<And>l. l \<in> fp_fields h fs vs \<Longrightarrow> cell_at h' l = cell_at h l) \<Longrightarrow>
     rd_fields h' fs vs = rd_fields h fs vs \<and> fp_fields h' fs vs = fp_fields h fs vs"
proof (induction h ty v and h fs vs rule: fp_fp_fields.induct)
  case (2 h ty l)
  then show ?case by (cases "as_obj (cell_at h l)") auto
next
  case (3 h ty l off n)
  show ?case
  proof (cases "as_arr off n (cell_at h l)")
    case (Some xs)
    have "rd h' ty x = rd h ty x \<and> fp h' ty x = fp h ty x" if "x \<in> set xs" for x
      using that 3 Some by auto
    then show ?thesis using Some 3(2) by (auto cong: all_some_cong)
  qed (use 3 in auto)
next
  case (4 h ty l)
  show ?case
  proof (cases "as_tab (cell_at h l)")
    case (Some es)
    have "rd h' ty (snd e) = rd h ty (snd e) \<and> fp h' ty (snd e) = fp h ty (snd e)" if "e \<in> set es" for e
      by (rule 4(1) [OF Some that]) (use 4(2) that Some in force)
    then show ?thesis using Some 4(2) by (auto cong: all_some_cong)
  qed (use 4 in auto)
qed (auto intro: rd_unreferenced rd_primitive rd_fields_empty split: option.split)

lemma all_some_Some: "all_some f xs = Some ys \<Longrightarrow> x \<in> set xs \<Longrightarrow> f x \<noteq> None"
  by (induction xs arbitrary: ys) (auto split: option.splits)

lemma cell_at_Some: "cell_at h l = Some c \<Longrightarrow> l < length h"
  by (auto simp: cell_at_def split: if_splits)

lemma as_Some_cell:
  "as_obj c = Some v \<Longrightarrow> \<exists>d. c = Some d"
  "as_arr off n c = Some xs \<Longrightarrow> \<exists>d. c = Some d"
  "as_tab c = Some es \<Longrightarrow> \<exists>d. c = Some d"
  by (auto simp: as_obj_def as_arr_def as_tab_def split: option.splits)

text \<open>A value that can be read lies within the heap.\<close>

lemma fp_bounded:
  "rd h ty v = Some t \<Longrightarrow> fp h ty v \<subseteq> {..<length h}"
  "rd_fields h fs vs = Some ts \<Longrightarrow> fp_fields h fs vs \<subseteq> {..<length h}"
proof (induction h ty v and h fs vs arbitrary: t and ts rule: rd_rd_fields.induct)
  case (4 h ty l)
  then show ?case
    by (auto split: option.splits dest!: as_Some_cell(1) cell_at_Some)
next
  case (6 h ty l off n)
  then obtain xs ys where xs: "as_arr off n (cell_at h l) = Some xs" "all_some (rd h ty) xs = Some ys"
    by (auto split: option.splits)
  have "fp h ty x \<subseteq> {..<length h}" if "x \<in> set xs" for x
    using 6(1) [OF xs(1) that] all_some_Some [OF xs(2) that] by auto
  with xs show ?case by (auto dest!: as_Some_cell(2) cell_at_Some)
next
  case (8 h ty l)
  then obtain es ys where es: "as_tab (cell_at h l) = Some es"
    "all_some (\<lambda>e. map_option (Pair (fst e)) (rd h ty (snd e))) es = Some ys"
    by (auto split: option.splits)
  have "fp h ty (snd e) \<subseteq> {..<length h}" if "e \<in> set es" for e
    using 8(1) [OF es(1) that] all_some_Some [OF es(2) that] by auto
  with es show ?case by (auto dest!: as_Some_cell(3) cell_at_Some)
qed (auto split: option.splits if_splits)

lemma cell_at_append: "l < length h \<Longrightarrow> cell_at (h @ e) l = cell_at h l"
  by (simp add: cell_at_def nth_append)

lemma rd_mono:
  assumes "rd h ty v = Some t"
  shows "rd (h @ e) ty v = Some t" "fp (h @ e) ty v = fp h ty v"
proof -
  have "cell_at (h @ e) l = cell_at h l" if "l \<in> fp h ty v" for l
    using fp_bounded(1) [OF assms] that by (intro cell_at_append) auto
  then show "rd (h @ e) ty v = Some t" "fp (h @ e) ty v = fp h ty v"
    using rd_frame(1) [of h ty v "h @ e"] assms by auto
qed

lemma rd_fields_mono:
  assumes "rd_fields h fs vs = Some ts"
  shows "rd_fields (h @ e) fs vs = Some ts" "fp_fields (h @ e) fs vs = fp_fields h fs vs"
proof -
  have "cell_at (h @ e) l = cell_at h l" if "l \<in> fp_fields h fs vs" for l
    using fp_bounded(2) [OF assms] that by (intro cell_at_append) auto
  then show "rd_fields (h @ e) fs vs = Some ts" "fp_fields (h @ e) fs vs = fp_fields h fs vs"
    using rd_frame(2) [of h fs vs "h @ e"] assms by auto
qed

section \<open>The contract of a deep copy\<close>

text \<open>
  A deep copy of a type extends the heap, changes no cell, and returns a value that reads the same
  and whose cells are all new.
\<close>

locale deep_copier =
  fixes ty :: gty and dc :: "gval \<Rightarrow> (heap, gval) state"
  assumes copies:
    "rd h ty v = Some t \<Longrightarrow>
     \<exists>v' e. run_state (dc v) h = (v', h @ e) \<and> rd (h @ e) ty v' = Some t \<and>
            fp (h @ e) ty v' \<subseteq> {length h..<length h + length e}"
begin

lemma copies_elements:
  "all_some (rd h ty) xs = Some ts \<Longrightarrow>
   \<exists>ys e. run_state (copy_elements dc xs) h = (ys, h @ e) \<and> all_some (rd (h @ e) ty) ys = Some ts \<and>
          \<Union> (fp (h @ e) ty ` set ys) \<subseteq> {length h..<length h + length e}"
proof (induction xs arbitrary: h ts)
  case Nil
  then show ?case by (intro exI [of _ "[]"]) (simp add: copy_elements_def)
next
  case (Cons x xs)
  then obtain t ts' where t: "rd h ty x = Some t" "all_some (rd h ty) xs = Some ts'" "ts = t # ts'"
    by (auto split: option.splits)
  from copies [OF t(1)] obtain y e where
    y: "run_state (dc x) h = (y, h @ e)" "rd (h @ e) ty y = Some t"
       "fp (h @ e) ty y \<subseteq> {length h..<length h + length e}" by blast
  have "rd h ty x' \<noteq> None" if "x' \<in> set xs" for x' using all_some_Some [OF t(2) that] .
  then have "all_some (rd (h @ e) ty) xs = Some ts'"
    using t(2) rd_mono(1) by (subst all_some_eq [of xs _ "rd h ty"]) fastforce+
  from Cons.IH [OF this] obtain ys e' where
    ys: "run_state (copy_elements dc xs) (h @ e) = (ys, (h @ e) @ e')"
        "all_some (rd ((h @ e) @ e') ty) ys = Some ts'"
        "\<Union> (fp ((h @ e) @ e') ty ` set ys) \<subseteq> {length (h @ e)..<length (h @ e) + length e'}" by blast
  show ?case
    using y ys t(3) rd_mono [OF y(2), of e']
    by (intro exI [of _ "y # ys"] exI [of _ "e @ e'"]) (auto simp: copy_elements_def)
qed

lemma copies_entries:
  "all_some (\<lambda>x. map_option (Pair (fst x)) (rd h ty (snd x))) es = Some ts \<Longrightarrow>
   \<exists>ys e. run_state (copy_entries dc es) h = (ys, h @ e) \<and>
          all_some (\<lambda>x. map_option (Pair (fst x)) (rd (h @ e) ty (snd x))) ys = Some ts \<and>
          \<Union> ((\<lambda>x. fp (h @ e) ty (snd x)) ` set ys) \<subseteq> {length h..<length h + length e}"
proof (induction es arbitrary: h ts)
  case Nil
  then show ?case by (intro exI [of _ "[]"]) simp
next
  case (Cons kx es)
  obtain k x where kx: "kx = (k, x)" by (cases kx)
  let ?r = "\<lambda>h x. map_option (Pair (fst x)) (rd h ty (snd x))"
  from Cons.prems kx obtain t ts' where
    t: "rd h ty x = Some t" "all_some (?r h) es = Some ts'" "ts = (k, t) # ts'"
    by (auto split: option.splits)
  from copies [OF t(1)] obtain y e where
    y: "run_state (dc x) h = (y, h @ e)" "rd (h @ e) ty y = Some t"
       "fp (h @ e) ty y \<subseteq> {length h..<length h + length e}" by blast
  have "rd h ty (snd x') \<noteq> None" if "x' \<in> set es" for x' using all_some_Some [OF t(2) that] by auto
  then have "all_some (?r (h @ e)) es = Some ts'"
    using t(2) rd_mono(1) by (subst all_some_eq [of es _ "?r h"]) force+
  from Cons.IH [OF this] obtain ys e' where
    ys: "run_state (copy_entries dc es) (h @ e) = (ys, (h @ e) @ e')"
        "all_some (?r ((h @ e) @ e')) ys = Some ts'"
        "\<Union> ((\<lambda>x. fp ((h @ e) @ e') ty (snd x)) ` set ys) \<subseteq> {length (h @ e)..<length (h @ e) + length e'}"
    by blast
  show ?case
    using y ys t(3) kx rd_mono [OF y(2), of e']
    by (intro exI [of _ "(k, y) # ys"] exI [of _ "e @ e'"]) auto
qed

end

lemma cell_at_new [simp]: "cell_at (h @ [c]) (length h) = Some c"
  by (simp add: cell_at_def)

lemma deep_copier_ptr: "deep_copier ty dc \<Longrightarrow> deep_copier (TPtr ty) (copy_ptr dc)"
proof (unfold_locales, goal_cases)
  case (1 h v t)
  show ?case
  proof (cases v)
    case (VPtr p)
    show ?thesis
    proof (cases p)
      case (Some l)
      with 1(2) VPtr obtain x t' where x: "as_obj (cell_at h l) = Some x" "rd h ty x = Some t'" "t = Pointee t'"
        by (auto split: option.splits)
      from deep_copier.copies [OF 1(1) x(2)] obtain y e where
        y: "run_state (dc x) h = (y, h @ e)" "rd (h @ e) ty y = Some t'"
           "fp (h @ e) ty y \<subseteq> {length h..<length h + length e}" by blast
      have "cell_at (h @ e @ [Obj y]) (length h + length e) = Some (Obj y)"
        using cell_at_new [of "h @ e" "Obj y"] by simp
      then show ?thesis
        using VPtr Some x y rd_mono [OF y(2), of "[Obj y]"]
        by (intro exI [of _ "VPtr (Some (length h + length e))"] exI [of _ "e @ [Obj y]"])
           (auto simp: copy_ptr_def as_obj_def)
    qed (use 1 VPtr in \<open>simp add: copy_ptr_def\<close>)
  qed (use 1 in simp_all)
qed

lemma deep_copier_slice: "deep_copier ty dc \<Longrightarrow> deep_copier (TSlice ty) (copy_slice dc)"
proof (unfold_locales, goal_cases)
  case (1 h v t)
  show ?case
  proof (cases v)
    case (VSlice p)
    show ?thesis
    proof (cases p)
      case (Some w)
      obtain l off n where w: "w = (l, off, n)" by (cases w)
      with 1(2) VSlice Some obtain xs ts where
        x: "as_arr off n (cell_at h l) = Some xs" "all_some (rd h ty) xs = Some ts" "t = Elements ts"
        by (auto split: option.splits)
      from deep_copier.copies_elements [OF 1(1) x(2)] obtain ys e where
        y: "run_state (copy_elements dc xs) h = (ys, h @ e)" "all_some (rd (h @ e) ty) ys = Some ts"
           "\<Union> (fp (h @ e) ty ` set ys) \<subseteq> {length h..<length h + length e}" by blast
      have c: "cell_at (h @ e @ [Arr ys]) (length h + length e) = Some (Arr ys)"
        using cell_at_new [of "h @ e" "Arr ys"] by simp
      have same: "rd (h @ e @ [Arr ys]) ty y' = rd (h @ e) ty y' \<and>
          fp (h @ e @ [Arr ys]) ty y' = fp (h @ e) ty y'" if "y' \<in> set ys" for y'
        using all_some_Some [OF y(2) that] rd_mono [of "h @ e" ty y' _ "[Arr ys]"] by auto
      then have "all_some (rd (h @ e @ [Arr ys]) ty) ys = Some ts"
        using y(2) all_some_eq [of ys "rd (h @ e @ [Arr ys]) ty" "rd (h @ e) ty"] by simp
      then show ?thesis
        using VSlice Some w x y c same
        by (intro exI [of _ "VSlice (Some (length h + length e, 0, length ys))"] exI [of _ "e @ [Arr ys]"])
           (auto simp: copy_slice_def as_arr_def)
    qed (use 1 VSlice in \<open>simp add: copy_slice_def\<close>)
  qed (use 1 in simp_all)
qed

lemma deep_copier_map: "deep_copier ty dc \<Longrightarrow> deep_copier (TMap ty) (copy_map dc)"
proof (unfold_locales, goal_cases)
  case (1 h v t)
  let ?r = "\<lambda>h x. map_option (Pair (fst x)) (rd h ty (snd x))"
  show ?case
  proof (cases v)
    case (VMap p)
    show ?thesis
    proof (cases p)
      case (Some l)
      with 1(2) VMap obtain es ts where
        x: "as_tab (cell_at h l) = Some es" "all_some (?r h) es = Some ts" "t = Entries ts"
        by (auto split: option.splits)
      from deep_copier.copies_entries [OF 1(1) x(2)] obtain ys e where
        y: "run_state (copy_entries dc es) h = (ys, h @ e)" "all_some (?r (h @ e)) ys = Some ts"
           "\<Union> ((\<lambda>x. fp (h @ e) ty (snd x)) ` set ys) \<subseteq> {length h..<length h + length e}" by blast
      have c: "cell_at (h @ e @ [Tab ys]) (length h + length e) = Some (Tab ys)"
        using cell_at_new [of "h @ e" "Tab ys"] by simp
      have same: "rd (h @ e @ [Tab ys]) ty (snd y') = rd (h @ e) ty (snd y') \<and>
          fp (h @ e @ [Tab ys]) ty (snd y') = fp (h @ e) ty (snd y')" if "y' \<in> set ys" for y'
        using all_some_Some [OF y(2) that] rd_mono [of "h @ e" ty "snd y'" _ "[Tab ys]"] by auto
      then have "all_some (?r (h @ e @ [Tab ys])) ys = Some ts"
        using y(2) all_some_eq [of ys "?r (h @ e @ [Tab ys])" "?r (h @ e)"] by simp
      then show ?thesis
        using VMap Some x y c same
        by (intro exI [of _ "VMap (Some (length h + length e))"] exI [of _ "e @ [Tab ys]"])
           (auto simp: copy_map_def as_tab_def)
    qed (use 1 VMap in \<open>simp add: copy_map_def\<close>)
  qed (use 1 in simp_all)
qed

section \<open>The copy driven by the type keeps the contract\<close>

fun wf_ty :: "gty \<Rightarrow> bool" where
  "wf_ty TPrim = True"
| "wf_ty (TStruct fs) = (distinct (map fst fs) \<and> list_all (\<lambda>f. wf_ty (snd f)) fs)"
| "wf_ty (TPtr ty) = wf_ty ty"
| "wf_ty (TSlice ty) = wf_ty ty"
| "wf_ty (TMap ty) = wf_ty ty"

lemma flat_fp:
  "flat ty \<Longrightarrow> fp h ty v = {}"
  "list_all (\<lambda>f. flat (snd f)) fs \<Longrightarrow> fp_fields h fs vs = {}"
  by (induction h ty v and h fs vs rule: fp_fp_fields.induct) simp_all

lemma deep_copier_prim: "deep_copier TPrim State_Monad.return"
  by unfold_locales (auto simp: flat_fp)

lemma set_first_append:
  "n \<notin> fst ` set pre \<Longrightarrow> set_first n x (pre @ (n, y) # es) = pre @ (n, x) # es"
  by (induction pre) auto

lemma dcopy_fields_copies:
  "(\<And>n ty. (n, ty) \<in> set fs \<Longrightarrow> deep_copier ty (dcopy ty)) \<Longrightarrow>
   rd_fields h fs rest = Some ts \<Longrightarrow> distinct (map fst (pre @ rest)) \<Longrightarrow>
   (\<And>n v. (n, v) \<in> set rest \<Longrightarrow> fld n i = v) \<Longrightarrow>
   \<exists>rest' e. run_state (dcopy_fields fs i (VStruct (pre @ rest))) h = (VStruct (pre @ rest'), h @ e) \<and>
     rd_fields (h @ e) fs rest' = Some ts \<and>
     fp_fields (h @ e) fs rest' \<subseteq> {length h..<length h + length e}"
proof (induction fs arbitrary: h rest ts pre)
  case Nil
  then show ?case
    by (cases rest) (auto intro: exI [of _ "[]"])
next
  case (Cons f fs)
  obtain n ty where f: "f = (n, ty)" by (cases f)
  with Cons.prems(2) obtain v rest1 where r: "rest = (n, v) # rest1"
    by (cases rest) (auto split: if_splits)
  with f Cons.prems(2) obtain t ts1 where
    t: "rd h ty v = Some t" "rd_fields h fs rest1 = Some ts1" "ts = (n, t) # ts1"
    by (auto split: option.splits)
  have fresh: "n \<notin> fst ` set pre" using Cons.prems(3) r by force
  obtain v' e where
    v': "run_state (if flat ty then State_Monad.return (VStruct (pre @ rest))
           else copy_field n (dcopy ty) i (VStruct (pre @ rest))) h = (VStruct (pre @ (n, v') # rest1), h @ e)"
        "rd (h @ e) ty v' = Some t" "fp (h @ e) ty v' \<subseteq> {length h..<length h + length e}"
  proof (cases "flat ty")
    case True
    then show ?thesis using that [of v "[]"] t(1) r by (simp add: flat_fp)
  next
    case False
    have "deep_copier ty (dcopy ty)" using Cons.prems(1) [of n ty] f by simp
    from deep_copier.copies [OF this t(1)] obtain v' e where
      "run_state (dcopy ty v) h = (v', h @ e)" "rd (h @ e) ty v' = Some t"
      "fp (h @ e) ty v' \<subseteq> {length h..<length h + length e}" by blast
    then show ?thesis
      using that [of v' e] False r fresh Cons.prems(4) [of n v] by (simp add: copy_field_def set_first_append)
  qed
  have "rd_fields (h @ e) fs rest1 = Some ts1" using t(2) by (rule rd_fields_mono)
  from Cons.IH [OF _ this, of "pre @ [(n, v')]"] obtain rest' e' where
    rest': "run_state (dcopy_fields fs i (VStruct (pre @ (n, v') # rest1))) (h @ e)
              = (VStruct (pre @ (n, v') # rest'), h @ e @ e')"
      "rd_fields (h @ e @ e') fs rest' = Some ts1"
      "fp_fields (h @ e @ e') fs rest' \<subseteq> {length (h @ e)..<length (h @ e) + length e'}"
    using Cons.prems r by auto
  have "run_state (dcopy_fields (f # fs) i (VStruct (pre @ rest))) h
      = (VStruct (pre @ (n, v') # rest'), h @ e @ e')"
    using v'(1) rest'(1) by (cases "flat ty") (auto simp: f split: prod.splits)
  then show ?case
    using rest'(2,3) v'(3) t(3) rd_mono [OF v'(2), of e']
    by (intro exI [of _ "(n, v') # rest'"] exI [of _ "e @ e'"]) (auto simp: f)
qed

lemma rd_fields_names: "rd_fields h fs vs = Some ts \<Longrightarrow> map fst vs = map fst fs"
  by (induction fs arbitrary: vs ts) (case_tac vs; auto split: option.splits if_splits)+

lemma deep_copier_struct:
  assumes "\<And>n ty. (n, ty) \<in> set fs \<Longrightarrow> deep_copier ty (dcopy ty)" and "distinct (map fst fs)"
  shows "deep_copier (TStruct fs) (dcopy (TStruct fs))"
proof
  fix h v t
  assume "rd h (TStruct fs) v = Some t"
  then obtain vs ts where v: "v = VStruct vs" "rd_fields h fs vs = Some ts" "t = Node ts"
    by (cases v) auto
  have names: "distinct (map fst vs)" using rd_fields_names [OF v(2)] assms(2) by simp
  then have "fld n v = x" if "(n, x) \<in> set vs" for n x using v(1) that by (simp add: map_of_is_SomeI)
  from dcopy_fields_copies [where pre = "[]" and i = v, OF assms(1) v(2) _ this] names
  show "\<exists>v' e. run_state (dcopy (TStruct fs) v) h = (v', h @ e) \<and>
      rd (h @ e) (TStruct fs) v' = Some t \<and>
      fp (h @ e) (TStruct fs) v' \<subseteq> {length h..<length h + length e}"
    unfolding v(1,3) by fastforce
qed

lemma dcopy_copier: "wf_ty ty \<Longrightarrow> deep_copier ty (dcopy ty)"
proof (induction ty)
  case TPrim
  have "dcopy TPrim = State_Monad.return" by (rule ext) simp
  then show ?case using deep_copier_prim by simp
next
  case (TStruct fs)
  then show ?case by (intro deep_copier_struct) (force simp: list_all_iff)+
next
  case (TPtr ty)
  have "dcopy (TPtr ty) = copy_ptr (dcopy ty)" by (rule ext) simp
  then show ?case using TPtr deep_copier_ptr by simp
next
  case (TSlice ty)
  have "dcopy (TSlice ty) = copy_slice (dcopy ty)" by (rule ext) simp
  then show ?case using TSlice deep_copier_slice by simp
next
  case (TMap ty)
  have "dcopy (TMap ty) = copy_map (dcopy ty)" by (rule ext) simp
  then show ?case using TMap deep_copier_map by simp
qed

text \<open>Neither of an original and its copy sees what is written through the other.\<close>

definition same_outside :: "nat set \<Rightarrow> heap \<Rightarrow> heap \<Rightarrow> bool" where
  "same_outside L h h' \<longleftrightarrow> (\<forall>l. l \<notin> L \<longrightarrow> cell_at h' l = cell_at h l)"

lemma same_outside_update: "l \<in> L \<Longrightarrow> same_outside L h (h[l := c])"
  by (auto simp: same_outside_def cell_at_def) (metis nth_list_update_neq)

context deep_copier
begin

lemma independent:
  assumes "rd h ty v = Some t" and "run_state (dc v) h = (v', h')"
  shows "rd h' ty v = Some t" and "rd h' ty v' = Some t"
    and "fp h' ty v \<inter> fp h' ty v' = {}"
    and "same_outside (fp h' ty v') h' h'' \<Longrightarrow> rd h'' ty v = Some t"
    and "same_outside (fp h' ty v) h' h'' \<Longrightarrow> rd h'' ty v' = Some t"
proof -
  from copies [OF assms(1)] assms(2) obtain e where
    e: "h' = h @ e" "rd h' ty v' = Some t" "fp h' ty v' \<subseteq> {length h..<length h + length e}" by auto
  show orig: "rd h' ty v = Some t" and "rd h' ty v' = Some t"
    using rd_mono(1) [OF assms(1)] e by auto
  show disj: "fp h' ty v \<inter> fp h' ty v' = {}"
    using rd_mono(2) [OF assms(1), of e] fp_bounded(1) [OF assms(1)] e(1,3) by fastforce
  show "rd h'' ty v = Some t" if "same_outside (fp h' ty v') h' h''"
    using rd_frame(1) [of h' ty v h''] that disj orig by (auto simp: same_outside_def)
  show "rd h'' ty v' = Some t" if "same_outside (fp h' ty v) h' h''"
    using rd_frame(1) [of h' ty v' h''] that disj e(2) by (auto simp: same_outside_def)
qed

end

end
