(* ===== verification/Deep_Copy.thy ===== *)
theory Deep_Copy
  imports Go_Heap
begin

text \<open>
  The generated deep copies of \<open>zz_generated.deepcopy.go\<close>, for the API types of \<open>types.go\<close> and, from
  the vendored packages, the metadata types they hold. Each type has its descriptor, in the
  order of its fields, and its \<open>DeepCopyInto\<close>, statement by statement. A \<open>DeepCopyInto\<close> returns what it
  wrote to \<open>*out\<close>; it starts from the shallow copy \<open>*out = *in\<close>. The cell of \<open>new\<close> and \<open>make\<close> is
  allocated when its contents are complete; the code allocates it first and fills it.
\<close>

section \<open>The statements of generated copies\<close>

definition is_nil :: "gval \<Rightarrow> bool" where
  "is_nil v \<longleftrightarrow> v \<in> {VPtr None, VSlice None, VMap None}"

text \<open>\<open>if in.F != nil { ... }\<close>, with what the block does to the field.\<close>

definition if_set ::
  "string \<Rightarrow> (gval \<Rightarrow> (heap, gval) state) \<Rightarrow> gval \<Rightarrow> gval \<Rightarrow> (heap, gval) state" where
  "if_set n dc i out =
     (if is_nil (fld n i) then State_Monad.return out else copy_field n dc i out)"

text \<open>\<open>out.F = in.F\<close>.\<close>

definition assign_field :: "string \<Rightarrow> gval \<Rightarrow> gval \<Rightarrow> (heap, gval) state" where
  "assign_field n i out = State_Monad.return (upd n (fld n i) out)"

text \<open>
  \<open>**out = **in\<close> after \<open>new\<close>, \<open>copy\<close> after \<open>make\<close>, and the loop over a map of strings: the contents
  are assigned.
\<close>

abbreviation assigned :: "gval \<Rightarrow> (heap, gval) state" where
  "assigned \<equiv> State_Monad.return"

text \<open>\<open>DeepCopy\<close>: nil for nil, otherwise \<open>new\<close> and \<open>DeepCopyInto\<close>.\<close>

definition DeepCopy_of :: "(gval \<Rightarrow> (heap, gval) state) \<Rightarrow> gval \<Rightarrow> (heap, gval) state" where
  "DeepCopy_of into i =
     (if i = VPtr None then State_Monad.return (VPtr None) else copy_ptr into i)"

text \<open>\<open>DeepCopyObject\<close>: the interface value is nil, here \<open>None\<close>, for a nil pointer.\<close>

definition DeepCopyObject_of :: "(gval \<Rightarrow> (heap, gval) state) \<Rightarrow> gval \<Rightarrow> (heap, gval option) state" where
  "DeepCopyObject_of deepCopy i =
     do { c \<leftarrow> deepCopy i; State_Monad.return (if is_nil c then None else Some c) }"

section \<open>Metadata types\<close>

text \<open>A \<open>metav1.Time\<close> is one value; the time zone it points to is never written.\<close>

definition Time_DeepCopyInto :: "gval \<Rightarrow> (heap, gval) state" where
  "Time_DeepCopyInto i = State_Monad.return i"

definition TypeMeta_ty :: gty where
  "TypeMeta_ty = TStruct
     [(''Kind'', TPrim), (''APIVersion'', TPrim)]"

definition ListMeta_ty :: gty where
  "ListMeta_ty = TStruct
     [(''SelfLink'', TPrim), (''ResourceVersion'', TPrim), (''Continue'', TPrim),
      (''RemainingItemCount'', TPtr TPrim)]"

definition ListMeta_DeepCopyInto :: "gval \<Rightarrow> (heap, gval) state" where
  "ListMeta_DeepCopyInto i = do {
     out \<leftarrow> State_Monad.return i;
     out \<leftarrow> if_set ''RemainingItemCount'' (copy_ptr assigned) i out;
     State_Monad.return out }"

definition FieldsV1_ty :: gty where
  "FieldsV1_ty = TStruct
     [(''Raw'', TSlice TPrim)]"

definition FieldsV1_DeepCopyInto :: "gval \<Rightarrow> (heap, gval) state" where
  "FieldsV1_DeepCopyInto i = do {
     out \<leftarrow> State_Monad.return i;
     out \<leftarrow> if_set ''Raw'' (copy_slice assigned) i out;
     State_Monad.return out }"

definition ManagedFieldsEntry_ty :: gty where
  "ManagedFieldsEntry_ty = TStruct
     [(''Manager'', TPrim), (''Operation'', TPrim), (''APIVersion'', TPrim),
      (''Time'', TPtr TPrim), (''FieldsType'', TPrim), (''FieldsV1'', TPtr FieldsV1_ty),
      (''Subresource'', TPrim)]"

definition ManagedFieldsEntry_DeepCopyInto :: "gval \<Rightarrow> (heap, gval) state" where
  "ManagedFieldsEntry_DeepCopyInto i = do {
     out \<leftarrow> State_Monad.return i;
     out \<leftarrow> if_set ''Time'' (DeepCopy_of Time_DeepCopyInto) i out;
     out \<leftarrow> if_set ''FieldsV1'' (copy_ptr FieldsV1_DeepCopyInto) i out;
     State_Monad.return out }"

definition OwnerReference_ty :: gty where
  "OwnerReference_ty = TStruct
     [(''APIVersion'', TPrim), (''Kind'', TPrim), (''Name'', TPrim), (''UID'', TPrim),
      (''Controller'', TPtr TPrim), (''BlockOwnerDeletion'', TPtr TPrim)]"

definition OwnerReference_DeepCopyInto :: "gval \<Rightarrow> (heap, gval) state" where
  "OwnerReference_DeepCopyInto i = do {
     out \<leftarrow> State_Monad.return i;
     out \<leftarrow> if_set ''Controller'' (copy_ptr assigned) i out;
     out \<leftarrow> if_set ''BlockOwnerDeletion'' (copy_ptr assigned) i out;
     State_Monad.return out }"

definition ObjectMeta_ty :: gty where
  "ObjectMeta_ty = TStruct
     [(''Name'', TPrim), (''GenerateName'', TPrim), (''Namespace'', TPrim),
      (''SelfLink'', TPrim), (''UID'', TPrim), (''ResourceVersion'', TPrim),
      (''Generation'', TPrim), (''CreationTimestamp'', TPrim),
      (''DeletionTimestamp'', TPtr TPrim), (''DeletionGracePeriodSeconds'', TPtr TPrim),
      (''Labels'', TMap TPrim), (''Annotations'', TMap TPrim),
      (''OwnerReferences'', TSlice OwnerReference_ty), (''Finalizers'', TSlice TPrim),
      (''ManagedFields'', TSlice ManagedFieldsEntry_ty)]"

definition ObjectMeta_DeepCopyInto :: "gval \<Rightarrow> (heap, gval) state" where
  "ObjectMeta_DeepCopyInto i = do {
     out \<leftarrow> State_Monad.return i;
     out \<leftarrow> copy_field ''CreationTimestamp'' Time_DeepCopyInto i out;
     out \<leftarrow> if_set ''DeletionTimestamp'' (DeepCopy_of Time_DeepCopyInto) i out;
     out \<leftarrow> if_set ''DeletionGracePeriodSeconds'' (copy_ptr assigned) i out;
     out \<leftarrow> if_set ''Labels'' (copy_map assigned) i out;
     out \<leftarrow> if_set ''Annotations'' (copy_map assigned) i out;
     out \<leftarrow> if_set ''OwnerReferences'' (copy_slice OwnerReference_DeepCopyInto) i out;
     out \<leftarrow> if_set ''Finalizers'' (copy_slice assigned) i out;
     out \<leftarrow> if_set ''ManagedFields'' (copy_slice ManagedFieldsEntry_DeepCopyInto) i out;
     State_Monad.return out }"

definition LabelSelectorRequirement_ty :: gty where
  "LabelSelectorRequirement_ty = TStruct
     [(''Key'', TPrim), (''Operator'', TPrim), (''Values'', TSlice TPrim)]"

definition LabelSelectorRequirement_DeepCopyInto :: "gval \<Rightarrow> (heap, gval) state" where
  "LabelSelectorRequirement_DeepCopyInto i = do {
     out \<leftarrow> State_Monad.return i;
     out \<leftarrow> if_set ''Values'' (copy_slice assigned) i out;
     State_Monad.return out }"

definition LabelSelector_ty :: gty where
  "LabelSelector_ty = TStruct
     [(''MatchLabels'', TMap TPrim), (''MatchExpressions'', TSlice LabelSelectorRequirement_ty)]"

definition LabelSelector_DeepCopyInto :: "gval \<Rightarrow> (heap, gval) state" where
  "LabelSelector_DeepCopyInto i = do {
     out \<leftarrow> State_Monad.return i;
     out \<leftarrow> if_set ''MatchLabels'' (copy_map assigned) i out;
     out \<leftarrow> if_set ''MatchExpressions'' (copy_slice LabelSelectorRequirement_DeepCopyInto) i out;
     State_Monad.return out }"

definition Condition_ty :: gty where
  "Condition_ty = TStruct
     [(''Type'', TPrim), (''Status'', TPrim), (''ObservedGeneration'', TPrim),
      (''LastTransitionTime'', TPrim), (''Reason'', TPrim), (''Message'', TPrim)]"

definition Condition_DeepCopyInto :: "gval \<Rightarrow> (heap, gval) state" where
  "Condition_DeepCopyInto i = do {
     out \<leftarrow> State_Monad.return i;
     out \<leftarrow> copy_field ''LastTransitionTime'' Time_DeepCopyInto i out;
     State_Monad.return out }"

section \<open>Rules\<close>

definition Rule_ty :: gty where
  "Rule_ty = TStruct
     [(''APIGroups'', TSlice TPrim), (''APIVersions'', TSlice TPrim),
      (''Resources'', TSlice TPrim), (''Scope'', TPtr TPrim)]"

definition Rule_DeepCopyInto :: "gval \<Rightarrow> (heap, gval) state" where
  "Rule_DeepCopyInto i = do {
     out \<leftarrow> State_Monad.return i;
     out \<leftarrow> if_set ''APIGroups'' (copy_slice assigned) i out;
     out \<leftarrow> if_set ''APIVersions'' (copy_slice assigned) i out;
     out \<leftarrow> if_set ''Resources'' (copy_slice assigned) i out;
     out \<leftarrow> if_set ''Scope'' (copy_ptr assigned) i out;
     State_Monad.return out }"

definition RuleWithOperations_ty :: gty where
  "RuleWithOperations_ty = TStruct
     [(''Operations'', TSlice TPrim), (''Rule'', Rule_ty)]"

definition RuleWithOperations_DeepCopyInto :: "gval \<Rightarrow> (heap, gval) state" where
  "RuleWithOperations_DeepCopyInto i = do {
     out \<leftarrow> State_Monad.return i;
     out \<leftarrow> if_set ''Operations'' (copy_slice assigned) i out;
     out \<leftarrow> copy_field ''Rule'' Rule_DeepCopyInto i out;
     State_Monad.return out }"

section \<open>The API types\<close>

definition AuditAnnotation_ty :: gty where
  "AuditAnnotation_ty = TStruct
     [(''Key'', TPrim), (''ValueExpression'', TPrim)]"

definition AuditAnnotation_DeepCopyInto :: "gval \<Rightarrow> (heap, gval) state" where
  "AuditAnnotation_DeepCopyInto i = State_Monad.return i"

definition ExpressionWarning_ty :: gty where
  "ExpressionWarning_ty = TStruct
     [(''FieldRef'', TPrim), (''Warning'', TPrim)]"

definition ExpressionWarning_DeepCopyInto :: "gval \<Rightarrow> (heap, gval) state" where
  "ExpressionWarning_DeepCopyInto i = State_Monad.return i"

definition MatchCondition_ty :: gty where
  "MatchCondition_ty = TStruct
     [(''Name'', TPrim), (''Expression'', TPrim)]"

definition MatchCondition_DeepCopyInto :: "gval \<Rightarrow> (heap, gval) state" where
  "MatchCondition_DeepCopyInto i = State_Monad.return i"

definition NamedRuleWithOperations_ty :: gty where
  "NamedRuleWithOperations_ty = TStruct
     [(''ResourceNames'', TSlice TPrim), (''RuleWithOperations'', RuleWithOperations_ty)]"

definition NamedRuleWithOperations_DeepCopyInto :: "gval \<Rightarrow> (heap, gval) state" where
  "NamedRuleWithOperations_DeepCopyInto i = do {
     out \<leftarrow> State_Monad.return i;
     out \<leftarrow> if_set ''ResourceNames'' (copy_slice assigned) i out;
     out \<leftarrow> copy_field ''RuleWithOperations'' RuleWithOperations_DeepCopyInto i out;
     State_Monad.return out }"

definition MatchResources_ty :: gty where
  "MatchResources_ty = TStruct
     [(''NamespaceSelector'', TPtr LabelSelector_ty),
      (''ObjectSelector'', TPtr LabelSelector_ty),
      (''ResourceRules'', TSlice NamedRuleWithOperations_ty),
      (''ExcludeResourceRules'', TSlice NamedRuleWithOperations_ty),
      (''MatchPolicy'', TPtr TPrim)]"

definition MatchResources_DeepCopyInto :: "gval \<Rightarrow> (heap, gval) state" where
  "MatchResources_DeepCopyInto i = do {
     out \<leftarrow> State_Monad.return i;
     out \<leftarrow> if_set ''NamespaceSelector'' (copy_ptr LabelSelector_DeepCopyInto) i out;
     out \<leftarrow> if_set ''ObjectSelector'' (copy_ptr LabelSelector_DeepCopyInto) i out;
     out \<leftarrow> if_set ''ResourceRules'' (copy_slice NamedRuleWithOperations_DeepCopyInto) i out;
     out \<leftarrow> if_set ''ExcludeResourceRules'' (copy_slice NamedRuleWithOperations_DeepCopyInto) i out;
     out \<leftarrow> if_set ''MatchPolicy'' (copy_ptr assigned) i out;
     State_Monad.return out }"

definition ParamKind_ty :: gty where
  "ParamKind_ty = TStruct
     [(''APIVersion'', TPrim), (''Kind'', TPrim)]"

definition ParamKind_DeepCopyInto :: "gval \<Rightarrow> (heap, gval) state" where
  "ParamKind_DeepCopyInto i = State_Monad.return i"

definition ParamRef_ty :: gty where
  "ParamRef_ty = TStruct
     [(''Name'', TPrim), (''Namespace'', TPrim)]"

definition ParamRef_DeepCopyInto :: "gval \<Rightarrow> (heap, gval) state" where
  "ParamRef_DeepCopyInto i = State_Monad.return i"

definition TypeChecking_ty :: gty where
  "TypeChecking_ty = TStruct
     [(''ExpressionWarnings'', TSlice ExpressionWarning_ty)]"

definition TypeChecking_DeepCopyInto :: "gval \<Rightarrow> (heap, gval) state" where
  "TypeChecking_DeepCopyInto i = do {
     out \<leftarrow> State_Monad.return i;
     out \<leftarrow> if_set ''ExpressionWarnings'' (copy_slice assigned) i out;
     State_Monad.return out }"

definition Validation_ty :: gty where
  "Validation_ty = TStruct
     [(''Expression'', TPrim), (''Message'', TPrim), (''Reason'', TPtr TPrim),
      (''MessageExpression'', TPrim)]"

definition Validation_DeepCopyInto :: "gval \<Rightarrow> (heap, gval) state" where
  "Validation_DeepCopyInto i = do {
     out \<leftarrow> State_Monad.return i;
     out \<leftarrow> if_set ''Reason'' (copy_ptr assigned) i out;
     State_Monad.return out }"

definition ValidatingAdmissionPolicySpec_ty :: gty where
  "ValidatingAdmissionPolicySpec_ty = TStruct
     [(''ParamKind'', TPtr ParamKind_ty), (''MatchConstraints'', TPtr MatchResources_ty),
      (''Validations'', TSlice Validation_ty), (''FailurePolicy'', TPtr TPrim),
      (''AuditAnnotations'', TSlice AuditAnnotation_ty),
      (''MatchConditions'', TSlice MatchCondition_ty)]"

definition ValidatingAdmissionPolicySpec_DeepCopyInto :: "gval \<Rightarrow> (heap, gval) state" where
  "ValidatingAdmissionPolicySpec_DeepCopyInto i = do {
     out \<leftarrow> State_Monad.return i;
     out \<leftarrow> if_set ''ParamKind'' (copy_ptr assigned) i out;
     out \<leftarrow> if_set ''MatchConstraints'' (copy_ptr MatchResources_DeepCopyInto) i out;
     out \<leftarrow> if_set ''Validations'' (copy_slice Validation_DeepCopyInto) i out;
     out \<leftarrow> if_set ''FailurePolicy'' (copy_ptr assigned) i out;
     out \<leftarrow> if_set ''AuditAnnotations'' (copy_slice assigned) i out;
     out \<leftarrow> if_set ''MatchConditions'' (copy_slice assigned) i out;
     State_Monad.return out }"

definition ValidatingAdmissionPolicyStatus_ty :: gty where
  "ValidatingAdmissionPolicyStatus_ty = TStruct
     [(''ObservedGeneration'', TPrim), (''TypeChecking'', TPtr TypeChecking_ty),
      (''Conditions'', TSlice Condition_ty)]"

definition ValidatingAdmissionPolicyStatus_DeepCopyInto :: "gval \<Rightarrow> (heap, gval) state" where
  "ValidatingAdmissionPolicyStatus_DeepCopyInto i = do {
     out \<leftarrow> State_Monad.return i;
     out \<leftarrow> if_set ''TypeChecking'' (copy_ptr TypeChecking_DeepCopyInto) i out;
     out \<leftarrow> if_set ''Conditions'' (copy_slice Condition_DeepCopyInto) i out;
     State_Monad.return out }"

definition ValidatingAdmissionPolicy_ty :: gty where
  "ValidatingAdmissionPolicy_ty = TStruct
     [(''TypeMeta'', TypeMeta_ty), (''ObjectMeta'', ObjectMeta_ty),
      (''Spec'', ValidatingAdmissionPolicySpec_ty),
      (''Status'', ValidatingAdmissionPolicyStatus_ty)]"

definition ValidatingAdmissionPolicy_DeepCopyInto :: "gval \<Rightarrow> (heap, gval) state" where
  "ValidatingAdmissionPolicy_DeepCopyInto i = do {
     out \<leftarrow> State_Monad.return i;
     out \<leftarrow> assign_field ''TypeMeta'' i out;
     out \<leftarrow> copy_field ''ObjectMeta'' ObjectMeta_DeepCopyInto i out;
     out \<leftarrow> copy_field ''Spec'' ValidatingAdmissionPolicySpec_DeepCopyInto i out;
     out \<leftarrow> copy_field ''Status'' ValidatingAdmissionPolicyStatus_DeepCopyInto i out;
     State_Monad.return out }"

definition ValidatingAdmissionPolicyList_ty :: gty where
  "ValidatingAdmissionPolicyList_ty = TStruct
     [(''TypeMeta'', TypeMeta_ty), (''ListMeta'', ListMeta_ty),
      (''Items'', TSlice ValidatingAdmissionPolicy_ty)]"

definition ValidatingAdmissionPolicyList_DeepCopyInto :: "gval \<Rightarrow> (heap, gval) state" where
  "ValidatingAdmissionPolicyList_DeepCopyInto i = do {
     out \<leftarrow> State_Monad.return i;
     out \<leftarrow> assign_field ''TypeMeta'' i out;
     out \<leftarrow> copy_field ''ListMeta'' ListMeta_DeepCopyInto i out;
     out \<leftarrow> if_set ''Items'' (copy_slice ValidatingAdmissionPolicy_DeepCopyInto) i out;
     State_Monad.return out }"

definition ValidatingAdmissionPolicyBindingSpec_ty :: gty where
  "ValidatingAdmissionPolicyBindingSpec_ty = TStruct
     [(''PolicyName'', TPrim), (''ParamRef'', TPtr ParamRef_ty),
      (''MatchResources'', TPtr MatchResources_ty), (''ValidationActions'', TSlice TPrim)]"

definition ValidatingAdmissionPolicyBindingSpec_DeepCopyInto :: "gval \<Rightarrow> (heap, gval) state" where
  "ValidatingAdmissionPolicyBindingSpec_DeepCopyInto i = do {
     out \<leftarrow> State_Monad.return i;
     out \<leftarrow> if_set ''ParamRef'' (copy_ptr assigned) i out;
     out \<leftarrow> if_set ''MatchResources'' (copy_ptr MatchResources_DeepCopyInto) i out;
     out \<leftarrow> if_set ''ValidationActions'' (copy_slice assigned) i out;
     State_Monad.return out }"

definition ValidatingAdmissionPolicyBinding_ty :: gty where
  "ValidatingAdmissionPolicyBinding_ty = TStruct
     [(''TypeMeta'', TypeMeta_ty), (''ObjectMeta'', ObjectMeta_ty),
      (''Spec'', ValidatingAdmissionPolicyBindingSpec_ty)]"

definition ValidatingAdmissionPolicyBinding_DeepCopyInto :: "gval \<Rightarrow> (heap, gval) state" where
  "ValidatingAdmissionPolicyBinding_DeepCopyInto i = do {
     out \<leftarrow> State_Monad.return i;
     out \<leftarrow> assign_field ''TypeMeta'' i out;
     out \<leftarrow> copy_field ''ObjectMeta'' ObjectMeta_DeepCopyInto i out;
     out \<leftarrow> copy_field ''Spec'' ValidatingAdmissionPolicyBindingSpec_DeepCopyInto i out;
     State_Monad.return out }"

definition ValidatingAdmissionPolicyBindingList_ty :: gty where
  "ValidatingAdmissionPolicyBindingList_ty = TStruct
     [(''TypeMeta'', TypeMeta_ty), (''ListMeta'', ListMeta_ty),
      (''Items'', TSlice ValidatingAdmissionPolicyBinding_ty)]"

definition ValidatingAdmissionPolicyBindingList_DeepCopyInto :: "gval \<Rightarrow> (heap, gval) state" where
  "ValidatingAdmissionPolicyBindingList_DeepCopyInto i = do {
     out \<leftarrow> State_Monad.return i;
     out \<leftarrow> assign_field ''TypeMeta'' i out;
     out \<leftarrow> copy_field ''ListMeta'' ListMeta_DeepCopyInto i out;
     out \<leftarrow> if_set ''Items'' (copy_slice ValidatingAdmissionPolicyBinding_DeepCopyInto) i out;
     State_Monad.return out }"

section \<open>DeepCopy and DeepCopyObject\<close>

definition AuditAnnotation_DeepCopy :: "gval \<Rightarrow> (heap, gval) state" where
  "AuditAnnotation_DeepCopy = DeepCopy_of AuditAnnotation_DeepCopyInto"

definition ExpressionWarning_DeepCopy :: "gval \<Rightarrow> (heap, gval) state" where
  "ExpressionWarning_DeepCopy = DeepCopy_of ExpressionWarning_DeepCopyInto"

definition MatchCondition_DeepCopy :: "gval \<Rightarrow> (heap, gval) state" where
  "MatchCondition_DeepCopy = DeepCopy_of MatchCondition_DeepCopyInto"

definition NamedRuleWithOperations_DeepCopy :: "gval \<Rightarrow> (heap, gval) state" where
  "NamedRuleWithOperations_DeepCopy = DeepCopy_of NamedRuleWithOperations_DeepCopyInto"

definition MatchResources_DeepCopy :: "gval \<Rightarrow> (heap, gval) state" where
  "MatchResources_DeepCopy = DeepCopy_of MatchResources_DeepCopyInto"

definition ParamKind_DeepCopy :: "gval \<Rightarrow> (heap, gval) state" where
  "ParamKind_DeepCopy = DeepCopy_of ParamKind_DeepCopyInto"

definition ParamRef_DeepCopy :: "gval \<Rightarrow> (heap, gval) state" where
  "ParamRef_DeepCopy = DeepCopy_of ParamRef_DeepCopyInto"

definition TypeChecking_DeepCopy :: "gval \<Rightarrow> (heap, gval) state" where
  "TypeChecking_DeepCopy = DeepCopy_of TypeChecking_DeepCopyInto"

definition Validation_DeepCopy :: "gval \<Rightarrow> (heap, gval) state" where
  "Validation_DeepCopy = DeepCopy_of Validation_DeepCopyInto"

definition ValidatingAdmissionPolicySpec_DeepCopy :: "gval \<Rightarrow> (heap, gval) state" where
  "ValidatingAdmissionPolicySpec_DeepCopy = DeepCopy_of ValidatingAdmissionPolicySpec_DeepCopyInto"

definition ValidatingAdmissionPolicyStatus_DeepCopy :: "gval \<Rightarrow> (heap, gval) state" where
  "ValidatingAdmissionPolicyStatus_DeepCopy = DeepCopy_of ValidatingAdmissionPolicyStatus_DeepCopyInto"

definition ValidatingAdmissionPolicy_DeepCopy :: "gval \<Rightarrow> (heap, gval) state" where
  "ValidatingAdmissionPolicy_DeepCopy = DeepCopy_of ValidatingAdmissionPolicy_DeepCopyInto"

definition ValidatingAdmissionPolicyList_DeepCopy :: "gval \<Rightarrow> (heap, gval) state" where
  "ValidatingAdmissionPolicyList_DeepCopy = DeepCopy_of ValidatingAdmissionPolicyList_DeepCopyInto"

definition ValidatingAdmissionPolicyBindingSpec_DeepCopy :: "gval \<Rightarrow> (heap, gval) state" where
  "ValidatingAdmissionPolicyBindingSpec_DeepCopy = DeepCopy_of ValidatingAdmissionPolicyBindingSpec_DeepCopyInto"

definition ValidatingAdmissionPolicyBinding_DeepCopy :: "gval \<Rightarrow> (heap, gval) state" where
  "ValidatingAdmissionPolicyBinding_DeepCopy = DeepCopy_of ValidatingAdmissionPolicyBinding_DeepCopyInto"

definition ValidatingAdmissionPolicyBindingList_DeepCopy :: "gval \<Rightarrow> (heap, gval) state" where
  "ValidatingAdmissionPolicyBindingList_DeepCopy = DeepCopy_of ValidatingAdmissionPolicyBindingList_DeepCopyInto"

definition ValidatingAdmissionPolicy_DeepCopyObject :: "gval \<Rightarrow> (heap, gval option) state" where
  "ValidatingAdmissionPolicy_DeepCopyObject = DeepCopyObject_of ValidatingAdmissionPolicy_DeepCopy"

definition ValidatingAdmissionPolicyList_DeepCopyObject :: "gval \<Rightarrow> (heap, gval option) state" where
  "ValidatingAdmissionPolicyList_DeepCopyObject = DeepCopyObject_of ValidatingAdmissionPolicyList_DeepCopy"

definition ValidatingAdmissionPolicyBinding_DeepCopyObject :: "gval \<Rightarrow> (heap, gval option) state" where
  "ValidatingAdmissionPolicyBinding_DeepCopyObject = DeepCopyObject_of ValidatingAdmissionPolicyBinding_DeepCopy"

definition ValidatingAdmissionPolicyBindingList_DeepCopyObject :: "gval \<Rightarrow> (heap, gval option) state" where
  "ValidatingAdmissionPolicyBindingList_DeepCopyObject = DeepCopyObject_of ValidatingAdmissionPolicyBindingList_DeepCopy"

section \<open>The generated copies are the copy driven by the type\<close>

lemma fld_upd [simp]: "n \<noteq> m \<Longrightarrow> fld n (upd m x v) = fld n v"
proof (cases v)
  case (VStruct vs)
  assume "n \<noteq> m"
  then have "map_of (set_first m x vs) n = map_of vs n" by (induction vs) auto
  then show ?thesis using VStruct by simp
qed simp_all

lemma upd_same [simp]: "fld n v = x \<Longrightarrow> upd n x v = v"
proof (cases v)
  case (VStruct vs)
  assume "fld n v = x"
  moreover have "map_of vs n = Some x \<or> map_of vs n = None \<Longrightarrow> set_first n x vs = vs"
    by (induction vs) (auto split: if_splits)
  ultimately show ?thesis using VStruct by (auto split: option.splits)
qed simp_all

lemma dcopy_flat: "flat ty \<Longrightarrow> dcopy ty = State_Monad.return"
proof (cases ty)
  case (TStruct fs)
  assume "flat ty"
  moreover have "list_all (\<lambda>f. flat (snd f)) fs \<Longrightarrow> dcopy_fields fs i out = State_Monad.return out" for i out
    by (induction fs) auto
  ultimately show ?thesis using TStruct by (auto simp: fun_eq_iff)
qed (auto simp: fun_eq_iff)

text \<open>The guard of a block leaves a nil field as the shallow copy left it, which is what a copy does.\<close>

lemma if_set_is_copy [simp]:
  "fld n out = fld n i \<Longrightarrow> if_set n (copy_ptr dc) i out = copy_field n (copy_ptr dc) i out"
  "fld n out = fld n i \<Longrightarrow> if_set n (copy_slice dc) i out = copy_field n (copy_slice dc) i out"
  "fld n out = fld n i \<Longrightarrow> if_set n (copy_map dc) i out = copy_field n (copy_map dc) i out"
  by (auto simp: if_set_def is_nil_def copy_field_def copy_ptr_def copy_slice_def copy_map_def)

lemma DeepCopy_of_is_copy [simp]: "DeepCopy_of into = copy_ptr into"
  by (simp add: DeepCopy_of_def copy_ptr_def fun_eq_iff)

lemma dcopy_references:
  "dcopy (TPtr ty) = copy_ptr (dcopy ty)" "dcopy (TSlice ty) = copy_slice (dcopy ty)"
  "dcopy (TMap ty) = copy_map (dcopy ty)" "dcopy TPrim = State_Monad.return"
  by (simp_all add: fun_eq_iff)

text \<open>Types without references.\<close>

lemma flat_types [simp]:
  "flat TypeMeta_ty"
  "flat Condition_ty"
  "flat AuditAnnotation_ty"
  "flat ExpressionWarning_ty"
  "flat MatchCondition_ty"
  "flat ParamKind_ty"
  "flat ParamRef_ty"
  by (simp_all add: TypeMeta_ty_def Condition_ty_def AuditAnnotation_ty_def ExpressionWarning_ty_def
      MatchCondition_ty_def ParamKind_ty_def ParamRef_ty_def)

lemma reference_types [simp]:
  "\<not> flat ListMeta_ty"
  "\<not> flat FieldsV1_ty"
  "\<not> flat ManagedFieldsEntry_ty"
  "\<not> flat OwnerReference_ty"
  "\<not> flat ObjectMeta_ty"
  "\<not> flat LabelSelectorRequirement_ty"
  "\<not> flat LabelSelector_ty"
  "\<not> flat Rule_ty"
  "\<not> flat RuleWithOperations_ty"
  "\<not> flat NamedRuleWithOperations_ty"
  "\<not> flat MatchResources_ty"
  "\<not> flat TypeChecking_ty"
  "\<not> flat Validation_ty"
  "\<not> flat ValidatingAdmissionPolicySpec_ty"
  "\<not> flat ValidatingAdmissionPolicyStatus_ty"
  "\<not> flat ValidatingAdmissionPolicy_ty"
  "\<not> flat ValidatingAdmissionPolicyList_ty"
  "\<not> flat ValidatingAdmissionPolicyBindingSpec_ty"
  "\<not> flat ValidatingAdmissionPolicyBinding_ty"
  "\<not> flat ValidatingAdmissionPolicyBindingList_ty"
  by (simp_all add: ListMeta_ty_def FieldsV1_ty_def ManagedFieldsEntry_ty_def
      OwnerReference_ty_def ObjectMeta_ty_def LabelSelectorRequirement_ty_def
      LabelSelector_ty_def Rule_ty_def RuleWithOperations_ty_def
      NamedRuleWithOperations_ty_def MatchResources_ty_def TypeChecking_ty_def
      Validation_ty_def ValidatingAdmissionPolicySpec_ty_def ValidatingAdmissionPolicyStatus_ty_def
      ValidatingAdmissionPolicy_ty_def ValidatingAdmissionPolicyList_ty_def ValidatingAdmissionPolicyBindingSpec_ty_def
      ValidatingAdmissionPolicyBinding_ty_def ValidatingAdmissionPolicyBindingList_ty_def)

text \<open>The steps of a copy, with the field that each writes, and the copies shown so far.\<close>

named_theorems copied

lemma Time_copy [copied]: "Time_DeepCopyInto = State_Monad.return"
  by (simp add: Time_DeepCopyInto_def fun_eq_iff)

lemmas copy_steps = copy_field_def assign_field_def dcopy_references dcopy_flat

lemma ListMeta_copy [copied]: "ListMeta_DeepCopyInto = dcopy ListMeta_ty"
  by (rule ext) (simp add: ListMeta_DeepCopyInto_def ListMeta_ty_def copy_steps copied)

lemma FieldsV1_copy [copied]: "FieldsV1_DeepCopyInto = dcopy FieldsV1_ty"
  by (rule ext) (simp add: FieldsV1_DeepCopyInto_def FieldsV1_ty_def copy_steps copied)

lemma ManagedFieldsEntry_copy [copied]: "ManagedFieldsEntry_DeepCopyInto = dcopy ManagedFieldsEntry_ty"
  by (rule ext) (simp add: ManagedFieldsEntry_DeepCopyInto_def ManagedFieldsEntry_ty_def copy_steps copied)

lemma OwnerReference_copy [copied]: "OwnerReference_DeepCopyInto = dcopy OwnerReference_ty"
  by (rule ext) (simp add: OwnerReference_DeepCopyInto_def OwnerReference_ty_def copy_steps copied)

lemma ObjectMeta_copy [copied]: "ObjectMeta_DeepCopyInto = dcopy ObjectMeta_ty"
  by (rule ext) (simp add: ObjectMeta_DeepCopyInto_def ObjectMeta_ty_def copy_steps copied)

lemma LabelSelectorRequirement_copy [copied]: "LabelSelectorRequirement_DeepCopyInto = dcopy LabelSelectorRequirement_ty"
  by (rule ext) (simp add: LabelSelectorRequirement_DeepCopyInto_def LabelSelectorRequirement_ty_def copy_steps copied)

lemma LabelSelector_copy [copied]: "LabelSelector_DeepCopyInto = dcopy LabelSelector_ty"
  by (rule ext) (simp add: LabelSelector_DeepCopyInto_def LabelSelector_ty_def copy_steps copied)

lemma Condition_copy [copied]: "Condition_DeepCopyInto = dcopy Condition_ty"
  by (rule ext) (simp add: Condition_DeepCopyInto_def Condition_ty_def copy_steps copied)

lemma Rule_copy [copied]: "Rule_DeepCopyInto = dcopy Rule_ty"
  by (rule ext) (simp add: Rule_DeepCopyInto_def Rule_ty_def copy_steps copied)

lemma RuleWithOperations_copy [copied]: "RuleWithOperations_DeepCopyInto = dcopy RuleWithOperations_ty"
  by (rule ext) (simp add: RuleWithOperations_DeepCopyInto_def RuleWithOperations_ty_def copy_steps copied)

lemma AuditAnnotation_copy [copied]: "AuditAnnotation_DeepCopyInto = dcopy AuditAnnotation_ty"
  by (rule ext) (simp add: AuditAnnotation_DeepCopyInto_def AuditAnnotation_ty_def copy_steps copied)

lemma ExpressionWarning_copy [copied]: "ExpressionWarning_DeepCopyInto = dcopy ExpressionWarning_ty"
  by (rule ext) (simp add: ExpressionWarning_DeepCopyInto_def ExpressionWarning_ty_def copy_steps copied)

lemma MatchCondition_copy [copied]: "MatchCondition_DeepCopyInto = dcopy MatchCondition_ty"
  by (rule ext) (simp add: MatchCondition_DeepCopyInto_def MatchCondition_ty_def copy_steps copied)

lemma NamedRuleWithOperations_copy [copied]: "NamedRuleWithOperations_DeepCopyInto = dcopy NamedRuleWithOperations_ty"
  by (rule ext) (simp add: NamedRuleWithOperations_DeepCopyInto_def NamedRuleWithOperations_ty_def copy_steps copied)

lemma MatchResources_copy [copied]: "MatchResources_DeepCopyInto = dcopy MatchResources_ty"
  by (rule ext) (simp add: MatchResources_DeepCopyInto_def MatchResources_ty_def copy_steps copied)

lemma ParamKind_copy [copied]: "ParamKind_DeepCopyInto = dcopy ParamKind_ty"
  by (rule ext) (simp add: ParamKind_DeepCopyInto_def ParamKind_ty_def copy_steps copied)

lemma ParamRef_copy [copied]: "ParamRef_DeepCopyInto = dcopy ParamRef_ty"
  by (rule ext) (simp add: ParamRef_DeepCopyInto_def ParamRef_ty_def copy_steps copied)

lemma TypeChecking_copy [copied]: "TypeChecking_DeepCopyInto = dcopy TypeChecking_ty"
  by (rule ext) (simp add: TypeChecking_DeepCopyInto_def TypeChecking_ty_def copy_steps copied)

lemma Validation_copy [copied]: "Validation_DeepCopyInto = dcopy Validation_ty"
  by (rule ext) (simp add: Validation_DeepCopyInto_def Validation_ty_def copy_steps copied)

lemma ValidatingAdmissionPolicySpec_copy [copied]: "ValidatingAdmissionPolicySpec_DeepCopyInto = dcopy ValidatingAdmissionPolicySpec_ty"
  by (rule ext) (simp add: ValidatingAdmissionPolicySpec_DeepCopyInto_def ValidatingAdmissionPolicySpec_ty_def copy_steps copied)

lemma ValidatingAdmissionPolicyStatus_copy [copied]: "ValidatingAdmissionPolicyStatus_DeepCopyInto = dcopy ValidatingAdmissionPolicyStatus_ty"
  by (rule ext) (simp add: ValidatingAdmissionPolicyStatus_DeepCopyInto_def ValidatingAdmissionPolicyStatus_ty_def copy_steps copied)

lemma ValidatingAdmissionPolicy_copy [copied]: "ValidatingAdmissionPolicy_DeepCopyInto = dcopy ValidatingAdmissionPolicy_ty"
  by (rule ext) (simp add: ValidatingAdmissionPolicy_DeepCopyInto_def ValidatingAdmissionPolicy_ty_def copy_steps copied)

lemma ValidatingAdmissionPolicyList_copy [copied]: "ValidatingAdmissionPolicyList_DeepCopyInto = dcopy ValidatingAdmissionPolicyList_ty"
  by (rule ext) (simp add: ValidatingAdmissionPolicyList_DeepCopyInto_def ValidatingAdmissionPolicyList_ty_def copy_steps copied)

lemma ValidatingAdmissionPolicyBindingSpec_copy [copied]: "ValidatingAdmissionPolicyBindingSpec_DeepCopyInto = dcopy ValidatingAdmissionPolicyBindingSpec_ty"
  by (rule ext) (simp add: ValidatingAdmissionPolicyBindingSpec_DeepCopyInto_def ValidatingAdmissionPolicyBindingSpec_ty_def copy_steps copied)

lemma ValidatingAdmissionPolicyBinding_copy [copied]: "ValidatingAdmissionPolicyBinding_DeepCopyInto = dcopy ValidatingAdmissionPolicyBinding_ty"
  by (rule ext) (simp add: ValidatingAdmissionPolicyBinding_DeepCopyInto_def ValidatingAdmissionPolicyBinding_ty_def copy_steps copied)

lemma ValidatingAdmissionPolicyBindingList_copy [copied]: "ValidatingAdmissionPolicyBindingList_DeepCopyInto = dcopy ValidatingAdmissionPolicyBindingList_ty"
  by (rule ext) (simp add: ValidatingAdmissionPolicyBindingList_DeepCopyInto_def ValidatingAdmissionPolicyBindingList_ty_def copy_steps copied)

text \<open>The fields of a type have different names.\<close>

named_theorems wf_types

lemma wf_TypeMeta [wf_types]: "wf_ty TypeMeta_ty"
  by (simp add: TypeMeta_ty_def wf_types)

lemma wf_ListMeta [wf_types]: "wf_ty ListMeta_ty"
  by (simp add: ListMeta_ty_def wf_types)

lemma wf_FieldsV1 [wf_types]: "wf_ty FieldsV1_ty"
  by (simp add: FieldsV1_ty_def wf_types)

lemma wf_ManagedFieldsEntry [wf_types]: "wf_ty ManagedFieldsEntry_ty"
  by (simp add: ManagedFieldsEntry_ty_def wf_types)

lemma wf_OwnerReference [wf_types]: "wf_ty OwnerReference_ty"
  by (simp add: OwnerReference_ty_def wf_types)

lemma wf_ObjectMeta [wf_types]: "wf_ty ObjectMeta_ty"
  by (simp add: ObjectMeta_ty_def wf_types)

lemma wf_LabelSelectorRequirement [wf_types]: "wf_ty LabelSelectorRequirement_ty"
  by (simp add: LabelSelectorRequirement_ty_def wf_types)

lemma wf_LabelSelector [wf_types]: "wf_ty LabelSelector_ty"
  by (simp add: LabelSelector_ty_def wf_types)

lemma wf_Condition [wf_types]: "wf_ty Condition_ty"
  by (simp add: Condition_ty_def wf_types)

lemma wf_Rule [wf_types]: "wf_ty Rule_ty"
  by (simp add: Rule_ty_def wf_types)

lemma wf_RuleWithOperations [wf_types]: "wf_ty RuleWithOperations_ty"
  by (simp add: RuleWithOperations_ty_def wf_types)

lemma wf_AuditAnnotation [wf_types]: "wf_ty AuditAnnotation_ty"
  by (simp add: AuditAnnotation_ty_def wf_types)

lemma wf_ExpressionWarning [wf_types]: "wf_ty ExpressionWarning_ty"
  by (simp add: ExpressionWarning_ty_def wf_types)

lemma wf_MatchCondition [wf_types]: "wf_ty MatchCondition_ty"
  by (simp add: MatchCondition_ty_def wf_types)

lemma wf_NamedRuleWithOperations [wf_types]: "wf_ty NamedRuleWithOperations_ty"
  by (simp add: NamedRuleWithOperations_ty_def wf_types)

lemma wf_MatchResources [wf_types]: "wf_ty MatchResources_ty"
  by (simp add: MatchResources_ty_def wf_types)

lemma wf_ParamKind [wf_types]: "wf_ty ParamKind_ty"
  by (simp add: ParamKind_ty_def wf_types)

lemma wf_ParamRef [wf_types]: "wf_ty ParamRef_ty"
  by (simp add: ParamRef_ty_def wf_types)

lemma wf_TypeChecking [wf_types]: "wf_ty TypeChecking_ty"
  by (simp add: TypeChecking_ty_def wf_types)

lemma wf_Validation [wf_types]: "wf_ty Validation_ty"
  by (simp add: Validation_ty_def wf_types)

lemma wf_ValidatingAdmissionPolicySpec [wf_types]: "wf_ty ValidatingAdmissionPolicySpec_ty"
  by (simp add: ValidatingAdmissionPolicySpec_ty_def wf_types)

lemma wf_ValidatingAdmissionPolicyStatus [wf_types]: "wf_ty ValidatingAdmissionPolicyStatus_ty"
  by (simp add: ValidatingAdmissionPolicyStatus_ty_def wf_types)

lemma wf_ValidatingAdmissionPolicy [wf_types]: "wf_ty ValidatingAdmissionPolicy_ty"
  by (simp add: ValidatingAdmissionPolicy_ty_def wf_types)

lemma wf_ValidatingAdmissionPolicyList [wf_types]: "wf_ty ValidatingAdmissionPolicyList_ty"
  by (simp add: ValidatingAdmissionPolicyList_ty_def wf_types)

lemma wf_ValidatingAdmissionPolicyBindingSpec [wf_types]: "wf_ty ValidatingAdmissionPolicyBindingSpec_ty"
  by (simp add: ValidatingAdmissionPolicyBindingSpec_ty_def wf_types)

lemma wf_ValidatingAdmissionPolicyBinding [wf_types]: "wf_ty ValidatingAdmissionPolicyBinding_ty"
  by (simp add: ValidatingAdmissionPolicyBinding_ty_def wf_types)

lemma wf_ValidatingAdmissionPolicyBindingList [wf_types]: "wf_ty ValidatingAdmissionPolicyBindingList_ty"
  by (simp add: ValidatingAdmissionPolicyBindingList_ty_def wf_types)

section \<open>What the copies promise\<close>

text \<open>The types of the file with their two copies, by name.\<close>

definition deep_copies :: "(string \<times> gty \<times> (gval \<Rightarrow> (heap, gval) state) \<times> (gval \<Rightarrow> (heap, gval) state)) list" where
  "deep_copies =
     [(''AuditAnnotation'', AuditAnnotation_ty,
        AuditAnnotation_DeepCopyInto, AuditAnnotation_DeepCopy),
      (''ExpressionWarning'', ExpressionWarning_ty,
        ExpressionWarning_DeepCopyInto, ExpressionWarning_DeepCopy),
      (''MatchCondition'', MatchCondition_ty,
        MatchCondition_DeepCopyInto, MatchCondition_DeepCopy),
      (''MatchResources'', MatchResources_ty,
        MatchResources_DeepCopyInto, MatchResources_DeepCopy),
      (''NamedRuleWithOperations'', NamedRuleWithOperations_ty,
        NamedRuleWithOperations_DeepCopyInto, NamedRuleWithOperations_DeepCopy),
      (''ParamKind'', ParamKind_ty,
        ParamKind_DeepCopyInto, ParamKind_DeepCopy),
      (''ParamRef'', ParamRef_ty,
        ParamRef_DeepCopyInto, ParamRef_DeepCopy),
      (''TypeChecking'', TypeChecking_ty,
        TypeChecking_DeepCopyInto, TypeChecking_DeepCopy),
      (''ValidatingAdmissionPolicy'', ValidatingAdmissionPolicy_ty,
        ValidatingAdmissionPolicy_DeepCopyInto, ValidatingAdmissionPolicy_DeepCopy),
      (''ValidatingAdmissionPolicyBinding'', ValidatingAdmissionPolicyBinding_ty,
        ValidatingAdmissionPolicyBinding_DeepCopyInto, ValidatingAdmissionPolicyBinding_DeepCopy),
      (''ValidatingAdmissionPolicyBindingList'', ValidatingAdmissionPolicyBindingList_ty,
        ValidatingAdmissionPolicyBindingList_DeepCopyInto, ValidatingAdmissionPolicyBindingList_DeepCopy),
      (''ValidatingAdmissionPolicyBindingSpec'', ValidatingAdmissionPolicyBindingSpec_ty,
        ValidatingAdmissionPolicyBindingSpec_DeepCopyInto, ValidatingAdmissionPolicyBindingSpec_DeepCopy),
      (''ValidatingAdmissionPolicyList'', ValidatingAdmissionPolicyList_ty,
        ValidatingAdmissionPolicyList_DeepCopyInto, ValidatingAdmissionPolicyList_DeepCopy),
      (''ValidatingAdmissionPolicySpec'', ValidatingAdmissionPolicySpec_ty,
        ValidatingAdmissionPolicySpec_DeepCopyInto, ValidatingAdmissionPolicySpec_DeepCopy),
      (''ValidatingAdmissionPolicyStatus'', ValidatingAdmissionPolicyStatus_ty,
        ValidatingAdmissionPolicyStatus_DeepCopyInto, ValidatingAdmissionPolicyStatus_DeepCopy),
      (''Validation'', Validation_ty,
        Validation_DeepCopyInto, Validation_DeepCopy)]"

text \<open>And those that are API objects.\<close>

definition object_copies ::
  "(string \<times> gty \<times> (gval \<Rightarrow> (heap, gval) state) \<times> (gval \<Rightarrow> (heap, gval option) state)) list" where
  "object_copies =
     [(''ValidatingAdmissionPolicy'', ValidatingAdmissionPolicy_ty,
        ValidatingAdmissionPolicy_DeepCopy, ValidatingAdmissionPolicy_DeepCopyObject),
      (''ValidatingAdmissionPolicyBinding'', ValidatingAdmissionPolicyBinding_ty,
        ValidatingAdmissionPolicyBinding_DeepCopy, ValidatingAdmissionPolicyBinding_DeepCopyObject),
      (''ValidatingAdmissionPolicyBindingList'', ValidatingAdmissionPolicyBindingList_ty,
        ValidatingAdmissionPolicyBindingList_DeepCopy, ValidatingAdmissionPolicyBindingList_DeepCopyObject),
      (''ValidatingAdmissionPolicyList'', ValidatingAdmissionPolicyList_ty,
        ValidatingAdmissionPolicyList_DeepCopy, ValidatingAdmissionPolicyList_DeepCopyObject)]"

lemmas DeepCopy_defs =
  AuditAnnotation_DeepCopy_def ExpressionWarning_DeepCopy_def
  MatchCondition_DeepCopy_def NamedRuleWithOperations_DeepCopy_def
  MatchResources_DeepCopy_def ParamKind_DeepCopy_def
  ParamRef_DeepCopy_def TypeChecking_DeepCopy_def
  Validation_DeepCopy_def ValidatingAdmissionPolicySpec_DeepCopy_def
  ValidatingAdmissionPolicyStatus_DeepCopy_def ValidatingAdmissionPolicy_DeepCopy_def
  ValidatingAdmissionPolicyList_DeepCopy_def ValidatingAdmissionPolicyBindingSpec_DeepCopy_def
  ValidatingAdmissionPolicyBinding_DeepCopy_def ValidatingAdmissionPolicyBindingList_DeepCopy_def

lemmas DeepCopyObject_defs =
  ValidatingAdmissionPolicy_DeepCopyObject_def
  ValidatingAdmissionPolicyBinding_DeepCopyObject_def
  ValidatingAdmissionPolicyBindingList_DeepCopyObject_def
  ValidatingAdmissionPolicyList_DeepCopyObject_def

lemma deep_copies_type:
  "(name, ty, into, copy) \<in> set deep_copies \<Longrightarrow>
     wf_ty ty \<and> into = dcopy ty \<and> copy = dcopy (TPtr ty)"
  by (auto simp: deep_copies_def DeepCopy_defs copied dcopy_references wf_types)

text \<open>
  Every generated \<open>DeepCopyInto\<close> is the copy its type dictates, which follows each
  pointer, slice and map of each field to the end and copies nothing else, and every generated
  \<open>DeepCopy\<close> is that copy on a pointer: no field that holds a reference is forgotten, none is
  copied shallowly, and a nil reference stays nil. 
\<close>

theorem generated_copies_follow_types:
  "list_all (\<lambda>(name, ty, into, copy). wf_ty ty \<and> into = dcopy ty \<and> copy = dcopy (TPtr ty)) deep_copies"
  using deep_copies_type by (fastforce simp: list_all_iff)

lemma deep_copies_copier:
  "(name, ty, into, copy) \<in> set deep_copies \<Longrightarrow> deep_copier (TPtr ty) copy"
  using deep_copies_type [of name ty into copy] dcopy_copier [of "TPtr ty"] by simp

interpretation policy_copy: deep_copier "TPtr ValidatingAdmissionPolicy_ty" ValidatingAdmissionPolicy_DeepCopy
  by (rule deep_copies_copier [of "''ValidatingAdmissionPolicy''" _ ValidatingAdmissionPolicy_DeepCopyInto])
     (simp add: deep_copies_def)

interpretation binding_copy: deep_copier "TPtr ValidatingAdmissionPolicyBinding_ty" ValidatingAdmissionPolicyBinding_DeepCopy
  by (rule deep_copies_copier [of "''ValidatingAdmissionPolicyBinding''" _ ValidatingAdmissionPolicyBinding_DeepCopyInto])
     (simp add: deep_copies_def)

interpretation policy_list_copy: deep_copier "TPtr ValidatingAdmissionPolicyList_ty" ValidatingAdmissionPolicyList_DeepCopy
  by (rule deep_copies_copier [of "''ValidatingAdmissionPolicyList''" _ ValidatingAdmissionPolicyList_DeepCopyInto])
     (simp add: deep_copies_def)

interpretation binding_list_copy: deep_copier "TPtr ValidatingAdmissionPolicyBindingList_ty" ValidatingAdmissionPolicyBindingList_DeepCopy
  by (rule deep_copies_copier [of "''ValidatingAdmissionPolicyBindingList''" _ ValidatingAdmissionPolicyBindingList_DeepCopyInto])
     (simp add: deep_copies_def)

text \<open>
  A \<open>DeepCopy\<close> of any of the API types that can be read at all leaves the original as it was and
  returns a value that reads the same and shares no memory with it: whatever a client then writes
  to the cells of the one, the other still reads as before. (C37)
\<close>

theorem deep_copy_isolated:
  assumes "(name, ty, into, copy) \<in> set deep_copies"
    and "rd h (TPtr ty) v = Some t"
    and "run_state (copy v) h = (v', h')"
  shows "rd h' (TPtr ty) v = Some t \<and> rd h' (TPtr ty) v' = Some t \<and>
    fp h' (TPtr ty) v \<inter> fp h' (TPtr ty) v' = {} \<and>
    (\<forall>h''. (same_outside (fp h' (TPtr ty) v') h' h'' \<longrightarrow> rd h'' (TPtr ty) v = Some t) \<and>
            (same_outside (fp h' (TPtr ty) v) h' h'' \<longrightarrow> rd h'' (TPtr ty) v' = Some t))"
  using deep_copier.independent [OF deep_copies_copier [OF assms(1)] assms(2,3)] by blast

text \<open>A validation whose reason is in a second cell; the copy is then given another reason.\<close>

definition reason_heap :: "string \<Rightarrow> heap" where
  "reason_heap r =
     [Obj (VPrim (PStr r)),
      Obj (VStruct [(''Expression'', VPrim (PStr ''object.spec.replicas < 5'')), (''Message'', VPrim (PStr [])),
                    (''Reason'', VPtr (Some 0)), (''MessageExpression'', VPrim (PStr []))])]"

theorem deep_copy_isolated_witness:
  "let v = VPtr (Some 1); h = reason_heap ''Invalid'';
       (v', h') = run_state (Validation_DeepCopy v) h; h'' = h'[2 := Obj (VPrim (PStr ''Forbidden''))] in
     v' = VPtr (Some 3) \<and> length h' = 4 \<and>
     rd h'' (TPtr Validation_ty) v = rd h (TPtr Validation_ty) v \<and>
     rd h'' (TPtr Validation_ty) v' = rd (reason_heap ''Forbidden'') (TPtr Validation_ty) v"
proof -
  let ?v = "VPtr (Some 1)" and ?h = "reason_heap ''Invalid''"
  let ?s = "VStruct [(''Expression'', VPrim (PStr ''object.spec.replicas < 5'')), (''Message'', VPrim (PStr [])),
                    (''Reason'', VPtr (Some 2)), (''MessageExpression'', VPrim (PStr []))]"
  let ?h' = "?h @ [Obj (VPrim (PStr ''Invalid'')), Obj ?s]"
  let ?h'' = "?h'[2 := Obj (VPrim (PStr ''Forbidden''))]"
  obtain t where t: "rd ?h (TPtr Validation_ty) ?v = Some t"
    by (simp add: reason_heap_def Validation_ty_def cell_at_def as_obj_def)
  have run: "run_state (Validation_DeepCopy ?v) ?h = (VPtr (Some 3), ?h')"
    by (simp add: reason_heap_def Validation_DeepCopy_def Validation_DeepCopyInto_def copy_ptr_def
        copy_field_def cell_at_def as_obj_def)
  have mem: "(''Validation'', Validation_ty, Validation_DeepCopyInto, Validation_DeepCopy) \<in> set deep_copies"
    by (simp add: deep_copies_def)
  have "same_outside (fp ?h' (TPtr Validation_ty) (VPtr (Some 3))) ?h' ?h''"
    by (rule same_outside_update) (simp add: cell_at_def as_obj_def reason_heap_def Validation_ty_def)
  with deep_copy_isolated [OF mem t run] have "rd ?h'' (TPtr Validation_ty) ?v = Some t" by blast
  moreover have "length ?h' = 4 \<and>
      rd ?h'' (TPtr Validation_ty) (VPtr (Some 3)) = rd (reason_heap ''Forbidden'') (TPtr Validation_ty) ?v"
    by (simp add: reason_heap_def Validation_ty_def cell_at_def as_obj_def)
  ultimately show ?thesis unfolding Let_def run using t by simp
qed

text \<open>
  \<open>DeepCopyObject\<close> of an API object is its \<open>DeepCopy\<close>, and the nil interface, not an interface
  that holds a nil pointer, for a nil pointer.
\<close>

theorem deep_copy_object_nil:
  "list_all (\<lambda>(name, ty, copy, object).
      run_state (object (VPtr None)) h = (None, h) \<and>
      fst (run_state (object (VPtr (Some l))) h) = Some (fst (run_state (copy (VPtr (Some l))) h)) \<and>
      snd (run_state (object (VPtr (Some l))) h) = snd (run_state (copy (VPtr (Some l))) h)) object_copies"
  by (simp add: object_copies_def DeepCopyObject_defs DeepCopyObject_of_def DeepCopy_defs is_nil_def
      copy_ptr_def split: prod.split)

end
