(* ===== verification/Evaluator_Properties.thy ===== *)
theory Evaluator_Properties
  imports Policy_Evaluator
begin

text \<open>
  What the policy evaluator decides: its loops against a specification of what objects to a
  request, and the verdict in terms of the policies' expressions.
\<close>

section \<open>Objections\<close>

text \<open>The denials a binding contributes, without the loops and their state.\<close>

definition result_objections ::
  "validatingAdmissionPolicy \<Rightarrow> validatingAdmissionPolicyBinding \<Rightarrow> validateResult \<Rightarrow> policyDecisionWithMetadata list" where
  "result_objections definition0 binding r =
     concat (map (\<lambda>d. map (\<lambda>_. \<lparr>dm_Decision = d, dm_Definition = definition0, dm_Binding = Some binding\<rparr>)
         (filter (\<lambda>x. x = Deny) (elems (bs_ValidationActions (vapb_Spec binding)))))
       (filter (\<lambda>d. dc_Action d = ActionDeny) (vr_Decisions r))) @
     map (annotation_denial definition0 binding)
       (filter (\<lambda>an. an_Action an = AuditAnnotationActionError) (vr_AuditAnnotations r))"

definition binding_objections ::
  "('obj, 'u) eval_env \<Rightarrow> 'obj attributes \<Rightarrow> gvk \<Rightarrow> ('obj, 'u) policyData \<Rightarrow> ('obj, 'u) bindingInfo
   \<Rightarrow> policyDecisionWithMetadata list" where
  "binding_objections env a kind pd bi =
     (let definition0 = pd_lastReconciledValue pd; binding = bi_lastReconciledValue bi;
          failed = (\<lambda>err. config_errors err definition0 (Some binding)) in
      case BindingMatches (ee_match env) a binding of
        Some (_, Some err) \<Rightarrow> failed err
      | Some (True, None) \<Rightarrow>
          (case lookup_param pd binding of
             Inl err \<Rightarrow> failed err
           | Inr param \<Rightarrow>
               (case NewVersionedAttributes env a kind of
                  Inl err \<Rightarrow> failed (Plain (''failed to convert object version: '' @ error_text err))
                | Inr va \<Rightarrow>
                    (case bi_validator bi of
                       Some v \<Rightarrow>
                         result_objections definition0 binding
                           (validator_Validate (ee_cel env) v va param RuntimeCELCostBudget)
                     | None \<Rightarrow> [])))
      | _ \<Rightarrow> [])"

definition policy_objections ::
  "('obj, 'u) eval_env \<Rightarrow> 'obj attributes \<Rightarrow> ('obj, 'u) policyData \<Rightarrow> policyDecisionWithMetadata list" where
  "policy_objections env a pd =
     (let definition0 = pd_lastReconciledValue pd in
      case DefinitionMatches (ee_match env) a definition0 of
        Some (_, _, Some err) \<Rightarrow> config_errors err definition0 None
      | Some (True, kind, None) \<Rightarrow>
          (case pd_configurationError pd of
             Some err \<Rightarrow> config_errors err definition0 None
           | None \<Rightarrow> concat (map (binding_objections env a kind pd) (pd_bindings pd)))
      | _ \<Rightarrow> [])"

text \<open>Policy data as the controller makes it from policies with match constraints.\<close>

definition well_formed_policy :: "('obj, 'u) policyData \<Rightarrow> bool" where
  "well_formed_policy pd \<longleftrightarrow>
     ps_MatchConstraints (vap_Spec (pd_lastReconciledValue pd)) \<noteq> None \<and>
     (pd_configurationError pd = None \<longrightarrow>
        (\<forall>bi \<in> set (pd_bindings pd). \<exists>v. bi_validator bi = Some v \<and>
           validation_filter (vd_validationFilter v) \<and> audit_filter (vd_auditAnnotationFilter v) \<and>
           vd_failPolicy v = convertv1alpha1FailurePolicyTypeTov1FailurePolicyType
             (ps_FailurePolicy (vap_Spec (pd_lastReconciledValue pd)))))"

lemma Matches_no_panic: "criteria \<noteq> None \<Longrightarrow> Matches env criteria a \<noteq> None"
  by (auto simp: Matches_def)

lemma BindingMatches_no_panic: "BindingMatches env a b \<noteq> None"
  by (auto simp: BindingMatches_def Matches_def split: option.splits prod.splits)

section \<open>The loops\<close>

lemma apply_actions_denied:
  "es_denied (apply_actions env p b i d actions s) = es_denied s @
     map (\<lambda>_. \<lparr>dm_Decision = d, dm_Definition = p, dm_Binding = Some b\<rparr>) (filter (\<lambda>x. x = Deny) actions)"
  by (induction env p b i d actions s rule: apply_actions.induct) simp_all

lemma decision_loop_denied:
  "list_all (\<lambda>d. dc_Action d \<in> {ActionAdmit, ActionDeny}) ds \<Longrightarrow>
     \<exists>s'. decision_loop env p b i ds s = Continue s' \<and>
       es_denied s' = es_denied s @ concat (map (\<lambda>d. map (\<lambda>_. \<lparr>dm_Decision = d, dm_Definition = p, dm_Binding = Some b\<rparr>)
         (filter (\<lambda>x. x = Deny) (elems (bs_ValidationActions (vapb_Spec b))))) (filter (\<lambda>d. dc_Action d = ActionDeny) ds))"
proof (induction env p b i ds s rule: decision_loop.induct)
  case (2 env p b i d ds s)
  consider "dc_Action d = ActionAdmit" | "dc_Action d = ActionDeny" using 2(3) by auto
  then show ?case
  proof cases
    case 1
    with 2(1) 2(3) admit_neq_deny show ?thesis by auto
  next
    case 2
    then show ?thesis using "2.IH"(2) "2.prems" admit_neq_deny by (auto simp: apply_actions_denied)
  qed
qed simp

lemma annotation_loop_denied:
  "list_all (\<lambda>an. an_Action an \<in> {AuditAnnotationActionPublish, AuditAnnotationActionError, AuditAnnotationActionExclude}) ans
   \<Longrightarrow> \<exists>s'. annotation_loop p b ans s = Continue s' \<and>
       es_denied s' = es_denied s @
         map (annotation_denial p b) (filter (\<lambda>an. an_Action an = AuditAnnotationActionError) ans)"
proof (induction p b ans s rule: annotation_loop.induct)
  case (2 p b an ans s)
  show ?case
    using 2 by (cases "an_Action an = AuditAnnotationActionPublish"; cases "an_Action an = AuditAnnotationActionError")
      (auto simp: decision_strings)
qed simp

lemma eval_binding_objections:
  assumes "bi_validator bi = Some v" and "audit_filter (vd_auditAnnotationFilter v)"
  shows "\<exists>s'. eval_binding env a kind pd bi s = Continue s' \<and>
    es_denied s' = es_denied s @ binding_objections env a kind pd bi"
proof (cases "BindingMatches (ee_match env) a (bi_lastReconciledValue bi)")
  case None
  then show ?thesis using BindingMatches_no_panic by metis
next
  case (Some r)
  obtain m e where r: "r = (m, e)" by (rule prod.exhaust)
  show ?thesis
  proof (cases "e = None \<and> m")
    case False
    then show ?thesis using Some r
      by (cases e; cases m) (auto simp: eval_binding_def binding_objections_def addConfigError_def Let_def)
  next
    case True
    note run = Some r True assms(1)
    show ?thesis
    proof (cases "lookup_param pd (bi_lastReconciledValue bi)")
      case (Inl err)
      with run show ?thesis by (simp add: eval_binding_def binding_objections_def addConfigError_def Let_def)
    next
      case (Inr param)
      show ?thesis
      proof (cases "NewVersionedAttributes env a kind")
        case (Inl err)
        with run Inr show ?thesis by (simp add: eval_binding_def binding_objections_def addConfigError_def Let_def)
      next
        case va: (Inr va)
        let ?r = "validator_Validate (ee_cel env) v va param RuntimeCELCostBudget"
        have "list_all (\<lambda>d. dc_Action d \<in> {ActionAdmit, ActionDeny}) (vr_Decisions ?r)"
          unfolding list_all_iff using validator_actions by blast
        from decision_loop_denied [OF this] obtain s1 where
          s1: "decision_loop env (pd_lastReconciledValue pd) (bi_lastReconciledValue bi) 0 (vr_Decisions ?r) s = Continue s1"
            "es_denied s1 = es_denied s @ concat (map (\<lambda>d. map (\<lambda>_. \<lparr>dm_Decision = d,
               dm_Definition = pd_lastReconciledValue pd, dm_Binding = Some (bi_lastReconciledValue bi)\<rparr>)
             (filter (\<lambda>x. x = Deny) (elems (bs_ValidationActions (vapb_Spec (bi_lastReconciledValue bi))))))
             (filter (\<lambda>d. dc_Action d = ActionDeny) (vr_Decisions ?r)))" by blast
        have "list_all (\<lambda>an. an_Action an \<in> {AuditAnnotationActionPublish, AuditAnnotationActionError,
            AuditAnnotationActionExclude}) (vr_AuditAnnotations ?r)"
          using validator_audit_actions [OF assms(2), of RuntimeCELCostBudget] by (simp add: list_all_iff RuntimeCELCostBudget_def)
        from annotation_loop_denied [OF this] s1 run Inr va show ?thesis
          by (force simp: eval_binding_def binding_objections_def result_objections_def Let_def)
      qed
    qed
  qed
qed

lemma eval_bindings_objections:
  "\<forall>bi \<in> set bis. \<exists>v. bi_validator bi = Some v \<and> audit_filter (vd_auditAnnotationFilter v) \<Longrightarrow>
     \<exists>s'. eval_bindings env a kind pd bis s = Continue s' \<and>
       es_denied s' = es_denied s @ concat (map (binding_objections env a kind pd) bis)"
proof (induction bis arbitrary: s)
  case (Cons bi bis)
  then obtain v where "bi_validator bi = Some v" "audit_filter (vd_auditAnnotationFilter v)" by auto
  from eval_binding_objections [OF this] obtain s1 where s1: "eval_binding env a kind pd bi s = Continue s1"
    "es_denied s1 = es_denied s @ binding_objections env a kind pd bi" by blast
  from Cons.IH [of s1] Cons.prems obtain s2 where "eval_bindings env a kind pd bis s1 = Continue s2"
    "es_denied s2 = es_denied s1 @ concat (map (binding_objections env a kind pd) bis)" by auto
  with s1 show ?case by simp
qed simp

lemma eval_policy_objections:
  assumes "well_formed_policy pd"
  shows "\<exists>s'. eval_policy env a pd s = Continue s' \<and> es_denied s' = es_denied s @ policy_objections env a pd"
proof -
  have "DefinitionMatches (ee_match env) a (pd_lastReconciledValue pd) \<noteq> None"
    unfolding DefinitionMatches_def using assms by (intro Matches_no_panic) (simp add: well_formed_policy_def)
  then obtain m k e where d: "DefinitionMatches (ee_match env) a (pd_lastReconciledValue pd) = Some (m, k, e)"
    by auto
  show ?thesis
  proof (cases "e = None \<and> m \<and> pd_configurationError pd = None")
    case False
    then show ?thesis using d
      by (cases e; cases m; cases "pd_configurationError pd")
        (auto simp: eval_policy_def policy_objections_def addConfigError_def Let_def)
  next
    case True
    with assms have "\<forall>bi \<in> set (pd_bindings pd). \<exists>v. bi_validator bi = Some v \<and> audit_filter (vd_auditAnnotationFilter v)"
      by (auto simp: well_formed_policy_def)
    from eval_bindings_objections [OF this, of env a k pd "s\<lparr>es_collector := []\<rparr>"] True d show ?thesis
      by (auto simp: eval_policy_def policy_objections_def Let_def)
  qed
qed

lemma eval_policies_objections:
  "list_all well_formed_policy pds \<Longrightarrow>
     \<exists>s'. eval_policies env a pds s = Continue s' \<and>
       es_denied s' = es_denied s @ concat (map (policy_objections env a) pds)"
proof (induction pds arbitrary: s)
  case (Cons pd pds)
  from Cons.prems eval_policy_objections obtain s1 where "eval_policy env a pd s = Continue s1"
    "es_denied s1 = es_denied s @ policy_objections env a pd" by force
  with Cons.IH [of s1] Cons.prems show ?case by auto
qed simp

lemma evaluator_first_objection:
  assumes "list_all well_formed_policy pds"
  shows "\<exists>s. evaluator_Validate env True pds a =
    Some (case concat (map (policy_objections env a) pds) of [] \<Rightarrow> None | d # ds \<Rightarrow> Some (denial_error (ee_accessor env) a d), s)"
proof -
  from eval_policies_objections [OF assms] obtain s where "eval_policies env a pds start_eval = Continue s"
    "es_denied s = es_denied start_eval @ concat (map (policy_objections env a) pds)" by blast
  then show ?thesis
    by (cases "concat (map (policy_objections env a) pds)")
      (simp_all add: evaluator_Validate_def start_eval_def del: concat_eq_Nil_conv)
qed

section \<open>The verdict\<close>

definition ignores_failures :: "validatingAdmissionPolicy \<Rightarrow> bool" where
  "ignores_failures p \<longleftrightarrow> ps_FailurePolicy (vap_Spec p) = Some Ignore"

definition annotation_fails ::
  "('obj, 'u) eval_env \<Rightarrow> ('obj, 'u) cel_validator \<Rightarrow> 'obj versionedAttributes \<Rightarrow> 'obj option \<Rightarrow> bool" where
  "annotation_fails env v va param \<longleftrightarrow>
     (\<exists>an \<in> set (vr_AuditAnnotations (validator_Validate (ee_cel env) v va param RuntimeCELCostBudget)).
        an_Action an = AuditAnnotationActionError)"

text \<open>
  A binding permits a request it does not match. Otherwise its parameter is there and the objects
  can be converted, unless the policy ignores failures; no validation denies, if the binding
  enforces denials; and no audit annotation fails.
\<close>

definition binding_permits ::
  "('obj, 'u) eval_env \<Rightarrow> 'obj attributes \<Rightarrow> gvk \<Rightarrow> ('obj, 'u) policyData \<Rightarrow> ('obj, 'u) bindingInfo \<Rightarrow> bool" where
  "binding_permits env a kind pd bi \<longleftrightarrow>
     (let p = pd_lastReconciledValue pd; b = bi_lastReconciledValue bi in
      case BindingMatches (ee_match env) a b of
        Some (_, Some err) \<Rightarrow> ignores_failures p
      | Some (True, None) \<Rightarrow>
          (case (lookup_param pd b, NewVersionedAttributes env a kind, bi_validator bi) of
             (Inr param, Inr va, Some v) \<Rightarrow>
               (Deny \<in> set (elems (bs_ValidationActions (vapb_Spec b))) \<longrightarrow>
                  \<not> validator_denies (ee_cel env) v va param RuntimeCELCostBudget) \<and>
               \<not> annotation_fails env v va param
           | (_, _, Some v) \<Rightarrow> ignores_failures p
           | _ \<Rightarrow> True)
      | _ \<Rightarrow> True)"

definition policy_permits :: "('obj, 'u) eval_env \<Rightarrow> 'obj attributes \<Rightarrow> ('obj, 'u) policyData \<Rightarrow> bool" where
  "policy_permits env a pd \<longleftrightarrow>
     (let p = pd_lastReconciledValue pd in
      case DefinitionMatches (ee_match env) a p of
        Some (_, _, Some err) \<Rightarrow> ignores_failures p
      | Some (True, kind, None) \<Rightarrow>
          (if pd_configurationError pd \<noteq> None then ignores_failures p
           else \<forall>bi \<in> set (pd_bindings pd). binding_permits env a kind pd bi)
      | _ \<Rightarrow> True)"

lemma config_errors_empty: "config_errors err p b = [] \<longleftrightarrow> ignores_failures p"
  by (auto simp: config_errors_def ignores_failures_def Let_def Ignore_def Fail_def split: option.splits)

lemma result_objections_empty:
  "result_objections p b r = [] \<longleftrightarrow>
     (Deny \<in> set (elems (bs_ValidationActions (vapb_Spec b))) \<longrightarrow> \<not> (\<exists>d \<in> set (vr_Decisions r). dc_Action d = ActionDeny)) \<and>
     \<not> (\<exists>an \<in> set (vr_AuditAnnotations r). an_Action an = AuditAnnotationActionError)"
  by (auto simp: result_objections_def filter_empty_conv)

lemma binding_objections_empty:
  assumes "bi_validator bi = Some v" and "validation_filter (vd_validationFilter v)"
  shows "binding_objections env a kind pd bi = [] \<longleftrightarrow> binding_permits env a kind pd bi"
  using assms validator_denies_exactly [OF assms(2), of RuntimeCELCostBudget]
  by (auto simp: binding_objections_def binding_permits_def Let_def config_errors_empty result_objections_empty
      annotation_fails_def RuntimeCELCostBudget_def split: option.splits prod.splits sum.splits bool.splits)

lemma policy_objections_empty:
  assumes "well_formed_policy pd"
  shows "policy_objections env a pd = [] \<longleftrightarrow> policy_permits env a pd"
proof -
  have "pd_configurationError pd = None \<Longrightarrow> bi \<in> set (pd_bindings pd) \<Longrightarrow>
      binding_objections env a k pd bi = [] \<longleftrightarrow> binding_permits env a k pd bi" for bi k
    using assms binding_objections_empty by (metis well_formed_policy_def)
  then show ?thesis
    by (auto simp: policy_objections_def policy_permits_def Let_def config_errors_empty
        split: option.splits prod.splits bool.splits)
qed

lemma reasonToCode_codes: "reasonToCode r \<in> {401, 403, 413, 422}"
  by (simp add: reasonToCode_def)

lemma denial_error_code:
  "snd (reasonAndCodeForError (denial_error accessor a d)) \<in> {401, 403, 413, 422}"
proof -
  obtain st where "NewForbidden accessor a (Plain (denial_message d)) = StatusErr st"
    by (cases "extractResourceName accessor a") (simp add: NewForbidden_def apierrors_NewForbidden_def)
  then show ?thesis
    using reasonToCode_codes by (simp add: denial_error_def reasonAndCodeForError_def err_simps Let_def del: insert_iff)
qed

lemma evaluator_verdict:
  assumes "list_all well_formed_policy pds"
  shows "\<exists>r s. evaluator_Validate env True pds a = Some (r, s) \<and>
    (r = None \<longleftrightarrow> (\<forall>pd \<in> set pds. policy_permits env a pd)) \<and>
    (\<forall>e. r = Some e \<longrightarrow> snd (reasonAndCodeForError e) \<in> {401, 403, 413, 422})"
proof -
  have "concat (map (policy_objections env a) pds) = [] \<longleftrightarrow> (\<forall>pd \<in> set pds. policy_permits env a pd)"
    using assms by (simp add: list_all_iff policy_objections_empty)
  with evaluator_first_objection [OF assms, of env a] denial_error_code show ?thesis
    by (cases "concat (map (policy_objections env a) pds)") (auto simp del: concat_eq_Nil_conv)
qed

section \<open>Policies that ignore failures\<close>

text \<open>What denies then: an expression that gave something else than true, or an unsupported annotation.\<close>

definition false_validation ::
  "('obj, 'u) eval_env \<Rightarrow> ('obj, 'u) cel_validator \<Rightarrow> 'obj versionedAttributes \<Rightarrow> 'obj option \<Rightarrow> bool" where
  "false_validation env v va param \<longleftrightarrow>
     (\<exists>r \<in> set (fst (ForInput (ee_cel env) (vd_validationFilter v) va param (vd_authorizer v) RuntimeCELCostBudget)).
        er_Error r = None \<and> er_EvalResult r \<noteq> Some (CelBool True))"

definition unsupported_annotation ::
  "('obj, 'u) eval_env \<Rightarrow> ('obj, 'u) cel_validator \<Rightarrow> 'obj versionedAttributes \<Rightarrow> 'obj option \<Rightarrow> bool" where
  "unsupported_annotation env v va param \<longleftrightarrow>
     (\<exists>r \<in> set (fst (ForInput (ee_cel env) (vd_auditAnnotationFilter v) va param False RuntimeCELCostBudget)).
        er_Error r = None \<and> er_EvalResult r \<notin> insert (Some CelNull) (Some ` range CelString))"

lemma ignored_validator_denies:
  "validator_denies (ee_cel env) v va param RuntimeCELCostBudget \<Longrightarrow> fail_policy v = Ignore \<Longrightarrow>
     false_validation env v va param"
  by (force simp: validator_denies_def false_validation_def denies_def split: sum.splits bool.splits prod.splits option.splits if_splits)

lemma ignored_annotation_fails:
  assumes "annotation_fails env v va param" and "fail_policy v = Ignore"
  shows "unsupported_annotation env v va param"
proof -
  obtain rs b e where rs: "ForInput (ee_cel env) (vd_auditAnnotationFilter v) va param False RuntimeCELCostBudget = (rs, b, e)"
    by (rule prod_cases3)
  from assms(1) obtain r where r: "r \<in> set rs" "an_Action (audit_annotation Ignore r) = AuditAnnotationActionError"
    by (auto simp: annotation_fails_def validator_Validate_def rs Let_def fail_policy_def [symmetric] assms(2)
        split: option.splits prod.splits if_splits)
  then have "er_Error r = None \<and> er_EvalResult r \<notin> insert (Some CelNull) (Some ` range CelString)"
    by (auto simp: audit_annotation_def auditAnnotationEvaluationForError_def no_annotation_def decision_strings Let_def
        split: option.splits expressionAccessor.splits cel_value.splits if_splits)
  with r(1) show ?thesis by (auto simp: unsupported_annotation_def rs)
qed

text \<open>An objection of a policy that ignores failures.\<close>

lemma ignored_binding_objection:
  assumes "\<not> binding_permits env a kind pd bi" and "ignores_failures (pd_lastReconciledValue pd)"
    and "bi_validator bi = Some v" and "vd_failPolicy v = Some Ignore"
  shows "\<exists>va param. Deny \<in> set (elems (bs_ValidationActions (vapb_Spec (bi_lastReconciledValue bi)))) \<and>
       false_validation env v va param \<or> unsupported_annotation env v va param"
proof -
  have fp: "fail_policy v = Ignore" using assms(4) by (simp add: fail_policy_def)
  obtain param va where "(Deny \<in> set (elems (bs_ValidationActions (vapb_Spec (bi_lastReconciledValue bi)))) \<and>
      validator_denies (ee_cel env) v va param RuntimeCELCostBudget) \<or> annotation_fails env v va param"
    using assms(1-3) by (auto simp: binding_permits_def Let_def split: option.splits prod.splits bool.splits sum.splits)
  with ignored_validator_denies [OF _ fp] ignored_annotation_fails [OF _ fp] show ?thesis by blast
qed

section \<open>Properties\<close>

text \<open>
  (C6) The evaluator's verdict. Over policies as the controller keeps them, all with match constraints,
  a request is admitted exactly when every policy permits it: a policy that does not match it, or
  whose bindings do not, permits it; a failure to match, to find the parameters or
  to convert the objects counts unless the policy ignores failures; and a matching binding that
  enforces denials permits it when none of its validations denies and no annotation fails. A denial
  carries one of the codes 401, 403, 413 and 422.
\<close>

theorem evaluator_admits_what_policies_permit:
  assumes "list_all well_formed_policy pds"
  shows "\<exists>r s. evaluator_Validate env True pds a = Some (r, s) \<and>
    (r = None \<longleftrightarrow> (\<forall>pd \<in> set pds. policy_permits env a pd)) \<and>
    (\<forall>e. r = Some e \<longrightarrow> snd (reasonAndCodeForError e) \<in> {401, 403, 413, 422})"
  using assms by (rule evaluator_verdict)

text \<open>
  Policies that ignore failures fail open, but for one case: when all of them do, a request is only
  denied because a validation was evaluated, without an error, to something else than true, or
  because an audit annotation gave a value that is neither a string nor null.
\<close>

theorem ignored_failures_never_deny:
  assumes "list_all well_formed_policy pds"
    and "list_all (\<lambda>pd. ignores_failures (pd_lastReconciledValue pd)) pds"
    and "evaluator_Validate env True pds a = Some (Some e, s)"
  shows "\<exists>pd \<in> set pds. \<exists>bi \<in> set (pd_bindings pd). \<exists>v va param. bi_validator bi = Some v \<and>
    (Deny \<in> set (elems (bs_ValidationActions (vapb_Spec (bi_lastReconciledValue bi)))) \<and> false_validation env v va param \<or>
     unsupported_annotation env v va param)"
proof -
  from evaluator_verdict [OF assms(1), of env a] assms(3)
  obtain pd where pd: "pd \<in> set pds" "\<not> policy_permits env a pd" by auto
  with assms(1,2) have wf: "well_formed_policy pd" "ignores_failures (pd_lastReconciledValue pd)"
    by (auto simp: list_all_iff)
  with pd(2) obtain kind bi where bi: "bi \<in> set (pd_bindings pd)" "\<not> binding_permits env a kind pd bi"
    "pd_configurationError pd = None"
    by (auto simp: policy_permits_def Let_def split: option.splits prod.splits bool.splits if_splits)
  with wf obtain v where "bi_validator bi = Some v" "vd_failPolicy v = Some Ignore"
    by (auto simp: well_formed_policy_def ignores_failures_def
        convertv1alpha1FailurePolicyTypeTov1FailurePolicyType_def Ignore_def Fail_def)
  with ignored_binding_objection [OF bi(2) wf(2) this] pd(1) bi(1) show ?thesis by blast
qed

text \<open>
  (C38) A policy without match constraints, which the CRD admits when the whole \<open>spec\<close> is missing, is
  fatal: if the other policies are well formed, the evaluation of every request panics, so no
  request gets an answer while this policy exists.
\<close>

theorem policy_without_constraints_panics:
  assumes "list_all well_formed_policy pds"
    and "ps_MatchConstraints (vap_Spec (pd_lastReconciledValue pd)) = None"
  shows "evaluator_Validate env True (pds @ pd # rest) a = None"
proof -
  from eval_policies_objections [OF assms(1)] obtain s where "eval_policies env a pds start_eval = Continue s" by blast
  moreover have "eval_policies env a (xs @ ys) s0 = (case eval_policies env a xs s0 of
      Continue s' \<Rightarrow> eval_policies env a ys s' | other \<Rightarrow> other)" for xs ys s0
    by (induction xs arbitrary: s0) (auto split: flow.splits)
  ultimately show ?thesis
    using assms(2) by (simp add: evaluator_Validate_def eval_policy_def DefinitionMatches_def Matches_def)
qed

section \<open>Instances\<close>

text \<open>One policy with one validation, whose program gives a fixed result, bound once with \<open>Deny\<close>.\<close>

definition ex_object_meta :: "string \<Rightarrow> objectMeta" where
  "ex_object_meta n = \<lparr>om_name = n, om_generateName = [], om_namespace = [], om_selfLink = [], om_uid = [],
     om_resourceVersion = [], om_generation = 1, om_creationTimestamp = None, om_deletionTimestamp = None,
     om_deletionGracePeriodSeconds = None, om_labels = None, om_annotations = None, om_ownerReferences = None,
     om_finalizers = None, om_managedFields = None\<rparr>"

definition ex_policy :: "matchResources option \<Rightarrow> FailurePolicyType \<Rightarrow> validatingAdmissionPolicy" where
  "ex_policy c f = \<lparr>vap_TypeMeta = \<lparr>tm_Kind = [], tm_APIVersion = []\<rparr>, vap_ObjectMeta = ex_object_meta ''p'',
     vap_Spec = \<lparr>ps_ParamKind = None, ps_MatchConstraints = c, ps_Validations = None, ps_FailurePolicy = Some f,
       ps_AuditAnnotations = None, ps_MatchConditions = None\<rparr>,
     vap_Status = \<lparr>pst_ObservedGeneration = 0, pst_TypeChecking = None, pst_Conditions = None\<rparr>\<rparr>"

definition ex_binding :: validatingAdmissionPolicyBinding where
  "ex_binding = \<lparr>vapb_TypeMeta = \<lparr>tm_Kind = [], tm_APIVersion = []\<rparr>, vapb_ObjectMeta = ex_object_meta ''b'',
     vapb_Spec = \<lparr>bs_PolicyName = ''p'', bs_ParamRef = None, bs_MatchResources = None, bs_ValidationActions = Some [Deny]\<rparr>\<rparr>"

definition ex_program :: "string + cel_value \<Rightarrow> (str_map, unit) compilationResult" where
  "ex_program r = \<lparr>cp_ExpressionAccessor = Some (ValidationAccessor
       \<lparr>vc_Expression = ''true'', vc_Message = ''no'', vc_Reason = Some ''Forbidden''\<rparr>),
     cp_Error = None, cp_Program = Some (\<lambda>act. (r, Some (Some 5)))\<rparr>"

definition ex_policyData :: "matchResources option \<Rightarrow> FailurePolicyType \<Rightarrow> string + cel_value \<Rightarrow> (str_map, unit) policyData" where
  "ex_policyData c f r = \<lparr>pd_configurationError = None, pd_lastReconciledValue = ex_policy c f, pd_paramController = None,
     pd_bindings = [\<lparr>bi_validator = Some (NewValidator [ex_program r] None [] [] (Some f) False),
       bi_lastReconciledValue = ex_binding\<rparr>]\<rparr>"

definition ex_eval_env :: "(str_map, unit) eval_env" where
  "ex_eval_env = \<lparr>ee_match = ex_match_env,
     ee_cel = \<lparr>cl_ToUnstructured = (\<lambda>ob. Inr ()), cl_requestToUnstructured = (\<lambda>a. Inr ())\<rparr>,
     ee_ConvertToGVK = (\<lambda>ob k. Inr ob), ee_failure_json = (\<lambda>i m b. []), ee_accessor = (\<lambda>ob. None)\<rparr>"

lemma ex_well_formed: "f \<in> {Fail, Ignore} \<Longrightarrow> well_formed_policy (ex_policyData (Some c) f r)"
  by (auto simp add: convertv1alpha1FailurePolicyTypeTov1FailurePolicyType_def well_formed_policy_def ex_policyData_def ex_policy_def NewValidator_def validation_filter_def audit_filter_def
      ex_program_def)

lemma ex_definition_matches:
  "DefinitionMatches ex_match_env (ex_deployment ''CREATE'') (ex_policy (Some ex_resources) f)
     = Some (True, at_kind (ex_deployment ''CREATE''), None)"
  using Matches_iff [OF ex_match_env_ok, of ex_resources "ex_deployment ''CREATE''"] ex_resources_select(1)
  by (fastforce simp: DefinitionMatches_def ex_policy_def ex_resources_def)

lemma ex_convert:
  "NewVersionedAttributes ex_eval_env a k =
     Inr \<lparr>vat_Attributes = a, vat_VersionedObject = at_object a, vat_VersionedOldObject = at_oldObject a, vat_VersionedKind = k\<rparr>"
  by (simp add: NewVersionedAttributes_def ex_eval_env_def Let_def split: option.splits)

lemma ex_ForInput:
  "ForInput (ee_cel ex_eval_env) f va params auth b =
     (case eval_loop f \<lparr>act_object = map_option (\<lambda>_. ()) (vat_VersionedObject va),
          act_oldObject = map_option (\<lambda>_. ()) (vat_VersionedOldObject va), act_params = map_option (\<lambda>_. ()) params,
          act_request = (), act_authorizer = (if auth then Some (vat_Attributes va) else None)\<rparr> b of
        Inl err \<Rightarrow> ([], - 1, Some err) | Inr (rs, b') \<Rightarrow> (rs, b', None))"
  by (simp add: ForInput_def new_activation_def objectToResolveVal_def ex_eval_env_def split: option.splits)

definition ex_result :: "string + cel_value \<Rightarrow> evaluationResult" where
  "ex_result r = \<lparr>er_ExpressionAccessor = cp_ExpressionAccessor (ex_program r),
     er_EvalResult = (case r of Inl m \<Rightarrow> None | Inr v \<Rightarrow> Some v),
     er_Error = (case r of Inl m \<Rightarrow> Some (CelError ErrorTypeInvalid
         (''expression '' @ [CHR 0x27] @ ''true'' @ [CHR 0x27] @ '' resulted in error: '' @ m)) | Inr v \<Rightarrow> None)\<rparr>"

lemma ex_eval_loop:
  "eval_loop [ex_program r] act RuntimeCELCostBudget = Inr ([ex_result r], RuntimeCELCostBudget - 5)"
  by (cases r) (simp_all add: ex_program_def ex_result_def RuntimeCELCostBudget_def MaxInt64_def no_evaluation_def)

lemma ex_denies:
  "validator_denies (ee_cel ex_eval_env) (NewValidator [ex_program r] None [] [] (Some f) False) va param RuntimeCELCostBudget
     \<longleftrightarrow> denies f None (ex_result r)"
  by (simp add: validator_denies_def conditions_def NewValidator_def ex_ForInput ex_eval_loop fail_policy_def del: eval_loop.simps(2))

lemma ex_annotations:
  "\<not> annotation_fails ex_eval_env (NewValidator [ex_program r] None [] [] (Some f) False) va param"
  by (simp add: annotation_fails_def validator_Validate_def NewValidator_def ex_ForInput ex_eval_loop Let_def del: eval_loop.simps(2))

lemma ex_permits:
  "policy_permits ex_eval_env (ex_deployment ''CREATE'') (ex_policyData (Some ex_resources) f r) \<longleftrightarrow>
     \<not> denies f None (ex_result r)"
proof -
  have d: "DefinitionMatches (ee_match ex_eval_env) (ex_deployment ''CREATE'') (ex_policy (Some ex_resources) f)
     = Some (True, at_kind (ex_deployment ''CREATE''), None)"
    using ex_definition_matches by (simp add: ex_eval_env_def)
  have k: "ps_ParamKind (vap_Spec (ex_policy c f)) = None" for c by (simp add: ex_policy_def)
  have b: "bs_MatchResources (vapb_Spec ex_binding) = None" "elems (bs_ValidationActions (vapb_Spec ex_binding)) = [Deny]"
    by (simp_all add: ex_binding_def)
  show ?thesis
    by (simp add: policy_permits_def ex_policyData_def d binding_permits_def BindingMatches_def lookup_param_def k b ex_convert
        ex_denies ex_annotations Let_def)
qed

theorem evaluator_admits_what_policies_permit_witness:
  "(\<exists>s. evaluator_Validate ex_eval_env True [ex_policyData (Some ex_resources) Fail (Inr (CelBool True))]
     (ex_deployment ''CREATE'') = Some (None, s)) \<and>
   (\<exists>e s. evaluator_Validate ex_eval_env True [ex_policyData (Some ex_resources) Fail (Inl ''no such key'')]
     (ex_deployment ''CREATE'') = Some (Some e, s))"
proof -
  have wf: "list_all well_formed_policy [ex_policyData (Some ex_resources) Fail r]" for r
    by (simp add: ex_well_formed)
  have "\<not> denies Fail None (ex_result (Inr (CelBool True)))" "denies Fail None (ex_result (Inl ''no such key''))"
    by (simp_all add: denies_def ex_result_def fatal_message_error_def Fail_def Ignore_def)
  with evaluator_admits_what_policies_permit [OF wf [of "Inr (CelBool True)"], of ex_eval_env "ex_deployment ''CREATE''"]
    evaluator_admits_what_policies_permit [OF wf [of "Inl ''no such key''"], of ex_eval_env "ex_deployment ''CREATE''"] ex_permits
  show ?thesis by auto
qed

lemma ex_ignoring:
  "list_all well_formed_policy [ex_policyData (Some ex_resources) Ignore (Inr (CelBool False))]"
  "list_all (\<lambda>pd. ignores_failures (pd_lastReconciledValue pd)) [ex_policyData (Some ex_resources) Ignore (Inr (CelBool False))]"
  by (simp_all add: ex_well_formed) (simp add: ignores_failures_def ex_policyData_def ex_policy_def)

lemma ex_ignoring_denies:
  "\<exists>e s. evaluator_Validate ex_eval_env True [ex_policyData (Some ex_resources) Ignore (Inr (CelBool False))]
     (ex_deployment ''CREATE'') = Some (Some e, s)"
proof -
  have "denies Ignore None (ex_result (Inr (CelBool False)))"
    by (simp add: denies_def ex_result_def fatal_message_error_def)
  with evaluator_verdict [OF ex_ignoring(1), of ex_eval_env "ex_deployment ''CREATE''"] ex_permits show ?thesis by auto
qed

theorem ignored_failures_never_deny_witness:
  "\<exists>bi \<in> set (pd_bindings (ex_policyData (Some ex_resources) Ignore (Inr (CelBool False)))). \<exists>v va param.
     bi_validator bi = Some v \<and>
     (Deny \<in> set (elems (bs_ValidationActions (vapb_Spec (bi_lastReconciledValue bi)))) \<and>
        false_validation ex_eval_env v va param \<or> unsupported_annotation ex_eval_env v va param)"
proof -
  obtain e s where "evaluator_Validate ex_eval_env True [ex_policyData (Some ex_resources) Ignore (Inr (CelBool False))]
     (ex_deployment ''CREATE'') = Some (Some e, s)" using ex_ignoring_denies by blast
  from ignored_failures_never_deny [OF ex_ignoring this] show ?thesis by simp
qed

theorem policy_without_constraints_panics_witness:
  "evaluator_Validate ex_eval_env True
     [ex_policyData (Some ex_resources) Fail (Inr (CelBool True)), ex_policyData None Fail (Inr (CelBool True))]
     (ex_deployment ''CREATE'') = None"
proof -
  have "ps_MatchConstraints (vap_Spec (pd_lastReconciledValue (ex_policyData None Fail (Inr (CelBool True))))) = None"
    by (simp add: ex_policyData_def ex_policy_def)
  from policy_without_constraints_panics [OF _ this, of "[ex_policyData (Some ex_resources) Fail (Inr (CelBool True))]"]
  show ?thesis by (simp add: ex_well_formed)
qed

text \<open>A filter with two programs of cost 5, with enough left for both, and with 7 left.\<close>

definition ex_va :: "str_map versionedAttributes" where
  "ex_va = \<lparr>vat_Attributes = ex_deployment ''CREATE'', vat_VersionedObject = None, vat_VersionedOldObject = None,
     vat_VersionedKind = no_kind\<rparr>"

theorem filter_stays_within_budget_witness:
  "(\<exists>results. ForInput (ee_cel ex_eval_env) [ex_program (Inr CelNull), ex_program (Inr CelNull)] ex_va None False 10 = (results, 0, None)
      \<and> length results = 2) \<and>
   (\<exists>e. ForInput (ee_cel ex_eval_env) [ex_program (Inr CelNull), ex_program (Inr CelNull)] ex_va None False 7 = ([], - 1, Some e))"
proof -
  let ?f = "[ex_program (Inr CelNull), ex_program (Inr CelNull)]"
  let ?run = "ForInput (ee_cel ex_eval_env) ?f ex_va None False"
  have cost: "step_cost act (ex_program (Inr CelNull)) = 5" for act by (simp add: step_cost_def ex_program_def)
  obtain rs b e where r: "?run 10 = (rs, b, e)" by (rule prod_cases3)
  have e: "e = None" "length rs = 2"
    using r by (auto simp: ex_ForInput ex_program_def MaxInt64_def split: if_splits)
  with filter_stays_within_budget [OF r] have "b = 0" by (auto simp: cost)
  moreover obtain rs' b' e' where r': "?run 7 = (rs', b', e')" by (rule prod_cases3)
  have "e' \<noteq> None" using r' by (auto simp: ex_ForInput ex_program_def MaxInt64_def split: if_splits)
  with filter_stays_within_budget [OF r'] have "rs' = [] \<and> b' = - 1" by auto
  ultimately show ?thesis using r r' e \<open>e' \<noteq> None\<close> by auto
qed

end
