(* ===== verification/Policy_Composition.thy ===== *)
theory Policy_Composition
  imports Policy_Snapshot Evaluator_Properties Plugin
begin

text \<open>
  The policy controller and the evaluator together: the validators the controller compiles are of the
  form the evaluator relies on, so whatever was reconciled before, a request is
  evaluated without a panic and admitted exactly when every known policy permits it.
\<close>

section \<open>Compiled validators\<close>

lemma compiled_filters:
  "validation_filter (Compile lib p q (convertv1alpha1Validations vs))"
  "audit_filter (Compile lib p q (convertv1alpha1AuditAnnotations as))"
  by (auto simp: validation_filter_def audit_filter_def Compile_def convertv1alpha1Validations_def
      convertv1alpha1AuditAnnotations_def CompileCELExpression_def list_all_iff split: sum.splits)

lemma compiled_validator:
  "validation_filter (vd_validationFilter (compile_validator lib d))"
  "audit_filter (vd_auditAnnotationFilter (compile_validator lib d))"
  "vd_failPolicy (compile_validator lib d) = convertv1alpha1FailurePolicyTypeTov1FailurePolicyType (ps_FailurePolicy (vap_Spec d))"
  by (simp_all add: compile_validator_def NewValidator_def compiled_filters Let_def)

lemma current_policy_well_formed:
  assumes laws: "DeepEqual_laws lib" and cur: "current_policy lib defs binds k pd"
    and c: "\<And>d. defs k = Some d \<Longrightarrow> ps_MatchConstraints (vap_Spec d) \<noteq> None"
  shows "well_formed_policy pd"
proof -
  from cur obtain d nns where d: "defs k = Some d"
      "pl_equalDefinitionSpec lib (vap_Spec (pd_lastReconciledValue pd)) (vap_Spec d)"
    and b: "list_all2 (current_binding lib binds pd) nns (pd_bindings pd)"
    unfolding current_policy_def by blast
  have "ps_MatchConstraints (vap_Spec (pd_lastReconciledValue pd)) \<noteq> None"
  proof -
    have "\<forall>d d'. pl_equalDefinitionSpec lib d d' \<longrightarrow> (ps_MatchConstraints d = None \<longleftrightarrow> ps_MatchConstraints d' = None)"
      using laws unfolding DeepEqual_laws_def by (elim conjE) simp
    from this [rule_format, OF d(2)] c [OF d(1)] show ?thesis by simp
  qed
  moreover have "bi_validator bi = Some (compile_validator lib (pd_lastReconciledValue pd))"
    if "pd_configurationError pd = None" "bi \<in> set (pd_bindings pd)" for bi
    using b that(2) by (induction rule: list_all2_induct) (auto simp: current_binding_def that(1))
  ultimately show ?thesis by (simp add: well_formed_policy_def compiled_validator)
qed

section \<open>From reconciliations to verdicts\<close>

lemma snapshot_is_current:
  assumes "DeepEqual_laws lib" and "policy_reachable lib s" and "visits_policies order (ps_ctl s)"
  shows "\<exists>pds c. latestPolicyData lib order (ps_ctl s) = Some (pds, c) \<and> current_snapshot lib (ps_defs s) (ps_binds s) pds"
proof -
  have inv: "policy_inv lib s" using assms(2) by (rule reachable_policy_inv)
  then have ctl: "ctl_inv lib (ps_ctl s)" by (simp add: policy_inv_def)
  from latest_policy_data_ok [OF ctl assms(3)] obtain pds c where L: "latestPolicyData lib order (ps_ctl s) = Some (pds, c)"
    "ctl_inv lib c" "snapshot lib c pds" "pcs_definitionInfo c = pcs_definitionInfo (ps_ctl s)"
    "values_of (pcs_bindingInfos c) = values_of (pcs_bindingInfos (ps_ctl s))" by blast
  have "current_snapshot lib (ps_defs s) (ps_binds s) pds"
    by (rule snapshot_current [OF assms(1) _ L(3)]) (use L inv assms(1) in \<open>simp_all add: policy_inv_def ctl_inv_def\<close>)
  with L(1) show ?thesis by blast
qed

lemma current_snapshot_well_formed:
  assumes "DeepEqual_laws lib" and "current_snapshot lib defs binds pds"
    and "\<forall>d \<in> ran defs. ps_MatchConstraints (vap_Spec d) \<noteq> None"
  shows "list_all well_formed_policy pds"
proof -
  from assms(2) obtain ks where ks: "list_all2 (current_policy lib defs binds) ks pds"
    unfolding current_snapshot_def by blast
  have wf: "well_formed_policy pd" if "current_policy lib defs binds k pd" for k pd
    by (rule current_policy_well_formed [OF assms(1) that]) (rule bspec [OF assms(3)], erule ranI)
  show ?thesis using ks by (induction rule: list_all2_induct) (auto intro: wf)
qed

lemma snapshot_well_formed:
  assumes "DeepEqual_laws lib" and "policy_reachable lib s" and "visits_policies order (ps_ctl s)"
    and "\<forall>d \<in> ran (ps_defs s). ps_MatchConstraints (vap_Spec d) \<noteq> None"
  shows "\<exists>pds c. latestPolicyData lib order (ps_ctl s) = Some (pds, c) \<and>
    current_snapshot lib (ps_defs s) (ps_binds s) pds \<and> list_all well_formed_policy pds"
  using snapshot_is_current [OF assms(1-3)] current_snapshot_well_formed [OF assms(1) _ assms(4)] by blast

text \<open>
  (C5) From what the controllers were told to the verdict on a request. When every known policy has match
  constraints, the snapshot taken in any reachable state is current and the evaluator decides by it
  without a panic: a request is admitted exactly when every known policy permits it.
\<close>

theorem known_policies_decide:
  assumes "DeepEqual_laws lib" and "policy_reachable lib s" and "visits_policies order (ps_ctl s)"
    and "\<forall>d \<in> ran (ps_defs s). ps_MatchConstraints (vap_Spec d) \<noteq> None"
  shows "\<exists>pds c r st. latestPolicyData lib order (ps_ctl s) = Some (pds, c) \<and>
    current_snapshot lib (ps_defs s) (ps_binds s) pds \<and>
    evaluator_Validate env True pds a = Some (r, st) \<and> (r = None \<longleftrightarrow> (\<forall>pd \<in> set pds. policy_permits env a pd))"
proof -
  from snapshot_well_formed [OF assms] obtain pds c where L: "latestPolicyData lib order (ps_ctl s) = Some (pds, c)"
    "current_snapshot lib (ps_defs s) (ps_binds s) pds" "list_all well_formed_policy pds" by blast
  from evaluator_verdict [OF L(3), of env a] L(1,2) show ?thesis by blast
qed

section \<open>The evaluator of the plugin\<close>

text \<open>
  What the plugin's evaluator is: synced once the controllers are and a snapshot has been published;
  its verdict, unless it panics, is that of \<open>evaluator_Validate\<close> on the published snapshot. In a world \<open>w\<close>
  of the server \<open>definitions w\<close> is the atomic value of that name.
\<close>

definition runs_cel_evaluator ::
  "('obj, 'u) eval_env \<Rightarrow> ('w \<Rightarrow> bool) \<Rightarrow> ('w \<Rightarrow> ('obj, 'u) policyData list option) \<Rightarrow> ('obj, 'w) evaluator \<Rightarrow> bool" where
  "runs_cel_evaluator env controllers_synced definitions ev \<longleftrightarrow>
     (\<forall>w. ev_HasSynced ev w \<longleftrightarrow> controllers_synced w \<and> definitions w \<noteq> None) \<and>
     (\<forall>w pds a r st. definitions w = Some pds \<longrightarrow> ev_HasSynced ev w \<longrightarrow>
        evaluator_Validate env True pds a = Some (r, st) \<longrightarrow> fst (ev_Validate ev a w) = r)"

section \<open>Instance\<close>

text \<open>A policy on deployments with one binding, compiled by a compiler that rejects every expression.\<close>

definition comp_lib :: "(str_map, unit) policy_lib" where
  "comp_lib = \<lparr>pl_equalDefinitionSpec = (=), pl_equalBindingSpec = (=),
     pl_compileProgram = (\<lambda>_ _ _. Inl ''undeclared reference''),
     pl_newParamController = (\<lambda>_ _. \<lparr>pc_WaitForCacheSync = True, pc_Get = (\<lambda>_. Inl (Plain ''not found'')),
        pc_NamespacedGet = (\<lambda>_ _. Inl (Plain ''not found''))\<rparr>),
     pl_authz = False\<rparr>"

definition comp_start :: "(str_map, unit) policy_sys" where
  "comp_start = \<lparr>ps_ctl = \<lparr>pcs_cachedPolicies = [], pcs_paramsCRDControllers = Map.empty, pcs_definitionInfo = Map.empty,
       pcs_bindingInfos = Map.empty, pcs_definitionsToBindings = Map.empty\<rparr>,
     ps_defs = Map.empty, ps_binds = Map.empty, ps_published = None\<rparr>"

definition comp_ctl :: "(str_map, unit) policyController" where
  "comp_ctl = \<lparr>pcs_cachedPolicies = [], pcs_paramsCRDControllers = Map.empty,
     pcs_definitionInfo = [([], ''p'') \<mapsto> \<lparr>di_configurationError = None,
        di_lastReconciledValue = ex_policy (Some ex_resources) Fail\<rparr>],
     pcs_bindingInfos = Map.empty, pcs_definitionsToBindings = Map.empty\<rparr>"

definition comp_state :: "(str_map, unit) policy_sys" where
  "comp_state = comp_start\<lparr>
     ps_ctl := reconcilePolicyBinding comp_lib [] ''b'' (Some ex_binding) comp_ctl,
     ps_defs := [([], ''p'') \<mapsto> ex_policy (Some ex_resources) Fail],
     ps_binds := [([], ''b'') \<mapsto> ex_binding]\<rparr>"

lemma comp_reachable: "policy_reachable comp_lib comp_state"
proof -
  let ?s = "comp_start\<lparr>ps_ctl := comp_ctl, ps_defs := (ps_defs comp_start)(([], ''p'') := Some (ex_policy (Some ex_resources) Fail))\<rparr>"
  have run: "reconcilePolicyDefinitionSpec comp_lib snap_mapper [] ''p'' (Some (ex_policy (Some ex_resources) Fail)) (ps_ctl comp_start)
      = Some (None, comp_ctl)"
    by (simp add: reconcilePolicyDefinitionSpec_def comp_start_def getNamespaceName_def spec_unchanged_def release_old_param_def
        old_param_kind_def reset_validators_def set_definition_def ex_policy_def store_definition_def comp_ctl_def Let_def)
  have "policy_reachable comp_lib comp_start" by (rule reach_start) (simp add: policy_start_def comp_start_def)
  moreover have "policy_step comp_lib comp_start ?s" by (rule policy_step.reconcile_definition [OF _ run]) simp
  ultimately have "policy_reachable comp_lib ?s" by (rule reach_step)
  moreover have "policy_step comp_lib ?s (?s\<lparr>ps_ctl := reconcilePolicyBinding comp_lib [] ''b'' (Some ex_binding) (ps_ctl ?s),
       ps_binds := (ps_binds ?s)(([], ''b'') := Some ex_binding)\<rparr>)"
    by (rule policy_step.reconcile_binding) simp
  ultimately have "policy_reachable comp_lib (?s\<lparr>ps_ctl := reconcilePolicyBinding comp_lib [] ''b'' (Some ex_binding) (ps_ctl ?s),
       ps_binds := (ps_binds ?s)(([], ''b'') := Some ex_binding)\<rparr>)" by (rule reach_step)
  then show ?thesis by (simp add: comp_state_def comp_start_def)
qed

lemma comp_visits: "visits_policies [(([], ''p''), [([], ''b'')])] (ps_ctl comp_state)"
  by (simp add: visits_policies_def comp_state_def comp_ctl_def reconcilePolicyBinding_def getNamespaceName_def
      ex_binding_def dependents_def detach_binding_def attach_binding_def Let_def)

theorem known_policies_decide_witness:
  "\<exists>pds c r st. latestPolicyData comp_lib [(([], ''p''), [([], ''b'')])] (ps_ctl comp_state) = Some (pds, c) \<and>
     evaluator_Validate ex_eval_env True pds (ex_deployment ''CREATE'') = Some (r, st) \<and>
     (r = None \<longleftrightarrow> (\<forall>pd \<in> set pds. policy_permits ex_eval_env (ex_deployment ''CREATE'') pd))"
proof -
  have "DeepEqual_laws comp_lib" by (simp add: DeepEqual_laws_def comp_lib_def)
  moreover have "\<forall>d \<in> ran (ps_defs comp_state). ps_MatchConstraints (vap_Spec d) \<noteq> None"
    by (simp add: comp_state_def ex_policy_def)
  ultimately show ?thesis
    using known_policies_decide [OF _ comp_reachable comp_visits, of ex_eval_env "ex_deployment ''CREATE''"] by blast
qed

definition comp_pds :: "(str_map, unit) policyData list" where
  "comp_pds = fst (the (latestPolicyData comp_lib [(([], ''p''), [([], ''b'')])] (ps_ctl comp_state)))"

lemma comp_laws: "DeepEqual_laws comp_lib"
  by (simp add: DeepEqual_laws_def comp_lib_def)

end
