(* ===== verification/Synced_Controller.thy ===== *)
theory Synced_Controller
  imports Controller
begin

text \<open>
  The controller inside the vendored policy evaluator (\<open>validatingadmissionpolicy/internal/generic\<close>):
  the generic controller once more, with a tracker that tells when every object of the initial list has been
  reconciled (\<open>cache/synctrack\<close>). The controller, its informer with the
  notifications on their way, and its workers are one step relation; what the reconciler does to the
  world around is a parameter.
\<close>

section \<open>Trackers: synctrack.go\<close>

text \<open>\<open>AsyncTracker\<close>: the keys that are waited for, a set that may be nil.\<close>

definition async_Start :: "'k \<Rightarrow> 'k set option \<Rightarrow> 'k set option" where
  "async_Start key wt = (case wt of None \<Rightarrow> Some {key} | Some s \<Rightarrow> Some (insert key s))"

definition async_Finished :: "'k \<Rightarrow> 'k set option \<Rightarrow> 'k set option" where
  "async_Finished key wt = (case wt of None \<Rightarrow> None | Some s \<Rightarrow> Some (s - {key}))"

definition waited_for :: "'k set option \<Rightarrow> 'k set" where
  "waited_for wt = (case wt of None \<Rightarrow> {} | Some s \<Rightarrow> s)"

definition async_HasSynced :: "bool \<Rightarrow> 'k set option \<Rightarrow> bool" where
  "async_HasSynced upstream wt = (if \<not> upstream then False else waited_for wt = {})"

text \<open>\<open>SingleFileTracker\<close>: a counter; \<open>None\<close> is the panic of a negative one.\<close>

definition single_Start :: "int \<Rightarrow> int" where
  "single_Start count = count + 1"

definition single_Finished :: "int \<Rightarrow> int option" where
  "single_Finished count = (let result = count - 1 in if result < 0 then None else Some result)"

definition single_HasSynced :: "bool \<Rightarrow> int \<Rightarrow> bool" where
  "single_HasSynced upstream count = (if \<not> upstream then False else count \<le> 0)"

lemma waited_for_simps [simp]:
  "waited_for None = {}" "waited_for (Some s) = s"
  "waited_for (async_Start k wt) = insert k (waited_for wt)"
  "waited_for (async_Finished k wt) = waited_for wt - {k}"
  by (simp_all add: waited_for_def async_Start_def async_Finished_def split: option.split)

section \<open>Event handlers\<close>

definition DeletionHandlingMetaNamespaceKeyFunc ::
  "'obj accessor \<Rightarrow> 'obj handler_arg \<Rightarrow> go_error + string" where
  "DeletionHandlingMetaNamespaceKeyFunc accessor a =
     (case a of Tombstone key ob \<Rightarrow> Inr key | _ \<Rightarrow> MetaNamespaceKeyFunc accessor a)"

text \<open>The closure \<open>enqueue\<close> and the three handlers, on the queue and the tracker.\<close>

type_synonym tracked_queue = "wqueue \<times> string set option"

definition tracked_enqueue :: "'obj accessor \<Rightarrow> 'obj handler_arg \<Rightarrow> bool \<Rightarrow> tracked_queue \<Rightarrow> tracked_queue" where
  "tracked_enqueue accessor a isInInitialList qt =
     (case DeletionHandlingMetaNamespaceKeyFunc accessor a of
        Inl err \<Rightarrow> qt
      | Inr key \<Rightarrow>
          (let wt = (if isInInitialList then async_Start key (snd qt) else snd qt)
           in (wq_Add (Key key) (fst qt), wt)))"

fun tracked_note :: "'obj accessor \<Rightarrow> 'obj notification \<Rightarrow> bool \<Rightarrow> tracked_queue \<Rightarrow> tracked_queue" where
  "tracked_note accessor (AddNote ob) isInInitialList qt = tracked_enqueue accessor ob isInInitialList qt"
| "tracked_note accessor (UpdateNote old new) _ qt =
     (case (arg_meta accessor old, arg_meta accessor new) of
        (Some oldMeta, Some newMeta) \<Rightarrow>
          if om_ResourceVersion oldMeta = om_ResourceVersion newMeta then qt
          else tracked_enqueue accessor new False qt
      | _ \<Rightarrow> qt)"
| "tracked_note accessor (DeleteNote ob) _ qt = tracked_enqueue accessor ob False qt"

section \<open>The controller and its informer\<close>

definition tracked_options :: "string \<Rightarrow> controller_options \<Rightarrow> controller_options" where
  "tracked_options typeName options =
     \<lparr>opt_Name = (if length (opt_Name options) = 0 then typeName @ ''-controller'' else opt_Name options),
      opt_Workers = (if opt_Workers options = 0 then 2 else opt_Workers options)\<rparr>"

text \<open>
  Where \<open>Run\<close> is, with its reason to return; where a worker is, from \<open>Get\<close> to the deferred calls of
  \<open>Finished\<close> and \<open>Done\<close>; and what \<open>notificationsDelivered\<close> holds: nothing, the registration's
  \<open>HasSynced\<close>, or the function that answers false.
\<close>

datatype tracked_result = RegisterFailed | SyncStopped | CtxEnded

datatype tracked_phase =
    TkIdle | TkRegistering | TkRegistered | TkSyncing | TkRunning | TkJoining
  | TkUnregistering tracked_result | TkRemoving tracked_result | TkReturned tracked_result

datatype 'obj tracked_pc =
    TNotStarted
  | TIdle
  | TGot work_item
  | TRead string string string "'obj option"
  | TReconciled string "go_error option"
  | TSettled string
  | TFinished work_item
  | TExited

datatype delivered_func = NotStored | OfRegistration | AnswersFalse

datatype run_ctx = RunNotCalled | CtxLive | CtxDone

text \<open>
  \<open>tk_store\<close> is the informer's cache and \<open>tk_notes\<close> what its listener has not delivered yet, with the mark
  of the initial list; \<open>tk_count\<close> is the listener's tracker and \<open>tk_waiting\<close> the controller's. Three
  ghosts: the initial list, which is what the cache holds when the informer has synced and the
  handler is registered; the keys that changed since; and the keys the reconciler was called for.
\<close>

record 'obj tracked_ctl =
  tk_queue :: wqueue
  tk_store :: "'obj indexer"
  tk_informerSynced :: bool
  tk_registered :: bool
  tk_notes :: "('obj notification \<times> bool) list"
  tk_count :: int
  tk_delivered :: delivered_func
  tk_waiting :: "string set option"
  tk_wpc :: "nat \<Rightarrow> 'obj tracked_pc"
  tk_phase :: tracked_phase
  tk_initial :: "(string \<rightharpoonup> 'obj) option"
  tk_touched :: "string set"
  tk_seen :: "string set"

definition tk_cur :: "'obj tracked_ctl \<Rightarrow> string \<rightharpoonup> 'obj" where
  "tk_cur c = map_of (ix_items (tk_store c))"

definition tracked_New :: "bool \<Rightarrow> 'obj tracked_ctl" where
  "tracked_New idx =
     \<lparr>tk_queue = NewRateLimitingQueue,
      tk_store = \<lparr>ix_items = [], ix_hasNamespaceIndex = idx, ix_err = (\<lambda>_. None)\<rparr>,
      tk_informerSynced = False, tk_registered = False, tk_notes = [], tk_count = 0,
      tk_delivered = NotStored, tk_waiting = None, tk_wpc = (\<lambda>_. TNotStarted), tk_phase = TkIdle,
      tk_initial = None, tk_touched = {}, tk_seen = {}\<rparr>"

text \<open>\<open>UpstreamHasSynced\<close> and \<open>HasSynced\<close>.\<close>

definition tk_notificationsDelivered :: "'obj tracked_ctl \<Rightarrow> bool" where
  "tk_notificationsDelivered c =
     (case tk_delivered c of
        NotStored \<Rightarrow> False
      | OfRegistration \<Rightarrow> single_HasSynced (tk_informerSynced c) (tk_count c)
      | AnswersFalse \<Rightarrow> False)"

definition tk_HasSynced :: "'obj tracked_ctl \<Rightarrow> bool" where
  "tk_HasSynced c = async_HasSynced (tk_notificationsDelivered c) (tk_waiting c)"

text \<open>
  The informer hands a notification to the listener, once there is one. Additions are part of the
  initial list until the informer has synced.
\<close>

definition tk_notify :: "'obj notification \<Rightarrow> bool \<Rightarrow> 'obj tracked_ctl \<Rightarrow> 'obj tracked_ctl" where
  "tk_notify nt isInInitialList c =
     (if tk_registered c
      then c\<lparr>tk_notes := tk_notes c @ [(nt, isInInitialList)],
             tk_count := (if isInInitialList then single_Start (tk_count c) else tk_count c)\<rparr>
      else c)"

definition tk_change :: "string \<Rightarrow> 'obj indexer \<Rightarrow> 'obj tracked_ctl \<Rightarrow> 'obj tracked_ctl" where
  "tk_change k ix c = c\<lparr>tk_store := ix,
     tk_touched := (if map_of (ix_items ix) k = tk_cur c k then tk_touched c else insert k (tk_touched c))\<rparr>"

definition tk_list_done :: "'obj tracked_ctl \<Rightarrow> 'obj tracked_ctl" where
  "tk_list_done c =
     (if tk_registered c \<and> tk_informerSynced c then c\<lparr>tk_initial := Some (tk_cur c), tk_touched := {}\<rparr> else c)"

text \<open>\<open>AddEventHandler\<close>: the listener is told of everything the cache holds, as the initial list.\<close>

definition tk_register :: "'obj tracked_ctl \<Rightarrow> 'obj tracked_ctl" where
  "tk_register c = tk_list_done (c\<lparr>tk_registered := True,
     tk_notes := map (\<lambda>p. (AddNote (Object (snd p)), True)) (ix_items (tk_store c)),
     tk_count := (single_Start ^^ length (ix_items (tk_store c))) 0, tk_phase := TkRegistered\<rparr>)"

text \<open>The listener calls the handler, then counts the notification as finished if it is of the initial list.\<close>

definition tk_deliver :: "'obj accessor \<Rightarrow> 'obj tracked_ctl \<Rightarrow> 'obj tracked_ctl option" where
  "tk_deliver accessor c =
     (case tk_notes c of
        [] \<Rightarrow> Some c
      | (nt, isInInitialList) # rest \<Rightarrow>
          (let (q, wt) = tracked_note accessor nt isInInitialList (tk_queue c, tk_waiting c) in
           map_option (\<lambda>count. c\<lparr>tk_queue := q, tk_waiting := wt, tk_notes := rest, tk_count := count\<rparr>)
             (case nt of
                AddNote ob \<Rightarrow> if isInInitialList then single_Finished (tk_count c) else Some (tk_count c)
              | _ \<Rightarrow> Some (tk_count c))))"

abbreviation tk_move :: "nat \<Rightarrow> 'obj tracked_pc \<Rightarrow> 'obj tracked_ctl \<Rightarrow> 'obj tracked_ctl" where
  "tk_move t pc c \<equiv> c\<lparr>tk_wpc := (tk_wpc c)(t := pc)\<rparr>"

text \<open>
  The steps. The reconciler relates the world before and after with the error it returns. What the
  informer stores are objects the API server accepts, under their keys.
\<close>

type_synonym ('t, 'w) reconciles = "string \<Rightarrow> string \<Rightarrow> 't option \<Rightarrow> 'w \<Rightarrow> go_error option \<Rightarrow> 'w \<Rightarrow> bool"

inductive tracked_step ::
  "'obj accessor \<Rightarrow> (objmeta \<Rightarrow> 'obj \<Rightarrow> bool) \<Rightarrow> ('obj, 'w) reconciles \<Rightarrow> nat \<Rightarrow> run_ctx
   \<Rightarrow> 'obj tracked_ctl \<Rightarrow> 'w \<Rightarrow> 'obj tracked_ctl \<Rightarrow> 'w \<Rightarrow> bool"
  for accessor accepts reconciler n cx where
  list_add:
    "accessor ob = Some m \<Longrightarrow> accepts m ob \<Longrightarrow> tk_cur c (meta_key m) = None \<Longrightarrow>
     tracked_step accessor accepts reconciler n cx c w
       (tk_notify (AddNote (Object ob)) (\<not> tk_informerSynced c)
          (tk_change (meta_key m) (set_item (meta_key m) ob (tk_store c)) c)) w"
| list_update:
    "accessor old = Some m \<Longrightarrow> accessor new = Some m' \<Longrightarrow> accepts m' new \<Longrightarrow> meta_key m' = meta_key m \<Longrightarrow>
     tk_cur c (meta_key m) = Some old \<Longrightarrow>
     tracked_step accessor accepts reconciler n cx c w
       (tk_notify (UpdateNote (Object old) (Object new)) False
          (tk_change (meta_key m) (set_item (meta_key m) new (tk_store c)) c)) w"
| list_delete:
    "accessor ob = Some m \<Longrightarrow> accepts m ob \<Longrightarrow> tk_cur c (meta_key m) \<noteq> None \<Longrightarrow>
     tracked_step accessor accepts reconciler n cx c w
       (tk_notify (DeleteNote (Object ob)) False (tk_change (meta_key m) (remove_item (meta_key m) (tk_store c)) c)) w"
| list_missed_delete:
    "tk_cur c k = Some ob \<Longrightarrow>
     tracked_step accessor accepts reconciler n cx c w
       (tk_notify (DeleteNote (Tombstone k ob)) False (tk_change k (remove_item k (tk_store c)) c)) w"
| informer_synced:
    "\<not> tk_informerSynced c \<Longrightarrow>
     tracked_step accessor accepts reconciler n cx c w (tk_list_done (c\<lparr>tk_informerSynced := True\<rparr>)) w"
| deliver: "tk_deliver accessor c = Some c' \<Longrightarrow> tracked_step accessor accepts reconciler n cx c w c' w"
| waiting_loop:
    "wait_step now (tk_queue c) q \<Longrightarrow> tracked_step accessor accepts reconciler n cx c w (c\<lparr>tk_queue := q\<rparr>) w"
| run_begin:
    "tk_phase c = TkIdle \<Longrightarrow> cx \<noteq> RunNotCalled \<Longrightarrow>
     tracked_step accessor accepts reconciler n cx c w (c\<lparr>tk_queue := NewRateLimitingQueue, tk_phase := TkRegistering\<rparr>) w"
| register: "tk_phase c = TkRegistering \<Longrightarrow> tracked_step accessor accepts reconciler n cx c w (tk_register c) w"
| register_failed:
    "tk_phase c = TkRegistering \<Longrightarrow>
     tracked_step accessor accepts reconciler n cx c w
       (c\<lparr>tk_queue := dq_ShutDown (tk_queue c), tk_phase := TkReturned RegisterFailed\<rparr>) w"
| store_HasSynced:
    "tk_phase c = TkRegistered \<Longrightarrow>
     tracked_step accessor accepts reconciler n cx c w (c\<lparr>tk_delivered := OfRegistration, tk_phase := TkSyncing\<rparr>) w"
| sync_done:
    "tk_phase c = TkSyncing \<Longrightarrow> tk_informerSynced c \<Longrightarrow>
     tracked_step accessor accepts reconciler n cx c w (c\<lparr>tk_phase := TkRunning\<rparr>) w"
| sync_stopped:
    "tk_phase c = TkSyncing \<Longrightarrow> cx = CtxDone \<Longrightarrow>
     tracked_step accessor accepts reconciler n cx c w (c\<lparr>tk_phase := TkUnregistering SyncStopped\<rparr>) w"
| cancelled:
    "tk_phase c = TkRunning \<Longrightarrow> cx = CtxDone \<Longrightarrow>
     tracked_step accessor accepts reconciler n cx c w
       (c\<lparr>tk_queue := dq_ShutDown (tk_queue c), tk_phase := TkJoining\<rparr>) w"
| joined:
    "tk_phase c = TkJoining \<Longrightarrow> \<forall>t < n. tk_wpc c t = TExited \<Longrightarrow>
     tracked_step accessor accepts reconciler n cx c w (c\<lparr>tk_phase := TkUnregistering CtxEnded\<rparr>) w"
| store_false:
    "tk_phase c = TkUnregistering r \<Longrightarrow>
     tracked_step accessor accepts reconciler n cx c w (c\<lparr>tk_delivered := AnswersFalse, tk_phase := TkRemoving r\<rparr>) w"
| unregister:
    "tk_phase c = TkRemoving r \<Longrightarrow>
     tracked_step accessor accepts reconciler n cx c w
       (c\<lparr>tk_registered := False, tk_notes := [], tk_queue := dq_ShutDown (tk_queue c), tk_phase := TkReturned r\<rparr>) w"
| worker_start:
    "tk_phase c \<in> {TkRunning, TkJoining} \<Longrightarrow> t < n \<Longrightarrow> tk_wpc c t = TNotStarted \<Longrightarrow>
     tracked_step accessor accepts reconciler n cx c w (tk_move t (if cx = CtxDone then TExited else TIdle) c) w"
| worker_get:
    "tk_wpc c t = TIdle \<Longrightarrow> wq_Get (tk_queue c) = (Got item, q) \<Longrightarrow>
     tracked_step accessor accepts reconciler n cx c w (tk_move t (TGot item) (c\<lparr>tk_queue := q\<rparr>)) w"
| worker_shutdown:
    "tk_wpc c t = TIdle \<Longrightarrow> wq_Get (tk_queue c) = (GotShutdown, q) \<Longrightarrow>
     tracked_step accessor accepts reconciler n cx c w (tk_move t TExited (c\<lparr>tk_queue := q\<rparr>)) w"
| worker_bad_item:
    "tk_wpc c t = TGot (NotAString b) \<Longrightarrow>
     tracked_step accessor accepts reconciler n cx c w (tk_move t (TFinished (NotAString b)) c) w"
| worker_bad_key:
    "tk_wpc c t = TGot (Key k) \<Longrightarrow> fetch Some (NewLister (tk_store c)) k = Some InvalidKey \<Longrightarrow>
     tracked_step accessor accepts reconciler n cx c w (tk_move t (TReconciled k None) c) w"
| worker_fetch_error:
    "tk_wpc c t = TGot (Key k) \<Longrightarrow> fetch Some (NewLister (tk_store c)) k = Some (FetchError err) \<Longrightarrow>
     tracked_step accessor accepts reconciler n cx c w (tk_move t (TReconciled k (Some err)) c) w"
| worker_fetch:
    "tk_wpc c t = TGot (Key k) \<Longrightarrow> fetch Some (NewLister (tk_store c)) k = Some (Fetched namespace name newObj) \<Longrightarrow>
     tracked_step accessor accepts reconciler n cx c w (tk_move t (TRead k namespace name newObj) c) w"
| worker_reconcile:
    "tk_wpc c t = TRead k namespace name newObj \<Longrightarrow> reconciler namespace name newObj w err w' \<Longrightarrow>
     tracked_step accessor accepts reconciler n cx c w
       (tk_move t (TReconciled k err) (c\<lparr>tk_seen := insert k (tk_seen c)\<rparr>)) w'"
| worker_settle:
    "tk_wpc c t = TReconciled k err \<Longrightarrow>
     tracked_step accessor accepts reconciler n cx c w
       (tk_move t (TSettled k) (c\<lparr>tk_queue := after_reconcile now bucket k err (tk_queue c)\<rparr>)) w"
| worker_finish:
    "tk_wpc c t = TSettled k \<Longrightarrow>
     tracked_step accessor accepts reconciler n cx c w
       (tk_move t (TFinished (Key k)) (c\<lparr>tk_waiting := async_Finished k (tk_waiting c)\<rparr>)) w"
| worker_done:
    "tk_wpc c t = TFinished item \<Longrightarrow>
     tracked_step accessor accepts reconciler n cx c w (tk_move t TIdle (c\<lparr>tk_queue := wq_Done item (tk_queue c)\<rparr>)) w"

end
