(* ===== verification/Synced_Invariants.thy ===== *)
theory Synced_Invariants
  imports Synced_Controller
begin

text \<open>
  The controller of \<open>Synced_Controller\<close> keeps the promise of its interface: once \<open>HasSynced\<close> has answered true,
  the reconciler has been called for every object of the initial list, and an object that has not changed since is what
  the reconciler was last told. The locale \<open>recorded_reconciler\<close> is what this needs of a reconciler.
\<close>

section \<open>Which keys are on their way\<close>

definition good_key :: "(objmeta \<Rightarrow> 'obj \<Rightarrow> bool) \<Rightarrow> string \<Rightarrow> bool" where
  "good_key accepts k \<longleftrightarrow> (\<exists>m ob. accepts m ob \<and> k = meta_key m)"

definition held_as :: "'obj accessor \<Rightarrow> (objmeta \<Rightarrow> 'obj \<Rightarrow> bool) \<Rightarrow> string \<Rightarrow> 'obj \<Rightarrow> bool" where
  "held_as accessor accepts k ob \<longleftrightarrow> (\<exists>m. accessor ob = Some m \<and> accepts m ob \<and> k = meta_key m)"

definition q_items :: "('k, 'z) dq_scheme \<Rightarrow> 'k set" where
  "q_items q = set (queue q) \<union> dirty q \<union> processing q \<union> fst ` set (waitingForAddCh q) \<union> dom (waiting q)"

lemma q_items_New [simp]: "q_items NewRateLimitingQueue = {}"
  by (simp add: q_items_def NewRateLimitingQueue_def)

lemma q_items_Add: "q_items (wq_Add i q) \<subseteq> insert i (q_items q)"
  by (auto simp: q_items_def wq_Add_def Let_def)

lemma q_items_Get: "wq_Get q = (r, q') \<Longrightarrow> q_items q' \<subseteq> q_items q"
  by (erule wq_Get_cases) (auto simp: q_items_def)

lemma q_items_Got: "wq_Get q = (Got i, q') \<Longrightarrow> i \<in> q_items q"
  by (erule wq_Get_cases) (auto simp: q_items_def)

lemma q_items_Done: "q_items (wq_Done i q) \<subseteq> q_items q"
  by (auto simp: q_items_def wq_Done_def Let_def)

lemma q_items_ShutDown: "q_items (dq_ShutDown q) = q_items q"
  by (simp add: q_items_def dq_ShutDown_def wq_ShutDown_def wq_shutdown_def setDrain_def)

lemma q_items_after_reconcile: "q_items (after_reconcile now b k err q) \<subseteq> insert (Key k) (q_items q)"
proof (cases err)
  case None
  then show ?thesis by (auto simp: after_reconcile_def Forget_def q_items_def)
next
  case (Some e)
  obtain d q1 where w: "When b (Key k) q = (d, q1)" by (rule prod.exhaust)
  then have "q_items q1 = q_items q" by (auto simp: When_def Let_def q_items_def)
  moreover have "q_items (AddAfter now (Key k) d q1) \<subseteq> insert (Key k) (q_items q1)"
    using q_items_Add [of "Key k" q1] by (auto simp: AddAfter_def q_items_def)
  ultimately show ?thesis using Some w by (simp add: after_reconcile_def AddRateLimited_def)
qed

lemma q_items_wait: "wait_step now q q' \<Longrightarrow> q_items q' \<subseteq> q_items q"
proof (induction rule: wait_step.induct)
  case (wait_take q)
  then obtain item at rest where c: "waitingForAddCh q = (item, at) # rest" by (cases "waitingForAddCh q") auto
  let ?q = "q\<lparr>waitingForAddCh := rest\<rparr>"
  have "q_items ?q \<subseteq> q_items q" "item \<in> q_items q" by (auto simp: q_items_def c)
  moreover have "q_items (?q\<lparr>waiting := insert_waiting (waiting q) item at\<rparr>) \<subseteq> insert item (q_items ?q)"
    by (auto simp: q_items_def insert_waiting_def split: option.splits if_splits)
  ultimately show ?case using q_items_Add [of item ?q] by (auto simp: take_entry_def c Let_def)
next
  case (wait_pop q item)
  then have "item \<in> q_items q" by (auto simp: is_next_ready_def q_items_def split: option.splits)
  moreover have "q_items (pop_ready item q) \<subseteq> q_items (wq_Add item q)"
    by (auto simp: pop_ready_def q_items_def wq_Add_def Let_def split: if_splits)
  ultimately show ?case using q_items_Add [of item q] by blast
qed

fun is_addition :: "'obj notification \<Rightarrow> bool" where
  "is_addition (AddNote a) = True"
| "is_addition (UpdateNote a b) = False"
| "is_addition (DeleteNote a) = False"

definition tracked_arg_key :: "'obj accessor \<Rightarrow> 'obj handler_arg \<Rightarrow> string option" where
  "tracked_arg_key accessor a =
     (case DeletionHandlingMetaNamespaceKeyFunc accessor a of Inl err \<Rightarrow> None | Inr k \<Rightarrow> Some k)"

fun tracked_key :: "'obj accessor \<Rightarrow> 'obj notification \<Rightarrow> string option" where
  "tracked_key accessor (AddNote a) = tracked_arg_key accessor a"
| "tracked_key accessor (UpdateNote old new) =
     (case (arg_meta accessor old, arg_meta accessor new) of
        (Some m, Some m') \<Rightarrow> if om_ResourceVersion m = om_ResourceVersion m' then None else tracked_arg_key accessor new
      | _ \<Rightarrow> None)"
| "tracked_key accessor (DeleteNote a) = tracked_arg_key accessor a"

lemma tracked_arg_key_simps [simp]:
  "accessor ob = Some m \<Longrightarrow> tracked_arg_key accessor (Object ob) = Some (meta_key m)"
  "tracked_arg_key accessor (Tombstone k ob) = Some k"
  by (simp_all add: tracked_arg_key_def DeletionHandlingMetaNamespaceKeyFunc_def MetaNamespaceKeyFunc_def arg_meta_def)

lemma tracked_note_eq:
  "tracked_note accessor nt i qt =
     (case tracked_key accessor nt of
        None \<Rightarrow> qt
      | Some k \<Rightarrow> (wq_Add (Key k) (fst qt), if i \<and> is_addition nt then async_Start k (snd qt) else snd qt))"
  by (cases nt) (auto simp: tracked_enqueue_def tracked_arg_key_def Let_def split: sum.split option.split)

fun pc_item :: "'obj tracked_pc \<Rightarrow> work_item option" where
  "pc_item (TGot i) = Some i"
| "pc_item (TRead k ns nm ob) = Some (Key k)"
| "pc_item (TReconciled k err) = Some (Key k)"
| "pc_item (TSettled k) = Some (Key k)"
| "pc_item (TFinished i) = Some i"
| "pc_item TNotStarted = None"
| "pc_item TIdle = None"
| "pc_item TExited = None"

definition note_items :: "'obj accessor \<Rightarrow> ('obj notification \<times> bool) list \<Rightarrow> work_item set" where
  "note_items accessor ns = Key ` (\<Union>(nt, b) \<in> set ns. set_option (tracked_key accessor nt))"

definition tk_items :: "'obj accessor \<Rightarrow> 'obj tracked_ctl \<Rightarrow> work_item set" where
  "tk_items accessor c =
     q_items (tk_queue c) \<union> {i. \<exists>t. pc_item (tk_wpc c t) = Some i} \<union> note_items accessor (tk_notes c)"

text \<open>
  The keys on their way are those of acceptable objects, so a lookup never fails, and what a worker has read
  is an acceptable object.
\<close>

definition keys_inv :: "'obj accessor \<Rightarrow> (objmeta \<Rightarrow> 'obj \<Rightarrow> bool) \<Rightarrow> 'obj tracked_ctl \<Rightarrow> bool" where
  "keys_inv accessor accepts c \<longleftrightarrow>
     ix_wf accessor (tk_store c) \<and>
     (\<forall>k ob. tk_cur c k = Some ob \<longrightarrow> held_as accessor accepts k ob) \<and>
     tk_items accessor c \<subseteq> Key ` Collect (good_key accepts) \<and>
     (\<forall>t k ns nm ob. tk_wpc c t = TRead k ns nm ob \<longrightarrow>
        SplitMetaNamespaceKey k = Inr (ns, nm) \<and> (\<forall>x. ob = Some x \<longrightarrow> held_as accessor accepts k x))"

lemma note_items_simps [simp]:
  "note_items accessor [] = {}"
  "note_items accessor ((nt, b) # ns) = Key ` set_option (tracked_key accessor nt) \<union> note_items accessor ns"
  "note_items accessor (ns @ ns') = note_items accessor ns \<union> note_items accessor ns'"
  by (auto simp: note_items_def)

lemma tk_cur_simps [simp]:
  "tk_cur (c\<lparr>tk_queue := q\<rparr>) = tk_cur c" "tk_cur (c\<lparr>tk_wpc := f\<rparr>) = tk_cur c"
  "tk_cur (c\<lparr>tk_phase := p\<rparr>) = tk_cur c" "tk_cur (c\<lparr>tk_notes := ns\<rparr>) = tk_cur c"
  "tk_cur (c\<lparr>tk_count := j\<rparr>) = tk_cur c" "tk_cur (c\<lparr>tk_waiting := wt\<rparr>) = tk_cur c"
  "tk_cur (c\<lparr>tk_seen := s\<rparr>) = tk_cur c" "tk_cur (c\<lparr>tk_registered := r\<rparr>) = tk_cur c"
  "tk_cur (c\<lparr>tk_delivered := d\<rparr>) = tk_cur c" "tk_cur (c\<lparr>tk_informerSynced := y\<rparr>) = tk_cur c"
  "tk_cur (c\<lparr>tk_initial := i\<rparr>) = tk_cur c" "tk_cur (c\<lparr>tk_touched := s\<rparr>) = tk_cur c"
  "tk_cur (c\<lparr>tk_store := ix\<rparr>) = map_of (ix_items ix)"
  by (simp_all add: tk_cur_def)


lemma fetch_split: "fetch asT l k = Some (Fetched ns nm ob) \<Longrightarrow> SplitMetaNamespaceKey k = Inr (ns, nm)"
  by (auto simp: fetch_def split: sum.splits prod.splits option.splits if_splits)

text \<open>The lists of the informer, as far as they matter for the keys.\<close>

lemmas list_defs = tk_notify_def tk_change_def tk_list_done_def tk_register_def

lemma keys_invD:
  assumes "keys_inv accessor accepts c"
  shows "ix_wf accessor (tk_store c)"
    and "tk_cur c k = Some ob \<Longrightarrow> held_as accessor accepts k ob"
    and "i \<in> tk_items accessor c \<Longrightarrow> i \<in> Key ` Collect (good_key accepts)"
    and "tk_wpc c t = TRead k ns nm r \<Longrightarrow> SplitMetaNamespaceKey k = Inr (ns, nm)"
    and "tk_wpc c t = TRead k ns nm (Some x) \<Longrightarrow> held_as accessor accepts k x"
  using assms unfolding keys_inv_def by blast+

lemma held_good: "held_as accessor accepts k ob \<Longrightarrow> good_key accepts k"
  by (auto simp: held_as_def good_key_def)

text \<open>A step that leaves the store alone.\<close>

lemma keys_inv_same_store:
  assumes "keys_inv accessor accepts c" and "tk_store c' = tk_store c"
    and "tk_items accessor c' \<subseteq> tk_items accessor c"
    and "\<And>t k ns nm ob. tk_wpc c' t = TRead k ns nm ob \<Longrightarrow> tk_wpc c t = TRead k ns nm ob \<or>
      SplitMetaNamespaceKey k = Inr (ns, nm) \<and> (\<forall>x. ob = Some x \<longrightarrow> held_as accessor accepts k x)"
  shows "keys_inv accessor accepts c'"
proof -
  note inv = keys_invD [OF assms(1)]
  have "tk_cur c' = tk_cur c" using assms(2) by (simp add: tk_cur_def)
  moreover have "SplitMetaNamespaceKey k = Inr (ns, nm) \<and> (\<forall>x. ob = Some x \<longrightarrow> held_as accessor accepts k x)"
    if "tk_wpc c' t = TRead k ns nm ob" for t k ns nm ob
    using assms(4) [OF that] inv(4,5) by blast
  ultimately show ?thesis
    using assms(2,3) inv(1,2,3) unfolding keys_inv_def by (simp add: subset_iff)
qed

lemma keys_inv_store:
  assumes "keys_inv accessor accepts c" and "ix_wf accessor (tk_store c')"
    and "\<And>k ob. tk_cur c' k = Some ob \<Longrightarrow> tk_cur c k = Some ob \<or> held_as accessor accepts k ob"
    and "tk_items accessor c' \<subseteq> tk_items accessor c \<union> Key ` Collect (good_key accepts)"
    and "tk_wpc c' = tk_wpc c"
  shows "keys_inv accessor accepts c'"
  unfolding keys_inv_def
proof (intro conjI allI impI)
  show "ix_wf accessor (tk_store c')" by (rule assms(2))
  show "held_as accessor accepts k ob" if "tk_cur c' k = Some ob" for k ob
    using assms(3) [OF that] keys_invD(2) [OF assms(1)] by blast
  show "tk_items accessor c' \<subseteq> Key ` Collect (good_key accepts)"
    using assms(4) keys_invD(3) [OF assms(1)] by blast
qed (use keys_invD(4,5) [OF assms(1)] assms(5) in auto)


lemma tk_items_step:
  assumes "q_items q \<subseteq> q_items (tk_queue c) \<union> I" and "set_option (pc_item pc) \<subseteq> I" and "I \<subseteq> tk_items accessor c"
  shows "tk_items accessor (tk_move t pc (c\<lparr>tk_queue := q\<rparr>)) \<subseteq> tk_items accessor c"
    and "tk_items accessor (tk_move t pc c) \<subseteq> tk_items accessor c"
  using assms unfolding tk_items_def by (fastforce split: if_splits)+

lemma tk_items_pc: "pc_item (tk_wpc c t) = Some i \<Longrightarrow> i \<in> tk_items accessor c"
  by (auto simp: tk_items_def)

lemma tk_items_deliver:
  assumes "tk_deliver accessor c = Some c'"
  shows "tk_items accessor c' \<subseteq> tk_items accessor c" "tk_store c' = tk_store c" "tk_wpc c' = tk_wpc c"
proof -
  consider "tk_notes c = []" "c' = c" | nt b rest where "tk_notes c = (nt, b) # rest"
    using assms by (cases "tk_notes c") (auto simp: tk_deliver_def)
  then have "tk_items accessor c' \<subseteq> tk_items accessor c \<and> tk_store c' = tk_store c \<and> tk_wpc c' = tk_wpc c"
  proof cases
    case 2
    with assms q_items_Add [of "Key (the (tracked_key accessor nt))" "tk_queue c"] show ?thesis
      by (auto simp: tk_deliver_def tracked_note_eq tk_items_def split: option.splits prod.splits)
  qed simp
  then show "tk_items accessor c' \<subseteq> tk_items accessor c" "tk_store c' = tk_store c" "tk_wpc c' = tk_wpc c" by blast+
qed


lemma tk_items_notify:
  "tk_items accessor (tk_notify nt b (tk_change k ix c)) \<subseteq> tk_items accessor c \<union> Key ` set_option (tracked_key accessor nt)"
  by (auto simp: list_defs tk_items_def)

lemma notify_fields [simp]:
  "tk_store (tk_notify nt b (tk_change k ix c)) = ix" "tk_wpc (tk_notify nt b (tk_change k ix c)) = tk_wpc c"
  "tk_store (tk_list_done c) = tk_store c" "tk_wpc (tk_list_done c) = tk_wpc c"
  "tk_seen (tk_notify nt b (tk_change k ix c)) = tk_seen c" "tk_initial (tk_notify nt b (tk_change k ix c)) = tk_initial c"
  "tk_cur (tk_notify nt b (tk_change k ix c)) = map_of (ix_items ix)"
  "tk_touched (tk_notify nt b (tk_change k ix c)) =
     (if map_of (ix_items ix) k = tk_cur c k then tk_touched c else insert k (tk_touched c))"
  "tk_items accessor (tk_list_done c) = tk_items accessor c"
  "tk_store (tk_register c) = tk_store c" "tk_wpc (tk_register c) = tk_wpc c" "tk_cur (tk_register c) = tk_cur c"
  "tk_queue (tk_list_done c) = tk_queue c" "tk_notes (tk_list_done c) = tk_notes c"
  by (simp_all add: list_defs tk_items_def tk_cur_def)

lemma keys_inv_change:
  assumes "keys_inv accessor accepts c" and "ix_wf accessor ix"
    and "\<And>k ob. map_of (ix_items ix) k = Some ob \<Longrightarrow> tk_cur c k = Some ob \<or> held_as accessor accepts k ob"
    and "\<And>k. tracked_key accessor nt = Some k \<Longrightarrow> good_key accepts k"
  shows "keys_inv accessor accepts (tk_notify nt b (tk_change k0 ix c))"
proof (rule keys_inv_store [OF assms(1)])
  have "Key ` set_option (tracked_key accessor nt) \<subseteq> Key ` Collect (good_key accepts)"
    using assms(4) by (cases "tracked_key accessor nt") simp_all
  with tk_items_notify [of accessor nt b k0 ix c]
  show "tk_items accessor (tk_notify nt b (tk_change k0 ix c)) \<subseteq> tk_items accessor c \<union> Key ` Collect (good_key accepts)"
    by blast
qed (use assms(2,3) in \<open>simp_all add: tk_cur_def\<close>)

lemma tk_items_register: 
  assumes "keys_inv accessor accepts c"
  shows "tk_items accessor (tk_register c) \<subseteq> tk_items accessor c \<union> Key ` Collect (good_key accepts)"
proof -
  have "good_key accepts k" if "ob \<in> snd ` set (ix_items (tk_store c))" "tracked_arg_key accessor (Object ob) = Some k" for ob k
  proof -
    from that(1) obtain k' where "(k', ob) \<in> set (ix_items (tk_store c))" by auto
    with keys_invD(1) [OF assms] have "tk_cur c k' = Some ob" by (simp add: tk_cur_def ix_wf_def)
    from keys_invD(2) [OF assms this] that(2) show ?thesis by (auto simp: held_as_def good_key_def)
  qed
  moreover have "note_items accessor (tk_notes (tk_register c))
      = Key ` (\<Union>ob \<in> snd ` set (ix_items (tk_store c)). set_option (tracked_arg_key accessor (Object ob)))"
    by (simp add: tk_register_def note_items_def)
  ultimately have "note_items accessor (tk_notes (tk_register c)) \<subseteq> Key ` Collect (good_key accepts)" by auto
  moreover have "tk_queue (tk_register c) = tk_queue c" by (simp add: tk_register_def)
  ultimately show ?thesis by (auto simp: tk_items_def)
qed

lemma keys_inv_run:
  assumes "keys_inv accessor accepts c" and "tk_store c' = tk_store c" and "tk_wpc c' = tk_wpc c"
    and "q_items (tk_queue c') \<subseteq> q_items (tk_queue c)" and "set (tk_notes c') \<subseteq> set (tk_notes c)"
  shows "keys_inv accessor accepts c'"
proof (rule keys_inv_same_store [OF assms(1,2)])
  show "tk_items accessor c' \<subseteq> tk_items accessor c"
    using assms(3-5) by (fastforce simp: tk_items_def note_items_def)
qed (simp add: assms(3))

lemma keys_inv_worker:
  assumes "keys_inv accessor accepts c" and "tk_store c' = tk_store c" and "tk_notes c' = tk_notes c"
    and "tk_wpc c' = (tk_wpc c)(t := pc)" and "q_items (tk_queue c') \<subseteq> tk_items accessor c"
    and "set_option (pc_item pc) \<subseteq> tk_items accessor c" and "\<And>k ns nm r. pc \<noteq> TRead k ns nm r"
  shows "keys_inv accessor accepts c'"
proof (rule keys_inv_same_store [OF assms(1,2)])
  show "tk_items accessor c' \<subseteq> tk_items accessor c"
    using assms(3-6) by (fastforce simp: tk_items_def split: if_splits)
  fix u k ns nm r
  assume "tk_wpc c' u = TRead k ns nm r"
  with assms(4,7) have "tk_wpc c u = TRead k ns nm r" by (cases "u = t") simp_all
  then show "tk_wpc c u = TRead k ns nm r \<or>
      SplitMetaNamespaceKey k = Inr (ns, nm) \<and> (\<forall>x. r = Some x \<longrightarrow> held_as accessor accepts k x)" ..
qed

lemma keys_inv_ignores [simp]:
  "keys_inv accessor accepts (c\<lparr>tk_seen := s\<rparr>) = keys_inv accessor accepts c"
  "keys_inv accessor accepts (c\<lparr>tk_waiting := wt\<rparr>) = keys_inv accessor accepts c"
  by (simp_all add: keys_inv_def tk_items_def)

lemma keys_inv_move:
  assumes "keys_inv accessor accepts c" and "pc_item pc \<in> {None, pc_item (tk_wpc c t)}"
    and "\<forall>k ns nm r. pc \<noteq> TRead k ns nm r"
  shows "keys_inv accessor accepts (tk_move t pc c)"
proof (rule keys_inv_worker [OF assms(1), where t = t and pc = pc])
  show "set_option (pc_item pc) \<subseteq> tk_items accessor c"
    using assms(2) tk_items_pc [of c t _ accessor] by (cases "pc_item pc") auto
qed (use assms(3) in \<open>auto simp: tk_items_def\<close>)

lemma keys_inv_step:
  assumes accepts: "\<And>m ob. accepts m ob \<Longrightarrow> names_ok m"
  shows "tracked_step accessor accepts reconciler n cx c w c' w' \<Longrightarrow> keys_inv accessor accepts c \<Longrightarrow>
    keys_inv accessor accepts c'"
proof (induction rule: tracked_step.induct)
  case (list_add ob m c w)
  then show ?case
    by (intro keys_inv_change)
      (auto simp: keys_invD(1) ix_wf_set_item accepts held_as_def good_key_def tk_cur_def split: if_splits)
next
  case (list_update old m new m' c w)
  have "ix_wf accessor (set_item (meta_key m') new (tk_store c))"
    using list_update by (intro ix_wf_set_item) (auto simp: keys_invD(1) accepts)
  with list_update show ?case
    by (intro keys_inv_change)
      (auto simp: held_as_def good_key_def tk_cur_def arg_meta_def split: if_splits)
next
  case (list_delete ob m c w)
  then show ?case
    by (intro keys_inv_change)
      (auto simp: keys_invD(1) ix_wf_remove_item good_key_def tk_cur_def split: if_splits)
next
  case (list_missed_delete c k ob w)
  then show ?case
    by (intro keys_inv_change)
      (auto simp: keys_invD(1) ix_wf_remove_item tk_cur_def held_good [OF keys_invD(2)] split: if_splits)
next
  case (deliver c c' w)
  note d = tk_items_deliver [OF deliver(1)]
  show ?case by (rule keys_inv_same_store [OF deliver(2)]) (use d in simp_all)
next
  case (register c w)
  show ?case
    by (rule keys_inv_store [OF register(2)])
      (use keys_invD(1) [OF register(2)] tk_items_register [OF register(2)] in simp_all)
next
  case (worker_fetch c t k namespace name newObj w)
  have k: "Key k \<in> tk_items accessor c" by (rule tk_items_pc [of _ t]) (simp add: worker_fetch(1))
  then have good: "key_ok k" using keys_invD(3) [OF worker_fetch(3) k] accepts unfolding good_key_def key_ok_def by blast
  have "newObj = tk_cur c k"
    using fetch_current [OF keys_invD(1) [OF worker_fetch(3)] good] worker_fetch(2) by (auto simp: tk_cur_def)
  moreover have "SplitMetaNamespaceKey k = Inr (namespace, name)" by (rule fetch_split [OF worker_fetch(2)])
  moreover have "tk_items accessor (tk_move t (TRead k namespace name newObj) c) \<subseteq> tk_items accessor c"
    by (rule tk_items_step(2) [where q = "tk_queue c" and I = "{Key k}"]) (use k in auto)
  ultimately show ?case
    by (intro keys_inv_same_store [OF worker_fetch(3)])
      (use keys_invD(2) [OF worker_fetch(3)] in \<open>auto split: if_splits\<close>)
next
  case (worker_get c t item q w)
  have "item \<in> tk_items accessor c" using q_items_Got [OF worker_get(2)] by (simp add: tk_items_def)
  then show ?case
    using q_items_Get [OF worker_get(2)] by (intro keys_inv_worker [OF worker_get(3)]) (auto simp: tk_items_def)
next
  case (worker_settle c t k err w now bucket)
  have "Key k \<in> tk_items accessor c" by (rule tk_items_pc [of _ t]) (simp add: worker_settle(1))
  then show ?case
    using q_items_after_reconcile [of now bucket k err "tk_queue c"]
    by (intro keys_inv_worker [OF worker_settle(2)]) (auto simp: tk_items_def)
next
  case (worker_shutdown c t q w)
  show ?case
    using q_items_Get [OF worker_shutdown(2)] by (intro keys_inv_worker [OF worker_shutdown(3)]) (auto simp: tk_items_def)
next
  case (worker_done c t item w)
  show ?case
    using q_items_Done [of item "tk_queue c"] by (intro keys_inv_worker [OF worker_done(2)]) (auto simp: tk_items_def)
next
  case (waiting_loop now c q w)
  show ?case
    by (rule keys_inv_run [OF waiting_loop(2)]) (use q_items_wait [OF waiting_loop(1)] in simp_all)
qed ((rule keys_inv_run, assumption; simp add: q_items_ShutDown; fail) |
     (rule keys_inv_move, simp, simp, simp))+


section \<open>The life cycle\<close>

fun has_registration :: "tracked_phase \<Rightarrow> bool" where
  "has_registration TkIdle = False"
| "has_registration TkRegistering = False"
| "has_registration (TkReturned r) = False"
| "has_registration _ = True"

fun has_answer :: "tracked_phase \<Rightarrow> bool" where
  "has_answer TkSyncing = True"
| "has_answer TkRunning = True"
| "has_answer TkJoining = True"
| "has_answer (TkUnregistering r) = True"
| "has_answer _ = False"

text \<open>
  The handler is registered in the middle phases; then the initial list is known once the informer has
  synced, and before that no worker has started. The listener counts the initial notifications it still has.
\<close>

definition control_inv :: "'obj tracked_ctl \<Rightarrow> bool" where
  "control_inv c \<longleftrightarrow>
     (tk_registered c \<longleftrightarrow> has_registration (tk_phase c)) \<and>
     (tk_delivered c = OfRegistration \<longrightarrow> has_answer (tk_phase c)) \<and>
     (tk_registered c \<and> tk_informerSynced c \<longrightarrow> tk_initial c \<noteq> None) \<and>
     (tk_initial c \<noteq> None \<longrightarrow> tk_informerSynced c \<and> tk_phase c \<notin> {TkIdle, TkRegistering}) \<and>
     (tk_initial c = None \<longrightarrow> tk_seen c = {} \<and> (\<forall>t. tk_wpc c t = TNotStarted) \<and> tk_phase c \<notin> {TkRunning, TkJoining}) \<and>
     (tk_notes c \<noteq> [] \<longrightarrow> tk_registered c) \<and>
     (\<forall>(nt, b) \<in> set (tk_notes c). b \<longrightarrow> is_addition nt) \<and>
     (tk_registered c \<longrightarrow> tk_count c = int (length (filter snd (tk_notes c))))"

lemma single_Start_pow: "(single_Start ^^ j) 0 = int j"
  by (induction j) (simp_all add: single_Start_def)

text \<open>A delivery, spelt out.\<close>

lemma tk_deliver_cases:
  assumes "tk_deliver accessor c = Some c'"
  obtains (none) "tk_notes c = []" "c' = c"
  | (one) nt b rest q wt count where "tk_notes c = (nt, b) # rest"
      "tracked_note accessor nt b (tk_queue c, tk_waiting c) = (q, wt)"
      "c' = c\<lparr>tk_queue := q, tk_waiting := wt, tk_notes := rest, tk_count := count\<rparr>"
      "count = (if b \<and> is_addition nt then tk_count c - 1 else tk_count c)"
proof (cases "tk_notes c")
  case Nil
  with assms have "c' = c" by (simp add: tk_deliver_def)
  with Nil show ?thesis by (rule none)
next
  case (Cons x rest)
  obtain nt b where x: "x = (nt, b)" by (rule prod.exhaust)
  obtain q wt where t: "tracked_note accessor nt b (tk_queue c, tk_waiting c) = (q, wt)" by (rule prod.exhaust)
  let ?counted = "case nt of AddNote ob \<Rightarrow> if b then single_Finished (tk_count c) else Some (tk_count c) | _ \<Rightarrow> Some (tk_count c)"
  from assms obtain count where count: "?counted = Some count"
      "c' = c\<lparr>tk_queue := q, tk_waiting := wt, tk_notes := rest, tk_count := count\<rparr>"
    by (simp only: tk_deliver_def Cons x t Let_def prod.case list.case map_option_eq_Some) blast
  have "count = (if b \<and> is_addition nt then tk_count c - 1 else tk_count c)"
    using count(1) by (cases nt) (simp_all add: single_Finished_def Let_def split: if_splits)
  with Cons x t count(2) show ?thesis by (intro one) simp_all
qed

lemma tk_deliver_fields:
  assumes "tk_deliver accessor c = Some c'"
  shows "tk_registered c' = tk_registered c" "tk_seen c' = tk_seen c" "tk_cur c' = tk_cur c" "tk_wpc c' = tk_wpc c"
    "tk_initial c' = tk_initial c" "tk_touched c' = tk_touched c"
  using assms by (auto elim!: tk_deliver_cases)

lemma control_inv_New: "control_inv (tracked_New idx)"
  by (simp add: control_inv_def tracked_New_def)

lemma control_inv_step:
  "tracked_step accessor accepts reconciler n cx c w c' w' \<Longrightarrow> control_inv c \<Longrightarrow> control_inv c'"
proof (induction rule: tracked_step.induct)
  case (deliver c c' w)
  from deliver(1) show ?case
  proof (cases rule: tk_deliver_cases)
    case (one nt b rest q wt count)
    with deliver(2) show ?thesis by (auto simp: control_inv_def)
  qed (use deliver(2) in simp)
qed (auto simp: control_inv_def list_defs single_Start_pow single_Start_def comp_def)

lemma control_invD:
  assumes "control_inv c"
  shows "tk_registered c = has_registration (tk_phase c)"
    and "tk_delivered c = OfRegistration \<Longrightarrow> tk_registered c"
    and "tk_registered c \<Longrightarrow> tk_informerSynced c \<Longrightarrow> tk_initial c \<noteq> None"
    and "tk_initial c \<noteq> None \<Longrightarrow> tk_informerSynced c" "tk_initial c \<noteq> None \<Longrightarrow> tk_phase c \<notin> {TkIdle, TkRegistering}"
    and "tk_initial c = None \<Longrightarrow> tk_seen c = {}" "tk_initial c = None \<Longrightarrow> tk_wpc c t = TNotStarted"
    and "tk_notes c \<noteq> [] \<Longrightarrow> tk_registered c"
    and "(nt, True) \<in> set (tk_notes c) \<Longrightarrow> is_addition nt"
    and "tk_registered c \<Longrightarrow> tk_count c = int (length (filter snd (tk_notes c)))"
proof -
  have "has_answer p \<Longrightarrow> has_registration p" for p by (cases p) simp_all
  with assms show "tk_delivered c = OfRegistration \<Longrightarrow> tk_registered c" by (simp add: control_inv_def)
  show "(nt, True) \<in> set (tk_notes c) \<Longrightarrow> is_addition nt" using assms by (auto simp: control_inv_def)
  show "tk_notes c \<noteq> [] \<Longrightarrow> tk_registered c" using assms unfolding control_inv_def by blast
qed (use assms in \<open>simp_all add: control_inv_def\<close>)

section \<open>The initial list is accounted for\<close>

text \<open>
  A worker that is through with a key has called the reconciler for it. Every key of the initial list, or
  of what will become it, is in an initial notification, waited for, or was reconciled.
\<close>

fun through_with :: "'obj tracked_pc \<Rightarrow> string option" where
  "through_with (TReconciled k err) = Some k"
| "through_with (TSettled k) = Some k"
| "through_with (TFinished (Key k)) = Some k"
| "through_with _ = None"

definition listed :: "'obj tracked_ctl \<Rightarrow> string set" where
  "listed c = (case tk_initial c of None \<Rightarrow> dom (tk_cur c) | Some i \<Rightarrow> dom i)"

lemma listed_simps [simp]:
  "listed (c\<lparr>tk_queue := q\<rparr>) = listed c" "listed (c\<lparr>tk_wpc := f\<rparr>) = listed c"
  "listed (c\<lparr>tk_phase := p\<rparr>) = listed c" "listed (c\<lparr>tk_notes := ns\<rparr>) = listed c"
  "listed (c\<lparr>tk_waiting := wt\<rparr>) = listed c" "listed (c\<lparr>tk_seen := s\<rparr>) = listed c"
  "listed (c\<lparr>tk_registered := r\<rparr>) = listed c" "listed (c\<lparr>tk_delivered := d\<rparr>) = listed c"
  by (simp_all add: listed_def split: option.split)

definition awaited :: "'obj accessor \<Rightarrow> 'obj tracked_ctl \<Rightarrow> string set" where
  "awaited accessor c = {k. Key k \<in> note_items accessor (filter snd (tk_notes c))} \<union> waited_for (tk_waiting c)"

definition through_inv :: "'obj tracked_ctl \<Rightarrow> bool" where
  "through_inv c \<longleftrightarrow> (\<forall>t k. through_with (tk_wpc c t) = Some k \<longrightarrow> k \<in> tk_seen c)"

definition list_inv :: "'obj accessor \<Rightarrow> 'obj tracked_ctl \<Rightarrow> bool" where
  "list_inv accessor c \<longleftrightarrow> (tk_registered c \<longrightarrow> listed c \<subseteq> awaited accessor c \<union> tk_seen c)"

lemma fetch_good:
  assumes "keys_inv accessor accepts c" and "\<And>m ob. accepts m ob \<Longrightarrow> names_ok m" and "tk_wpc c t = TGot (Key k)"
  shows "\<exists>ns nm. fetch Some (NewLister (tk_store c)) k = Some (Fetched ns nm (tk_cur c k))"
proof -
  have "Key k \<in> tk_items accessor c" by (rule tk_items_pc [of _ t]) (simp add: assms(3))
  from keys_invD(3) [OF assms(1) this] have "key_ok k" using assms(2) unfolding good_key_def key_ok_def by blast
  then show ?thesis
    unfolding tk_cur_def by (rule fetch_current [OF keys_invD(1) [OF assms(1)]])
qed

lemma through_inv_step:
  assumes accepts: "\<And>m ob. accepts m ob \<Longrightarrow> names_ok m"
  shows "tracked_step accessor accepts reconciler n cx c w c' w' \<Longrightarrow> keys_inv accessor accepts c \<Longrightarrow>
    through_inv c \<Longrightarrow> through_inv c'"
proof (induction rule: tracked_step.induct)
  case (deliver c c' w)
  then show ?case by (simp add: through_inv_def) (erule tk_deliver_cases; simp)
next
  case (worker_bad_key c t k w)
  from fetch_good [OF worker_bad_key(3) _ worker_bad_key(1)] accepts worker_bad_key(2) show ?case by fastforce
next
  case (worker_fetch_error c t k err w)
  from fetch_good [OF worker_fetch_error(3) _ worker_fetch_error(1)] accepts worker_fetch_error(2) show ?case by fastforce
next
  case (worker_settle c t k err w now bucket)
  then have "k \<in> tk_seen c" unfolding through_inv_def by (metis through_with.simps(1))
  with worker_settle show ?case by (auto simp: through_inv_def)
next
  case (worker_finish c t k w)
  then have "k \<in> tk_seen c" unfolding through_inv_def by (metis through_with.simps(2))
  with worker_finish show ?case by (auto simp: through_inv_def)
qed (auto simp: through_inv_def list_defs)


lemma awaited_notify:
  "awaited accessor (tk_notify nt b (tk_change k ix c)) =
     awaited accessor c \<union> (if tk_registered c \<and> b then set_option (tracked_key accessor nt) else {})"
  by (auto simp: awaited_def list_defs)

lemma awaited_deliver:
  assumes "tk_deliver accessor c = Some c'" and "control_inv c"
  shows "awaited accessor c \<subseteq> awaited accessor c'"
  using assms(1)
proof (cases rule: tk_deliver_cases)
  case (one nt b rest q wt count)
  then have "b \<Longrightarrow> is_addition nt" using control_invD(9) [OF assms(2), of nt] by simp
  with one show ?thesis by (auto simp: awaited_def tracked_note_eq split: option.splits if_splits)
qed simp

lemma awaited_register:
  assumes "keys_inv accessor accepts c"
  shows "dom (tk_cur c) \<subseteq> awaited accessor (tk_register c)"
proof
  fix k assume "k \<in> dom (tk_cur c)"
  then obtain ob where ob: "tk_cur c k = Some ob" by auto
  then have "(k, ob) \<in> set (ix_items (tk_store c))" by (simp add: tk_cur_def map_of_SomeD)
  moreover have "tracked_arg_key accessor (Object ob) = Some k"
    using keys_invD(2) [OF assms ob] by (auto simp: held_as_def)
  ultimately show "k \<in> awaited accessor (tk_register c)"
    by (force simp: awaited_def tk_register_def note_items_def comp_def)
qed

lemma listed_change:
  assumes "control_inv c" and "tk_registered c"
  shows "listed (tk_notify nt b (tk_change k ix c)) \<subseteq>
    (if tk_informerSynced c then listed c else dom (map_of (ix_items ix)))"
  using control_invD(3,4) [OF assms(1)] assms(2)
  by (auto simp: listed_def list_defs split: option.split)

lemma list_inv_change:
  assumes inv: "list_inv accessor c" "control_inv c"
    and ix: "\<not> tk_informerSynced c \<Longrightarrow>
      dom (map_of (ix_items ix)) \<subseteq> dom (tk_cur c) \<union> (if b then set_option (tracked_key accessor nt) else {})"
  shows "list_inv accessor (tk_notify nt b (tk_change k ix c))"
  unfolding list_inv_def
proof
  let ?c = "tk_notify nt b (tk_change k ix c)"
  assume "tk_registered ?c"
  then have r: "tk_registered c" by (simp add: list_defs split: if_splits)
  have "listed c = dom (tk_cur c)" if "\<not> tk_informerSynced c"
    using control_invD(4) [OF inv(2)] that by (cases "tk_initial c") (auto simp: listed_def)
  with ix r have "listed ?c \<subseteq> listed c \<union> (if tk_registered c \<and> b then set_option (tracked_key accessor nt) else {})"
    using listed_change [OF inv(2) r, of nt b k ix] by (auto split: if_splits)
  moreover have "listed c \<subseteq> awaited accessor c \<union> tk_seen c" using inv(1) r by (simp add: list_inv_def)
  moreover have "tk_seen ?c = tk_seen c" by (simp add: list_defs)
  ultimately show "listed ?c \<subseteq> awaited accessor ?c \<union> tk_seen ?c" unfolding awaited_notify by blast
qed

lemma list_inv_step:
  "tracked_step accessor accepts reconciler n cx c w c' w' \<Longrightarrow> keys_inv accessor accepts c \<Longrightarrow>
    control_inv c \<Longrightarrow> through_inv c \<Longrightarrow> list_inv accessor c \<Longrightarrow> list_inv accessor c'"
proof (induction rule: tracked_step.induct)
  case (list_add ob m c w)
  show ?case
    by (rule list_inv_change [OF list_add(7) list_add(5)]) (use list_add in \<open>simp add: tk_cur_def\<close>)
next
  case (list_update old m new m' c w)
  show ?case
    by (rule list_inv_change [OF list_update(9) list_update(7)]) (use list_update(5) in \<open>simp add: tk_cur_def insert_absorb domI\<close>)
next
  case (list_delete ob m c w)
  show ?case
    by (rule list_inv_change [OF list_delete(7) list_delete(5)]) (simp add: tk_cur_def Diff_subset)
next
  case (list_missed_delete c k ob w)
  show ?case
    by (rule list_inv_change [OF list_missed_delete(5) list_missed_delete(3)]) (simp add: tk_cur_def Diff_subset)
next
  case (informer_synced c w)
  then show ?case
    using control_invD(4) [OF informer_synced(3)]
    by (auto simp: list_inv_def list_defs listed_def awaited_def split: option.splits)
next
  case (deliver c c' w)
  note f = tk_deliver_fields [OF deliver(1)]
  then have "listed c' = listed c" by (simp add: listed_def split: option.split)
  with f awaited_deliver [OF deliver(1,3)] deliver(5) show ?case unfolding list_inv_def by auto
next
  case (register c w)
  then have "tk_initial c = None" using control_invD(5) by fastforce
  then have "listed (tk_register c) = dom (tk_cur c)" by (simp add: listed_def list_defs)
  with awaited_register [OF register(2)] show ?case by (auto simp: list_inv_def)
next
  case (worker_finish c t k w)
  then have "k \<in> tk_seen c" unfolding through_inv_def by (metis through_with.simps(2))
  with worker_finish(5) show ?case by (auto simp: list_inv_def awaited_def)
qed (auto simp: list_inv_def awaited_def)


text \<open>What has been observed of the initial list stays true.\<close>

definition tk_started :: "'obj tracked_ctl \<Rightarrow> bool" where
  "tk_started c \<longleftrightarrow> (\<exists>i. tk_initial c = Some i \<and> dom i \<subseteq> waited_for (tk_waiting c) \<union> tk_seen c)"

definition tk_handled :: "'obj tracked_ctl \<Rightarrow> bool" where
  "tk_handled c \<longleftrightarrow> (\<exists>i. tk_initial c = Some i \<and> dom i \<subseteq> tk_seen c)"

lemma initial_step:
  assumes "tracked_step accessor accepts reconciler n cx c w c' w'" and "control_inv c" and "tk_initial c = Some i"
  shows "tk_initial c' = Some i" "tk_touched c \<subseteq> tk_touched c'" "tk_seen c \<subseteq> tk_seen c'"
proof -
  note inv = control_invD(4,5) [OF assms(2)] assms(3)
  show "tk_initial c' = Some i" "tk_touched c \<subseteq> tk_touched c'" "tk_seen c \<subseteq> tk_seen c'"
    using assms(1) inv by (induction rule: tracked_step.induct) (auto simp: list_defs dest: tk_deliver_fields)
qed

lemma handled_step:
  assumes "tracked_step accessor accepts reconciler n cx c w c' w'" and "control_inv c" and "tk_handled c"
  shows "tk_handled c'"
  using initial_step [OF assms(1,2)] assms(3) unfolding tk_handled_def by blast

lemma started_step:
  "tracked_step accessor accepts reconciler n cx c w c' w' \<Longrightarrow> control_inv c \<Longrightarrow> through_inv c \<Longrightarrow> tk_started c \<Longrightarrow>
   tk_started c'"
proof (induction rule: tracked_step.induct)
  case (deliver c c' w)
  from deliver(1) have "waited_for (tk_waiting c) \<subseteq> waited_for (tk_waiting c')"
    by (cases rule: tk_deliver_cases) (auto simp: tracked_note_eq split: option.splits if_splits)
  with deliver(4) show ?case unfolding tk_started_def tk_deliver_fields [OF deliver(1)] by blast
next
  case (worker_finish c t k w)
  then have "k \<in> tk_seen c" unfolding through_inv_def by (metis through_with.simps(2))
  with worker_finish(4) show ?case by (auto simp: tk_started_def)
next
  case (informer_synced c w)
  then show ?case using control_invD(4) [OF informer_synced(2)] by (auto simp: tk_started_def)
next
  case (register c w)
  then show ?case using control_invD(5) [OF register(2)] by (auto simp: tk_started_def)
qed (auto simp: tk_started_def list_defs)

lemma delivered_started:
  assumes "control_inv c" and "list_inv accessor c" and "tk_notificationsDelivered c"
  shows "tk_started c"
proof -
  from assms(3) have d: "tk_delivered c = OfRegistration" "tk_informerSynced c" "tk_count c \<le> 0"
    by (auto simp: tk_notificationsDelivered_def single_HasSynced_def split: delivered_func.splits if_splits)
  note inv = control_invD [OF assms(1)]
  have r: "tk_registered c" using inv(2) d(1) by simp
  then obtain i where "tk_initial c = Some i" using inv(3) d(2) by blast
  moreover have "filter snd (tk_notes c) = []" using inv(10) [OF r] d(3) by simp
  ultimately show ?thesis
    using assms(2) r by (auto simp: list_inv_def tk_started_def listed_def awaited_def)
qed

lemma synced_handled:
  assumes "control_inv c" and "list_inv accessor c" and "tk_HasSynced c"
  shows "tk_handled c"
proof -
  from assms(3) have "tk_notificationsDelivered c" "waited_for (tk_waiting c) = {}"
    by (auto simp: tk_HasSynced_def async_HasSynced_def split: if_splits)
  with delivered_started [OF assms(1,2)] show ?thesis by (auto simp: tk_started_def tk_handled_def)
qed


section \<open>What the reconciler was told\<close>

text \<open>
  \<open>told\<close> reads off the world what the reconciler was last called with for a name. Objects of the initial list
  that did not change since are what any worker reads, and what the reconciler was told once it has been called.
\<close>

definition told_at :: "('w \<Rightarrow> string \<times> string \<rightharpoonup> 'obj) \<Rightarrow> 'w \<Rightarrow> string \<Rightarrow> 'obj option" where
  "told_at told w k = (case SplitMetaNamespaceKey k of Inl e \<Rightarrow> None | Inr p \<Rightarrow> told w p)"

definition fresh_inv :: "('w \<Rightarrow> string \<times> string \<rightharpoonup> 'obj) \<Rightarrow> 'obj tracked_ctl \<Rightarrow> 'w \<Rightarrow> bool" where
  "fresh_inv told c w \<longleftrightarrow>
     (\<forall>i k. tk_initial c = Some i \<longrightarrow> k \<in> dom i \<longrightarrow> k \<notin> tk_touched c \<longrightarrow>
        tk_cur c k = i k \<and> (\<forall>t ns nm r. tk_wpc c t = TRead k ns nm r \<longrightarrow> r = i k) \<and>
        (k \<in> tk_seen c \<longrightarrow> told_at told w k = i k))"

definition told_inv :: "'obj accessor \<Rightarrow> (objmeta \<Rightarrow> 'obj \<Rightarrow> bool) \<Rightarrow> ('w \<Rightarrow> string \<times> string \<rightharpoonup> 'obj) \<Rightarrow> 'w \<Rightarrow> bool" where
  "told_inv accessor accepts told w \<longleftrightarrow>
     (\<forall>p ob. told w p = Some ob \<longrightarrow> (\<exists>m. accessor ob = Some m \<and> accepts m ob \<and> p = (om_Namespace m, om_Name m)))"

lemma fresh_inv_world: "told w' = told w \<Longrightarrow> fresh_inv told c w \<Longrightarrow> fresh_inv told c w'"
proof -
  assume "told w' = told w"
  then have "told_at told w' = told_at told w" by (intro ext) (simp add: told_at_def split: sum.split)
  then show "fresh_inv told c w \<Longrightarrow> fresh_inv told c w'" by (simp add: fresh_inv_def)
qed

lemma fresh_inv_same:
  assumes "fresh_inv told c w" and "tk_initial c' = tk_initial c" and "tk_touched c \<subseteq> tk_touched c'"
    and "tk_seen c' = tk_seen c"
    and "\<And>k. k \<notin> tk_touched c' \<Longrightarrow> tk_cur c' k = tk_cur c k"
    and "\<And>t k ns nm r. tk_wpc c' t = TRead k ns nm r \<Longrightarrow> tk_wpc c t = TRead k ns nm r \<or> r = tk_cur c k"
  shows "fresh_inv told c' w"
  unfolding fresh_inv_def
proof (intro allI impI)
  fix i k
  assume "tk_initial c' = Some i" "k \<in> dom i" and k: "k \<notin> tk_touched c'"
  then have "tk_cur c k = i k" "\<And>t ns nm r. tk_wpc c t = TRead k ns nm r \<Longrightarrow> r = i k"
    "k \<in> tk_seen c \<Longrightarrow> told_at told w k = i k"
    using assms(1-3) unfolding fresh_inv_def by auto
  then show "tk_cur c' k = i k \<and> (\<forall>t ns nm r. tk_wpc c' t = TRead k ns nm r \<longrightarrow> r = i k) \<and>
      (k \<in> tk_seen c' \<longrightarrow> told_at told w k = i k)"
    using assms(4) assms(5) [OF k] assms(6) by metis
qed

lemma fresh_inv_change:
  assumes "fresh_inv told c w" and "\<And>j. j \<noteq> k \<Longrightarrow> map_of (ix_items ix) j = tk_cur c j"
  shows "fresh_inv told (tk_notify nt b (tk_change k ix c)) w"
proof (rule fresh_inv_same [OF assms(1)])
  fix j
  assume "j \<notin> tk_touched (tk_notify nt b (tk_change k ix c))"
  then show "tk_cur (tk_notify nt b (tk_change k ix c)) j = tk_cur c j"
    using assms(2) [of j] by (cases "j = k") (auto split: if_splits)
qed auto

lemma fresh_inv_listed:
  assumes "tk_wpc c' = (\<lambda>_. TNotStarted)" and "tk_seen c' = {}"
    and "tk_initial c' = None \<or> tk_initial c' = Some (tk_cur c')"
  shows "fresh_inv told c' w"
  using assms by (auto simp: fresh_inv_def)

locale recorded_reconciler =
  fixes accessor :: "'obj accessor" and accepts :: "objmeta \<Rightarrow> 'obj \<Rightarrow> bool"
    and reconciler :: "('obj, 'w) reconciles" and told :: "'w \<Rightarrow> string \<times> string \<rightharpoonup> 'obj"
  assumes accepts_names: "accepts m ob \<Longrightarrow> names_ok m"
    and records: "reconciler ns nm r w err w' \<Longrightarrow> told w' = (told w)((ns, nm) := r)"
begin

lemma good_split:
  assumes "good_key accepts k" and "SplitMetaNamespaceKey k = Inr p"
  obtains m ob where "accepts m ob" "p = (om_Namespace m, om_Name m)" "k = meta_key m"
proof -
  from assms(1) obtain m ob where m: "accepts m ob" "k = meta_key m" by (auto simp: good_key_def)
  with accepts_names have "SplitMetaNamespaceKey k = Inr (om_Namespace m, om_Name m)"
    by (simp add: split_meta_key names_ok_def)
  with assms(2) m that show ?thesis by simp
qed

lemma good_split_inj:
  assumes "good_key accepts k" "good_key accepts k'" "SplitMetaNamespaceKey k = Inr p" "SplitMetaNamespaceKey k' = Inr p"
  shows "k = k'"
  using assms(1,3)
proof (rule good_split)
  fix m ob assume "p = (om_Namespace m, om_Name m)" "k = meta_key m"
  moreover from assms(2,4) obtain m' ob' where "p = (om_Namespace m', om_Name m')" "k' = meta_key m'" by (rule good_split)
  ultimately show ?thesis by (simp add: meta_key_def)
qed

lemma told_at_reconciled:
  assumes "good_key accepts k" "good_key accepts k'" "SplitMetaNamespaceKey k = Inr (ns, nm)" "reconciler ns nm r w err w'"
  shows "told_at told w' k' = (if k' = k then r else told_at told w k')"
proof (cases "SplitMetaNamespaceKey k'")
  case (Inl e)
  with assms(3) have "k' \<noteq> k" by auto
  with Inl show ?thesis by (simp add: told_at_def)
next
  case (Inr p)
  have "p = (ns, nm) \<longleftrightarrow> k' = k"
  proof
    assume "p = (ns, nm)"
    with Inr have "SplitMetaNamespaceKey k' = Inr (ns, nm)" by simp
    then show "k' = k" by (rule good_split_inj [OF assms(2,1) _ assms(3)])
  qed (use Inr assms(3) in simp)
  with Inr show ?thesis by (simp add: told_at_def records [OF assms(4)])
qed

lemma told_inv_step:
  assumes "tracked_step accessor accepts reconciler n cx c w c' w'" and "keys_inv accessor accepts c"
    and "told_inv accessor accepts told w"
  shows "told_inv accessor accepts told w'"
  using assms
proof (induction rule: tracked_step.induct)
  case (worker_reconcile c t k ns nm r w err w')
  have split: "SplitMetaNamespaceKey k = Inr (ns, nm)" by (rule keys_invD(4) [OF worker_reconcile(3,1)])
  have "\<exists>m. accessor x = Some m \<and> accepts m x \<and> (ns, nm) = (om_Namespace m, om_Name m)" if "r = Some x" for x
  proof -
    from keys_invD(5) [OF worker_reconcile(3)] worker_reconcile(1) that have "held_as accessor accepts k x" by blast
    then obtain m where m: "accessor x = Some m" "accepts m x" "k = meta_key m" by (auto simp: held_as_def)
    with accepts_names split have "(ns, nm) = (om_Namespace m, om_Name m)" by (auto simp: split_meta_key names_ok_def)
    with m show ?thesis by blast
  qed
  then show ?case using worker_reconcile(4) by (auto simp: told_inv_def records [OF worker_reconcile(2)])
qed

lemma fresh_inv_step:
  "tracked_step accessor accepts reconciler n cx c w c' w' \<Longrightarrow> keys_inv accessor accepts c \<Longrightarrow> control_inv c \<Longrightarrow>
   fresh_inv told c w \<Longrightarrow> fresh_inv told c' w'"
proof (induction rule: tracked_step.induct)
  case (list_add ob m c w)
  show ?case by (rule fresh_inv_change [OF list_add(6)]) (simp add: tk_cur_def)
next
  case (list_update old m new m' c w)
  show ?case by (rule fresh_inv_change [OF list_update(8)]) (simp add: tk_cur_def)
next
  case (list_delete ob m c w)
  show ?case by (rule fresh_inv_change [OF list_delete(6)]) (simp add: tk_cur_def)
next
  case (list_missed_delete c k ob w)
  show ?case by (rule fresh_inv_change [OF list_missed_delete(4)]) (simp add: tk_cur_def)
next
  case (informer_synced c w)
  then have "tk_initial c = None" using control_invD(4) by blast
  with control_invD(6,7) [OF informer_synced(3)] show ?case
    by (intro fresh_inv_listed) (auto simp: list_defs)
next
  case (register c w)
  then have "tk_initial c = None" using control_invD(5) by fastforce
  with control_invD(6,7) [OF register(3)] show ?case
    by (intro fresh_inv_listed) (auto simp: list_defs)
next
  case (deliver c c' w)
  show ?case by (rule fresh_inv_same [OF deliver(4)]) (simp_all add: tk_deliver_fields [OF deliver(1)])
next
  case (worker_fetch c t k ns nm r w)
  from fetch_good [OF worker_fetch(3) _ worker_fetch(1)] accepts_names worker_fetch(2) have "r = tk_cur c k" by fastforce
  then show ?case by (intro fresh_inv_same [OF worker_fetch(5)]) (auto split: if_splits)
next
  case (worker_reconcile c t k ns nm r w err w')
  have split: "SplitMetaNamespaceKey k = Inr (ns, nm)" by (rule keys_invD(4) [OF worker_reconcile(3,1)])
  have "Key k \<in> tk_items accessor c" by (rule tk_items_pc [of _ t]) (simp add: worker_reconcile(1))
  from keys_invD(3) [OF worker_reconcile(3) this] have k: "good_key accepts k" by auto
  let ?c = "tk_move t (TReconciled k err) (c\<lparr>tk_seen := insert k (tk_seen c)\<rparr>)"
  show ?case
    unfolding fresh_inv_def
  proof (intro allI impI)
    fix i j
    assume i: "tk_initial ?c = Some i" and j: "j \<in> dom i" "j \<notin> tk_touched ?c"
    with worker_reconcile(5) have old: "tk_cur c j = i j" "\<forall>t ns nm r. tk_wpc c t = TRead j ns nm r \<longrightarrow> r = i j"
      "j \<in> tk_seen c \<longrightarrow> told_at told w j = i j"
      unfolding fresh_inv_def by auto
    from j(1) old(1) keys_invD(2) [OF worker_reconcile(3), of j] have "good_key accepts j" by (auto intro: held_good)
    from told_at_reconciled [OF k this split worker_reconcile(2)] old worker_reconcile(1)
    show "tk_cur ?c j = i j \<and> (\<forall>t ns nm r. tk_wpc ?c t = TRead j ns nm r \<longrightarrow> r = i j) \<and>
        (j \<in> tk_seen ?c \<longrightarrow> told_at told w' j = i j)"
      by auto
  qed
qed (rule fresh_inv_same, assumption; auto split: if_splits)+

end

section \<open>All of it\<close>

definition tracked_inv ::
  "'obj accessor \<Rightarrow> (objmeta \<Rightarrow> 'obj \<Rightarrow> bool) \<Rightarrow> ('w \<Rightarrow> string \<times> string \<rightharpoonup> 'obj) \<Rightarrow> 'obj tracked_ctl \<Rightarrow> 'w \<Rightarrow> bool" where
  "tracked_inv accessor accepts told c w \<longleftrightarrow>
     keys_inv accessor accepts c \<and> control_inv c \<and> through_inv c \<and> list_inv accessor c \<and>
     fresh_inv told c w \<and> told_inv accessor accepts told w"

lemma tracked_invD:
  assumes "tracked_inv accessor accepts told c w"
  shows "keys_inv accessor accepts c" "control_inv c" "through_inv c" "list_inv accessor c"
    "fresh_inv told c w" "told_inv accessor accepts told w"
  using assms by (simp_all add: tracked_inv_def)

lemma tracked_inv_New:
  assumes "told w = Map.empty"
  shows "tracked_inv accessor accepts told (tracked_New idx) w"
proof -
  have "keys_inv accessor accepts (tracked_New idx)"
    by (simp add: keys_inv_def tracked_New_def ix_wf_def tk_cur_def tk_items_def)
  moreover have "through_inv (tracked_New idx)" "list_inv accessor (tracked_New idx)" "fresh_inv told (tracked_New idx) w"
    by (simp_all add: through_inv_def list_inv_def fresh_inv_def tracked_New_def)
  ultimately show ?thesis
    using control_inv_New [of idx] assms by (simp add: tracked_inv_def told_inv_def)
qed

text \<open>Another part of the program changes the world, but not what the reconciler was told.\<close>

lemma tracked_inv_world:
  "tracked_inv accessor accepts told c w \<Longrightarrow> told w' = told w \<Longrightarrow> tracked_inv accessor accepts told c w'"
  using fresh_inv_world [of told w' w c] by (simp add: tracked_inv_def told_inv_def)

context recorded_reconciler
begin

lemma tracked_inv_step:
  assumes "tracked_step accessor accepts reconciler n cx c w c' w'" and "tracked_inv accessor accepts told c w"
  shows "tracked_inv accessor accepts told c' w'"
  using keys_inv_step [OF accepts_names assms(1)] control_inv_step [OF assms(1)]
    through_inv_step [OF accepts_names assms(1)] list_inv_step [OF assms(1)]
    fresh_inv_step [OF assms(1)] told_inv_step [OF assms(1)] tracked_invD [OF assms(2)]
  by (simp add: tracked_inv_def)

lemma handled_told:
  assumes "tracked_inv accessor accepts told c w" and "tk_handled c" and "tk_initial c = Some i"
    and "i k = Some ob" and "k \<notin> tk_touched c"
  shows "told_at told w k = Some ob"
proof -
  have "k \<in> dom i" using assms(4) by auto
  moreover from this have "k \<in> tk_seen c" using assms(2,3) by (auto simp: tk_handled_def)
  ultimately show ?thesis using tracked_invD(5) [OF assms(1)] assms(3-5) unfolding fresh_inv_def by simp
qed

end

end
