(* ===== verification/Evaluator_Life.thy ===== *)
theory Evaluator_Life
  imports Policy_Composition Synced_Invariants
begin

text \<open>
  The life of the policy evaluator (\<open>celAdmissionController\<close> of the vendored \<open>validatingadmissionpolicy/controller.go\<close>
  with \<open>policyController.Run\<close>): two synced controllers that reconcile policies and bindings, and the goroutine that waits
  for both and then publishes a snapshot again and again. Requests are refused until a snapshot is
  published, and every published snapshot has the policies and bindings that were there from the beginning.
\<close>

section \<open>The reconcilers of the two controllers\<close>

definition label_map :: "str_map \<Rightarrow> string \<rightharpoonup> string" where
  "label_map l = (case l of None \<Rightarrow> Map.empty | Some kvs \<Rightarrow> map_of kvs)"

definition object_accessor :: "objectMeta \<Rightarrow> objmeta" where
  "object_accessor m = \<lparr>om_Namespace = om_namespace m, om_Name = om_name m, om_ResourceVersion = om_resourceVersion m,
     om_Labels = label_map (om_labels m)\<rparr>"

definition policy_accessor :: "validatingAdmissionPolicy accessor" where
  "policy_accessor d = Some (object_accessor (vap_ObjectMeta d))"

definition binding_accessor :: "validatingAdmissionPolicyBinding accessor" where
  "binding_accessor b = Some (object_accessor (vapb_ObjectMeta b))"

text \<open>
  What the API server accepts: cluster-scoped objects with a name. The CRD also admits policies without match
  constraints.
\<close>

definition cluster_named :: "objmeta \<Rightarrow> bool" where
  "cluster_named m \<longleftrightarrow> om_Namespace m = [] \<and> om_Name m \<noteq> [] \<and> CHR ''/'' \<notin> set (om_Name m)"

definition policy_accepted :: "objmeta \<Rightarrow> validatingAdmissionPolicy \<Rightarrow> bool" where
  "policy_accepted m d \<longleftrightarrow> cluster_named m"

definition binding_accepted :: "objmeta \<Rightarrow> validatingAdmissionPolicyBinding \<Rightarrow> bool" where
  "binding_accepted m b \<longleftrightarrow> cluster_named m"

text \<open>
  The reconcilers, on the policy controller with its record of what it was told. The REST mapper may answer
  differently every time; the status update goes to the API server.
\<close>

inductive reconciles_policy ::
  "('obj, 'u) policy_lib \<Rightarrow> (validatingAdmissionPolicy \<Rightarrow> expressionWarning slice) option
   \<Rightarrow> (validatingAdmissionPolicy, ('obj, 'u) policy_sys) reconciles" for lib check where
  "reconcilePolicyDefinition lib restMapper check ns name d (ps_ctl w) = Some (err, update, c) \<Longrightarrow>
   reconciles_policy lib check ns name d w err (w\<lparr>ps_ctl := c, ps_defs := (ps_defs w)((ns, name) := d)\<rparr>)"

inductive reconciles_binding ::
  "('obj, 'u) policy_lib \<Rightarrow> (validatingAdmissionPolicyBinding, ('obj, 'u) policy_sys) reconciles" for lib where
  "reconciles_binding lib ns name b w None
     (w\<lparr>ps_ctl := reconcilePolicyBinding lib ns name b (ps_ctl w), ps_binds := (ps_binds w)((ns, name) := b)\<rparr>)"

inductive_cases reconciles_policyE: "reconciles_policy lib check ns name d w err w'"
inductive_cases reconciles_bindingE: "reconciles_binding lib ns name b w err w'"

section \<open>Run, HasSynced and Validate\<close>

text \<open>
  Where the refreshing goroutine is. It asks the two controllers again and again, each first whether its
  notifications are delivered and then whether it waits for a key; then it takes and stores snapshots.
\<close>

datatype ('obj, 'u) refresher =
    RNotStarted
  | RAsk
  | RPoliciesDelivered
  | RPoliciesSynced
  | RBindingsDelivered
  | RReady
  | RRefresh
  | RStoring "('obj, 'u) policyData list"
  | RDone

datatype cel_run = RunIdle | RunWaiting | RunJoining | RunDone

text \<open>
  \<open>ce_ctl\<close> is the policy controller, \<open>ce_definitions\<close> the atomic value that requests read; \<open>ce_ctx\<close> is the context
  that \<open>Run\<close> makes and hands to the two controllers.
\<close>

record ('obj, 'u) cel_sys =
  ce_policies :: "validatingAdmissionPolicy tracked_ctl"
  ce_bindings :: "validatingAdmissionPolicyBinding tracked_ctl"
  ce_ctl :: "('obj, 'u) policy_sys"
  ce_definitions :: "('obj, 'u) policyData list option"
  ce_refresher :: "('obj, 'u) refresher"
  ce_ctx :: run_ctx
  ce_run :: cel_run

text \<open>\<open>NewAdmissionController\<close> with \<open>newPolicyController\<close>; both controllers get one worker.\<close>

definition controller_workers :: nat where
  "controller_workers = opt_Workers (tracked_options [] \<lparr>opt_Name = ''cel-policy-definitions'', opt_Workers = 1\<rparr>)"

definition NewAdmissionController :: "bool \<Rightarrow> bool \<Rightarrow> ('obj, 'u) cel_sys" where
  "NewAdmissionController idxp idxb =
     \<lparr>ce_policies = tracked_New idxp, ce_bindings = tracked_New idxb,
      ce_ctl = \<lparr>ps_ctl = \<lparr>pcs_cachedPolicies = [], pcs_paramsCRDControllers = Map.empty, pcs_definitionInfo = Map.empty,
          pcs_bindingInfos = Map.empty, pcs_definitionsToBindings = Map.empty\<rparr>,
        ps_defs = Map.empty, ps_binds = Map.empty, ps_published = None\<rparr>,
      ce_definitions = None, ce_refresher = RNotStarted, ce_ctx = RunNotCalled, ce_run = RunIdle\<rparr>"

definition policies_HasSynced :: "('obj, 'u) cel_sys \<Rightarrow> bool" where
  "policies_HasSynced s \<longleftrightarrow> tk_HasSynced (ce_policies s) \<and> tk_HasSynced (ce_bindings s)"

definition cel_HasSynced :: "('obj, 'u) cel_sys \<Rightarrow> bool" where
  "cel_HasSynced s \<longleftrightarrow> policies_HasSynced s \<and> ce_definitions s \<noteq> None"

text \<open>\<open>Validate\<close>; without a snapshot the type assertion is not reached, because the evaluator has not synced.\<close>

definition cel_Validate ::
  "('obj, 'u) eval_env \<Rightarrow> ('obj, 'u) cel_sys \<Rightarrow> 'obj attributes \<Rightarrow> (go_error option \<times> eval_state) option" where
  "cel_Validate env s a =
     evaluator_Validate env (cel_HasSynced s) (case ce_definitions s of None \<Rightarrow> [] | Some pds \<Rightarrow> pds) a"

inductive cel_step ::
  "('obj, 'u) policy_lib \<Rightarrow> (validatingAdmissionPolicy \<Rightarrow> expressionWarning slice) option
   \<Rightarrow> ('obj, 'u) cel_sys \<Rightarrow> ('obj, 'u) cel_sys \<Rightarrow> bool" for lib check where
  policies:
    "tracked_step policy_accessor policy_accepted (reconciles_policy lib check) controller_workers (ce_ctx s)
       (ce_policies s) (ce_ctl s) c w \<Longrightarrow> cel_step lib check s (s\<lparr>ce_policies := c, ce_ctl := w\<rparr>)"
| bindings:
    "tracked_step binding_accessor binding_accepted (reconciles_binding lib) controller_workers (ce_ctx s)
       (ce_bindings s) (ce_ctl s) c w \<Longrightarrow> cel_step lib check s (s\<lparr>ce_bindings := c, ce_ctl := w\<rparr>)"
| run:
    "ce_run s = RunIdle \<Longrightarrow>
     cel_step lib check s (s\<lparr>ce_ctx := CtxLive, ce_refresher := RAsk, ce_run := RunWaiting\<rparr>)"
| stop: "ce_run s = RunWaiting \<Longrightarrow> cel_step lib check s (s\<lparr>ce_ctx := CtxDone, ce_run := RunJoining\<rparr>)"
| joined:
    "ce_run s = RunJoining \<Longrightarrow> ce_refresher s = RDone \<Longrightarrow> tk_phase (ce_policies s) = TkReturned r \<Longrightarrow>
     tk_phase (ce_bindings s) = TkReturned r' \<Longrightarrow> cel_step lib check s (s\<lparr>ce_run := RunDone\<rparr>)"
| give_up: "ce_refresher s = RAsk \<Longrightarrow> ce_ctx s = CtxDone \<Longrightarrow> cel_step lib check s (s\<lparr>ce_refresher := RDone\<rparr>)"
| ask_policies_delivered:
    "ce_refresher s = RAsk \<Longrightarrow> tk_notificationsDelivered (ce_policies s) \<Longrightarrow>
     cel_step lib check s (s\<lparr>ce_refresher := RPoliciesDelivered\<rparr>)"
| ask_policies:
    "ce_refresher s = RPoliciesDelivered \<Longrightarrow>
     cel_step lib check s
       (s\<lparr>ce_refresher := (if waited_for (tk_waiting (ce_policies s)) = {} then RPoliciesSynced else RAsk)\<rparr>)"
| ask_bindings_delivered:
    "ce_refresher s = RPoliciesSynced \<Longrightarrow>
     cel_step lib check s
       (s\<lparr>ce_refresher := (if tk_notificationsDelivered (ce_bindings s) then RBindingsDelivered else RAsk)\<rparr>)"
| ask_bindings:
    "ce_refresher s = RBindingsDelivered \<Longrightarrow>
     cel_step lib check s
       (s\<lparr>ce_refresher := (if waited_for (tk_waiting (ce_bindings s)) = {} then RReady else RAsk)\<rparr>)"
| refresh_or_stop:
    "ce_refresher s = RReady \<Longrightarrow>
     cel_step lib check s (s\<lparr>ce_refresher := (if ce_ctx s = CtxDone then RDone else RRefresh)\<rparr>)"
| latest_policies:
    "ce_refresher s = RRefresh \<Longrightarrow> visits_policies order (ps_ctl (ce_ctl s)) \<Longrightarrow>
     latestPolicyData lib order (ps_ctl (ce_ctl s)) = Some (pds, c) \<Longrightarrow>
     cel_step lib check s
       (s\<lparr>ce_ctl := (ce_ctl s)\<lparr>ps_ctl := c, ps_published := Some pds\<rparr>, ce_refresher := RStoring pds\<rparr>)"
| store_definitions:
    "ce_refresher s = RStoring pds \<Longrightarrow>
     cel_step lib check s (s\<lparr>ce_definitions := Some pds, ce_refresher := RReady\<rparr>)"

definition cel_starts :: "('obj, 'u) cel_sys \<Rightarrow> bool" where
  "cel_starts s \<longleftrightarrow> (\<exists>idxp idxb. s = NewAdmissionController idxp idxb)"

abbreviation cel_reachable ::
  "('obj, 'u) policy_lib \<Rightarrow> (validatingAdmissionPolicy \<Rightarrow> expressionWarning slice) option \<Rightarrow> ('obj, 'u) cel_sys \<Rightarrow> bool" where
  "cel_reachable lib check \<equiv> reach cel_starts (cel_step lib check)"

section \<open>The controllers promise what they are built for\<close>

interpretation policy_rec: recorded_reconciler policy_accessor policy_accepted "reconciles_policy lib check" ps_defs
  for lib check
  by unfold_locales
    (auto simp: policy_accepted_def cluster_named_def names_ok_def elim: reconciles_policyE)

interpretation binding_rec: recorded_reconciler binding_accessor binding_accepted "reconciles_binding lib" ps_binds
  for lib
  by unfold_locales
    (auto simp: binding_accepted_def cluster_named_def names_ok_def elim: reconciles_bindingE)

text \<open>Each reconciliation is a step of the policy controller, and leaves alone what the other one was told.\<close>

lemma cluster_key:
  assumes "good_key accepts k" and "\<forall>m ob. accepts m ob \<longrightarrow> cluster_named m"
  shows "SplitMetaNamespaceKey k = Inr ([], k)" and "k \<noteq> []"
proof -
  from assms obtain m where m: "cluster_named m" "k = meta_key m" unfolding good_key_def by blast
  then have "SplitMetaNamespaceKey k = Inr (om_Namespace m, om_Name m)"
    by (simp add: split_meta_key cluster_named_def)
  with m show "SplitMetaNamespaceKey k = Inr ([], k)" "k \<noteq> []" by (simp_all add: cluster_named_def meta_key_def)
qed

lemma tracked_world:
  assumes "tracked_step accessor accepts reconciler n cx c w c' w'" and "keys_inv accessor accepts c"
    and "\<forall>m ob. accepts m ob \<longrightarrow> cluster_named m"
  shows "w' = w \<or> (\<exists>name r err. name \<noteq> [] \<and> reconciler [] name r w err w')"
  using assms(1,2)
proof (induction rule: tracked_step.induct)
  case (worker_reconcile c t k ns nm r w err w')
  have "Key k \<in> tk_items accessor c" by (rule tk_items_pc [of _ t]) (simp add: worker_reconcile(1))
  from keys_invD(3) [OF worker_reconcile(3) this] have "good_key accepts k" by auto
  note key = cluster_key [OF this assms(3)]
  have "SplitMetaNamespaceKey k = Inr (ns, nm)" by (rule keys_invD(4) [OF worker_reconcile(3,1)])
  with key worker_reconcile(2) show ?case by auto
qed simp_all

lemma policies_world:
  assumes "tracked_step policy_accessor policy_accepted (reconciles_policy lib check) n cx c w c' w'"
    and "keys_inv policy_accessor policy_accepted c"
  shows "w' = w \<or> policy_step lib w w'" and "ps_binds w' = ps_binds w"
proof -
  have "w' = w \<or> (\<exists>name r err. name \<noteq> [] \<and> reconciles_policy lib check [] name r w err w')"
    by (rule tracked_world [OF assms]) (simp add: policy_accepted_def)
  moreover have "policy_step lib w w' \<and> ps_binds w' = ps_binds w"
    if "name \<noteq> []" "reconciles_policy lib check [] name r w err w'" for name r err
    using that(2)
  proof (rule reconciles_policyE)
    fix restMapper update c
    assume w': "w' = w\<lparr>ps_ctl := c, ps_defs := (ps_defs w)(([], name) := r)\<rparr>"
      and "reconcilePolicyDefinition lib restMapper check [] name r (ps_ctl w) = Some (err, update, c)"
    then obtain e where "reconcilePolicyDefinitionSpec lib restMapper [] name r (ps_ctl w) = Some (e, c)"
      by (auto simp: reconcilePolicyDefinition_def split: option.splits prod.splits)
    from policy_step.reconcile_definition [OF that(1) this] w' show ?thesis by simp
  qed
  ultimately show "w' = w \<or> policy_step lib w w'" "ps_binds w' = ps_binds w" by blast+
qed

lemma bindings_world:
  assumes "tracked_step binding_accessor binding_accepted (reconciles_binding lib) n cx c w c' w'"
    and "keys_inv binding_accessor binding_accepted c"
  shows "w' = w \<or> policy_step lib w w'" and "ps_defs w' = ps_defs w"
proof -
  have "w' = w \<or> (\<exists>name r err. name \<noteq> [] \<and> reconciles_binding lib [] name r w err w')"
    by (rule tracked_world [OF assms]) (simp add: binding_accepted_def)
  moreover have "policy_step lib w w' \<and> ps_defs w' = ps_defs w"
    if "name \<noteq> []" "reconciles_binding lib [] name r w err w'" for name r err
    using that(2) by (rule reconciles_bindingE) (simp add: policy_step.reconcile_binding [OF that(1)])
  ultimately show "w' = w \<or> policy_step lib w w'" "ps_defs w' = ps_defs w" by blast+
qed

section \<open>What every published snapshot holds\<close>

text \<open>The policies and bindings of the initial lists that have not changed since.\<close>

definition unchanged_object :: "'obj tracked_ctl \<Rightarrow> string \<Rightarrow> 'obj \<Rightarrow> bool" where
  "unchanged_object c k ob \<longleftrightarrow> (\<exists>i. tk_initial c = Some i \<and> i k = Some ob \<and> k \<notin> tk_touched c)"

definition startup_policy :: "('obj, 'u) cel_sys \<Rightarrow> validatingAdmissionPolicy \<Rightarrow> bool" where
  "startup_policy s d \<longleftrightarrow> unchanged_object (ce_policies s) (policy_name d) d"

definition startup_binding :: "('obj, 'u) cel_sys \<Rightarrow> validatingAdmissionPolicyBinding \<Rightarrow> bool" where
  "startup_binding s b \<longleftrightarrow> unchanged_object (ce_bindings s) (binding_name b) b"

text \<open>A snapshot taken when both controllers had been told of them.\<close>

definition informed :: "'obj tracked_ctl \<Rightarrow> (namespacedName \<rightharpoonup> 'obj) \<Rightarrow> bool" where
  "informed c m \<longleftrightarrow> tk_handled c \<and> (\<forall>k ob. unchanged_object c k ob \<longrightarrow> m ([], k) = Some ob)"

definition good_snapshot :: "('obj, 'u) policy_lib \<Rightarrow> ('obj, 'u) cel_sys \<Rightarrow> ('obj, 'u) policyData list \<Rightarrow> bool" where
  "good_snapshot lib s pds \<longleftrightarrow>
     (\<exists>w order c. policy_reachable lib w \<and> visits_policies order (ps_ctl w) \<and>
        latestPolicyData lib order (ps_ctl w) = Some (pds, c) \<and>
        informed (ce_policies s) (ps_defs w) \<and> informed (ce_bindings s) (ps_binds w))"

fun has_asked_policies :: "('obj, 'u) refresher \<Rightarrow> bool" where
  "has_asked_policies RNotStarted = False"
| "has_asked_policies RAsk = False"
| "has_asked_policies RPoliciesDelivered = False"
| "has_asked_policies RDone = False"
| "has_asked_policies _ = True"

fun has_asked_bindings :: "('obj, 'u) refresher \<Rightarrow> bool" where
  "has_asked_bindings RReady = True"
| "has_asked_bindings RRefresh = True"
| "has_asked_bindings (RStoring pds) = True"
| "has_asked_bindings _ = False"

definition cel_inv :: "('obj, 'u) policy_lib \<Rightarrow> ('obj, 'u) cel_sys \<Rightarrow> bool" where
  "cel_inv lib s \<longleftrightarrow>
     tracked_inv policy_accessor policy_accepted ps_defs (ce_policies s) (ce_ctl s) \<and>
     tracked_inv binding_accessor binding_accepted ps_binds (ce_bindings s) (ce_ctl s) \<and>
     policy_reachable lib (ce_ctl s) \<and>
     (ce_refresher s = RPoliciesDelivered \<longrightarrow> tk_started (ce_policies s)) \<and>
     (ce_refresher s = RBindingsDelivered \<longrightarrow> tk_started (ce_bindings s)) \<and>
     (has_asked_policies (ce_refresher s) \<longrightarrow> tk_handled (ce_policies s)) \<and>
     (has_asked_bindings (ce_refresher s) \<longrightarrow> tk_handled (ce_bindings s)) \<and>
     (\<forall>pds. ce_refresher s = RStoring pds \<longrightarrow> good_snapshot lib s pds) \<and>
     (\<forall>pds. ce_definitions s = Some pds \<longrightarrow> good_snapshot lib s pds)"

lemma unchanged_step:
  assumes "tracked_step accessor accepts reconciler n cx c w c' w'" and "control_inv c" and "tk_handled c"
    and "unchanged_object c' k ob"
  shows "unchanged_object c k ob"
  using initial_step [OF assms(1,2)] assms(3,4) unfolding tk_handled_def unchanged_object_def by fastforce

lemma informed_step:
  assumes "tracked_step accessor accepts reconciler n cx c w c' w'" and "control_inv c" and "informed c m"
  shows "informed c' m"
  using handled_step [OF assms(1,2)] unchanged_step [OF assms(1,2)] assms(3) unfolding informed_def by blast

context recorded_reconciler
begin

lemma handled_informed:
  assumes "tracked_inv accessor accepts told c w" and "tk_handled c" and "\<forall>m ob. accepts m ob \<longrightarrow> cluster_named m"
  shows "informed c (told w)"
  unfolding informed_def
proof (intro conjI allI impI)
  fix k ob assume "unchanged_object c k ob"
  then obtain i where i: "tk_initial c = Some i" "i k = Some ob" "k \<notin> tk_touched c" by (auto simp: unchanged_object_def)
  then have "told_at told w k = Some ob" by (rule handled_told [OF assms(1,2)])
  moreover have "tk_cur c k = Some ob"
    using tracked_invD(5) [OF assms(1)] i by (auto simp: fresh_inv_def)
  from held_good [OF keys_invD(2) [OF tracked_invD(1) [OF assms(1)] this]]
  have "SplitMetaNamespaceKey k = Inr ([], k)" by (rule cluster_key(1) [OF _ assms(3)])
  ultimately show "told w ([], k) = Some ob" by (simp add: told_at_def)
qed (rule assms(2))

end

lemma cel_inv_start: "cel_starts s \<Longrightarrow> cel_inv lib s"
proof -
  assume "cel_starts s"
  then obtain idxp idxb where s: "s = NewAdmissionController idxp idxb" by (auto simp: cel_starts_def)
  have "policy_reachable lib (ce_ctl s)"
    by (rule reach_start) (simp add: s NewAdmissionController_def policy_start_def)
  then show ?thesis
    by (simp add: cel_inv_def s NewAdmissionController_def tracked_inv_New)
qed

lemma good_snapshot_change:
  assumes "good_snapshot lib s pds"
    and "\<And>m. informed (ce_policies s) m \<Longrightarrow> informed (ce_policies s') m"
    and "\<And>m. informed (ce_bindings s) m \<Longrightarrow> informed (ce_bindings s') m"
  shows "good_snapshot lib s' pds"
  using assms unfolding good_snapshot_def by blast

lemma good_snapshot_taken:
  assumes inv: "cel_inv lib s" and "ce_refresher s = RRefresh" and "visits_policies order (ps_ctl (ce_ctl s))"
    and "latestPolicyData lib order (ps_ctl (ce_ctl s)) = Some (pds, c)"
  shows "good_snapshot lib s pds"
proof -
  from inv assms(2) have p: "tracked_inv policy_accessor policy_accepted ps_defs (ce_policies s) (ce_ctl s)"
    "tracked_inv binding_accessor binding_accepted ps_binds (ce_bindings s) (ce_ctl s)"
    "policy_reachable lib (ce_ctl s)" "tk_handled (ce_policies s)" "tk_handled (ce_bindings s)"
    by (simp_all add: cel_inv_def)
  have "informed (ce_policies s) (ps_defs (ce_ctl s))"
    by (rule policy_rec.handled_informed [OF p(1,4)]) (simp add: policy_accepted_def)
  moreover have "informed (ce_bindings s) (ps_binds (ce_ctl s))"
    by (rule binding_rec.handled_informed [OF p(2,5)]) (simp add: binding_accepted_def)
  ultimately show ?thesis
    unfolding good_snapshot_def using p(3) assms(3,4) by blast
qed

lemma cel_inv_step: "cel_step lib check s t \<Longrightarrow> cel_inv lib s \<Longrightarrow> cel_inv lib t"
proof (induction rule: cel_step.induct)
  case (policies s c w)
  then have inv: "tracked_inv policy_accessor policy_accepted ps_defs (ce_policies s) (ce_ctl s)"
    "tracked_inv binding_accessor binding_accepted ps_binds (ce_bindings s) (ce_ctl s)" "policy_reachable lib (ce_ctl s)"
    by (simp_all add: cel_inv_def)
  note w = policies_world [OF policies(1) tracked_invD(1) [OF inv(1)]]
  note c = tracked_invD(2,3) [OF inv(1)]
  have "policy_reachable lib w" using w(1) inv(3) by (auto intro: reach_step)
  moreover have "good_snapshot lib (s\<lparr>ce_policies := c, ce_ctl := w\<rparr>) pds" if "good_snapshot lib s pds" for pds
    by (rule good_snapshot_change [OF that]) (simp_all add: informed_step [OF policies(1) c(1)])
  ultimately show ?case
    using policies(2) policy_rec.tracked_inv_step [OF policies(1) inv(1)] tracked_inv_world [OF inv(2) w(2)]
      handled_step [OF policies(1) c(1)] started_step [OF policies(1) c]
    by (simp add: cel_inv_def)
next
  case (bindings s c w)
  then have inv: "tracked_inv policy_accessor policy_accepted ps_defs (ce_policies s) (ce_ctl s)"
    "tracked_inv binding_accessor binding_accepted ps_binds (ce_bindings s) (ce_ctl s)" "policy_reachable lib (ce_ctl s)"
    by (simp_all add: cel_inv_def)
  note w = bindings_world [OF bindings(1) tracked_invD(1) [OF inv(2)]]
  note c = tracked_invD(2,3) [OF inv(2)]
  have "policy_reachable lib w" using w(1) inv(3) by (auto intro: reach_step)
  moreover have "good_snapshot lib (s\<lparr>ce_bindings := c, ce_ctl := w\<rparr>) pds" if "good_snapshot lib s pds" for pds
    by (rule good_snapshot_change [OF that]) (simp_all add: informed_step [OF bindings(1) c(1)])
  ultimately show ?case
    using bindings(2) binding_rec.tracked_inv_step [OF bindings(1) inv(2)] tracked_inv_world [OF inv(1) w(2)]
      handled_step [OF bindings(1) c(1)] started_step [OF bindings(1) c]
    by (simp add: cel_inv_def)
next
  case (ask_policies_delivered s)
  then show ?case
    using delivered_started [of "ce_policies s" policy_accessor]
    by (auto simp: cel_inv_def tracked_inv_def good_snapshot_def)
next
  case (ask_bindings_delivered s)
  then show ?case
    using delivered_started [of "ce_bindings s" binding_accessor]
    by (auto simp: cel_inv_def tracked_inv_def good_snapshot_def)
next
  case (latest_policies s order pds c)
  note good = good_snapshot_taken [OF latest_policies(4,1-3)]
  have "policy_step lib (ce_ctl s) ((ce_ctl s)\<lparr>ps_ctl := c, ps_published := Some pds\<rparr>)"
    by (rule policy_step.refreshPolicies [OF latest_policies(2,3)])
  then have "policy_reachable lib ((ce_ctl s)\<lparr>ps_ctl := c, ps_published := Some pds\<rparr>)"
    using latest_policies(4) by (auto simp: cel_inv_def intro: reach_step)
  with good latest_policies(1,4) show ?case
    by (auto simp: cel_inv_def good_snapshot_def elim!: tracked_inv_world)
qed (auto simp: cel_inv_def good_snapshot_def tk_started_def tk_handled_def)

interpretation cel: invariant_system cel_starts "cel_step lib check" "cel_inv lib" for lib check
  by unfold_locales (auto intro: cel_inv_start cel_inv_step)

text \<open>A published snapshot is one the composition with the evaluator knows, and it holds what was there at startup.\<close>

definition enforced_policy ::
  "('obj, 'u) policy_lib \<Rightarrow> ('obj, 'u) cel_sys \<Rightarrow> validatingAdmissionPolicy \<Rightarrow> ('obj, 'u) policyData \<Rightarrow> bool" where
  "enforced_policy lib s d pd \<longleftrightarrow>
     pl_equalDefinitionSpec lib (vap_Spec (pd_lastReconciledValue pd)) (vap_Spec d) \<and>
     (\<forall>b. startup_binding s b \<longrightarrow> bs_PolicyName (vapb_Spec b) = policy_name d \<longrightarrow>
        (\<exists>bi \<in> set (pd_bindings pd). pl_equalBindingSpec lib (vapb_Spec (bi_lastReconciledValue bi)) (vapb_Spec b) \<and>
           (pd_configurationError pd = None \<longrightarrow> bi_validator bi = Some (compile_validator lib (pd_lastReconciledValue pd)))))"

lemma list_all2_related: "list_all2 R xs ys \<Longrightarrow> x \<in> set xs \<Longrightarrow> \<exists>y \<in> set ys. R x y"
  by (induction rule: list_all2_induct) auto

lemma good_snapshot_current:
  assumes "DeepEqual_laws lib" and "good_snapshot lib s pds"
  shows "\<exists>w. policy_reachable lib w \<and> current_snapshot lib (ps_defs w) (ps_binds w) pds \<and>
    informed (ce_policies s) (ps_defs w) \<and> informed (ce_bindings s) (ps_binds w)"
proof -
  from assms(2) obtain w order c where w: "policy_reachable lib w" "visits_policies order (ps_ctl w)"
      "latestPolicyData lib order (ps_ctl w) = Some (pds, c)"
      "informed (ce_policies s) (ps_defs w)" "informed (ce_bindings s) (ps_binds w)"
    unfolding good_snapshot_def by blast
  from snapshot_is_current [OF assms(1) w(1,2)] w(3-5) w(1) show ?thesis by auto
qed

text \<open>Evaluation relies on match constraints; if all policies of a current snapshot have them, the known ones do.\<close>

definition constrained :: "('obj, 'u) policyData list \<Rightarrow> bool" where
  "constrained pds \<longleftrightarrow> (\<forall>pd \<in> set pds. ps_MatchConstraints (vap_Spec (pd_lastReconciledValue pd)) \<noteq> None)"

lemma good_snapshot_well_formed:
  assumes laws: "DeepEqual_laws lib" and "good_snapshot lib s pds" and c: "constrained pds"
  shows "list_all well_formed_policy pds"
proof -
  from good_snapshot_current [OF assms(1,2)] obtain w where
    w: "policy_reachable lib w" "current_snapshot lib (ps_defs w) (ps_binds w) pds" by blast
  from w(2) obtain ks where ks: "set ks = dom (ps_defs w)" "list_all2 (current_policy lib (ps_defs w) (ps_binds w)) ks pds"
    unfolding current_snapshot_def by blast
  have "ps_MatchConstraints (vap_Spec d) \<noteq> None" if d: "d \<in> ran (ps_defs w)" for d
  proof -
    from d obtain k where k: "ps_defs w k = Some d" by (auto simp: ran_def)
    then have "k \<in> set ks" using ks(1) by auto
    from list_all2_related [OF ks(2) this] obtain pd where "pd \<in> set pds"
      "pl_equalDefinitionSpec lib (vap_Spec (pd_lastReconciledValue pd)) (vap_Spec d)"
      using k by (auto simp: current_policy_def)
    with c laws show ?thesis unfolding constrained_def DeepEqual_laws_def by blast
  qed
  with current_snapshot_well_formed [OF laws w(2)] show ?thesis by blast
qed

lemma good_snapshot_verdict:
  assumes "DeepEqual_laws lib" and "good_snapshot lib s pds" and "constrained pds"
  shows "\<exists>r st. evaluator_Validate env True pds a = Some (r, st) \<and>
    (r = None \<longleftrightarrow> (\<forall>pd \<in> set pds. policy_permits env a pd))"
  using evaluator_verdict [OF good_snapshot_well_formed [OF assms], of env a] by blast

text \<open>The verdict of the plugin's evaluator, as the plugin sees it.\<close>

lemma plugin_snapshot_verdict:
  assumes "DeepEqual_laws lib" and run: "runs_cel_evaluator env controllers_synced definitions ev"
    and "good_snapshot lib s pds" and "constrained pds" and w: "ev_HasSynced ev w" "definitions w = Some pds"
  shows "fst (ev_Validate ev a w) = None \<longleftrightarrow> (\<forall>pd \<in> set pds. policy_permits env a pd)"
proof -
  from good_snapshot_verdict [OF assms(1,3,4), of env a] obtain r st where
    r: "evaluator_Validate env True pds a = Some (r, st)" "r = None \<longleftrightarrow> (\<forall>pd \<in> set pds. policy_permits env a pd)"
    by blast
  from run w r(1) have "fst (ev_Validate ev a w) = r" unfolding runs_cel_evaluator_def by blast
  with r(2) show ?thesis by simp
qed

lemma good_snapshot_enforces:
  assumes laws: "DeepEqual_laws lib" and good: "good_snapshot lib s pds" and d: "startup_policy s d"
  shows "\<exists>pd \<in> set pds. enforced_policy lib s d pd"
proof -
  from good_snapshot_current [OF laws good] obtain w where w: "current_snapshot lib (ps_defs w) (ps_binds w) pds"
      "informed (ce_policies s) (ps_defs w)" "informed (ce_bindings s) (ps_binds w)" "policy_reachable lib w" by blast
  from w(1) obtain ks where ks: "set ks = dom (ps_defs w)" "list_all2 (current_policy lib (ps_defs w) (ps_binds w)) ks pds"
    unfolding current_snapshot_def by blast
  let ?k = "([], policy_name d)"
  have told: "ps_defs w ?k = Some d" using w(2) d by (simp add: informed_def startup_policy_def)
  then have "?k \<in> set ks" using ks(1) by auto
  from list_all2_related [OF ks(2) this] obtain pd where
      pd: "pd \<in> set pds" "current_policy lib (ps_defs w) (ps_binds w) ?k pd" by blast
  from pd(2) obtain nns where
      spec: "pl_equalDefinitionSpec lib (vap_Spec (pd_lastReconciledValue pd)) (vap_Spec d)"
    and nns: "set nns = {nn. \<exists>b. ps_binds w nn = Some b \<and> ([], bs_PolicyName (vapb_Spec b)) = ?k}"
      "list_all2 (current_binding lib (ps_binds w) pd) nns (pd_bindings pd)"
    using told by (auto simp: current_policy_def)
  have "\<exists>bi \<in> set (pd_bindings pd). pl_equalBindingSpec lib (vapb_Spec (bi_lastReconciledValue bi)) (vapb_Spec b) \<and>
      (pd_configurationError pd = None \<longrightarrow> bi_validator bi = Some (compile_validator lib (pd_lastReconciledValue pd)))"
    if b: "startup_binding s b" "bs_PolicyName (vapb_Spec b) = policy_name d" for b
  proof -
    let ?n = "([], binding_name b)"
    have told_b: "ps_binds w ?n = Some b" using w(3) b(1) by (simp add: informed_def startup_binding_def)
    then have "?n \<in> set nns" using nns(1) b(2) by auto
    from list_all2_related [OF nns(2) this] obtain bi where
      "bi \<in> set (pd_bindings pd)" "current_binding lib (ps_binds w) pd ?n bi" by blast
    with told_b show ?thesis by (auto simp: current_binding_def)
  qed
  with pd(1) spec show ?thesis by (auto simp: enforced_policy_def)
qed

lemma published_good:
  assumes "cel_reachable lib check s" and "ce_definitions s = Some pds"
  shows "good_snapshot lib s pds"
  using cel.reach_inv [OF assms(1)] assms(2) by (simp add: cel_inv_def)

end
