(* ===== verification/Evaluator_Startup.thy ===== *)
theory Evaluator_Startup
  imports Evaluator_Life
begin

text \<open>
  What the life of the evaluator is good for: the promise of its controllers, no request decided before the policies that
  were there at startup are enforced, no request decided outside of its run, and no deadlock on the way. An
  instance runs the whole system with one policy and one binding.
\<close>

section \<open>Properties\<close>

text \<open>
  (C8) The promise of the controllers' interface. Whenever one of the two controllers reports that it has synced,
  its reconciler has been called for every object of the initial list, and every object of it that has not
  changed since is what the policy controller was last told under its name.
\<close>

theorem synced_controllers_have_reconciled:
  assumes "cel_reachable lib check s"
  shows "(tk_HasSynced (ce_policies s) \<longrightarrow> informed (ce_policies s) (ps_defs (ce_ctl s))) \<and>
    (tk_HasSynced (ce_bindings s) \<longrightarrow> informed (ce_bindings s) (ps_binds (ce_ctl s)))"
proof -
  have inv: "tracked_inv policy_accessor policy_accepted ps_defs (ce_policies s) (ce_ctl s)"
    "tracked_inv binding_accessor binding_accepted ps_binds (ce_bindings s) (ce_ctl s)"
    using cel.reach_inv [OF assms] by (simp_all add: cel_inv_def)
  have "informed (ce_policies s) (ps_defs (ce_ctl s))" if "tk_HasSynced (ce_policies s)"
    using synced_handled [OF tracked_invD(2,4) [OF inv(1)] that]
    by (rule policy_rec.handled_informed [OF inv(1)]) (simp add: policy_accepted_def)
  moreover have "informed (ce_bindings s) (ps_binds (ce_ctl s))" if "tk_HasSynced (ce_bindings s)"
    using synced_handled [OF tracked_invD(2,4) [OF inv(2)] that]
    by (rule binding_rec.handled_informed [OF inv(2)]) (simp add: binding_accepted_def)
  ultimately show ?thesis by blast
qed

text \<open>
  (C2) No gap at startup. Once the evaluator has synced with a snapshot of policies that have match constraints,
  it answers without a panic and admits a request exactly when every policy in the snapshot permits it; and in the snapshot is
  every policy that was there when the cache was first filled and has not changed since, with all such bindings that name it.
\<close>

theorem startup_policies_enforced:
  assumes "DeepEqual_laws lib" and "cel_reachable lib check s" and "policies_HasSynced s"
    and "ce_definitions s = Some pds" and "constrained pds"
  shows "\<exists>r st. cel_Validate env s a = Some (r, st) \<and>
    (r = None \<longleftrightarrow> (\<forall>pd \<in> set pds. policy_permits env a pd)) \<and>
    (\<forall>d. startup_policy s d \<longrightarrow> (\<exists>pd \<in> set pds. enforced_policy lib s d pd))"
proof -
  note good = published_good [OF assms(2,4)]
  from good_snapshot_verdict [OF assms(1) good assms(5), of env a] obtain r st where
    "evaluator_Validate env True pds a = Some (r, st)" "r = None \<longleftrightarrow> (\<forall>pd \<in> set pds. policy_permits env a pd)" by blast
  with assms(3,4) good_snapshot_enforces [OF assms(1) good] show ?thesis by (auto simp: cel_Validate_def cel_HasSynced_def)
qed


text \<open>
  Before \<open>Run\<close> is called there is no snapshot; while it waits for the stop channel the goroutine that refreshes is
  alive; after it has returned neither controller answers.
\<close>

definition in_run :: "('obj, 'u) cel_sys \<Rightarrow> bool" where
  "in_run s \<longleftrightarrow>
     (ce_run s = RunIdle \<longrightarrow> ce_refresher s = RNotStarted \<and> ce_definitions s = None) \<and>
     (ce_run s = RunWaiting \<longrightarrow> ce_ctx s = CtxLive \<and> ce_refresher s \<notin> {RNotStarted, RDone}) \<and>
     (ce_run s = RunDone \<longrightarrow> (\<exists>r. tk_phase (ce_policies s) = TkReturned r))"

lemma returned_stable:
  "tracked_step accessor accepts reconciler n cx c w c' w' \<Longrightarrow> tk_phase c = TkReturned r \<Longrightarrow> tk_phase c' = TkReturned r"
  by (induction rule: tracked_step.induct) (auto simp: list_defs elim: tk_deliver_cases)

lemma in_run_step: "cel_step lib check s t \<Longrightarrow> in_run s \<Longrightarrow> in_run t"
  by (induction rule: cel_step.induct) (auto simp: in_run_def dest: returned_stable)

lemma in_run_start: "cel_starts s \<Longrightarrow> in_run s"
  by (auto simp: cel_starts_def in_run_def NewAdmissionController_def)

interpretation cel_runs: invariant_system cel_starts "cel_step lib check" in_run for lib check
  by unfold_locales (auto intro: in_run_start in_run_step)

text \<open>
  (C13) Outside of its run the evaluator refuses every request, whatever the policies say: before \<open>Run\<close> is
  called, and again once it has returned.
\<close>

theorem evaluator_refuses_outside_its_run:
  assumes "cel_reachable lib check s" and "ce_run s \<in> {RunIdle, RunDone}"
  shows "cel_Validate env s a =
    Some (Some (NewForbidden (ee_accessor env) a (Plain ''not yet ready to handle request'')), start_eval)"
proof -
  have "control_inv (ce_policies s)"
    using cel.reach_inv [OF assms(1)] by (simp add: cel_inv_def tracked_inv_def)
  moreover have "in_run s" by (rule cel_runs.reach_inv [OF assms(1)])
  ultimately have "\<not> cel_HasSynced s"
    using assms(2) control_invD(1,2) [of "ce_policies s"]
    by (auto simp: in_run_def cel_HasSynced_def policies_HasSynced_def tk_HasSynced_def async_HasSynced_def
        tk_notificationsDelivered_def split: delivered_func.splits)
  then show ?thesis by (simp add: cel_Validate_def evaluator_Validate_def)
qed

section \<open>The evaluator becomes ready\<close>

text \<open>There are finitely many policies and bindings, so a snapshot can be taken in every reachable state.\<close>

definition finitely_known :: "('obj, 'u) policy_sys \<Rightarrow> bool" where
  "finitely_known w \<longleftrightarrow> finite (dom (pcs_definitionInfo (ps_ctl w))) \<and> finite (dom (pcs_bindingInfos (ps_ctl w)))"

lemma dom_values_of: "dom (values_of m) = dom m"
  by (auto simp: values_of_def)

lemma finitely_known_step: "policy_step lib s t \<Longrightarrow> policy_inv lib s \<Longrightarrow> finitely_known s \<Longrightarrow> finitely_known t"
proof (induction rule: policy_step.induct)
  case (reconcile_definition name restMapper d s err c)
  then have "ctl_inv lib (ps_ctl s)" by (simp add: policy_inv_def)
  note E = reconcile_definition_effect [OF this reconcile_definition(2)]
  from E(4) reconcile_definition(4) show ?case
  proof (elim disjE conjE exE)
    fix e
    assume D: "pcs_definitionInfo c = (pcs_definitionInfo (ps_ctl s))(([], name) :=
        map_option (\<lambda>d'. \<lparr>di_configurationError = e, di_lastReconciledValue = d'\<rparr>) d)"
      and B: "pcs_bindingInfos c = (\<lambda>key. if key \<in> dependents (ps_ctl s) ([], name)
        then map_option (\<lambda>b. b\<lparr>bi_validator := None\<rparr>) (pcs_bindingInfos (ps_ctl s) key) else pcs_bindingInfos (ps_ctl s) key)"
    have "dom (pcs_bindingInfos c) = dom (pcs_bindingInfos (ps_ctl s))" unfolding B by (auto split: if_splits)
    moreover have "dom (pcs_definitionInfo c) \<subseteq> insert ([], name) (dom (pcs_definitionInfo (ps_ctl s)))"
      unfolding D by (auto split: if_splits)
    ultimately show ?thesis using reconcile_definition(4) by (auto simp: finitely_known_def intro: finite_subset)
  qed (simp add: finitely_known_def)
next
  case (reconcile_binding name s b)
  then have "index_inv (ps_ctl s)" "no_empty_sets (ps_ctl s)"
    by (simp_all add: policy_inv_def ctl_inv_def index_inv_def no_empty_sets_def)
  note E = reconcile_binding_effect [OF this, where lib = lib and name = name and b = b, OF refl]
  have "dom (pcs_bindingInfos (reconcilePolicyBinding lib [] name b (ps_ctl s))) \<subseteq> insert ([], name) (dom (pcs_bindingInfos (ps_ctl s)))"
    using E(5) by (auto split: if_splits)
  then show ?case using reconcile_binding(3) E(2) by (auto simp: finitely_known_def intro: finite_subset)
next
  case (refreshPolicies order s pds c)
  then have "ctl_inv lib (ps_ctl s)" by (simp add: policy_inv_def)
  from latest_policy_data_ok [OF this refreshPolicies(1)] refreshPolicies(2,4) show ?case
    by (auto simp: finitely_known_def dom_values_of [symmetric])
qed

lemma finitely_known_start: "policy_start w \<Longrightarrow> finitely_known w"
  by (simp add: policy_start_def finitely_known_def)

interpretation policy_finite: relative_invariant policy_start "policy_step lib" "policy_inv lib" finitely_known for lib
  by unfold_locales (auto intro: finitely_known_start finitely_known_step)

lemma snapshot_possible:
  assumes "policy_reachable lib w"
  shows "\<exists>order pds c. visits_policies order (ps_ctl w) \<and> latestPolicyData lib order (ps_ctl w) = Some (pds, c)"
proof -
  have fin: "finite (dom (pcs_definitionInfo (ps_ctl w)))" "finite (dom (pcs_bindingInfos (ps_ctl w)))"
    using policy_finite.reach_extra [OF assms] by (simp_all add: finitely_known_def)
  have ctl: "ctl_inv lib (ps_ctl w)" using reachable_policy_inv [OF assms] by (simp add: policy_inv_def)
  then have idx: "index_inv (ps_ctl w)" by (simp add: ctl_inv_def)
  have "\<exists>nns. distinct nns \<and> set nns = dependents (ps_ctl w) k" if "k \<in> dom (pcs_definitionInfo (ps_ctl w))" for k
  proof -
    from that idx have "k \<noteq> ([], [])" by (auto simp: index_inv_def)
    then have "dependents (ps_ctl w) k \<subseteq> dom (pcs_bindingInfos (ps_ctl w))"
      by (auto simp: index_dependents [OF idx] bound_to_def)
    from finite_subset [OF this fin(2)] show ?thesis using finite_distinct_list by blast
  qed
  then obtain f where f: "\<forall>k \<in> dom (pcs_definitionInfo (ps_ctl w)). distinct (f k) \<and> set (f k) = dependents (ps_ctl w) k"
    using bchoice [of _ "\<lambda>k nns. distinct nns \<and> set nns = dependents (ps_ctl w) k"] by blast
  obtain ks where ks: "distinct ks" "set ks = dom (pcs_definitionInfo (ps_ctl w))"
    using finite_distinct_list [OF fin(1)] by blast
  have order: "visits_policies (map (\<lambda>k. (k, f k)) ks) (ps_ctl w)"
    using f ks by (auto simp: visits_policies_def comp_def)
  from latest_policy_data_ok [OF ctl order] order show ?thesis by blast
qed


text \<open>
  From any point of its loop the refreshing goroutine comes to storing a snapshot by steps of its own; what it asks
  of the controllers stays true meanwhile, as it changes neither.
\<close>

definition only_refreshes :: "('obj, 'u) cel_sys \<Rightarrow> ('obj, 'u) cel_sys \<Rightarrow> bool" where
  "only_refreshes s t \<longleftrightarrow> ce_policies t = ce_policies s \<and> ce_bindings t = ce_bindings s \<and> ce_run t = ce_run s"

definition gets_ready :: "('obj, 'u) policy_lib \<Rightarrow> (validatingAdmissionPolicy \<Rightarrow> expressionWarning slice) option \<Rightarrow> ('obj, 'u) cel_sys \<Rightarrow> bool" where
  "gets_ready lib check s \<longleftrightarrow>
     (\<exists>t. (cel_step lib check)\<^sup>*\<^sup>* s t \<and> only_refreshes s t \<and> cel_HasSynced t)"

lemma gets_ready_step:
  "cel_step lib check s t \<Longrightarrow> only_refreshes s t \<Longrightarrow> gets_ready lib check t \<Longrightarrow> gets_ready lib check s"
  unfolding gets_ready_def only_refreshes_def by (metis converse_rtranclp_into_rtranclp)

lemma gets_ready_storing:
  assumes "policies_HasSynced s" and "ce_refresher s = RStoring pds"
  shows "gets_ready lib check s"
proof -
  let ?t = "s\<lparr>ce_definitions := Some pds, ce_refresher := RReady\<rparr>"
  have "cel_step lib check s ?t" by (rule cel_step.store_definitions [OF assms(2)])
  moreover have "cel_HasSynced ?t" using assms(1) by (simp add: cel_HasSynced_def policies_HasSynced_def)
  ultimately show ?thesis unfolding gets_ready_def by (intro exI [of _ ?t]) (auto simp: only_refreshes_def)
qed

lemma gets_ready_refresh:
  assumes "policies_HasSynced s" and "ce_refresher s = RRefresh" and "policy_reachable lib (ce_ctl s)"
  shows "gets_ready lib check s"
proof -
  from snapshot_possible [OF assms(3)] obtain order pds c where
    "visits_policies order (ps_ctl (ce_ctl s))" "latestPolicyData lib order (ps_ctl (ce_ctl s)) = Some (pds, c)" by blast
  from cel_step.latest_policies [OF assms(2) this] show ?thesis
    by (rule gets_ready_step) (use assms(1) in \<open>auto simp: only_refreshes_def policies_HasSynced_def intro: gets_ready_storing\<close>)
qed

lemma HasSynced_answers:
  "tk_HasSynced c \<Longrightarrow> tk_notificationsDelivered c" "tk_HasSynced c \<Longrightarrow> waited_for (tk_waiting c) = {}"
  by (simp_all add: tk_HasSynced_def async_HasSynced_def split: if_splits)

lemma gets_ready_asking:
  assumes "policies_HasSynced s" and "ce_ctx s = CtxLive" and "policy_reachable lib (ce_ctl s)"
  shows "ce_refresher s = RReady \<Longrightarrow> gets_ready lib check s"
    and "ce_refresher s = RBindingsDelivered \<Longrightarrow> gets_ready lib check s"
    and "ce_refresher s = RPoliciesSynced \<Longrightarrow> gets_ready lib check s"
    and "ce_refresher s = RPoliciesDelivered \<Longrightarrow> gets_ready lib check s"
    and "ce_refresher s = RAsk \<Longrightarrow> gets_ready lib check s"
proof -
  note a = assms(1) [unfolded policies_HasSynced_def]
  note answers = HasSynced_answers [OF conjunct1 [OF a]] HasSynced_answers [OF conjunct2 [OF a]]
  have refreshing: "gets_ready lib check (s\<lparr>ce_refresher := RRefresh\<rparr>)"
    by (rule gets_ready_refresh) (use assms in \<open>simp_all add: policies_HasSynced_def\<close>)
  have go: "gets_ready lib check u" if "cel_step lib check u (s\<lparr>ce_refresher := r\<rparr>)" "gets_ready lib check (s\<lparr>ce_refresher := r\<rparr>)"
    "u = s\<lparr>ce_refresher := q\<rparr>" for u r q
    by (rule gets_ready_step [OF that(1) _ that(2)]) (simp add: that(3) only_refreshes_def)
  have 1: "gets_ready lib check (s\<lparr>ce_refresher := RReady\<rparr>)"
    using cel_step.refresh_or_stop [of "s\<lparr>ce_refresher := RReady\<rparr>" lib check] assms(2) by (intro go [OF _ refreshing]) simp_all
  have 2: "gets_ready lib check (s\<lparr>ce_refresher := RBindingsDelivered\<rparr>)"
    using cel_step.ask_bindings [of "s\<lparr>ce_refresher := RBindingsDelivered\<rparr>" lib check] answers by (intro go [OF _ 1]) simp_all
  have 3: "gets_ready lib check (s\<lparr>ce_refresher := RPoliciesSynced\<rparr>)"
    using cel_step.ask_bindings_delivered [of "s\<lparr>ce_refresher := RPoliciesSynced\<rparr>" lib check] answers by (intro go [OF _ 2]) simp_all
  have 4: "gets_ready lib check (s\<lparr>ce_refresher := RPoliciesDelivered\<rparr>)"
    using cel_step.ask_policies [of "s\<lparr>ce_refresher := RPoliciesDelivered\<rparr>" lib check] answers by (intro go [OF _ 3]) simp_all
  have 5: "gets_ready lib check (s\<lparr>ce_refresher := RAsk\<rparr>)"
    using cel_step.ask_policies_delivered [of "s\<lparr>ce_refresher := RAsk\<rparr>" lib check] answers by (intro go [OF _ 4]) simp_all
  have same: "s\<lparr>ce_refresher := r\<rparr> = s" if "ce_refresher s = r" for r using that by (cases s) simp
  show "ce_refresher s = RReady \<Longrightarrow> gets_ready lib check s" "ce_refresher s = RBindingsDelivered \<Longrightarrow> gets_ready lib check s"
    "ce_refresher s = RPoliciesSynced \<Longrightarrow> gets_ready lib check s" "ce_refresher s = RPoliciesDelivered \<Longrightarrow> gets_ready lib check s"
    "ce_refresher s = RAsk \<Longrightarrow> gets_ready lib check s"
    using 1 2 3 4 5 same by metis+
qed

text \<open>
  (C14) The wait at startup is no deadlock. While \<open>Run\<close> waits for the stop channel, in every state in which both
  controllers have synced, steps of the refreshing goroutine alone lead to a state in which the evaluator has synced; the
  snapshot it needs can always be taken, without a panic.
\<close>

theorem evaluator_gets_ready:
  assumes "cel_reachable lib check s" and "ce_run s = RunWaiting" and "policies_HasSynced s"
  shows "\<exists>t. (cel_step lib check)\<^sup>*\<^sup>* s t \<and> only_refreshes s t \<and> cel_HasSynced t"
proof -
  have live: "ce_ctx s = CtxLive" "ce_refresher s \<notin> {RNotStarted, RDone}"
    using cel_runs.reach_inv [OF assms(1)] assms(2) by (simp_all add: in_run_def)
  have w: "policy_reachable lib (ce_ctl s)" using cel.reach_inv [OF assms(1)] by (simp add: cel_inv_def)
  have "gets_ready lib check s"
    using live(2) gets_ready_asking [OF assms(3) live(1) w, of check] gets_ready_refresh [OF assms(3) _ w]
      gets_ready_storing [OF assms(3)]
    by (cases "ce_refresher s") blast+
  then show ?thesis by (simp add: gets_ready_def)
qed

section \<open>Instance: one policy with one binding\<close>

text \<open>
  A run of a controller with one object: \<open>Run\<close> registers, the informer lists the object and has synced, the
  notification is delivered, and the worker reconciles the key.
\<close>

abbreviation tracked_moves ::
  "'obj accessor \<Rightarrow> (objmeta \<Rightarrow> 'obj \<Rightarrow> bool) \<Rightarrow> ('obj, 'w) reconciles \<Rightarrow> nat \<Rightarrow> 'obj tracked_ctl \<times> 'w \<Rightarrow> 'obj tracked_ctl \<times> 'w \<Rightarrow> bool" where
  "tracked_moves accessor accepts reconciler n \<equiv>
     (\<lambda>x y. tracked_step accessor accepts reconciler n CtxLive (fst x) (snd x) (fst y) (snd y))\<^sup>*\<^sup>*"

lemma tracked_move:
  "tracked_moves accessor accepts reconciler n x (c, w) \<Longrightarrow> tracked_step accessor accepts reconciler n CtxLive c w c' w' \<Longrightarrow>
   c'' = c' \<Longrightarrow> tracked_moves accessor accepts reconciler n x (c'', w')"
  by (erule rtranclp.rtrancl_into_rtrancl) simp

definition one_listed :: "string \<Rightarrow> 'obj \<Rightarrow> 'obj tracked_ctl" where
  "one_listed k ob = (tracked_New True)\<lparr>tk_store := \<lparr>ix_items = [(k, ob)], ix_hasNamespaceIndex = True, ix_err = (\<lambda>_. None)\<rparr>,
     tk_informerSynced := True, tk_registered := True, tk_notes := [(AddNote (Object ob), True)], tk_count := 1,
     tk_delivered := OfRegistration, tk_phase := TkRunning, tk_initial := Some [k \<mapsto> ob]\<rparr>"

lemma one_listed_moves:
  assumes "accessor ob = Some m" and "accepts m ob" and "meta_key m = k"
  shows "tracked_moves accessor accepts reconciler n (tracked_New True, w) (one_listed k ob, w)"
proof -
  let ?c1 = "(tracked_New True)\<lparr>tk_phase := TkRegistering\<rparr> :: 'a tracked_ctl"
  let ?c2 = "?c1\<lparr>tk_registered := True, tk_phase := TkRegistered\<rparr>"
  let ?c3 = "?c2\<lparr>tk_delivered := OfRegistration, tk_phase := TkSyncing\<rparr>"
  let ?c4 = "?c3\<lparr>tk_store := \<lparr>ix_items = [(k, ob)], ix_hasNamespaceIndex = True, ix_err = (\<lambda>_. None)\<rparr>,
    tk_notes := [(AddNote (Object ob), True)], tk_count := 1, tk_touched := {k}\<rparr>"
  let ?c5 = "?c4\<lparr>tk_informerSynced := True, tk_initial := Some [k \<mapsto> ob], tk_touched := {}\<rparr>"
  let ?M = "tracked_moves accessor accepts reconciler n (tracked_New True, w)"
  have "?M (tracked_New True, w)" by simp
  then have "?M (?c1, w)"
    by (rule tracked_move) (rule tracked_step.run_begin, simp_all add: tracked_New_def)
  then have "?M (?c2, w)"
    by (rule tracked_move) (rule tracked_step.register, simp_all add: tracked_New_def tk_register_def tk_list_done_def)
  then have "?M (?c3, w)"
    by (rule tracked_move) (rule tracked_step.store_HasSynced, simp_all)
  then have "?M (?c4, w)"
    by (rule tracked_move)
      (rule tracked_step.list_add [where ob = ob and m = m], simp_all add: assms(1,2) assms(3) tracked_New_def tk_cur_def list_defs set_item_def single_Start_def)
  then have "?M (?c5, w)"
    by (rule tracked_move) (rule tracked_step.informer_synced, simp_all add: tracked_New_def list_defs tk_cur_def)
  then show ?thesis
    by (rule tracked_move)
      (rule tracked_step.sync_done, simp_all add: one_listed_def tracked_New_def)
qed

definition one_reconciled :: "string \<Rightarrow> 'obj \<Rightarrow> 'obj tracked_ctl" where
  "one_reconciled k ob = (one_listed k ob)\<lparr>
     tk_queue := NewRateLimitingQueue\<lparr>processing := {Key k}\<rparr>, tk_notes := [], tk_count := 0, tk_waiting := Some {},
     tk_wpc := (\<lambda>_. TNotStarted)(0 := TFinished (Key k)), tk_seen := {k}\<rparr>"

lemma one_reconciled_moves:
  assumes ob: "accessor ob = Some m" "accepts m ob" "meta_key m = k" and k: "cluster_named m"
    and run: "reconciler [] k (Some ob) w None w'" and n: "0 < n"
  shows "tracked_moves accessor accepts reconciler n (tracked_New True, w) (one_reconciled k ob, w')"
proof -
  have name: "om_Name m = k" "CHR ''/'' \<notin> set k" using k ob(3) by (auto simp: cluster_named_def meta_key_def)
  have split: "SplitMetaNamespaceKey k = Inr ([], k)"
    using split_meta_key [of m] k ob(3) name by (simp add: cluster_named_def)
  let ?c0 = "one_listed k ob"
  let ?c1 = "?c0\<lparr>tk_queue := NewRateLimitingQueue\<lparr>dirty := {Key k}, queue := [Key k]\<rparr>, tk_waiting := Some {k},
    tk_notes := [], tk_count := 0\<rparr>"
  let ?c2 = "tk_move 0 TIdle ?c1"
  let ?c3 = "?c1\<lparr>tk_queue := NewRateLimitingQueue\<lparr>processing := {Key k}\<rparr>, tk_wpc := (\<lambda>_. TNotStarted)(0 := TGot (Key k))\<rparr>"
  let ?c4 = "tk_move 0 (TRead k [] k (Some ob)) ?c3"
  let ?c5 = "tk_move 0 (TReconciled k None) (?c3\<lparr>tk_seen := {k}\<rparr>)"
  let ?c6 = "tk_move 0 (TSettled k) ?c5"
  let ?M = "tracked_moves accessor accepts reconciler n (tracked_New True, w)"
  have "?M (?c0, w)" by (rule one_listed_moves [where m = m]) (rule ob)+
  then have "?M (?c1, w)"
    by (rule tracked_move)
      (rule tracked_step.deliver, simp_all add: ob one_listed_def tracked_New_def tk_deliver_def tracked_note_eq
        single_Finished_def wq_Add_def NewRateLimitingQueue_def async_Start_def Let_def)
  then have "?M (?c2, w)"
    by (rule tracked_move) (rule tracked_step.worker_start [where t = 0], simp_all add: one_listed_def tracked_New_def n)
  then have "?M (?c3, w)"
    by (rule tracked_move)
      (rule tracked_step.worker_get [where t = 0 and item = "Key k"], simp_all add: one_listed_def tracked_New_def
        wq_Get.simps NewRateLimitingQueue_def)
  then have "?M (?c4, w)"
    by (rule tracked_move)
      (rule tracked_step.worker_fetch [where t = 0 and k = k], simp_all add: one_listed_def tracked_New_def fetch_def split
        lister_Get_def NewLister_def get_or_not_found_def GetByKey_def)
  then have "?M (?c5, w')"
    by (rule tracked_move)
      (rule tracked_step.worker_reconcile [where t = 0 and k = k and namespace = "[]" and name = k and newObj = "Some ob"
        and err = None], simp_all add: run one_listed_def tracked_New_def)
  then have "?M (?c6, w')"
    by (rule tracked_move)
      (rule tracked_step.worker_settle [where t = 0 and k = k and err = None], simp_all add: after_reconcile_def Forget_def
        NewRateLimitingQueue_def fun_upd_idem)
  then show ?thesis
    by (rule tracked_move)
      (rule tracked_step.worker_finish [where t = 0 and k = k], simp_all add: one_reconciled_def async_Finished_def
        NewRateLimitingQueue_def one_listed_def tracked_New_def)
qed

lemma one_reconciled_synced:
  "tk_HasSynced (one_reconciled k ob)" "unchanged_object (one_reconciled k ob) k ob"
  "tk_notificationsDelivered (one_reconciled k ob)" "waited_for (tk_waiting (one_reconciled k ob)) = {}"
  by (simp_all add: one_reconciled_def one_listed_def tracked_New_def tk_HasSynced_def tk_notificationsDelivered_def
      async_HasSynced_def single_HasSynced_def unchanged_object_def)

lemma policies_moves:
  "tracked_moves policy_accessor policy_accepted (reconciles_policy lib check) controller_workers (c, w) y \<Longrightarrow>
   ce_ctx s = CtxLive \<Longrightarrow> ce_policies s = c \<Longrightarrow> ce_ctl s = w \<Longrightarrow>
   (cel_step lib check)\<^sup>*\<^sup>* s (s\<lparr>ce_policies := fst y, ce_ctl := snd y\<rparr>)"
proof (induction rule: rtranclp_induct)
  case (step y z)
  then have "cel_step lib check (s\<lparr>ce_policies := fst y, ce_ctl := snd y\<rparr>) (s\<lparr>ce_policies := fst z, ce_ctl := snd z\<rparr>)"
    using cel_step.policies [of lib check "s\<lparr>ce_policies := fst y, ce_ctl := snd y\<rparr>" "fst z" "snd z"] by simp
  with step show ?case by simp
qed (cases s, simp)

lemma bindings_moves:
  "tracked_moves binding_accessor binding_accepted (reconciles_binding lib) controller_workers (c, w) y \<Longrightarrow>
   ce_ctx s = CtxLive \<Longrightarrow> ce_bindings s = c \<Longrightarrow> ce_ctl s = w \<Longrightarrow>
   (cel_step lib check)\<^sup>*\<^sup>* s (s\<lparr>ce_bindings := fst y, ce_ctl := snd y\<rparr>)"
proof (induction rule: rtranclp_induct)
  case (step y z)
  then have "cel_step lib check (s\<lparr>ce_bindings := fst y, ce_ctl := snd y\<rparr>) (s\<lparr>ce_bindings := fst z, ce_ctl := snd z\<rparr>)"
    using cel_step.bindings [where s = "s\<lparr>ce_bindings := fst y, ce_ctl := snd y\<rparr>" and c = "fst z" and w = "snd z"] by simp
  with step show ?case by simp
qed (cases s, simp)


abbreviation comp_policy :: validatingAdmissionPolicy where
  "comp_policy \<equiv> ex_policy (Some ex_resources) Fail"

definition comp_synced :: "(str_map, unit) policyController \<Rightarrow> (str_map, unit) cel_sys" where
  "comp_synced c = \<lparr>ce_policies = one_reconciled ''p'' comp_policy, ce_bindings = one_reconciled ''b'' ex_binding,
     ce_ctl = comp_state\<lparr>ps_ctl := c, ps_published := Some comp_pds\<rparr>, ce_definitions = Some comp_pds,
     ce_refresher = RReady, ce_ctx = CtxLive, ce_run = RunWaiting\<rparr>"

definition comp_asking :: "(str_map, unit) cel_sys" where
  "comp_asking = \<lparr>ce_policies = one_reconciled ''p'' comp_policy, ce_bindings = one_reconciled ''b'' ex_binding,
     ce_ctl = comp_state, ce_definitions = None, ce_refresher = RAsk, ce_ctx = CtxLive, ce_run = RunWaiting\<rparr>"

lemma comp_reconciled:
  "reconciles_policy comp_lib None [] ''p'' (Some comp_policy) comp_start None
     (comp_start\<lparr>ps_ctl := comp_ctl, ps_defs := [([], ''p'') \<mapsto> comp_policy]\<rparr>)"
  "reconciles_binding comp_lib [] ''b'' (Some ex_binding)
     (comp_start\<lparr>ps_ctl := comp_ctl, ps_defs := [([], ''p'') \<mapsto> comp_policy]\<rparr>) None comp_state"
proof -
  have "reconcilePolicyDefinitionSpec comp_lib snap_mapper [] ''p'' (Some comp_policy) (ps_ctl comp_start) = Some (None, comp_ctl)"
    by (simp add: reconcilePolicyDefinitionSpec_def comp_start_def getNamespaceName_def spec_unchanged_def release_old_param_def
        old_param_kind_def reset_validators_def set_definition_def ex_policy_def store_definition_def comp_ctl_def Let_def)
  then have "reconcilePolicyDefinition comp_lib snap_mapper None [] ''p'' (Some comp_policy) (ps_ctl comp_start) = Some (None, None, comp_ctl)"
    by (simp add: reconcilePolicyDefinition_def)
  from reconciles_policy.intros [OF this] show
    "reconciles_policy comp_lib None [] ''p'' (Some comp_policy) comp_start None
       (comp_start\<lparr>ps_ctl := comp_ctl, ps_defs := [([], ''p'') \<mapsto> comp_policy]\<rparr>)"
    by (simp add: comp_start_def)
  show "reconciles_binding comp_lib [] ''b'' (Some ex_binding)
     (comp_start\<lparr>ps_ctl := comp_ctl, ps_defs := [([], ''p'') \<mapsto> comp_policy]\<rparr>) None comp_state"
    using reconciles_binding.intros [of comp_lib "[]" "''b''" "Some ex_binding"
        "comp_start\<lparr>ps_ctl := comp_ctl, ps_defs := [([], ''p'') \<mapsto> comp_policy]\<rparr>"]
    by (simp add: comp_state_def comp_start_def)
qed

lemma comp_objects:
  "policy_accessor comp_policy = Some (object_accessor (vap_ObjectMeta comp_policy))"
  "binding_accessor ex_binding = Some (object_accessor (vapb_ObjectMeta ex_binding))"
  "meta_key (object_accessor (vap_ObjectMeta comp_policy)) = ''p''"
  "meta_key (object_accessor (vapb_ObjectMeta ex_binding)) = ''b''"
  "cluster_named (object_accessor (vap_ObjectMeta comp_policy))"
  "cluster_named (object_accessor (vapb_ObjectMeta ex_binding))"
  "policy_accepted (object_accessor (vap_ObjectMeta comp_policy)) comp_policy"
  "binding_accepted (object_accessor (vapb_ObjectMeta ex_binding)) ex_binding"
  by (simp_all add: policy_accessor_def binding_accessor_def object_accessor_def ex_policy_def ex_binding_def ex_object_meta_def
      meta_key_def cluster_named_def policy_accepted_def binding_accepted_def)

lemma comp_latest: "\<exists>c. latestPolicyData comp_lib [(([], ''p''), [([], ''b'')])] (ps_ctl comp_state) = Some (comp_pds, c)"
proof -
  have "\<forall>d \<in> ran (ps_defs comp_state). ps_MatchConstraints (vap_Spec d) \<noteq> None"
    by (simp add: comp_state_def ex_policy_def)
  from snapshot_well_formed [OF comp_laws comp_reachable comp_visits this] show ?thesis
    unfolding comp_pds_def by auto
qed


lemma comp_asking_moves: "(cel_step comp_lib None)\<^sup>*\<^sup>* (NewAdmissionController True True) comp_asking"
proof -
  let ?step = "cel_step comp_lib None"
  let ?w1 = "comp_start\<lparr>ps_ctl := comp_ctl, ps_defs := [([], ''p'') \<mapsto> comp_policy]\<rparr>"
  define s1 :: "(str_map, unit) cel_sys" where
    "s1 = (NewAdmissionController True True)\<lparr>ce_ctx := CtxLive, ce_refresher := RAsk, ce_run := RunWaiting\<rparr>"
  define s2 where "s2 = s1\<lparr>ce_policies := one_reconciled ''p'' comp_policy, ce_ctl := ?w1\<rparr>"
  have start: "ce_ctx s1 = CtxLive" "ce_policies s1 = tracked_New True" "ce_ctl s1 = comp_start" "ce_bindings s1 = tracked_New True"
    by (simp_all add: s1_def NewAdmissionController_def comp_start_def)
  have n: "0 < controller_workers" by (simp add: controller_workers_def tracked_options_def)
  have "?step (NewAdmissionController True True) s1"
    unfolding s1_def by (rule cel_step.run) (simp add: NewAdmissionController_def)
  then have 1: "?step\<^sup>*\<^sup>* (NewAdmissionController True True) s1" by blast
  have "tracked_moves policy_accessor policy_accepted (reconciles_policy comp_lib None) controller_workers
      (tracked_New True, comp_start) (one_reconciled ''p'' comp_policy, ?w1)"
    by (rule one_reconciled_moves [where m = "object_accessor (vap_ObjectMeta comp_policy)"])
      (rule comp_objects comp_reconciled n)+
  from policies_moves [OF this start(1-3)] have 2: "?step\<^sup>*\<^sup>* s1 s2" by (simp add: s2_def)
  have "tracked_moves binding_accessor binding_accepted (reconciles_binding comp_lib) controller_workers
      (tracked_New True, ?w1) (one_reconciled ''b'' ex_binding, comp_state)"
    by (rule one_reconciled_moves [where m = "object_accessor (vapb_ObjectMeta ex_binding)"])
      (rule comp_objects comp_reconciled n)+
  from bindings_moves [OF this, where s = s2] start have "?step\<^sup>*\<^sup>* s2 comp_asking"
    by (simp add: s2_def s1_def comp_asking_def NewAdmissionController_def)
  with 1 2 show ?thesis by (meson rtranclp_trans)
qed

lemma comp_asking_facts:
  "ce_refresher comp_asking = RAsk" "ce_policies comp_asking = one_reconciled ''p'' comp_policy"
  "ce_bindings comp_asking = one_reconciled ''b'' ex_binding" "ce_ctl comp_asking = comp_state" "ce_ctx comp_asking = CtxLive"
  "ce_run comp_asking = RunWaiting"
  by (simp_all add: comp_asking_def)

lemma comp_synced_moves: "\<exists>c. (cel_step comp_lib None)\<^sup>*\<^sup>* comp_asking (comp_synced c)"
proof -
  let ?step = "cel_step comp_lib None"
  let ?at = "\<lambda>r. comp_asking\<lparr>ce_refresher := r\<rparr>"
  note facts = comp_asking_facts one_reconciled_synced
  have "?step comp_asking (?at RPoliciesDelivered)"
    by (rule cel_step.ask_policies_delivered) (simp_all add: facts)
  moreover have "?step (?at RPoliciesDelivered) (?at RPoliciesSynced)"
    using cel_step.ask_policies [of "?at RPoliciesDelivered" comp_lib None] by (simp add: facts)
  moreover have "?step (?at RPoliciesSynced) (?at RBindingsDelivered)"
    using cel_step.ask_bindings_delivered [of "?at RPoliciesSynced" comp_lib None] by (simp add: facts)
  moreover have "?step (?at RBindingsDelivered) (?at RReady)"
    using cel_step.ask_bindings [of "?at RBindingsDelivered" comp_lib None] by (simp add: facts)
  moreover have "?step (?at RReady) (?at RRefresh)"
    using cel_step.refresh_or_stop [of "?at RReady" comp_lib None] by (simp add: facts)
  ultimately have 1: "?step\<^sup>*\<^sup>* comp_asking (?at RRefresh)"
    by (meson converse_rtranclp_into_rtranclp rtranclp.rtrancl_refl)
  obtain c where c: "latestPolicyData comp_lib [(([], ''p''), [([], ''b'')])] (ps_ctl comp_state) = Some (comp_pds, c)"
    using comp_latest by blast
  let ?s = "comp_asking\<lparr>ce_ctl := comp_state\<lparr>ps_ctl := c, ps_published := Some comp_pds\<rparr>, ce_refresher := RStoring comp_pds\<rparr>"
  have 2: "?step (?at RRefresh) ?s"
    using cel_step.latest_policies [where s = "?at RRefresh" and lib = comp_lib and check = None] comp_visits c
    by (simp add: facts)
  have "?step ?s (comp_synced c)"
    using cel_step.store_definitions [of ?s comp_pds comp_lib None] by (simp add: comp_synced_def comp_asking_def)
  with 1 2 show ?thesis by (meson rtranclp.rtrancl_into_rtrancl)
qed

lemma comp_reach: "(cel_step comp_lib None)\<^sup>*\<^sup>* (NewAdmissionController True True) s \<Longrightarrow> cel_reachable comp_lib None s"
  by (induction rule: rtranclp_induct) (auto intro: reach_start reach_step simp: cel_starts_def)

lemma comp_synced_reachable: "\<exists>c. cel_reachable comp_lib None (comp_synced c)"
proof -
  obtain c where "(cel_step comp_lib None)\<^sup>*\<^sup>* comp_asking (comp_synced c)" using comp_synced_moves by blast
  with comp_asking_moves have "(cel_step comp_lib None)\<^sup>*\<^sup>* (NewAdmissionController True True) (comp_synced c)"
    by (rule rtranclp_trans)
  then show ?thesis using comp_reach by blast
qed

lemma comp_constrained: "constrained comp_pds"
proof -
  have "\<forall>d \<in> ran (ps_defs comp_state). ps_MatchConstraints (vap_Spec d) \<noteq> None"
    by (simp add: comp_state_def ex_policy_def)
  from snapshot_well_formed [OF comp_laws comp_reachable comp_visits this] have "list_all well_formed_policy comp_pds"
    unfolding comp_pds_def by auto
  then show ?thesis by (auto simp: constrained_def list_all_iff well_formed_policy_def)
qed

lemma comp_synced_facts:
  "cel_HasSynced (comp_synced c)" "ce_definitions (comp_synced c) = Some comp_pds"
  "startup_policy (comp_synced c) comp_policy" "startup_binding (comp_synced c) ex_binding"
  "tk_HasSynced (ce_policies (comp_synced c))" "ps_defs (ce_ctl (comp_synced c)) = [([], ''p'') \<mapsto> comp_policy]"
  "policies_HasSynced (comp_synced c)"
proof -
  have names: "policy_name comp_policy = ''p''" "binding_name ex_binding = ''b''"
    by (simp_all add: ex_policy_def ex_binding_def ex_object_meta_def)
  show "cel_HasSynced (comp_synced c)" "ce_definitions (comp_synced c) = Some comp_pds"
    "tk_HasSynced (ce_policies (comp_synced c))" "policies_HasSynced (comp_synced c)"
    by (simp_all add: comp_synced_def cel_HasSynced_def policies_HasSynced_def one_reconciled_synced)
  show "startup_policy (comp_synced c) comp_policy" "startup_binding (comp_synced c) ex_binding"
    unfolding startup_policy_def startup_binding_def names by (simp_all add: comp_synced_def one_reconciled_synced)
  show "ps_defs (ce_ctl (comp_synced c)) = [([], ''p'') \<mapsto> comp_policy]"
    by (simp add: comp_synced_def comp_state_def)
qed

theorem startup_policies_enforced_witness:
  "\<exists>s r st pd. cel_reachable comp_lib None s \<and> startup_policy s comp_policy \<and>
     cel_Validate ex_eval_env s (ex_deployment ''CREATE'') = Some (r, st) \<and>
     pd \<in> set comp_pds \<and> enforced_policy comp_lib s comp_policy pd \<and>
     (r = None \<longrightarrow> policy_permits ex_eval_env (ex_deployment ''CREATE'') pd)"
proof -
  obtain c where c: "cel_reachable comp_lib None (comp_synced c)" using comp_synced_reachable by blast
  from startup_policies_enforced [OF comp_laws this comp_synced_facts(7,2) comp_constrained, of ex_eval_env "ex_deployment ''CREATE''"]
  obtain r st where r: "cel_Validate ex_eval_env (comp_synced c) (ex_deployment ''CREATE'') = Some (r, st)"
      "r = None \<longleftrightarrow> (\<forall>pd \<in> set comp_pds. policy_permits ex_eval_env (ex_deployment ''CREATE'') pd)"
    and p: "\<forall>d. startup_policy (comp_synced c) d \<longrightarrow> (\<exists>pd \<in> set comp_pds. enforced_policy comp_lib (comp_synced c) d pd)"
    by auto
  from p comp_synced_facts(3) obtain pd where "pd \<in> set comp_pds" "enforced_policy comp_lib (comp_synced c) comp_policy pd"
    by blast
  with r c comp_synced_facts(3) show ?thesis by blast
qed

theorem synced_controllers_have_reconciled_witness:
  "\<exists>s. cel_reachable comp_lib None s \<and> tk_HasSynced (ce_policies s) \<and> tk_handled (ce_policies s)"
proof -
  obtain c where c: "cel_reachable comp_lib None (comp_synced c)" using comp_synced_reachable by blast
  from synced_controllers_have_reconciled [OF this] show ?thesis
    using c comp_synced_facts(5) [of c] by (auto simp: informed_def)
qed

theorem evaluator_refuses_outside_its_run_witness:
  "cel_Validate ex_eval_env (NewAdmissionController True True) (ex_deployment ''CREATE'') =
     Some (Some (NewForbidden (ee_accessor ex_eval_env) (ex_deployment ''CREATE'') (Plain ''not yet ready to handle request'')), start_eval)"
proof (rule evaluator_refuses_outside_its_run)
  show "cel_reachable comp_lib None (NewAdmissionController True True)"
    by (rule reach_start) (auto simp: cel_starts_def)
qed (simp add: NewAdmissionController_def)


theorem evaluator_gets_ready_witness:
  "cel_reachable comp_lib None comp_asking \<and> \<not> cel_HasSynced comp_asking \<and>
   (\<exists>t. (cel_step comp_lib None)\<^sup>*\<^sup>* comp_asking t \<and> cel_HasSynced t)"
proof -
  have "policies_HasSynced comp_asking" by (simp add: policies_HasSynced_def comp_asking_facts one_reconciled_synced)
  from evaluator_gets_ready [OF comp_reach [OF comp_asking_moves] comp_asking_facts(6) this]
  show ?thesis using comp_reach [OF comp_asking_moves] by (auto simp: cel_HasSynced_def comp_asking_def)
qed

end
