(* ===== verification/Spec2Isabelle.thy ===== *)
theory Spec2Isabelle
  imports Main_Command Schema_Resolver Controller_Properties Interceptor_Command Gentls Informer_Factory
    Client_Properties Type_Checker Deep_Copy Evaluator_Startup
begin

text \<open>
  A verification library for the CEL admission polyfill: a webhook server that lets clusters without
  the native \<open>ValidatingAdmissionPolicy\<close> API evaluate such policies from custom resources, together
  with the tools of the repository.

  \<^bold>\<open>The program and how its parts interact.\<close> The command \<open>cmd/cel-admission-polyfill\<close> builds clients,
  replaces the policy client of the clientset by one that reads custom resources
  (\<open>injected_client.go\<close> over \<open>transformed_client.go\<close>, over the generated REST client), and builds the CEL
  plugin (\<open>plugin.go\<close>), which wraps the vendored policy evaluator and gets its schemas from the
  caching resolver (\<open>schemaresolver/resolver.go\<close>) and its resources from a lazy REST mapper. The
  evaluator runs two synced controllers, one for policies and one for bindings; their reconcilers build, in the
  policy controller, what a snapshot with compiled validators is made of, and write the type checker's warnings to
  the status of a policy. A goroutine waits for both and then publishes
  a snapshot every second; a request is matched and evaluated against the published one, and refused while there
  is none. The plugin
  is served by the webhook (\<open>pkg/webhook/server.go\<close>) through the composite validator
  (\<open>pkg/validator/multi.go\<close>). \<open>pkg/controller\<close> holds a generic controller on a rate-limited work queue
  and generic listers; \<open>pkg/generated\<close> holds the clientset, its fake, listers and the informer
  factory, \<open>pkg/apis\<close> the API types with their deep copies and registration; \<open>cmd/interceptor\<close> is a
  proxy that rewrites the native API group to the custom one; \<open>pkg/pki\<close> and \<open>cmd/gentls\<close> make
  certificates.

  \<^bold>\<open>Theories, by source.\<close>
  \<^item> \<open>Prelude\<close>, \<open>Go_Strings\<close>, \<open>Go_Path\<close>, \<open>Go_Heap\<close>, \<open>Admission\<close>: Go errors and slices, transition systems,
    the string and path functions used, a heap of cells with pointers, slices and maps, and the
    vendored admission vocabulary (attributes, the validation interface, status errors).
  \<^item> \<open>Multi_Validator\<close> (\<open>multi.go\<close>): the loops of \<open>Handles\<close> and \<open>Validate\<close>. Accepts exactly if all
    validators that handle the operation do; rejects with the first error and stops there.
  \<^item> \<open>Webhook\<close> (\<open>server.go\<close>): parsing, decoding, the handler and its reply as functions of the request
    and a world; \<open>Run\<close> as a step relation over its two contexts and its listener goroutine, with the steps from outside
    apart from its own. Replies are the validator's verdicts, undecodable objects never reach the validator, \<open>Run\<close> returns
    when it is told to, but never with the listener's error.
  \<^item> \<open>Plugin\<close> (\<open>plugin.go\<close>, and the polling loop of the vendored \<open>wait\<close> package): the evaluator is
    asked at the first polled moment at which it has synced, and not at all on policy resources.
  \<^item> \<open>Main_Command\<close> (\<open>cel-admission-polyfill/main.go\<close>): client construction, the served chain, and
    the goroutines with their wait group; they end together and \<open>main\<close> returns after them.
  \<^item> \<open>Schema_Resolver\<close> (\<open>resolver.go\<close>): the cache, its purging handlers, and an interleaving
    of callers, CRD events and changes of discovery under the read-write lock; freshness of what is
    returned, and what CRD events really purge.
  \<^item> \<open>Workqueue\<close> (vendored \<open>workqueue\<close>): queue, delaying and rate-limiting queue; the contract
    \<open>work_queue\<close>; bounds of the back-off.
  \<^item> \<open>Lister\<close> (\<open>lister.go\<close> and the generated listers, over the vendored indexer): exactness of \<open>Get\<close> and
    \<open>List\<close> for namespaced and cluster-wide objects.
  \<^item> \<open>Controller\<close>, \<open>Controller_Progress\<close>, \<open>Controller_Properties\<close> (\<open>generic.go\<close>): event handlers, reconciliation,
    workers and the life of \<open>Run\<close>, as steps of one system with the queue and the informer's cache; convergence,
    progress by the controller's own steps with a measure of what is left to do, mutual exclusion of workers per
    key, clean return.
  \<^item> \<open>Interceptor\<close>, \<open>Interceptor_Command\<close> (\<open>interceptor/main.go\<close>): request and response rewriting,
    with the line scanner; and the command around it, from its configuration to its connection.
  \<^item> \<open>Rest_Mapper\<close>, \<open>Kind_Lookup\<close> (the loader of \<open>main.go\<close> over the vendored mappers): from discovery to the resource of
    a kind and to the kinds of a resource; the goroutine that is to refresh it changes nothing, and the core group stands
    for any group.
  \<^item> \<open>Type_Checker\<close> (vendored \<open>typechecking.go\<close>): the kinds a policy is checked against and its warnings, with the schemas of
    the caching resolver and the kinds of the command's mapper; the first check of a spec is final.
  \<^item> \<open>Policy_Matcher\<close> (vendored \<open>matching\<close> and \<open>predicates\<close>): selectors, rules and exclusions; a policy
    matches what its match resources select, whatever its match policy says.
  \<^item> \<open>Cel_Validator\<close> (vendored \<open>cel/filter.go\<close>, \<open>matchconditions\<close>, \<open>validator.go\<close>): expressions run
    within their budget, and the decisions and annotations made of their results.
  \<^item> \<open>Policy_Evaluator\<close>, \<open>Evaluator_Properties\<close> (vendored \<open>validatingadmissionpolicy/controller.go\<close>):
    the loops over policies and bindings, failure policies, actions, the denial; the verdict is what
    every policy permits, and where evaluation panics.
  \<^item> \<open>Policy_Controller\<close>, \<open>Policy_Snapshot\<close> (vendored \<open>controller_reconcile.go\<close>): the reconcilers and the
    snapshot as steps of one system; its invariant, and the snapshot as what the controller was told.
  \<^item> \<open>Policy_Composition\<close>: both together, from reconciliations to the verdict on a request.
  \<^item> \<open>Synced_Controller\<close>, \<open>Synced_Invariants\<close> (vendored \<open>internal/generic/controller.go\<close> and \<open>synctrack.go\<close>): the
    evaluator's own controllers, from the registration of their handler to its removal, with the trackers behind
    \<open>HasSynced\<close>; when it answers true, every key of the initial list has been through the reconciler.
  \<^item> \<open>Evaluator_Life\<close>, \<open>Evaluator_Startup\<close> (\<open>Run\<close> and \<open>HasSynced\<close> of the vendored \<open>controller.go\<close> and
    \<open>controller_reconcile.go\<close>): both controllers, the policy controller and the refreshing goroutine as one system;
    what every published snapshot holds, refusal outside of the run, and that the wait at startup ends.
  \<^item> \<open>Json\<close>, \<open>Policy_Types\<close>, \<open>Policy_Json\<close> (\<open>types.go\<close>): the API types and their JSON form.
  \<^item> \<open>Deep_Copy\<close> (\<open>zz_generated.deepcopy.go\<close>): every generated copy function over the heap; they do
    what the types of their structs say, and copies share no cell that either side could write.
  \<^item> \<open>Client_Types\<close>, \<open>Scheme\<close> (\<open>zz_generated.register.go\<close>, \<open>scheme/register.go\<close>, \<open>fake/register.go\<close> over
    the vendored registry): kinds and types determine each other, registration can be repeated, and
    the schemes of the clientsets know exactly the kinds of the group.
  \<^item> \<open>Rest_Request\<close>, \<open>Rest_Client\<close>, \<open>Rest_Properties\<close> (the generated clientset over the vendored request
    builder): what is sent, to which path and how often, and that a call is the step of the server behind
    it, whatever that server does with it.
  \<^item> \<open>Object_Tracker\<close>, \<open>Fake_Client\<close> (the generated fakes over the vendored tracker): the fakes are
    stores, except for \<open>DeleteCollection\<close>.
  \<^item> \<open>Transformed_Client\<close>, \<open>Injected_Client\<close>, \<open>Client_Properties\<close> (\<open>transformed_client.go\<close>,
    \<open>injected_client.go\<close>): every call converted in both directions; over the generated REST
    client the wrapped client relays any server, over the fake it is a store of native policies.
  \<^item> \<open>Informer_Factory\<close> (generated \<open>informers/externalversions\<close>): registration, start, shutdown and the
    typed informers; each informer is shared and launched once.
  \<^item> \<open>Pki\<close>, \<open>Gentls\<close> (\<open>pkg/pki\<close>, \<open>cmd/gentls\<close>): certificate templates, CA and leaf certificates, serial
    numbers; the command that writes them and its exit code.

  \<^bold>\<open>Conventions.\<close> A struct is a record with a field prefix, an interface a record of functions, an
  error a value of \<open>go_error\<close>, nil is \<open>None\<close>, a slice that may be nil a list option. Mutable state is
  passed explicitly; a goroutine is a program counter in a step relation, a critical section one step.
  A call that may panic has an \<open>outcome\<close>, in the older theories an option. Map iteration order is an
  argument. Only the deep copies are about sharing, so only they use the heap.

  \<^bold>\<open>Interfaces as locales.\<close> \<open>invariant_system\<close>, \<open>relative_invariant\<close>, \<open>measured_system\<close>, \<open>winding_system\<close>
  and \<open>settling_system\<close> (step relations with their invariants and measures, alone or in an environment), \<open>work_queue\<close> (queue and controller), \<open>object_store\<close> (indexer and
  listers), \<open>memo_table\<close> (schema cache), \<open>json_codec\<close> (every encoder with its decoder, up to the normal
  form that omitted empty values induce), \<open>conversion\<close> (the two directions of the transformed client),
  \<open>rest_kind\<close> (a typed client over requests), \<open>object_api\<close> (what a client of a store promises), with \<open>tracked_kind\<close>
  and \<open>fake_kind\<close> as the ways to provide it and \<open>converted_api\<close> as the client that is built on it, \<open>deep_copier\<close> (copies by
  type), \<open>settling_loop\<close> (registration) and \<open>recorded_reconciler\<close> (a reconciler that records what it was told,
  which both reconcilers of the evaluator are). Each is interpreted on the definitions of the program.

  \<^bold>\<open>Bounds and termination.\<close> No definition uses fuel. The polling of the plugin is over the finite
  list of ticks before its one second runs out. The scanner of the interceptor keeps Go's limit
  of 65536 bytes per line. The exponential retry delay is at most 1000 seconds, and what is too
  large is cut off before the conversion of the float to a duration, whose result for other values the language leaves
  open (\<open>duration_of_float\<close> takes the one of amd64). The loop of a request ends because attempts are bounded by ten
  retries. \<open>Run\<close> of the webhook, the goroutines of the command and the work of the
  controller have explicit measures; a server that serves for ever and a reconciler that fails for ever are executions too,
  and what is proved of their end says what ends them. Timeouts are 64-bit words.

  \<^bold>\<open>Granularity.\<close> A step is atomic where the code holds a lock or does one thing to shared state. Coarser than the
  code are: \<open>HasSynced\<close> of a tracker, which reads its upstream and its own set one after the other; \<open>Validate\<close> of the
  evaluator, which reads its context and the snapshot one after the other; and the parameter informer a policy
  starts, whose cache is one record per kind and not a live one.

  \<^bold>\<open>Parameters.\<close> Compiled CEL programs and their compiler, the CEL types of schemas, the conversion of objects
  between versions, the API server behind clients, HTTP transports and codecs, the scheme
  decoder, \<open>json.Marshal\<close> of reviews, \<open>meta.Accessor\<close>, discovery, the comparison \<open>DeepEqual\<close> of specs,
  the application of patches, the parsers of selectors, files and URLs, and the cryptographic primitives are
  arguments. Where a theorem relies on documented behaviour of one of them it is a named hypothesis with an
  instance. The API server behind the REST client is an arbitrary state machine; of it \<open>rest_server\<close> only asks that its
  replies come back in the form of the REST conventions. The plugin has its evaluator as an argument too: the model of the evaluator is a value that
  may panic, which the request path leaves to the server. The informers of the evaluator's controllers may add, update,
  delete and miss objects in any order; what they store has a name and no namespace, as the API server ensures for a
  cluster-scoped kind. The initial list is what their cache holds once they have synced and the handler
  is registered.

  \<^bold>\<open>Not modelled.\<close> Logging and flag parsing; TLS and sockets; metrics, durations and warnings of
  the REST client; conversion and defaulting functions of the scheme; the informers of policy parameters;
  the completion of partial resources by the REST mappers. What is left
  of the program's own packages are interface declarations, build pins and generated aliases.
\<close>

section \<open>The whole request path\<close>

text \<open>The verdict of the chain of validators that the command serves.\<close>

lemma main_webhook_validator:
  "wh_validator (main_webhook accessor plugin sched decoder flags)
     = multi_validator (NewMulti [plugin_validator accessor plugin sched])"
  by (simp add: main_webhook_def webhook_New_def main_validators_def)

lemma main_chain_verdict:
  "Handles (multi_validator (NewMulti [plugin_validator accessor plugin sched])) op"
  "Validate (multi_validator (NewMulti [plugin_validator accessor plugin sched])) a w
     = plugin_Validate accessor plugin sched a w"
  by (simp_all add: multi_validator_def multi_Handles_def multi_Validate_def NewMulti_def
      plugin_validator_def plugin_Handles_def split: prod.split option.split)

lemma plugin_accepts_iff:
  "fst (plugin_Validate accessor plugin sched a w) = None \<longleftrightarrow>
     isPolicyResource a \<or>
     (\<exists>v. List.find (plugin_HasSynced plugin) (moments (sched w) w) = Some v \<and>
          fst (ev_Validate (pl_evaluator plugin) a v) = None)"
proof (cases "isPolicyResource a")
  case True
  then show ?thesis by (simp add: plugin_Validate_def)
next
  case False
  then show ?thesis by (auto simp: plugin_Validate_eq split: option.splits)
qed

lemma handleWebhookValidate_200:
  assumes "handleWebhookValidate env wh req w = (Some resp, w')" and "hw_Status resp = 200"
  obtains parsed rq err where "parseRequest env req = Inr parsed" "rv_Request parsed = Some rq"
    "review_verdict env wh rq w = (Inr err, w')"
    "marshal_review env (reviewResponse (rq_UID rq) err) = Inr (hw_Body resp)"
  using assms
  by (auto simp: handleWebhookValidate_def dest: parseRequest_request
      dest!: review_verdict_error_code split: sum.splits option.splits prod.splits)

lemma review_verdict_handled:
  assumes "review_verdict env wh rq w = (Inr err, w')"
    and "Handles (wh_validator wh) (rq_Operation rq)"
  obtains old new where "decode_raw env wh (rq_Kind rq) (rq_OldObject rq) = Inr old"
    "decode_raw env wh (rq_Kind rq) (rq_Object rq) = Inr new"
    "Validate (wh_validator wh) (request_attributes rq new old) w = (err, w')"
  using assms by (auto simp: review_verdict_def split: sum.splits prod.splits)

lemma reviewResponse_allowed:
  "\<exists>r. rv_Response (reviewResponse uid err) = Some r \<and> rs_UID r = uid \<and>
       (rs_Allowed r \<longleftrightarrow> err = None)"
  by (simp add: reviewResponse_def Let_def split: prod.split)

lemma main_reply_verdict:
  assumes "handleWebhookValidate env (main_webhook accessor plugin sched decoder flags) req w
             = (Some resp, w')"
    and "hw_Status resp = 200"
  shows "\<exists>parsed rq old new review r.
    parseRequest env req = Inr parsed \<and> rv_Request parsed = Some rq \<and>
    decode_raw env (main_webhook accessor plugin sched decoder flags) (rq_Kind rq) (rq_OldObject rq)
      = Inr old \<and>
    decode_raw env (main_webhook accessor plugin sched decoder flags) (rq_Kind rq) (rq_Object rq)
      = Inr new \<and>
    marshal_review env review = Inr (hw_Body resp) \<and> rv_Response review = Some r \<and>
    rs_UID r = rq_UID rq \<and>
    (rs_Allowed r \<longleftrightarrow>
       isPolicyResource (request_attributes rq new old) \<or>
       (\<exists>v. List.find (plugin_HasSynced plugin) (moments (sched w) w) = Some v \<and>
            fst (ev_Validate (pl_evaluator plugin) (request_attributes rq new old) v) = None))"
proof -
  let ?wh = "main_webhook accessor plugin sched decoder flags"
  obtain parsed rq err where p: "parseRequest env req = Inr parsed" "rv_Request parsed = Some rq"
    and v: "review_verdict env ?wh rq w = (Inr err, w')"
    and m: "marshal_review env (reviewResponse (rq_UID rq) err) = Inr (hw_Body resp)"
    using assms by (rule handleWebhookValidate_200)
  have "Handles (wh_validator ?wh) (rq_Operation rq)"
    by (simp add: main_webhook_validator main_chain_verdict(1))
  with v obtain old new where d: "decode_raw env ?wh (rq_Kind rq) (rq_OldObject rq) = Inr old"
      "decode_raw env ?wh (rq_Kind rq) (rq_Object rq) = Inr new"
    and e: "plugin_Validate accessor plugin sched (request_attributes rq new old) w = (err, w')"
    by (rule review_verdict_handled) (simp add: main_webhook_validator main_chain_verdict(2))
  obtain r where r: "rv_Response (reviewResponse (rq_UID rq) err) = Some r" "rs_UID r = rq_UID rq"
      "rs_Allowed r \<longleftrightarrow> err = None"
    using reviewResponse_allowed by blast
  show ?thesis
    using p d m r plugin_accepts_iff [of accessor plugin sched "request_attributes rq new old" w]
    by (intro exI conjI) (assumption | simp add: e)+
qed

text \<open>
  (C3) The command never admits a request unchecked. Every 200 reply of the server that
  \<open>main\<close> puts together is the review of the request that was sent, with its UID, and it allows the
  request exactly if the request is on a policy or binding, or the policy evaluator had synced by
  the end of the polling and accepted the attributes of that request, with both objects decoded.
\<close>
theorem main_admits_only_checked_requests:
  assumes "handleWebhookValidate env (main_webhook accessor plugin sched decoder flags) req w
             = (Some resp, w')"
    and "hw_Status resp = 200"
  shows "\<exists>parsed rq old new review r.
    parseRequest env req = Inr parsed \<and> rv_Request parsed = Some rq \<and>
    decode_raw env (main_webhook accessor plugin sched decoder flags) (rq_Kind rq) (rq_OldObject rq)
      = Inr old \<and>
    decode_raw env (main_webhook accessor plugin sched decoder flags) (rq_Kind rq) (rq_Object rq)
      = Inr new \<and>
    marshal_review env review = Inr (hw_Body resp) \<and> rv_Response review = Some r \<and>
    rs_UID r = rq_UID rq \<and>
    (rs_Allowed r \<longleftrightarrow>
       isPolicyResource (request_attributes rq new old) \<or>
       (\<exists>v. List.find (plugin_HasSynced plugin) (moments (sched w) w) = Some v \<and>
            fst (ev_Validate (pl_evaluator plugin) (request_attributes rq new old) v) = None))"
  using assms by (rule main_reply_verdict)

text \<open>
  (C1) What the cluster is told to enforce is enforced. With the modelled evaluator in the plugin, in states \<open>sys\<close>
  its controllers and its refreshing goroutine can reach, and while published policies have match constraints, a 200 reply
  allows a request that is not on policies or bindings exactly if the evaluator had synced by the end of the polling and
  every policy in the snapshot published then permits the attributes of the request; and every policy of the initial list
  that is unchanged is in it.
\<close>
theorem replies_enforce_published_policies:
  assumes "DeepEqual_laws lib" and "\<forall>v. cel_reachable lib check (sys v)"
    and "runs_cel_evaluator cenv (\<lambda>v. policies_HasSynced (sys v)) (\<lambda>v. ce_definitions (sys v)) (pl_evaluator plugin)"
    and "\<forall>v pds. ce_definitions (sys v) = Some pds \<longrightarrow> constrained pds"
    and "handleWebhookValidate env (main_webhook accessor plugin sched decoder flags) req w = (Some resp, w')"
    and "hw_Status resp = 200"
  shows "\<exists>parsed rq old new review r.
    parseRequest env req = Inr parsed \<and> rv_Request parsed = Some rq \<and>
    decode_raw env (main_webhook accessor plugin sched decoder flags) (rq_Kind rq) (rq_OldObject rq) = Inr old \<and>
    decode_raw env (main_webhook accessor plugin sched decoder flags) (rq_Kind rq) (rq_Object rq) = Inr new \<and>
    marshal_review env review = Inr (hw_Body resp) \<and> rv_Response review = Some r \<and> rs_UID r = rq_UID rq \<and>
    (rs_Allowed r \<longleftrightarrow>
       isPolicyResource (request_attributes rq new old) \<or>
       (\<exists>v pds. List.find (\<lambda>v. cel_HasSynced (sys v)) (moments (sched w) w) = Some v \<and> ce_definitions (sys v) = Some pds \<and>
          (\<forall>d. startup_policy (sys v) d \<longrightarrow> (\<exists>pd \<in> set pds. enforced_policy lib (sys v) d pd)) \<and>
          (\<forall>pd \<in> set pds. policy_permits cenv (request_attributes rq new old) pd)))"
proof -
  have synced: "plugin_HasSynced plugin = (\<lambda>v. cel_HasSynced (sys v))"
    using assms(3) by (auto simp: plugin_HasSynced_def runs_cel_evaluator_def cel_HasSynced_def fun_eq_iff)
  have verdict: "fst (ev_Validate (pl_evaluator plugin) a v) = None \<longleftrightarrow>
      (\<exists>pds. ce_definitions (sys v) = Some pds \<and>
         (\<forall>d. startup_policy (sys v) d \<longrightarrow> (\<exists>pd \<in> set pds. enforced_policy lib (sys v) d pd)) \<and>
         (\<forall>pd \<in> set pds. policy_permits cenv a pd))"
    if "List.find (plugin_HasSynced plugin) (moments (sched w) w) = Some v" for a v
  proof -
    from that have "plugin_HasSynced plugin v" by (auto simp: find_Some_iff)
    then have "ev_HasSynced (pl_evaluator plugin) v" by (simp add: plugin_HasSynced_def)
    moreover from \<open>plugin_HasSynced plugin v\<close> obtain pds where pds: "ce_definitions (sys v) = Some pds"
      unfolding synced by (auto simp: cel_HasSynced_def)
    moreover have good: "good_snapshot lib (sys v) pds" by (rule published_good [OF assms(2) [rule_format] pds])
    note good_snapshot_enforces [OF assms(1) good]
      plugin_snapshot_verdict [OF assms(1,3) good assms(4) [rule_format, OF pds] _ pds, of a]
    ultimately show ?thesis by auto
  qed
  then have "(\<exists>v. List.find (plugin_HasSynced plugin) (moments (sched w) w) = Some v \<and> fst (ev_Validate (pl_evaluator plugin) a v) = None) \<longleftrightarrow>
      (\<exists>v pds. List.find (plugin_HasSynced plugin) (moments (sched w) w) = Some v \<and> ce_definitions (sys v) = Some pds \<and>
         (\<forall>d. startup_policy (sys v) d \<longrightarrow> (\<exists>pd \<in> set pds. enforced_policy lib (sys v) d pd)) \<and>
         (\<forall>pd \<in> set pds. policy_permits cenv a pd))" for a
    by blast
  from main_reply_verdict [OF assms(5,6), unfolded this] show ?thesis unfolding synced .
qed

text \<open>The evaluator syncs at the third tick and denies the request on a pod.\<close>

definition ex_denying_plugin :: "(string, nat, unit) celAdmissionPlugin" where
  "ex_denying_plugin = NewPlugin
     (\<lambda>_. \<lparr>ev_HasSynced = (\<lambda>w. 3 \<le> w), ev_Run = id,
           ev_Validate = (\<lambda>a w. (Some (Plain ''denied''), w))\<rparr>) ()"

definition ex_main_webhook :: "(string, nat) webhook" where
  "ex_main_webhook = main_webhook (\<lambda>_. None) ex_denying_plugin ex_sched
     (\<lambda>raw. (Some raw, Some \<lparr>gvk_Group = [], gvk_Version = ''v1'', gvk_Kind = ''Pod''\<rparr>, None))
     default_flags"

theorem main_admits_only_checked_requests_witness:
  "\<exists>review r. marshal_review ex_codecs review = Inr ''no'' \<and> rv_Response review = Some r \<and>
     rs_UID r = ''uid-1'' \<and> \<not> rs_Allowed r"
proof -
  have run: "handleWebhookValidate ex_codecs ex_main_webhook ex_http 0 =
     (Some \<lparr>hw_Status = 200, hw_Header = [''Content-Type'' \<mapsto> ''application/json''],
            hw_Body = ''no''\<rparr>, 3)"
    by (simp add: ex_main_webhook_def main_webhook_def main_validators_def multi_validator_def
        multi_Handles_def multi_Validate_def NewMulti_def plugin_validator_def plugin_Handles_def
        plugin_Validate_def isPolicyResource_def request_attributes_def NewAttributesRecord_def
        PollImmediateWithContext_def poll_def ex_sched_def plugin_HasSynced_def NewPlugin_def
        ex_denying_plugin_def err_simps ex_webhook_defs)
  have rq: "rq = ex_rq" if "parseRequest ex_codecs ex_http = Inr parsed" "rv_Request parsed = Some rq"
    for parsed rq
    using that by (auto simp: parseRequest_def ex_http_def Header_Get_def ex_codecs_def ex_review_def)
  have pods: "\<not> isPolicyResource (request_attributes ex_rq new old)"
    "fst (ev_Validate (pl_evaluator ex_denying_plugin) (request_attributes ex_rq new old) v) \<noteq> None"
    for new old :: "string option" and v
    by (simp_all add: isPolicyResource_def request_attributes_def NewAttributesRecord_def ex_rq_def
        ex_denying_plugin_def NewPlugin_def)
  from main_admits_only_checked_requests [OF run [unfolded ex_main_webhook_def]]
  obtain parsed rq old new review r where
      p: "parseRequest ex_codecs ex_http = Inr parsed" "rv_Request parsed = Some rq" and
      r: "marshal_review ex_codecs review = Inr ''no''" "rv_Response review = Some r"
      "rs_UID r = rq_UID rq"
      "rs_Allowed r \<longleftrightarrow> isPolicyResource (request_attributes rq new old) \<or>
        (\<exists>v. List.find (plugin_HasSynced ex_denying_plugin) (moments (ex_sched 0) 0) = Some v \<and>
          fst (ev_Validate (pl_evaluator ex_denying_plugin) (request_attributes rq new old) v) = None)"
    by (simp only: http_response.simps simp_thms) blast
  from r pods have "rs_UID r = ''uid-1'' \<and> \<not> rs_Allowed r"
    unfolding rq [OF p] by (simp add: ex_rq_def [THEN arg_cong, of rq_UID])
  with r show ?thesis by blast
qed

text \<open>
  The evaluator publishes, at the third tick, the snapshot of a policy on deployments, so the request on a
  pod is held to it.
\<close>

definition ex_cel_evaluator :: "(str_map, nat) evaluator" where
  "ex_cel_evaluator =
     \<lparr>ev_HasSynced = (\<lambda>w. 3 \<le> w), ev_Run = id,
      ev_Validate = (\<lambda>a w. (case evaluator_Validate ex_eval_env (3 \<le> w) comp_pds a of
         Some (r, st) \<Rightarrow> r | None \<Rightarrow> Some (Plain ''http: panic serving''), w))\<rparr>"

definition ex_cel_codecs :: "str_map codecs" where
  "ex_cel_codecs = \<lparr>unmarshal_review = unmarshal_review ex_codecs, marshal_review = marshal_review ex_codecs,
     unmarshal_unstructured = (\<lambda>b. Inr None), IsNotRegisteredError = (\<lambda>e. False)\<rparr>"

definition ex_cel_webhook :: "(str_map, nat) webhook" where
  "ex_cel_webhook = main_webhook (\<lambda>_. None) (NewPlugin (\<lambda>_. ex_cel_evaluator) ()) ex_sched
     (\<lambda>raw. (Some None, Some \<lparr>gvk_Group = [], gvk_Version = ''v1'', gvk_Kind = ''Pod''\<rparr>, None))
     default_flags"

theorem replies_enforce_published_policies_witness:
  "\<exists>resp w' rq old new (r :: admission_response). handleWebhookValidate ex_cel_codecs ex_cel_webhook ex_http 0 = (Some resp, w') \<and>
     rv_Request ex_review = Some rq \<and> rs_UID r = rq_UID rq \<and>
     (rs_Allowed r \<longleftrightarrow> isPolicyResource (request_attributes rq new old) \<or>
        (\<forall>pd \<in> set comp_pds. policy_permits ex_eval_env (request_attributes rq new old) pd))"
proof -
  obtain c where c: "cel_reachable comp_lib None (comp_synced c)" using comp_synced_reachable by blast
  define sys where "sys v = (if (3::nat) \<le> v then comp_synced c else NewAdmissionController True True)" for v
  have "cel_reachable comp_lib None (NewAdmissionController True True)"
    by (rule reach_start) (auto simp: cel_starts_def)
  with c have reachable: "\<forall>v. cel_reachable comp_lib None (sys v)" by (simp add: sys_def)
  have synced: "cel_HasSynced (sys v) \<longleftrightarrow> 3 \<le> v" "ce_definitions (sys v) = (if 3 \<le> v then Some comp_pds else None)" for v
    by (simp_all add: sys_def comp_synced_facts) (simp_all add: NewAdmissionController_def cel_HasSynced_def)
  then have run: "runs_cel_evaluator ex_eval_env (\<lambda>v. policies_HasSynced (sys v)) (\<lambda>v. ce_definitions (sys v))
      (pl_evaluator (NewPlugin (\<lambda>_. ex_cel_evaluator) ()))"
    by (auto simp: runs_cel_evaluator_def ex_cel_evaluator_def NewPlugin_def cel_HasSynced_def)
  have reply: "\<exists>resp w'. handleWebhookValidate ex_cel_codecs ex_cel_webhook ex_http 0 = (Some resp, w') \<and> hw_Status resp = 200"
    by (simp add: ex_cel_webhook_def main_webhook_def main_validators_def multi_validator_def
        multi_Handles_def multi_Validate_def NewMulti_def plugin_validator_def plugin_Handles_def
        plugin_Validate_def isPolicyResource_def request_attributes_def NewAttributesRecord_def
        PollImmediateWithContext_def poll_def ex_sched_def plugin_HasSynced_def NewPlugin_def
        ex_cel_evaluator_def err_simps ex_cel_codecs_def ex_webhook_defs split: option.split prod.split)
  then obtain resp w' where R: "handleWebhookValidate ex_cel_codecs ex_cel_webhook ex_http 0 = (Some resp, w')"
    "hw_Status resp = 200" by blast
  have find: "List.find (\<lambda>v. cel_HasSynced (sys v)) (moments (ex_sched 0) 0) = Some 3"
    by (simp add: moments_def ex_sched_def synced)
  have "\<forall>v pds. ce_definitions (sys v) = Some pds \<longrightarrow> constrained pds" using comp_constrained by (simp add: synced)
  from replies_enforce_published_policies [OF comp_laws reachable run this R(1) [unfolded ex_cel_webhook_def] R(2)]
  obtain parsed rq old new and r :: admission_response where p: "parseRequest ex_cel_codecs ex_http = Inr parsed" "rv_Request parsed = Some rq"
    and r: "rs_UID r = rq_UID rq" "rs_Allowed r \<longleftrightarrow> isPolicyResource (request_attributes rq new old) \<or>
       (\<exists>v pds. List.find (\<lambda>v. cel_HasSynced (sys v)) (moments (ex_sched 0) 0) = Some v \<and> ce_definitions (sys v) = Some pds \<and>
          (\<forall>d. startup_policy (sys v) d \<longrightarrow> (\<exists>pd \<in> set pds. enforced_policy comp_lib (sys v) d pd)) \<and>
          (\<forall>pd \<in> set pds. policy_permits ex_eval_env (request_attributes rq new old) pd))"
    by blast
  have enforced: "\<forall>d. startup_policy (sys 3) d \<longrightarrow> (\<exists>pd \<in> set comp_pds. enforced_policy comp_lib (sys 3) d pd)"
    using good_snapshot_enforces [OF comp_laws published_good [OF c comp_synced_facts(2)]] by (simp add: sys_def)
  from p have "rv_Request ex_review = Some rq"
    by (auto simp: parseRequest_def ex_http_def Header_Get_def ex_cel_codecs_def ex_codecs_def ex_review_def)
  moreover have "rs_Allowed r \<longleftrightarrow> isPolicyResource (request_attributes rq new old) \<or>
      (\<forall>pd \<in> set comp_pds. policy_permits ex_eval_env (request_attributes rq new old) pd)"
    using r(2) enforced unfolding find by (simp add: synced)
  ultimately show ?thesis using R(1) r(1) by blast
qed

end
